(* ===== verification/Prelude.thy ===== *)
theory Prelude
  imports
    Main
    "HOL-Library.Char_ord"
    "HOL-Library.List_Lexorder"
    "HOL-Library.Product_Lexorder"
begin

text \<open>
  Shared ground of the development: identifiers and timestamps, the error values of the
  store, transactions as state transformers with errors, the SQL statement forms over a
  table (select, update, insert, delete) and the collections of rewrite rules that carry
  the component proofs.
\<close>

section \<open>Identifiers, time and errors\<close>

text \<open>
  Identifiers are uuid columns read as text; timestamps are timestamptz columns, whole
  microseconds. Both sort in PostgreSQL as they do here (canonical uuid text sorts as its
  bytes do).
\<close>

type_synonym id = string
type_synonym time = int

text \<open>Go's zero \<open>time.Time\<close> (midnight, January 1, year 1), counted from the Unix epoch.\<close>

definition zero_time :: time where
  "zero_time = -62135596800000000"

text \<open>
  What PostgreSQL and its driver report: no row for a single-row read, or a violated
  constraint by SQLSTATE class. Other driver failures (lost connections, cancelled
  contexts) are outside the model.
\<close>

datatype pg_error =
    NoRows               \<comment> \<open>pgx.ErrNoRows\<close>
  | UniqueViolation      \<comment> \<open>23505\<close>
  | NotNullViolation     \<comment> \<open>23502\<close>
  | ForeignKeyViolation  \<comment> \<open>23503\<close>
  | CheckViolation       \<comment> \<open>23514\<close>
  | NumericOutOfRange    \<comment> \<open>22003\<close>
  | FailedTransaction    \<comment> \<open>25P02, every statement after an error inside a transaction\<close>

datatype store_error =
    ErrNotFound
  | ErrConflict
  | ErrInvalidArgument
  | ErrIssueStatusRecoverySuperseded
  | ErrLastProjectAdmin
  | ErrGroupMemberNotFound
  | PgError pg_error     \<comment> \<open>a driver error returned as it came\<close>
  | ErrJSON              \<comment> \<open>an encoding/json error returned as it came\<close>

text \<open>The function \<open>notFound\<close> of postgres.go: what a wrapped driver error becomes.\<close>

fun notFound :: "pg_error \<Rightarrow> store_error" where
  "notFound NoRows = ErrNotFound"
| "notFound UniqueViolation = ErrConflict"
| "notFound NotNullViolation = ErrInvalidArgument"
| "notFound ForeignKeyViolation = ErrInvalidArgument"
| "notFound CheckViolation = ErrInvalidArgument"
| "notFound NumericOutOfRange = PgError NumericOutOfRange"
| "notFound FailedTransaction = PgError FailedTransaction"

section \<open>Transactions\<close>

text \<open>
  A transaction body reads and writes the state and ends in a value or an error. An error
  keeps the state reached so far, because Go code may inspect an error and go on inside
  the same transaction; \<open>tx_commit\<close> is the transaction bracket: Begin, the body, Commit
  on success and the deferred Rollback on error.
\<close>

type_synonym ('s, 'a) tx = "'s \<Rightarrow> (store_error + 'a) \<times> 's"

named_theorems tx_simps "evaluation and inversion of transaction bodies"

definition tx_return :: "'a \<Rightarrow> ('s, 'a) tx" where
  "tx_return x = (\<lambda>s. (Inr x, s))"

definition tx_fail :: "store_error \<Rightarrow> ('s, 'a) tx" where
  "tx_fail e = (\<lambda>s. (Inl e, s))"

definition tx_bind :: "('s, 'a) tx \<Rightarrow> ('a \<Rightarrow> ('s, 'b) tx) \<Rightarrow> ('s, 'b) tx" where
  "tx_bind m f = (\<lambda>s. case m s of (Inl e, s') \<Rightarrow> (Inl e, s') | (Inr x, s') \<Rightarrow> f x s')"

definition tx_get :: "('s \<Rightarrow> 'a) \<Rightarrow> ('s, 'a) tx" where
  "tx_get f = (\<lambda>s. (Inr (f s), s))"

definition tx_modify :: "('s \<Rightarrow> 's) \<Rightarrow> ('s, unit) tx" where
  "tx_modify f = (\<lambda>s. (Inr (), f s))"

definition tx_guard :: "bool \<Rightarrow> store_error \<Rightarrow> ('s, unit) tx" where
  "tx_guard b e = (if b then tx_return () else tx_fail e)"

definition tx_when :: "bool \<Rightarrow> ('s, unit) tx \<Rightarrow> ('s, unit) tx" where
  "tx_when b m = (if b then m else tx_return ())"

text \<open>A value or a typed failure, from a look-up.\<close>

definition tx_option :: "store_error \<Rightarrow> 'a option \<Rightarrow> ('s, 'a) tx" where
  "tx_option e v = (case v of None \<Rightarrow> tx_fail e | Some x \<Rightarrow> tx_return x)"

text \<open>Go code that looks at the error of a call and continues in the same transaction.\<close>

definition tx_try :: "('s, 'a) tx \<Rightarrow> ('s, store_error + 'a) tx" where
  "tx_try m = (\<lambda>s. case m s of (r, s') \<Rightarrow> (Inr r, s'))"

text \<open>
  A group of statements and what its caller sees of their errors. A violation of a constraint puts the transaction of
  PostgreSQL into a failed state. A caller that returns sees the translated error (\<open>as_is\<close>); a caller that goes on
  after some errors meets the error of its next statement instead: after UNIQUE violations (\<open>conflict_aborts\<close>), or after
  any violation that \<open>notFound\<close> translates (\<open>violation_aborts\<close>).
\<close>

definition tx_map_error :: "(store_error \<Rightarrow> store_error) \<Rightarrow> ('s, 'a) tx \<Rightarrow> ('s, 'a) tx" where
  "tx_map_error f m = (\<lambda>s. case m s of (Inl e, s') \<Rightarrow> (Inl (f e), s') | (Inr x, s') \<Rightarrow> (Inr x, s'))"

definition as_is :: "store_error \<Rightarrow> store_error" where
  "as_is e = e"

definition conflict_aborts :: "store_error \<Rightarrow> store_error" where
  "conflict_aborts e = (if e = ErrConflict then PgError FailedTransaction else e)"

definition violation_aborts :: "store_error \<Rightarrow> store_error" where
  "violation_aborts e = (if e = ErrConflict \<or> e = ErrInvalidArgument then PgError FailedTransaction else e)"

fun tx_map :: "('a \<Rightarrow> ('s, 'b) tx) \<Rightarrow> 'a list \<Rightarrow> ('s, 'b list) tx" where
  "tx_map f [] = tx_return []"
| "tx_map f (x # xs) =
     tx_bind (f x) (\<lambda>y. tx_bind (tx_map f xs) (\<lambda>ys. tx_return (y # ys)))"

definition tx_commit :: "('s, 'a) tx \<Rightarrow> 's \<Rightarrow> (store_error + 'a) \<times> 's" where
  "tx_commit m s = (case m s of (Inl e, _) \<Rightarrow> (Inl e, s) | (Inr x, s') \<Rightarrow> (Inr x, s'))"

subsection \<open>Inversion\<close>

lemma tx_return_eq [tx_simps]: "tx_return x s = (r, s') \<longleftrightarrow> r = Inr x \<and> s' = s"
  by (auto simp: tx_return_def)

lemma tx_fail_eq [tx_simps]: "tx_fail e s = (r, s') \<longleftrightarrow> r = Inl e \<and> s' = s"
  by (auto simp: tx_fail_def)

lemma tx_get_eq [tx_simps]: "tx_get f s = (r, s') \<longleftrightarrow> r = Inr (f s) \<and> s' = s"
  by (auto simp: tx_get_def)

lemma tx_modify_eq [tx_simps]: "tx_modify f s = (r, s') \<longleftrightarrow> r = Inr () \<and> s' = f s"
  by (auto simp: tx_modify_def)

lemma tx_bind_Inr [tx_simps]:
  "tx_bind m f s = (Inr y, s'') \<longleftrightarrow> (\<exists>x s'. m s = (Inr x, s') \<and> f x s' = (Inr y, s''))"
  by (auto simp: tx_bind_def split: prod.splits sum.splits)

lemma tx_bind_Inl:
  "tx_bind m f s = (Inl e, s'') \<longleftrightarrow>
     m s = (Inl e, s'') \<or> (\<exists>x s'. m s = (Inr x, s') \<and> f x s' = (Inl e, s''))"
  by (auto simp: tx_bind_def split: prod.splits sum.splits)

lemma tx_guard_Inr [tx_simps]: "tx_guard b e s = (Inr u, s') \<longleftrightarrow> b \<and> s' = s"
  by (auto simp: tx_guard_def tx_simps)

lemma tx_guard_Inl [tx_simps]: "tx_guard b e s = (Inl e', s') \<longleftrightarrow> \<not> b \<and> e' = e \<and> s' = s"
  by (auto simp: tx_guard_def tx_simps)

lemma tx_when_Inr [tx_simps]:
  "tx_when b m s = (Inr u, s') \<longleftrightarrow> (if b then m s = (Inr u, s') else s' = s)"
  by (auto simp: tx_when_def tx_simps)

lemma tx_option_Inr [tx_simps]: "tx_option e opt s = (Inr x, s') \<longleftrightarrow> opt = Some x \<and> s' = s"
  by (auto simp: tx_option_def tx_simps split: option.splits)

lemma tx_option_Inl [tx_simps]:
  "tx_option e opt s = (Inl e', s') \<longleftrightarrow> opt = None \<and> e' = e \<and> s' = s"
  by (auto simp: tx_option_def tx_simps split: option.splits)

lemma tx_try_eq [tx_simps]:
  "tx_try m s = (r, s') \<longleftrightarrow> (\<exists>q. m s = (q, s') \<and> r = Inr q)"
  by (auto simp: tx_try_def split: prod.splits)

lemma tx_map_error_Inr [tx_simps]: "tx_map_error f m s = (Inr x, s') \<longleftrightarrow> m s = (Inr x, s')"
  by (auto simp: tx_map_error_def split: prod.splits sum.splits)

lemma tx_map_error_as_is [simp]: "tx_map_error as_is m = m"
  by (auto simp: tx_map_error_def as_is_def fun_eq_iff split: prod.splits sum.splits)

lemma tx_map_Nil_eq [tx_simps]: "tx_map f [] s = (r, s') \<longleftrightarrow> r = Inr [] \<and> s' = s"
  by (auto simp: tx_simps)

subsection \<open>Sequencing\<close>

lemma tx_bind_assoc: "tx_bind (tx_bind m f) g = tx_bind m (\<lambda>x. tx_bind (f x) g)"
  by (rule ext) (auto simp: tx_bind_def split: prod.splits sum.splits)

lemma tx_bind_return: "tx_bind (tx_return x) f = f x"
  by (rule ext) (simp add: tx_bind_def tx_return_def)

subsection \<open>The transaction bracket\<close>

lemma tx_commit_Inr [tx_simps]: "tx_commit m s = (Inr x, s') \<longleftrightarrow> m s = (Inr x, s')"
  by (auto simp: tx_commit_def split: prod.splits sum.splits)

lemma tx_commit_Inl:
  "tx_commit m s = (Inl e, s') \<longleftrightarrow> s' = s \<and> (\<exists>s''. m s = (Inl e, s''))"
  by (auto simp: tx_commit_def split: prod.splits sum.splits)

text \<open>Atomicity: a failed transaction leaves the database as it was.\<close>

lemma tx_commit_rollback: "tx_commit m s = (Inl e, s') \<Longrightarrow> s' = s"
  by (simp add: tx_commit_Inl)

lemma tx_commit_cases [consumes 1, case_names error success]:
  assumes "tx_commit m s = (r, s')"
  obtains e where "r = Inl e" "s' = s"
    | x where "r = Inr x" "m s = (Inr x, s')"
  using assms by (auto simp: tx_commit_def split: prod.splits sum.splits)

section \<open>Rows\<close>

text \<open>
  A table is the list of its rows in insertion order. The single-row statements read the
  first matching row; their conditions name a primary key or a unique column, so at most
  one row matches in a database that satisfies its constraints.
\<close>

definition update_rows :: "('r \<Rightarrow> bool) \<Rightarrow> ('r \<Rightarrow> 'r) \<Rightarrow> 'r list \<Rightarrow> 'r list" where
  "update_rows p f rows = map (\<lambda>r. if p r then f r else r) rows"

definition exists_row :: "('r \<Rightarrow> bool) \<Rightarrow> 'r list \<Rightarrow> bool" where
  "exists_row p rows = list_ex p rows"

definition count_rows :: "('r \<Rightarrow> bool) \<Rightarrow> 'r list \<Rightarrow> nat" where
  "count_rows p rows = length (filter p rows)"

text \<open>\<open>ORDER BY key LIMIT 1\<close>: the first row with the least key.\<close>

definition first_by :: "('r \<Rightarrow> 'k::linorder) \<Rightarrow> 'r list \<Rightarrow> 'r option" where
  "first_by key rows = (if rows = [] then None else Some (arg_min_list key rows))"

lemma exists_row_iff [simp]: "exists_row p rows \<longleftrightarrow> (\<exists>r\<in>set rows. p r)"
  by (simp add: exists_row_def list_ex_iff)

lemma set_update_rows: "set (update_rows p f rows) = (\<lambda>r. if p r then f r else r) ` set rows"
  by (simp add: update_rows_def)

lemma length_update_rows [simp]: "length (update_rows p f rows) = length rows"
  by (simp add: update_rows_def)

lemma update_rows_Nil [simp]: "update_rows p f [] = []"
  by (simp add: update_rows_def)

lemma in_update_rows:
  "r' \<in> set (update_rows p f rows) \<longleftrightarrow>
     (\<exists>r\<in>set rows. (p r \<and> r' = f r) \<or> (\<not> p r \<and> r' = r))"
  by (auto simp: set_update_rows image_iff)

lemma map_update_rows:
  "(\<And>r. r \<in> set rows \<Longrightarrow> p r \<Longrightarrow> g (f r) = g r) \<Longrightarrow> map g (update_rows p f rows) = map g rows"
  by (auto simp: update_rows_def)

lemma update_rows_no_match: "(\<And>r. r \<in> set rows \<Longrightarrow> \<not> p r) \<Longrightarrow> update_rows p f rows = rows"
  by (auto simp: update_rows_def map_idI)

lemma unmatched_row: "r \<in> set rows \<Longrightarrow> \<not> p r \<Longrightarrow> r \<in> set (update_rows p f rows)"
  by (auto simp: in_update_rows)

lemma matched_row: "r \<in> set rows \<Longrightarrow> p r \<Longrightarrow> f r \<in> set (update_rows p f rows)"
  by (auto simp: in_update_rows)

lemma bex_update_rows:
  "(\<And>r. q (f r) = q r) \<Longrightarrow> (\<exists>r\<in>set (update_rows p f rows). q r) \<longleftrightarrow> (\<exists>r\<in>set rows. q r)"
  by (induction rows) (auto simp: update_rows_def)

lemma find_update_rows:
  assumes "List.find q rows = Some r" "p r" "\<And>x. q (f x) = q x"
  shows "List.find q (update_rows p f rows) = Some (f r)"
  using assms by (induction rows) (auto simp: update_rows_def split: if_splits)

lemma find_update_rows_None:
  assumes "\<And>x. q (f x) = q x"
  shows "List.find q (update_rows p f rows) = None \<longleftrightarrow> List.find q rows = None"
  using assms by (induction rows) (auto simp: update_rows_def)

lemma find_refine:
  "List.find p rows = Some r \<Longrightarrow> q r \<Longrightarrow> List.find (\<lambda>x. p x \<and> q x) rows = Some r"
  by (induction rows) (auto split: if_splits)

lemma find_snoc: "\<forall>r\<in>set rows. \<not> p r \<Longrightarrow> List.find p (rows @ rows') = List.find p rows'"
  by (induction rows) auto

lemma first_by_None [simp]: "first_by key rows = None \<longleftrightarrow> rows = []"
  by (simp add: first_by_def)

lemma first_by_in: "first_by key rows = Some r \<Longrightarrow> r \<in> set rows"
  by (auto simp: first_by_def arg_min_list_in split: if_splits)

lemma first_by_least: "first_by key rows = Some r \<Longrightarrow> q \<in> set rows \<Longrightarrow> key r \<le> key q"
  by (auto simp: first_by_def f_arg_min_list_f split: if_splits)

lemma find_Some_in: "List.find p rows = Some r \<Longrightarrow> r \<in> set rows \<and> p r"
  by (auto simp: find_Some_iff)

lemma find_None_all: "List.find p rows = None \<Longrightarrow> r \<in> set rows \<Longrightarrow> \<not> p r"
  by (auto simp: find_None_iff)

lemma count_rows_update_other:
  "(\<And>r. r \<in> set rows \<Longrightarrow> q r \<Longrightarrow> p (f r) = p r) \<Longrightarrow>
     count_rows p (update_rows q f rows) = count_rows p rows"
  by (induction rows) (auto simp: count_rows_def update_rows_def)

lemma count_rows_filter_le: "count_rows p (filter q rows) \<le> count_rows p rows"
  by (induction rows) (auto simp: count_rows_def)

lemma count_rows_append [simp]:
  "count_rows p (xs @ ys) = count_rows p xs + count_rows p ys"
  by (simp add: count_rows_def)

lemma count_rows_Cons [simp]:
  "count_rows p (x # xs) = (if p x then Suc (count_rows p xs) else count_rows p xs)"
  by (simp add: count_rows_def)

lemma count_rows_Nil [simp]: "count_rows p [] = 0"
  by (simp add: count_rows_def)

lemma count_rows_0_iff: "count_rows p rows = 0 \<longleftrightarrow> (\<forall>r\<in>set rows. \<not> p r)"
  by (simp add: count_rows_def filter_empty_conv)

text \<open>Keys: two rows of a keyed table with the same key are the same row.\<close>

lemma distinct_key_eq:
  "distinct (map key rows) \<Longrightarrow> r \<in> set rows \<Longrightarrow> q \<in> set rows \<Longrightarrow> key r = key q \<Longrightarrow> r = q"
  by (induction rows) (auto simp: image_iff)

lemma distinct_map_filter_rows: "distinct (map key rows) \<Longrightarrow> distinct (map key (filter p rows))"
  by (induction rows) auto

section \<open>SQL statements\<close>

text \<open>
  The statement forms, for a table given by its reader and its updater in the state.
  Conditions and assignments see the whole state: they may join other tables and they read
  the transaction's \<open>now()\<close>.
\<close>

text \<open>A single-row \<open>SELECT\<close> scanned through \<open>notFound\<close>.\<close>

definition sql_find :: "('s \<Rightarrow> 'r list) \<Rightarrow> ('s \<Rightarrow> 'r \<Rightarrow> bool) \<Rightarrow> ('s, 'r) tx" where
  "sql_find rows p = (\<lambda>s. tx_option ErrNotFound (List.find (p s) (rows s)) s)"

text \<open>A single-row \<open>SELECT ... ORDER BY key LIMIT 1\<close> scanned through \<open>notFound\<close>.\<close>

definition sql_first ::
  "('s \<Rightarrow> 'r list) \<Rightarrow> ('s \<Rightarrow> 'r \<Rightarrow> bool) \<Rightarrow> ('r \<Rightarrow> 'k::linorder) \<Rightarrow> ('s, 'r) tx" where
  "sql_first rows p key = (\<lambda>s. tx_option ErrNotFound (first_by key (filter (p s) (rows s))) s)"

text \<open>\<open>SELECT EXISTS (...)\<close>.\<close>

definition sql_exists :: "('s \<Rightarrow> 'r list) \<Rightarrow> ('s \<Rightarrow> 'r \<Rightarrow> bool) \<Rightarrow> ('s, bool) tx" where
  "sql_exists rows p = tx_get (\<lambda>s. exists_row (p s) (rows s))"

text \<open>\<open>UPDATE\<close>, answering the number of affected rows.\<close>

definition sql_update ::
  "('s \<Rightarrow> 'r list) \<Rightarrow> (('r list \<Rightarrow> 'r list) \<Rightarrow> 's \<Rightarrow> 's) \<Rightarrow>
   ('s \<Rightarrow> 'r \<Rightarrow> bool) \<Rightarrow> ('s \<Rightarrow> 'r \<Rightarrow> 'r) \<Rightarrow> ('s, nat) tx" where
  "sql_update rows upd p f =
     (\<lambda>s. (Inr (count_rows (p s) (rows s)), upd (update_rows (p s) (f s)) s))"

text \<open>\<open>UPDATE ... RETURNING\<close>, scanned through \<open>notFound\<close>: the updated row, or no row.\<close>

definition sql_update_row ::
  "('s \<Rightarrow> 'r list) \<Rightarrow> (('r list \<Rightarrow> 'r list) \<Rightarrow> 's \<Rightarrow> 's) \<Rightarrow>
   ('s \<Rightarrow> 'r \<Rightarrow> bool) \<Rightarrow> ('s \<Rightarrow> 'r \<Rightarrow> 'r) \<Rightarrow> ('s, 'r) tx" where
  "sql_update_row rows upd p f =
     (\<lambda>s. case List.find (p s) (rows s) of
            None \<Rightarrow> (Inl ErrNotFound, s)
          | Some r \<Rightarrow> (Inr (f s r), upd (update_rows (p s) (f s)) s))"

text \<open>\<open>DELETE\<close>, answering the number of affected rows.\<close>

definition sql_delete ::
  "('s \<Rightarrow> 'r list) \<Rightarrow> (('r list \<Rightarrow> 'r list) \<Rightarrow> 's \<Rightarrow> 's) \<Rightarrow>
   ('s \<Rightarrow> 'r \<Rightarrow> bool) \<Rightarrow> ('s, nat) tx" where
  "sql_delete rows upd p =
     (\<lambda>s. (Inr (count_rows (p s) (rows s)), upd (filter (\<lambda>r. \<not> p s r)) s))"

text \<open>
  \<open>INSERT\<close>: \<open>uq\<close> says that two rows clash on a unique key, \<open>ok\<close> gives the first
  violated check or foreign key, and \<open>err\<close> is how the caller turns a driver error into
  its own (\<open>notFound\<close> for a scanned row, \<open>PgError\<close> for a bare Exec).
\<close>

definition sql_insert ::
  "('s \<Rightarrow> 'r list) \<Rightarrow> (('r list \<Rightarrow> 'r list) \<Rightarrow> 's \<Rightarrow> 's) \<Rightarrow> ('r \<Rightarrow> 'r \<Rightarrow> bool) \<Rightarrow>
   ('s \<Rightarrow> 'r \<Rightarrow> pg_error option) \<Rightarrow> (pg_error \<Rightarrow> store_error) \<Rightarrow> 'r \<Rightarrow> ('s, 'r) tx" where
  "sql_insert rows upd uq ok err row =
     (\<lambda>s. case ok s row of
            Some v \<Rightarrow> (Inl (err v), s)
          | None \<Rightarrow>
              (if exists_row (\<lambda>r. uq r row) (rows s) then (Inl (err UniqueViolation), s)
               else (Inr row, upd (\<lambda>rs. rs @ [row]) s)))"

text \<open>
  \<open>INSERT ... ON CONFLICT (key) DO NOTHING\<close>: no row when a row clashes on the named key,
  otherwise as an insert.
\<close>

definition sql_insert_unless ::
  "('s \<Rightarrow> 'r list) \<Rightarrow> (('r list \<Rightarrow> 'r list) \<Rightarrow> 's \<Rightarrow> 's) \<Rightarrow> ('r \<Rightarrow> 'r \<Rightarrow> bool) \<Rightarrow> ('r \<Rightarrow> 'r \<Rightarrow> bool) \<Rightarrow>
   ('s \<Rightarrow> 'r \<Rightarrow> pg_error option) \<Rightarrow> (pg_error \<Rightarrow> store_error) \<Rightarrow> 'r \<Rightarrow> ('s, 'r option) tx" where
  "sql_insert_unless rows upd conflict uq ok err row =
     (\<lambda>s. if ok s row = None \<and> exists_row (\<lambda>r. conflict r row) (rows s) then (Inr None, s)
          else tx_bind (sql_insert rows upd uq ok err row) (\<lambda>r. tx_return (Some r)) s)"

lemma sql_find_Inr [tx_simps]:
  "sql_find rows p s = (Inr r, s') \<longleftrightarrow> List.find (p s) (rows s) = Some r \<and> s' = s"
  by (auto simp: sql_find_def tx_simps)

lemma sql_find_Inl [tx_simps]:
  "sql_find rows p s = (Inl e, s') \<longleftrightarrow>
     e = ErrNotFound \<and> List.find (p s) (rows s) = None \<and> s' = s"
  by (auto simp: sql_find_def tx_simps)

lemma sql_first_Inr [tx_simps]:
  "sql_first rows p key s = (Inr r, s') \<longleftrightarrow>
     first_by key (filter (p s) (rows s)) = Some r \<and> s' = s"
  by (auto simp: sql_first_def tx_simps)

lemma sql_first_Inl [tx_simps]:
  "sql_first rows p key s = (Inl e, s') \<longleftrightarrow>
     e = ErrNotFound \<and> filter (p s) (rows s) = [] \<and> s' = s"
  by (auto simp: sql_first_def tx_simps)

lemma sql_exists_eq [tx_simps]:
  "sql_exists rows p s = (r, s') \<longleftrightarrow> r = Inr (\<exists>x\<in>set (rows s). p s x) \<and> s' = s"
  by (auto simp: sql_exists_def tx_simps)

lemma sql_update_eq [tx_simps]:
  "sql_update rows upd p f s = (r, s') \<longleftrightarrow>
     r = Inr (count_rows (p s) (rows s)) \<and> s' = upd (update_rows (p s) (f s)) s"
  by (auto simp: sql_update_def)

lemma sql_update_row_Inr [tx_simps]:
  "sql_update_row rows upd p f s = (Inr x, s') \<longleftrightarrow>
     (\<exists>r. List.find (p s) (rows s) = Some r \<and> x = f s r \<and> s' = upd (update_rows (p s) (f s)) s)"
  by (auto simp: sql_update_row_def split: option.splits)

lemma sql_update_row_Inl [tx_simps]:
  "sql_update_row rows upd p f s = (Inl e, s') \<longleftrightarrow>
     e = ErrNotFound \<and> List.find (p s) (rows s) = None \<and> s' = s"
  by (auto simp: sql_update_row_def split: option.splits)

lemma sql_delete_eq [tx_simps]:
  "sql_delete rows upd p s = (r, s') \<longleftrightarrow>
     r = Inr (count_rows (p s) (rows s)) \<and> s' = upd (filter (\<lambda>x. \<not> p s x)) s"
  by (auto simp: sql_delete_def)

lemma sql_insert_Inr [tx_simps]:
  "sql_insert rows upd uq ok err row s = (Inr x, s') \<longleftrightarrow>
     ok s row = None \<and> (\<forall>r\<in>set (rows s). \<not> uq r row) \<and> x = row \<and> s' = upd (\<lambda>rs. rs @ [row]) s"
  by (auto simp: sql_insert_def split: option.splits)

lemma sql_insert_Inl:
  "sql_insert rows upd uq ok err row s = (Inl e, s') \<longleftrightarrow>
     s' = s \<and>
     ((\<exists>v. ok s row = Some v \<and> e = err v) \<or>
      (ok s row = None \<and> (\<exists>r\<in>set (rows s). uq r row) \<and> e = err UniqueViolation))"
  by (auto simp: sql_insert_def split: option.splits)

lemma sql_insert_unless_Inr [tx_simps]:
  "sql_insert_unless rows upd conflict uq ok err row s = (Inr x, s') \<longleftrightarrow>
     ok s row = None \<and>
     (if \<exists>r\<in>set (rows s). conflict r row then x = None \<and> s' = s
      else (\<forall>r\<in>set (rows s). \<not> uq r row) \<and> x = Some row \<and> s' = upd (\<lambda>rs. rs @ [row]) s)"
  by (auto simp: sql_insert_unless_def tx_simps)

subsection \<open>Keyed tables\<close>

text \<open>
  What the statements promise about one table of the state: a reader and an updater that
  fit together, and a key. Every statement keeps the key unique, under the conditions the
  schema enforces.
\<close>

locale keyed_table =
  fixes rows :: "'s \<Rightarrow> 'r list"
    and upd :: "('r list \<Rightarrow> 'r list) \<Rightarrow> 's \<Rightarrow> 's"
    and key :: "'r \<Rightarrow> 'k"
  assumes rows_upd: "rows (upd f s) = f (rows s)"
begin

lemma find_by_key:
  assumes "distinct (map key (rows s))" "r \<in> set (rows s)" "p r"
    and "\<And>q. q \<in> set (rows s) \<Longrightarrow> p q \<Longrightarrow> key q = key r"
  shows "List.find p (rows s) = Some r"
proof -
  obtain q where q: "List.find p (rows s) = Some q"
    using assms(2,3) by (metis find_None_all option.exhaust)
  then have "q \<in> set (rows s)" "p q" by (auto dest: find_Some_in)
  with assms have "q = r" by (metis distinct_key_eq)
  with q show ?thesis by simp
qed

lemma update_keeps_key:
  assumes "distinct (map key (rows s))" "\<And>r. key (f s r) = key r"
    and "sql_update rows upd p f s = (r, s')"
  shows "distinct (map key (rows s'))"
  using assms by (auto simp: tx_simps rows_upd map_update_rows)

lemma update_row_keeps_key:
  assumes "distinct (map key (rows s))" "\<And>r. key (f s r) = key r"
    and "sql_update_row rows upd p f s = (r, s')"
  shows "distinct (map key (rows s'))"
  using assms
  by (auto simp: sql_update_row_def rows_upd map_update_rows split: option.splits)

lemma delete_keeps_key:
  assumes "distinct (map key (rows s))" and "sql_delete rows upd p s = (r, s')"
  shows "distinct (map key (rows s'))"
  using assms by (auto simp: tx_simps rows_upd distinct_map_filter_rows)

lemma insert_keeps_key:
  assumes "distinct (map key (rows s))" "\<And>r. key r = key row \<Longrightarrow> uq r row"
    and "sql_insert rows upd uq ok err row s = (r, s')"
  shows "distinct (map key (rows s'))"
  using assms
  by (auto simp: sql_insert_def rows_upd image_iff split: option.splits if_splits) metis

end

section \<open>Running a transaction\<close>

text \<open>Equations that evaluate a body on a given state, for concrete executions.\<close>

named_theorems tx_run "evaluation of transaction bodies on a state"

lemma tx_bind_run [tx_run]:
  "tx_bind m f s = (case m s of (Inl e, s') \<Rightarrow> (Inl e, s') | (Inr x, s') \<Rightarrow> f x s')"
  by (simp add: tx_bind_def)

lemma tx_basic_run [tx_run]:
  "tx_return x s = (Inr x, s)" "tx_fail e s = (Inl e, s)" "tx_get g s = (Inr (g s), s)"
  "tx_guard b e s = (if b then (Inr (), s) else (Inl e, s))"
  "tx_when b m s = (if b then m s else (Inr (), s))"
  "tx_option e v s = (case v of None \<Rightarrow> (Inl e, s) | Some y \<Rightarrow> (Inr y, s))"
  "tx_try tried s = (case tried s of (r, s') \<Rightarrow> (Inr r, s'))"
  by (simp_all add: tx_return_def tx_fail_def tx_get_def tx_guard_def tx_when_def tx_option_def
      tx_try_def split: option.splits)

lemma tx_map_error_run [tx_run]:
  "tx_map_error f m s = (case m s of (Inl e, s') \<Rightarrow> (Inl (f e), s') | (Inr x, s') \<Rightarrow> (Inr x, s'))"
  by (simp add: tx_map_error_def)

lemma sql_read_run [tx_run]:
  "sql_find rows p s = (case List.find (p s) (rows s) of None \<Rightarrow> (Inl ErrNotFound, s) | Some r \<Rightarrow> (Inr r, s))"
  "sql_first rows p key s =
     (case first_by key (filter (p s) (rows s)) of None \<Rightarrow> (Inl ErrNotFound, s) | Some r \<Rightarrow> (Inr r, s))"
  "sql_exists rows p s = (Inr (list_ex (p s) (rows s)), s)"
  by (simp_all add: sql_find_def sql_first_def sql_exists_def tx_run list_ex_iff split: option.splits)

lemma sql_write_run [tx_run]:
  "sql_update rows upd p f s = (Inr (count_rows (p s) (rows s)), upd (update_rows (p s) (f s)) s)"
  "sql_update_row rows upd p f s =
     (case List.find (p s) (rows s) of None \<Rightarrow> (Inl ErrNotFound, s)
      | Some r \<Rightarrow> (Inr (f s r), upd (update_rows (p s) (f s)) s))"
  "sql_delete rows upd p s = (Inr (count_rows (p s) (rows s)), upd (filter (\<lambda>r. \<not> p s r)) s)"
  "sql_insert rows upd uq ok err row s =
     (case ok s row of Some v \<Rightarrow> (Inl (err v), s)
      | None \<Rightarrow> (if list_ex (\<lambda>r. uq r row) (rows s) then (Inl (err UniqueViolation), s)
                 else (Inr row, upd (\<lambda>rs. rs @ [row]) s)))"
  "sql_insert_unless rows upd cf uq ok err row s =
     (if ok s row = None \<and> list_ex (\<lambda>r. cf r row) (rows s) then (Inr None, s)
      else case sql_insert rows upd uq ok err row s of
        (Inl e, s') \<Rightarrow> (Inl e, s') | (Inr r, s') \<Rightarrow> (Inr (Some r), s'))"
  by (simp_all add: sql_update_def sql_update_row_def sql_delete_def sql_insert_def
      sql_insert_unless_def tx_run list_ex_iff split: option.splits prod.splits sum.splits)

lemma tx_commit_run [tx_run]:
  "tx_commit m s = (case m s of (Inl e, _) \<Rightarrow> (Inl e, s) | (Inr x, s') \<Rightarrow> (Inr x, s'))"
  by (simp add: tx_commit_def)

lemmas [tx_run] = update_rows_def count_rows_def first_by_def Let_def

section \<open>Frames\<close>

text \<open>
  A relation between the state before and after a successful transaction body, and the
  rules that carry a reflexive and transitive one through the statements: a body keeps it
  as soon as every write of the body does.
\<close>

definition tx_keeps :: "('s \<Rightarrow> 's \<Rightarrow> bool) \<Rightarrow> ('s, 'a) tx \<Rightarrow> bool" where
  "tx_keeps R m \<longleftrightarrow> (\<forall>s x s'. m s = (Inr x, s') \<longrightarrow> R s s')"

lemma tx_keepsI: "(\<And>s x s'. m s = (Inr x, s') \<Longrightarrow> R s s') \<Longrightarrow> tx_keeps R m"
  by (simp add: tx_keeps_def)

lemma tx_keepsD: "tx_keeps R m \<Longrightarrow> m s = (Inr x, s') \<Longrightarrow> R s s'"
  by (simp add: tx_keeps_def)

text \<open>
  The same for a call whose caller goes on after some errors: the relation also holds up to
  the state an error of \<open>E\<close> leaves.
\<close>

definition tx_keeps_on :: "store_error set \<Rightarrow> ('s \<Rightarrow> 's \<Rightarrow> bool) \<Rightarrow> ('s, 'a) tx \<Rightarrow> bool" where
  "tx_keeps_on E R m \<longleftrightarrow> (\<forall>s r s'. m s = (r, s') \<longrightarrow> (case r of Inl e \<Rightarrow> e \<in> E | Inr _ \<Rightarrow> True) \<longrightarrow> R s s')"

lemma tx_keeps_onD: "tx_keeps_on E R m \<Longrightarrow> m s = (r, s') \<Longrightarrow> (\<And>e. r = Inl e \<Longrightarrow> e \<in> E) \<Longrightarrow> R s s'"
  by (force simp: tx_keeps_on_def split: sum.splits)

lemma keeps_on_keeps: "tx_keeps_on E R m \<Longrightarrow> tx_keeps R m"
  by (force simp: tx_keeps_on_def tx_keeps_def)

lemma keeps_on_mono: "tx_keeps_on E R m \<Longrightarrow> F \<subseteq> E \<Longrightarrow> tx_keeps_on F R m"
  by (force simp: tx_keeps_on_def split: sum.splits)

locale tx_frame =
  fixes R :: "'s \<Rightarrow> 's \<Rightarrow> bool"
  assumes refl: "R s s"
    and trans: "R a b \<Longrightarrow> R b c \<Longrightarrow> R a c"
begin

lemma keeps_bind:
  assumes "tx_keeps R m" "\<And>x. tx_keeps R (f x)"
  shows "tx_keeps R (tx_bind m f)"
proof (rule tx_keepsI)
  fix s y s'' assume "tx_bind m f s = (Inr y, s'')"
  then obtain x s' where "m s = (Inr x, s')" "f x s' = (Inr y, s'')" by (auto simp: tx_bind_Inr)
  then show "R s s''" using assms tx_keepsD trans by metis
qed

lemma keeps_read: "(\<And>s x s'. m s = (Inr x, s') \<Longrightarrow> s' = s) \<Longrightarrow> tx_keeps R m"
  using refl by (metis tx_keepsI)

lemma keeps_return: "tx_keeps R (tx_return x)"
  by (rule keeps_read) (simp add: tx_simps)

lemma keeps_fail: "tx_keeps R (tx_fail e)"
  by (rule keeps_read) (simp add: tx_simps)

lemma keeps_get: "tx_keeps R (tx_get f)"
  by (rule keeps_read) (simp add: tx_simps)

lemma keeps_guard: "tx_keeps R (tx_guard b e)"
  by (rule keeps_read) (simp add: tx_simps)

lemma keeps_option: "tx_keeps R (tx_option e v)"
  by (rule keeps_read) (simp add: tx_simps)

lemma keeps_find: "tx_keeps R (sql_find rows p)"
  by (rule keeps_read) (simp add: tx_simps)

lemma keeps_first: "tx_keeps R (sql_first rows p key)"
  by (rule keeps_read) (simp add: tx_simps)

lemma keeps_exists: "tx_keeps R (sql_exists rows p)"
  by (rule keeps_read) (simp add: tx_simps)

lemma keeps_when: "(b \<Longrightarrow> tx_keeps R m) \<Longrightarrow> tx_keeps R (tx_when b m)"
  by (simp add: tx_when_def keeps_return)

lemma keeps_if: "(b \<Longrightarrow> tx_keeps R m) \<Longrightarrow> (\<not> b \<Longrightarrow> tx_keeps R n) \<Longrightarrow> tx_keeps R (if b then m else n)"
  by simp

lemma keeps_case_option:
  assumes "v = None \<Longrightarrow> tx_keeps R m" "\<And>x. v = Some x \<Longrightarrow> tx_keeps R (f x)"
  shows "tx_keeps R (case v of None \<Rightarrow> m | Some x \<Rightarrow> f x)"
  using assms by (cases v) auto

lemma keeps_case_sum:
  assumes "\<And>e. v = Inl e \<Longrightarrow> tx_keeps R (f e)" "\<And>x. v = Inr x \<Longrightarrow> tx_keeps R (g x)"
  shows "tx_keeps R (case v of Inl e \<Rightarrow> f e | Inr x \<Rightarrow> g x)"
  using assms by (cases v) auto

lemma keeps_case_prod:
  assumes "\<And>a b. v = (a, b) \<Longrightarrow> tx_keeps R (f a b)"
  shows "tx_keeps R (case v of (a, b) \<Rightarrow> f a b)"
  using assms by (cases v) auto

lemma keeps_let: "tx_keeps R (f v) \<Longrightarrow> tx_keeps R (let x = v in f x)"
  by simp

lemma keeps_try:
  "tx_keeps R m \<Longrightarrow> (\<And>s e s'. m s = (Inl e, s') \<Longrightarrow> s' = s) \<Longrightarrow> tx_keeps R (tx_try m)"
proof (rule tx_keepsI)
  fix s r s' assume m: "tx_keeps R m" and err: "\<And>s e s'. m s = (Inl e, s') \<Longrightarrow> s' = s"
    and tried: "tx_try m s = (Inr r, s')"
  show "R s s'"
  proof (cases r)
    case (Inl e) then show ?thesis using tried err refl by (auto simp: tx_simps)
  next
    case (Inr x) then show ?thesis using tried m by (auto simp: tx_simps dest: tx_keepsD)
  qed
qed

lemma keeps_map_error: "tx_keeps R m \<Longrightarrow> tx_keeps R (tx_map_error f m)"
  by (rule tx_keepsI) (auto simp: tx_simps dest: tx_keepsD)

lemma keeps_map: "(\<And>x. tx_keeps R (f x)) \<Longrightarrow> tx_keeps R (tx_map f xs)"
  by (induction xs) (auto intro!: keeps_bind keeps_return)

text \<open>Every statement on a table whose writes keep the relation.\<close>

lemma keeps_writes:
  assumes "\<And>g s. R s (upd g s)"
  shows "tx_keeps R (sql_update rows upd p f)"
    and "tx_keeps R (sql_update_row rows upd p f)"
    and "tx_keeps R (sql_delete rows upd p)"
    and "tx_keeps R (sql_insert rows upd uq ok err row)"
    and "tx_keeps R (sql_insert_unless rows upd cf uq ok err row)"
proof -
  show "tx_keeps R (sql_update rows upd p f)"
    by (rule tx_keepsI) (auto simp: sql_update_def assms)
  show "tx_keeps R (sql_update_row rows upd p f)"
    by (rule tx_keepsI) (auto simp: sql_update_row_def assms refl split: option.splits)
  show "tx_keeps R (sql_delete rows upd p)"
    by (rule tx_keepsI) (auto simp: sql_delete_def assms)
  show ins: "tx_keeps R (sql_insert rows upd uq ok err row)"
    by (rule tx_keepsI) (auto simp: sql_insert_def assms refl split: option.splits if_splits)
  then have "tx_keeps R (tx_bind (sql_insert rows upd uq ok err row) (\<lambda>r. tx_return (Some r)))"
    by (intro keeps_bind keeps_return)
  then show "tx_keeps R (sql_insert_unless rows upd cf uq ok err row)"
    by (intro tx_keepsI) (auto simp: sql_insert_unless_def refl dest: tx_keepsD split: if_splits)
qed

lemma keeps_on_atomic:
  assumes "tx_keeps R m" "\<And>s e s'. m s = (Inl e, s') \<Longrightarrow> e \<in> E \<Longrightarrow> s' = s"
  shows "tx_keeps_on E R m"
  unfolding tx_keeps_on_def
proof (intro allI impI)
  fix s r s' assume run: "m s = (r, s')" and ok: "case r of Inl e \<Rightarrow> e \<in> E | Inr _ \<Rightarrow> True"
  show "R s s'"
  proof (cases r)
    case (Inl e)
    then have "s' = s" using run ok assms(2) by simp
    then show ?thesis using refl by simp
  next
    case (Inr x)
    then show ?thesis using run tx_keepsD [OF assms(1)] by simp
  qed
qed

lemma keeps_on_bind:
  assumes "tx_keeps_on E R m" "\<And>x. tx_keeps_on E R (f x)"
  shows "tx_keeps_on E R (tx_bind m f)"
  unfolding tx_keeps_on_def
proof (intro allI impI)
  fix s r s'' assume run: "tx_bind m f s = (r, s'')" and ok: "case r of Inl e \<Rightarrow> e \<in> E | Inr _ \<Rightarrow> True"
  show "R s s''"
  proof (cases "m s")
    case (Pair q s1)
    then show ?thesis
    proof (cases q)
      case (Inl e)
      then show ?thesis using run ok Pair tx_keeps_onD [OF assms(1) Pair] by (auto simp: tx_bind_def)
    next
      case (Inr x)
      then have "f x s1 = (r, s'')" "R s s1" using run Pair tx_keeps_onD [OF assms(1) Pair] by (auto simp: tx_bind_def)
      then show ?thesis using tx_keeps_onD [OF assms(2)] ok trans by (metis sum.case(1))
    qed
  qed
qed

lemma keeps_on_basic:
  "tx_keeps_on E R (tx_return x)" "tx_keeps_on E R (tx_fail e)" "tx_keeps_on E R (tx_get g)"
  "tx_keeps_on E R (tx_guard b e)" "tx_keeps_on E R (tx_option e v)" "tx_keeps_on E R (sql_find rows p)"
  "tx_keeps_on E R (sql_first rows p key)" "tx_keeps_on E R (sql_exists rows p)"
  by (auto simp: tx_keeps_on_def refl tx_return_def tx_fail_def tx_get_def tx_guard_def tx_option_def
      sql_find_def sql_first_def sql_exists_def split: option.splits if_splits)

lemma keeps_on_cases:
  "(b \<Longrightarrow> tx_keeps_on E R m1) \<Longrightarrow> (\<not> b \<Longrightarrow> tx_keeps_on E R m2) \<Longrightarrow> tx_keeps_on E R (if b then m1 else m2)"
  "tx_keeps_on E R n1 \<Longrightarrow> (\<And>x. tx_keeps_on E R (n2 x)) \<Longrightarrow> tx_keeps_on E R (case opt of None \<Rightarrow> n1 | Some x \<Rightarrow> n2 x)"
  "(\<And>e. tx_keeps_on E R (k1 e)) \<Longrightarrow> (\<And>x. tx_keeps_on E R (k2 x)) \<Longrightarrow>
     tx_keeps_on E R (case sm of Inl e \<Rightarrow> k1 e | Inr x \<Rightarrow> k2 x)"
  "(\<And>a c. tx_keeps_on E R (h a c)) \<Longrightarrow> tx_keeps_on E R (case pr of (a, c) \<Rightarrow> h a c)"
  by (auto split: option.splits sum.splits prod.splits)

lemma keeps_on_try: "tx_keeps_on UNIV R m \<Longrightarrow> tx_keeps_on E R (tx_try m)"
  by (force simp: tx_keeps_on_def tx_simps split: sum.splits)

lemma keeps_on_map_error:
  assumes "tx_keeps_on (f -` E) R m"
  shows "tx_keeps_on E R (tx_map_error f m)"
  unfolding tx_keeps_on_def
proof (intro allI impI)
  fix s r s' assume run: "tx_map_error f m s = (r, s')" and ok: "case r of Inl e \<Rightarrow> e \<in> E | Inr _ \<Rightarrow> True"
  obtain q s1 where q: "m s = (q, s1)" by (cases "m s")
  then have "s1 = s'" "(\<exists>e. q = Inl e \<and> r = Inl (f e)) \<or> (\<exists>x. q = Inr x \<and> r = Inr x)"
    using run by (auto simp: tx_map_error_def split: sum.splits)
  then show "R s s'" using tx_keeps_onD [OF assms(1) q] ok by (auto split: sum.splits)
qed

text \<open>A caller that handles the errors of \<open>E\<close> and passes every other one on.\<close>

lemma keeps_handler:
  assumes "tx_keeps_on E R m" "\<And>r. (\<And>e. r = Inl e \<Longrightarrow> e \<in> E) \<Longrightarrow> tx_keeps R (f r)"
    and "\<And>e s x s'. e \<notin> E \<Longrightarrow> f (Inl e) s \<noteq> (Inr x, s')"
  shows "tx_keeps R (tx_bind (tx_try m) f)"
proof (rule tx_keepsI)
  fix s x s'' assume "tx_bind (tx_try m) f s = (Inr x, s'')"
  then obtain r s' where m: "m s = (r, s')" and f: "f r s' = (Inr x, s'')" by (auto simp: tx_simps)
  have ok: "e \<in> E" if "r = Inl e" for e using that f assms(3) by blast
  show "R s s''" using tx_keeps_onD [OF assms(1) m ok] tx_keepsD [OF assms(2) f] ok trans by blast
qed

lemmas keeps_on_intros = keeps_on_basic keeps_on_cases keeps_on_bind keeps_on_try

lemmas keeps_intros =
  keeps_return keeps_fail keeps_get keeps_guard keeps_option keeps_find keeps_first keeps_exists
  keeps_bind keeps_when keeps_if keeps_case_option keeps_case_sum keeps_case_prod keeps_let
  keeps_map keeps_map_error

end

text \<open>Calls that only read, whatever they answer.\<close>

interpretation reads: tx_frame "(=)"
  by unfold_locales auto

named_theorems read_rules "calls that leave the state alone"

lemmas [read_rules] = reads.keeps_on_intros

lemma read_state: "tx_keeps_on UNIV (=) m \<Longrightarrow> m s = (r, s') \<Longrightarrow> s' = s"
  using tx_keeps_onD [of UNIV "(=)" m s r s'] by simp

context tx_frame
begin

lemma keeps_on_read: "tx_keeps_on UNIV (=) m \<Longrightarrow> tx_keeps_on E R m"
  by (force simp: tx_keeps_on_def refl split: sum.splits)

end

end
