(* ===== verification/Go_Strings.thy ===== *)
theory Go_Strings
  imports Prelude
begin

text \<open>
  The parts of Go's strings and unicode/utf8 packages the program uses. A Go string is its
  bytes, here a char list; runes are code points as natural numbers. Decoding follows the
  UTF-8 table of unicode/utf8: an ill-formed byte decodes to U+FFFD with width 1.
\<close>

section \<open>White space\<close>

text \<open>The UTF-8 encodings of the code points for which unicode.IsSpace holds.\<close>

definition space_encodings :: "string list" where
  "space_encodings =
    [[CHR 0x09], [CHR 0x0A], [CHR 0x0B], [CHR 0x0C], [CHR 0x0D], [CHR 0x20],
     [CHR 0xC2, CHR 0x85], [CHR 0xC2, CHR 0xA0], [CHR 0xE1, CHR 0x9A, CHR 0x80],
     [CHR 0xE2, CHR 0x80, CHR 0x80], [CHR 0xE2, CHR 0x80, CHR 0x81],
     [CHR 0xE2, CHR 0x80, CHR 0x82], [CHR 0xE2, CHR 0x80, CHR 0x83],
     [CHR 0xE2, CHR 0x80, CHR 0x84], [CHR 0xE2, CHR 0x80, CHR 0x85],
     [CHR 0xE2, CHR 0x80, CHR 0x86], [CHR 0xE2, CHR 0x80, CHR 0x87],
     [CHR 0xE2, CHR 0x80, CHR 0x88], [CHR 0xE2, CHR 0x80, CHR 0x89],
     [CHR 0xE2, CHR 0x80, CHR 0x8A], [CHR 0xE2, CHR 0x80, CHR 0xA8],
     [CHR 0xE2, CHR 0x80, CHR 0xA9], [CHR 0xE2, CHR 0x80, CHR 0xAF],
     [CHR 0xE2, CHR 0x81, CHR 0x9F], [CHR 0xE3, CHR 0x80, CHR 0x80]]"

definition matching_prefix :: "string list \<Rightarrow> string \<Rightarrow> string option" where
  "matching_prefix encs s = List.find (\<lambda>e. e \<noteq> [] \<and> take (length e) s = e) encs"

function strip_prefixes :: "string list \<Rightarrow> string \<Rightarrow> string" where
  "strip_prefixes encs s =
     (case matching_prefix encs s of None \<Rightarrow> s | Some e \<Rightarrow> strip_prefixes encs (drop (length e) s))"
  by pat_completeness auto
termination
proof (relation "measure (\<lambda>(encs, s). length s)", simp)
  fix encs s e
  assume "matching_prefix encs s = Some e"
  then have "e \<noteq> []" and "take (length e) s = e"
    by (auto simp: matching_prefix_def find_Some_iff)
  then have "0 < length e" and "0 < length s" by auto
  then show "((encs, drop (length e) s), (encs, s)) \<in> measure (\<lambda>(encs, s). length s)"
    by simp
qed

declare strip_prefixes.simps [simp del]

text \<open>\<open>strings.TrimSpace\<close>: leading white space off, then trailing white space off.\<close>

definition TrimSpace :: "string \<Rightarrow> string" where
  "TrimSpace s =
     rev (strip_prefixes (map rev space_encodings) (rev (strip_prefixes space_encodings s)))"

lemma strip_prefixes_suffix: "\<exists>p. s = p @ strip_prefixes encs s"
proof (induction encs s rule: strip_prefixes.induct)
  case (1 encs s)
  show ?case
  proof (cases "matching_prefix encs s")
    case None
    then show ?thesis by (simp add: strip_prefixes.simps [of encs s])
  next
    case (Some e)
    then obtain p where "drop (length e) s = p @ strip_prefixes encs (drop (length e) s)"
      using "1.IH" by blast
    then have "s = (take (length e) s @ p) @ strip_prefixes encs (drop (length e) s)"
      by (metis append.assoc append_take_drop_id)
    moreover from Some have "strip_prefixes encs s = strip_prefixes encs (drop (length e) s)"
      by (simp add: strip_prefixes.simps [of encs s])
    ultimately show ?thesis by metis
  qed
qed

lemma length_strip_prefixes: "length (strip_prefixes encs s) \<le> length s"
proof -
  obtain p where "s = p @ strip_prefixes encs s" using strip_prefixes_suffix by blast
  then show ?thesis by (metis le_add2 length_append)
qed

lemma length_TrimSpace: "length (TrimSpace s) \<le> length s"
  unfolding TrimSpace_def
  by (metis length_rev length_strip_prefixes order.trans)

lemma strip_prefixes_Nil [simp]: "strip_prefixes encs [] = []"
  by (metis append_is_Nil_conv strip_prefixes_suffix)

lemma TrimSpace_Nil [simp]: "TrimSpace [] = []"
  by (simp add: TrimSpace_def)

lemma matching_prefix_strip: "matching_prefix encs (strip_prefixes encs s) = None"
proof (induction encs s rule: strip_prefixes.induct)
  case (1 encs s)
  then show ?case
    by (cases "matching_prefix encs s") (simp_all add: strip_prefixes.simps [of encs s])
qed

lemma strip_prefixes_idem: "matching_prefix encs s = None \<Longrightarrow> strip_prefixes encs s = s"
  by (simp add: strip_prefixes.simps)

section \<open>Runes\<close>

definition byte :: "char \<Rightarrow> nat" where
  "byte c = of_char c"

definition cont :: "char \<Rightarrow> bool" where
  "cont c \<longleftrightarrow> 0x80 \<le> byte c \<and> byte c \<le> 0xBF"

text \<open>The admissible second byte after a first byte of a three or four byte rune.\<close>

definition second_ok :: "nat \<Rightarrow> nat \<Rightarrow> bool" where
  "second_ok b0 b1 \<longleftrightarrow>
     (if b0 = 0xE0 then 0xA0 else if b0 = 0xF0 then 0x90 else 0x80) \<le> b1 \<and>
     b1 \<le> (if b0 = 0xED then 0x9F else if b0 = 0xF4 then 0x8F else 0xBF)"

text \<open>\<open>utf8.DecodeRuneInString\<close>: the first rune and its width.\<close>

fun decode_rune :: "string \<Rightarrow> nat \<times> nat" where
  "decode_rune [] = (0xFFFD, 0)"
| "decode_rune (c0 # s) =
     (let b0 = byte c0 in
      if b0 < 0x80 then (b0, 1)
      else if 0xC2 \<le> b0 \<and> b0 \<le> 0xDF then
        (case s of
           c1 # _ \<Rightarrow> if cont c1 then ((b0 - 0xC0) * 64 + (byte c1 - 0x80), 2) else (0xFFFD, 1)
         | _ \<Rightarrow> (0xFFFD, 1))
      else if 0xE0 \<le> b0 \<and> b0 \<le> 0xEF then
        (case s of
           c1 # c2 # _ \<Rightarrow>
             if second_ok b0 (byte c1) \<and> cont c2
             then ((b0 - 0xE0) * 4096 + (byte c1 - 0x80) * 64 + (byte c2 - 0x80), 3)
             else (0xFFFD, 1)
         | _ \<Rightarrow> (0xFFFD, 1))
      else if 0xF0 \<le> b0 \<and> b0 \<le> 0xF4 then
        (case s of
           c1 # c2 # c3 # _ \<Rightarrow>
             if second_ok b0 (byte c1) \<and> cont c2 \<and> cont c3
             then ((b0 - 0xF0) * 262144 + (byte c1 - 0x80) * 4096 + (byte c2 - 0x80) * 64
                     + (byte c3 - 0x80), 4)
             else (0xFFFD, 1)
         | _ \<Rightarrow> (0xFFFD, 1))
      else (0xFFFD, 1))"

lemma decode_rune_width: "1 \<le> snd (decode_rune (c # s))"
  by (auto simp: Let_def split: list.splits)

text \<open>The conversion \<open>[]rune(s)\<close>.\<close>

function runes :: "string \<Rightarrow> nat list" where
  "runes s = (if s = [] then [] else fst (decode_rune s) # runes (drop (snd (decode_rune s)) s))"
  by pat_completeness auto
termination
proof (relation "measure length", simp)
  fix s :: string
  assume "s \<noteq> []"
  then obtain c t where "s = c # t" by (cases s) auto
  then show "(drop (snd (decode_rune s)) s, s) \<in> measure length"
    using decode_rune_width [of c t] by simp
qed

declare runes.simps [simp del] decode_rune.simps [simp del]

definition RuneCountInString :: "string \<Rightarrow> nat" where
  "RuneCountInString s = length (runes s)"

text \<open>The conversion \<open>string(r)\<close> of one valid code point.\<close>

definition encode_rune :: "nat \<Rightarrow> string" where
  "encode_rune r =
     (if r < 0x80 then [char_of r]
      else if r < 0x800 then [char_of (0xC0 + r div 64), char_of (0x80 + r mod 64)]
      else if r < 0x10000 then
        [char_of (0xE0 + r div 4096), char_of (0x80 + (r div 64) mod 64),
         char_of (0x80 + r mod 64)]
      else
        [char_of (0xF0 + r div 262144), char_of (0x80 + (r div 4096) mod 64),
         char_of (0x80 + (r div 64) mod 64), char_of (0x80 + r mod 64)])"

definition encode_runes :: "nat list \<Rightarrow> string" where
  "encode_runes rs = concat (map encode_rune rs)"

definition valid_rune :: "nat \<Rightarrow> bool" where
  "valid_rune r \<longleftrightarrow> r < 0xD800 \<or> (0xE000 \<le> r \<and> r < 0x110000)"

lemma runes_Nil [simp]: "runes [] = []"
  by (simp add: runes.simps)

lemma runes_Cons:
  "runes (c # s) = fst (decode_rune (c # s)) # runes (drop (snd (decode_rune (c # s))) (c # s))"
  by (subst runes.simps) simp

lemma length_runes: "length (runes s) \<le> length s"
proof (induction s rule: runes.induct)
  case (1 s)
  show ?case
  proof (cases s)
    case Nil
    then show ?thesis by simp
  next
    case (Cons c t)
    with 1 have "length (runes (drop (snd (decode_rune s)) s)) \<le> length s - snd (decode_rune s)"
      by simp
    moreover have "1 \<le> snd (decode_rune s)" using Cons by (simp only: decode_rune_width)
    ultimately show ?thesis using Cons by (simp add: runes_Cons)
  qed
qed

text \<open>Every decoded rune is a valid code point.\<close>

lemma valid_rune_3:
  assumes "x < 16" "y < 64" "z < 64" "x = 13 \<longrightarrow> y < 32"
  shows "valid_rune (x * 4096 + y * 64 + z)"
proof -
  consider "x < 13" | "x = 13" | "13 < x" by arith
  then show ?thesis
    using assms by cases (simp_all add: valid_rune_def)
qed

lemma valid_rune_4:
  assumes "x < 5" "y < 64" "z < 64" "w < 64" "x = 0 \<longrightarrow> 16 \<le> y" "x = 4 \<longrightarrow> y < 16"
  shows "valid_rune (x * 262144 + y * 4096 + z * 64 + w)"
proof -
  consider "x = 0" | "1 \<le> x \<and> x < 4" | "x = 4" using assms by arith
  then show ?thesis
    using assms by cases (simp_all add: valid_rune_def)
qed

lemma valid_rune_small: "r < 0x80 \<Longrightarrow> valid_rune r" "x < 32 \<Longrightarrow> y < 64 \<Longrightarrow> valid_rune (x * 64 + y)"
  by (simp_all add: valid_rune_def)

lemma valid_rune_error [simp]: "valid_rune 0xFFFD"
  by (simp add: valid_rune_def)

lemma contD: "cont c \<Longrightarrow> byte c - 0x80 < 64"
  unfolding cont_def by arith

lemma second_ok_3:
  "second_ok b0 b1 \<Longrightarrow> 0xE0 \<le> b0 \<Longrightarrow> b0 \<le> 0xEF \<Longrightarrow>
     b1 - 0x80 < 64 \<and> b0 - 0xE0 < 16 \<and> (b0 - 0xE0 = 13 \<longrightarrow> b1 - 0x80 < 32)"
  by (auto simp: second_ok_def split: if_splits)

lemma second_ok_4:
  "second_ok b0 b1 \<Longrightarrow> 0xF0 \<le> b0 \<Longrightarrow> b0 \<le> 0xF4 \<Longrightarrow>
     b1 - 0x80 < 64 \<and> b0 - 0xF0 < 5 \<and> (b0 - 0xF0 = 0 \<longrightarrow> 16 \<le> b1 - 0x80) \<and>
     (b0 - 0xF0 = 4 \<longrightarrow> b1 - 0x80 < 16)"
  by (auto simp: second_ok_def split: if_splits)

lemma decode_rune_valid: "valid_rune (fst (decode_rune s))"
proof (cases s)
  case Nil
  then show ?thesis by (simp add: decode_rune.simps valid_rune_def)
next
  case (Cons c0 t)
  let ?b = "byte c0"
  consider "?b < 0x80" | "0x80 \<le> ?b \<and> ?b < 0xC2 \<or> 0xF4 < ?b" | "0xC2 \<le> ?b \<and> ?b \<le> 0xDF"
    | "0xE0 \<le> ?b \<and> ?b \<le> 0xEF" | "0xF0 \<le> ?b \<and> ?b \<le> 0xF4"
    by arith
  then show ?thesis
  proof cases
    case 3
    then have "?b - 0xC0 < 32" by arith
    with 3 show ?thesis
      by (auto simp: Cons decode_rune.simps Let_def valid_rune_small contD split: list.split)
  next
    case 4
    then show ?thesis
      by (auto simp: Cons decode_rune.simps Let_def contD dest!: second_ok_3
            intro!: valid_rune_3 split: list.split)
  next
    case 5
    then show ?thesis
      by (auto simp: Cons decode_rune.simps Let_def contD dest!: second_ok_4
            intro!: valid_rune_4 split: list.split)
  qed (auto simp: Cons decode_rune.simps Let_def valid_rune_small)
qed

lemma runes_valid: "r \<in> set (runes s) \<Longrightarrow> valid_rune r"
proof (induction s rule: runes.induct)
  case (1 s)
  then show ?case
    by (cases s) (auto simp: runes_Cons decode_rune_valid)
qed

text \<open>Encoding a code point and decoding it again gives it back, whatever follows.\<close>

lemma byte_char_of: "n < 256 \<Longrightarrow> byte (char_of n) = n"
  by (simp add: byte_def)

lemma decode_2:
  "2 \<le> x \<Longrightarrow> x < 32 \<Longrightarrow> y < 64 \<Longrightarrow>
     decode_rune (char_of (0xC0 + x) # char_of (0x80 + y) # s) = (x * 64 + y, 2)"
  by (simp add: decode_rune.simps Let_def byte_char_of cont_def)

lemma decode_3:
  "x < 16 \<Longrightarrow> y < 64 \<Longrightarrow> z < 64 \<Longrightarrow> x = 0 \<longrightarrow> 32 \<le> y \<Longrightarrow> x = 13 \<longrightarrow> y < 32 \<Longrightarrow>
     decode_rune (char_of (0xE0 + x) # char_of (0x80 + y) # char_of (0x80 + z) # s) =
       (x * 4096 + y * 64 + z, 3)"
  by (auto simp: decode_rune.simps Let_def byte_char_of cont_def second_ok_def)

lemma decode_4:
  "x < 5 \<Longrightarrow> y < 64 \<Longrightarrow> z < 64 \<Longrightarrow> w < 64 \<Longrightarrow> x = 0 \<longrightarrow> 16 \<le> y \<Longrightarrow> x = 4 \<longrightarrow> y < 16 \<Longrightarrow>
     decode_rune (char_of (0xF0 + x) # char_of (0x80 + y) # char_of (0x80 + z) #
         char_of (0x80 + w) # s) =
       (x * 262144 + y * 4096 + z * 64 + w, 4)"
  by (auto simp: decode_rune.simps Let_def byte_char_of cont_def second_ok_def)

lemma digits_3: "r div 4096 * 4096 + (r div 64) mod 64 * 64 + r mod 64 = (r :: nat)"
proof -
  have "r div 4096 = r div 64 div 64" using div_mult2_eq [of r 64 64] by simp
  moreover have "r div 64 div 64 * 64 + (r div 64) mod 64 = r div 64" by simp
  moreover have "r div 64 * 64 + r mod 64 = r" by simp
  ultimately show ?thesis by arith
qed

lemma digits_4:
  "r div 262144 * 262144 + (r div 4096) mod 64 * 4096 + (r div 64) mod 64 * 64 + r mod 64 =
     (r :: nat)"
proof -
  have "r div 262144 = r div 4096 div 64" using div_mult2_eq [of r 4096 64] by simp
  moreover have "r div 4096 div 64 * 64 + (r div 4096) mod 64 = r div 4096" by simp
  ultimately have "r div 262144 * 64 + (r div 4096) mod 64 = r div 4096" by simp
  with digits_3 [of r] show ?thesis by arith
qed

lemma decode_encode:
  assumes "valid_rune r"
  shows "decode_rune (encode_rune r @ s) = (r, length (encode_rune r))"
proof -
  consider "r < 0x80" | "0x80 \<le> r \<and> r < 0x800" | "0x800 \<le> r \<and> r < 0x10000"
    | "0x10000 \<le> r \<and> r < 0x110000"
    using assms unfolding valid_rune_def by arith
  then show ?thesis
  proof cases
    case 1
    then show ?thesis by (simp add: encode_rune_def decode_rune.simps byte_char_of)
  next
    case 2
    then have "2 \<le> r div 64" "r div 64 < 32" by auto
    then have "decode_rune (char_of (0xC0 + r div 64) # char_of (0x80 + r mod 64) # s) = (r, 2)"
      by (subst decode_2) simp_all
    with 2 show ?thesis by (simp add: encode_rune_def)
  next
    case 3
    let ?x = "r div 4096" and ?y = "(r div 64) mod 64" and ?z = "r mod 64"
    have r: "?x * 4096 + ?y * 64 + ?z = r" by (rule digits_3)
    have "?x < 16" using 3 by auto
    moreover have "?x = 0 \<longrightarrow> 32 \<le> ?y" and "?x = 13 \<longrightarrow> ?y < 32"
      using 3 assms r by (auto simp: valid_rune_def)
    ultimately have "decode_rune (char_of (0xE0 + ?x) # char_of (0x80 + ?y) # char_of (0x80 + ?z) # s)
        = (r, 3)"
      using r by (subst decode_3) simp_all
    with 3 show ?thesis by (simp add: encode_rune_def)
  next
    case 4
    let ?x = "r div 262144" and ?y = "(r div 4096) mod 64"
    let ?z = "(r div 64) mod 64" and ?w = "r mod 64"
    have r: "?x * 262144 + ?y * 4096 + ?z * 64 + ?w = r" by (rule digits_4)
    have "?x < 5" using 4 by auto
    moreover have "?x = 0 \<longrightarrow> 16 \<le> ?y" and "?x = 4 \<longrightarrow> ?y < 16" using 4 r by auto
    ultimately have "decode_rune (char_of (0xF0 + ?x) # char_of (0x80 + ?y) # char_of (0x80 + ?z) #
        char_of (0x80 + ?w) # s) = (?x * 262144 + ?y * 4096 + ?z * 64 + ?w, 4)"
      by (intro decode_4 mod_less_divisor) (assumption | simp)+
    then have "decode_rune (char_of (0xF0 + ?x) # char_of (0x80 + ?y) # char_of (0x80 + ?z) #
        char_of (0x80 + ?w) # s) = (r, 4)" unfolding r .
    with 4 show ?thesis by (simp add: encode_rune_def)
  qed
qed

lemma encode_rune_Nil [simp]: "encode_rune r \<noteq> []"
  by (simp add: encode_rune_def)

lemma runes_encode_runes: "\<forall>r\<in>set rs. valid_rune r \<Longrightarrow> runes (encode_runes rs) = rs"
proof (induction rs)
  case Nil
  then show ?case by (simp add: encode_runes_def)
next
  case (Cons r rs)
  then have "decode_rune (encode_rune r @ encode_runes rs) = (r, length (encode_rune r))"
    by (simp add: decode_encode)
  moreover have "encode_runes (r # rs) = encode_rune r @ encode_runes rs"
    by (simp add: encode_runes_def)
  ultimately show ?case using Cons by (subst runes.simps) simp
qed

text \<open>Cutting a string to its first \<open>n\<close> runes leaves at most \<open>n\<close> runes.\<close>

lemma RuneCount_take_runes: "RuneCountInString (encode_runes (take n (runes s))) \<le> n"
proof -
  have "\<forall>r\<in>set (take n (runes s)). valid_rune r"
    using runes_valid by (metis in_set_takeD)
  then show ?thesis by (simp add: RuneCountInString_def runes_encode_runes)
qed

section \<open>Decimal numbers\<close>

definition decimal_value :: "string \<Rightarrow> nat" where
  "decimal_value s = foldl (\<lambda>n c. 10 * n + (of_char c - 48)) 0 s"

definition is_digit :: "char \<Rightarrow> bool" where
  "is_digit c \<longleftrightarrow> 48 \<le> (of_char c :: nat) \<and> (of_char c :: nat) \<le> 57"

text \<open>The verb \<open>%d\<close> of package fmt on an int.\<close>

fun show_nat :: "nat \<Rightarrow> string" where
  "show_nat n = (if n < 10 then [char_of (48 + n)] else show_nat (n div 10) @ [char_of (48 + n mod 10)])"

declare show_nat.simps [simp del]

definition show_int :: "int \<Rightarrow> string" where
  "show_int n = (if n < 0 then ''-'' @ show_nat (nat (- n)) else show_nat (nat n))"

lemma digit_char:
  assumes "n < 10"
  shows "(of_char (char_of (48 + n) :: char) :: nat) = 48 + n" "is_digit (char_of (48 + n))"
  using assms by (simp_all add: is_digit_def)

lemma decimal_value_snoc: "decimal_value (s @ [c]) = 10 * decimal_value s + (of_char c - 48)"
  by (simp add: decimal_value_def)

lemma decimal_value_Nil [simp]: "decimal_value [] = 0"
  by (simp add: decimal_value_def)

text \<open>Printing and reading a number.\<close>

lemma decimal_show_nat: "decimal_value (show_nat n) = n"
proof (induction n rule: show_nat.induct)
  case (1 n)
  show ?case
  proof (cases "n < 10")
    case True
    have "decimal_value (show_nat n) = decimal_value ([] @ [char_of (48 + n)])" using True by (simp add: show_nat.simps)
    then show ?thesis unfolding decimal_value_snoc using True digit_char(1) [of n] by simp
  next
    case False
    then have "decimal_value (show_nat n) = 10 * (n div 10) + n mod 10"
      using 1 digit_char(1) [of "n mod 10"] by (simp add: show_nat.simps [of n] decimal_value_snoc)
    then show ?thesis by simp
  qed
qed

lemma show_nat_digits: "list_all is_digit (show_nat n)" "show_nat n \<noteq> []"
proof -
  show "list_all is_digit (show_nat n)"
  proof (induction n rule: show_nat.induct)
    case (1 n)
    then show ?case using digit_char(2) [of n] digit_char(2) [of "n mod 10"]
      by (cases "n < 10") (simp_all add: show_nat.simps [of n])
  qed
  show "show_nat n \<noteq> []" by (simp add: show_nat.simps)
qed

text \<open>\<open>strings.TrimSpace\<close> leaves a text alone that begins and ends with printable ASCII.\<close>

lemma space_heads:
  "list_all (\<lambda>e. e = [] \<or> (of_char (hd e) :: nat) < 33 \<or> 127 \<le> (of_char (hd e) :: nat)) space_encodings"
  "list_all (\<lambda>e. e = [] \<or> (of_char (hd e) :: nat) < 33 \<or> 127 \<le> (of_char (hd e) :: nat)) (map rev space_encodings)"
  by code_simp+

lemma no_space_prefix:
  assumes "list_all (\<lambda>e. e = [] \<or> (of_char (hd e) :: nat) < 33 \<or> 127 \<le> (of_char (hd e) :: nat)) encs"
    and "33 \<le> (of_char c :: nat)" "(of_char c :: nat) < 127"
  shows "matching_prefix encs (c # s) = None"
proof -
  have "take (length e) (c # s) \<noteq> e" if "e \<in> set encs" "e \<noteq> []" for e
  proof
    assume eq: "take (length e) (c # s) = e"
    then have "hd e = c" using that(2) by (cases e) auto
    then show False using assms that by (auto simp: list_all_iff)
  qed
  then show ?thesis unfolding matching_prefix_def by (auto simp: find_None_iff)
qed

lemma TrimSpace_id:
  assumes "s \<noteq> []" "33 \<le> (of_char (hd s) :: nat)" "(of_char (hd s) :: nat) < 127"
    "33 \<le> (of_char (last s) :: nat)" "(of_char (last s) :: nat) < 127"
  shows "TrimSpace s = s"
proof -
  obtain c t where s: "s = c # t" using assms(1) by (cases s) auto
  have "strip_prefixes space_encodings s = s"
    using strip_prefixes_idem no_space_prefix [OF space_heads(1), of c t] assms s by simp
  moreover obtain a u where r: "rev s = a # u" "a = last s"
    using assms(1) by (cases s rule: rev_cases) auto
  have "strip_prefixes (map rev space_encodings) (rev s) = rev s"
    unfolding r(1) by (rule strip_prefixes_idem, rule no_space_prefix [OF space_heads(2)]) (use r(2) assms(4,5) in auto)
  ultimately show ?thesis by (simp add: TrimSpace_def)
qed

text \<open>\<open>strings.TrimSpace\<close> twice is \<open>strings.TrimSpace\<close>: what is cut off at the end does not uncover white space before it.\<close>

lemma no_match_prefix: "matching_prefix encs (s @ q) = None \<Longrightarrow> matching_prefix encs s = None"
proof -
  assume none: "matching_prefix encs (s @ q) = None"
  have "take (length e) s \<noteq> e" if "e \<in> set encs" "e \<noteq> []" for e
  proof
    assume e: "take (length e) s = e"
    then have "length e \<le> length s" by (metis length_take min.cobounded1 min_def)
    with e have "take (length e) (s @ q) = e" by simp
    then show False using none that by (auto simp: matching_prefix_def find_None_iff)
  qed
  then show ?thesis by (auto simp: matching_prefix_def find_None_iff)
qed

lemma TrimSpace_idem: "TrimSpace (TrimSpace s) = TrimSpace s"
proof -
  let ?t = "strip_prefixes space_encodings s"
  obtain p where "rev ?t = p @ strip_prefixes (map rev space_encodings) (rev ?t)" using strip_prefixes_suffix by blast
  then have t: "?t = TrimSpace s @ rev p" by (metis TrimSpace_def rev_append rev_rev_ident)
  have head: "matching_prefix space_encodings (TrimSpace s) = None"
    using matching_prefix_strip [of space_encodings s] unfolding t by (rule no_match_prefix)
  have tail: "matching_prefix (map rev space_encodings) (rev (TrimSpace s)) = None"
    unfolding TrimSpace_def rev_rev_ident by (rule matching_prefix_strip)
  show ?thesis by (subst TrimSpace_def) (simp add: strip_prefixes_idem head tail)
qed

end
