(* ===== verification/Store_Model.thy ===== *)
theory Store_Model
  imports Prelude Go_Strings
begin

text \<open>
  The durable state of the control plane: one record per table with the columns the
  modelled code reads or writes (store/types.go and the schema in
  packages/database/schema.sql), the database as the record of all tables, and the shared
  row helpers. Columns no modelled statement uses are left out.
\<close>

section \<open>Enumerations\<close>

text \<open>
  Status columns hold text under a CHECK constraint. A Go variable of such a column may
  hold any string; \<open>RUN_OTHER\<close> and \<open>ISS_OTHER\<close> stand for a string outside the constraint.
\<close>

datatype run_status =
    RUN_QUEUED | RUN_STARTING | RUN_RUNNING | RUN_WAITING_FOR_INPUT | RUN_PAUSED
  | RUN_READY_FOR_REVIEW | RUN_COMPLETED | RUN_FAILED | RUN_CANCELLED
  | RUN_OTHER string

datatype job_kind = JOB_START | JOB_RESUME

datatype job_state = JOB_QUEUED | JOB_CLAIMED | JOB_DONE | JOB_CANCELLED | JOB_FAILED

datatype resource_kind = RES_AGENT | RES_MODEL_PROFILE | RES_RUNNER

datatype session_status =
  SES_PENDING | SES_STARTING | SES_RUNNING | SES_COMPLETED | SES_FAILED | SES_CANCELLED

datatype issue_status =
  ISS_BACKLOG | ISS_TODO | ISS_IN_PROGRESS | ISS_BLOCKED | ISS_REVIEW | ISS_DONE | ISS_OTHER string

datatype agent_state = AGT_DRAFT | AGT_ENABLED | AGT_DISABLED | AGT_ARCHIVED

datatype delegation_outcome = DLG_SUCCEEDED | DLG_FAILED | DLG_CANCELLED

datatype question_status = QST_OPEN | QST_ANSWERED | QST_CANCELLED

datatype binding_state = BND_OPEN | BND_ANSWERED | BND_RESOLVED | BND_CANCELLED

datatype review_status = REV_PENDING | REV_APPROVED | REV_CHANGES_REQUESTED | REV_CANCELLED

datatype actor_type = ACT_HUMAN | ACT_SYSTEM | ACT_AGENT

text \<open>Event payloads and other jsonb columns.\<close>

datatype json =
  JNull | JBool bool | JInt int | JStr string | JArr "json list" | JObj "(string \<times> json) list"

section \<open>Tables\<close>

record project =
  prj_id :: id
  prj_name :: string
  prj_issue_prefix :: string
  prj_next_issue_number :: int
  prj_clone_url :: "string option"
  prj_source_ref :: "string option"
  prj_workflow_settings :: json
  prj_created_at :: time
  prj_updated_at :: time
  prj_repository_path :: string
  prj_default_branch :: string
  prj_source_type :: string
  prj_allow_internal_runner :: bool

record provider =
  prv_id :: id
  prv_enabled :: bool
  prv_unhealthy :: bool  \<comment> \<open>health_status = 'UNHEALTHY'\<close>

record model_profile =
  mdl_id :: id
  mdl_project_id :: "id option"
  mdl_provider_id :: id
  mdl_max_concurrent :: "int option"
  mdl_enabled :: bool

record agent =
  agt_id :: id
  agt_name :: string
  agt_project_id :: "id option"
  agt_engine :: string
  agt_model_profile_id :: id
  agt_concurrency_limit :: int
  agt_allow_delegation :: bool
  agt_state :: agent_state

record runner =
  rnr_id :: id
  rnr_project_id :: "id option"
  rnr_internal :: bool
  rnr_revoked_at :: "time option"
  rnr_deleted_at :: "time option"
  rnr_max_active_sessions :: "string option"  \<comment> \<open>capabilities->>'max_active_sessions'\<close>
  rnr_created_at :: time

record issue =
  iss_id :: id
  iss_project_id :: id
  iss_number :: int
  iss_title :: string
  iss_description :: string
  iss_status :: issue_status
  iss_priority :: int
  iss_board_position :: int
  iss_assignee_type :: "string option"
  iss_assignee_id :: "id option"
  iss_created_by_type :: "string option"
  iss_created_by_id :: "id option"
  iss_created_at :: time
  iss_updated_at :: time

record squad =
  sqd_id :: id
  sqd_project_id :: id
  sqd_name :: string
  sqd_leader_agent_id :: id

record comment =
  cmt_id :: id
  cmt_issue_id :: id
  cmt_parent_comment_id :: "id option"
  cmt_author_type :: actor_type
  cmt_author_id :: id
  cmt_source_run_id :: "id option"
  cmt_source_action_key :: "string option"
  cmt_body :: "string option"
  cmt_suppress_implicit :: bool  \<comment> \<open>suppress_implicit_agent_trigger\<close>
  cmt_deleted_at :: "time option"
  cmt_resolved_at :: "time option"
  cmt_resolved_by_user_id :: "id option"
  cmt_created_at :: time
  cmt_updated_at :: time

record reaction =
  rct_issue_id :: id
  rct_comment_id :: id
  rct_actor_id :: id
  rct_reaction :: string
  rct_created_at :: time

record subscription =
  sub_project_id :: id
  sub_issue_id :: id
  sub_user_id :: id

record notification =
  ntf_id :: id
  ntf_recipient_user_id :: id
  ntf_project_id :: id
  ntf_issue_id :: id
  ntf_source_comment_id :: id
  ntf_kind :: string
  ntf_created_at :: time
  ntf_read_at :: "time option"

record workspace =
  wsp_id :: id
  wsp_project_id :: id
  wsp_issue_id :: id
  wsp_path :: string
  wsp_repository_path :: "string option"
  wsp_base_branch :: "string option"
  wsp_base_revision :: "string option"
  wsp_working_branch :: string
  wsp_current_branch :: "string option"
  wsp_current_revision :: "string option"
  wsp_bootstrap_status :: string
  wsp_created_at :: time
  wsp_updated_at :: time

record run =
  run_id :: id
  run_project_id :: id
  run_issue_id :: id
  run_workspace_id :: id
  run_agent_id :: "id option"
  run_attempt :: int
  run_status :: run_status
  run_queue_reason :: "string option"
  run_failure_reason :: "string option"
  run_event_sequence :: int
  run_created_at :: time
  run_started_at :: "time option"
  run_completed_at :: "time option"
  run_updated_at :: time

record delegation =
  dlg_id :: id
  dlg_project_id :: id
  dlg_issue_id :: id
  dlg_parent_run_id :: "id option"
  dlg_parent_agent_id :: "id option"
  dlg_source_comment_id :: "id option"
  dlg_target_agent_id :: id
  dlg_task :: string
  dlg_delegated_run_id :: id
  dlg_request_key :: string
  dlg_outcome :: "delegation_outcome option"
  dlg_result_summary :: "string option"
  dlg_result_event_id :: "id option"
  dlg_workspace_changes_accepted :: "bool option"
  dlg_continuation_job_id :: "id option"
  dlg_completed_at :: "time option"
  dlg_created_at :: time
  dlg_updated_at :: time

record work_request =
  wrq_id :: id
  wrq_project_id :: id
  wrq_issue_id :: id
  wrq_workspace_id :: id
  wrq_target_agent_id :: id
  wrq_authority_kind :: string
  wrq_parent_run_id :: "id option"
  wrq_run_id :: "id option"
  wrq_delegation_id :: "id option"
  wrq_sealed_at :: "time option"
  wrq_closed_at :: "time option"
  wrq_created_at :: time
  wrq_updated_at :: time

text \<open>
  What a comment asked of whom, by name or by its place in the discussion, and the work request that came of it: tables
  issue_comment_mentions and issue_comment_implicit_triggers.
\<close>

record mention =
  mnt_id :: id
  mnt_project_id :: id
  mnt_issue_id :: id
  mnt_comment_id :: id
  mnt_ordinal :: int
  mnt_target_agent_id :: id
  mnt_target_type :: string
  mnt_target_id :: id
  mnt_resolved_agent_id :: "id option"
  mnt_outcome :: string
  mnt_reason_code :: "string option"
  mnt_delegation_id :: "id option"
  mnt_work_request_id :: "id option"
  mnt_created_at :: time

record implicit_trigger =
  imt_project_id :: id
  imt_issue_id :: id
  imt_comment_id :: id
  imt_target_agent_id :: id
  imt_target_type :: string
  imt_target_id :: id
  imt_resolved_agent_id :: "id option"
  imt_routing_reason :: string
  imt_outcome :: string
  imt_reason_code :: "string option"
  imt_delegation_id :: "id option"
  imt_work_request_id :: "id option"
  imt_created_at :: time

record job =
  job_id :: id
  job_project_id :: id
  job_run_id :: id
  job_kind :: job_kind
  job_state :: job_state
  job_wait_reason :: "string option"
  job_idempotency_key :: string
  job_available_at :: time
  job_created_at :: time
  job_updated_at :: time

record lease =
  lse_job_id :: id
  lse_owner_id :: string
  lse_token :: id
  lse_acquired_at :: time
  lse_expires_at :: time

record reservation =
  rsv_id :: id
  rsv_project_id :: id
  rsv_job_id :: id
  rsv_run_id :: id
  rsv_kind :: resource_kind
  rsv_resource_id :: id

record session =
  ses_id :: id
  ses_project_id :: id
  ses_run_id :: id
  ses_runner_id :: "id option"
  ses_status :: session_status
  ses_started_at :: "time option"
  ses_completed_at :: "time option"
  ses_updated_at :: time

record question =
  qst_id :: id
  qst_project_id :: id
  qst_issue_id :: id
  qst_run_id :: id
  qst_prompt :: string
  qst_kind :: string
  qst_options :: json
  qst_recommendation :: "string option"
  qst_custom :: bool
  qst_blocking :: bool
  qst_status :: question_status
  qst_created_at :: time
  qst_answered_at :: "time option"

record binding =
  bnd_question_id :: id
  bnd_project_id :: id
  bnd_run_id :: id
  bnd_engine :: string
  bnd_correlation_key :: string
  bnd_state :: binding_state

record decision =
  dcs_id :: id
  dcs_project_id :: id
  dcs_issue_id :: "id option"
  dcs_run_id :: "id option"
  dcs_question_id :: "id option"
  dcs_kind :: string
  dcs_outcome :: string
  dcs_actor_type :: actor_type
  dcs_actor_id :: "string option"
  dcs_safe_details :: json
  dcs_created_at :: time

record review =
  rev_id :: id
  rev_project_id :: id
  rev_issue_id :: id
  rev_run_id :: id
  rev_status :: review_status
  rev_decision_id :: "id option"
  rev_base_revision :: "string option"
  rev_review_revision :: "string option"
  rev_requested_at :: time
  rev_decided_at :: "time option"
  rev_created_at :: time
  rev_updated_at :: time

record event =
  evt_id :: id
  evt_schema_version :: int
  evt_type :: string
  evt_occurred_at :: time
  evt_project_id :: id
  evt_issue_id :: "id option"
  evt_run_id :: "id option"
  evt_agent_id :: "id option"
  evt_workspace_id :: "id option"
  evt_runtime_instance_id :: "id option"
  evt_correlation_id :: "id option"
  evt_parent_event_id :: "id option"
  evt_sequence :: "int option"
  evt_actor :: json
  evt_payload :: json
  evt_created_at :: time

section \<open>Identity and access\<close>

text \<open>
  Users, their sessions and password tokens, groups, and the roles granted in projects. Status, role and purpose
  columns are text under a CHECK constraint. \<open>idn_lower\<close> is PostgreSQL's \<open>lower\<close>, which depends on the locale of
  the database.
\<close>

record user =
  usr_id :: id
  usr_username :: string
  usr_email :: string
  usr_display_name :: string
  usr_password_hash :: "string option"
  usr_deployment_role :: string
  usr_status :: string
  usr_force_password_change :: bool
  usr_auth_version :: int
  usr_created_at :: time
  usr_updated_at :: time

record auth_session =
  ase_id :: id
  ase_user_id :: id
  ase_refresh_token_hash :: string
  ase_expires_at :: time
  ase_revoked_at :: "time option"
  ase_created_at :: time
  ase_last_used_at :: "time option"

record password_token =
  pwt_id :: id
  pwt_user_id :: id
  pwt_purpose :: string
  pwt_token_hash :: string
  pwt_expires_at :: time
  pwt_consumed_at :: "time option"
  pwt_revoked_at :: "time option"
  pwt_created_at :: time

record user_group =
  grp_id :: id
  grp_name :: string
  grp_created_at :: time
  grp_updated_at :: time

text \<open>A row of project_user_access or project_group_access: the project, the user or group, the role.\<close>

record grant =
  grn_project_id :: id
  grn_grantee_id :: id
  grn_role :: string

text \<open>The only row of auth_settings; lifetimes are in seconds.\<close>

record auth_settings =
  ast_access_seconds :: int
  ast_refresh_seconds :: int
  ast_minimum_length :: int
  ast_require_uppercase :: bool
  ast_require_lowercase :: bool
  ast_require_number :: bool
  ast_require_symbol :: bool

record identity =
  idn_lower :: "string \<Rightarrow> string"
  idn_users :: "user list"
  idn_groups :: "user_group list"
  idn_group_members :: "(id \<times> id) list"  \<comment> \<open>group and user\<close>
  idn_user_access :: "grant list"
  idn_group_access :: "grant list"
  idn_sessions :: "auth_session list"
  idn_refresh_tokens :: "(id \<times> string) list"  \<comment> \<open>session and every hash it ever had\<close>
  idn_password_tokens :: "password_token list"
  idn_settings :: "auth_settings list"

section \<open>The database\<close>

text \<open>
  Next to the tables the state carries what PostgreSQL supplies: the transaction timestamp
  \<open>now()\<close>, the values \<open>gen_random_uuid()\<close> returns in the order of its calls, and the
  text \<open>->>\<close> gives for a nested JSON value. The last two are parameters: nothing is
  assumed of them except where a lemma says so (uniqueness of keys comes from the UNIQUE
  constraints, which the inserts check).
\<close>

record db =
  db_now :: time
  db_uuid_source :: "nat \<Rightarrow> id"
  db_uuid_next :: nat
  db_json_text :: "json \<Rightarrow> string"
  db_projects :: "project list"
  db_providers :: "provider list"
  db_model_profiles :: "model_profile list"
  db_agents :: "agent list"
  db_runners :: "runner list"
  db_project_runners :: "(id \<times> id) list"
  db_issues :: "issue list"
  db_squads :: "squad list"
  db_comments :: "comment list"
  db_workspaces :: "workspace list"
  db_runs :: "run list"
  db_delegations :: "delegation list"
  db_work_requests :: "work_request list"
  db_mentions :: "mention list"
  db_implicit_triggers :: "implicit_trigger list"
  db_reactions :: "reaction list"
  db_subscriptions :: "subscription list"
  db_notifications :: "notification list"
  db_jobs :: "job list"
  db_leases :: "lease list"
  db_reservations :: "reservation list"
  db_sessions :: "session list"
  db_questions :: "question list"
  db_bindings :: "binding list"
  db_decisions :: "decision list"
  db_reviews :: "review list"
  db_events :: "event list"
  db_identity :: identity

text \<open>A transaction at time \<open>now\<close>, and one statement run outside a transaction.\<close>

definition run_tx :: "time \<Rightarrow> (db, 'a) tx \<Rightarrow> db \<Rightarrow> (store_error + 'a) \<times> db" where
  "run_tx now m d = tx_commit (\<lambda>d. m (d\<lparr>db_now := now\<rparr>)) d"

definition gen_random_uuid :: "(db, id) tx" where
  "gen_random_uuid =
     (\<lambda>d. (Inr (db_uuid_source d (db_uuid_next d)), d\<lparr>db_uuid_next := Suc (db_uuid_next d)\<rparr>))"

lemma run_tx_run [tx_run]:
  "run_tx now m d = (case m (d\<lparr>db_now := now\<rparr>) of (Inl e, _) \<Rightarrow> (Inl e, d) | (Inr x, d') \<Rightarrow> (Inr x, d'))"
  by (simp add: run_tx_def tx_commit_def)

lemma gen_random_uuid_run [tx_run]:
  "gen_random_uuid d = (Inr (db_uuid_source d (db_uuid_next d)), d\<lparr>db_uuid_next := Suc (db_uuid_next d)\<rparr>)"
  by (simp add: gen_random_uuid_def)

lemma run_tx_Inr [tx_simps]:
  "run_tx now m d = (Inr x, d') \<longleftrightarrow> m (d\<lparr>db_now := now\<rparr>) = (Inr x, d')"
  by (simp add: run_tx_def tx_simps)

lemma run_tx_Inl:
  "run_tx now m d = (Inl e, d') \<longleftrightarrow> d' = d \<and> (\<exists>d''. m (d\<lparr>db_now := now\<rparr>) = (Inl e, d''))"
  by (simp add: run_tx_def tx_commit_Inl)

lemma run_tx_rollback: "run_tx now m d = (Inl e, d') \<Longrightarrow> d' = d"
  by (simp add: run_tx_Inl)

lemma gen_random_uuid_eq [tx_simps]:
  "gen_random_uuid d = (r, d') \<longleftrightarrow>
     r = Inr (db_uuid_source d (db_uuid_next d)) \<and>
     d' = d\<lparr>db_uuid_next := Suc (db_uuid_next d)\<rparr>"
  by (auto simp: gen_random_uuid_def)

text \<open>\<open>payload->>'key'\<close>: the text of a field, NULL when it is absent or a JSON null.\<close>

fun json_field :: "json \<Rightarrow> string \<Rightarrow> json option" where
  "json_field (JObj fs) k = map_of fs k"
| "json_field _ k = None"

definition json_text :: "db \<Rightarrow> json \<Rightarrow> string \<Rightarrow> string option" where
  "json_text d j k =
     (case json_field j k of
        None \<Rightarrow> None
      | Some JNull \<Rightarrow> None
      | Some (JStr s) \<Rightarrow> Some s
      | Some v \<Rightarrow> Some (db_json_text d v))"

text \<open>\<open>x IS NULL OR x = y\<close>, the visibility test of project-scoped configuration.\<close>

definition visible_to :: "id option \<Rightarrow> id \<Rightarrow> bool" where
  "visible_to owner project \<longleftrightarrow> owner = None \<or> owner = Some project"

text \<open>Statuses by group, as the statements list them.\<close>

definition terminal_run :: "run_status \<Rightarrow> bool" where
  "terminal_run s \<longleftrightarrow> s = RUN_COMPLETED \<or> s = RUN_FAILED \<or> s = RUN_CANCELLED"

definition live_session :: "session_status \<Rightarrow> bool" where
  "live_session s \<longleftrightarrow> s = SES_PENDING \<or> s = SES_STARTING \<or> s = SES_RUNNING"

text \<open>Wait and queue reasons the scheduler writes.\<close>

definition SchedulerWaitAgentCapacity :: string where
  "SchedulerWaitAgentCapacity = ''agent_capacity''"

definition SchedulerWaitModelCapacity :: string where
  "SchedulerWaitModelCapacity = ''model_capacity''"

definition SchedulerWaitWorkspace :: string where
  "SchedulerWaitWorkspace = ''workspace_occupied''"

definition schedulerConfigurationWaitReason :: string where
  "schedulerConfigurationWaitReason = ''configuration_unavailable''"

definition schedulerRunnerCapacity :: string where
  "schedulerRunnerCapacity = ''runner_capacity''"

definition schedulerReconciliationRetryReason :: string where
  "schedulerReconciliationRetryReason = ''reconciliation_retry''"

definition DelegationWorkspaceHandoffWaitReason :: string where
  "DelegationWorkspaceHandoffWaitReason = ''delegation_handoff''"

definition DelegationWorkspaceHandoffReadyReason :: string where
  "DelegationWorkspaceHandoffReadyReason = ''delegation_handoff_ready''"

lemma handoff_reasons_distinct [simp]:
  "DelegationWorkspaceHandoffWaitReason \<noteq> DelegationWorkspaceHandoffReadyReason"
  "DelegationWorkspaceHandoffReadyReason \<noteq> DelegationWorkspaceHandoffWaitReason"
  by (simp_all add: DelegationWorkspaceHandoffWaitReason_def
        DelegationWorkspaceHandoffReadyReason_def)

section \<open>The tables as keyed tables\<close>

interpretation runs: keyed_table db_runs db_runs_update run_id
  by unfold_locales simp

interpretation jobs: keyed_table db_jobs db_jobs_update job_id
  by unfold_locales simp

interpretation job_keys: keyed_table db_jobs db_jobs_update job_idempotency_key
  by unfold_locales simp

interpretation leases: keyed_table db_leases db_leases_update lse_job_id
  by unfold_locales simp

interpretation lease_tokens: keyed_table db_leases db_leases_update lse_token
  by unfold_locales simp

interpretation delegations: keyed_table db_delegations db_delegations_update dlg_delegated_run_id
  by unfold_locales simp

section \<open>Frames of the database\<close>

locale db_frame = tx_frame R for R :: "db \<Rightarrow> db \<Rightarrow> bool" +
  assumes clock: "R d (d\<lparr>db_now := now\<rparr>)"
    and uuid: "R d (d\<lparr>db_uuid_next := n\<rparr>)"
begin

lemma keeps_uuid: "tx_keeps R gen_random_uuid"
  by (rule tx_keepsI) (auto simp: tx_simps uuid)

text \<open>A whole transaction keeps the relation, committed or rolled back.\<close>

lemma keeps_run_tx:
  assumes "tx_keeps R m" "run_tx now m d = (r, d')"
  shows "R d d'"
proof (cases r)
  case (Inl e) with assms(2) show ?thesis using refl by (simp add: run_tx_Inl)
next
  case (Inr x)
  with assms have "R (d\<lparr>db_now := now\<rparr>) d'" by (auto simp: tx_simps dest: tx_keepsD)
  then show ?thesis using clock trans by blast
qed

end

end
