(* ===== verification/Sample.thy ===== *)
theory Sample
  imports Store_Model
begin

text \<open>
  A small database on which the statements of the development are evaluated: one project
  with an Issue in a Workspace, two Agents on one Model Profile, a Runner, and a queued Run
  with its START job. Identifiers are short texts instead of uuids.
\<close>

definition sample_uuid :: "nat \<Rightarrow> id" where
  "sample_uuid n = ''u'' @ replicate n (CHR ''x'')"

definition sample_agent :: "id \<Rightarrow> agent" where
  "sample_agent a = \<lparr>agt_id = a, agt_name = ''Agent'', agt_project_id = None, agt_engine = ''codex'',
     agt_model_profile_id = ''m1'', agt_concurrency_limit = 1, agt_allow_delegation = True,
     agt_state = AGT_ENABLED\<rparr>"

definition sample_run :: "id \<Rightarrow> int \<Rightarrow> run_status \<Rightarrow> run" where
  "sample_run r n st = \<lparr>run_id = r, run_project_id = ''p1'', run_issue_id = ''i1'',
     run_workspace_id = ''w1'', run_agent_id = Some ''a1'', run_attempt = n, run_status = st,
     run_queue_reason = None, run_failure_reason = None, run_event_sequence = 0,
     run_created_at = 10, run_started_at = None, run_completed_at = None, run_updated_at = 10\<rparr>"

definition sample_job :: "id \<Rightarrow> id \<Rightarrow> job_kind \<Rightarrow> job_state \<Rightarrow> job" where
  "sample_job j r k st = \<lparr>job_id = j, job_project_id = ''p1'', job_run_id = r, job_kind = k,
     job_state = st, job_wait_reason = None, job_idempotency_key = ''run:'' @ r @ '':start'',
     job_available_at = 10, job_created_at = 10, job_updated_at = 10\<rparr>"

definition sample_lease :: lease where
  "sample_lease = \<lparr>lse_job_id = ''j1'', lse_owner_id = ''server'', lse_token = ''t1'',
     lse_acquired_at = 20, lse_expires_at = 100\<rparr>"

definition sample_reservation :: "id \<Rightarrow> resource_kind \<Rightarrow> id \<Rightarrow> reservation" where
  "sample_reservation v k x = \<lparr>rsv_id = v, rsv_project_id = ''p1'', rsv_job_id = ''j1'',
     rsv_run_id = ''r1'', rsv_kind = k, rsv_resource_id = x\<rparr>"

text \<open>A human comment, and two users: an administrator of the deployment and of the project, and a member.\<close>

definition sample_comment :: comment where
  "sample_comment = \<lparr>cmt_id = ''c1'', cmt_issue_id = ''i1'', cmt_parent_comment_id = None, cmt_author_type = ACT_HUMAN,
     cmt_author_id = ''h1'', cmt_source_run_id = None, cmt_source_action_key = None, cmt_body = Some ''please help'',
     cmt_suppress_implicit = False, cmt_deleted_at = None, cmt_resolved_at = None, cmt_resolved_by_user_id = None,
     cmt_created_at = 5, cmt_updated_at = 5\<rparr>"

definition sample_user :: "id \<Rightarrow> string \<Rightarrow> user" where
  "sample_user u role = \<lparr>usr_id = u, usr_username = u, usr_email = u @ ''@x'', usr_display_name = u,
     usr_password_hash = Some ''hash'', usr_deployment_role = role, usr_status = ''active'',
     usr_force_password_change = False, usr_auth_version = 1, usr_created_at = 1, usr_updated_at = 1\<rparr>"

definition sample_identity :: identity where
  "sample_identity = \<lparr>idn_lower = (\<lambda>s. s), idn_users = [sample_user ''h1'' ''admin'', sample_user ''h2'' ''member''],
     idn_groups = [], idn_group_members = [],
     idn_user_access = [\<lparr>grn_project_id = ''p1'', grn_grantee_id = ''h1'', grn_role = ''admin''\<rparr>,
       \<lparr>grn_project_id = ''p1'', grn_grantee_id = ''h2'', grn_role = ''member''\<rparr>],
     idn_group_access = [], idn_sessions = [], idn_refresh_tokens = [], idn_password_tokens = [],
     idn_settings = [\<lparr>ast_access_seconds = 3600, ast_refresh_seconds = 2592000, ast_minimum_length = 12,
       ast_require_uppercase = False, ast_require_lowercase = False, ast_require_number = False, ast_require_symbol = False\<rparr>]\<rparr>"

text \<open>The database with a queued job, and with the same job claimed and running.\<close>

definition sample_queued :: db where
  "sample_queued = \<lparr>db_now = 0, db_uuid_source = sample_uuid, db_uuid_next = 0,
     db_json_text = (\<lambda>_. ''json''),
     db_projects = [\<lparr>prj_id = ''p1'', prj_name = ''Project'', prj_issue_prefix = ''AB'', prj_next_issue_number = 2,
       prj_clone_url = None, prj_source_ref = None, prj_workflow_settings = JObj [], prj_created_at = 1, prj_updated_at = 1,
       prj_repository_path = ''/repo'',
       prj_default_branch = ''main'', prj_source_type = ''local'', prj_allow_internal_runner = True\<rparr>],
     db_providers = [\<lparr>prv_id = ''v1'', prv_enabled = True, prv_unhealthy = False\<rparr>],
     db_model_profiles = [\<lparr>mdl_id = ''m1'', mdl_project_id = None, mdl_provider_id = ''v1'',
       mdl_max_concurrent = Some 2, mdl_enabled = True\<rparr>],
     db_agents = [sample_agent ''a1'', sample_agent ''a2''],
     db_runners = [\<lparr>rnr_id = ''n1'', rnr_project_id = None, rnr_internal = False, rnr_revoked_at = None,
       rnr_deleted_at = None, rnr_max_active_sessions = Some ''2'', rnr_created_at = 1\<rparr>],
     db_project_runners = [],
     db_issues = [\<lparr>iss_id = ''i1'', iss_project_id = ''p1'', iss_number = 1, iss_title = ''Title'',
       iss_description = '''', iss_status = ISS_TODO, iss_priority = 2, iss_board_position = 0,
       iss_assignee_type = Some ''AGENT'', iss_assignee_id = Some ''a1'', iss_created_by_type = None,
       iss_created_by_id = None, iss_created_at = 1,
       iss_updated_at = 1\<rparr>],
     db_squads = [],
     db_comments = [sample_comment],
     db_workspaces = [\<lparr>wsp_id = ''w1'', wsp_project_id = ''p1'', wsp_issue_id = ''i1'', wsp_path = ''/w'',
       wsp_repository_path = Some ''/repo'', wsp_base_branch = Some ''main'', wsp_base_revision = Some ''aaa'',
       wsp_working_branch = ''work'', wsp_current_branch = Some ''work'', wsp_current_revision = Some ''bbb'',
       wsp_bootstrap_status = ''READY'', wsp_created_at = 1, wsp_updated_at = 1\<rparr>],
     db_runs = [sample_run ''r1'' 1 RUN_QUEUED],
     db_delegations = [], db_work_requests = [], db_mentions = [], db_implicit_triggers = [],
     db_reactions = [], db_subscriptions = [], db_notifications = [],
     db_jobs = [sample_job ''j1'' ''r1'' JOB_START JOB_QUEUED],
     db_leases = [], db_reservations = [], db_sessions = [], db_questions = [], db_bindings = [],
     db_decisions = [], db_reviews = [], db_events = [], db_identity = sample_identity\<rparr>"

definition sample_claimed :: db where
  "sample_claimed = sample_queued\<lparr>db_runs := [sample_run ''r1'' 1 RUN_RUNNING],
     db_jobs := [sample_job ''j1'' ''r1'' JOB_START JOB_CLAIMED], db_leases := [sample_lease],
     db_reservations := [sample_reservation ''v1'' RES_RUNNER ''n1'',
       sample_reservation ''v2'' RES_AGENT ''a1'', sample_reservation ''v3'' RES_MODEL_PROFILE ''m1'']\<rparr>"

text \<open>The delegation of work from Run \<open>r1\<close> of Agent \<open>a1\<close> to Run \<open>r2\<close> of Agent \<open>a2\<close>.\<close>

definition sample_delegation :: delegation where
  "sample_delegation = \<lparr>dlg_id = ''g1'', dlg_project_id = ''p1'', dlg_issue_id = ''i1'',
     dlg_parent_run_id = Some ''r1'', dlg_parent_agent_id = Some ''a1'', dlg_source_comment_id = None,
     dlg_target_agent_id = ''a2'', dlg_task = ''task'', dlg_delegated_run_id = ''r2'',
     dlg_request_key = ''k'', dlg_outcome = None, dlg_result_summary = None,
     dlg_result_event_id = None, dlg_workspace_changes_accepted = None,
     dlg_continuation_job_id = None, dlg_completed_at = None, dlg_created_at = 12, dlg_updated_at = 12\<rparr>"

definition sample_child :: "run_status \<Rightarrow> run" where
  "sample_child st = (sample_run ''r2'' 2 st)\<lparr>run_agent_id := Some ''a2''\<rparr>"

definition sample_delegated :: "run_status \<Rightarrow> run_status \<Rightarrow> db" where
  "sample_delegated parent child = sample_queued\<lparr>
     db_runs := [sample_run ''r1'' 1 parent, sample_child child],
     db_delegations := [sample_delegation],
     db_jobs := [sample_job ''j1'' ''r1'' JOB_START JOB_DONE, sample_job ''j2'' ''r2'' JOB_START JOB_QUEUED]\<rparr>"

text \<open>Evaluation on the sample: one equation per table and column.\<close>

named_theorems sample_eval "the contents of the sample database"

lemma sample_tables [sample_eval]:
  "db_now sample_queued = 0"
  "db_uuid_source sample_queued = sample_uuid"
  "db_uuid_next sample_queued = 0"
  "db_json_text sample_queued = (\<lambda>_. ''json'')"
  "db_projects sample_queued = [\<lparr>prj_id = ''p1'', prj_name = ''Project'', prj_issue_prefix = ''AB'', prj_next_issue_number = 2,
       prj_clone_url = None, prj_source_ref = None, prj_workflow_settings = JObj [], prj_created_at = 1, prj_updated_at = 1,
       prj_repository_path = ''/repo'',
       prj_default_branch = ''main'', prj_source_type = ''local'', prj_allow_internal_runner = True\<rparr>]"
  "db_providers sample_queued = [\<lparr>prv_id = ''v1'', prv_enabled = True, prv_unhealthy = False\<rparr>]"
  "db_model_profiles sample_queued = [\<lparr>mdl_id = ''m1'', mdl_project_id = None, mdl_provider_id = ''v1'',
       mdl_max_concurrent = Some 2, mdl_enabled = True\<rparr>]"
  "db_agents sample_queued = [sample_agent ''a1'', sample_agent ''a2'']"
  "db_runners sample_queued = [\<lparr>rnr_id = ''n1'', rnr_project_id = None, rnr_internal = False, rnr_revoked_at = None,
       rnr_deleted_at = None, rnr_max_active_sessions = Some ''2'', rnr_created_at = 1\<rparr>]"
  "db_project_runners sample_queued = []"
  "db_issues sample_queued = [\<lparr>iss_id = ''i1'', iss_project_id = ''p1'', iss_number = 1, iss_title = ''Title'',
       iss_description = '''', iss_status = ISS_TODO, iss_priority = 2, iss_board_position = 0,
       iss_assignee_type = Some ''AGENT'', iss_assignee_id = Some ''a1'', iss_created_by_type = None,
       iss_created_by_id = None, iss_created_at = 1,
       iss_updated_at = 1\<rparr>]"
  "db_squads sample_queued = []"
  "db_comments sample_queued = [sample_comment]"
  "db_workspaces sample_queued = [\<lparr>wsp_id = ''w1'', wsp_project_id = ''p1'', wsp_issue_id = ''i1'', wsp_path = ''/w'',
       wsp_repository_path = Some ''/repo'', wsp_base_branch = Some ''main'', wsp_base_revision = Some ''aaa'',
       wsp_working_branch = ''work'', wsp_current_branch = Some ''work'', wsp_current_revision = Some ''bbb'',
       wsp_bootstrap_status = ''READY'', wsp_created_at = 1, wsp_updated_at = 1\<rparr>]"
  "db_runs sample_queued = [sample_run ''r1'' 1 RUN_QUEUED]"
  "db_delegations sample_queued = []"
  "db_work_requests sample_queued = []"
  "db_mentions sample_queued = []"
  "db_implicit_triggers sample_queued = []"
  "db_reactions sample_queued = []"
  "db_subscriptions sample_queued = []"
  "db_notifications sample_queued = []"
  "db_identity sample_queued = sample_identity"
  "db_jobs sample_queued = [sample_job ''j1'' ''r1'' JOB_START JOB_QUEUED]"
  "db_leases sample_queued = []"
  "db_reservations sample_queued = []"
  "db_sessions sample_queued = []"
  "db_questions sample_queued = []"
  "db_bindings sample_queued = []"
  "db_decisions sample_queued = []"
  "db_reviews sample_queued = []"
  "db_events sample_queued = []"
  by (simp_all add: sample_queued_def)

lemma sample_agent_columns [sample_eval]:
  "agt_id (sample_agent a) = a" "agt_name (sample_agent a) = ''Agent''" "agt_project_id (sample_agent a) = None"
  "agt_engine (sample_agent a) = ''codex''" "agt_model_profile_id (sample_agent a) = ''m1''"
  "agt_concurrency_limit (sample_agent a) = 1" "agt_allow_delegation (sample_agent a) = True"
  "agt_state (sample_agent a) = AGT_ENABLED"
  by (simp_all add: sample_agent_def)

lemma sample_comment_columns [sample_eval]:
  "cmt_id sample_comment = ''c1''" "cmt_issue_id sample_comment = ''i1''" "cmt_parent_comment_id sample_comment = None"
  "cmt_author_type sample_comment = ACT_HUMAN" "cmt_author_id sample_comment = ''h1''"
  "cmt_source_run_id sample_comment = None" "cmt_source_action_key sample_comment = None"
  "cmt_body sample_comment = Some ''please help''" "cmt_suppress_implicit sample_comment = False"
  "cmt_deleted_at sample_comment = None" "cmt_resolved_at sample_comment = None"
  "cmt_resolved_by_user_id sample_comment = None" "cmt_created_at sample_comment = 5" "cmt_updated_at sample_comment = 5"
  by (simp_all add: sample_comment_def)

lemma sample_run_columns [sample_eval]:
  "run_id (sample_run r n st) = r" "run_project_id (sample_run r n st) = ''p1''"
  "run_issue_id (sample_run r n st) = ''i1''" "run_workspace_id (sample_run r n st) = ''w1''"
  "run_agent_id (sample_run r n st) = Some ''a1''" "run_attempt (sample_run r n st) = n"
  "run_status (sample_run r n st) = st" "run_queue_reason (sample_run r n st) = None"
  "run_failure_reason (sample_run r n st) = None" "run_event_sequence (sample_run r n st) = 0"
  "run_created_at (sample_run r n st) = 10" "run_started_at (sample_run r n st) = None"
  "run_completed_at (sample_run r n st) = None" "run_updated_at (sample_run r n st) = 10"
  by (simp_all add: sample_run_def)

lemma sample_job_columns [sample_eval]:
  "job_id (sample_job j r k s) = j" "job_project_id (sample_job j r k s) = ''p1''"
  "job_run_id (sample_job j r k s) = r" "job_kind (sample_job j r k s) = k"
  "job_state (sample_job j r k s) = s" "job_wait_reason (sample_job j r k s) = None"
  "job_idempotency_key (sample_job j r k s) = ''run:'' @ r @ '':start''"
  "job_available_at (sample_job j r k s) = 10" "job_created_at (sample_job j r k s) = 10"
  by (simp_all add: sample_job_def)

lemma sample_claim_columns [sample_eval]:
  "lse_job_id sample_lease = ''j1''" "lse_owner_id sample_lease = ''server''" "lse_token sample_lease = ''t1''"
  "lse_acquired_at sample_lease = 20" "lse_expires_at sample_lease = 100"
  "rsv_id (sample_reservation v k x) = v" "rsv_project_id (sample_reservation v k x) = ''p1''"
  "rsv_job_id (sample_reservation v k x) = ''j1''" "rsv_run_id (sample_reservation v k x) = ''r1''"
  "rsv_kind (sample_reservation v k x) = k" "rsv_resource_id (sample_reservation v k x) = x"
  by (simp_all add: sample_lease_def sample_reservation_def)

lemma sample_delegation_columns [sample_eval]:
  "dlg_id sample_delegation = ''g1''" "dlg_project_id sample_delegation = ''p1''"
  "dlg_issue_id sample_delegation = ''i1''" "dlg_parent_run_id sample_delegation = Some ''r1''"
  "dlg_parent_agent_id sample_delegation = Some ''a1''" "dlg_source_comment_id sample_delegation = None"
  "dlg_target_agent_id sample_delegation = ''a2''" "dlg_delegated_run_id sample_delegation = ''r2''"
  "dlg_outcome sample_delegation = None"
  by (simp_all add: sample_delegation_def)

lemmas sample_states = sample_claimed_def sample_delegated_def sample_child_def

text \<open>Texts of the sample that are not blank.\<close>

lemma sample_texts [sample_eval]:
  "TrimSpace ''p1'' = ''p1''" "TrimSpace ''j1'' = ''j1''" "TrimSpace ''j2'' = ''j2''" "TrimSpace ''r1'' = ''r1''"
  "TrimSpace ''r2'' = ''r2''" "TrimSpace ''t1'' = ''t1''" "TrimSpace ''srv'' = ''srv''"
  by code_simp+

lemma sample_uuids [sample_eval]:
  "sample_uuid n = sample_uuid m \<longleftrightarrow> n = m" "sample_uuid n = [] \<longleftrightarrow> False"
  by (auto simp: sample_uuid_def)

lemma sample_uuid_Cons [sample_eval]:
  "sample_uuid n = c # s \<longleftrightarrow> c = CHR ''u'' \<and> s = replicate n (CHR ''x'')"
  "c # s = sample_uuid n \<longleftrightarrow> c = CHR ''u'' \<and> s = replicate n (CHR ''x'')"
  by (auto simp: sample_uuid_def)

end
