(* ===== verification/Events.thy ===== *)
theory Events
  imports Store_Model Sample
begin

text \<open>
  The append-only Event stream (store/postgres/event_tx.go and the reference check of
  evidence.go). Appending an Event to a Run takes the next sequence number of that Run; the
  sequence numbers of a Run's Events are therefore 1, 2, 3, ... in append order.
\<close>

section \<open>Appending an Event\<close>

text \<open>\<open>objectJSON\<close>: a nil message (here a JSON null) becomes the empty object.\<close>

definition EmptyObject :: json where
  "EmptyObject = JObj []"

definition objectJSON :: "json \<Rightarrow> json" where
  "objectJSON j = (if j = JNull then EmptyObject else j)"

definition is_object :: "json \<Rightarrow> bool" where
  "is_object j \<longleftrightarrow> (case j of JObj _ \<Rightarrow> True | _ \<Rightarrow> False)"

text \<open>The zero value of Go's \<open>store.Event\<close>, from which callers build their Events.\<close>

definition zero_event :: event where
  "zero_event = \<lparr>evt_id = '''', evt_schema_version = 0, evt_type = '''',
     evt_occurred_at = zero_time, evt_project_id = '''', evt_issue_id = None, evt_run_id = None,
     evt_agent_id = None, evt_workspace_id = None, evt_runtime_instance_id = None,
     evt_correlation_id = None, evt_parent_event_id = None, evt_sequence = None,
     evt_actor = JNull, evt_payload = JNull, evt_created_at = zero_time\<rparr>"

text \<open>An Event about a Run: the fields every Run-scoped caller fills in.\<close>

definition run_event :: "run \<Rightarrow> string \<Rightarrow> json \<Rightarrow> event" where
  "run_event r ty payload = zero_event\<lparr>evt_type := ty, evt_project_id := run_project_id r,
     evt_issue_id := Some (run_issue_id r), evt_run_id := Some (run_id r),
     evt_agent_id := run_agent_id r, evt_workspace_id := Some (run_workspace_id r),
     evt_actor := EmptyObject, evt_payload := payload\<rparr>"

definition event_references_valid :: "db \<Rightarrow> event \<Rightarrow> bool" where
  "event_references_valid d input \<longleftrightarrow>
     (case evt_agent_id input of
        None \<Rightarrow> True
      | Some a \<Rightarrow> exists_row (\<lambda>g. agt_id g = a \<and> visible_to (agt_project_id g) (evt_project_id input))
                    (db_agents d)) \<and>
     (case evt_parent_event_id input of
        None \<Rightarrow> True
      | Some p \<Rightarrow> exists_row (\<lambda>v. evt_id v = p \<and> evt_project_id v = evt_project_id input)
                    (db_events d))"

definition validateEventReferences :: "event \<Rightarrow> (db, unit) tx" where
  "validateEventReferences input = (\<lambda>d. tx_guard (event_references_valid d input) ErrNotFound d)"

text \<open>The constraints of table events.\<close>

definition event_unique :: "event \<Rightarrow> event \<Rightarrow> bool" where
  "event_unique a b \<longleftrightarrow> evt_id a = evt_id b \<or>
     (evt_run_id a \<noteq> None \<and> evt_run_id a = evt_run_id b \<and> evt_sequence a = evt_sequence b)"

definition event_check :: "db \<Rightarrow> event \<Rightarrow> pg_error option" where
  "event_check d e =
     (if \<not> (is_object (evt_actor e) \<and> is_object (evt_payload e) \<and> 1 \<le> evt_schema_version e \<and>
             (evt_run_id e = None \<longleftrightarrow> evt_sequence e = None) \<and>
             (case evt_sequence e of None \<Rightarrow> True | Some q \<Rightarrow> 1 \<le> q))
      then Some CheckViolation
      else if exists_row (\<lambda>p. prj_id p = evt_project_id e) (db_projects d) \<and>
         (case evt_issue_id e of None \<Rightarrow> True
          | Some i \<Rightarrow> exists_row (\<lambda>x. iss_project_id x = evt_project_id e \<and> iss_id x = i) (db_issues d)) \<and>
         (case evt_run_id e of None \<Rightarrow> True
          | Some r \<Rightarrow> exists_row (\<lambda>x. run_project_id x = evt_project_id e \<and> run_id x = r) (db_runs d)) \<and>
         (case evt_workspace_id e of None \<Rightarrow> True
          | Some w \<Rightarrow> exists_row (\<lambda>x. wsp_project_id x = evt_project_id e \<and> wsp_id x = w) (db_workspaces d))
      then None else Some ForeignKeyViolation)"

text \<open>The sequence number of the new Event: the Run's counter, advanced.\<close>

definition next_event_sequence :: "event \<Rightarrow> (db, int option) tx" where
  "next_event_sequence input =
     (case evt_run_id input of
        None \<Rightarrow> tx_return None
      | Some r \<Rightarrow>
          tx_bind (sql_update_row db_runs db_runs_update
                     (\<lambda>d x. run_project_id x = evt_project_id input \<and> run_id x = r)
                     (\<lambda>d x. x\<lparr>run_event_sequence := run_event_sequence x + 1\<rparr>))
            (\<lambda>x. tx_return (Some (run_event_sequence x))))"

text \<open>The row an append inserts.\<close>

definition appended_event :: "event \<Rightarrow> int option \<Rightarrow> id \<Rightarrow> time \<Rightarrow> event" where
  "appended_event input q uid now = input\<lparr>evt_id := uid,
     evt_schema_version := (if evt_schema_version input = 0 then 1 else evt_schema_version input),
     evt_occurred_at := (if evt_occurred_at input = zero_time then now else evt_occurred_at input),
     evt_sequence := q,
     evt_actor := objectJSON (evt_actor input), evt_payload := objectJSON (evt_payload input),
     evt_created_at := now\<rparr>"

definition appendEventTx :: "event \<Rightarrow> (db, event) tx" where
  "appendEventTx input =
     tx_bind (validateEventReferences input) (\<lambda>_.
     tx_bind (next_event_sequence input) (\<lambda>sequence.
     tx_bind gen_random_uuid (\<lambda>uid.
     tx_bind (tx_get db_now) (\<lambda>now.
     sql_insert db_events db_events_update event_unique event_check notFound
       (appended_event input sequence uid now)))))"

section \<open>What an append changes\<close>

text \<open>
  \<open>bumped\<close>: the same row but for its event counter, the only change an append makes to
  a Run.
\<close>

definition bump_run :: "id \<Rightarrow> id \<Rightarrow> run list \<Rightarrow> run list" where
  "bump_run project r =
     update_rows (\<lambda>x. run_project_id x = project \<and> run_id x = r)
       (\<lambda>x. x\<lparr>run_event_sequence := run_event_sequence x + 1\<rparr>)"

lemma appendEventTx_Inr:
  "appendEventTx input d = (Inr e, d') \<longleftrightarrow>
     (\<exists>q d1. event_references_valid d input \<and> next_event_sequence input d = (Inr q, d1) \<and>
        e = appended_event input q (db_uuid_source d1 (db_uuid_next d1)) (db_now d1) \<and>
        event_check (d1\<lparr>db_uuid_next := Suc (db_uuid_next d1)\<rparr>) e = None \<and>
        (\<forall>r\<in>set (db_events d1). \<not> event_unique r e) \<and>
        d' = d1\<lparr>db_uuid_next := Suc (db_uuid_next d1), db_events := db_events d1 @ [e]\<rparr>)"
  unfolding appendEventTx_def validateEventReferences_def
  by (auto simp: tx_simps)

lemma next_event_sequence_Inr:
  "next_event_sequence input d = (Inr q, d') \<Longrightarrow>
     d' = d\<lparr>db_runs := (case evt_run_id input of None \<Rightarrow> db_runs d
                        | Some r \<Rightarrow> bump_run (evt_project_id input) r (db_runs d))\<rparr> \<and>
     (case evt_run_id input of None \<Rightarrow> q = None
      | Some r \<Rightarrow> \<exists>x. List.find (\<lambda>x. run_project_id x = evt_project_id input \<and> run_id x = r)
                        (db_runs d) = Some x \<and> q = Some (run_event_sequence x + 1))"
  by (cases "evt_run_id input") (auto simp: next_event_sequence_def bump_run_def tx_simps)

text \<open>The state after a successful append, and the Event it returns.\<close>

lemma appendEventTx_state:
  assumes "appendEventTx input d = (Inr e, d')"
  shows "d' = d\<lparr>db_uuid_next := Suc (db_uuid_next d), db_events := db_events d @ [e],
            db_runs := (case evt_run_id input of None \<Rightarrow> db_runs d
                        | Some r \<Rightarrow> bump_run (evt_project_id input) r (db_runs d))\<rparr>"
  using assms unfolding appendEventTx_Inr
  by (elim exE conjE) (drule next_event_sequence_Inr, simp)

lemma appendEventTx_event:
  assumes "appendEventTx input d = (Inr e, d')"
  shows "evt_type e = evt_type input" "evt_project_id e = evt_project_id input"
    "evt_run_id e = evt_run_id input" "evt_payload e = objectJSON (evt_payload input)"
  using assms unfolding appendEventTx_Inr by (elim exE conjE, simp add: appended_event_def)+

section \<open>The sequence numbers of a Run\<close>

definition run_events :: "db \<Rightarrow> id \<Rightarrow> event list" where
  "run_events d r = filter (\<lambda>e. evt_run_id e = Some r) (db_events d)"

text \<open>
  The log of every Run is gapless: its Events carry the numbers 1 up to the Run's counter,
  in the order they were appended.
\<close>

definition event_log_wf :: "db \<Rightarrow> bool" where
  "event_log_wf d \<longleftrightarrow>
     distinct (map run_id (db_runs d)) \<and>
     (\<forall>e\<in>set (db_events d). evt_run_id e = None \<or> the (evt_run_id e) \<in> run_id ` set (db_runs d)) \<and>
     (\<forall>r\<in>set (db_runs d). 0 \<le> run_event_sequence r \<and>
        map evt_sequence (run_events d (run_id r)) = map Some [1..run_event_sequence r])"

lemma map_run_id_bump [simp]: "map run_id (bump_run p r rs) = map run_id rs"
  by (simp add: bump_run_def map_update_rows)

lemma in_bump_run:
  "x' \<in> set (bump_run p r rs) \<longleftrightarrow>
     (\<exists>x\<in>set rs. if run_project_id x = p \<and> run_id x = r
                 then x' = x\<lparr>run_event_sequence := run_event_sequence x + 1\<rparr> else x' = x)"
  by (auto simp: bump_run_def in_update_rows)

lemma event_log_wf_append:
  assumes wf: "event_log_wf d" and app: "appendEventTx input d = (Inr e, d')"
  shows "event_log_wf d'"
proof (cases "evt_run_id input")
  case None
  have "d' = d\<lparr>db_uuid_next := Suc (db_uuid_next d), db_events := db_events d @ [e]\<rparr>"
    using appendEventTx_state [OF app] None by simp
  moreover have "evt_run_id e = None" using appendEventTx_event(3) [OF app] None by simp
  ultimately show ?thesis using wf by (auto simp: event_log_wf_def run_events_def)
next
  case (Some r)
  let ?p = "evt_project_id input"
  from app obtain q d1 where seq: "next_event_sequence input d = (Inr q, d1)" and
    "evt_sequence e = q" unfolding appendEventTx_Inr by (auto simp: appended_event_def)
  then obtain x where x: "List.find (\<lambda>x. run_project_id x = ?p \<and> run_id x = r) (db_runs d) = Some x"
    and q: "evt_sequence e = Some (run_event_sequence x + 1)"
    using next_event_sequence_Inr [OF seq] Some by auto
  from x have x_in: "x \<in> set (db_runs d)" and x_id: "run_project_id x = ?p" "run_id x = r"
    by (auto dest: find_Some_in)
  have d': "db_runs d' = bump_run ?p r (db_runs d)" "db_events d' = db_events d @ [e]"
    using appendEventTx_state [OF app] Some by simp_all
  have er: "evt_run_id e = Some r" using appendEventTx_event(3) [OF app] Some by simp
  have dist: "distinct (map run_id (db_runs d))" using wf by (simp add: event_log_wf_def)
  have "0 \<le> run_event_sequence y' \<and>
      map evt_sequence (run_events d' (run_id y')) = map Some [1..run_event_sequence y']"
    if y': "y' \<in> set (db_runs d')" for y'
  proof -
    from y' d' obtain y where y: "y \<in> set (db_runs d)" and
      yy: "if run_project_id y = ?p \<and> run_id y = r
           then y' = y\<lparr>run_event_sequence := run_event_sequence y + 1\<rparr> else y' = y"
      by (auto simp: in_bump_run)
    have IH: "0 \<le> run_event_sequence y"
      "map evt_sequence (run_events d (run_id y)) = map Some [1..run_event_sequence y]"
      using wf y by (auto simp: event_log_wf_def)
    show ?thesis
    proof (cases "run_id y = r")
      case True
      then have "y = x" using dist y x_in x_id by (metis distinct_key_eq)
      then show ?thesis
        using yy IH True x_id er q d' by (simp add: run_events_def upto_rec2)
    next
      case False
      then show ?thesis using yy IH er d' by (simp add: run_events_def)
    qed
  qed
  moreover have "\<forall>e'\<in>set (db_events d'). evt_run_id e' = None \<or>
      the (evt_run_id e') \<in> run_id ` set (db_runs d')"
  proof -
    have "run_id ` set (db_runs d') = run_id ` set (db_runs d)"
      unfolding d' by (metis map_run_id_bump list.set_map)
    then show ?thesis using wf er x_in x_id d'(2) by (auto simp: event_log_wf_def)
  qed
  ultimately show ?thesis using d' dist by (simp add: event_log_wf_def)
qed

section \<open>History\<close>

text \<open>
  What every operation does to history: Events are only appended, with the next number of
  their Run, and a Run that has ended keeps the status it ended with.
\<close>

definition terminal_kept :: "db \<Rightarrow> db \<Rightarrow> bool" where
  "terminal_kept d d' \<longleftrightarrow> (\<forall>r\<in>set (db_runs d). terminal_run (run_status r) \<longrightarrow>
     (\<exists>r'\<in>set (db_runs d'). run_id r' = run_id r \<and> run_status r' = run_status r))"

definition history :: "db \<Rightarrow> db \<Rightarrow> bool" where
  "history d d' \<longleftrightarrow> (event_log_wf d \<longrightarrow>
     event_log_wf d' \<and> (\<exists>es. db_events d' = db_events d @ es) \<and> terminal_kept d d')"

lemma terminal_kept_same: "db_runs d' = db_runs d \<Longrightarrow> terminal_kept d d'"
  by (auto simp: terminal_kept_def)

lemma terminal_kept_trans: "terminal_kept a b \<Longrightarrow> terminal_kept b c \<Longrightarrow> terminal_kept a c"
  unfolding terminal_kept_def by metis

lemma history_same_tables:
  "db_runs d' = db_runs d \<Longrightarrow> db_events d' = db_events d \<Longrightarrow> history d d'"
  by (simp add: history_def event_log_wf_def run_events_def terminal_kept_same)

interpretation history: db_frame history
proof
  show "history d d" for d by (simp add: history_same_tables)
  show "history a c" if "history a b" "history b c" for a b c
    using that unfolding history_def by (metis append_assoc terminal_kept_trans)
qed (auto intro: history_same_tables)

named_theorems history_rules "statements and calls that only extend history"

lemma history_tables:
  "history d (db_work_requests_update g1 d)" "history d (db_delegations_update g2 d)"
  "history d (db_sessions_update g3 d)" "history d (db_questions_update g4 d)"
  "history d (db_bindings_update g5 d)" "history d (db_decisions_update g6 d)"
  "history d (db_reviews_update g7 d)" "history d (db_issues_update g8 d)"
  "history d (db_workspaces_update g9 d)" "history d (db_jobs_update g10 d)"
  "history d (db_leases_update g11 d)" "history d (db_reservations_update g12 d)"
  by (rule history_same_tables; simp)+

lemmas [history_rules] = history.keeps_intros history.keeps_uuid
  history.keeps_writes [of db_work_requests_update, OF history_tables(1)]
  history.keeps_writes [of db_delegations_update, OF history_tables(2)]
  history.keeps_writes [of db_sessions_update, OF history_tables(3)]
  history.keeps_writes [of db_questions_update, OF history_tables(4)]
  history.keeps_writes [of db_bindings_update, OF history_tables(5)]
  history.keeps_writes [of db_decisions_update, OF history_tables(6)]
  history.keeps_writes [of db_reviews_update, OF history_tables(7)]
  history.keeps_writes [of db_issues_update, OF history_tables(8)]
  history.keeps_writes [of db_workspaces_update, OF history_tables(9)]
  history.keeps_writes [of db_jobs_update, OF history_tables(10)]
  history.keeps_writes [of db_leases_update, OF history_tables(11)]
  history.keeps_writes [of db_reservations_update, OF history_tables(12)]

lemma terminal_kept_update:
  assumes "db_runs d' = update_rows p f (db_runs d)"
    and "\<And>r. r \<in> set (db_runs d) \<Longrightarrow> p r \<Longrightarrow> terminal_run (run_status r) \<Longrightarrow>
           run_id (f r) = run_id r \<and> run_status (f r) = run_status r"
  shows "terminal_kept d d'"
  unfolding terminal_kept_def
proof (intro ballI impI)
  fix r assume r: "r \<in> set (db_runs d)" "terminal_run (run_status r)"
  have "(if p r then f r else r) \<in> set (db_runs d')" using r assms(1) by (auto simp: set_update_rows)
  then show "\<exists>r'\<in>set (db_runs d'). run_id r' = run_id r \<and> run_status r' = run_status r"
    using r assms(2) [of r] by (metis (full_types))
qed

lemma history_event [history_rules]: "tx_keeps history (appendEventTx input)"
proof (rule tx_keepsI)
  fix d e d' assume app: "appendEventTx input d = (Inr e, d')"
  note st = appendEventTx_state [OF app]
  have "terminal_kept d d'"
  proof (cases "evt_run_id input")
    case None then show ?thesis by (intro terminal_kept_same) (simp add: st)
  next
    case (Some r)
    then have "db_runs d' = bump_run (evt_project_id input) r (db_runs d)" by (simp add: st)
    then show ?thesis unfolding bump_run_def by (rule terminal_kept_update) simp
  qed
  then show "history d d'" using event_log_wf_append [OF _ app] by (simp add: history_def st)
qed

lemma event_log_wf_update_runs:
  assumes "event_log_wf d" "db_runs d' = update_rows p f (db_runs d)" "db_events d' = db_events d"
    and "\<And>r. p r \<Longrightarrow> run_id (f r) = run_id r \<and> run_event_sequence (f r) = run_event_sequence r"
  shows "event_log_wf d'"
proof -
  have ids: "map run_id (db_runs d') = map run_id (db_runs d)"
    using assms(2,4) by (simp add: map_update_rows)
  then have im: "run_id ` set (db_runs d') = run_id ` set (db_runs d)" by (metis list.set_map)
  have "0 \<le> run_event_sequence r' \<and>
      map evt_sequence (run_events d' (run_id r')) = map Some [1..run_event_sequence r']"
    if "r' \<in> set (db_runs d')" for r'
    using that assms by (auto simp: event_log_wf_def in_update_rows run_events_def)
  then show ?thesis using assms(1,3) ids im by (simp add: event_log_wf_def)
qed

text \<open>Updates of Runs that have not ended.\<close>

lemma history_runs:
  assumes "db_runs d' = update_rows p f (db_runs d)" "db_events d' = db_events d"
    and "\<And>r. p r \<Longrightarrow> run_id (f r) = run_id r \<and> run_event_sequence (f r) = run_event_sequence r"
    and "\<And>r. event_log_wf d \<Longrightarrow> r \<in> set (db_runs d) \<Longrightarrow> p r \<Longrightarrow> terminal_run (run_status r) \<Longrightarrow>
           run_status (f r) = run_status r"
  shows "history d d'"
  unfolding history_def using assms event_log_wf_update_runs [OF _ assms(1,2,3)]
  by (auto intro!: terminal_kept_update)

lemma history_update_runs:
  assumes "\<And>d r. p d r \<Longrightarrow> run_id (f d r) = run_id r \<and> run_event_sequence (f d r) = run_event_sequence r"
    and "\<And>d r. p d r \<Longrightarrow> terminal_run (run_status r) \<Longrightarrow> run_status (f d r) = run_status r"
  shows "tx_keeps history (sql_update db_runs db_runs_update p f)"
    and "tx_keeps history (sql_update_row db_runs db_runs_update p f)"
proof -
  have "history d (db_runs_update (update_rows (p d) (f d)) d)" for d
    by (rule history_runs [where p = "p d" and f = "f d"]) (auto simp: assms)
  then show "tx_keeps history (sql_update db_runs db_runs_update p f)"
    "tx_keeps history (sql_update_row db_runs db_runs_update p f)"
    by (auto simp: tx_keeps_def tx_simps)
qed

text \<open>A new Run starts without Events.\<close>

lemma history_insert_run:
  assumes "\<And>a. run_id a = run_id row \<Longrightarrow> uq a row" "run_event_sequence row = 0"
  shows "tx_keeps history (sql_insert db_runs db_runs_update uq ok err row)"
proof (rule tx_keepsI)
  fix d x d' assume "sql_insert db_runs db_runs_update uq ok err row d = (Inr x, d')"
  then have d': "d' = d\<lparr>db_runs := db_runs d @ [row]\<rparr>" and "\<forall>r\<in>set (db_runs d). \<not> uq r row"
    by (auto simp: tx_simps)
  then have new: "run_id row \<notin> run_id ` set (db_runs d)" using assms(1) by auto
  have "event_log_wf d'" if wf: "event_log_wf d"
  proof -
    have "run_events d' (run_id row) = []"
      using wf new unfolding event_log_wf_def run_events_def d' filter_empty_conv by force
    then show ?thesis using wf new assms(2)
      by (auto simp: event_log_wf_def d' run_events_def)
  qed
  then show "history d d'" by (auto simp: history_def d' terminal_kept_def)
qed

end
