(* ===== verification/Claims.thy ===== *)
theory Claims
  imports Events
begin

text \<open>
  Who owns execution. A CLAIMED scheduler job owns its Run, the lease on the job, the
  capacity reserved for it and the Workspace of the Run. This theory states that ownership
  as an invariant of the database (\<open>sched_wf\<close>) and gives the relation the operations are
  compared with: \<open>releasing d d'\<close> says that a step acquires nothing, that is, every claim,
  lease and reservation of \<open>d'\<close> was already one of \<open>d\<close>, and what a job gives up it
  gives up completely.
\<close>

section \<open>The ownership invariant\<close>

definition executing :: "run_status \<Rightarrow> bool" where
  "executing s \<longleftrightarrow> s = RUN_STARTING \<or> s = RUN_RUNNING \<or> s = RUN_WAITING_FOR_INPUT"

definition claimed :: "db \<Rightarrow> job list" where
  "claimed d = filter (\<lambda>j. job_state j = JOB_CLAIMED) (db_jobs d)"

text \<open>The Run a job is about.\<close>

definition job_on :: "job \<Rightarrow> run \<Rightarrow> bool" where
  "job_on j r \<longleftrightarrow> run_id r = job_run_id j \<and> run_project_id r = job_project_id j"

text \<open>
  \<open>max_active_sessions\<close> of a Runner: a positive decimal number in its capabilities,
  5 when it is absent or not of that form. The cast to \<open>int\<close> overflows above 2^31 - 1.
\<close>

definition is_positive_decimal :: "string \<Rightarrow> bool" where
  "is_positive_decimal s \<longleftrightarrow> s \<noteq> [] \<and>
     (\<forall>c\<in>set s. (of_char c :: nat) \<ge> 48 \<and> (of_char c :: nat) \<le> 57) \<and> hd s \<noteq> CHR ''0''"

definition runner_session_limit :: "runner \<Rightarrow> nat" where
  "runner_session_limit r =
     (case rnr_max_active_sessions r of
        None \<Rightarrow> 5
      | Some s \<Rightarrow> if is_positive_decimal s then decimal_value s else 5)"

definition runner_limit_overflows :: "runner \<Rightarrow> bool" where
  "runner_limit_overflows r \<longleftrightarrow> runner_session_limit r > 2147483647"

definition capacity_used :: "db \<Rightarrow> resource_kind \<Rightarrow> id \<Rightarrow> nat" where
  "capacity_used d k x =
     count_rows (\<lambda>v. rsv_kind v = k \<and> rsv_resource_id v = x) (db_reservations d)"

definition capacity_wf :: "db \<Rightarrow> bool" where
  "capacity_wf d \<longleftrightarrow>
     (\<forall>a\<in>set (db_agents d). int (capacity_used d RES_AGENT (agt_id a)) \<le> agt_concurrency_limit a) \<and>
     (\<forall>m\<in>set (db_model_profiles d).
        case mdl_max_concurrent m of
          None \<Rightarrow> True | Some n \<Rightarrow> int (capacity_used d RES_MODEL_PROFILE (mdl_id m)) \<le> n) \<and>
     (\<forall>r\<in>set (db_runners d). capacity_used d RES_RUNNER (rnr_id r) \<le> runner_session_limit r)"

definition ownership_wf :: "db \<Rightarrow> bool" where
  "ownership_wf d \<longleftrightarrow>
     (\<forall>l\<in>set (db_leases d). \<exists>j\<in>set (claimed d). job_id j = lse_job_id l) \<and>
     (\<forall>v\<in>set (db_reservations d). \<exists>j\<in>set (claimed d). job_id j = rsv_job_id v \<and>
        job_run_id j = rsv_run_id v \<and> job_project_id j = rsv_project_id v) \<and>
     (\<forall>j\<in>set (claimed d). \<exists>r\<in>set (db_runs d). job_on j r \<and> executing (run_status r))"

text \<open>At most one claimed job per Workspace, hence per Run.\<close>

definition workspace_exclusive :: "db \<Rightarrow> bool" where
  "workspace_exclusive d \<longleftrightarrow>
     (\<forall>j1\<in>set (claimed d). \<forall>j2\<in>set (claimed d). \<forall>r1\<in>set (db_runs d). \<forall>r2\<in>set (db_runs d).
        job_on j1 r1 \<longrightarrow> job_on j2 r2 \<longrightarrow> run_project_id r1 = run_project_id r2 \<longrightarrow>
        run_workspace_id r1 = run_workspace_id r2 \<longrightarrow> j1 = j2)"

definition keys_wf :: "db \<Rightarrow> bool" where
  "keys_wf d \<longleftrightarrow> distinct (map job_id (db_jobs d)) \<and> distinct (map run_id (db_runs d)) \<and>
     distinct (map lse_job_id (db_leases d))"

definition config_wf :: "db \<Rightarrow> bool" where
  "config_wf d \<longleftrightarrow> distinct (map agt_id (db_agents d)) \<and> distinct (map mdl_id (db_model_profiles d)) \<and>
     distinct (map rnr_id (db_runners d))"

definition sched_wf :: "db \<Rightarrow> bool" where
  "sched_wf d \<longleftrightarrow> keys_wf d \<and> config_wf d \<and> ownership_wf d \<and> workspace_exclusive d \<and> capacity_wf d"

lemma claimed_iff [simp]: "j \<in> set (claimed d) \<longleftrightarrow> j \<in> set (db_jobs d) \<and> job_state j = JOB_CLAIMED"
  by (auto simp: claimed_def)

section \<open>Steps that acquire nothing\<close>

definition same_claim :: "job \<Rightarrow> job \<Rightarrow> bool" where
  "same_claim j j' \<longleftrightarrow> job_id j' = job_id j \<and> job_run_id j' = job_run_id j \<and>
     job_project_id j' = job_project_id j"

definition same_place :: "run \<Rightarrow> run \<Rightarrow> bool" where
  "same_place r r' \<longleftrightarrow> run_id r' = run_id r \<and> run_project_id r' = run_project_id r \<and>
     run_workspace_id r' = run_workspace_id r"

definition same_config :: "db \<Rightarrow> db \<Rightarrow> bool" where
  "same_config d d' \<longleftrightarrow> db_agents d' = db_agents d \<and> db_model_profiles d' = db_model_profiles d \<and>
     db_runners d' = db_runners d"

definition keys_kept :: "db \<Rightarrow> db \<Rightarrow> bool" where
  "keys_kept d d' \<longleftrightarrow> (keys_wf d \<longrightarrow> keys_wf d')"

text \<open>A claim that ends leaves no lease and no reservation behind.\<close>

definition gives_up_all :: "db \<Rightarrow> db \<Rightarrow> bool" where
  "gives_up_all d d' \<longleftrightarrow>
     (\<forall>j\<in>set (claimed d). (\<forall>j'\<in>set (claimed d'). job_id j' \<noteq> job_id j) \<longrightarrow>
        (\<forall>l\<in>set (db_leases d'). lse_job_id l \<noteq> job_id j) \<and>
        (\<forall>v\<in>set (db_reservations d'). rsv_job_id v \<noteq> job_id j))"

definition releasing :: "db \<Rightarrow> db \<Rightarrow> bool" where
  "releasing d d' \<longleftrightarrow> keys_kept d d' \<and> same_config d d' \<and>
     lse_job_id ` set (db_leases d') \<subseteq> lse_job_id ` set (db_leases d) \<and>
     (\<exists>p. db_reservations d' = filter p (db_reservations d)) \<and>
     (\<forall>j'\<in>set (claimed d'). \<exists>j\<in>set (claimed d). same_claim j j') \<and>
     gives_up_all d d' \<and>
     (\<forall>j'\<in>set (claimed d'). \<forall>r\<in>set (db_runs d). job_on j' r \<longrightarrow> executing (run_status r) \<longrightarrow>
        (\<exists>r'\<in>set (db_runs d'). same_place r r' \<and> executing (run_status r')))"

text \<open>
  A step that touches no claim, lease or reservation, keeps the keys and keeps executing
  Runs executing where they are.
\<close>

definition runs_kept :: "db \<Rightarrow> db \<Rightarrow> bool" where
  "runs_kept d d' \<longleftrightarrow> (\<forall>r\<in>set (db_runs d). executing (run_status r) \<longrightarrow>
     (\<exists>r'\<in>set (db_runs d'). same_place r r' \<and> executing (run_status r')))"

lemma same_claim_refl [simp]: "same_claim j j"
  by (simp add: same_claim_def)

lemma same_place_refl [simp]: "same_place r r"
  by (simp add: same_place_def)

lemma same_claim_trans: "same_claim a b \<Longrightarrow> same_claim b c \<Longrightarrow> same_claim a c"
  by (simp add: same_claim_def)

lemma same_place_trans: "same_place a b \<Longrightarrow> same_place b c \<Longrightarrow> same_place a c"
  by (simp add: same_place_def)

lemma same_config_refl [simp]: "same_config d d"
  by (simp add: same_config_def)

lemma releasing_quiet:
  assumes "keys_kept d d'" "same_config d d'" "db_leases d' = db_leases d"
    "db_reservations d' = db_reservations d" "claimed d' = claimed d" "runs_kept d d'"
  shows "releasing d d'"
proof -
  have "\<exists>p. db_reservations d' = filter p (db_reservations d)"
    using assms(4) by (intro exI [of _ "\<lambda>_. True"]) simp
  moreover have "\<forall>j'\<in>set (claimed d'). \<exists>j\<in>set (claimed d). same_claim j j'"
    using assms(5) same_claim_refl by metis
  moreover have "gives_up_all d d'"
    using assms(5) unfolding gives_up_all_def by metis
  ultimately show ?thesis
    using assms unfolding releasing_def runs_kept_def by simp
qed

lemma runs_kept_same: "db_runs d' = db_runs d \<Longrightarrow> runs_kept d d'"
  unfolding runs_kept_def using same_place_refl by metis

lemma releasing_refl [simp]: "releasing d d"
  by (rule releasing_quiet) (auto simp: keys_kept_def runs_kept_same)

lemma gives_up_all_trans:
  assumes "releasing a b" "releasing b c"
  shows "gives_up_all a c"
  unfolding gives_up_all_def
proof (intro ballI impI)
  fix j assume j: "j \<in> set (claimed a)" and gone: "\<forall>j'\<in>set (claimed c). job_id j' \<noteq> job_id j"
  have sub: "lse_job_id ` set (db_leases c) \<subseteq> lse_job_id ` set (db_leases b)"
    "set (db_reservations c) \<subseteq> set (db_reservations b)"
    using assms(2) by (auto simp: releasing_def)
  show "(\<forall>l\<in>set (db_leases c). lse_job_id l \<noteq> job_id j) \<and>
      (\<forall>v\<in>set (db_reservations c). rsv_job_id v \<noteq> job_id j)"
  proof (cases "\<exists>j'\<in>set (claimed b). job_id j' = job_id j")
    case True
    then obtain j' where "j' \<in> set (claimed b)" "job_id j' = job_id j" by blast
    moreover have "gives_up_all b c" using assms(2) by (simp add: releasing_def)
    ultimately show ?thesis using gone unfolding gives_up_all_def by metis
  next
    case False
    moreover have "gives_up_all a b" using assms(1) by (simp add: releasing_def)
    ultimately have "\<forall>l\<in>set (db_leases b). lse_job_id l \<noteq> job_id j"
      "\<forall>v\<in>set (db_reservations b). rsv_job_id v \<noteq> job_id j"
      using j unfolding gives_up_all_def by metis+
    with sub show ?thesis by (metis image_iff in_mono)
  qed
qed

lemma releasing_trans:
  assumes ab: "releasing a b" and bc: "releasing b c"
  shows "releasing a c"
proof -
  have "keys_kept a c" "same_config a c"
    using assms by (auto simp: releasing_def keys_kept_def same_config_def)
  moreover have "lse_job_id ` set (db_leases c) \<subseteq> lse_job_id ` set (db_leases a)"
    using assms unfolding releasing_def by (meson order_trans)
  moreover have "\<exists>p. db_reservations c = filter p (db_reservations a)"
    using assms unfolding releasing_def by (metis filter_filter)
  moreover have "\<forall>j'\<in>set (claimed c). \<exists>j\<in>set (claimed a). same_claim j j'"
    using assms same_claim_trans unfolding releasing_def by meson
  moreover have "\<forall>j'\<in>set (claimed c). \<forall>r\<in>set (db_runs a). job_on j' r \<longrightarrow> executing (run_status r) \<longrightarrow>
      (\<exists>r'\<in>set (db_runs c). same_place r r' \<and> executing (run_status r'))"
  proof (intro ballI impI)
    fix j' r
    assume j': "j' \<in> set (claimed c)" and r: "r \<in> set (db_runs a)" "job_on j' r" "executing (run_status r)"
    obtain j where j: "j \<in> set (claimed b)" "same_claim j j'"
      using bc j' unfolding releasing_def by blast
    then have "job_on j r" using r(2) by (simp add: job_on_def same_claim_def)
    then obtain r' where r': "r' \<in> set (db_runs b)" "same_place r r'" "executing (run_status r')"
      using ab j(1) r unfolding releasing_def by blast
    have "job_on j' r'" using r(2) r'(2) by (simp add: job_on_def same_place_def)
    then obtain r'' where "r'' \<in> set (db_runs c)" "same_place r' r''" "executing (run_status r'')"
      using bc j' r' unfolding releasing_def by blast
    then show "\<exists>r'\<in>set (db_runs c). same_place r r' \<and> executing (run_status r')"
      using same_place_trans [OF r'(2)] by blast
  qed
  ultimately show ?thesis using gives_up_all_trans [OF ab bc] unfolding releasing_def by blast
qed

section \<open>Such steps keep the invariant\<close>

lemma releasing_keys: "releasing d d' \<Longrightarrow> keys_wf d \<Longrightarrow> keys_wf d'"
  by (simp add: releasing_def keys_kept_def)

lemma releasing_capacity:
  assumes "releasing d d'" "capacity_wf d"
  shows "capacity_wf d'"
proof -
  have le: "capacity_used d' k x \<le> capacity_used d k x" for k x
    using assms(1) by (auto simp: releasing_def capacity_used_def count_rows_filter_le)
  then have "int (capacity_used d k x) \<le> n \<Longrightarrow> int (capacity_used d' k x) \<le> n" for k x n
    by (meson of_nat_mono order_trans)
  moreover have "capacity_used d k x \<le> n \<Longrightarrow> capacity_used d' k x \<le> n" for k x n
    using le by (meson order_trans)
  moreover have "same_config d d'" using assms(1) by (simp add: releasing_def)
  ultimately show ?thesis
    using assms(2) unfolding capacity_wf_def same_config_def by (simp split: option.splits)
qed

lemma releasing_run_of_claim:
  assumes "releasing d d'" "ownership_wf d" "j' \<in> set (claimed d')"
  obtains j r r' where "j \<in> set (claimed d)" "same_claim j j'" "r \<in> set (db_runs d)" "job_on j r"
    "r' \<in> set (db_runs d')" "same_place r r'" "job_on j' r'" "executing (run_status r')"
proof -
  obtain j where j: "j \<in> set (claimed d)" "same_claim j j'"
    using assms(1,3) unfolding releasing_def by blast
  then obtain r where r: "r \<in> set (db_runs d)" "job_on j r" "executing (run_status r)"
    using assms(2) unfolding ownership_wf_def by blast
  then have "job_on j' r" using j by (simp add: job_on_def same_claim_def)
  then obtain r' where r': "r' \<in> set (db_runs d')" "same_place r r'" "executing (run_status r')"
    using assms(1,3) r unfolding releasing_def by blast
  then show ?thesis using j r that by (simp add: job_on_def same_place_def same_claim_def)
qed

lemma releasing_kept_claim:
  assumes "releasing d d'" "j \<in> set (claimed d)"
    and "(\<exists>l\<in>set (db_leases d'). lse_job_id l = job_id j) \<or>
         (\<exists>v\<in>set (db_reservations d'). rsv_job_id v = job_id j)"
  obtains j' where "j' \<in> set (claimed d')" "job_id j' = job_id j"
  using assms unfolding releasing_def gives_up_all_def by metis

lemma releasing_ownership:
  assumes rel: "releasing d d'" and own: "ownership_wf d" and keys: "keys_wf d"
  shows "ownership_wf d'"
  unfolding ownership_wf_def
proof (intro conjI ballI)
  fix l assume l: "l \<in> set (db_leases d')"
  then obtain l0 where l0: "l0 \<in> set (db_leases d)" "lse_job_id l0 = lse_job_id l"
    using rel unfolding releasing_def by (metis image_eqI image_iff subsetD)
  then obtain j where "j \<in> set (claimed d)" "job_id j = lse_job_id l"
    using own unfolding ownership_wf_def by metis
  then show "\<exists>j\<in>set (claimed d'). job_id j = lse_job_id l"
    using l rel by (metis releasing_kept_claim)
next
  fix v assume v: "v \<in> set (db_reservations d')"
  then have "v \<in> set (db_reservations d)" using rel by (auto simp: releasing_def)
  then obtain j where j: "j \<in> set (claimed d)" "job_id j = rsv_job_id v" "job_run_id j = rsv_run_id v"
    "job_project_id j = rsv_project_id v" using own unfolding ownership_wf_def by metis
  then obtain j' where j': "j' \<in> set (claimed d')" "job_id j' = job_id j"
    using v rel by (metis releasing_kept_claim)
  then obtain j0 where "j0 \<in> set (claimed d)" "same_claim j0 j'"
    using rel unfolding releasing_def by blast
  moreover from this have "j0 = j"
    using j j' keys by (auto simp: keys_wf_def same_claim_def intro: distinct_key_eq)
  ultimately show "\<exists>j\<in>set (claimed d'). job_id j = rsv_job_id v \<and> job_run_id j = rsv_run_id v \<and>
      job_project_id j = rsv_project_id v"
    using j j' by (metis same_claim_def)
next
  fix j assume "j \<in> set (claimed d')"
  then show "\<exists>r\<in>set (db_runs d'). job_on j r \<and> executing (run_status r)"
    using rel own by (metis releasing_run_of_claim)
qed

lemma releasing_workspace:
  assumes rel: "releasing d d'" and own: "ownership_wf d" and keys: "keys_wf d"
    and ws: "workspace_exclusive d"
  shows "workspace_exclusive d'"
  unfolding workspace_exclusive_def
proof (intro ballI impI)
  fix j1 j2 r1 r2
  assume j: "j1 \<in> set (claimed d')" "j2 \<in> set (claimed d')"
    and r: "r1 \<in> set (db_runs d')" "r2 \<in> set (db_runs d')" "job_on j1 r1" "job_on j2 r2"
    and same: "run_project_id r1 = run_project_id r2" "run_workspace_id r1 = run_workspace_id r2"
  have keys': "keys_wf d'" using rel keys by (rule releasing_keys)
  obtain k1 s1 t1 where 1: "k1 \<in> set (claimed d)" "same_claim k1 j1" "s1 \<in> set (db_runs d)" "job_on k1 s1"
    "t1 \<in> set (db_runs d')" "same_place s1 t1" "job_on j1 t1"
    using releasing_run_of_claim [OF rel own j(1)] by metis
  obtain k2 s2 t2 where 2: "k2 \<in> set (claimed d)" "same_claim k2 j2" "s2 \<in> set (db_runs d)" "job_on k2 s2"
    "t2 \<in> set (db_runs d')" "same_place s2 t2" "job_on j2 t2"
    using releasing_run_of_claim [OF rel own j(2)] by metis
  have "t1 = r1" "t2 = r2"
    using keys' 1 2 r unfolding keys_wf_def job_on_def by (metis distinct_key_eq)+
  then have "k1 = k2" using ws 1 2 same unfolding workspace_exclusive_def same_place_def by metis
  then show "j1 = j2" using 1 2 j keys' unfolding keys_wf_def same_claim_def
    by (metis claimed_iff distinct_key_eq)
qed

lemma releasing_config: "releasing d d' \<Longrightarrow> config_wf d \<Longrightarrow> config_wf d'"
  by (simp add: releasing_def same_config_def config_wf_def)

theorem releasing_wf: "releasing d d' \<Longrightarrow> sched_wf d \<Longrightarrow> sched_wf d'"
  by (simp add: sched_wf_def releasing_keys releasing_config releasing_ownership releasing_workspace
      releasing_capacity)

section \<open>Sufficient conditions\<close>

text \<open>Updates of Run rows that neither move a Run nor end its execution.\<close>

lemma runs_kept_update:
  assumes "db_runs d' = update_rows p f (db_runs d)"
    and "\<And>r. r \<in> set (db_runs d) \<Longrightarrow> p r \<Longrightarrow> executing (run_status r) \<Longrightarrow>
           same_place r (f r) \<and> executing (run_status (f r))"
  shows "runs_kept d d'"
  unfolding runs_kept_def
proof (intro ballI impI)
  fix r assume r: "r \<in> set (db_runs d)" "executing (run_status r)"
  have "(if p r then f r else r) \<in> set (db_runs d')"
    using r assms(1) by (auto simp: set_update_rows)
  then show "\<exists>r'\<in>set (db_runs d'). same_place r r' \<and> executing (run_status r')"
    using r assms(2) [of r] same_place_refl by (metis (full_types))
qed

text \<open>
  Giving up a Run: its claimed jobs end, its leases and reservations go, the Run itself may
  stop executing. This is the shape of every release in the store.
\<close>

lemma releasing_give_up:
  assumes wf: "sched_wf d"
    and runs: "db_runs d' = update_rows (\<lambda>r. run_project_id r = p \<and> run_id r = x \<and> pr r) fr (db_runs d)"
      "\<And>r. run_id (fr r) = run_id r"
    and jobs: "db_jobs d' = update_rows (\<lambda>j. job_project_id j = p \<and> job_run_id j = x \<and> pj j) fj (db_jobs d)"
      "\<And>j. job_id (fj j) = job_id j"
      "\<And>j. job_project_id j = p \<Longrightarrow> job_run_id j = x \<Longrightarrow> job_state j = JOB_CLAIMED \<Longrightarrow> pj j"
      "\<And>j. pj j \<Longrightarrow> job_state (fj j) \<noteq> JOB_CLAIMED"
    and leases: "db_leases d' = filter (\<lambda>l. \<not> pl l) (db_leases d)"
      "\<And>l j. j \<in> set (db_jobs d) \<Longrightarrow> job_state j = JOB_CLAIMED \<Longrightarrow> job_project_id j = p \<Longrightarrow>
         job_run_id j = x \<Longrightarrow> lse_job_id l = job_id j \<Longrightarrow> pl l"
    and rsvs: "db_reservations d' = filter (\<lambda>v. \<not> pv v) (db_reservations d)"
      "\<And>v. rsv_project_id v = p \<Longrightarrow> rsv_run_id v = x \<Longrightarrow> v \<in> set (db_reservations d) \<Longrightarrow> pv v"
    and cfg: "same_config d d'"
  shows "releasing d d'"
proof -
  have keys: "keys_wf d" and own: "ownership_wf d" using wf by (auto simp: sched_wf_def)
  have claim: "j \<in> set (claimed d) \<and> \<not> (job_project_id j = p \<and> job_run_id j = x)"
    if "j \<in> set (claimed d')" for j
    using that jobs by (auto simp: in_update_rows)
  have kk: "keys_kept d d'"
    using runs jobs leases
    by (auto simp: keys_kept_def keys_wf_def map_update_rows distinct_map_filter_rows)
  have up: "gives_up_all d d'"
    unfolding gives_up_all_def
  proof (intro ballI impI)
    fix j assume j: "j \<in> set (claimed d)" and gone: "\<forall>j'\<in>set (claimed d'). job_id j' \<noteq> job_id j"
    have px: "job_project_id j = p \<and> job_run_id j = x"
    proof (rule ccontr)
      assume "\<not> (job_project_id j = p \<and> job_run_id j = x)"
      then have "j \<in> set (claimed d')" using j jobs by (auto simp: in_update_rows)
      with gone show False by blast
    qed
    have "rsv_job_id v \<noteq> job_id j" if v: "v \<in> set (db_reservations d')" for v
    proof
      assume eq: "rsv_job_id v = job_id j"
      have v': "v \<in> set (db_reservations d)" "\<not> pv v" using v rsvs by auto
      then obtain k where k: "k \<in> set (claimed d)" "job_id k = rsv_job_id v"
        "job_run_id k = rsv_run_id v" "job_project_id k = rsv_project_id v"
        using own unfolding ownership_wf_def by metis
      then have "k = j" using j eq keys by (auto simp: keys_wf_def intro: distinct_key_eq)
      then show False using k v' px rsvs(2) by metis
    qed
    moreover have "lse_job_id l \<noteq> job_id j" if "l \<in> set (db_leases d')" for l
      using that leases j px by auto
    ultimately show "(\<forall>l\<in>set (db_leases d'). lse_job_id l \<noteq> job_id j) \<and>
        (\<forall>v\<in>set (db_reservations d'). rsv_job_id v \<noteq> job_id j)" by blast
  qed
  have "\<forall>j'\<in>set (claimed d'). \<forall>r\<in>set (db_runs d). job_on j' r \<longrightarrow> executing (run_status r) \<longrightarrow>
      (\<exists>r'\<in>set (db_runs d'). same_place r r' \<and> executing (run_status r'))"
  proof (intro ballI impI)
    fix j' r assume j': "j' \<in> set (claimed d')" and r: "r \<in> set (db_runs d)" "job_on j' r" "executing (run_status r)"
    have "\<not> (run_project_id r = p \<and> run_id r = x)" using claim [OF j'] r(2) by (auto simp: job_on_def)
    then have "r \<in> set (db_runs d')" using r(1) runs(1) by (auto simp: in_update_rows)
    then show "\<exists>r'\<in>set (db_runs d'). same_place r r' \<and> executing (run_status r')"
      using r(3) same_place_refl by blast
  qed
  moreover have "\<exists>q. db_reservations d' = filter q (db_reservations d)" using rsvs(1) by blast
  moreover have "lse_job_id ` set (db_leases d') \<subseteq> lse_job_id ` set (db_leases d)" using leases(1) by auto
  moreover have "\<forall>j'\<in>set (claimed d'). \<exists>j\<in>set (claimed d). same_claim j j'"
    using claim same_claim_refl by blast
  ultimately show ?thesis unfolding releasing_def using kk up cfg by blast
qed

text \<open>
  Ending one claim: the job leaves the claimed jobs with its lease and its reservations, the
  other claims stay, and only the Run of that job may stop executing.
\<close>

definition settles :: "db \<Rightarrow> db \<Rightarrow> job \<Rightarrow> bool" where
  "settles d d' J \<longleftrightarrow> keys_kept d d' \<and> same_config d d' \<and>
     (\<exists>p. db_leases d' = filter p (db_leases d)) \<and> (\<exists>p. db_reservations d' = filter p (db_reservations d)) \<and>
     (\<forall>l\<in>set (db_leases d'). lse_job_id l \<noteq> job_id J) \<and>
     (\<forall>v\<in>set (db_reservations d'). rsv_job_id v \<noteq> job_id J) \<and>
     set (claimed d') = {j \<in> set (claimed d). job_id j \<noteq> job_id J} \<and>
     (\<forall>r\<in>set (db_runs d). \<not> job_on J r \<longrightarrow> executing (run_status r) \<longrightarrow>
        (\<exists>r'\<in>set (db_runs d'). same_place r r' \<and> executing (run_status r')))"

lemma settles_releasing:
  assumes wf: "sched_wf d" and J: "J \<in> set (claimed d)" and st: "settles d d' J"
  shows "releasing d d'"
proof -
  have cl: "set (claimed d') = {j \<in> set (claimed d). job_id j \<noteq> job_id J}"
    using st by (simp add: settles_def)
  have up: "gives_up_all d d'"
    unfolding gives_up_all_def
  proof (intro ballI impI)
    fix j assume j: "j \<in> set (claimed d)" and gone: "\<forall>j'\<in>set (claimed d'). job_id j' \<noteq> job_id j"
    have "job_id j = job_id J" using j gone cl by blast
    then show "(\<forall>l\<in>set (db_leases d'). lse_job_id l \<noteq> job_id j) \<and>
        (\<forall>v\<in>set (db_reservations d'). rsv_job_id v \<noteq> job_id j)"
      using st by (simp add: settles_def)
  qed
  have "\<exists>r'\<in>set (db_runs d'). same_place r r' \<and> executing (run_status r')"
    if j': "j' \<in> set (claimed d')" and r: "r \<in> set (db_runs d)" "job_on j' r" "executing (run_status r)" for j' r
  proof -
    have "\<not> job_on J r"
    proof
      assume "job_on J r"
      then have "j' = J"
        using wf J j' r cl unfolding sched_wf_def workspace_exclusive_def by blast
      then show False using j' cl by blast
    qed
    then show ?thesis using st r by (simp add: settles_def)
  qed
  moreover have "lse_job_id ` set (db_leases d') \<subseteq> lse_job_id ` set (db_leases d)"
    using st by (auto simp: settles_def)
  moreover have "\<forall>j'\<in>set (claimed d'). \<exists>j\<in>set (claimed d). same_claim j j'"
    using cl same_claim_refl by blast
  ultimately show ?thesis
    unfolding releasing_def using up st unfolding settles_def by blast
qed

section \<open>Frames\<close>

text \<open>A step that touches no claim, lease or reservation and stops no executing Run.\<close>

definition quiet :: "db \<Rightarrow> db \<Rightarrow> bool" where
  "quiet d d' \<longleftrightarrow> keys_kept d d' \<and> same_config d d' \<and> db_leases d' = db_leases d \<and>
     db_reservations d' = db_reservations d \<and> claimed d' = claimed d \<and> runs_kept d d'"

lemma quietI:
  assumes "keys_kept d d'" "same_config d d'" "db_leases d' = db_leases d"
    "db_reservations d' = db_reservations d" "claimed d' = claimed d" "runs_kept d d'"
  shows "quiet d d'"
  using assms by (simp add: quiet_def)

lemma quiet_releasing: "quiet d d' \<Longrightarrow> releasing d d'"
  by (intro releasing_quiet) (auto simp: quiet_def)

lemma runs_kept_trans: "runs_kept a b \<Longrightarrow> runs_kept b c \<Longrightarrow> runs_kept a c"
  unfolding runs_kept_def using same_place_trans by meson

lemma quiet_clock: "quiet d (d\<lparr>db_now := now\<rparr>)" and quiet_uuid: "quiet d (d\<lparr>db_uuid_next := n\<rparr>)"
  by (intro quietI; simp add: keys_kept_def keys_wf_def same_config_def claimed_def runs_kept_same)+

interpretation quiet: db_frame quiet
proof
  show "quiet d d" for d
    by (intro quietI) (auto simp: keys_kept_def runs_kept_same)
  show "quiet a b \<Longrightarrow> quiet b c \<Longrightarrow> quiet a c" for a b c
    using runs_kept_trans by (auto simp: quiet_def keys_kept_def same_config_def)
qed (rule quiet_clock quiet_uuid)+

named_theorems quiet_rules "statements and calls that leave ownership alone"

lemmas [quiet_rules] = quiet.keeps_intros quiet.keeps_uuid

text \<open>A step that acquires nothing, from a state in which ownership is in order.\<close>

definition safe :: "db \<Rightarrow> db \<Rightarrow> bool" where
  "safe d d' \<longleftrightarrow> (sched_wf d \<longrightarrow> releasing d d')"

interpretation safe: db_frame safe
proof
  show "safe d d" for d by (simp add: safe_def)
  show "safe a b \<Longrightarrow> safe b c \<Longrightarrow> safe a c" for a b c
    unfolding safe_def using releasing_trans releasing_wf by blast
  show "safe d (d\<lparr>db_now := now\<rparr>)" "safe d (d\<lparr>db_uuid_next := n\<rparr>)" for d now n
    unfolding safe_def using quiet_clock quiet_uuid quiet_releasing by blast+
qed

named_theorems safe_rules "statements and calls that keep ownership"

lemmas [safe_rules] = safe.keeps_intros safe.keeps_uuid

lemma safe_wf: "safe d d' \<Longrightarrow> sched_wf d \<Longrightarrow> sched_wf d'"
  by (simp add: safe_def releasing_wf)

lemma quiet_safe: "quiet d d' \<Longrightarrow> safe d d'"
  by (simp add: safe_def quiet_releasing)

lemma keeps_safe: "tx_keeps quiet m \<Longrightarrow> tx_keeps safe m"
  by (simp add: tx_keeps_def quiet_safe)

text \<open>Writes to tables that ownership does not read.\<close>

lemma quiet_same_tables:
  assumes "db_jobs d' = db_jobs d" "db_runs d' = db_runs d" "db_leases d' = db_leases d"
    "db_reservations d' = db_reservations d" "same_config d d'"
  shows "quiet d d'"
  using assms by (intro quietI) (auto simp: keys_kept_def keys_wf_def claimed_def runs_kept_same same_config_def)

lemma quiet_tables:
  "quiet d (db_work_requests_update g0 d)"
  "quiet d (db_delegations_update g1 d)"
  "quiet d (db_sessions_update g2 d)"
  "quiet d (db_questions_update g3 d)"
  "quiet d (db_bindings_update g4 d)"
  "quiet d (db_decisions_update g5 d)"
  "quiet d (db_reviews_update g6 d)"
  "quiet d (db_issues_update g7 d)"
  "quiet d (db_workspaces_update g8 d)"
  "quiet d (db_comments_update g9 d)"
  by (rule quiet_same_tables; simp add: same_config_def)+

lemmas [quiet_rules] =
  quiet.keeps_writes [of db_work_requests_update, OF quiet_tables(1)]
  quiet.keeps_writes [of db_delegations_update, OF quiet_tables(2)]
  quiet.keeps_writes [of db_sessions_update, OF quiet_tables(3)]
  quiet.keeps_writes [of db_questions_update, OF quiet_tables(4)]
  quiet.keeps_writes [of db_bindings_update, OF quiet_tables(5)]
  quiet.keeps_writes [of db_decisions_update, OF quiet_tables(6)]
  quiet.keeps_writes [of db_reviews_update, OF quiet_tables(7)]
  quiet.keeps_writes [of db_issues_update, OF quiet_tables(8)]
  quiet.keeps_writes [of db_workspaces_update, OF quiet_tables(9)]
  quiet.keeps_writes [of db_comments_update, OF quiet_tables(10)]

lemma quiet_event [quiet_rules]: "tx_keeps quiet (appendEventTx input)"
proof (rule tx_keepsI)
  fix d e d' assume "appendEventTx input d = (Inr e, d')"
  then have d': "d' = d\<lparr>db_uuid_next := Suc (db_uuid_next d), db_events := db_events d @ [e],
      db_runs := (case evt_run_id input of None \<Rightarrow> db_runs d
                  | Some r \<Rightarrow> bump_run (evt_project_id input) r (db_runs d))\<rparr>"
    by (rule appendEventTx_state)
  have "runs_kept d d'"
  proof (cases "evt_run_id input")
    case None then show ?thesis by (intro runs_kept_same) (simp add: d')
  next
    case (Some r)
    then have "db_runs d' = bump_run (evt_project_id input) r (db_runs d)" by (simp add: d')
    then show ?thesis
      unfolding bump_run_def by (rule runs_kept_update) (simp add: same_place_def)
  qed
  then show "quiet d d'"
    by (intro quietI)
      (auto simp: d' keys_kept_def keys_wf_def same_config_def claimed_def split: option.splits)
qed

text \<open>
  A claim that ends in several statements: first the Run of the job changes (\<open>d\<close> to
  \<open>d1\<close>), then steps that leave ownership alone (\<open>d1\<close> to \<open>d2\<close>), then the release
  (\<open>d2\<close> to \<open>d3\<close>).
\<close>

lemma settles_through:
  assumes keys: "keys_wf d1"
    and claims: "{j \<in> set (claimed d1). job_id j \<noteq> job_id J} = {j \<in> set (claimed d). job_id j \<noteq> job_id J}"
    and run: "db_runs d1 = update_rows q f (db_runs d)" "\<And>r. q r \<Longrightarrow> job_on J r"
    and same: "db_leases d1 = db_leases d" "db_reservations d1 = db_reservations d" "same_config d d1"
    and mid: "quiet d1 d2"
    and release: "settles d2 d3 J" "db_runs d3 = db_runs d2"
  shows "settles d d3 J"
proof -
  have m: "claimed d2 = claimed d1" "db_leases d2 = db_leases d" "db_reservations d2 = db_reservations d"
    "same_config d d2" "keys_wf d2" "runs_kept d1 d2"
    using mid keys same by (auto simp: quiet_def keys_kept_def same_config_def)
  have "\<exists>r'\<in>set (db_runs d3). same_place r r' \<and> executing (run_status r')"
    if r: "r \<in> set (db_runs d)" "\<not> job_on J r" "executing (run_status r)" for r
  proof -
    have "r \<in> set (db_runs d1)" using r run unfolding run(1) by (intro unmatched_row) blast+
    then show ?thesis using m(6) r(3) release(2) unfolding runs_kept_def by metis
  qed
  then show ?thesis
    using release(1) m claims unfolding settles_def by (auto simp: keys_kept_def same_config_def)
qed

text \<open>Writes to Runs and jobs that leave the claims alone.\<close>

lemma quiet_runs:
  assumes "db_runs d' = update_rows p f (db_runs d)" "\<And>r. p r \<Longrightarrow> run_id (f r) = run_id r"
    and "\<And>r. p r \<Longrightarrow> executing (run_status r) \<Longrightarrow>
           same_place r (f r) \<and> executing (run_status (f r))"
    and "db_jobs d' = db_jobs d" "db_leases d' = db_leases d"
    "db_reservations d' = db_reservations d" "same_config d d'"
  shows "quiet d d'"
proof (rule quietI)
  show "keys_kept d d'" using assms by (simp add: keys_kept_def keys_wf_def map_update_rows)
  show "runs_kept d d'" by (rule runs_kept_update [OF assms(1)]) (simp add: assms(3))
qed (use assms in \<open>auto simp: claimed_def\<close>)

lemma quiet_update_runs:
  assumes "\<And>d r. p d r \<Longrightarrow> run_id (f d r) = run_id r"
    and "\<And>d r. p d r \<Longrightarrow> executing (run_status r) \<Longrightarrow>
           same_place r (f d r) \<and> executing (run_status (f d r))"
  shows "tx_keeps quiet (sql_update db_runs db_runs_update p f)"
    and "tx_keeps quiet (sql_update_row db_runs db_runs_update p f)"
proof -
  have "quiet d (db_runs_update (update_rows (p d) (f d)) d)" for d
    by (rule quiet_runs [where p = "p d" and f = "f d"]) (auto simp: assms same_config_def)
  then show "tx_keeps quiet (sql_update db_runs db_runs_update p f)"
    "tx_keeps quiet (sql_update_row db_runs db_runs_update p f)"
    by (auto simp: tx_keeps_def tx_simps)
qed

lemma quiet_insert_run:
  assumes "\<And>a. run_id a = run_id row \<Longrightarrow> uq a row"
  shows "tx_keeps quiet (sql_insert db_runs db_runs_update uq ok err row)"
proof (rule tx_keepsI)
  fix d x d' assume ins: "sql_insert db_runs db_runs_update uq ok err row d = (Inr x, d')"
  then have d': "d' = d\<lparr>db_runs := db_runs d @ [row]\<rparr>" by (auto simp: tx_simps)
  have "keys_kept d d'"
    using runs.insert_keeps_key [OF _ assms ins] by (auto simp: keys_kept_def keys_wf_def d')
  moreover have "runs_kept d d'" using same_place_refl by (auto simp: runs_kept_def d')
  ultimately show "quiet d d'"
    by (intro quietI) (auto simp: d' claimed_def same_config_def)
qed

lemma quiet_insert_job:
  assumes "\<And>a. job_id a = job_id row \<Longrightarrow> uq a row" "job_state row \<noteq> JOB_CLAIMED"
  shows "tx_keeps quiet (sql_insert db_jobs db_jobs_update uq ok err row)"
proof (rule tx_keepsI)
  fix d x d' assume ins: "sql_insert db_jobs db_jobs_update uq ok err row d = (Inr x, d')"
  then have d': "d' = d\<lparr>db_jobs := db_jobs d @ [row]\<rparr>" by (auto simp: tx_simps)
  have "keys_kept d d'"
    using jobs.insert_keeps_key [OF _ assms(1) ins] by (auto simp: keys_kept_def keys_wf_def d')
  then show "quiet d d'"
    using assms(2)
    by (intro quietI) (auto simp: d' claimed_def same_config_def runs_kept_same)
qed

lemma quiet_insert_job_unless:
  assumes "\<And>a. job_id a = job_id row \<Longrightarrow> uq a row" "job_state row \<noteq> JOB_CLAIMED"
  shows "tx_keeps quiet (sql_insert_unless db_jobs db_jobs_update cf uq ok err row)"
proof -
  have "tx_keeps quiet
      (tx_bind (sql_insert db_jobs db_jobs_update uq ok err row) (\<lambda>r. tx_return (Some r)))"
    by (intro quiet.keeps_bind quiet_insert_job quiet.keeps_return assms)
  then show ?thesis
    by (intro tx_keepsI)
      (auto simp: sql_insert_unless_def quiet.refl dest: tx_keepsD split: if_splits)
qed

text \<open>A Run that no claimed job is about may stop executing.\<close>

lemma releasing_idle_run:
  assumes "db_runs d' = update_rows p f (db_runs d)" "\<And>r. run_id (f r) = run_id r"
    and idle: "\<And>r j. r \<in> set (db_runs d) \<Longrightarrow> p r \<Longrightarrow> j \<in> set (claimed d) \<Longrightarrow> \<not> job_on j r"
    and "db_jobs d' = db_jobs d" "db_leases d' = db_leases d"
    "db_reservations d' = db_reservations d" "same_config d d'"
  shows "releasing d d'"
proof -
  have cl: "claimed d' = claimed d" using assms by (simp add: claimed_def)
  have "\<exists>r'\<in>set (db_runs d'). same_place r r' \<and> executing (run_status r')"
    if "j' \<in> set (claimed d')" "r \<in> set (db_runs d)" "job_on j' r" "executing (run_status r)" for j' r
  proof -
    have "r \<in> set (db_runs d')" using that idle unfolding assms(1) cl by (intro unmatched_row) blast+
    then show ?thesis using that(4) same_place_refl by blast
  qed
  moreover have "keys_kept d d'" using assms by (simp add: keys_kept_def keys_wf_def map_update_rows)
  moreover have "\<exists>q. db_reservations d' = filter q (db_reservations d)"
    using assms by (intro exI [of _ "\<lambda>_. True"]) simp
  moreover have "gives_up_all d d'" unfolding gives_up_all_def cl by blast
  moreover have "\<forall>j'\<in>set (claimed d'). \<exists>j\<in>set (claimed d). same_claim j j'"
    unfolding cl using same_claim_refl by blast
  moreover have "lse_job_id ` set (db_leases d') \<subseteq> lse_job_id ` set (db_leases d)" using assms by simp
  ultimately show ?thesis unfolding releasing_def using assms(7) by blast
qed

text \<open>A job that is not claimed may change in any way that does not claim it.\<close>

lemma claimed_update_rows:
  assumes "\<And>j. p j \<Longrightarrow> job_state j \<noteq> JOB_CLAIMED \<and> job_state (f j) \<noteq> JOB_CLAIMED"
  shows "filter (\<lambda>j. job_state j = JOB_CLAIMED) (update_rows p f js) =
         filter (\<lambda>j. job_state j = JOB_CLAIMED) js"
  using assms by (induction js) (auto simp: update_rows_def)

lemma quiet_update_jobs:
  assumes "\<And>d j. p d j \<Longrightarrow> job_id (f d j) = job_id j"
    and "\<And>d j. p d j \<Longrightarrow> job_state j \<noteq> JOB_CLAIMED \<and> job_state (f d j) \<noteq> JOB_CLAIMED"
  shows "tx_keeps quiet (sql_update db_jobs db_jobs_update p f)"
    and "tx_keeps quiet (sql_update_row db_jobs db_jobs_update p f)"
proof -
  have "quiet d (db_jobs_update (update_rows (p d) (f d)) d)" for d
    by (intro quietI)
      (auto simp: keys_kept_def keys_wf_def claimed_def claimed_update_rows assms
        map_update_rows same_config_def runs_kept_same)
  then show "tx_keeps quiet (sql_update db_jobs db_jobs_update p f)"
    "tx_keeps quiet (sql_update_row db_jobs db_jobs_update p f)"
    by (auto simp: tx_keeps_def tx_simps)
qed

lemmas [safe_rules] = quiet_event [THEN keeps_safe]

section \<open>The sample database satisfies the invariant\<close>

lemmas wf_defs = sched_wf_def keys_wf_def config_wf_def ownership_wf_def workspace_exclusive_def
  capacity_wf_def capacity_used_def claimed_def job_on_def executing_def runner_session_limit_def
  is_positive_decimal_def decimal_value_def

lemma sample_wf:
  "sched_wf sample_queued" "sched_wf sample_claimed" "sched_wf (sample_delegated parent child)"
  by (simp_all add: wf_defs sample_eval sample_states)

lemma sample_log:
  "event_log_wf sample_queued" "event_log_wf sample_claimed" "event_log_wf (sample_delegated parent child)"
  by (simp_all add: event_log_wf_def run_events_def sample_eval sample_states)

end
