(* ===== verification/Delegation_Result.thy ===== *)
theory Delegation_Result
  imports Claims
begin

text \<open>
  What happens to the work around a Run when the Run ends (store/postgres/
  delegation_result.go, delegation_parent_fence.go and the sealing and closing statements of
  agent_work_requests.go): open work requests are closed, the delegation that created the
  Run gets its outcome, and a parent that waits for it is queued again exactly once.
\<close>

section \<open>Work requests of a Run\<close>

definition sealAgentWorkRequestsForRunTx :: "id \<Rightarrow> id \<Rightarrow> (db, nat) tx" where
  "sealAgentWorkRequestsForRunTx projectID runID =
     sql_update db_work_requests db_work_requests_update
       (\<lambda>d w. wrq_project_id w = projectID \<and> wrq_run_id w = Some runID \<and> wrq_sealed_at w = None)
       (\<lambda>d w. w\<lparr>wrq_sealed_at := Some (case wrq_sealed_at w of None \<Rightarrow> db_now d | Some t \<Rightarrow> t),
                 wrq_updated_at := db_now d\<rparr>)"

definition closeAgentWorkRequestsForRunTx :: "id \<Rightarrow> id \<Rightarrow> (db, nat) tx" where
  "closeAgentWorkRequestsForRunTx projectID runID =
     sql_update db_work_requests db_work_requests_update
       (\<lambda>d w. wrq_project_id w = projectID \<and> wrq_run_id w = Some runID \<and> wrq_closed_at w = None)
       (\<lambda>d w. w\<lparr>wrq_sealed_at := Some (case wrq_sealed_at w of None \<Rightarrow> db_now d | Some t \<Rightarrow> t),
                 wrq_closed_at := Some (case wrq_closed_at w of None \<Rightarrow> db_now d | Some t \<Rightarrow> t),
                 wrq_updated_at := db_now d\<rparr>)"

section \<open>The result text of a delegated Run\<close>

definition MaxDelegationResultCharacters :: nat where
  "MaxDelegationResultCharacters = 4096"

definition boundDelegationResult :: "string \<Rightarrow> string" where
  "boundDelegationResult value =
     (let value = TrimSpace value;
          rs = runes value;
          value = (if length rs > MaxDelegationResultCharacters
                   then encode_runes (take MaxDelegationResultCharacters rs) else value)
      in if value = [] then ''Delegated task produced no summary.'' else value)"

definition delegationTerminalOutcome ::
  "run_status \<Rightarrow> store_error + delegation_outcome \<times> string \<times> string" where
  "delegationTerminalOutcome status =
     (case status of
        RUN_COMPLETED \<Rightarrow> Inr (DLG_SUCCEEDED, ''delegation.completed'',
                              ''Delegated task completed successfully.'')
      | RUN_FAILED \<Rightarrow> Inr (DLG_FAILED, ''delegation.failed'', ''Delegated task failed.'')
      | RUN_CANCELLED \<Rightarrow> Inr (DLG_CANCELLED, ''delegation.cancelled'',
                               ''Delegated task was cancelled.'')
      | _ \<Rightarrow> Inl ErrInvalidArgument)"

text \<open>PostgreSQL's \<open>btrim\<close> with one argument removes spaces only.\<close>

definition btrim :: "string \<Rightarrow> string" where
  "btrim s = rev (dropWhile (\<lambda>c. c = CHR '' '') (rev (dropWhile (\<lambda>c. c = CHR '' '') s)))"

text \<open>The Events that carry the result of a Run that ended with \<open>status\<close>, and their text.\<close>

definition is_result_event :: "db \<Rightarrow> run_status \<Rightarrow> event \<Rightarrow> bool" where
  "is_result_event d status e \<longleftrightarrow>
     (status = RUN_FAILED \<and> evt_type e = ''run.failed'') \<or>
     (status \<noteq> RUN_FAILED \<and> evt_type e = ''agent.message'' \<and>
      (case json_text d (evt_payload e) ''kind'' of
         None \<Rightarrow> True | Some k \<Rightarrow> btrim k = [] \<or> btrim k = ''message''))"

definition result_event_text :: "db \<Rightarrow> event \<Rightarrow> string" where
  "result_event_text d e =
     (let field = (\<lambda>k. case json_text d (evt_payload e) k of None \<Rightarrow> [] | Some s \<Rightarrow> s)
      in if evt_type e = ''agent.message'' then field ''message''
         else if evt_type e = ''run.failed'' then field ''reason'' else [])"

text \<open>
  \<open>ORDER BY sequence DESC\<close> over Events of one Run, where the sequence is never NULL.
\<close>

definition delegatedResultEvidence :: "run \<Rightarrow> string \<Rightarrow> (db, string \<times> id option) tx" where
  "delegatedResultEvidence child fallback = tx_get (\<lambda>d.
     let found = first_by (\<lambda>e. - the (evt_sequence e))
           (filter (\<lambda>e. evt_project_id e = run_project_id child \<and>
                        evt_run_id e = Some (run_id child) \<and> is_result_event d (run_status child) e)
              (db_events d));
         text = (case found of None \<Rightarrow> [] | Some e \<Rightarrow> result_event_text d e);
         eventID = (if TrimSpace text = [] then None else map_option evt_id found);
         summary = (if TrimSpace text = [] \<and> run_status child = RUN_FAILED \<and>
                       run_failure_reason child \<noteq> None
                    then the (run_failure_reason child) else text);
         summary = (if TrimSpace summary = [] then fallback else summary)
     in (boundDelegationResult summary, eventID))"

definition delegatedWorkspaceAccepted :: "run \<Rightarrow> (db, bool) tx" where
  "delegatedWorkspaceAccepted child =
     sql_exists db_events (\<lambda>d e. evt_project_id e = run_project_id child \<and>
       evt_run_id e = Some (run_id child) \<and>
       (evt_type e = ''delegation.workspace_accepted'' \<or>
        (evt_type e = ''workspace.transfer.completed'' \<and>
         (json_text d (evt_payload e) ''direction'' = Some ''from_runner'' \<or>
          json_text d (evt_payload e) ''direction'' = Some ''git_publish''))))"

section \<open>Scheduler jobs\<close>

text \<open>A new row of scheduler_jobs and the constraints of the table.\<close>

definition new_job :: "id \<Rightarrow> id \<Rightarrow> id \<Rightarrow> job_kind \<Rightarrow> string option \<Rightarrow> string \<Rightarrow> time \<Rightarrow> time \<Rightarrow> job" where
  "new_job uid project r k reason key available now =
     \<lparr>job_id = uid, job_project_id = project, job_run_id = r, job_kind = k,
      job_state = JOB_QUEUED, job_wait_reason = reason, job_idempotency_key = key,
      job_available_at = available, job_created_at = now, job_updated_at = now\<rparr>"

definition job_unique :: "job \<Rightarrow> job \<Rightarrow> bool" where
  "job_unique a b \<longleftrightarrow> job_id a = job_id b \<or> job_idempotency_key a = job_idempotency_key b"

definition job_key_conflict :: "job \<Rightarrow> job \<Rightarrow> bool" where
  "job_key_conflict a b \<longleftrightarrow> job_idempotency_key a = job_idempotency_key b"

definition job_check :: "db \<Rightarrow> job \<Rightarrow> pg_error option" where
  "job_check d j =
     (if btrim (job_idempotency_key j) = [] then Some CheckViolation
      else if exists_row (\<lambda>r. run_project_id r = job_project_id j \<and> run_id r = job_run_id j) (db_runs d)
      then None else Some ForeignKeyViolation)"

definition ensureDelegationResumeJobTx :: "delegation \<Rightarrow> run \<Rightarrow> (db, job) tx" where
  "ensureDelegationResumeJobTx dlg parent =
     (let key = ''delegation:'' @ dlg_id dlg @ '':resume'' in
      tx_bind gen_random_uuid (\<lambda>uid.
      tx_bind (tx_get db_now) (\<lambda>now.
      tx_bind (sql_insert_unless db_jobs db_jobs_update job_key_conflict job_unique job_check notFound
                 (new_job uid (run_project_id parent) (run_id parent) JOB_RESUME None key now now))
        (\<lambda>inserted. case inserted of
           Some job \<Rightarrow> tx_return job
         | None \<Rightarrow>
             tx_bind (sql_find db_jobs (\<lambda>d j. job_idempotency_key j = key)) (\<lambda>job.
             tx_bind (tx_guard (job_project_id job = run_project_id parent \<and>
                                job_run_id job = run_id parent \<and> job_kind job = JOB_RESUME \<and>
                                job_state job = JOB_QUEUED) ErrConflict) (\<lambda>_.
             tx_return job))))))"

section \<open>Reads around a delegation\<close>

definition find_run :: "id \<Rightarrow> id \<Rightarrow> (db, run) tx" where
  "find_run projectID runID =
     sql_find db_runs (\<lambda>d r. run_project_id r = projectID \<and> run_id r = runID)"

definition delegation_of_run :: "run \<Rightarrow> (db, delegation option) tx" where
  "delegation_of_run child = tx_get (\<lambda>d.
     List.find (\<lambda>g. dlg_project_id g = run_project_id child \<and> dlg_delegated_run_id g = run_id child)
       (db_delegations d))"

definition delegation_child_matches :: "delegation \<Rightarrow> run \<Rightarrow> bool" where
  "delegation_child_matches g child \<longleftrightarrow>
     dlg_issue_id g = run_issue_id child \<and> run_agent_id child = Some (dlg_target_agent_id g)"

definition delegation_parent_matches :: "delegation \<Rightarrow> run \<Rightarrow> run \<Rightarrow> bool" where
  "delegation_parent_matches g child parent \<longleftrightarrow>
     run_issue_id parent = run_issue_id child \<and> run_workspace_id parent = run_workspace_id child \<and>
     run_agent_id parent \<noteq> None \<and> run_agent_id parent = dlg_parent_agent_id g"

definition delegatedParentTerminalTx :: "run \<Rightarrow> (db, bool) tx" where
  "delegatedParentTerminalTx child =
     tx_bind (delegation_of_run child) (\<lambda>found.
     case found of
       None \<Rightarrow> tx_return False
     | Some g \<Rightarrow>
         tx_bind (tx_guard (delegation_child_matches g child) ErrConflict) (\<lambda>_.
         case dlg_parent_run_id g of
           None \<Rightarrow>
             tx_bind (tx_guard (dlg_source_comment_id g \<noteq> None \<and> dlg_parent_agent_id g = None)
                        ErrConflict) (\<lambda>_.
             tx_return False)
         | Some p \<Rightarrow>
             tx_bind (find_run (dlg_project_id g) p) (\<lambda>parent.
             tx_bind (tx_guard (delegation_parent_matches g child parent) ErrConflict) (\<lambda>_.
             tx_return (terminal_run (run_status parent))))))"

definition activeRunExecutionSessionTx :: "id \<Rightarrow> id \<Rightarrow> (db, bool) tx" where
  "activeRunExecutionSessionTx projectID runID =
     sql_exists db_sessions (\<lambda>d s. ses_project_id s = projectID \<and> ses_run_id s = runID \<and>
       live_session (ses_status s))"

definition claimed_job_of_run :: "id \<Rightarrow> id \<Rightarrow> (db, bool) tx" where
  "claimed_job_of_run projectID runID =
     sql_exists db_jobs (\<lambda>d j. job_project_id j = projectID \<and> job_run_id j = runID \<and>
       job_state j = JOB_CLAIMED)"

definition inactiveRunExecutionOccupiedTx :: "id \<Rightarrow> id \<Rightarrow> (db, bool) tx" where
  "inactiveRunExecutionOccupiedTx projectID runID =
     tx_bind (activeRunExecutionSessionTx projectID runID) (\<lambda>active.
     if active then tx_return True else claimed_job_of_run projectID runID)"

definition unfinishedParentDelegationTx :: "run \<Rightarrow> (db, bool) tx" where
  "unfinishedParentDelegationTx parent =
     sql_exists db_delegations (\<lambda>d g. dlg_project_id g = run_project_id parent \<and>
       dlg_parent_run_id g = Some (run_id parent) \<and> dlg_issue_id g = run_issue_id parent \<and>
       dlg_outcome g = None)"

section \<open>Finalizing a delegated Run\<close>

text \<open>
  The parent side: a PAUSED parent is queued again, a PAUSED or QUEUED parent gets its
  continuation job, a terminal parent is left alone, any other status is a conflict.
\<close>

definition requeue_paused_parent :: "run \<Rightarrow> (db, run) tx" where
  "requeue_paused_parent parent =
     sql_update_row db_runs db_runs_update
       (\<lambda>d r. run_project_id r = run_project_id parent \<and> run_id r = run_id parent \<and>
              run_status r = RUN_PAUSED)
       (\<lambda>d r. r\<lparr>run_status := RUN_QUEUED, run_queue_reason := None, run_failure_reason := None,
                 run_completed_at := None, run_updated_at := db_now d\<rparr>)"

definition continue_parent :: "delegation \<Rightarrow> run \<Rightarrow> (db, run \<times> id option) tx" where
  "continue_parent g parent =
     (if run_status parent = RUN_PAUSED then
        tx_bind (requeue_paused_parent parent) (\<lambda>parent.
        tx_bind (ensureDelegationResumeJobTx g parent) (\<lambda>job.
        tx_return (parent, Some (job_id job))))
      else if run_status parent = RUN_QUEUED then
        tx_bind (ensureDelegationResumeJobTx g parent) (\<lambda>job.
        tx_return (parent, Some (job_id job)))
      else if terminal_run (run_status parent) then tx_return (parent, None)
      else tx_fail ErrConflict)"

definition resume_parent :: "delegation \<Rightarrow> run \<Rightarrow> (db, run option \<times> id option) tx" where
  "resume_parent g child =
     (case dlg_parent_run_id g of
        Some p \<Rightarrow>
          tx_bind (find_run (dlg_project_id g) p) (\<lambda>parent.
          tx_bind (tx_guard (delegation_parent_matches g child parent) ErrConflict) (\<lambda>_.
          tx_bind (continue_parent g parent) (\<lambda>(parent, job).
          tx_return (Some parent, job))))
      | None \<Rightarrow>
          tx_bind (tx_guard (dlg_source_comment_id g \<noteq> None \<and> dlg_parent_agent_id g = None)
                     ErrConflict) (\<lambda>_.
          tx_return (None, None)))"

definition json_option :: "('a \<Rightarrow> json) \<Rightarrow> 'a option \<Rightarrow> json" where
  "json_option f v = (case v of None \<Rightarrow> JNull | Some x \<Rightarrow> f x)"

fun outcome_text :: "delegation_outcome \<Rightarrow> string" where
  "outcome_text DLG_SUCCEEDED = ''SUCCEEDED''"
| "outcome_text DLG_FAILED = ''FAILED''"
| "outcome_text DLG_CANCELLED = ''CANCELLED''"

text \<open>The statement that records the outcome; it only ever fills an empty outcome.\<close>

definition complete_delegation ::
  "delegation \<Rightarrow> delegation_outcome \<Rightarrow> string \<Rightarrow> id option \<Rightarrow> bool \<Rightarrow> id option \<Rightarrow> (db, delegation) tx" where
  "complete_delegation g outcome summary resultEventID accepted continuationJobID =
     sql_update_row db_delegations db_delegations_update
       (\<lambda>d x. dlg_project_id x = dlg_project_id g \<and> dlg_id x = dlg_id g \<and> dlg_outcome x = None)
       (\<lambda>d x. x\<lparr>dlg_outcome := Some outcome, dlg_result_summary := Some summary,
                 dlg_result_event_id := resultEventID, dlg_workspace_changes_accepted := Some accepted,
                 dlg_continuation_job_id := continuationJobID, dlg_completed_at := Some (db_now d),
                 dlg_updated_at := db_now d\<rparr>)"

definition delegation_result_event ::
  "delegation \<Rightarrow> run \<Rightarrow> run option \<Rightarrow> string \<Rightarrow> delegation_outcome \<Rightarrow> id option \<Rightarrow> bool \<Rightarrow> id option \<Rightarrow> event" where
  "delegation_result_event g child parent eventType outcome resultEventID accepted continuationJobID =
     (let subject = (case parent of None \<Rightarrow> child | Some p \<Rightarrow> p) in
      zero_event\<lparr>evt_type := eventType, evt_project_id := dlg_project_id g,
        evt_issue_id := Some (dlg_issue_id g), evt_run_id := Some (run_id subject),
        evt_agent_id := run_agent_id subject, evt_workspace_id := Some (run_workspace_id subject),
        evt_actor := EmptyObject,
        evt_payload := JObj [(''continuationJobId'', json_option JStr continuationJobID),
          (''delegatedRunId'', JStr (dlg_delegated_run_id g)), (''delegationId'', JStr (dlg_id g)),
          (''outcome'', JStr (outcome_text outcome)),
          (''resultEventId'', json_option JStr resultEventID),
          (''workspaceChangesAccepted'', JBool accepted)]\<rparr>)"

text \<open>The part of \<open>finalizeDelegatedRunTx\<close> after an open delegation has been found.\<close>

definition record_delegation_result :: "delegation \<Rightarrow> run \<Rightarrow> (db, event list) tx" where
  "record_delegation_result g child =
     tx_bind (tx_guard (delegation_child_matches g child) ErrConflict) (\<lambda>_.
     case delegationTerminalOutcome (run_status child) of
       Inl e \<Rightarrow> tx_fail e
     | Inr (outcome, eventType, fallback) \<Rightarrow>
         tx_bind (delegatedResultEvidence child fallback) (\<lambda>(summary, resultEventID).
         tx_bind (delegatedWorkspaceAccepted child) (\<lambda>accepted.
         tx_bind (resume_parent g child) (\<lambda>(parent, continuationJobID).
         tx_bind (complete_delegation g outcome summary resultEventID accepted continuationJobID) (\<lambda>updated.
         tx_bind (appendEventTx (delegation_result_event updated child parent eventType outcome
                    resultEventID accepted continuationJobID)) (\<lambda>event.
         tx_return [event]))))))"

definition finalizeDelegatedRunTx :: "run \<Rightarrow> (db, event list) tx" where
  "finalizeDelegatedRunTx child =
     (if \<not> terminal_run (run_status child) then tx_return []
      else
        tx_bind (closeAgentWorkRequestsForRunTx (run_project_id child) (run_id child)) (\<lambda>_.
        tx_bind (delegation_of_run child) (\<lambda>found.
        case found of
          None \<Rightarrow> tx_return []
        | Some g \<Rightarrow>
            if dlg_outcome g \<noteq> None then tx_return [] else record_delegation_result g child)))"

section \<open>Ownership\<close>

lemma not_executing [simp]:
  "\<not> executing RUN_QUEUED" "\<not> executing RUN_PAUSED" "\<not> executing RUN_READY_FOR_REVIEW"
  "\<not> executing RUN_COMPLETED" "\<not> executing RUN_FAILED" "\<not> executing RUN_CANCELLED"
  "executing RUN_STARTING" "executing RUN_RUNNING" "executing RUN_WAITING_FOR_INPUT"
  by (simp_all add: executing_def)

lemma job_state_new_job [simp]: "job_state (new_job u p r k w key a t) = JOB_QUEUED"
  and job_id_new_job [simp]: "job_id (new_job u p r k w key a t) = u"
  and job_run_id_new_job [simp]: "job_run_id (new_job u p r k w key a t) = r"
  and job_project_id_new_job [simp]: "job_project_id (new_job u p r k w key a t) = p"
  and job_kind_new_job [simp]: "job_kind (new_job u p r k w key a t) = k"
  and job_key_new_job [simp]: "job_idempotency_key (new_job u p r k w key a t) = key"
  by (simp_all add: new_job_def)

lemma quiet_new_job [quiet_rules]:
  "tx_keeps quiet (sql_insert db_jobs db_jobs_update job_unique ok err (new_job u p r k w key a t))"
  "tx_keeps quiet (sql_insert_unless db_jobs db_jobs_update cf job_unique ok err (new_job u p r k w key a t))"
  by (rule quiet_insert_job quiet_insert_job_unless; simp add: job_unique_def)+

lemma quiet_reads [quiet_rules]:
  "tx_keeps quiet (find_run p r)"
  "tx_keeps quiet (delegation_of_run child)"
  "tx_keeps quiet (delegatedResultEvidence child fallback)"
  "tx_keeps quiet (delegatedWorkspaceAccepted child)"
  "tx_keeps quiet (activeRunExecutionSessionTx p r)"
  "tx_keeps quiet (claimed_job_of_run p r)"
  "tx_keeps quiet (unfinishedParentDelegationTx run)"
  unfolding find_run_def delegation_of_run_def delegatedResultEvidence_def
    delegatedWorkspaceAccepted_def activeRunExecutionSessionTx_def claimed_job_of_run_def
    unfinishedParentDelegationTx_def
  by (rule quiet_rules)+

lemma quiet_delegatedParentTerminal [quiet_rules]: "tx_keeps quiet (delegatedParentTerminalTx child)"
  unfolding delegatedParentTerminalTx_def by (intro quiet_rules)

lemma quiet_inactiveRunExecutionOccupied [quiet_rules]:
  "tx_keeps quiet (inactiveRunExecutionOccupiedTx p r)"
  unfolding inactiveRunExecutionOccupiedTx_def by (intro quiet_rules)

lemma quiet_work_requests [quiet_rules]:
  "tx_keeps quiet (sealAgentWorkRequestsForRunTx p r)"
  "tx_keeps quiet (closeAgentWorkRequestsForRunTx p r)"
  unfolding sealAgentWorkRequestsForRunTx_def closeAgentWorkRequestsForRunTx_def
  by (rule quiet_rules)+

lemma quiet_requeue_paused_parent [quiet_rules]: "tx_keeps quiet (requeue_paused_parent parent)"
  unfolding requeue_paused_parent_def by (rule quiet_update_runs) auto

lemma quiet_ensureDelegationResumeJob [quiet_rules]: "tx_keeps quiet (ensureDelegationResumeJobTx g parent)"
  unfolding ensureDelegationResumeJobTx_def by (intro quiet_rules)

lemma quiet_resume_parent [quiet_rules]: "tx_keeps quiet (resume_parent g child)"
  unfolding resume_parent_def continue_parent_def by (intro quiet_rules)

lemma quiet_complete_delegation [quiet_rules]: "tx_keeps quiet (complete_delegation g oc s e a c)"
  unfolding complete_delegation_def by (rule quiet_rules)

lemma quiet_finalizeDelegatedRun [quiet_rules]: "tx_keeps quiet (finalizeDelegatedRunTx child)"
  unfolding finalizeDelegatedRunTx_def record_delegation_result_def by (intro quiet_rules)

section \<open>The result text\<close>

lemma boundDelegationResult_nonempty: "boundDelegationResult s \<noteq> []"
  by (simp add: boundDelegationResult_def Let_def)

text \<open>The bound of the column: at most 4096 characters.\<close>

lemma boundDelegationResult_bounded:
  "RuneCountInString (boundDelegationResult s) \<le> MaxDelegationResultCharacters"
proof (cases "length (runes (TrimSpace s)) > MaxDelegationResultCharacters")
  case True
  have "RuneCountInString (encode_runes (take MaxDelegationResultCharacters (runes (TrimSpace s)))) \<le>
      MaxDelegationResultCharacters"
    by (simp add: RuneCount_take_runes)
  moreover have "RuneCountInString ''Delegated task produced no summary.'' \<le> MaxDelegationResultCharacters"
    unfolding MaxDelegationResultCharacters_def by code_simp
  ultimately show ?thesis using True by (simp add: boundDelegationResult_def Let_def)
next
  case False
  moreover have "RuneCountInString ''Delegated task produced no summary.'' \<le> MaxDelegationResultCharacters"
    unfolding MaxDelegationResultCharacters_def by code_simp
  ultimately show ?thesis by (simp add: boundDelegationResult_def Let_def RuneCountInString_def)
qed

section \<open>Delegations and work requests\<close>

text \<open>What leaves the delegations and the work requests as they are.\<close>

definition same_lineage :: "db \<Rightarrow> db \<Rightarrow> bool" where
  "same_lineage d d' \<longleftrightarrow> db_delegations d' = db_delegations d \<and> db_work_requests d' = db_work_requests d"

interpretation lineage: db_frame same_lineage
  by unfold_locales (auto simp: same_lineage_def)

named_theorems lineage_rules "statements and calls that change no delegation and no work request"

lemma lineage_tables:
  "same_lineage d (db_jobs_update g1 d)" "same_lineage d (db_runs_update g2 d)"
  "same_lineage d (db_leases_update g3 d)" "same_lineage d (db_reservations_update g4 d)"
  "same_lineage d (db_sessions_update g5 d)" "same_lineage d (db_questions_update g6 d)"
  "same_lineage d (db_bindings_update g7 d)" "same_lineage d (db_decisions_update g8 d)"
  "same_lineage d (db_reviews_update g9 d)" "same_lineage d (db_issues_update g10 d)"
  by (simp_all add: same_lineage_def)

lemmas [lineage_rules] = lineage.keeps_intros lineage.keeps_uuid
  lineage.keeps_writes [of db_jobs_update, OF lineage_tables(1)]
  lineage.keeps_writes [of db_runs_update, OF lineage_tables(2)]
  lineage.keeps_writes [of db_leases_update, OF lineage_tables(3)]
  lineage.keeps_writes [of db_reservations_update, OF lineage_tables(4)]
  lineage.keeps_writes [of db_sessions_update, OF lineage_tables(5)]
  lineage.keeps_writes [of db_questions_update, OF lineage_tables(6)]
  lineage.keeps_writes [of db_bindings_update, OF lineage_tables(7)]
  lineage.keeps_writes [of db_decisions_update, OF lineage_tables(8)]
  lineage.keeps_writes [of db_reviews_update, OF lineage_tables(9)]
  lineage.keeps_writes [of db_issues_update, OF lineage_tables(10)]

lemma lineage_event [lineage_rules]: "tx_keeps same_lineage (appendEventTx input)"
  by (rule tx_keepsI) (drule appendEventTx_state, simp add: same_lineage_def)

lemma lineage_resume_parent: "tx_keeps same_lineage (resume_parent g child)"
  unfolding resume_parent_def continue_parent_def requeue_paused_parent_def
    ensureDelegationResumeJobTx_def find_run_def
  by (intro lineage_rules)

text \<open>The delegation that created a Run, if any.\<close>

definition delegation_for :: "db \<Rightarrow> run \<Rightarrow> delegation option" where
  "delegation_for d child =
     List.find (\<lambda>g. dlg_project_id g = run_project_id child \<and> dlg_delegated_run_id g = run_id child)
       (db_delegations d)"

lemma delegation_of_run_eq [tx_simps]:
  "delegation_of_run child d = (r, d') \<longleftrightarrow> r = Inr (delegation_for d child) \<and> d' = d"
  by (auto simp: delegation_of_run_def delegation_for_def tx_simps)

lemma delegation_for_cong: "same_lineage d d' \<Longrightarrow> delegation_for d' child = delegation_for d child"
  by (simp add: same_lineage_def delegation_for_def)

text \<open>Recording a result fills the outcome of the delegation and reports one Event.\<close>

lemma record_delegation_result_outcome:
  assumes rec: "record_delegation_result g child d = (Inr evs, d')"
    and g: "delegation_for d child = Some g" "dlg_outcome g = None"
  obtains g' outcome ty fb where "delegation_for d' child = Some g'" "dlg_id g' = dlg_id g"
    "delegationTerminalOutcome (run_status child) = Inr (outcome, ty, fb)"
    "dlg_outcome g' = Some outcome" "length evs = 1" "map evt_type evs = [ty]"
    "db_work_requests d' = db_work_requests d"
proof -
  obtain outcome ty fb where oc: "delegationTerminalOutcome (run_status child) = Inr (outcome, ty, fb)"
    using rec unfolding record_delegation_result_def
    by (cases "delegationTerminalOutcome (run_status child)") (auto simp: tx_simps)
  from rec obtain summary ev acc parent job d2 upd d3 e where
      rp: "resume_parent g child d = (Inr (parent, job), d2)"
    and cd: "complete_delegation g outcome summary ev acc job d2 = (Inr upd, d3)"
    and ap: "appendEventTx (delegation_result_event upd child parent ty outcome ev acc job) d3 = (Inr e, d')"
    and evs: "evs = [e]"
    unfolding record_delegation_result_def oc
    by (auto simp: tx_simps delegatedResultEvidence_def delegatedWorkspaceAccepted_def Let_def)
  have l1: "same_lineage d d2" using lineage_resume_parent rp by (rule tx_keepsD)
  have l2: "same_lineage d3 d'" using lineage_event ap by (rule tx_keepsD)
  have g2: "delegation_for d2 child = Some g" using l1 g by (simp add: delegation_for_cong)
  then have key: "dlg_project_id g = run_project_id child" "dlg_delegated_run_id g = run_id child"
    unfolding delegation_for_def by (auto dest: find_Some_in)
  obtain f where d3: "db_delegations d3 = update_rows (\<lambda>x. dlg_project_id x = dlg_project_id g \<and>
        dlg_id x = dlg_id g \<and> dlg_outcome x = None) f (db_delegations d2)"
      "db_work_requests d3 = db_work_requests d2"
    and f: "\<And>x. dlg_outcome (f x) = Some outcome" "\<And>x. dlg_id (f x) = dlg_id x"
      "\<And>x. dlg_project_id (f x) = dlg_project_id x" "\<And>x. dlg_delegated_run_id (f x) = dlg_delegated_run_id x"
    using cd unfolding complete_delegation_def by (auto simp: tx_simps)
  have "delegation_for d3 child = Some (f g)"
    using g2 g(2) unfolding delegation_for_def d3 by (intro find_update_rows) (auto simp: f)
  then have "delegation_for d' child = Some (f g)" using l2 by (simp add: delegation_for_cong)
  moreover have "map evt_type evs = [ty]"
    using evs appendEventTx_event(1) [OF ap] by (simp add: delegation_result_event_def Let_def)
  ultimately show ?thesis
    using that oc evs f l1 l2 d3 by (simp add: same_lineage_def)
qed

section \<open>A Run is finalized once\<close>

lemma close_requests:
  assumes "closeAgentWorkRequestsForRunTx p r d = (Inr n, d')"
  shows "\<forall>w\<in>set (db_work_requests d'). wrq_project_id w = p \<longrightarrow> wrq_run_id w = Some r \<longrightarrow>
           wrq_closed_at w \<noteq> None"
proof -
  obtain f where d': "db_work_requests d' = update_rows (\<lambda>w. wrq_project_id w = p \<and>
      wrq_run_id w = Some r \<and> wrq_closed_at w = None) f (db_work_requests d)"
    and f: "\<And>w. wrq_closed_at (f w) \<noteq> None"
    using assms unfolding closeAgentWorkRequestsForRunTx_def by (auto simp: tx_simps)
  show ?thesis unfolding d' by (clarsimp simp: in_update_rows simp del: not_None_eq) (use f in fastforce)
qed

lemma close_requests_again:
  assumes "\<forall>w\<in>set (db_work_requests d). wrq_project_id w = p \<longrightarrow> wrq_run_id w = Some r \<longrightarrow>
             wrq_closed_at w \<noteq> None"
  shows "\<exists>n. closeAgentWorkRequestsForRunTx p r d = (Inr n, d)"
proof -
  have "update_rows (\<lambda>w. wrq_project_id w = p \<and> wrq_run_id w = Some r \<and> wrq_closed_at w = None) f
      (db_work_requests d) = db_work_requests d" for f
    using assms by (intro update_rows_no_match) auto
  then show ?thesis
    unfolding closeAgentWorkRequestsForRunTx_def by (simp add: tx_simps)
qed

lemma finalizeDelegatedRunTx_terminal:
  assumes fin: "finalizeDelegatedRunTx child d = (Inr evs, d')" and "terminal_run (run_status child)"
  shows "\<forall>w\<in>set (db_work_requests d'). wrq_project_id w = run_project_id child \<longrightarrow>
           wrq_run_id w = Some (run_id child) \<longrightarrow> wrq_closed_at w \<noteq> None"
    and "case delegation_for d' child of None \<Rightarrow> True | Some g \<Rightarrow> dlg_outcome g \<noteq> None"
proof -
  obtain n d1 where cl: "closeAgentWorkRequestsForRunTx (run_project_id child) (run_id child) d = (Inr n, d1)"
    and rest: "(case delegation_for d1 child of None \<Rightarrow> tx_return []
       | Some g \<Rightarrow> if dlg_outcome g \<noteq> None then tx_return [] else record_delegation_result g child) d1 = (Inr evs, d')"
    using assms unfolding finalizeDelegatedRunTx_def by (auto simp: tx_simps simp del: not_None_eq)
  note c = close_requests [OF cl]
  consider "d' = d1" "case delegation_for d1 child of None \<Rightarrow> True | Some g \<Rightarrow> dlg_outcome g \<noteq> None"
    | g where "delegation_for d1 child = Some g" "dlg_outcome g = None"
        "record_delegation_result g child d1 = (Inr evs, d')"
    using rest by (auto simp: tx_simps split: option.splits if_splits)
  then show "\<forall>w\<in>set (db_work_requests d'). wrq_project_id w = run_project_id child \<longrightarrow>
           wrq_run_id w = Some (run_id child) \<longrightarrow> wrq_closed_at w \<noteq> None"
    and "case delegation_for d' child of None \<Rightarrow> True | Some g \<Rightarrow> dlg_outcome g \<noteq> None"
    using c by (cases; force elim: record_delegation_result_outcome)+
qed

lemma finalizeDelegatedRunTx_again:
  assumes "finalizeDelegatedRunTx child d = (Inr evs, d')"
  shows "finalizeDelegatedRunTx child d' = (Inr [], d')"
proof (cases "terminal_run (run_status child)")
  case False
  then show ?thesis using assms by (simp add: finalizeDelegatedRunTx_def tx_simps)
next
  case True
  obtain n where "closeAgentWorkRequestsForRunTx (run_project_id child) (run_id child) d' = (Inr n, d')"
    using close_requests_again finalizeDelegatedRunTx_terminal(1) [OF assms True] by blast
  then show ?thesis
    using True finalizeDelegatedRunTx_terminal(2) [OF assms True]
    by (auto simp: finalizeDelegatedRunTx_def tx_simps split: option.splits)
qed

lemmas [safe_rules] =
  quiet_finalizeDelegatedRun [THEN keeps_safe]
  quiet_inactiveRunExecutionOccupied [THEN keeps_safe]
  quiet_delegatedParentTerminal [THEN keeps_safe]
  quiet_work_requests [THEN keeps_safe]
  quiet_reads [THEN keeps_safe]
  quiet_new_job [THEN keeps_safe]

section \<open>History\<close>

lemma history_finalizeDelegatedRun [history_rules]: "tx_keeps history (finalizeDelegatedRunTx child)"
  unfolding finalizeDelegatedRunTx_def record_delegation_result_def resume_parent_def
    continue_parent_def requeue_paused_parent_def ensureDelegationResumeJobTx_def
    complete_delegation_def closeAgentWorkRequestsForRunTx_def delegation_of_run_def find_run_def
    delegatedResultEvidence_def delegatedWorkspaceAccepted_def
  by (intro history_rules history_update_runs) (auto simp: terminal_run_def)

lemma history_reads [history_rules]:
  "tx_keeps history (find_run p r)"
  "tx_keeps history (activeRunExecutionSessionTx p r)"
  "tx_keeps history (claimed_job_of_run p r)"
  "tx_keeps history (inactiveRunExecutionOccupiedTx p r)"
  "tx_keeps history (unfinishedParentDelegationTx run)"
  "tx_keeps history (delegatedParentTerminalTx run)"
  "tx_keeps history (sealAgentWorkRequestsForRunTx p r)"
  unfolding find_run_def activeRunExecutionSessionTx_def claimed_job_of_run_def
    inactiveRunExecutionOccupiedTx_def unfinishedParentDelegationTx_def delegatedParentTerminalTx_def
    delegation_of_run_def sealAgentWorkRequestsForRunTx_def
  by (intro history_rules)+

section \<open>Properties\<close>

text \<open>
  The result text of a delegation fits its column: it is never empty and has at most 4096
  characters, whatever the Run reported.
\<close>

theorem result_text_is_bounded:
  "boundDelegationResult value \<noteq> [] \<and>
   RuneCountInString (boundDelegationResult value) \<le> MaxDelegationResultCharacters"
  by (simp add: boundDelegationResult_nonempty boundDelegationResult_bounded)

text \<open>
  C10. Finalizing a Run is idempotent: repeating a successful finalization changes nothing and
  appends no second result Event.
\<close>

theorem finalization_is_idempotent:
  assumes "finalizeDelegatedRunTx child d = (Inr evs, d')"
  shows "finalizeDelegatedRunTx child d' = (Inr [], d')"
  using assms by (rule finalizeDelegatedRunTx_again)

text \<open>
  The parent side of a result: what \<open>resume_parent\<close> does for a paused parent and for one
  that has ended.
\<close>

lemma ensureDelegationResumeJob_Inr:
  assumes "ensureDelegationResumeJobTx g parent d = (Inr job, d')"
  shows "job \<in> set (db_jobs d')" "job_idempotency_key job = ''delegation:'' @ dlg_id g @ '':resume''"
    "job_run_id job = run_id parent" "job_project_id job = run_project_id parent"
    "job_kind job = JOB_RESUME" "job_state job = JOB_QUEUED" "db_runs d' = db_runs d"
    "db_delegations d' = db_delegations d"
  using assms unfolding ensureDelegationResumeJobTx_def Let_def
  by (auto simp: tx_simps split: if_splits dest!: find_Some_in)

lemma resume_paused_parent:
  assumes "resume_parent g child d = (Inr (parent', jid), d')"
    and "dlg_parent_run_id g = Some (run_id parent)" "run_project_id parent = dlg_project_id g"
    and "List.find (\<lambda>r. run_project_id r = dlg_project_id g \<and> run_id r = run_id parent) (db_runs d) = Some parent"
    and "run_status parent = RUN_PAUSED"
  shows "\<exists>r\<in>set (db_runs d'). run_id r = run_id parent \<and> run_status r = RUN_QUEUED"
    and "\<exists>job\<in>set (db_jobs d'). jid = Some (job_id job) \<and> job_run_id job = run_id parent \<and>
       job_kind job = JOB_RESUME \<and> job_state job = JOB_QUEUED"
proof -
  from assms obtain p1 d1 job where req: "requeue_paused_parent parent d = (Inr p1, d1)"
    and ens: "ensureDelegationResumeJobTx g p1 d1 = (Inr job, d')" and jid: "jid = Some (job_id job)"
    unfolding resume_parent_def continue_parent_def find_run_def by (auto simp: tx_simps)
  note j = ensureDelegationResumeJob_Inr [OF ens]
  have p1: "p1 \<in> set (db_runs d1)" "run_id p1 = run_id parent" "run_status p1 = RUN_QUEUED"
    using req unfolding requeue_paused_parent_def by (auto simp: tx_simps dest!: find_Some_in intro!: matched_row)
  show "\<exists>r\<in>set (db_runs d'). run_id r = run_id parent \<and> run_status r = RUN_QUEUED"
    using p1 j(7) by auto
  show "\<exists>job\<in>set (db_jobs d'). jid = Some (job_id job) \<and> job_run_id job = run_id parent \<and>
       job_kind job = JOB_RESUME \<and> job_state job = JOB_QUEUED"
    using j jid p1(2) by auto
qed

lemma resume_ended_parent:
  assumes "resume_parent g child d = (Inr (parent', jid), d')"
    and "dlg_parent_run_id g = Some (run_id parent)"
    and "List.find (\<lambda>r. run_project_id r = dlg_project_id g \<and> run_id r = run_id parent) (db_runs d) = Some parent"
    and "terminal_run (run_status parent)"
  shows "d' = d" "jid = None"
  using assms unfolding resume_parent_def continue_parent_def find_run_def
  by (auto simp: tx_simps terminal_run_def split: if_splits)

text \<open>The steps of a finalization that records a result.\<close>

lemma finalize_open_delegation:
  assumes fin: "finalizeDelegatedRunTx child d = (Inr evs, d')" and "terminal_run (run_status child)"
    and "delegation_for d child = Some g" "dlg_outcome g = None"
  obtains d1 parent jid d2 where
    "resume_parent g child d1 = (Inr (parent, jid), d2)" "db_runs d1 = db_runs d" "db_jobs d1 = db_jobs d"
    "db_jobs d' = db_jobs d2"
    "map (\<lambda>r. (run_id r, run_status r)) (db_runs d') = map (\<lambda>r. (run_id r, run_status r)) (db_runs d2)"
proof -
  from fin assms(2-4) obtain n d1 where cl: "closeAgentWorkRequestsForRunTx (run_project_id child) (run_id child) d = (Inr n, d1)"
    and rec: "record_delegation_result g child d1 = (Inr evs, d')"
    unfolding finalizeDelegatedRunTx_def delegation_for_def
    by (auto simp: tx_bind_Inr delegation_of_run_def tx_get_eq closeAgentWorkRequestsForRunTx_def sql_update_eq)
  have same: "db_runs d1 = db_runs d" "db_jobs d1 = db_jobs d"
    using cl unfolding closeAgentWorkRequestsForRunTx_def by (auto simp: tx_simps)
  from rec obtain outcome ty fb su re acc parent jid d2 up d3 ev where
    par: "resume_parent g child d1 = (Inr (parent, jid), d2)" and
    com: "complete_delegation g outcome su re acc jid d2 = (Inr up, d3)" and
    app: "appendEventTx (delegation_result_event up child parent ty outcome re acc jid) d3 = (Inr ev, d')"
    unfolding record_delegation_result_def delegatedResultEvidence_def delegatedWorkspaceAccepted_def
    by (auto simp: tx_bind_Inr tx_guard_Inr tx_get_eq sql_exists_eq tx_return_eq tx_fail_eq Let_def
        split: sum.splits prod.splits)
  have d3: "db_runs d3 = db_runs d2" "db_jobs d3 = db_jobs d2"
    using com unfolding complete_delegation_def by (auto simp: tx_simps)
  have "map (\<lambda>r. (run_id r, run_status r)) (db_runs d') = map (\<lambda>r. (run_id r, run_status r)) (db_runs d3)"
    "db_jobs d' = db_jobs d3"
    unfolding appendEventTx_state [OF app] by (auto simp: bump_run_def map_update_rows split: option.splits)
  then show ?thesis using that [OF par same] d3 by simp
qed

text \<open>
  C11. A paused parent is resumed by the result of its child: when the Run of an open
  delegation has ended and is finalized, a PAUSED parent is QUEUED afterwards and has a queued
  RESUME job.
\<close>

theorem result_resumes_parent:
  assumes fin: "finalizeDelegatedRunTx child d = (Inr evs, d')" and end_child: "terminal_run (run_status child)"
    and g: "delegation_for d child = Some g" "dlg_outcome g = None" "dlg_parent_run_id g = Some (run_id parent)"
      "run_project_id parent = dlg_project_id g"
    and par: "List.find (\<lambda>r. run_project_id r = dlg_project_id g \<and> run_id r = run_id parent) (db_runs d) = Some parent"
      "run_status parent = RUN_PAUSED"
  shows "(\<exists>r\<in>set (db_runs d'). run_id r = run_id parent \<and> run_status r = RUN_QUEUED) \<and>
     (\<exists>job\<in>set (db_jobs d'). job_run_id job = run_id parent \<and> job_kind job = JOB_RESUME \<and> job_state job = JOB_QUEUED)"
proof -
  obtain d1 p' jid d2 where res: "resume_parent g child d1 = (Inr (p', jid), d2)"
    and d1: "db_runs d1 = db_runs d" "db_jobs d1 = db_jobs d"
    and jobs: "db_jobs d' = db_jobs d2"
    and runs: "map (\<lambda>r. (run_id r, run_status r)) (db_runs d') = map (\<lambda>r. (run_id r, run_status r)) (db_runs d2)"
    using fin end_child g(1,2) by (rule finalize_open_delegation)
  note r = resume_paused_parent [OF res g(3,4) par(1) [folded d1(1)] par(2)]
  have "(run_id parent, RUN_QUEUED) \<in> set (map (\<lambda>r. (run_id r, run_status r)) (db_runs d2))"
    using r(1) by (auto simp: image_iff) (metis)
  then have "\<exists>r\<in>set (db_runs d'). run_id r = run_id parent \<and> run_status r = RUN_QUEUED"
    unfolding runs [symmetric] by auto
  then show ?thesis using r(2) jobs by auto
qed

lemmas finalization_run = tx_run finalizeDelegatedRunTx_def closeAgentWorkRequestsForRunTx_def delegation_of_run_def
  record_delegation_result_def delegation_child_matches_def delegationTerminalOutcome_def delegatedResultEvidence_def
  delegatedWorkspaceAccepted_def resume_parent_def find_run_def delegation_parent_matches_def continue_parent_def
  requeue_paused_parent_def ensureDelegationResumeJobTx_def job_check_def job_unique_def job_key_conflict_def new_job_def
  complete_delegation_def delegation_result_event_def appendEventTx_def validateEventReferences_def
  event_references_valid_def next_event_sequence_def appended_event_def event_unique_def event_check_def
  zero_event_def EmptyObject_def objectJSON_def is_object_def visible_to_def terminal_run_def delegation_for_def

text \<open>The delegated Run of the sample ends while its parent is in the given status.\<close>

lemma sample_result:
  assumes "parent \<in> {RUN_PAUSED, RUN_FAILED}"
  shows "\<exists>evs d'. finalizeDelegatedRunTx (sample_child RUN_COMPLETED) (sample_delegated parent RUN_COMPLETED) = (Inr evs, d')"
proof -
  have "TrimSpace ''Delegated task completed successfully.'' = ''Delegated task completed successfully.''"
    "boundDelegationResult ''Delegated task completed successfully.'' = ''Delegated task completed successfully.''"
    "btrim ''delegation:g1:resume'' = ''delegation:g1:resume''"
    by code_simp+
  then show ?thesis using assms by (auto simp: finalization_run sample_states sample_eval)
qed

lemma sample_lineage:
  "delegation_for (sample_delegated parent child) (sample_child st) = Some sample_delegation"
  by (simp add: delegation_for_def sample_states sample_eval)

theorem result_resumes_parent_witness:
  "\<exists>evs d'. finalizeDelegatedRunTx (sample_child RUN_COMPLETED) (sample_delegated RUN_PAUSED RUN_COMPLETED) = (Inr evs, d') \<and>
     (\<exists>r\<in>set (db_runs d'). run_id r = ''r1'' \<and> run_status r = RUN_QUEUED)"
proof -
  obtain evs d' where fin: "finalizeDelegatedRunTx (sample_child RUN_COMPLETED) (sample_delegated RUN_PAUSED RUN_COMPLETED) = (Inr evs, d')"
    using sample_result [of RUN_PAUSED] by blast
  have "(\<exists>r\<in>set (db_runs d'). run_id r = run_id (sample_run ''r1'' 1 RUN_PAUSED) \<and> run_status r = RUN_QUEUED) \<and>
     (\<exists>job\<in>set (db_jobs d'). job_run_id job = run_id (sample_run ''r1'' 1 RUN_PAUSED) \<and> job_kind job = JOB_RESUME \<and>
        job_state job = JOB_QUEUED)"
    by (rule result_resumes_parent [OF fin _ sample_lineage]) (simp_all add: sample_states sample_eval terminal_run_def)
  then show ?thesis using fin by (auto simp: sample_eval)
qed

text \<open>
  A parent that has ended is never resurrected: finalizing a child whose parent is
  COMPLETED, FAILED or CANCELLED adds no job and changes the status of no Run.
\<close>

theorem result_never_resurrects:
  assumes fin: "finalizeDelegatedRunTx child d = (Inr evs, d')" and end_child: "terminal_run (run_status child)"
    and g: "delegation_for d child = Some g" "dlg_outcome g = None" "dlg_parent_run_id g = Some (run_id parent)"
    and par: "List.find (\<lambda>r. run_project_id r = dlg_project_id g \<and> run_id r = run_id parent) (db_runs d) = Some parent"
      "terminal_run (run_status parent)"
  shows "db_jobs d' = db_jobs d \<and>
     map (\<lambda>r. (run_id r, run_status r)) (db_runs d') = map (\<lambda>r. (run_id r, run_status r)) (db_runs d)"
proof -
  obtain d1 p' jid d2 where res: "resume_parent g child d1 = (Inr (p', jid), d2)"
    and d1: "db_runs d1 = db_runs d" "db_jobs d1 = db_jobs d"
    and jobs: "db_jobs d' = db_jobs d2"
    and runs: "map (\<lambda>r. (run_id r, run_status r)) (db_runs d') = map (\<lambda>r. (run_id r, run_status r)) (db_runs d2)"
    using fin end_child g(1,2) by (rule finalize_open_delegation)
  have "d2 = d1" using resume_ended_parent(1) [OF res g(3) par(1) [folded d1(1)] par(2)] .
  then show ?thesis using jobs runs d1 by simp
qed

theorem result_never_resurrects_witness:
  "\<exists>evs d'. finalizeDelegatedRunTx (sample_child RUN_COMPLETED) (sample_delegated RUN_FAILED RUN_COMPLETED) = (Inr evs, d') \<and>
     db_jobs d' = db_jobs (sample_delegated RUN_FAILED RUN_COMPLETED)"
proof -
  obtain evs d' where fin: "finalizeDelegatedRunTx (sample_child RUN_COMPLETED) (sample_delegated RUN_FAILED RUN_COMPLETED) = (Inr evs, d')"
    using sample_result [of RUN_FAILED] by blast
  have "db_jobs d' = db_jobs (sample_delegated RUN_FAILED RUN_COMPLETED) \<and>
     map (\<lambda>r. (run_id r, run_status r)) (db_runs d') =
       map (\<lambda>r. (run_id r, run_status r)) (db_runs (sample_delegated RUN_FAILED RUN_COMPLETED))"
    by (rule result_never_resurrects [OF fin _ sample_lineage, where parent = "sample_run ''r1'' 1 RUN_FAILED"])
      (simp_all add: sample_states sample_eval terminal_run_def)
  then show ?thesis using fin by blast
qed

theorem finalization_is_idempotent_witness:
  "\<exists>evs d'. finalizeDelegatedRunTx (sample_child RUN_COMPLETED) (sample_delegated RUN_PAUSED RUN_COMPLETED) = (Inr evs, d') \<and>
     finalizeDelegatedRunTx (sample_child RUN_COMPLETED) d' = (Inr [], d')"
proof -
  obtain evs d' where fin: "finalizeDelegatedRunTx (sample_child RUN_COMPLETED) (sample_delegated RUN_PAUSED RUN_COMPLETED) = (Inr evs, d')"
    using sample_result [of RUN_PAUSED] by blast
  then show ?thesis using finalization_is_idempotent [OF fin] by blast
qed


end
