(* ===== verification/Run_Cancellation.thy ===== *)
theory Run_Cancellation
  imports Delegation_Result
begin

text \<open>
  Cancelling a Run that is not executing, or that is claimed but has no live Execution
  Session (store/postgres/run_cancellation.go): the Run ends, its jobs end, and every lease
  and every reservation of the Run is given back in the same transaction.
\<close>

section \<open>Operations\<close>

text \<open>The three statements that give back what a Run holds.\<close>

definition cancel_jobs_of_run :: "id \<Rightarrow> id \<Rightarrow> (db, nat) tx" where
  "cancel_jobs_of_run projectID runID =
     sql_update db_jobs db_jobs_update
       (\<lambda>d j. job_project_id j = projectID \<and> job_run_id j = runID \<and>
              (job_state j = JOB_QUEUED \<or> job_state j = JOB_CLAIMED))
       (\<lambda>d j. j\<lparr>job_state := JOB_CANCELLED, job_wait_reason := None, job_updated_at := db_now d\<rparr>)"

definition delete_leases_of_run :: "id \<Rightarrow> id \<Rightarrow> (db, nat) tx" where
  "delete_leases_of_run projectID runID =
     sql_delete db_leases db_leases_update
       (\<lambda>d l. exists_row (\<lambda>j. lse_job_id l = job_id j \<and> job_project_id j = projectID \<and>
                job_run_id j = runID) (db_jobs d))"

definition delete_reservations_of_run :: "id \<Rightarrow> id \<Rightarrow> (db, nat) tx" where
  "delete_reservations_of_run projectID runID =
     sql_delete db_reservations db_reservations_update
       (\<lambda>d v. rsv_project_id v = projectID \<and> rsv_run_id v = runID)"

definition cancel_run_row :: "run \<Rightarrow> (db, run) tx" where
  "cancel_run_row current =
     sql_update_row db_runs db_runs_update
       (\<lambda>d r. run_project_id r = run_project_id current \<and> run_id r = run_id current \<and>
              (run_status r = RUN_QUEUED \<or> run_status r = RUN_PAUSED \<or> run_status r = RUN_STARTING))
       (\<lambda>d r. r\<lparr>run_status := RUN_CANCELLED, run_queue_reason := None,
                 run_completed_at := Some (db_now d), run_updated_at := db_now d\<rparr>)"

definition cancelInactiveRunTx :: "run \<Rightarrow> (db, run \<times> event \<times> event list) tx" where
  "cancelInactiveRunTx current =
     tx_bind (cancel_run_row current) (\<lambda>run.
     tx_bind (cancel_jobs_of_run (run_project_id run) (run_id run)) (\<lambda>_.
     tx_bind (delete_leases_of_run (run_project_id run) (run_id run)) (\<lambda>_.
     tx_bind (delete_reservations_of_run (run_project_id run) (run_id run)) (\<lambda>_.
     tx_bind (appendEventTx (run_event run ''run.cancelled'' (JObj [(''status'', JStr ''CANCELLED'')])))
       (\<lambda>event.
     tx_bind (finalizeDelegatedRunTx run) (\<lambda>delegationEvents.
     tx_return (run, event, event # delegationEvents)))))))"

text \<open>The checks of CancelInactiveRun before it cancels.\<close>

definition cancellation_allowed :: "run \<Rightarrow> (db, unit) tx" where
  "cancellation_allowed current =
     (case run_status current of
        RUN_QUEUED \<Rightarrow>
          tx_bind (inactiveRunExecutionOccupiedTx (run_project_id current) (run_id current)) (\<lambda>occupied.
          tx_guard (\<not> occupied) ErrConflict)
      | RUN_PAUSED \<Rightarrow>
          tx_bind (inactiveRunExecutionOccupiedTx (run_project_id current) (run_id current)) (\<lambda>occupied.
          tx_guard (\<not> occupied) ErrConflict)
      | RUN_STARTING \<Rightarrow>
          tx_bind (activeRunExecutionSessionTx (run_project_id current) (run_id current)) (\<lambda>active.
          tx_bind (tx_guard (\<not> active) ErrConflict) (\<lambda>_.
          tx_bind (claimed_job_of_run (run_project_id current) (run_id current)) (\<lambda>claimed.
          tx_guard claimed ErrConflict)))
      | _ \<Rightarrow> tx_fail ErrConflict)"

definition CancelInactiveRun ::
  "id \<Rightarrow> id \<Rightarrow> time \<Rightarrow> db \<Rightarrow> (store_error + run \<times> event \<times> event list) \<times> db" where
  "CancelInactiveRun projectID runID now d =
     (if TrimSpace projectID = [] \<or> TrimSpace runID = [] then (Inl ErrInvalidArgument, d)
      else run_tx now
        (tx_bind (find_run projectID runID) (\<lambda>current.
         tx_bind (cancellation_allowed current) (\<lambda>_.
         cancelInactiveRunTx current))) d)"

section \<open>Ownership\<close>

text \<open>The first four statements of \<open>cancelInactiveRunTx\<close> together.\<close>

definition release_cancelled_run :: "run \<Rightarrow> (db, run) tx" where
  "release_cancelled_run current =
     tx_bind (cancel_run_row current) (\<lambda>run.
     tx_bind (cancel_jobs_of_run (run_project_id run) (run_id run)) (\<lambda>_.
     tx_bind (delete_leases_of_run (run_project_id run) (run_id run)) (\<lambda>_.
     tx_bind (delete_reservations_of_run (run_project_id run) (run_id run)) (\<lambda>_.
     tx_return run))))"

lemma cancelInactiveRunTx_release:
  "cancelInactiveRunTx current =
     tx_bind (release_cancelled_run current) (\<lambda>run.
     tx_bind (appendEventTx (run_event run ''run.cancelled'' (JObj [(''status'', JStr ''CANCELLED'')])))
       (\<lambda>event.
     tx_bind (finalizeDelegatedRunTx run) (\<lambda>delegationEvents.
     tx_return (run, event, event # delegationEvents))))"
  by (simp add: cancelInactiveRunTx_def release_cancelled_run_def tx_bind_assoc tx_bind_return)

lemma safe_release_cancelled_run: "tx_keeps safe (release_cancelled_run current)"
proof (rule tx_keepsI)
  fix d run d'
  assume "release_cancelled_run current d = (Inr run, d')"
  then have d': "db_runs d' = update_rows (\<lambda>r. run_project_id r = run_project_id current \<and>
        run_id r = run_id current \<and>
        (run_status r = RUN_QUEUED \<or> run_status r = RUN_PAUSED \<or> run_status r = RUN_STARTING))
        (\<lambda>r. r\<lparr>run_status := RUN_CANCELLED, run_queue_reason := None,
          run_completed_at := Some (db_now d), run_updated_at := db_now d\<rparr>) (db_runs d)"
      "db_jobs d' = update_rows (\<lambda>j. job_project_id j = run_project_id current \<and>
        job_run_id j = run_id current \<and> (job_state j = JOB_QUEUED \<or> job_state j = JOB_CLAIMED))
        (\<lambda>j. j\<lparr>job_state := JOB_CANCELLED, job_wait_reason := None, job_updated_at := db_now d\<rparr>) (db_jobs d)"
      "db_leases d' = filter (\<lambda>l. \<not> exists_row (\<lambda>j. lse_job_id l = job_id j \<and>
        job_project_id j = run_project_id current \<and> job_run_id j = run_id current) (db_jobs d')) (db_leases d)"
      "db_reservations d' = filter (\<lambda>v. \<not> (rsv_project_id v = run_project_id current \<and>
        rsv_run_id v = run_id current)) (db_reservations d)"
      "same_config d d'"
    unfolding release_cancelled_run_def cancel_run_row_def cancel_jobs_of_run_def
      delete_leases_of_run_def delete_reservations_of_run_def
    by (auto simp: tx_simps same_config_def dest!: find_Some_in)
  show "safe d d'"
    unfolding safe_def
    by (rule impI, rule releasing_give_up [OF _ d'(1) _ d'(2) _ _ _ d'(3) _ d'(4) _ d'(5)])
      (auto simp: d'(2) bex_update_rows)
qed

lemma safe_cancelInactiveRunTx [safe_rules]: "tx_keeps safe (cancelInactiveRunTx current)"
  unfolding cancelInactiveRunTx_release by (intro safe_rules safe_release_cancelled_run)

lemma safe_cancellation_allowed [safe_rules]: "tx_keeps safe (cancellation_allowed current)"
  unfolding cancellation_allowed_def
  by (cases "run_status current") (simp_all, (intro safe_rules)+)

lemma CancelInactiveRun_safe: "CancelInactiveRun p r now d = (res, d') \<Longrightarrow> safe d d'"
  unfolding CancelInactiveRun_def
  by (auto split: if_splits intro: safe.refl elim!: safe.keeps_run_tx [rotated] intro!: safe_rules)

section \<open>History\<close>

lemma history_cancelInactiveRun [history_rules]: "tx_keeps history (cancelInactiveRunTx current)"
  unfolding cancelInactiveRunTx_def cancel_run_row_def cancel_jobs_of_run_def
    delete_leases_of_run_def delete_reservations_of_run_def
  by (intro history_rules history_update_runs) (auto simp: terminal_run_def)

lemma history_cancellation_allowed [history_rules]: "tx_keeps history (cancellation_allowed current)"
  unfolding cancellation_allowed_def
  by (cases "run_status current") (simp_all, (intro history_rules)+)

lemma CancelInactiveRun_history: "CancelInactiveRun p r now d = (res, d') \<Longrightarrow> history d d'"
  unfolding CancelInactiveRun_def
  by (auto split: if_splits intro: history.refl elim!: history.keeps_run_tx [rotated] intro!: history_rules)

section \<open>Properties\<close>

lemma CancelInactiveRun_Inr:
  assumes "CancelInactiveRun projectID runID now d = (Inr x, d')"
  obtains current where
    "List.find (\<lambda>r. run_project_id r = projectID \<and> run_id r = runID) (db_runs d) = Some current"
    "cancellation_allowed current (d\<lparr>db_now := now\<rparr>) = (Inr (), d\<lparr>db_now := now\<rparr>)"
    "cancelInactiveRunTx current (d\<lparr>db_now := now\<rparr>) = (Inr x, d')"
proof -
  from assms obtain current d1 where c: "List.find (\<lambda>r. run_project_id r = projectID \<and> run_id r = runID) (db_runs d) = Some current"
    and al: "cancellation_allowed current (d\<lparr>db_now := now\<rparr>) = (Inr (), d1)"
    and cn: "cancelInactiveRunTx current d1 = (Inr x, d')"
    unfolding CancelInactiveRun_def find_run_def by (auto simp: tx_simps split: if_splits)
  have "d1 = d\<lparr>db_now := now\<rparr>"
    using al unfolding cancellation_allowed_def inactiveRunExecutionOccupiedTx_def activeRunExecutionSessionTx_def
      claimed_job_of_run_def by (auto simp: tx_simps split: run_status.splits if_splits)
  then show ?thesis using that c al cn by blast
qed

lemma release_cancelled_run_Inr:
  assumes "release_cancelled_run current d = (Inr run, d')"
  shows "run_id run = run_id current" "run_project_id run = run_project_id current" "run_status run = RUN_CANCELLED"
    "run \<in> set (db_runs d')"
    "\<forall>j\<in>set (claimed d'). \<not> (job_project_id j = run_project_id current \<and> job_run_id j = run_id current)"
    "\<forall>v\<in>set (db_reservations d'). \<not> (rsv_project_id v = run_project_id current \<and> rsv_run_id v = run_id current)"
    "\<forall>l\<in>set (db_leases d'). \<forall>j\<in>set (db_jobs d). job_project_id j = run_project_id current \<longrightarrow>
       job_run_id j = run_id current \<longrightarrow> lse_job_id l \<noteq> job_id j"
proof -
  obtain d1 n2 d2 n3 d3 n4 where
    r: "cancel_run_row current d = (Inr run, d1)" and
    j: "cancel_jobs_of_run (run_project_id run) (run_id run) d1 = (Inr n2, d2)" and
    l: "delete_leases_of_run (run_project_id run) (run_id run) d2 = (Inr n3, d3)" and
    v: "delete_reservations_of_run (run_project_id run) (run_id run) d3 = (Inr n4, d')"
    using assms unfolding release_cancelled_run_def by (auto simp: tx_bind_Inr tx_return_eq)
  have run: "run_id run = run_id current" "run_project_id run = run_project_id current" "run_status run = RUN_CANCELLED"
    "run \<in> set (db_runs d1)" "db_jobs d1 = db_jobs d"
    using r unfolding cancel_run_row_def by (auto simp: tx_simps dest!: find_Some_in intro!: matched_row)
  have d2: "db_runs d2 = db_runs d1" using j unfolding cancel_jobs_of_run_def by (simp add: tx_simps)
  have free: "\<forall>j\<in>set (claimed d2). \<not> (job_project_id j = run_project_id current \<and> job_run_id j = run_id current)"
    using j run unfolding cancel_jobs_of_run_def by (auto simp: tx_simps claimed_def in_update_rows)
  have kept: "\<exists>j'\<in>set (db_jobs d2). job_id j' = job_id j \<and> job_project_id j' = job_project_id j \<and>
      job_run_id j' = job_run_id j" if "j \<in> set (db_jobs d)" for j
    using j run(5) that unfolding cancel_jobs_of_run_def by (auto simp: tx_simps bex_update_rows)
  have d3: "db_runs d3 = db_runs d2" "claimed d3 = claimed d2" "db_reservations d3 = db_reservations d2"
    and gone: "\<forall>l\<in>set (db_leases d3). \<forall>j\<in>set (db_jobs d2). job_project_id j = run_project_id current \<longrightarrow>
       job_run_id j = run_id current \<longrightarrow> lse_job_id l \<noteq> job_id j"
    using l run unfolding delete_leases_of_run_def by (auto simp: tx_simps claimed_def)
  have d': "db_runs d' = db_runs d3" "claimed d' = claimed d3" "db_leases d' = db_leases d3"
    and none: "\<forall>v\<in>set (db_reservations d'). \<not> (rsv_project_id v = run_project_id current \<and> rsv_run_id v = run_id current)"
    using v run unfolding delete_reservations_of_run_def by (auto simp: tx_simps claimed_def)
  show "run_id run = run_id current" "run_project_id run = run_project_id current" "run_status run = RUN_CANCELLED"
    using run by simp_all
  show "run \<in> set (db_runs d')" using run(4) d2 d3(1) d'(1) by simp
  show "\<forall>j\<in>set (claimed d'). \<not> (job_project_id j = run_project_id current \<and> job_run_id j = run_id current)"
    using free d3(2) d'(2) by simp
  show "\<forall>v\<in>set (db_reservations d'). \<not> (rsv_project_id v = run_project_id current \<and> rsv_run_id v = run_id current)"
    by (rule none)
  show "\<forall>l\<in>set (db_leases d'). \<forall>j\<in>set (db_jobs d). job_project_id j = run_project_id current \<longrightarrow>
       job_run_id j = run_id current \<longrightarrow> lse_job_id l \<noteq> job_id j"
    using gone kept d'(3) by metis
qed

text \<open>
  Cancelling a Run gives back everything it held: afterwards the Run is CANCELLED, none of
  its jobs is claimed, no lease of a job of the Run and no reservation of the Run is left. Only
  a QUEUED, PAUSED or STARTING Run without a live Execution Session is cancelled.
\<close>

theorem cancellation_gives_back:
  assumes log: "event_log_wf d" and ok: "CancelInactiveRun projectID runID now d = (Inr (run, event, events), d')"
  shows "(\<exists>r\<in>set (db_runs d'). run_id r = runID \<and> run_status r = RUN_CANCELLED) \<and>
     (\<forall>j\<in>set (claimed d'). \<not> (job_project_id j = projectID \<and> job_run_id j = runID)) \<and>
     (\<forall>v\<in>set (db_reservations d'). \<not> (rsv_project_id v = projectID \<and> rsv_run_id v = runID)) \<and>
     (\<forall>l\<in>set (db_leases d'). \<forall>j\<in>set (db_jobs d). job_project_id j = projectID \<longrightarrow> job_run_id j = runID \<longrightarrow>
        lse_job_id l \<noteq> job_id j) \<and>
     (\<exists>r\<in>set (db_runs d). run_id r = runID \<and> run_status r \<in> {RUN_QUEUED, RUN_PAUSED, RUN_STARTING}) \<and>
     (\<forall>s\<in>set (db_sessions d). ses_project_id s = projectID \<longrightarrow> ses_run_id s = runID \<longrightarrow> \<not> live_session (ses_status s))"
proof -
  let ?d = "d\<lparr>db_now := now\<rparr>"
  from ok obtain current where
    c: "List.find (\<lambda>r. run_project_id r = projectID \<and> run_id r = runID) (db_runs d) = Some current" and
    al: "cancellation_allowed current ?d = (Inr (), ?d)" and
    cn: "cancelInactiveRunTx current ?d = (Inr (run, event, events), d')"
    by (rule CancelInactiveRun_Inr)
  have id: "current \<in> set (db_runs d)" "run_project_id current = projectID" "run_id current = runID"
    using find_Some_in [OF c] by auto
  from cn obtain d1 where rel: "release_cancelled_run current ?d = (Inr run, d1)"
    and rest: "tx_bind (appendEventTx (run_event run ''run.cancelled'' (JObj [(''status'', JStr ''CANCELLED'')])))
       (\<lambda>event. tx_bind (finalizeDelegatedRunTx run) (\<lambda>delegationEvents.
        tx_return (run, event, event # delegationEvents))) d1 = (Inr (run, event, events), d')"
    unfolding cancelInactiveRunTx_release by (auto simp: tx_bind_Inr tx_return_eq)
  note r = release_cancelled_run_Inr [OF rel, unfolded id]
  have "quiet d1 d'" using rest by (rule tx_keepsD [rotated]) (intro quiet_rules)
  then have q: "claimed d' = claimed d1" "db_leases d' = db_leases d1" "db_reservations d' = db_reservations d1"
    by (auto simp: quiet_def)
  have "tx_keeps history (release_cancelled_run current)"
    unfolding release_cancelled_run_def cancel_run_row_def cancel_jobs_of_run_def delete_leases_of_run_def
      delete_reservations_of_run_def
    by (intro history_rules history_update_runs) (auto simp: terminal_run_def)
  then have "history ?d d1" using rel by (rule tx_keepsD)
  then have "event_log_wf d1" using log by (simp add: history_def event_log_wf_def run_events_def)
  moreover have "history d1 d'" using rest by (rule tx_keepsD [rotated]) (intro history_rules)
  ultimately have "terminal_kept d1 d'" by (simp add: history_def)
  then have "\<exists>r\<in>set (db_runs d'). run_id r = runID \<and> run_status r = RUN_CANCELLED"
    using r(1,3,4) by (auto simp: terminal_kept_def terminal_run_def)
  moreover have "run_status current \<in> {RUN_QUEUED, RUN_PAUSED, RUN_STARTING}"
    "\<forall>s\<in>set (db_sessions d). ses_project_id s = projectID \<longrightarrow> ses_run_id s = runID \<longrightarrow> \<not> live_session (ses_status s)"
    using al id unfolding cancellation_allowed_def inactiveRunExecutionOccupiedTx_def activeRunExecutionSessionTx_def
    by (auto simp: tx_simps split: run_status.splits if_splits)
  ultimately show ?thesis using r(5-7) q id by auto
qed

lemmas cancellation_run = tx_run CancelInactiveRun_def find_run_def cancellation_allowed_def
  inactiveRunExecutionOccupiedTx_def activeRunExecutionSessionTx_def claimed_job_of_run_def cancelInactiveRunTx_def
  cancel_run_row_def cancel_jobs_of_run_def delete_leases_of_run_def delete_reservations_of_run_def
  appendEventTx_def validateEventReferences_def event_references_valid_def next_event_sequence_def
  appended_event_def event_unique_def event_check_def run_event_def zero_event_def EmptyObject_def objectJSON_def
  is_object_def visible_to_def finalizeDelegatedRunTx_def closeAgentWorkRequestsForRunTx_def delegation_of_run_def
  terminal_run_def

theorem cancellation_gives_back_witness:
  "\<exists>run event events d'. CancelInactiveRun ''p1'' ''r1'' 60 sample_queued = (Inr (run, event, events), d') \<and>
     (\<exists>r\<in>set (db_runs d'). run_id r = ''r1'' \<and> run_status r = RUN_CANCELLED)"
proof -
  have "\<exists>run event events d'. CancelInactiveRun ''p1'' ''r1'' 60 sample_queued = (Inr (run, event, events), d')"
    by (simp add: cancellation_run sample_eval)
  then obtain run event events d' where ok: "CancelInactiveRun ''p1'' ''r1'' 60 sample_queued = (Inr (run, event, events), d')"
    by blast
  then show ?thesis using cancellation_gives_back [OF sample_log(1) ok] by blast
qed

text \<open>
  Cancellation never interrupts a live execution: a Run that is RUNNING, waiting for
  input, in review or has ended, and a Run with a live Execution Session, is refused with
  ErrConflict and nothing changes.
\<close>

theorem cancellation_is_refused:
  assumes "TrimSpace projectID \<noteq> []" "TrimSpace runID \<noteq> []"
    and "List.find (\<lambda>r. run_project_id r = projectID \<and> run_id r = runID) (db_runs d) = Some current"
    and "run_status current \<notin> {RUN_QUEUED, RUN_PAUSED, RUN_STARTING} \<or>
      (\<exists>s\<in>set (db_sessions d). ses_project_id s = projectID \<and> ses_run_id s = runID \<and> live_session (ses_status s))"
  shows "CancelInactiveRun projectID runID now d = (Inl ErrConflict, d)"
proof -
  have "run_project_id current = projectID" "run_id current = runID" using find_Some_in [OF assms(3)] by auto
  then have "cancellation_allowed current (d\<lparr>db_now := now\<rparr>) = (Inl ErrConflict, d\<lparr>db_now := now\<rparr>)"
    using assms(4) unfolding cancellation_allowed_def inactiveRunExecutionOccupiedTx_def activeRunExecutionSessionTx_def
    by (auto simp: tx_run list_ex_iff split: run_status.splits)
  then show ?thesis using assms(1-3) by (simp add: CancelInactiveRun_def find_run_def tx_run)
qed

theorem cancellation_is_refused_witness:
  "CancelInactiveRun ''p1'' ''r1'' 60 sample_claimed = (Inl ErrConflict, sample_claimed)"
  by (rule cancellation_is_refused [where current = "sample_run ''r1'' 1 RUN_RUNNING"])
    (simp_all add: sample_states sample_eval)


end
