(* ===== verification/Scheduler_Admission.thy ===== *)
theory Scheduler_Admission
  imports Run_Cancellation
begin

text \<open>
  The queue side of the scheduler (store/postgres/scheduler.go, runner_admission.go,
  queued_run.go and scheduler_operations.go): jobs are enqueued once per idempotency key,
  the next job is admitted by claiming Workspace, capacity and lease in one transaction or
  is deferred, and leases are renewed or released by their token.
\<close>

section \<open>Enqueueing\<close>

text \<open>
  \<open>EnqueueJob\<close>. The statements run outside a transaction, one after the other; \<open>now\<close>
  is their timestamp and \<open>wall\<close> the value of \<open>time.Now()\<close>. Kinds are text in the source;
  an empty kind means START, and \<open>kind_of\<close> says which texts the CHECK admits.
\<close>

definition kind_of :: "string \<Rightarrow> job_kind option" where
  "kind_of s = (if s = ''START'' then Some JOB_START else if s = ''RESUME'' then Some JOB_RESUME
                else None)"

record job_input =
  jin_project_id :: id
  jin_run_id :: id
  jin_kind :: string
  jin_wait_reason :: "string option"
  jin_idempotency_key :: string
  jin_available_at :: time

definition run_configured :: "db \<Rightarrow> run \<Rightarrow> bool" where
  "run_configured d r \<longleftrightarrow>
     exists_row (\<lambda>a. Some (agt_id a) = run_agent_id r \<and> visible_to (agt_project_id a) (run_project_id r) \<and>
       exists_row (\<lambda>m. mdl_id m = agt_model_profile_id a \<and>
         visible_to (mdl_project_id m) (run_project_id r)) (db_model_profiles d)) (db_agents d)"

definition enqueue_insert :: "job_input \<Rightarrow> string \<Rightarrow> time \<Rightarrow> (db, job option) tx" where
  "enqueue_insert input kind availableAt =
     tx_bind (sql_exists db_runs (\<lambda>d r. run_project_id r = jin_project_id input \<and>
                run_id r = jin_run_id input \<and> run_configured d r)) (\<lambda>selected.
     if \<not> selected then tx_return None
     else case kind_of kind of
       None \<Rightarrow> tx_fail (notFound CheckViolation)
     | Some k \<Rightarrow>
         tx_bind gen_random_uuid (\<lambda>uid.
         tx_bind (tx_get db_now) (\<lambda>now.
         sql_insert_unless db_jobs db_jobs_update job_key_conflict job_unique job_check notFound
           (new_job uid (jin_project_id input) (jin_run_id input) k (jin_wait_reason input)
              (jin_idempotency_key input) availableAt now))))"

definition enqueue_existing :: "job_input \<Rightarrow> string \<Rightarrow> (db, job) tx" where
  "enqueue_existing input kind =
     tx_bind (tx_get (\<lambda>d. List.find (\<lambda>j. job_idempotency_key j = jin_idempotency_key input) (db_jobs d)))
       (\<lambda>found. case found of
          Some existing \<Rightarrow>
            tx_bind (tx_guard (job_project_id existing = jin_project_id input \<and>
                               job_run_id existing = jin_run_id input \<and>
                               Some (job_kind existing) = kind_of kind) ErrConflict) (\<lambda>_.
            tx_return existing)
        | None \<Rightarrow>
            tx_bind (sql_exists db_runs (\<lambda>d r. run_project_id r = jin_project_id input \<and>
                       run_id r = jin_run_id input)) (\<lambda>runExists.
            tx_fail (if runExists then ErrConflict else ErrNotFound)))"

definition EnqueueJob :: "job_input \<Rightarrow> time \<Rightarrow> time \<Rightarrow> db \<Rightarrow> (store_error + job) \<times> db" where
  "EnqueueJob input wall now d =
     (if TrimSpace (jin_idempotency_key input) = [] then (Inl ErrInvalidArgument, d)
      else
        let kind = (if jin_kind input = [] then ''START'' else jin_kind input);
            availableAt = (if jin_available_at input = zero_time then wall else jin_available_at input)
        in run_tx now
             (tx_bind (enqueue_insert input kind availableAt) (\<lambda>inserted.
              case inserted of
                Some job \<Rightarrow> tx_return job
              | None \<Rightarrow> enqueue_existing input kind)) d)"

text \<open>\<open>createQueuedRunTx\<close>: a new Run, its START job and the run.created Event.\<close>

record queued_run_input =
  qri_project_id :: id
  qri_issue_id :: id
  qri_workspace_id :: id
  qri_agent_id :: id
  qri_attempt :: int
  qri_idempotency_key :: string

definition run_unique :: "run \<Rightarrow> run \<Rightarrow> bool" where
  "run_unique a b \<longleftrightarrow> run_id a = run_id b \<or>
     (run_issue_id a = run_issue_id b \<and> run_attempt a = run_attempt b)"

definition run_check :: "db \<Rightarrow> run \<Rightarrow> pg_error option" where
  "run_check d r =
     (if run_attempt r < 1 \<or>
         (case run_agent_id r of
            None \<Rightarrow> False
          | Some a \<Rightarrow> \<not> exists_row (\<lambda>g. agt_id g = a \<and> visible_to (agt_project_id g) (run_project_id r)) (db_agents d))
      then Some CheckViolation
      else if exists_row (\<lambda>w. wsp_project_id w = run_project_id r \<and> wsp_issue_id w = run_issue_id r \<and>
                 wsp_id w = run_workspace_id r) (db_workspaces d) \<and>
              exists_row (\<lambda>i. iss_project_id i = run_project_id r \<and> iss_id i = run_issue_id r) (db_issues d)
      then None else Some ForeignKeyViolation)"

definition new_run :: "id \<Rightarrow> queued_run_input \<Rightarrow> time \<Rightarrow> run" where
  "new_run uid input now =
     \<lparr>run_id = uid, run_project_id = qri_project_id input, run_issue_id = qri_issue_id input,
      run_workspace_id = qri_workspace_id input, run_agent_id = Some (qri_agent_id input),
      run_attempt = qri_attempt input, run_status = RUN_QUEUED, run_queue_reason = None,
      run_failure_reason = None, run_event_sequence = 0, run_created_at = now,
      run_started_at = None, run_completed_at = None, run_updated_at = now\<rparr>"

definition createQueuedRunTx :: "queued_run_input \<Rightarrow> (db, run \<times> job \<times> event) tx" where
  "createQueuedRunTx input =
     tx_bind gen_random_uuid (\<lambda>uid.
     tx_bind (tx_get db_now) (\<lambda>now.
     tx_bind (sql_insert db_runs db_runs_update run_unique run_check notFound (new_run uid input now)) (\<lambda>run.
     let key = (if qri_idempotency_key input = [] then ''run:'' @ run_id run @ '':start''
                else qri_idempotency_key input) in
     tx_bind gen_random_uuid (\<lambda>jid.
     tx_bind (sql_insert db_jobs db_jobs_update job_unique job_check notFound
                (new_job jid (qri_project_id input) (run_id run) JOB_START None key now now)) (\<lambda>job.
     tx_bind (appendEventTx (run_event run ''run.created''
                (JObj [(''attempt'', JInt (run_attempt run)), (''status'', JStr ''QUEUED'')]))) (\<lambda>event.
     tx_return (run, job, event)))))))"

section \<open>The next job\<close>

text \<open>
  A row of the candidate query: the queued job with its queued Run, the Issue's priority,
  whether the parent of the delegation that created the Run has ended, and the Agent and
  Model Profile where both are visible to the project.
\<close>

record candidate =
  cnd_job :: job
  cnd_run :: run
  cnd_cleanup :: bool
  cnd_priority :: int
  cnd_config :: "(id \<times> id) option"

definition terminal_parent_cleanup :: "db \<Rightarrow> run \<Rightarrow> bool" where
  "terminal_parent_cleanup d r \<longleftrightarrow>
     exists_row (\<lambda>g. dlg_project_id g = run_project_id r \<and> dlg_delegated_run_id g = run_id r \<and>
       dlg_outcome g = None \<and>
       exists_row (\<lambda>p. run_project_id p = dlg_project_id g \<and> Some (run_id p) = dlg_parent_run_id g \<and>
         terminal_run (run_status p)) (db_runs d)) (db_delegations d)"

definition admission_config :: "db \<Rightarrow> run \<Rightarrow> (id \<times> id) option" where
  "admission_config d r =
     (case List.find (\<lambda>a. Some (agt_id a) = run_agent_id r \<and>
                          visible_to (agt_project_id a) (run_project_id r)) (db_agents d) of
        None \<Rightarrow> None
      | Some a \<Rightarrow>
          (case List.find (\<lambda>m. mdl_id m = agt_model_profile_id a \<and>
                               visible_to (mdl_project_id m) (run_project_id r)) (db_model_profiles d) of
             None \<Rightarrow> None
           | Some m \<Rightarrow> Some (agt_id a, mdl_id m)))"

definition candidate_of :: "db \<Rightarrow> job \<Rightarrow> candidate option" where
  "candidate_of d j =
     (case List.find (job_on j) (db_runs d) of
        None \<Rightarrow> None
      | Some r \<Rightarrow>
          (case List.find (\<lambda>i. iss_project_id i = run_project_id r \<and> iss_id i = run_issue_id r)
                  (db_issues d) of
             None \<Rightarrow> None
           | Some i \<Rightarrow> Some \<lparr>cnd_job = j, cnd_run = r, cnd_cleanup = terminal_parent_cleanup d r,
                         cnd_priority = iss_priority i, cnd_config = admission_config d r\<rparr>))"

definition eligible :: "db \<Rightarrow> candidate \<Rightarrow> bool" where
  "eligible d c \<longleftrightarrow> job_state (cnd_job c) = JOB_QUEUED \<and> run_status (cnd_run c) = RUN_QUEUED \<and>
     (job_available_at (cnd_job c) \<le> db_now d \<or> cnd_cleanup c)"

definition admission_key :: "candidate \<Rightarrow> bool \<times> int \<times> time \<times> time \<times> id" where
  "admission_key c = (\<not> cnd_cleanup c, - cnd_priority c, job_available_at (cnd_job c),
     job_created_at (cnd_job c), job_id (cnd_job c))"

definition admission_candidates :: "(id \<Rightarrow> bool) \<Rightarrow> db \<Rightarrow> candidate list" where
  "admission_candidates locked d =
     filter (\<lambda>c. eligible d c \<and> \<not> locked (job_id (cnd_job c)) \<and> \<not> locked (run_id (cnd_run c)))
       (List.map_filter (candidate_of d) (db_jobs d))"

text \<open>
  \<open>locked\<close> names the job and Run rows other transactions hold (SKIP LOCKED); the
  configuration is \<open>None\<close> where the source answers errSchedulerConfigurationUnavailable.
\<close>

definition lockNextAdmissionCandidate :: "(id \<Rightarrow> bool) \<Rightarrow> (db, job \<times> run \<times> (id \<times> id) option) tx" where
  "lockNextAdmissionCandidate locked =
     (\<lambda>d. case first_by admission_key (admission_candidates locked d) of
            None \<Rightarrow> (Inl ErrNotFound, d)
          | Some c \<Rightarrow> (Inr (cnd_job c, cnd_run c, cnd_config c), d))"

definition workspace_peer_active :: "db \<Rightarrow> run \<Rightarrow> id \<Rightarrow> run \<Rightarrow> bool" where
  "workspace_peer_active d r w peer \<longleftrightarrow>
     run_project_id peer = run_project_id r \<and> run_workspace_id peer = w \<and> run_id peer \<noteq> run_id r \<and>
     (exists_row (\<lambda>j. job_project_id j = run_project_id peer \<and> job_run_id j = run_id peer \<and>
        job_state j = JOB_CLAIMED) (db_jobs d) \<or>
      exists_row (\<lambda>s. ses_project_id s = run_project_id peer \<and> ses_run_id s = run_id peer \<and>
        live_session (ses_status s)) (db_sessions d))"

definition workspaceAdmissionOccupied :: "run \<Rightarrow> (db, bool) tx" where
  "workspaceAdmissionOccupied r =
     tx_bind (sql_find db_workspaces (\<lambda>d w. wsp_project_id w = run_project_id r \<and>
                wsp_id w = run_workspace_id r)) (\<lambda>w.
     sql_exists db_runs (\<lambda>d peer. workspace_peer_active d r (wsp_id w) peer))"

definition lockAdmissionResources :: "id \<Rightarrow> id \<Rightarrow> (db, int \<times> int option) tx" where
  "lockAdmissionResources agentID modelProfileID =
     tx_bind (sql_find db_agents (\<lambda>d a. agt_id a = agentID)) (\<lambda>a.
     tx_bind (sql_find db_model_profiles (\<lambda>d m. mdl_id m = modelProfileID)) (\<lambda>m.
     tx_return (agt_concurrency_limit a, mdl_max_concurrent m)))"

definition countCapacityReservations :: "resource_kind \<Rightarrow> id \<Rightarrow> (db, int) tx" where
  "countCapacityReservations k x = tx_get (\<lambda>d. int (capacity_used d k x))"

definition deferQueuedJob :: "job \<Rightarrow> string \<Rightarrow> int \<Rightarrow> (db, unit) tx" where
  "deferQueuedJob job reason backoffMicros =
     tx_bind (sql_update db_jobs db_jobs_update
                (\<lambda>d j. job_id j = job_id job \<and> job_state j = JOB_QUEUED)
                (\<lambda>d j. j\<lparr>job_wait_reason := Some reason, job_available_at := db_now d + backoffMicros,
                          job_updated_at := db_now d\<rparr>)) (\<lambda>_.
     tx_bind (sql_update db_runs db_runs_update
                (\<lambda>d r. run_project_id r = job_project_id job \<and> run_id r = job_run_id job \<and>
                       run_status r = RUN_QUEUED)
                (\<lambda>d r. r\<lparr>run_queue_reason := Some reason, run_updated_at := db_now d\<rparr>)) (\<lambda>_.
     tx_return ()))"

section \<open>Claiming\<close>

definition reservation_unique :: "reservation \<Rightarrow> reservation \<Rightarrow> bool" where
  "reservation_unique a b \<longleftrightarrow> rsv_id a = rsv_id b \<or>
     (rsv_job_id a = rsv_job_id b \<and> rsv_kind a = rsv_kind b)"

definition reservation_check :: "db \<Rightarrow> reservation \<Rightarrow> pg_error option" where
  "reservation_check d v =
     (if exists_row (\<lambda>p. prj_id p = rsv_project_id v) (db_projects d) \<and>
         exists_row (\<lambda>j. job_id j = rsv_job_id v) (db_jobs d) \<and>
         exists_row (\<lambda>r. run_project_id r = rsv_project_id v \<and> run_id r = rsv_run_id v) (db_runs d)
      then None else Some ForeignKeyViolation)"

definition insertCapacityReservation :: "job \<Rightarrow> run \<Rightarrow> resource_kind \<Rightarrow> id \<Rightarrow> (db, reservation) tx" where
  "insertCapacityReservation job run k x =
     tx_bind gen_random_uuid (\<lambda>uid.
     sql_insert db_reservations db_reservations_update reservation_unique reservation_check PgError
       \<lparr>rsv_id = uid, rsv_project_id = job_project_id job, rsv_job_id = job_id job,
        rsv_run_id = run_id run, rsv_kind = k, rsv_resource_id = x\<rparr>)"

text \<open>
  \<open>lockRunnerCandidate\<close>. \<open>runnerCandidates\<close> is the hub's answer to which connected
  Runners offer an engine, \<open>None\<close> when no hub is attached. The capacity condition holds a
  sub-select and is evaluated after the cheap conditions, so a Runner that passes those and
  whose configured limit does not fit an int4 makes the statement fail.
\<close>

definition runner_visible :: "db \<Rightarrow> id \<Rightarrow> id list \<Rightarrow> runner \<Rightarrow> bool" where
  "runner_visible d projectID ids r \<longleftrightarrow>
     rnr_id r \<in> set ids \<and> rnr_deleted_at r = None \<and> rnr_revoked_at r = None \<and>
     exists_row (\<lambda>p. prj_id p = projectID \<and>
       ((rnr_internal r \<and> prj_allow_internal_runner p) \<or>
        (\<not> rnr_internal r \<and> rnr_project_id r = Some projectID) \<or>
        (\<not> rnr_internal r \<and> rnr_project_id r = None \<and>
         (\<not> exists_row (\<lambda>pr. fst pr = projectID) (db_project_runners d) \<or>
          exists_row (\<lambda>pr. fst pr = projectID \<and> snd pr = rnr_id r) (db_project_runners d)))))
       (db_projects d)"

definition lockRunnerCandidate ::
  "(string \<Rightarrow> id list) option \<Rightarrow> (id \<Rightarrow> bool) \<Rightarrow> id \<Rightarrow> id \<Rightarrow> (db, id) tx" where
  "lockRunnerCandidate runnerCandidates locked projectID agentID =
     tx_bind (tx_get (\<lambda>d. List.find (\<lambda>a. agt_id a = agentID) (db_agents d))) (\<lambda>found.
     tx_bind (tx_option (PgError NoRows) found) (\<lambda>a.
     let ids = (case runnerCandidates of None \<Rightarrow> [] | Some f \<Rightarrow> f (agt_engine a)) in
     tx_bind (tx_get (\<lambda>d. filter (runner_visible d projectID ids) (db_runners d))) (\<lambda>visible.
     tx_bind (tx_guard (\<not> list_ex runner_limit_overflows visible) (notFound NumericOutOfRange)) (\<lambda>_.
     tx_bind (tx_get (\<lambda>d. first_by (\<lambda>r. (rnr_internal r, rnr_created_at r, rnr_id r))
                (filter (\<lambda>r. capacity_used d RES_RUNNER (rnr_id r) < runner_session_limit r \<and>
                             \<not> locked (rnr_id r)) visible))) (\<lambda>found.
     tx_bind (tx_option ErrNotFound found) (\<lambda>r. tx_return (rnr_id r)))))))"

definition lease_unique :: "lease \<Rightarrow> lease \<Rightarrow> bool" where
  "lease_unique a b \<longleftrightarrow> lse_job_id a = lse_job_id b \<or> lse_token a = lse_token b"

definition lease_check :: "db \<Rightarrow> lease \<Rightarrow> pg_error option" where
  "lease_check d l =
     (if btrim (lse_owner_id l) = [] \<or> lse_expires_at l \<le> lse_acquired_at l then Some CheckViolation
      else if exists_row (\<lambda>j. job_id j = lse_job_id l) (db_jobs d) then None
      else Some ForeignKeyViolation)"

definition insert_lease :: "job \<Rightarrow> string \<Rightarrow> int \<Rightarrow> (db, lease) tx" where
  "insert_lease job ownerID leaseMicros =
     tx_bind gen_random_uuid (\<lambda>token.
     tx_bind (tx_get db_now) (\<lambda>now.
     sql_insert db_leases db_leases_update lease_unique lease_check notFound
       \<lparr>lse_job_id = job_id job, lse_owner_id = ownerID, lse_token = token, lse_acquired_at = now,
        lse_expires_at = now + leaseMicros\<rparr>))"

definition claim_job_row :: "job \<Rightarrow> (db, job) tx" where
  "claim_job_row job =
     sql_update_row db_jobs db_jobs_update
       (\<lambda>d j. job_id j = job_id job \<and> job_project_id j = job_project_id job \<and>
              job_run_id j = job_run_id job \<and> job_state j = JOB_QUEUED)
       (\<lambda>d j. j\<lparr>job_state := JOB_CLAIMED, job_wait_reason := None, job_updated_at := db_now d\<rparr>)"

definition start_run_row :: "run \<Rightarrow> (db, run) tx" where
  "start_run_row run =
     sql_update_row db_runs db_runs_update
       (\<lambda>d r. run_project_id r = run_project_id run \<and> run_id r = run_id run \<and> run_status r = RUN_QUEUED)
       (\<lambda>d r. r\<lparr>run_status := RUN_STARTING, run_queue_reason := None,
                 run_started_at := Some (case run_started_at r of None \<Rightarrow> db_now d | Some t \<Rightarrow> t),
                 run_updated_at := db_now d\<rparr>)"

record admission =
  adm_runner_id :: id
  adm_job :: job
  adm_lease :: lease
  adm_run :: run
  adm_agent_id :: id
  adm_model_profile_id :: id

text \<open>The writes of a successful admission, in their order.\<close>

definition claim_execution :: "job \<Rightarrow> run \<Rightarrow> id \<Rightarrow> id \<Rightarrow> id \<Rightarrow> string \<Rightarrow> int \<Rightarrow> (db, admission) tx" where
  "claim_execution job run agentID modelProfileID runnerID ownerID leaseMicros =
     tx_bind (insertCapacityReservation job run RES_RUNNER runnerID) (\<lambda>_.
     tx_bind (insertCapacityReservation job run RES_AGENT agentID) (\<lambda>_.
     tx_bind (insertCapacityReservation job run RES_MODEL_PROFILE modelProfileID) (\<lambda>_.
     tx_bind (insert_lease job ownerID leaseMicros) (\<lambda>lease.
     tx_bind (claim_job_row job) (\<lambda>job.
     tx_bind (start_run_row run) (\<lambda>run.
     tx_return \<lparr>adm_runner_id = runnerID, adm_job = job, adm_lease = lease, adm_run = run,
       adm_agent_id = agentID, adm_model_profile_id = modelProfileID\<rparr>))))))"

definition defer_admission :: "job \<Rightarrow> string \<Rightarrow> int \<Rightarrow> (db, admission option) tx" where
  "defer_admission job reason backoffMicros =
     tx_bind (deferQueuedJob job reason backoffMicros) (\<lambda>_. tx_return None)"

text \<open>From the Workspace fence on, for a candidate with its configuration.\<close>

definition admit_configured ::
  "(string \<Rightarrow> id list) option \<Rightarrow> (id \<Rightarrow> bool) \<Rightarrow> string \<Rightarrow> int \<Rightarrow> int \<Rightarrow> job \<Rightarrow> run \<Rightarrow> id \<Rightarrow> id \<Rightarrow>
   (db, admission option) tx" where
  "admit_configured runnerCandidates locked ownerID leaseMicros backoffMicros job run agentID modelProfileID =
     tx_bind (workspaceAdmissionOccupied run) (\<lambda>occupied.
     if occupied then defer_admission job SchedulerWaitWorkspace backoffMicros else
     tx_bind (lockAdmissionResources agentID modelProfileID) (\<lambda>(agentLimit, modelLimit).
     tx_bind (countCapacityReservations RES_AGENT agentID) (\<lambda>agentUsed.
     if agentUsed \<ge> agentLimit then defer_admission job SchedulerWaitAgentCapacity backoffMicros else
     tx_bind (countCapacityReservations RES_MODEL_PROFILE modelProfileID) (\<lambda>modelUsed.
     if (case modelLimit of None \<Rightarrow> False | Some n \<Rightarrow> modelUsed \<ge> n)
     then defer_admission job SchedulerWaitModelCapacity backoffMicros else
     tx_bind (tx_try (lockRunnerCandidate runnerCandidates locked (run_project_id run) agentID)) (\<lambda>runner.
     case runner of
       Inl e \<Rightarrow> if e = ErrNotFound then defer_admission job schedulerRunnerCapacity backoffMicros
                else tx_fail e
     | Inr runnerID \<Rightarrow>
         tx_bind (claim_execution job run agentID modelProfileID runnerID ownerID leaseMicros) (\<lambda>adm.
         tx_bind (sealAgentWorkRequestsForRunTx (run_project_id (adm_run adm)) (run_id (adm_run adm))) (\<lambda>_.
         tx_return (Some adm))))))))"

definition admit_candidate ::
  "(string \<Rightarrow> id list) option \<Rightarrow> (id \<Rightarrow> bool) \<Rightarrow> string \<Rightarrow> int \<Rightarrow> int \<Rightarrow>
   job \<times> run \<times> (id \<times> id) option \<Rightarrow> (db, admission option) tx" where
  "admit_candidate runnerCandidates locked ownerID leaseMicros backoffMicros c =
     (case c of (job, run, config) \<Rightarrow>
      tx_bind (delegatedParentTerminalTx run) (\<lambda>parentTerminal.
      if parentTerminal then
        tx_bind (inactiveRunExecutionOccupiedTx (run_project_id run) (run_id run)) (\<lambda>occupied.
        tx_bind (tx_guard (\<not> occupied) ErrConflict) (\<lambda>_.
        tx_bind (cancelInactiveRunTx run) (\<lambda>_.
        tx_return None)))
      else (case config of
         None \<Rightarrow> defer_admission job schedulerConfigurationWaitReason backoffMicros
       | Some (agentID, modelProfileID) \<Rightarrow>
           admit_configured runnerCandidates locked ownerID leaseMicros backoffMicros job run
             agentID modelProfileID)))"

text \<open>\<open>Duration.Microseconds\<close>: nanoseconds, truncated toward zero.\<close>

definition Microseconds :: "int \<Rightarrow> int" where
  "Microseconds ns = (if ns \<ge> 0 then ns div 1000 else - ((- ns) div 1000))"

definition AdmitNextJob ::
  "(string \<Rightarrow> id list) option \<Rightarrow> (id \<Rightarrow> bool) \<Rightarrow> string \<Rightarrow> int \<Rightarrow> int \<Rightarrow> time \<Rightarrow> db \<Rightarrow>
   (store_error + admission option) \<times> db" where
  "AdmitNextJob runnerCandidates locked ownerID leaseDuration capacityBackoff now d =
     (let leaseMicros = Microseconds leaseDuration; backoffMicros = Microseconds capacityBackoff in
      if TrimSpace ownerID = [] \<or> leaseMicros \<le> 0 \<or> backoffMicros \<le> 0
      then (Inl ErrInvalidArgument, d)
      else run_tx now
        (tx_bind (tx_try (lockNextAdmissionCandidate locked)) (\<lambda>found.
         case found of
           Inl e \<Rightarrow> if e = ErrNotFound then tx_return None else tx_fail e
         | Inr c \<Rightarrow> admit_candidate runnerCandidates locked ownerID leaseMicros backoffMicros c)) d)"

section \<open>Leases and capacity\<close>

definition lease_live :: "db \<Rightarrow> id \<Rightarrow> id \<Rightarrow> id \<Rightarrow> lease \<Rightarrow> bool" where
  "lease_live d projectID jobID leaseToken l \<longleftrightarrow>
     lse_job_id l = jobID \<and> lse_token l = leaseToken \<and> lse_expires_at l > db_now d \<and>
     exists_row (\<lambda>j. job_id j = lse_job_id l \<and> job_project_id j = projectID) (db_jobs d)"

definition renewable_lease :: "db \<Rightarrow> id \<Rightarrow> id \<Rightarrow> id \<Rightarrow> id \<Rightarrow> lease \<Rightarrow> bool" where
  "renewable_lease d projectID jobID leaseToken runID l \<longleftrightarrow>
     lse_job_id l = jobID \<and> lse_token l = leaseToken \<and> lse_expires_at l > db_now d \<and>
     exists_row (\<lambda>j. job_id j = lse_job_id l \<and> job_project_id j = projectID \<and> job_run_id j = runID)
       (db_jobs d)"

definition RenewLease :: "id \<Rightarrow> id \<Rightarrow> id \<Rightarrow> int \<Rightarrow> time \<Rightarrow> db \<Rightarrow> (store_error + lease) \<times> db" where
  "RenewLease projectID jobID leaseToken leaseDuration now d =
     (let leaseMicros = Microseconds leaseDuration in
      if leaseMicros \<le> 0 then (Inl ErrInvalidArgument, d)
      else run_tx now
        (tx_bind (sql_find db_runs (\<lambda>d r. exists_row (\<lambda>j. job_on j r \<and> job_project_id j = projectID \<and>
                     job_id j = jobID \<and> exists_row (lease_live d projectID jobID leaseToken) (db_leases d))
                     (db_jobs d))) (\<lambda>run.
         sql_update_row db_leases db_leases_update
           (\<lambda>d. renewable_lease d projectID jobID leaseToken (run_id run))
           (\<lambda>d l. l\<lparr>lse_expires_at := db_now d + leaseMicros\<rparr>))) d)"

definition ReleaseLease :: "id \<Rightarrow> id \<Rightarrow> id \<Rightarrow> time \<Rightarrow> db \<Rightarrow> (store_error + unit) \<times> db" where
  "ReleaseLease projectID jobID leaseToken now d =
     run_tx now
       (tx_bind (sql_delete db_leases db_leases_update
          (\<lambda>d l. lse_job_id l = jobID \<and> lse_token l = leaseToken \<and>
             exists_row (\<lambda>j. job_id j = lse_job_id l \<and> job_project_id j = projectID) (db_jobs d))) (\<lambda>n.
        tx_guard (n \<noteq> 0) ErrNotFound)) d"

text \<open>
  \<open>ReserveCapacity\<close> is kept in the source for compatibility: it checks no limit, and the
  scheduler does not call it. Resource kinds are text there.
\<close>

definition reservable_kind :: "string \<Rightarrow> resource_kind option" where
  "reservable_kind s = (if s = ''AGENT'' then Some RES_AGENT
     else if s = ''MODEL_PROFILE'' then Some RES_MODEL_PROFILE else None)"

definition reservable_resource :: "db \<Rightarrow> id \<Rightarrow> resource_kind \<Rightarrow> id \<Rightarrow> bool" where
  "reservable_resource d projectID k x \<longleftrightarrow>
     (k = RES_AGENT \<and> exists_row (\<lambda>a. agt_id a = x \<and> visible_to (agt_project_id a) projectID) (db_agents d)) \<or>
     (k = RES_MODEL_PROFILE \<and>
      exists_row (\<lambda>m. mdl_id m = x \<and> visible_to (mdl_project_id m) projectID) (db_model_profiles d))"

definition ReserveCapacity ::
  "id \<Rightarrow> id \<Rightarrow> id \<Rightarrow> string \<Rightarrow> id \<Rightarrow> time \<Rightarrow> db \<Rightarrow> (store_error + unit) \<times> db" where
  "ReserveCapacity projectID jobID runID resourceKind resourceID now d =
     (case reservable_kind resourceKind of
        None \<Rightarrow> (Inl ErrInvalidArgument, d)
      | Some k \<Rightarrow> run_tx now
          (tx_bind (sql_exists db_jobs (\<lambda>d j. job_id j = jobID \<and> job_project_id j = projectID \<and>
                      job_run_id j = runID \<and> reservable_resource d projectID k resourceID)) (\<lambda>selected.
           tx_bind gen_random_uuid (\<lambda>uid.
           tx_bind (if selected then
                      sql_insert_unless db_reservations db_reservations_update
                        (\<lambda>a b. rsv_job_id a = rsv_job_id b \<and> rsv_kind a = rsv_kind b)
                        reservation_unique reservation_check PgError
                        \<lparr>rsv_id = uid, rsv_project_id = projectID, rsv_job_id = jobID, rsv_run_id = runID,
                         rsv_kind = k, rsv_resource_id = resourceID\<rparr>
                    else tx_return None) (\<lambda>inserted.
           if inserted \<noteq> None then tx_return () else
           tx_bind (sql_exists db_reservations (\<lambda>d v. rsv_project_id v = projectID \<and> rsv_job_id v = jobID \<and>
                      rsv_run_id v = runID \<and> rsv_kind v = k \<and> rsv_resource_id v = resourceID)) (\<lambda>present.
           tx_guard present ErrNotFound))))) d)"

definition ReleaseCapacity :: "id \<Rightarrow> id \<Rightarrow> time \<Rightarrow> db \<Rightarrow> (store_error + nat) \<times> db" where
  "ReleaseCapacity projectID jobID now d =
     run_tx now (sql_delete db_reservations db_reservations_update
       (\<lambda>d v. rsv_project_id v = projectID \<and> rsv_job_id v = jobID)) d"

section \<open>Operations that acquire nothing\<close>

lemma safe_reservation_delete [safe_rules]:
  "tx_keeps safe (sql_delete db_reservations db_reservations_update p)"
proof (rule tx_keepsI)
  fix d n d' assume "sql_delete db_reservations db_reservations_update p d = (Inr n, d')"
  then have d': "d' = d\<lparr>db_reservations := filter (\<lambda>r. \<not> p d r) (db_reservations d)\<rparr>"
    by (simp add: tx_simps)
  have "gives_up_all d d'" unfolding gives_up_all_def by (auto simp: d' claimed_def)
  then show "safe d d'"
    unfolding safe_def releasing_def
    by (auto simp: d' claimed_def keys_kept_def keys_wf_def same_config_def intro: same_claim_refl same_place_refl)
qed

lemma safe_lease_delete [safe_rules]: "tx_keeps safe (sql_delete db_leases db_leases_update p)"
proof (rule tx_keepsI)
  fix d n d' assume "sql_delete db_leases db_leases_update p d = (Inr n, d')"
  then have d': "d' = d\<lparr>db_leases := filter (\<lambda>r. \<not> p d r) (db_leases d)\<rparr>"
    by (simp add: tx_simps)
  have "gives_up_all d d'" unfolding gives_up_all_def by (auto simp: d' claimed_def)
  moreover have "keys_kept d d'" by (auto simp: keys_kept_def keys_wf_def d' distinct_map_filter_rows)
  moreover have "\<exists>q. db_reservations d' = filter q (db_reservations d)"
    by (intro exI [of _ "\<lambda>_. True"]) (simp add: d')
  ultimately show "safe d d'"
    unfolding safe_def releasing_def
    by (auto simp: d' claimed_def same_config_def intro: same_claim_refl same_place_refl)
qed

lemma safe_lease_update:
  assumes "\<And>d l. lse_job_id (f d l) = lse_job_id l"
  shows "tx_keeps safe (sql_update_row db_leases db_leases_update p f)"
proof (rule tx_keepsI)
  fix d x d' assume "sql_update_row db_leases db_leases_update p f d = (Inr x, d')"
  then have d': "d' = d\<lparr>db_leases := update_rows (p d) (f d) (db_leases d)\<rparr>"
    by (auto simp: tx_simps)
  have ids: "map lse_job_id (db_leases d') = map lse_job_id (db_leases d)"
    by (simp add: d' map_update_rows assms)
  then have im: "lse_job_id ` set (db_leases d') = lse_job_id ` set (db_leases d)"
    by (metis list.set_map)
  have "gives_up_all d d'" unfolding gives_up_all_def by (auto simp: d' claimed_def)
  moreover have "keys_kept d d'" using ids by (auto simp: keys_kept_def keys_wf_def) (simp_all add: d')
  moreover have "\<exists>q. db_reservations d' = filter q (db_reservations d)"
    by (intro exI [of _ "\<lambda>_. True"]) (simp add: d')
  ultimately show "safe d d'"
    unfolding safe_def releasing_def im
    by (auto simp: d' claimed_def same_config_def intro: same_claim_refl same_place_refl)
qed

lemma quiet_deferQueuedJob [quiet_rules]: "tx_keeps quiet (deferQueuedJob job reason b)"
  unfolding deferQueuedJob_def
  by (intro quiet_rules quiet_update_jobs quiet_update_runs) (auto simp: same_place_def)

lemmas safe_deferQueuedJob [safe_rules] = quiet_deferQueuedJob [THEN keeps_safe]

lemma safe_defer_admission [safe_rules]: "tx_keeps safe (defer_admission job reason b)"
  unfolding defer_admission_def by (intro safe_rules)

lemma quiet_enqueue [quiet_rules]:
  "tx_keeps quiet (enqueue_insert input kind t)" "tx_keeps quiet (enqueue_existing input kind)"
  unfolding enqueue_insert_def enqueue_existing_def by (intro quiet_rules)+

lemmas [safe_rules] = quiet_enqueue [THEN keeps_safe]

lemma EnqueueJob_safe: "EnqueueJob input wall now d = (r, d') \<Longrightarrow> safe d d'"
  unfolding EnqueueJob_def Let_def
  by (auto split: if_splits intro: safe.refl elim!: safe.keeps_run_tx [rotated] intro!: safe_rules)

lemma quiet_createQueuedRun [quiet_rules]: "tx_keeps quiet (createQueuedRunTx input)"
  unfolding createQueuedRunTx_def
  by (intro quiet_rules quiet_insert_run) (simp add: run_unique_def)

lemma RenewLease_safe: "RenewLease p j t dur now d = (r, d') \<Longrightarrow> safe d d'"
  unfolding RenewLease_def Let_def
  by (auto split: if_splits intro: safe.refl elim!: safe.keeps_run_tx [rotated]
      intro!: safe_rules safe_lease_update)

lemma ReleaseLease_safe: "ReleaseLease p j t now d = (r, d') \<Longrightarrow> safe d d'"
  unfolding ReleaseLease_def by (erule safe.keeps_run_tx [rotated]) (intro safe_rules)

lemma ReleaseCapacity_safe: "ReleaseCapacity p j now d = (r, d') \<Longrightarrow> safe d d'"
  unfolding ReleaseCapacity_def by (erule safe.keeps_run_tx [rotated]) (intro safe_rules)

section \<open>The candidate\<close>

lemma candidate_of_Some:
  assumes "candidate_of d j = Some c"
  shows "cnd_job c = j" "cnd_run c \<in> set (db_runs d)" "job_on j (cnd_run c)"
    "cnd_config c = admission_config d (cnd_run c)"
    "cnd_cleanup c = terminal_parent_cleanup d (cnd_run c)"
  using assms unfolding candidate_of_def by (auto split: option.splits dest: find_Some_in)

lemma in_admission_candidates:
  "c \<in> set (admission_candidates locked d) \<longleftrightarrow>
     eligible d c \<and> \<not> locked (job_id (cnd_job c)) \<and> \<not> locked (run_id (cnd_run c)) \<and>
     (\<exists>j\<in>set (db_jobs d). candidate_of d j = Some c)"
  by (auto simp: admission_candidates_def map_filter_def) force

lemma lockNextAdmissionCandidate_Inr:
  assumes "lockNextAdmissionCandidate locked d = (Inr (job, run, config), d')"
  shows "d' = d"
    and "\<exists>c\<in>set (admission_candidates locked d). cnd_job c = job \<and> cnd_run c = run \<and>
           cnd_config c = config \<and>
           (\<forall>c'\<in>set (admission_candidates locked d). admission_key c \<le> admission_key c')"
  using assms unfolding lockNextAdmissionCandidate_def
  by (auto split: option.splits dest: first_by_in first_by_least intro!: bexI)

lemma candidate_facts:
  assumes "c \<in> set (admission_candidates locked d)"
  shows "cnd_job c \<in> set (db_jobs d)" "cnd_run c \<in> set (db_runs d)" "job_on (cnd_job c) (cnd_run c)"
    "job_state (cnd_job c) = JOB_QUEUED" "run_status (cnd_run c) = RUN_QUEUED"
    "cnd_config c = admission_config d (cnd_run c)"
  using assms by (auto simp: in_admission_candidates eligible_def dest: candidate_of_Some)

lemma lockNextAdmissionCandidate_Inl:
  "lockNextAdmissionCandidate locked d = (Inl e, d') \<longleftrightarrow>
     e = ErrNotFound \<and> admission_candidates locked d = [] \<and> d' = d"
  unfolding lockNextAdmissionCandidate_def by (auto simp: first_by_def split: option.splits)

section \<open>A successful admission\<close>

text \<open>The state after the writes of an admission.\<close>

lemma insertCapacityReservation_Inr:
  assumes "insertCapacityReservation job run k x d = (Inr v, d')"
  shows "d' = d\<lparr>db_uuid_next := Suc (db_uuid_next d), db_reservations := db_reservations d @ [v]\<rparr>"
    "rsv_kind v = k" "rsv_resource_id v = x" "rsv_job_id v = job_id job" "rsv_run_id v = run_id run"
    "rsv_project_id v = job_project_id job"
  using assms by (auto simp: insertCapacityReservation_def tx_simps)

lemma insert_lease_Inr:
  assumes "insert_lease job owner micros d = (Inr l, d')"
  shows "d' = d\<lparr>db_uuid_next := Suc (db_uuid_next d), db_leases := db_leases d @ [l]\<rparr>"
    "lse_job_id l = job_id job" "lse_owner_id l = owner" "lse_acquired_at l = db_now d"
    "lse_expires_at l = db_now d + micros" "\<forall>l'\<in>set (db_leases d). lse_job_id l' \<noteq> job_id job"
  using assms by (auto simp: insert_lease_def tx_simps lease_unique_def)

definition claimed_row :: "time \<Rightarrow> job \<Rightarrow> job" where
  "claimed_row now j = j\<lparr>job_state := JOB_CLAIMED, job_wait_reason := None, job_updated_at := now\<rparr>"

definition started_row :: "time \<Rightarrow> run \<Rightarrow> run" where
  "started_row now r = r\<lparr>run_status := RUN_STARTING, run_queue_reason := None,
     run_started_at := Some (case run_started_at r of None \<Rightarrow> now | Some t \<Rightarrow> t),
     run_updated_at := now\<rparr>"

lemma claimed_row_simps [simp]:
  "job_id (claimed_row now j) = job_id j" "job_run_id (claimed_row now j) = job_run_id j"
  "job_project_id (claimed_row now j) = job_project_id j" "job_state (claimed_row now j) = JOB_CLAIMED"
  by (simp_all add: claimed_row_def)

lemma started_row_simps [simp]:
  "run_id (started_row now r) = run_id r" "run_project_id (started_row now r) = run_project_id r"
  "run_workspace_id (started_row now r) = run_workspace_id r"
  "run_status (started_row now r) = RUN_STARTING"
  by (simp_all add: started_row_def)

lemma claim_execution_Inr:
  assumes "claim_execution job run a m x owner micros d = (Inr adm, d')"
  obtains v1 v2 v3 l j r where
    "adm = \<lparr>adm_runner_id = x, adm_job = claimed_row (db_now d) j, adm_lease = l,
            adm_run = started_row (db_now d) r, adm_agent_id = a, adm_model_profile_id = m\<rparr>"
    "map (\<lambda>v. (rsv_kind v, rsv_resource_id v)) [v1, v2, v3] =
       [(RES_RUNNER, x), (RES_AGENT, a), (RES_MODEL_PROFILE, m)]"
    "\<forall>v\<in>set [v1, v2, v3]. rsv_job_id v = job_id job \<and> rsv_run_id v = run_id run \<and>
       rsv_project_id v = job_project_id job"
    "lse_job_id l = job_id job" "lse_owner_id l = owner" "lse_acquired_at l = db_now d"
    "lse_expires_at l = db_now d + micros" "\<forall>l'\<in>set (db_leases d). lse_job_id l' \<noteq> job_id job"
    "List.find (\<lambda>j. job_id j = job_id job \<and> job_project_id j = job_project_id job \<and>
       job_run_id j = job_run_id job \<and> job_state j = JOB_QUEUED) (db_jobs d) = Some j"
    "List.find (\<lambda>r. run_project_id r = run_project_id run \<and> run_id r = run_id run \<and>
       run_status r = RUN_QUEUED) (db_runs d) = Some r"
    "d' = d\<lparr>db_uuid_next := db_uuid_next d + 4, db_reservations := db_reservations d @ [v1, v2, v3],
            db_leases := db_leases d @ [l],
            db_jobs := update_rows (\<lambda>j. job_id j = job_id job \<and> job_project_id j = job_project_id job \<and>
              job_run_id j = job_run_id job \<and> job_state j = JOB_QUEUED) (claimed_row (db_now d)) (db_jobs d),
            db_runs := update_rows (\<lambda>r. run_project_id r = run_project_id run \<and> run_id r = run_id run \<and>
              run_status r = RUN_QUEUED) (started_row (db_now d)) (db_runs d)\<rparr>"
proof -
  obtain v1 d1 v2 d2 v3 d3 l d4 j d5 r where
    i1: "insertCapacityReservation job run RES_RUNNER x d = (Inr v1, d1)" and
    i2: "insertCapacityReservation job run RES_AGENT a d1 = (Inr v2, d2)" and
    i3: "insertCapacityReservation job run RES_MODEL_PROFILE m d2 = (Inr v3, d3)" and
    il: "insert_lease job owner micros d3 = (Inr l, d4)" and
    cj: "claim_job_row job d4 = (Inr j, d5)" and sr: "start_run_row run d5 = (Inr r, d')" and
    adm: "adm = \<lparr>adm_runner_id = x, adm_job = j, adm_lease = l, adm_run = r, adm_agent_id = a,
      adm_model_profile_id = m\<rparr>"
    using assms unfolding claim_execution_def by (auto simp: tx_simps)
  note v = insertCapacityReservation_Inr [OF i1] insertCapacityReservation_Inr [OF i2]
    insertCapacityReservation_Inr [OF i3]
  note le = insert_lease_Inr [OF il]
  from cj obtain j0 where j0: "List.find (\<lambda>j. job_id j = job_id job \<and>
      job_project_id j = job_project_id job \<and> job_run_id j = job_run_id job \<and>
      job_state j = JOB_QUEUED) (db_jobs d4) = Some j0" "j = claimed_row (db_now d4) j0"
    "d5 = db_jobs_update (update_rows (\<lambda>j. job_id j = job_id job \<and>
      job_project_id j = job_project_id job \<and> job_run_id j = job_run_id job \<and>
      job_state j = JOB_QUEUED) (claimed_row (db_now d4))) d4"
    unfolding claim_job_row_def by (auto simp: tx_simps claimed_row_def [abs_def])
  from sr obtain r0 where r0: "List.find (\<lambda>r. run_project_id r = run_project_id run \<and>
      run_id r = run_id run \<and> run_status r = RUN_QUEUED) (db_runs d5) = Some r0"
    "r = started_row (db_now d5) r0"
    "d' = db_runs_update (update_rows (\<lambda>r. run_project_id r = run_project_id run \<and>
      run_id r = run_id run \<and> run_status r = RUN_QUEUED) (started_row (db_now d5))) d5"
    unfolding start_run_row_def by (auto simp: tx_simps started_row_def [abs_def])
  show ?thesis
    by (rule that [of j0 l r0 v1 v2 v3]) (use v le j0 r0 adm in simp_all)
qed

section \<open>An admission keeps the invariant\<close>

text \<open>
  What admission has established before it claims: the job and its Run are queued, no other
  Run of the Workspace is active, and every resource has room for one more.
\<close>

definition room_for :: "db \<Rightarrow> id \<Rightarrow> id \<Rightarrow> id \<Rightarrow> bool" where
  "room_for d x a m \<longleftrightarrow>
     (\<exists>g\<in>set (db_agents d). agt_id g = a \<and> int (capacity_used d RES_AGENT a) < agt_concurrency_limit g) \<and>
     (\<exists>g\<in>set (db_model_profiles d). mdl_id g = m \<and>
        (case mdl_max_concurrent g of None \<Rightarrow> True
         | Some n \<Rightarrow> int (capacity_used d RES_MODEL_PROFILE m) < n)) \<and>
     (\<exists>g\<in>set (db_runners d). rnr_id g = x \<and> capacity_used d RES_RUNNER x < runner_session_limit g)"

definition claimable :: "db \<Rightarrow> job \<Rightarrow> run \<Rightarrow> bool" where
  "claimable d job run \<longleftrightarrow> job \<in> set (db_jobs d) \<and> run \<in> set (db_runs d) \<and> job_on job run \<and>
     job_state job = JOB_QUEUED \<and> run_status run = RUN_QUEUED \<and>
     (\<forall>peer\<in>set (db_runs d). \<not> workspace_peer_active d run (run_workspace_id run) peer)"

text \<open>The change a claim makes, as far as ownership reads it.\<close>

definition claim_step :: "db \<Rightarrow> db \<Rightarrow> job \<Rightarrow> run \<Rightarrow> id \<Rightarrow> id \<Rightarrow> id \<Rightarrow> bool" where
  "claim_step d d' job run x a m \<longleftrightarrow> same_config d d' \<and>
     (\<exists>vs. db_reservations d' = db_reservations d @ vs \<and>
        map (\<lambda>v. (rsv_kind v, rsv_resource_id v)) vs =
          [(RES_RUNNER, x), (RES_AGENT, a), (RES_MODEL_PROFILE, m)] \<and>
        (\<forall>v\<in>set vs. rsv_job_id v = job_id job \<and> rsv_run_id v = run_id run \<and>
           rsv_project_id v = job_project_id job)) \<and>
     (\<exists>l. db_leases d' = db_leases d @ [l] \<and> lse_job_id l = job_id job) \<and>
     (\<forall>l\<in>set (db_leases d). lse_job_id l \<noteq> job_id job) \<and>
     (\<exists>t. db_jobs d' = update_rows (\<lambda>j. job_id j = job_id job \<and> job_project_id j = job_project_id job \<and>
            job_run_id j = job_run_id job \<and> job_state j = JOB_QUEUED) (claimed_row t) (db_jobs d)) \<and>
     (\<exists>t. db_runs d' = update_rows (\<lambda>r. run_project_id r = run_project_id run \<and> run_id r = run_id run \<and>
            run_status r = RUN_QUEUED) (started_row t) (db_runs d))"

lemma claim_execution_step:
  assumes "claim_execution job run a m x owner micros d = (Inr adm, d')"
  shows "claim_step d d' job run x a m"
  using assms
proof (rule claim_execution_Inr)
  fix v1 v2 v3 l j r
  assume "map (\<lambda>v. (rsv_kind v, rsv_resource_id v)) [v1, v2, v3] =
       [(RES_RUNNER, x), (RES_AGENT, a), (RES_MODEL_PROFILE, m)]"
    "\<forall>v\<in>set [v1, v2, v3]. rsv_job_id v = job_id job \<and> rsv_run_id v = run_id run \<and>
       rsv_project_id v = job_project_id job"
    "lse_job_id l = job_id job" "\<forall>l'\<in>set (db_leases d). lse_job_id l' \<noteq> job_id job"
    and d': "d' = d\<lparr>db_uuid_next := db_uuid_next d + 4, db_reservations := db_reservations d @ [v1, v2, v3],
            db_leases := db_leases d @ [l],
            db_jobs := update_rows (\<lambda>j. job_id j = job_id job \<and> job_project_id j = job_project_id job \<and>
              job_run_id j = job_run_id job \<and> job_state j = JOB_QUEUED) (claimed_row (db_now d)) (db_jobs d),
            db_runs := update_rows (\<lambda>r. run_project_id r = run_project_id run \<and> run_id r = run_id run \<and>
              run_status r = RUN_QUEUED) (started_row (db_now d)) (db_runs d)\<rparr>"
  then show ?thesis
    unfolding claim_step_def
    by (intro conjI exI [of _ "[v1, v2, v3]"] exI [of _ l] exI [of _ "db_now d"])
      (simp_all add: same_config_def)
qed

lemma claim_step_claimed:
  assumes "claim_step d d' job run x a m" "j \<in> set (claimed d')"
  shows "j \<in> set (claimed d) \<or> same_claim job j"
  using assms by (auto simp: claim_step_def in_update_rows same_claim_def)

lemma claim_step_new:
  assumes "claim_step d d' job run x a m" "claimable d job run"
  obtains j r where "j \<in> set (claimed d')" "same_claim job j"
    "r \<in> set (db_runs d')" "same_place run r" "run_status r = RUN_STARTING"
proof -
  obtain t u where "db_jobs d' = update_rows (\<lambda>j. job_id j = job_id job \<and>
        job_project_id j = job_project_id job \<and> job_run_id j = job_run_id job \<and>
        job_state j = JOB_QUEUED) (claimed_row t) (db_jobs d)"
    "db_runs d' = update_rows (\<lambda>r. run_project_id r = run_project_id run \<and> run_id r = run_id run \<and>
        run_status r = RUN_QUEUED) (started_row u) (db_runs d)"
    using assms(1) unfolding claim_step_def by blast
  then have "claimed_row t job \<in> set (db_jobs d')" "started_row u run \<in> set (db_runs d')"
    using assms(2) by (auto simp: claimable_def set_update_rows image_iff)
  then show ?thesis
    using that [of "claimed_row t job" "started_row u run"]
    by (simp add: same_claim_def same_place_def)
qed

text \<open>Rows the claim does not match stay.\<close>

lemma claim_step_old:
  assumes "claim_step d d' job run x a m"
  shows "j \<in> set (claimed d) \<Longrightarrow> j \<in> set (claimed d')"
    and "r \<in> set (db_runs d) \<Longrightarrow> run_status r \<noteq> RUN_QUEUED \<Longrightarrow> r \<in> set (db_runs d')"
  using assms unfolding claim_step_def by (auto intro!: unmatched_row)

lemma claim_step_runs:
  assumes "claim_step d d' job run x a m" "r' \<in> set (db_runs d')"
  obtains r where "r \<in> set (db_runs d)" "same_place r r'"
  using assms that unfolding claim_step_def same_place_def by (auto simp: in_update_rows)

lemma claim_keys:
  assumes "claim_step d d' job run x a m" "keys_wf d"
  shows "keys_wf d'"
proof -
  have "map job_id (db_jobs d') = map job_id (db_jobs d)" "map run_id (db_runs d') = map run_id (db_runs d)"
    "\<exists>l. db_leases d' = db_leases d @ [l] \<and> lse_job_id l \<notin> lse_job_id ` set (db_leases d)"
    using assms(1) unfolding claim_step_def by (auto simp: map_update_rows)
  then show ?thesis using assms(2) by (auto simp: keys_wf_def)
qed

lemma claim_ownership:
  assumes step: "claim_step d d' job run x a m" and ok: "claimable d job run" and own: "ownership_wf d"
  shows "ownership_wf d'"
proof -
  obtain j r where new: "j \<in> set (claimed d')" "same_claim job j" "r \<in> set (db_runs d')"
    "same_place run r" "run_status r = RUN_STARTING"
    using claim_step_new [OF step ok] by metis
  have on: "job_on j r" using ok new by (simp add: claimable_def job_on_def same_claim_def same_place_def)
  show ?thesis
    unfolding ownership_wf_def
  proof (intro conjI ballI)
    fix l assume "l \<in> set (db_leases d')"
    then have "l \<in> set (db_leases d) \<or> lse_job_id l = job_id job"
      using step by (auto simp: claim_step_def)
    then show "\<exists>j\<in>set (claimed d'). job_id j = lse_job_id l"
      using own claim_step_old(1) [OF step] new(1,2) unfolding ownership_wf_def same_claim_def by metis
  next
    fix v assume "v \<in> set (db_reservations d')"
    then have "v \<in> set (db_reservations d) \<or> rsv_job_id v = job_id job \<and> rsv_run_id v = run_id run \<and>
        rsv_project_id v = job_project_id job"
      using step by (auto simp: claim_step_def)
    moreover have "run_id run = job_run_id job" using ok by (simp add: claimable_def job_on_def)
    ultimately show "\<exists>j\<in>set (claimed d'). job_id j = rsv_job_id v \<and> job_run_id j = rsv_run_id v \<and>
        job_project_id j = rsv_project_id v"
      using own claim_step_old(1) [OF step] new(1,2) unfolding ownership_wf_def same_claim_def by metis
  next
    fix k assume "k \<in> set (claimed d')"
    then consider "k \<in> set (claimed d)" | "same_claim job k" using claim_step_claimed [OF step] by blast
    then show "\<exists>r\<in>set (db_runs d'). job_on k r \<and> executing (run_status r)"
    proof cases
      case 1
      then obtain q where q: "q \<in> set (db_runs d)" "job_on k q" "executing (run_status q)"
        using own unfolding ownership_wf_def by blast
      moreover from this have "q \<in> set (db_runs d')"
        using claim_step_old(2) [OF step] by (metis not_executing(1))
      ultimately show ?thesis by blast
    next
      case 2
      then have "job_on k r" using on new(2) by (simp add: job_on_def same_claim_def)
      then show ?thesis using new by (metis not_executing(7))
    qed
  qed
qed

lemma claim_peer_free:
  assumes ok: "claimable d job run" and wf: "keys_wf d" "ownership_wf d"
    and j: "j \<in> set (claimed d)" "r \<in> set (db_runs d)" "job_on j r"
    and same: "run_project_id r = run_project_id run" "run_workspace_id r = run_workspace_id run"
  shows False
proof (cases "run_id r = run_id run")
  case True
  then have "r = run" using ok wf(1) j by (auto simp: claimable_def keys_wf_def intro: distinct_key_eq)
  moreover obtain q where "q \<in> set (db_runs d)" "job_on j q" "executing (run_status q)"
    using wf(2) j(1) unfolding ownership_wf_def by blast
  moreover from this have "q = r"
    using j wf(1) by (auto simp: keys_wf_def job_on_def intro: distinct_key_eq)
  ultimately show False using ok by (simp add: claimable_def)
next
  case False
  then have "workspace_peer_active d run (run_workspace_id run) r"
    using j same by (auto simp: workspace_peer_active_def job_on_def)
  then show False using ok j(2) by (auto simp: claimable_def)
qed

lemma claim_workspace:
  assumes step: "claim_step d d' job run x a m" and ok: "claimable d job run"
    and wf: "keys_wf d" "ownership_wf d" and ws: "workspace_exclusive d"
  shows "workspace_exclusive d'"
  unfolding workspace_exclusive_def
proof (intro ballI impI)
  fix j1 j2 r1 r2
  assume j: "j1 \<in> set (claimed d')" "j2 \<in> set (claimed d')" and r: "r1 \<in> set (db_runs d')" "r2 \<in> set (db_runs d')"
    and on: "job_on j1 r1" "job_on j2 r2"
    and same: "run_project_id r1 = run_project_id r2" "run_workspace_id r1 = run_workspace_id r2"
  have keys': "keys_wf d'" using step wf(1) by (rule claim_keys)
  obtain s1 where s1: "s1 \<in> set (db_runs d)" "same_place s1 r1" using claim_step_runs [OF step r(1)] .
  obtain s2 where s2: "s2 \<in> set (db_runs d)" "same_place s2 r2" using claim_step_runs [OF step r(2)] .
  have on': "job_on j1 s1" "job_on j2 s2" using on s1 s2 by (auto simp: job_on_def same_place_def)
  have at: "same_claim job k \<Longrightarrow> job_on k s \<Longrightarrow> s \<in> set (db_runs d) \<Longrightarrow> s = run" for k s
    using ok wf(1) by (auto simp: claimable_def keys_wf_def job_on_def same_claim_def intro: distinct_key_eq)
  have free: "k \<in> set (claimed d) \<Longrightarrow> job_on k s \<Longrightarrow> s \<in> set (db_runs d) \<Longrightarrow>
      run_project_id s = run_project_id run \<Longrightarrow> run_workspace_id s = run_workspace_id run \<Longrightarrow> False" for k s
    using claim_peer_free [OF ok wf] by blast
  have eq: "run_project_id s1 = run_project_id s2" "run_workspace_id s1 = run_workspace_id s2"
    using s1 s2 same by (auto simp: same_place_def)
  consider "j1 \<in> set (claimed d)" "j2 \<in> set (claimed d)" | "same_claim job j1" "same_claim job j2"
    | "j1 \<in> set (claimed d)" "same_claim job j2" | "same_claim job j1" "j2 \<in> set (claimed d)"
    using claim_step_claimed [OF step] j by blast
  then show "j1 = j2"
  proof cases
    case 1 then show ?thesis using ws s1 s2 on' eq unfolding workspace_exclusive_def by blast
  next
    case 2
    then have "job_id j1 = job_id j2" by (simp add: same_claim_def)
    then show ?thesis using j keys' by (auto simp: keys_wf_def intro: distinct_key_eq)
  next
    case 3 then show ?thesis using at [OF 3(2) on'(2) s2(1)] free [OF 3(1) on'(1) s1(1)] eq by simp
  next
    case 4 then show ?thesis using at [OF 4(1) on'(1) s1(1)] free [OF 4(2) on'(2) s2(1)] eq by simp
  qed
qed

lemma claim_capacity_used:
  assumes "claim_step d d' job run x a m"
  shows "capacity_used d' RES_RUNNER y = capacity_used d RES_RUNNER y + (if y = x then 1 else 0)"
    and "capacity_used d' RES_AGENT y = capacity_used d RES_AGENT y + (if y = a then 1 else 0)"
    and "capacity_used d' RES_MODEL_PROFILE y =
           capacity_used d RES_MODEL_PROFILE y + (if y = m then 1 else 0)"
  using assms unfolding claim_step_def capacity_used_def
  by (auto simp: map_eq_Cons_conv)

lemma claim_capacity:
  assumes step: "claim_step d d' job run x a m" and room: "room_for d x a m"
    and cfg: "config_wf d" and cap: "capacity_wf d"
  shows "capacity_wf d'"
proof -
  have same: "same_config d d'" using step by (simp add: claim_step_def)
  note used = claim_capacity_used [OF step]
  have "int (capacity_used d' RES_AGENT (agt_id g)) \<le> agt_concurrency_limit g"
    if "g \<in> set (db_agents d)" for g
    using that room cfg cap used(2) [of "agt_id g"]
    by (auto simp: room_for_def config_wf_def capacity_wf_def dest: distinct_key_eq)
  moreover have "case mdl_max_concurrent g of None \<Rightarrow> True
      | Some n \<Rightarrow> int (capacity_used d' RES_MODEL_PROFILE (mdl_id g)) \<le> n"
    if g: "g \<in> set (db_model_profiles d)" for g
  proof (cases "mdl_id g = m")
    case True
    then have "case mdl_max_concurrent g of None \<Rightarrow> True
        | Some n \<Rightarrow> int (capacity_used d RES_MODEL_PROFILE m) < n"
      using room cfg g unfolding room_for_def config_wf_def by (metis distinct_key_eq)
    then show ?thesis using True used(3) [of "mdl_id g"] by (auto split: option.splits)
  next
    case False
    then show ?thesis using cap g used(3) [of "mdl_id g"]
      by (cases "mdl_max_concurrent g") (auto simp: capacity_wf_def split: option.splits)
  qed
  moreover have "capacity_used d' RES_RUNNER (rnr_id g) \<le> runner_session_limit g"
    if "g \<in> set (db_runners d)" for g
    using that room cfg cap used(1) [of "rnr_id g"]
    by (auto simp: room_for_def config_wf_def capacity_wf_def dest: distinct_key_eq)
  ultimately show ?thesis using same by (auto simp: capacity_wf_def same_config_def)
qed

lemma claim_wf:
  assumes step: "claim_step d d' job run x a m" and ok: "claimable d job run"
    and room: "room_for d x a m" and wf: "sched_wf d"
  shows "sched_wf d'"
proof -
  have "config_wf d'" using step wf by (simp add: claim_step_def same_config_def sched_wf_def config_wf_def)
  moreover have "keys_wf d'" "ownership_wf d'" "workspace_exclusive d'" "capacity_wf d'"
    using wf claim_keys [OF step] claim_ownership [OF step ok] claim_workspace [OF step ok]
      claim_capacity [OF step room] by (simp_all add: sched_wf_def)
  ultimately show ?thesis by (simp add: sched_wf_def)
qed

section \<open>The outcome of an admission\<close>

lemma lockRunnerCandidate_reads:
  "lockRunnerCandidate rc locked p a d = (r, d') \<Longrightarrow> d' = d"
  unfolding lockRunnerCandidate_def
  by (cases r) (auto simp: tx_simps tx_bind_Inl Let_def)

lemma lockRunnerCandidate_Inr:
  assumes "lockRunnerCandidate rc locked p a d = (Inr x, d')"
  obtains r where "r \<in> set (db_runners d)" "rnr_id r = x"
    "capacity_used d RES_RUNNER x < runner_session_limit r" "\<not> locked x"
    "rnr_deleted_at r = None" "rnr_revoked_at r = None"
proof -
  obtain ids r where "first_by (\<lambda>r. (rnr_internal r, rnr_created_at r, rnr_id r))
      (filter (\<lambda>r. capacity_used d RES_RUNNER (rnr_id r) < runner_session_limit r \<and> \<not> locked (rnr_id r))
        (filter (runner_visible d p ids) (db_runners d))) = Some r" "rnr_id r = x"
    using assms unfolding lockRunnerCandidate_def by (auto simp: tx_simps Let_def)
  then show ?thesis using that by (auto dest!: first_by_in simp: runner_visible_def)
qed

lemma workspaceAdmissionOccupied_Inr:
  assumes "workspaceAdmissionOccupied run d = (Inr occupied, d')"
  shows "d' = d"
    and "occupied \<longleftrightarrow> (\<exists>peer\<in>set (db_runs d). workspace_peer_active d run (run_workspace_id run) peer)"
proof -
  obtain w where w: "List.find (\<lambda>w. wsp_project_id w = run_project_id run \<and> wsp_id w = run_workspace_id run)
      (db_workspaces d) = Some w" "occupied = (\<exists>peer\<in>set (db_runs d). workspace_peer_active d run (wsp_id w) peer)"
    and d': "d' = d"
    using assms unfolding workspaceAdmissionOccupied_def by (auto simp: tx_simps)
  show "d' = d" by (rule d')
  show "occupied \<longleftrightarrow> (\<exists>peer\<in>set (db_runs d). workspace_peer_active d run (run_workspace_id run) peer)"
    using w by (auto dest!: find_Some_in)
qed

lemma lockAdmissionResources_Inr:
  assumes "lockAdmissionResources a m d = (Inr (al, ml), d')"
  shows "d' = d" "\<exists>g\<in>set (db_agents d). agt_id g = a \<and> agt_concurrency_limit g = al"
    "\<exists>g\<in>set (db_model_profiles d). mdl_id g = m \<and> mdl_max_concurrent g = ml"
  using assms unfolding lockAdmissionResources_def by (auto simp: tx_simps dest!: find_Some_in)

text \<open>
  After its reads, an admission has either been deferred, which acquires nothing, or has
  found the Workspace free and room everywhere, and claims.
\<close>

lemma admit_configured_Inr:
  assumes "admit_configured rc locked owner micros backoff job run a m d = (Inr res, d')"
  shows "(res = None \<and> (\<exists>reason. deferQueuedJob job reason backoff d = (Inr (), d'))) \<or>
     (\<exists>x adm d1 n. res = Some adm \<and> room_for d x a m \<and>
        (\<forall>peer\<in>set (db_runs d). \<not> workspace_peer_active d run (run_workspace_id run) peer) \<and>
        claim_execution job run a m x owner micros d = (Inr adm, d1) \<and>
        sealAgentWorkRequestsForRunTx (run_project_id (adm_run adm)) (run_id (adm_run adm)) d1 = (Inr n, d'))"
proof -
  obtain occupied d0 where "workspaceAdmissionOccupied run d = (Inr occupied, d0)"
    using assms unfolding admit_configured_def tx_bind_Inr by blast
  then have occ: "workspaceAdmissionOccupied run d = (Inr occupied, d)"
    "\<not> occupied \<longrightarrow> (\<forall>peer\<in>set (db_runs d). \<not> workspace_peer_active d run (run_workspace_id run) peer)"
    using workspaceAdmissionOccupied_Inr by blast+
  show ?thesis
  proof (cases occupied)
    case True
    then show ?thesis using assms occ(1)
      by (auto simp: admit_configured_def defer_admission_def tx_simps)
  next
    case False
    note free = occ(2) [rule_format, OF False]
    obtain al ml d1 where res0: "lockAdmissionResources a m d = (Inr (al, ml), d1)"
      using assms occ(1) False unfolding admit_configured_def by (auto simp: tx_bind_Inr)
    note g = lockAdmissionResources_Inr(2,3) [OF res0]
    have res: "lockAdmissionResources a m d = (Inr (al, ml), d)"
      using res0 lockAdmissionResources_Inr(1) [OF res0] by simp
    let ?busy = "int (capacity_used d RES_AGENT a) \<ge> al \<or>
      (case ml of None \<Rightarrow> False | Some n \<Rightarrow> int (capacity_used d RES_MODEL_PROFILE m) \<ge> n)"
    show ?thesis
    proof (cases "?busy")
      case True
      then show ?thesis using assms occ(1) False res
        by (auto simp: admit_configured_def defer_admission_def countCapacityReservations_def tx_simps
            split: if_splits)
    next
      case nb: False
      obtain runner d0 where try_runner: "lockRunnerCandidate rc locked (run_project_id run) a d = (runner, d0)"
        by fastforce
      then have d0: "d0 = d" by (rule lockRunnerCandidate_reads)
      have rest: "(case runner of
           Inl e \<Rightarrow> if e = ErrNotFound then defer_admission job schedulerRunnerCapacity backoff else tx_fail e
         | Inr x \<Rightarrow> tx_bind (claim_execution job run a m x owner micros) (\<lambda>adm.
             tx_bind (sealAgentWorkRequestsForRunTx (run_project_id (adm_run adm)) (run_id (adm_run adm)))
               (\<lambda>_. tx_return (Some adm)))) d = (Inr res, d')"
        using assms occ(1) False res nb try_runner d0
        by (auto simp: admit_configured_def countCapacityReservations_def tx_simps)
      show ?thesis
      proof (cases runner)
        case (Inl e)
        then show ?thesis using rest
          by (auto simp: defer_admission_def tx_simps split: if_splits)
      next
        case (Inr x)
        then have "room_for d x a m"
          using try_runner g nb unfolding room_for_def
          by (auto elim!: lockRunnerCandidate_Inr split: option.splits)
        then show ?thesis using rest Inr free by (auto simp: tx_simps)
      qed
    qed
  qed
qed

text \<open>The same for a candidate, and for the whole transaction.\<close>

lemma admit_candidate_Inr:
  assumes "admit_candidate rc locked owner micros backoff (job, run, config) d = (Inr res, d')"
  shows "(res = None \<and> safe d d') \<or>
     (\<exists>x a m adm d1 n. res = Some adm \<and> config = Some (a, m) \<and> room_for d x a m \<and>
        delegatedParentTerminalTx run d = (Inr False, d) \<and>
        (\<forall>peer\<in>set (db_runs d). \<not> workspace_peer_active d run (run_workspace_id run) peer) \<and>
        claim_execution job run a m x owner micros d = (Inr adm, d1) \<and>
        sealAgentWorkRequestsForRunTx (run_project_id (adm_run adm)) (run_id (adm_run adm)) d1 = (Inr n, d'))"
proof -
  obtain pt d0 where pt0: "delegatedParentTerminalTx run d = (Inr pt, d0)"
    using assms unfolding admit_candidate_def by (auto simp: tx_bind_Inr)
  moreover have "d0 = d"
    using pt0 unfolding delegatedParentTerminalTx_def find_run_def
    by (auto simp: tx_simps split: option.splits)
  ultimately have pt: "delegatedParentTerminalTx run d = (Inr pt, d)" by simp
  show ?thesis
  proof (cases pt)
    case True
    let ?cancel = "tx_bind (inactiveRunExecutionOccupiedTx (run_project_id run) (run_id run)) (\<lambda>occupied.
        tx_bind (tx_guard (\<not> occupied) ErrConflict) (\<lambda>_.
        tx_bind (cancelInactiveRunTx run) (\<lambda>_. tx_return None)))"
    have c: "?cancel d = (Inr res, d')" using assms pt True unfolding admit_candidate_def by (auto simp: tx_bind_Inr)
    moreover have "tx_keeps safe ?cancel" by (intro safe_rules)
    ultimately have "safe d d'" by (metis tx_keepsD)
    then show ?thesis using c by (auto simp: tx_simps)
  next
    case False
    show ?thesis
    proof (cases config)
      case None
      then have "defer_admission job schedulerConfigurationWaitReason backoff d = (Inr res, d')"
        using assms pt False unfolding admit_candidate_def by (auto simp: tx_bind_Inr)
      then show ?thesis
        using tx_keepsD [OF safe_deferQueuedJob] by (auto simp: defer_admission_def tx_simps)
    next
      case (Some am)
      then obtain a m where am: "config = Some (a, m)" by (cases am) auto
      then have "admit_configured rc locked owner micros backoff job run a m d = (Inr res, d')"
        using assms pt False unfolding admit_candidate_def by (auto simp: tx_bind_Inr)
      from admit_configured_Inr [OF this] show ?thesis
      proof
        assume "res = None \<and> (\<exists>reason. deferQueuedJob job reason backoff d = (Inr (), d'))"
        then show ?thesis using tx_keepsD [OF safe_deferQueuedJob] by blast
      qed (use am pt False in auto)
    qed
  qed
qed

lemma AdmitNextJob_Inr:
  assumes "AdmitNextJob rc locked owner lease backoff now d = (Inr res, d')"
  shows "(res = None \<and> safe d d') \<or>
     (\<exists>c x a m adm d1 n. res = Some adm \<and> c \<in> set (admission_candidates locked (d\<lparr>db_now := now\<rparr>)) \<and>
        (\<forall>c'\<in>set (admission_candidates locked (d\<lparr>db_now := now\<rparr>)). admission_key c \<le> admission_key c') \<and>
        cnd_config c = Some (a, m) \<and> room_for (d\<lparr>db_now := now\<rparr>) x a m \<and>
        claimable (d\<lparr>db_now := now\<rparr>) (cnd_job c) (cnd_run c) \<and>
        delegatedParentTerminalTx (cnd_run c) (d\<lparr>db_now := now\<rparr>) = (Inr False, d\<lparr>db_now := now\<rparr>) \<and>
        claim_execution (cnd_job c) (cnd_run c) a m x owner (Microseconds lease) (d\<lparr>db_now := now\<rparr>) = (Inr adm, d1) \<and>
        sealAgentWorkRequestsForRunTx (run_project_id (adm_run adm)) (run_id (adm_run adm)) d1 = (Inr n, d'))"
proof -
  let ?d = "d\<lparr>db_now := now\<rparr>"
  have clock: "safe d ?d" by (rule safe.clock)
  obtain res0 d0 where found: "lockNextAdmissionCandidate locked ?d = (res0, d0)" by fastforce
  have rest: "(case res0 of
      Inl e \<Rightarrow> if e = ErrNotFound then tx_return None else tx_fail e
    | Inr c \<Rightarrow> admit_candidate rc locked owner (Microseconds lease) (Microseconds backoff) c) d0 = (Inr res, d')"
    using assms found unfolding AdmitNextJob_def Let_def by (auto simp: tx_simps split: if_splits)
  show ?thesis
  proof (cases res0)
    case (Inl e)
    then show ?thesis using found rest clock
      by (auto simp: lockNextAdmissionCandidate_Inl tx_simps split: if_splits)
  next
    case (Inr jrc)
    obtain job run config where jrc: "jrc = (job, run, config)" by (cases jrc) auto
    note cand = lockNextAdmissionCandidate_Inr [OF found [unfolded Inr jrc]]
    then obtain c where c: "c \<in> set (admission_candidates locked ?d)" "cnd_job c = job" "cnd_run c = run"
      "cnd_config c = config" "\<forall>c'\<in>set (admission_candidates locked ?d). admission_key c \<le> admission_key c'"
      by blast
    have adm: "admit_candidate rc locked owner (Microseconds lease) (Microseconds backoff) (job, run, config) ?d = (Inr res, d')"
      using rest Inr jrc cand(1) by simp
    show ?thesis
      using admit_candidate_Inr [OF adm]
    proof (elim disjE exE conjE)
      assume "res = None" "safe ?d d'"
      then show ?thesis using clock safe.trans by blast
    next
      fix x a m adm d1 n
      assume h: "res = Some adm" "config = Some (a, m)" "room_for ?d x a m"
        "delegatedParentTerminalTx run ?d = (Inr False, ?d)"
        "\<forall>peer\<in>set (db_runs ?d). \<not> workspace_peer_active ?d run (run_workspace_id run) peer"
        "claim_execution job run a m x owner (Microseconds lease) ?d = (Inr adm, d1)"
        "sealAgentWorkRequestsForRunTx (run_project_id (adm_run adm)) (run_id (adm_run adm)) d1 = (Inr n, d')"
      have "claimable ?d job run"
        using candidate_facts [OF c(1)] c(2,3) h(5) by (simp add: claimable_def)
      then show ?thesis using h c by (intro disjI2) blast
    qed
  qed
qed

theorem AdmitNextJob_wf:
  assumes "sched_wf d" "AdmitNextJob rc locked owner lease backoff now d = (res, d')"
  shows "sched_wf d'"
proof (cases res)
  case (Inl e)
  then have "d' = d" using assms(2) unfolding AdmitNextJob_def Let_def by (auto split: if_splits dest: run_tx_rollback)
  then show ?thesis using assms(1) by simp
next
  case (Inr r)
  show ?thesis using AdmitNextJob_Inr [OF assms(2) [unfolded Inr]]
  proof (elim disjE exE conjE)
    assume "safe d d'" then show ?thesis using assms(1) by (rule safe_wf)
  next
    fix c x a m adm d1 n
    assume h: "room_for (d\<lparr>db_now := now\<rparr>) x a m" "claimable (d\<lparr>db_now := now\<rparr>) (cnd_job c) (cnd_run c)"
      "claim_execution (cnd_job c) (cnd_run c) a m x owner (Microseconds lease) (d\<lparr>db_now := now\<rparr>) = (Inr adm, d1)"
      and seal: "sealAgentWorkRequestsForRunTx (run_project_id (adm_run adm)) (run_id (adm_run adm)) d1 = (Inr n, d')"
    have "sched_wf (d\<lparr>db_now := now\<rparr>)" using safe.clock assms(1) by (rule safe_wf)
    then have "sched_wf d1" using claim_wf [OF claim_execution_step [OF h(3)] h(2,1)] by blast
    then show ?thesis using tx_keepsD [OF quiet_work_requests(1) [THEN keeps_safe] seal] safe_wf by blast
  qed
qed

section \<open>History\<close>

lemma EnqueueJob_history: "EnqueueJob input wall now d = (r, d') \<Longrightarrow> history d d'"
  unfolding EnqueueJob_def Let_def enqueue_insert_def enqueue_existing_def
  by (auto split: if_splits intro: history.refl elim!: history.keeps_run_tx [rotated] intro!: history_rules)

lemma history_createQueuedRun [history_rules]: "tx_keeps history (createQueuedRunTx input)"
  unfolding createQueuedRunTx_def
  by (intro history_rules history_insert_run) (simp_all add: run_unique_def new_run_def)

lemma RenewLease_history: "RenewLease p j t dur now d = (r, d') \<Longrightarrow> history d d'"
  unfolding RenewLease_def Let_def
  by (auto split: if_splits intro: history.refl elim!: history.keeps_run_tx [rotated] intro!: history_rules)

lemma ReleaseLease_history: "ReleaseLease p j t now d = (r, d') \<Longrightarrow> history d d'"
  unfolding ReleaseLease_def by (erule history.keeps_run_tx [rotated]) (intro history_rules)

lemma ReleaseCapacity_history: "ReleaseCapacity p j now d = (r, d') \<Longrightarrow> history d d'"
  unfolding ReleaseCapacity_def by (erule history.keeps_run_tx [rotated]) (intro history_rules)

lemma history_deferQueuedJob [history_rules]: "tx_keeps history (deferQueuedJob job reason b)"
  unfolding deferQueuedJob_def by (intro history_rules history_update_runs) (auto simp: terminal_run_def)

lemma history_claim_execution [history_rules]: "tx_keeps history (claim_execution job run a m x owner micros)"
  unfolding claim_execution_def insertCapacityReservation_def insert_lease_def claim_job_row_def
    start_run_row_def
  by (intro history_rules history_update_runs) (auto simp: terminal_run_def)

lemma history_try_runner [history_rules]: "tx_keeps history (tx_try (lockRunnerCandidate rc locked p a))"
  by (intro history.keeps_try history.keeps_read) (auto dest: lockRunnerCandidate_reads)

lemma history_try_candidate [history_rules]: "tx_keeps history (tx_try (lockNextAdmissionCandidate locked))"
  by (intro history.keeps_try history.keeps_read)
    (auto simp: lockNextAdmissionCandidate_def split: option.splits)

lemma history_admit_candidate [history_rules]:
  "tx_keeps history (admit_candidate rc locked owner micros backoff c)"
  unfolding admit_candidate_def admit_configured_def defer_admission_def workspaceAdmissionOccupied_def
    lockAdmissionResources_def countCapacityReservations_def
  by (intro history_rules)

lemma AdmitNextJob_history:
  "AdmitNextJob rc locked owner lease backoff now d = (r, d') \<Longrightarrow> history d d'"
  unfolding AdmitNextJob_def Let_def
  by (auto split: if_splits intro: history.refl elim!: history.keeps_run_tx [rotated] intro!: history_rules)

section \<open>Properties\<close>

lemma lockNextAdmissionCandidate_run [tx_run]:
  "lockNextAdmissionCandidate locked d =
     (case first_by admission_key (admission_candidates locked d) of
        None \<Rightarrow> (Inl ErrNotFound, d)
      | Some c \<Rightarrow> (Inr (cnd_job c, cnd_run c, cnd_config c), d))"
  by (simp add: lockNextAdmissionCandidate_def)

lemmas admission_run = tx_run AdmitNextJob_def admission_candidates_def
  candidate_of_def eligible_def admission_key_def terminal_parent_cleanup_def admission_config_def
  admit_candidate_def delegatedParentTerminalTx_def delegation_of_run_def admit_configured_def
  workspaceAdmissionOccupied_def workspace_peer_active_def lockAdmissionResources_def
  countCapacityReservations_def lockRunnerCandidate_def runner_visible_def claim_execution_def
  insertCapacityReservation_def insert_lease_def claim_job_row_def start_run_row_def
  sealAgentWorkRequestsForRunTx_def Microseconds_def visible_to_def job_on_def capacity_used_def
  runner_limit_overflows_def runner_session_limit_def is_positive_decimal_def decimal_value_def
  reservation_unique_def reservation_check_def lease_unique_def lease_check_def map_filter_simps

lemma AdmitNextJob_Some:
  assumes "AdmitNextJob rc locked owner lease backoff now d = (Inr (Some adm), d')"
  obtains c where "c \<in> set (admission_candidates locked (d\<lparr>db_now := now\<rparr>))"
    "\<forall>c'\<in>set (admission_candidates locked (d\<lparr>db_now := now\<rparr>)). admission_key c \<le> admission_key c'"
    "cnd_config c = Some (adm_agent_id adm, adm_model_profile_id adm)"
    "room_for (d\<lparr>db_now := now\<rparr>) (adm_runner_id adm) (adm_agent_id adm) (adm_model_profile_id adm)"
    "claimable (d\<lparr>db_now := now\<rparr>) (cnd_job c) (cnd_run c)"
    "delegatedParentTerminalTx (cnd_run c) (d\<lparr>db_now := now\<rparr>) = (Inr False, d\<lparr>db_now := now\<rparr>)"
    "claim_step (d\<lparr>db_now := now\<rparr>) d' (cnd_job c) (cnd_run c) (adm_runner_id adm) (adm_agent_id adm)
       (adm_model_profile_id adm)"
    "db_leases d' = db_leases d @ [adm_lease adm]" "lse_job_id (adm_lease adm) = job_id (cnd_job c)"
    "lse_owner_id (adm_lease adm) = owner" "lse_expires_at (adm_lease adm) = now + Microseconds lease"
    "same_claim (cnd_job c) (adm_job adm)" "adm_job adm \<in> set (claimed d')"
    "job_on (cnd_job c) (adm_run adm)" "adm_run adm \<in> set (db_runs d')" "run_status (adm_run adm) = RUN_STARTING"
proof -
  obtain c x a m d1 n where c: "c \<in> set (admission_candidates locked (d\<lparr>db_now := now\<rparr>))"
    "\<forall>c'\<in>set (admission_candidates locked (d\<lparr>db_now := now\<rparr>)). admission_key c \<le> admission_key c'"
    "cnd_config c = Some (a, m)" "room_for (d\<lparr>db_now := now\<rparr>) x a m"
    "claimable (d\<lparr>db_now := now\<rparr>) (cnd_job c) (cnd_run c)"
    "delegatedParentTerminalTx (cnd_run c) (d\<lparr>db_now := now\<rparr>) = (Inr False, d\<lparr>db_now := now\<rparr>)" and
    cl: "claim_execution (cnd_job c) (cnd_run c) a m x owner (Microseconds lease) (d\<lparr>db_now := now\<rparr>) = (Inr adm, d1)" and
    seal: "sealAgentWorkRequestsForRunTx (run_project_id (adm_run adm)) (run_id (adm_run adm)) d1 = (Inr n, d')"
    using AdmitNextJob_Inr [OF assms] by auto
  have d': "db_leases d' = db_leases d1" "db_jobs d' = db_jobs d1" "db_runs d' = db_runs d1"
    "db_reservations d' = db_reservations d1" "same_config d1 d'" "claimed d' = claimed d1"
    using seal unfolding sealAgentWorkRequestsForRunTx_def by (auto simp: tx_simps same_config_def claimed_def)
  have step: "claim_step (d\<lparr>db_now := now\<rparr>) d' (cnd_job c) (cnd_run c) x a m"
    using claim_execution_step [OF cl] d' unfolding claim_step_def by (auto simp: same_config_def)
  from cl show ?thesis
    by (rule claim_execution_Inr)
      (rule that [OF c(1,2)]; use c step d' in \<open>auto simp: same_claim_def claimable_def job_on_def
        dest!: find_Some_in intro!: matched_row\<close>)
qed

lemma sample_admission:
  obtains adm d' where
    "AdmitNextJob (Some (\<lambda>_. [''n1''])) (\<lambda>_. False) ''srv'' 1000000 1000000 50 sample_queued
       = (Inr (Some adm), d')"
    "job_id (adm_job adm) = ''j1''"
proof -
  have "btrim ''srv'' = ''srv''" by code_simp
  then have "\<exists>adm d'. AdmitNextJob (Some (\<lambda>_. [''n1''])) (\<lambda>_. False) ''srv'' 1000000 1000000 50 sample_queued
    = (Inr (Some adm), d') \<and> job_id (adm_job adm) = ''j1''"
    by (simp add: admission_run sample_eval)
  then show ?thesis using that by blast
qed



text \<open>
  C4. A successful admission claims everything together: the job is CLAIMED and its Run
  STARTING, a lease of the requested owner and length is added for the job, and one
  reservation each for Runner, Agent and Model Profile. No other job becomes claimed.
\<close>

theorem admission_claims_all:
  assumes wf: "keys_wf d"
    and adm: "AdmitNextJob rc locked owner lease backoff now d = (Inr (Some adm), d')"
  shows "set (claimed d') = insert (adm_job adm) (set (claimed d)) \<and>
     adm_run adm \<in> set (db_runs d') \<and> job_on (adm_job adm) (adm_run adm) \<and>
     run_status (adm_run adm) = RUN_STARTING \<and>
     db_leases d' = db_leases d @ [adm_lease adm] \<and> lse_job_id (adm_lease adm) = job_id (adm_job adm) \<and>
     lse_owner_id (adm_lease adm) = owner \<and> lse_expires_at (adm_lease adm) = now + Microseconds lease \<and>
     (\<exists>vs. db_reservations d' = db_reservations d @ vs \<and>
        map (\<lambda>v. (rsv_kind v, rsv_resource_id v)) vs =
          [(RES_RUNNER, adm_runner_id adm), (RES_AGENT, adm_agent_id adm),
           (RES_MODEL_PROFILE, adm_model_profile_id adm)] \<and>
        (\<forall>v\<in>set vs. rsv_job_id v = job_id (adm_job adm) \<and> rsv_run_id v = run_id (adm_run adm)))"
  using adm
proof (rule AdmitNextJob_Some)
  fix c assume c: "claimable (d\<lparr>db_now := now\<rparr>) (cnd_job c) (cnd_run c)"
    and step: "claim_step (d\<lparr>db_now := now\<rparr>) d' (cnd_job c) (cnd_run c) (adm_runner_id adm) (adm_agent_id adm)
       (adm_model_profile_id adm)"
    and l: "db_leases d' = db_leases d @ [adm_lease adm]" "lse_job_id (adm_lease adm) = job_id (cnd_job c)"
      "lse_owner_id (adm_lease adm) = owner" "lse_expires_at (adm_lease adm) = now + Microseconds lease"
    and j: "same_claim (cnd_job c) (adm_job adm)" "adm_job adm \<in> set (claimed d')"
    and r: "job_on (cnd_job c) (adm_run adm)" "adm_run adm \<in> set (db_runs d')" "run_status (adm_run adm) = RUN_STARTING"
  have "keys_wf d'" using claim_keys [OF step] wf by (simp add: keys_wf_def)
  then have only: "j = adm_job adm" if "j \<in> set (claimed d')" "same_claim (cnd_job c) j" for j
    using that j by (auto simp: keys_wf_def same_claim_def intro: distinct_key_eq)
  have "set (claimed d') \<subseteq> insert (adm_job adm) (set (claimed d))"
    using claim_step_claimed [OF step] only by (auto simp: claimed_def)
  moreover have "set (claimed d) \<subseteq> set (claimed d')"
    using claim_step_old(1) [OF step] by (auto simp: claimed_def)
  ultimately have "set (claimed d') = insert (adm_job adm) (set (claimed d))" using j(2) by auto
  moreover have "run_id (cnd_run c) = run_id (adm_run adm)" using c r(1) by (simp add: claimable_def job_on_def)
  ultimately show ?thesis
    using l r j step unfolding claim_step_def by (auto simp: same_claim_def job_on_def)
qed

theorem admission_claims_all_witness:
  "\<exists>adm d'. AdmitNextJob (Some (\<lambda>_. [''n1''])) (\<lambda>_. False) ''srv'' 1000000 1000000 50 sample_queued
       = (Inr (Some adm), d') \<and>
     set (claimed d') = {adm_job adm} \<and> db_leases d' = [adm_lease adm] \<and>
     lse_expires_at (adm_lease adm) = 1050 \<and> length (db_reservations d') = 3"
proof (rule sample_admission)
  fix adm d'
  assume run: "AdmitNextJob (Some (\<lambda>_. [''n1''])) (\<lambda>_. False) ''srv'' 1000000 1000000 50 sample_queued = (Inr (Some adm), d')"
  have "keys_wf sample_queued" using sample_wf by (simp add: sched_wf_def)
  note all = admission_claims_all [OF this run]
  then obtain vs where "db_reservations d' = vs" "map (\<lambda>v. (rsv_kind v, rsv_resource_id v)) vs =
      [(RES_RUNNER, adm_runner_id adm), (RES_AGENT, adm_agent_id adm), (RES_MODEL_PROFILE, adm_model_profile_id adm)]"
    by (auto simp: sample_eval)
  then have "length (db_reservations d') = 3" by (metis length_map list.size(3,4) numeral_3_eq_3 One_nat_def plus_1_eq_Suc Suc_eq_plus1)
  with all run show ?thesis by (auto simp: claimed_def sample_eval Microseconds_def)
qed

lemma capacity_used_clock [simp]: "capacity_used (d\<lparr>db_now := t\<rparr>) k x = capacity_used d k x"
  by (simp add: capacity_used_def)

text \<open>
  C6. An admission takes the last free place at most: before it, the Agent, the Model
  Profile and the Runner it reserves each had fewer reservations than their limit, and no
  other Run of the Workspace had a claimed job or a live Execution Session.
\<close>

theorem admission_within_limits:
  assumes "AdmitNextJob rc locked owner lease backoff now d = (Inr (Some adm), d')"
  shows "(\<exists>a\<in>set (db_agents d). agt_id a = adm_agent_id adm \<and>
        int (capacity_used d RES_AGENT (adm_agent_id adm)) < agt_concurrency_limit a) \<and>
     (\<exists>m\<in>set (db_model_profiles d). mdl_id m = adm_model_profile_id adm \<and>
        (case mdl_max_concurrent m of None \<Rightarrow> True
         | Some n \<Rightarrow> int (capacity_used d RES_MODEL_PROFILE (adm_model_profile_id adm)) < n)) \<and>
     (\<exists>r\<in>set (db_runners d). rnr_id r = adm_runner_id adm \<and>
        capacity_used d RES_RUNNER (adm_runner_id adm) < runner_session_limit r) \<and>
     (\<exists>r\<in>set (db_runs d). run_id r = run_id (adm_run adm) \<and> run_status r = RUN_QUEUED \<and>
        (\<forall>peer\<in>set (db_runs d). \<not> workspace_peer_active d r (run_workspace_id r) peer))"
  using assms
proof (rule AdmitNextJob_Some)
  fix c assume room: "room_for (d\<lparr>db_now := now\<rparr>) (adm_runner_id adm) (adm_agent_id adm) (adm_model_profile_id adm)"
    and c: "claimable (d\<lparr>db_now := now\<rparr>) (cnd_job c) (cnd_run c)" and r: "job_on (cnd_job c) (adm_run adm)"
  have "\<exists>r\<in>set (db_runs d). run_id r = run_id (adm_run adm) \<and> run_status r = RUN_QUEUED \<and>
        (\<forall>peer\<in>set (db_runs d). \<not> workspace_peer_active d r (run_workspace_id r) peer)"
    using c r by (intro bexI [of _ "cnd_run c"]) (auto simp: claimable_def job_on_def workspace_peer_active_def)
  then show ?thesis using room by (simp add: room_for_def cong: option.case_cong)
qed

theorem admission_within_limits_witness:
  "\<exists>adm d'. AdmitNextJob (Some (\<lambda>_. [''n1''])) (\<lambda>_. False) ''srv'' 1000000 1000000 50 sample_queued
       = (Inr (Some adm), d') \<and>
     (\<exists>r\<in>set (db_runs sample_queued). run_id r = run_id (adm_run adm) \<and> run_status r = RUN_QUEUED)"
proof (rule sample_admission)
  fix adm d'
  assume run: "AdmitNextJob (Some (\<lambda>_. [''n1''])) (\<lambda>_. False) ''srv'' 1000000 1000000 50 sample_queued = (Inr (Some adm), d')"
  show ?thesis using admission_within_limits [OF run] run by blast
qed

text \<open>
  Delegated work whose parent Run has ended is never started: the Run of an admitted
  job has no delegation whose parent is COMPLETED, FAILED or CANCELLED.
\<close>

theorem admission_respects_parent:
  assumes "AdmitNextJob rc locked owner lease backoff now d = (Inr (Some adm), d')"
    and "keys_wf d" "distinct (map dlg_delegated_run_id (db_delegations d))"
    and "g \<in> set (db_delegations d)" "dlg_delegated_run_id g = run_id (adm_run adm)"
      "dlg_project_id g = run_project_id (adm_run adm)"
    and "p \<in> set (db_runs d)" "dlg_parent_run_id g = Some (run_id p)"
  shows "\<not> terminal_run (run_status p)"
  using assms(1)
proof (rule AdmitNextJob_Some)
  fix c assume c: "claimable (d\<lparr>db_now := now\<rparr>) (cnd_job c) (cnd_run c)" and r: "job_on (cnd_job c) (adm_run adm)"
    and par: "delegatedParentTerminalTx (cnd_run c) (d\<lparr>db_now := now\<rparr>) = (Inr False, d\<lparr>db_now := now\<rparr>)"
  have same: "run_id (cnd_run c) = run_id (adm_run adm)" "run_project_id (cnd_run c) = run_project_id (adm_run adm)"
    using c r by (auto simp: claimable_def job_on_def)
  have "List.find (\<lambda>g. dlg_project_id g = run_project_id (cnd_run c) \<and> dlg_delegated_run_id g = run_id (cnd_run c))
      (db_delegations d) = Some g"
    by (rule delegations.find_by_key) (use assms same in auto)
  moreover have "q = p" if "List.find (\<lambda>r. run_project_id r = dlg_project_id g \<and> run_id r = run_id p) (db_runs d) = Some q" for q
    using find_Some_in [OF that] assms(2,7) by (auto simp: keys_wf_def intro: distinct_key_eq)
  ultimately show ?thesis
    using par assms(8) unfolding delegatedParentTerminalTx_def delegation_of_run_def find_run_def by (auto simp: tx_simps)
qed

text \<open>The sample with a delegated Run in line and its parent waiting.\<close>

lemma sample_delegated_admission:
  obtains adm d' where
    "AdmitNextJob (Some (\<lambda>_. [''n1''])) (\<lambda>_. False) ''srv'' 1000000 1000000 50 (sample_delegated RUN_PAUSED RUN_QUEUED)
       = (Inr (Some adm), d')"
    "run_id (adm_run adm) = ''r2''" "run_project_id (adm_run adm) = ''p1''"
proof -
  have "btrim ''srv'' = ''srv''" by code_simp
  then have "\<exists>adm d'. AdmitNextJob (Some (\<lambda>_. [''n1''])) (\<lambda>_. False) ''srv'' 1000000 1000000 50
      (sample_delegated RUN_PAUSED RUN_QUEUED) = (Inr (Some adm), d') \<and> run_id (adm_run adm) = ''r2'' \<and>
      run_project_id (adm_run adm) = ''p1''"
    by (simp add: admission_run sample_eval sample_states find_run_def delegation_child_matches_def
        delegation_parent_matches_def terminal_run_def)
  then show ?thesis using that by blast
qed

theorem admission_respects_parent_witness:
  "\<exists>adm d'. AdmitNextJob (Some (\<lambda>_. [''n1''])) (\<lambda>_. False) ''srv'' 1000000 1000000 50
       (sample_delegated RUN_PAUSED RUN_QUEUED) = (Inr (Some adm), d') \<and>
     dlg_delegated_run_id sample_delegation = run_id (adm_run adm) \<and>
     \<not> terminal_run (run_status (sample_run ''r1'' 1 RUN_PAUSED))"
proof (rule sample_delegated_admission)
  fix adm d'
  assume run: "AdmitNextJob (Some (\<lambda>_. [''n1''])) (\<lambda>_. False) ''srv'' 1000000 1000000 50
      (sample_delegated RUN_PAUSED RUN_QUEUED) = (Inr (Some adm), d')"
    and r: "run_id (adm_run adm) = ''r2''" "run_project_id (adm_run adm) = ''p1''"
  have "keys_wf (sample_delegated RUN_PAUSED RUN_QUEUED)" using sample_wf(3) by (simp add: sched_wf_def)
  then have "\<not> terminal_run (run_status (sample_run ''r1'' 1 RUN_PAUSED))"
    by (rule admission_respects_parent [OF run, of sample_delegation])
      (use r in \<open>simp_all add: sample_states sample_eval\<close>)
  then show ?thesis using run r by (auto simp: sample_eval)
qed

text \<open>
  A call that admits nothing acquires nothing: an error leaves the database unchanged,
  and a deferral or the cancellation of an orphaned child adds no claim, lease or
  reservation and leaves none behind without its claim.
\<close>

theorem no_admission_acquires_nothing:
  assumes "sched_wf d" "AdmitNextJob rc locked owner lease backoff now d = (res, d')"
    and "res = Inr None \<or> (\<exists>e. res = Inl e)"
  shows "(if res = Inr None then releasing d d' else d' = d)"
proof (cases "res = Inr None")
  case True
  then show ?thesis using AdmitNextJob_Inr [of rc locked owner lease backoff now d None d'] assms(1,2)
    by (simp add: safe_def)
next
  case False
  then show ?thesis using assms(2,3) unfolding AdmitNextJob_def Let_def
    by (auto split: if_splits dest: run_tx_rollback)
qed

text \<open>With the Workspace in use the queued job is deferred.\<close>

lemma sample_deferral:
  "fst (AdmitNextJob None (\<lambda>_. False) ''srv'' 1000000 1000000 50 sample_queued) = Inr None"
  by (simp add: admission_run sample_eval defer_admission_def deferQueuedJob_def)

theorem no_admission_acquires_nothing_witness:
  "releasing sample_queued (snd (AdmitNextJob None (\<lambda>_. False) ''srv'' 1000000 1000000 50 sample_queued))"
  using no_admission_acquires_nothing [OF sample_wf(1) prod.collapse [symmetric]] sample_deferral by metis

section \<open>Leases\<close>

text \<open>
  A lease is renewed only by its holder and only while it lives: a successful RenewLease
  had an unexpired lease of that job with that token, and nothing but the expiry of this
  lease changes.
\<close>

theorem renewal_is_fenced:
  assumes "RenewLease projectID jobID token dur now d = (Inr lease, d')"
  shows "(\<exists>l\<in>set (db_leases d). lse_job_id l = jobID \<and> lse_token l = token \<and> lse_expires_at l > now \<and>
        lease = l\<lparr>lse_expires_at := now + Microseconds dur\<rparr>) \<and>
     lease \<in> set (db_leases d') \<and>
     (\<forall>l\<in>set (db_leases d). lse_job_id l \<noteq> jobID \<or> lse_token l \<noteq> token \<longrightarrow> l \<in> set (db_leases d')) \<and>
     d' = d\<lparr>db_now := now, db_leases := db_leases d'\<rparr>"
proof -
  obtain x l where l: "List.find (renewable_lease (d\<lparr>db_now := now\<rparr>) projectID jobID token x) (db_leases d) = Some l"
      "lease = l\<lparr>lse_expires_at := now + Microseconds dur\<rparr>"
    and d': "d' = db_leases_update (update_rows (renewable_lease (d\<lparr>db_now := now\<rparr>) projectID jobID token x)
       (\<lambda>l. l\<lparr>lse_expires_at := now + Microseconds dur\<rparr>)) (d\<lparr>db_now := now\<rparr>)"
    using assms unfolding RenewLease_def Let_def by (auto simp: tx_simps split: if_splits)
  have in_l: "l \<in> set (db_leases d)" "renewable_lease (d\<lparr>db_now := now\<rparr>) projectID jobID token x l"
    using find_Some_in [OF l(1)] by auto
  then have "lease \<in> set (db_leases d')" unfolding d' l(2) by (simp add: matched_row)
  moreover have "\<forall>l\<in>set (db_leases d). lse_job_id l \<noteq> jobID \<or> lse_token l \<noteq> token \<longrightarrow> l \<in> set (db_leases d')"
    unfolding d' by (auto simp: renewable_lease_def intro: unmatched_row)
  moreover have "d' = d\<lparr>db_now := now, db_leases := db_leases d'\<rparr>" unfolding d' by (rule db.equality) simp_all
  ultimately show ?thesis using in_l l(2) by (auto simp: renewable_lease_def)
qed

theorem renewal_is_fenced_witness:
  "\<exists>lease d'. RenewLease ''p1'' ''j1'' ''t1'' 5000000 60 sample_claimed = (Inr lease, d') \<and>
     lse_expires_at lease = 5060 \<and> lease \<in> set (db_leases d')"
proof -
  have "\<exists>lease d'. RenewLease ''p1'' ''j1'' ''t1'' 5000000 60 sample_claimed = (Inr lease, d')"
    by (simp add: tx_run RenewLease_def renewable_lease_def lease_live_def job_on_def sample_states sample_eval Microseconds_def)
  then obtain lease d' where run: "RenewLease ''p1'' ''j1'' ''t1'' 5000000 60 sample_claimed = (Inr lease, d')" by blast
  then show ?thesis using renewal_is_fenced [OF run] by (auto simp: Microseconds_def)
qed

text \<open>
  C7. A stale token changes nothing: when the job has no unexpired lease with the presented
  token, RenewLease answers ErrNotFound and the database stays as it was; ReleaseLease does
  the same when no lease of the job has the token.
\<close>

theorem stale_lease_is_rejected:
  assumes "Microseconds dur > 0"
    and "\<forall>l\<in>set (db_leases d). lse_job_id l = jobID \<longrightarrow> lse_token l = token \<longrightarrow> lse_expires_at l \<le> now"
    and "\<forall>l\<in>set (db_leases d). lse_job_id l = jobID \<longrightarrow> lse_token l \<noteq> token'"
  shows "RenewLease projectID jobID token dur now d = (Inl ErrNotFound, d) \<and>
     ReleaseLease projectID jobID token' now' d = (Inl ErrNotFound, d)"
proof
  have "List.find (\<lambda>r. exists_row (\<lambda>j. job_on j r \<and> job_project_id j = projectID \<and> job_id j = jobID \<and>
      exists_row (lease_live (d\<lparr>db_now := now\<rparr>) projectID jobID token) (db_leases d)) (db_jobs d)) (db_runs d) = None"
    using assms(2) by (auto simp: find_None_iff lease_live_def)
  then show "RenewLease projectID jobID token dur now d = (Inl ErrNotFound, d)"
    using assms(1) by (simp add: RenewLease_def Let_def tx_run del: exists_row_iff)
  show "ReleaseLease projectID jobID token' now' d = (Inl ErrNotFound, d)"
    using assms(3) by (auto simp: ReleaseLease_def tx_run filter_empty_conv)
qed

theorem stale_lease_is_rejected_witness:
  "RenewLease ''p1'' ''j1'' ''t1'' 5000000 100 sample_claimed = (Inl ErrNotFound, sample_claimed) \<and>
   ReleaseLease ''p1'' ''j1'' ''t2'' 60 sample_claimed = (Inl ErrNotFound, sample_claimed)"
  by (rule stale_lease_is_rejected) (simp_all add: sample_states sample_eval Microseconds_def)

section \<open>Enqueueing\<close>

text \<open>When the insert of \<open>EnqueueJob\<close> adds no row.\<close>

definition enqueue_skips :: "db \<Rightarrow> job_input \<Rightarrow> string \<Rightarrow> bool" where
  "enqueue_skips d input kind \<longleftrightarrow>
     \<not> (\<exists>r\<in>set (db_runs d). run_project_id r = jin_project_id input \<and> run_id r = jin_run_id input \<and>
         run_configured d r) \<or>
     (kind_of kind \<noteq> None \<and> btrim (jin_idempotency_key input) \<noteq> [] \<and>
      (\<exists>j\<in>set (db_jobs d). job_idempotency_key j = jin_idempotency_key input))"

definition same_queue :: "db \<Rightarrow> db \<Rightarrow> bool" where
  "same_queue d d' \<longleftrightarrow> db_runs d' = db_runs d \<and> db_agents d' = db_agents d \<and>
     db_model_profiles d' = db_model_profiles d"

lemma enqueue_insert_skips:
  assumes "enqueue_skips d input kind"
  shows "\<exists>d'. enqueue_insert input kind t d = (Inr None, d') \<and> db_jobs d' = db_jobs d"
  using assms unfolding enqueue_skips_def enqueue_insert_def
  by (auto simp: tx_run job_check_def new_job_def job_key_conflict_def list_ex_iff split: option.splits)

lemma enqueue_insert_result:
  assumes "enqueue_insert input kind t d = (Inr res, d')"
  shows "same_queue d d'"
    and "case res of
       None \<Rightarrow> enqueue_skips d input kind \<and> db_jobs d' = db_jobs d
     | Some job \<Rightarrow> db_jobs d' = db_jobs d @ [job] \<and> job_idempotency_key job = jin_idempotency_key input \<and>
         job_project_id job = jin_project_id input \<and> job_run_id job = jin_run_id input \<and>
         Some (job_kind job) = kind_of kind \<and> enqueue_skips d' input kind \<and>
         (\<forall>j\<in>set (db_jobs d). job_idempotency_key j \<noteq> jin_idempotency_key input)"
  using assms unfolding enqueue_insert_def same_queue_def enqueue_skips_def
  by (auto simp: tx_simps job_check_def job_key_conflict_def job_unique_def run_configured_def
      split: if_splits option.splits)

text \<open>
  EnqueueJob is idempotent: repeating a successful call, at any time, returns the same
  job and adds no other.
\<close>

theorem enqueue_twice:
  assumes first: "EnqueueJob input wall now d = (Inr job, d')"
  shows "fst (EnqueueJob input wall' now' d') = Inr job \<and>
     db_jobs (snd (EnqueueJob input wall' now' d')) = db_jobs d'"
proof -
  define kind where "kind = (if jin_kind input = [] then ''START'' else jin_kind input)"
  have key: "TrimSpace (jin_idempotency_key input) \<noteq> []"
    using first by (auto simp: EnqueueJob_def split: if_splits)
  from first obtain t res d1 where ins: "enqueue_insert input kind t (d\<lparr>db_now := now\<rparr>) = (Inr res, d1)" and
    rest: "(case res of Some job \<Rightarrow> tx_return job | None \<Rightarrow> enqueue_existing input kind) d1 = (Inr job, d')"
    unfolding EnqueueJob_def Let_def kind_def [symmetric] by (auto simp: tx_simps split: if_splits)
  have facts: "enqueue_skips (d'\<lparr>db_now := now'\<rparr>) input kind \<and>
      List.find (\<lambda>j. job_idempotency_key j = jin_idempotency_key input) (db_jobs d') = Some job \<and>
      job_project_id job = jin_project_id input \<and> job_run_id job = jin_run_id input \<and> Some (job_kind job) = kind_of kind"
  proof (cases res)
    case None
    then show ?thesis using enqueue_insert_result [OF ins] rest
      unfolding enqueue_existing_def
      by (auto simp: tx_simps enqueue_skips_def same_queue_def run_configured_def split: option.splits)
  next
    case (Some j)
    then show ?thesis using enqueue_insert_result [OF ins] rest
      by (auto simp: tx_simps enqueue_skips_def run_configured_def find_snoc)
  qed
  then show ?thesis
    using enqueue_insert_skips [of "d'\<lparr>db_now := now'\<rparr>" input kind
        "if jin_available_at input = zero_time then wall' else jin_available_at input"] key
    unfolding EnqueueJob_def Let_def kind_def [symmetric] enqueue_existing_def
    by (auto simp: tx_run)
qed

lemma sample_enqueue:
  "isl (fst (EnqueueJob \<lparr>jin_project_id = ''p1'', jin_run_id = ''r1'', jin_kind = [], jin_wait_reason = None,
     jin_idempotency_key = ''key'', jin_available_at = 0\<rparr> 70 60 sample_queued)) = False"
proof -
  have "TrimSpace ''key'' = ''key''" "btrim ''key'' = ''key''" by code_simp+
  then show ?thesis
    by (simp add: EnqueueJob_def enqueue_insert_def run_configured_def kind_of_def tx_run sample_eval job_check_def
        job_key_conflict_def job_unique_def new_job_def visible_to_def zero_time_def)
qed

theorem enqueue_twice_witness:
  "\<exists>input job d'. EnqueueJob input 70 60 sample_queued = (Inr job, d') \<and>
     fst (EnqueueJob input 170 160 d') = Inr job \<and> db_jobs (snd (EnqueueJob input 170 160 d')) = db_jobs d'"
proof -
  obtain input job d' where run: "EnqueueJob input 70 60 sample_queued = (Inr job, d')"
    using sample_enqueue by (metis isl_def prod.collapse sum.exhaust_sel)
  then show ?thesis using enqueue_twice [OF run] by blast
qed

end
