(* ===== verification/Scheduler_Transition.thy ===== *)
theory Scheduler_Transition
  imports Scheduler_Admission
begin

text \<open>
  The transition of an admitted Run (store/postgres/scheduler_transition.go and
  interactive_question_terminal.go): the caller presents the lease token of the claimed job;
  the Run moves along the allowed transitions; every status but RUNNING ends the claim and
  releases lease and capacity in the same transaction.
\<close>

section \<open>Transitions\<close>

definition validSchedulerRunTransition :: "run_status \<Rightarrow> run_status \<Rightarrow> bool" where
  "validSchedulerRunTransition from to =
     (if from = to \<and> to = RUN_RUNNING then True
      else case from of
        RUN_STARTING \<Rightarrow> to \<in> {RUN_RUNNING, RUN_WAITING_FOR_INPUT, RUN_PAUSED, RUN_READY_FOR_REVIEW,
                          RUN_COMPLETED, RUN_FAILED, RUN_CANCELLED}
      | RUN_RUNNING \<Rightarrow> to \<in> {RUN_WAITING_FOR_INPUT, RUN_PAUSED, RUN_READY_FOR_REVIEW,
                          RUN_COMPLETED, RUN_FAILED, RUN_CANCELLED}
      | RUN_WAITING_FOR_INPUT \<Rightarrow> to \<in> {RUN_FAILED, RUN_CANCELLED}
      | _ \<Rightarrow> False)"

text \<open>Whether the claim is released, the state of the job, and whether the Run has ended.\<close>

definition schedulerTransitionEffects :: "run_status \<Rightarrow> store_error + bool \<times> job_state \<times> bool" where
  "schedulerTransitionEffects status =
     (case status of
        RUN_RUNNING \<Rightarrow> Inr (False, JOB_CLAIMED, False)
      | RUN_WAITING_FOR_INPUT \<Rightarrow> Inr (True, JOB_DONE, False)
      | RUN_PAUSED \<Rightarrow> Inr (True, JOB_DONE, False)
      | RUN_READY_FOR_REVIEW \<Rightarrow> Inr (True, JOB_DONE, False)
      | RUN_COMPLETED \<Rightarrow> Inr (True, JOB_DONE, True)
      | RUN_FAILED \<Rightarrow> Inr (True, JOB_FAILED, True)
      | RUN_CANCELLED \<Rightarrow> Inr (True, JOB_CANCELLED, True)
      | _ \<Rightarrow> Inl ErrInvalidArgument)"

text \<open>The fence: the Run of a claimed job whose lease is the presented one and not expired.\<close>

definition fence :: "db \<Rightarrow> id \<Rightarrow> id \<Rightarrow> id \<Rightarrow> id \<Rightarrow> bool" where
  "fence d projectID jobID runID leaseToken \<longleftrightarrow>
     exists_row (\<lambda>j. job_project_id j = projectID \<and> job_id j = jobID \<and> job_run_id j = runID \<and>
       job_state j = JOB_CLAIMED) (db_jobs d) \<and>
     exists_row (\<lambda>l. lse_job_id l = jobID \<and> lse_token l = leaseToken \<and> lse_expires_at l > db_now d)
       (db_leases d)"

definition lockFencedRun :: "id \<Rightarrow> id \<Rightarrow> id \<Rightarrow> id \<Rightarrow> (db, run) tx" where
  "lockFencedRun projectID jobID runID leaseToken =
     sql_find db_runs (\<lambda>d r. run_project_id r = projectID \<and> run_id r = runID \<and>
       fence d projectID jobID runID leaseToken)"

section \<open>What a transition does besides the Run\<close>

definition releaseReadyDelegationWorkspaceHandoffs :: "run \<Rightarrow> (db, unit) tx" where
  "releaseReadyDelegationWorkspaceHandoffs parent =
     (let child_of = (\<lambda>d c. run_issue_id c = run_issue_id parent \<and>
            run_workspace_id c = run_workspace_id parent \<and> run_status c = RUN_QUEUED \<and>
            exists_row (\<lambda>g. dlg_project_id g = run_project_id parent \<and>
              dlg_parent_run_id g = Some (run_id parent) \<and> dlg_issue_id g = run_issue_id parent \<and>
              run_project_id c = dlg_project_id g \<and> run_id c = dlg_delegated_run_id g) (db_delegations d))
      in
      tx_bind (sql_update db_jobs db_jobs_update
                 (\<lambda>d j. job_kind j = JOB_START \<and> job_state j = JOB_QUEUED \<and>
                    job_wait_reason j = Some DelegationWorkspaceHandoffReadyReason \<and>
                    exists_row (\<lambda>c. job_on j c \<and> child_of d c) (db_runs d))
                 (\<lambda>d j. j\<lparr>job_wait_reason := None, job_available_at := db_now d,
                           job_updated_at := db_now d\<rparr>)) (\<lambda>_.
      tx_bind (sql_update db_runs db_runs_update
                 (\<lambda>d c. child_of d c \<and> run_queue_reason c = Some DelegationWorkspaceHandoffReadyReason)
                 (\<lambda>d c. c\<lparr>run_queue_reason := None, run_updated_at := db_now d\<rparr>)) (\<lambda>_.
      tx_return ())))"

definition review_unique :: "review \<Rightarrow> review \<Rightarrow> bool" where
  "review_unique a b \<longleftrightarrow> rev_id a = rev_id b \<or> rev_run_id a = rev_run_id b"

definition review_check :: "db \<Rightarrow> review \<Rightarrow> pg_error option" where
  "review_check d v =
     (if exists_row (\<lambda>i. iss_project_id i = rev_project_id v \<and> iss_id i = rev_issue_id v) (db_issues d) \<and>
         exists_row (\<lambda>r. run_project_id r = rev_project_id v \<and> run_id r = rev_run_id v) (db_runs d)
      then None else Some ForeignKeyViolation)"

definition coalesce_text :: "string option \<Rightarrow> string" where
  "coalesce_text v = (case v of None \<Rightarrow> [] | Some s \<Rightarrow> s)"

definition pending_review :: "id \<Rightarrow> run \<Rightarrow> string \<Rightarrow> string \<Rightarrow> time \<Rightarrow> review" where
  "pending_review uid run baseRevision reviewRevision now =
     \<lparr>rev_id = uid, rev_project_id = run_project_id run, rev_issue_id = run_issue_id run,
      rev_run_id = run_id run, rev_status = REV_PENDING, rev_decision_id = None,
      rev_base_revision = Some baseRevision, rev_review_revision = Some reviewRevision,
      rev_requested_at = now, rev_decided_at = None, rev_created_at = now, rev_updated_at = now\<rparr>"

definition review_matches :: "run \<Rightarrow> string \<Rightarrow> string \<Rightarrow> review \<Rightarrow> bool" where
  "review_matches run baseRevision reviewRevision v \<longleftrightarrow>
     rev_project_id v = run_project_id run \<and> rev_issue_id v = run_issue_id run \<and>
     rev_status v = REV_PENDING \<and> coalesce_text (rev_base_revision v) = baseRevision \<and>
     coalesce_text (rev_review_revision v) = reviewRevision"

text \<open>The insert, and for a Run that has a Review already the check that it is this one.\<close>

definition ensure_pending_review :: "run \<Rightarrow> string \<Rightarrow> string \<Rightarrow> (db, unit) tx" where
  "ensure_pending_review run baseRevision reviewRevision =
     tx_bind gen_random_uuid (\<lambda>uid.
     tx_bind (tx_get db_now) (\<lambda>now.
     tx_bind (sql_insert_unless db_reviews db_reviews_update (\<lambda>a b. rev_run_id a = rev_run_id b)
                review_unique review_check PgError
                (pending_review uid run baseRevision reviewRevision now)) (\<lambda>inserted.
     case inserted of
       Some _ \<Rightarrow> tx_return ()
     | None \<Rightarrow>
         tx_bind (sql_find db_reviews (\<lambda>d v. rev_run_id v = run_id run)) (\<lambda>v.
         tx_guard (review_matches run baseRevision reviewRevision v) ErrConflict))))"

definition createPendingReview :: "run \<Rightarrow> (db, unit) tx" where
  "createPendingReview run =
     tx_bind (sql_find db_workspaces (\<lambda>d w. wsp_project_id w = run_project_id run \<and>
                wsp_issue_id w = run_issue_id run \<and> wsp_id w = run_workspace_id run)) (\<lambda>w.
     let baseRevision = TrimSpace (coalesce_text (wsp_base_revision w));
         reviewRevision = TrimSpace (coalesce_text (wsp_current_revision w)) in
     tx_bind (tx_guard (baseRevision \<noteq> [] \<and> reviewRevision \<noteq> []) ErrConflict) (\<lambda>_.
     ensure_pending_review run baseRevision reviewRevision))"

definition cleanupTerminalInteractiveQuestions :: "run \<Rightarrow> (db, unit) tx" where
  "cleanupTerminalInteractiveQuestions run =
     (let open_question = (\<lambda>q. qst_project_id q = run_project_id run \<and> qst_run_id q = run_id run \<and>
            qst_status q = QST_OPEN) in
      tx_bind (tx_get (\<lambda>d. map qst_id (filter open_question (db_questions d)))) (\<lambda>cancelledQuestionIDs.
      tx_bind (sql_update db_questions db_questions_update (\<lambda>d q. open_question q)
                 (\<lambda>d q. q\<lparr>qst_status := QST_CANCELLED\<rparr>)) (\<lambda>_.
      tx_bind (sql_update db_bindings db_bindings_update
                 (\<lambda>d b. bnd_project_id b = run_project_id run \<and> bnd_run_id b = run_id run \<and>
                    (bnd_state b = BND_OPEN \<or> bnd_state b = BND_ANSWERED))
                 (\<lambda>d b. b\<lparr>bnd_state := BND_CANCELLED\<rparr>)) (\<lambda>_.
      tx_bind (tx_map (\<lambda>questionID. appendEventTx (run_event run ''question.cancelled''
                 (JObj [(''questionId'', JStr questionID)]))) cancelledQuestionIDs) (\<lambda>_.
      tx_return ())))))"

section \<open>The transition of an admitted job\<close>

record scheduler_transition =
  trn_project_id :: id
  trn_job_id :: id
  trn_run_id :: id
  trn_lease_token :: id
  trn_run_status :: run_status
  trn_failure_reason :: "string option"

definition set_run_status :: "id \<Rightarrow> id \<Rightarrow> run_status \<Rightarrow> string option \<Rightarrow> bool \<Rightarrow> (db, run) tx" where
  "set_run_status projectID runID status failureReason terminal =
     sql_update_row db_runs db_runs_update
       (\<lambda>d r. run_project_id r = projectID \<and> run_id r = runID)
       (\<lambda>d r. r\<lparr>run_status := status, run_queue_reason := None,
                 run_failure_reason := (if status = RUN_FAILED then failureReason else run_failure_reason r),
                 run_completed_at := (if terminal then Some (db_now d) else run_completed_at r),
                 run_updated_at := db_now d\<rparr>)"

text \<open>The checks between the fence and the first write.\<close>

definition transition_checks :: "scheduler_transition \<Rightarrow> run \<Rightarrow> (db, unit) tx" where
  "transition_checks input current =
     tx_bind (tx_guard (\<not> (trn_run_status input = RUN_FAILED \<and>
                (case trn_failure_reason input of None \<Rightarrow> True | Some s \<Rightarrow> TrimSpace s = [])))
                ErrInvalidArgument) (\<lambda>_.
     tx_bind (tx_when (trn_run_status input \<in> {RUN_READY_FOR_REVIEW, RUN_COMPLETED, RUN_FAILED, RUN_CANCELLED})
                (tx_bind (activeRunExecutionSessionTx (trn_project_id input) (trn_run_id input)) (\<lambda>active.
                 tx_guard (\<not> active) ErrConflict))) (\<lambda>_.
     tx_when (trn_run_status input = RUN_READY_FOR_REVIEW)
       (tx_bind (unfinishedParentDelegationTx current) (\<lambda>unfinished.
        tx_guard (\<not> unfinished) ErrConflict))))"

text \<open>What follows the status change and precedes the release.\<close>

definition transition_followups :: "scheduler_transition \<Rightarrow> run \<Rightarrow> bool \<Rightarrow> run \<Rightarrow> (db, event list) tx" where
  "transition_followups input current terminal run =
     tx_bind (tx_when (terminal \<and> run_status current = RUN_WAITING_FOR_INPUT)
                (cleanupTerminalInteractiveQuestions run)) (\<lambda>_.
     tx_bind (tx_when (trn_run_status input = RUN_READY_FOR_REVIEW) (createPendingReview run)) (\<lambda>_.
     tx_bind (tx_when (trn_run_status input = RUN_PAUSED)
                (releaseReadyDelegationWorkspaceHandoffs run)) (\<lambda>_.
     finalizeDelegatedRunTx run)))"

definition release_claim :: "id \<Rightarrow> id \<Rightarrow> id \<Rightarrow> id \<Rightarrow> job_state \<Rightarrow> (db, unit) tx" where
  "release_claim projectID jobID runID leaseToken state =
     tx_bind (sql_delete db_reservations db_reservations_update
                (\<lambda>d v. rsv_project_id v = projectID \<and> rsv_job_id v = jobID)) (\<lambda>_.
     tx_bind (sql_update db_jobs db_jobs_update
                (\<lambda>d j. job_id j = jobID \<and> job_project_id j = projectID \<and> job_run_id j = runID \<and>
                       job_state j = JOB_CLAIMED)
                (\<lambda>d j. j\<lparr>job_state := state, job_wait_reason := None, job_updated_at := db_now d\<rparr>)) (\<lambda>_.
     tx_bind (sql_delete db_leases db_leases_update
                (\<lambda>d l. lse_job_id l = jobID \<and> lse_token l = leaseToken)) (\<lambda>_.
     tx_return ())))"

definition transition_tx :: "scheduler_transition \<Rightarrow> (db, run \<times> event list) tx" where
  "transition_tx input =
     tx_bind (lockFencedRun (trn_project_id input) (trn_job_id input) (trn_run_id input)
                (trn_lease_token input)) (\<lambda>current.
     tx_bind (tx_guard (validSchedulerRunTransition (run_status current) (trn_run_status input))
                ErrConflict) (\<lambda>_.
     case schedulerTransitionEffects (trn_run_status input) of
       Inl e \<Rightarrow> tx_fail e
     | Inr (release, jobState, terminal) \<Rightarrow>
         tx_bind (transition_checks input current) (\<lambda>_.
         tx_bind (set_run_status (trn_project_id input) (trn_run_id input) (trn_run_status input)
                    (trn_failure_reason input) terminal) (\<lambda>run.
         tx_bind (transition_followups input current terminal run) (\<lambda>delegationEvents.
         tx_bind (tx_when release (release_claim (trn_project_id input) (trn_job_id input)
                    (trn_run_id input) (trn_lease_token input) jobState)) (\<lambda>_.
         tx_return (run, delegationEvents)))))))"

definition transitionAdmittedJob ::
  "scheduler_transition \<Rightarrow> time \<Rightarrow> db \<Rightarrow> (store_error + run \<times> event list) \<times> db" where
  "transitionAdmittedJob input now d =
     (if TrimSpace (trn_project_id input) = [] \<or> TrimSpace (trn_job_id input) = [] \<or>
         TrimSpace (trn_run_id input) = [] \<or> TrimSpace (trn_lease_token input) = []
      then (Inl ErrInvalidArgument, d)
      else run_tx now (transition_tx input) d)"

section \<open>Ownership\<close>

lemma quiet_handoffs [quiet_rules]: "tx_keeps quiet (releaseReadyDelegationWorkspaceHandoffs parent)"
  unfolding releaseReadyDelegationWorkspaceHandoffs_def Let_def
  by (intro quiet_rules quiet_update_jobs quiet_update_runs) (auto simp: same_place_def)

lemma quiet_createPendingReview [quiet_rules]: "tx_keeps quiet (createPendingReview run)"
  unfolding createPendingReview_def ensure_pending_review_def by (intro quiet_rules)

lemma quiet_cleanup [quiet_rules]: "tx_keeps quiet (cleanupTerminalInteractiveQuestions run)"
  unfolding cleanupTerminalInteractiveQuestions_def by (intro quiet_rules)

lemma quiet_followups [quiet_rules]: "tx_keeps quiet (transition_followups input current terminal run)"
  unfolding transition_followups_def by (intro quiet_rules)

lemma quiet_transition_checks [quiet_rules]: "tx_keeps quiet (transition_checks input current)"
  unfolding transition_checks_def by (intro quiet_rules)

text \<open>Releasing the claim of a fenced job settles it.\<close>

lemma release_claim_settles:
  assumes rel: "release_claim p (job_id J) x tok st d = (Inr u, d')" and st: "st \<noteq> JOB_CLAIMED"
    and J: "J \<in> set (claimed d)" "job_project_id J = p" "job_run_id J = x"
    and keys: "keys_wf d"
    and lease: "\<forall>l\<in>set (db_leases d). lse_job_id l = job_id J \<longrightarrow> lse_token l = tok"
    and rsv: "\<forall>v\<in>set (db_reservations d). rsv_job_id v = job_id J \<longrightarrow> rsv_project_id v = p"
  shows "settles d d' J" "db_runs d' = db_runs d"
proof -
  have d': "db_reservations d' = filter (\<lambda>v. \<not> (rsv_project_id v = p \<and> rsv_job_id v = job_id J)) (db_reservations d)"
    "db_jobs d' = update_rows (\<lambda>j. job_id j = job_id J \<and> job_project_id j = p \<and> job_run_id j = x \<and>
        job_state j = JOB_CLAIMED)
      (\<lambda>j. j\<lparr>job_state := st, job_wait_reason := None, job_updated_at := db_now d\<rparr>) (db_jobs d)"
    "db_leases d' = filter (\<lambda>l. \<not> (lse_job_id l = job_id J \<and> lse_token l = tok)) (db_leases d)"
    "db_runs d' = db_runs d" "same_config d d'"
    using rel unfolding release_claim_def by (auto simp: tx_simps same_config_def)
  show "db_runs d' = db_runs d" by (rule d')
  have only: "j = J" if "j \<in> set (db_jobs d)" "job_id j = job_id J" for j
    using that J(1) keys by (auto simp: keys_wf_def intro: distinct_key_eq)
  then have cl: "set (claimed d') = {j \<in> set (claimed d). job_id j \<noteq> job_id J}"
    using st J(2,3) by (auto simp: d'(2) in_update_rows dest: only)
  have "keys_kept d d'"
    by (auto simp: keys_kept_def keys_wf_def d' map_update_rows distinct_map_filter_rows)
  moreover have "\<forall>l\<in>set (db_leases d'). lse_job_id l \<noteq> job_id J" using lease by (auto simp: d')
  moreover have "\<forall>v\<in>set (db_reservations d'). rsv_job_id v \<noteq> job_id J" using rsv by (auto simp: d')
  ultimately show "settles d d' J"
    unfolding settles_def using cl d' same_place_refl by (auto simp del: claimed_iff)
qed

text \<open>What the fence has established.\<close>

lemma lockFencedRun_Inr:
  assumes "lockFencedRun p jid x tok d = (Inr current, d')"
  obtains J l where "d' = d" "current \<in> set (db_runs d)" "run_project_id current = p" "run_id current = x"
    "J \<in> set (claimed d)" "job_id J = jid" "job_project_id J = p" "job_run_id J = x"
    "l \<in> set (db_leases d)" "lse_job_id l = jid" "lse_token l = tok" "lse_expires_at l > db_now d"
  using assms unfolding lockFencedRun_def fence_def
  by (auto simp: tx_simps dest!: find_Some_in)

lemma quiet_set_run_status:
  "executing st \<Longrightarrow> tx_keeps quiet (set_run_status p x st fr t)"
  unfolding set_run_status_def by (rule quiet_update_runs) (auto simp: same_place_def)

text \<open>
  Changing the Run of a claimed job, steps that leave ownership alone, then the release of
  the claim: together they acquire nothing.
\<close>

lemma claim_settled:
  assumes wf: "sched_wf d" and J: "J \<in> set (claimed d)" "job_id J = jid" "job_project_id J = p" "job_run_id J = x"
    and l: "l \<in> set (db_leases d)" "lse_job_id l = jid" "lse_token l = tok"
    and d1: "db_runs d1 = update_rows (\<lambda>r. run_project_id r = p \<and> run_id r = x) f (db_runs d)"
      "\<And>r. run_id (f r) = run_id r"
      "db_jobs d1 = db_jobs d" "db_leases d1 = db_leases d" "db_reservations d1 = db_reservations d"
      "same_config d d1"
    and mid: "quiet d1 d2" and rel: "release_claim p jid x tok st d2 = (Inr u, d3)" "st \<noteq> JOB_CLAIMED"
  shows "settles d d3 J"
proof -
  have keys: "keys_wf d" and own: "ownership_wf d" using wf by (auto simp: sched_wf_def)
  have keys1: "keys_wf d1" using keys d1 by (simp add: keys_wf_def map_update_rows)
  have cl1: "claimed d1 = claimed d" using d1(3) by (simp add: claimed_def)
  have m: "claimed d2 = claimed d" "db_leases d2 = db_leases d" "db_reservations d2 = db_reservations d" "keys_wf d2"
    using mid keys1 cl1 d1 by (auto simp: quiet_def keys_kept_def)
  have "\<forall>l'\<in>set (db_leases d). lse_job_id l' = jid \<longrightarrow> lse_token l' = tok"
    using l keys unfolding keys_wf_def by (metis distinct_key_eq)
  moreover have "\<forall>v\<in>set (db_reservations d). rsv_job_id v = jid \<longrightarrow> rsv_project_id v = p"
  proof (intro ballI impI)
    fix v assume v: "v \<in> set (db_reservations d)" "rsv_job_id v = jid"
    then obtain k where k: "k \<in> set (claimed d)" "job_id k = rsv_job_id v" "job_project_id k = rsv_project_id v"
      using own unfolding ownership_wf_def by metis
    then have "k = J" using J v keys by (auto simp: keys_wf_def intro: distinct_key_eq)
    then show "rsv_project_id v = p" using k J by simp
  qed
  ultimately have "settles d2 d3 J" "db_runs d3 = db_runs d2"
    using release_claim_settles [of p J x tok st d2 u d3] rel J m by auto
  then show ?thesis
    by (intro settles_through [OF keys1 _ d1(1) _ d1(4-6) mid]) (auto simp: job_on_def J cl1)
qed

lemma transition_effects_release:
  "schedulerTransitionEffects st = Inr (release, js, terminal) \<Longrightarrow>
     release \<longleftrightarrow> st \<noteq> RUN_RUNNING" (is "?E \<Longrightarrow> _")
  and transition_effects_job:
  "schedulerTransitionEffects st = Inr (release, js, terminal) \<Longrightarrow> release \<Longrightarrow> js \<noteq> JOB_CLAIMED"
  and transition_effects_terminal:
  "schedulerTransitionEffects st = Inr (release, js, terminal) \<Longrightarrow> terminal \<longleftrightarrow> terminal_run st"
  by (cases st; simp add: schedulerTransitionEffects_def terminal_run_def; fail)+

text \<open>The steps of a successful transition.\<close>

lemma transition_tx_Inr:
  assumes "transition_tx input d = (Inr (run, evs), d')"
  obtains current release js terminal d1 d2 u where
    "lockFencedRun (trn_project_id input) (trn_job_id input) (trn_run_id input) (trn_lease_token input) d
       = (Inr current, d)"
    "validSchedulerRunTransition (run_status current) (trn_run_status input)"
    "schedulerTransitionEffects (trn_run_status input) = Inr (release, js, terminal)"
    "transition_checks input current d = (Inr u, d)"
    "set_run_status (trn_project_id input) (trn_run_id input) (trn_run_status input)
       (trn_failure_reason input) terminal d = (Inr run, d1)"
    "transition_followups input current terminal run d1 = (Inr evs, d2)"
    "tx_when release (release_claim (trn_project_id input) (trn_job_id input)
       (trn_run_id input) (trn_lease_token input) js) d2 = (Inr (), d')"
proof -
  obtain current d0 where fen: "lockFencedRun (trn_project_id input) (trn_job_id input) (trn_run_id input)
      (trn_lease_token input) d = (Inr current, d0)"
    using assms unfolding transition_tx_def tx_bind_Inr by blast
  then have d0: "d0 = d" by (rule lockFencedRun_Inr)
  obtain release js terminal where eff: "schedulerTransitionEffects (trn_run_status input) = Inr (release, js, terminal)"
    using assms unfolding transition_tx_def
    by (cases "schedulerTransitionEffects (trn_run_status input)") (auto simp: tx_simps)
  have checks: "transition_checks input current e = (Inr u, e') \<Longrightarrow> e' = e" for e u e'
    unfolding transition_checks_def activeRunExecutionSessionTx_def unfinishedParentDelegationTx_def
    by (auto simp: tx_simps split: if_splits)
  obtain u dc d1 d2 where
    v: "validSchedulerRunTransition (run_status current) (trn_run_status input)" and
    tc: "transition_checks input current d = (Inr u, dc)" and
    st: "set_run_status (trn_project_id input) (trn_run_id input) (trn_run_status input)
       (trn_failure_reason input) terminal dc = (Inr run, d1)" and
    fol: "transition_followups input current terminal run d1 = (Inr evs, d2)" and
    rel: "tx_when release (release_claim (trn_project_id input) (trn_job_id input)
       (trn_run_id input) (trn_lease_token input) js) d2 = (Inr (), d')"
    using assms fen d0 eff unfolding transition_tx_def
    by (auto simp: tx_bind_Inr tx_guard_Inr tx_return_eq)
  show ?thesis
    by (rule that [OF fen [unfolded d0] v eff tc [unfolded checks [OF tc]]
          st [unfolded checks [OF tc]] fol rel])
qed

text \<open>RUNNING keeps the claim as it is; every other status settles it.\<close>

lemma transition_ownership:
  assumes tx: "transition_tx input d = (Inr (run, evs), d')" and wf: "sched_wf d"
  shows "if trn_run_status input = RUN_RUNNING then quiet d d'
     else \<exists>J\<in>set (claimed d). job_id J = trn_job_id input \<and> settles d d' J"
proof -
  from tx obtain current release js terminal d1 d2 u where
    fen: "lockFencedRun (trn_project_id input) (trn_job_id input) (trn_run_id input) (trn_lease_token input) d
       = (Inr current, d)" and
    eff: "schedulerTransitionEffects (trn_run_status input) = Inr (release, js, terminal)" and
    st: "set_run_status (trn_project_id input) (trn_run_id input) (trn_run_status input)
       (trn_failure_reason input) terminal d = (Inr run, d1)" and
    fol: "transition_followups input current terminal run d1 = (Inr evs, d2)" and
    rel: "tx_when release (release_claim (trn_project_id input) (trn_job_id input)
       (trn_run_id input) (trn_lease_token input) js) d2 = (Inr (), d')"
    by (rule transition_tx_Inr)
  have mid: "quiet d1 d2" using quiet_followups fol by (rule tx_keepsD)
  show ?thesis
  proof (cases release)
    case False
    then have run: "trn_run_status input = RUN_RUNNING" using transition_effects_release [OF eff] by simp
    then have "quiet d d1"
      using st tx_keepsD [OF quiet_set_run_status [OF not_executing(8)]] by metis
    moreover have "d' = d2" using rel False by (simp add: tx_simps)
    ultimately show ?thesis using mid quiet.trans run by auto
  next
    case True
    obtain J l where J: "J \<in> set (claimed d)" "job_id J = trn_job_id input"
        "job_project_id J = trn_project_id input" "job_run_id J = trn_run_id input"
      and l: "l \<in> set (db_leases d)" "lse_job_id l = trn_job_id input" "lse_token l = trn_lease_token input"
      using fen by (rule lockFencedRun_Inr) blast
    obtain f where d1: "db_runs d1 = update_rows (\<lambda>r. run_project_id r = trn_project_id input \<and>
          run_id r = trn_run_id input) f (db_runs d)" "\<And>r. run_id (f r) = run_id r"
        "db_jobs d1 = db_jobs d" "db_leases d1 = db_leases d" "db_reservations d1 = db_reservations d"
        "same_config d d1"
      using st unfolding set_run_status_def by (auto simp: tx_simps same_config_def)
    have "settles d d' J"
      using claim_settled [OF wf J l d1 mid _ transition_effects_job [OF eff True]] rel True
      by (auto simp: tx_simps)
    then show ?thesis using J transition_effects_release [OF eff] True by auto
  qed
qed

lemma transition_safe: "tx_keeps safe (transition_tx input)"
proof (rule tx_keepsI)
  fix d x d' assume tx: "transition_tx input d = (Inr x, d')"
  obtain run evs where x: "x = (run, evs)" by (cases x)
  show "safe d d'" unfolding safe_def
    using transition_ownership [OF tx [unfolded x]] settles_releasing quiet_releasing
    by (auto split: if_splits)
qed

lemma transitionAdmittedJob_safe: "transitionAdmittedJob input now d = (r, d') \<Longrightarrow> safe d d'"
  unfolding transitionAdmittedJob_def
  by (auto split: if_splits intro: safe.refl elim!: safe.keeps_run_tx [rotated] intro!: transition_safe)

section \<open>History\<close>

lemma history_handoffs [history_rules]: "tx_keeps history (releaseReadyDelegationWorkspaceHandoffs parent)"
  unfolding releaseReadyDelegationWorkspaceHandoffs_def Let_def
  by (intro history_rules history_update_runs) (auto simp: terminal_run_def)

lemma history_createPendingReview [history_rules]: "tx_keeps history (createPendingReview run)"
  unfolding createPendingReview_def ensure_pending_review_def by (intro history_rules)

lemma history_cleanup [history_rules]: "tx_keeps history (cleanupTerminalInteractiveQuestions run)"
  unfolding cleanupTerminalInteractiveQuestions_def by (intro history_rules)

lemma history_followups [history_rules]: "tx_keeps history (transition_followups input current terminal run)"
  unfolding transition_followups_def by (intro history_rules)

lemma history_release_claim [history_rules]: "tx_keeps history (release_claim p j x tok st)"
  unfolding release_claim_def by (intro history_rules)

text \<open>A status change of a Run that has not ended.\<close>

lemma history_set_run_status:
  assumes "set_run_status p x st fr t d = (Inr run, d')" "current \<in> set (db_runs d)"
    "run_id current = x" "\<not> terminal_run (run_status current)"
  shows "history d d'"
proof -
  obtain f where d': "db_runs d' = update_rows (\<lambda>r. run_project_id r = p \<and> run_id r = x) f (db_runs d)"
      "db_events d' = db_events d"
    and f: "\<And>r. run_id (f r) = run_id r \<and> run_event_sequence (f r) = run_event_sequence r"
    using assms(1) unfolding set_run_status_def by (auto simp: tx_simps)
  have "r = current" if "event_log_wf d" "r \<in> set (db_runs d)" "run_id r = x" for r
    using that assms(2,3) by (auto simp: event_log_wf_def intro: distinct_key_eq)
  then show ?thesis using assms(4) f by (intro history_runs [OF d']) auto
qed

lemma valid_transition_live: "validSchedulerRunTransition a b \<Longrightarrow> executing a"
  unfolding validSchedulerRunTransition_def executing_def by (cases a) (auto split: if_splits)

lemma executing_not_terminal: "executing s \<Longrightarrow> \<not> terminal_run s"
  by (auto simp: executing_def terminal_run_def)

lemma transition_history: "tx_keeps history (transition_tx input)"
proof (rule tx_keepsI)
  fix d x d' assume "transition_tx input d = (Inr x, d')"
  then obtain run evs where "transition_tx input d = (Inr (run, evs), d')" by (cases x) auto
  then obtain current release js terminal d1 d2 u where
    fen: "lockFencedRun (trn_project_id input) (trn_job_id input) (trn_run_id input) (trn_lease_token input) d
       = (Inr current, d)" and
    ok: "validSchedulerRunTransition (run_status current) (trn_run_status input)" and
    st: "set_run_status (trn_project_id input) (trn_run_id input) (trn_run_status input)
       (trn_failure_reason input) terminal d = (Inr run, d1)" and
    fol: "transition_followups input current terminal run d1 = (Inr evs, d2)" and
    rel: "tx_when release (release_claim (trn_project_id input) (trn_job_id input)
       (trn_run_id input) (trn_lease_token input) js) d2 = (Inr (), d')"
    by (rule transition_tx_Inr)
  have "current \<in> set (db_runs d)" "run_id current = trn_run_id input"
    using fen by (auto elim: lockFencedRun_Inr)
  then have "history d d1"
    using history_set_run_status [OF st] valid_transition_live [OF ok] executing_not_terminal by blast
  moreover have "history d1 d2" using history_followups fol by (rule tx_keepsD)
  moreover have "history d2 d'"
    using rel by (rule tx_keepsD [rotated]) (intro history_rules)
  ultimately show "history d d'" using history.trans by blast
qed

lemma transitionAdmittedJob_history: "transitionAdmittedJob input now d = (r, d') \<Longrightarrow> history d d'"
  unfolding transitionAdmittedJob_def
  by (auto split: if_splits intro: history.refl elim!: history.keeps_run_tx [rotated] intro!: transition_history)

section \<open>Properties\<close>

lemmas transition_run = tx_run transitionAdmittedJob_def transition_tx_def lockFencedRun_def fence_def
  validSchedulerRunTransition_def schedulerTransitionEffects_def transition_checks_def
  activeRunExecutionSessionTx_def unfinishedParentDelegationTx_def set_run_status_def transition_followups_def
  finalizeDelegatedRunTx_def closeAgentWorkRequestsForRunTx_def delegation_of_run_def release_claim_def
  terminal_run_def createPendingReview_def releaseReadyDelegationWorkspaceHandoffs_def

definition sample_transition :: "run_status \<Rightarrow> scheduler_transition" where
  "sample_transition st = \<lparr>trn_project_id = ''p1'', trn_job_id = ''j1'', trn_run_id = ''r1'',
     trn_lease_token = ''t1'', trn_run_status = st, trn_failure_reason = None\<rparr>"

lemma sample_transition_columns [sample_eval]:
  "trn_project_id (sample_transition st) = ''p1''" "trn_job_id (sample_transition st) = ''j1''"
  "trn_run_id (sample_transition st) = ''r1''" "trn_lease_token (sample_transition st) = ''t1''"
  "trn_run_status (sample_transition st) = st" "trn_failure_reason (sample_transition st) = None"
  by (simp_all add: sample_transition_def)

lemma transitionAdmittedJob_Inr:
  "transitionAdmittedJob input now d = (Inr x, d') \<Longrightarrow> transition_tx input (d\<lparr>db_now := now\<rparr>) = (Inr x, d')"
  by (auto simp: transitionAdmittedJob_def tx_simps split: if_splits)

text \<open>The samples complete their Run, and hand it over for review.\<close>

lemma sample_completes:
  obtains run evs d' where "transitionAdmittedJob (sample_transition RUN_COMPLETED) 50 sample_claimed = (Inr (run, evs), d')"
proof -
  have "\<exists>run evs d'. transitionAdmittedJob (sample_transition RUN_COMPLETED) 50 sample_claimed = (Inr (run, evs), d')"
    by (simp add: transition_run sample_states sample_eval)
  then show ?thesis using that by blast
qed

lemma sample_reviews:
  obtains run evs d' where
    "transitionAdmittedJob (sample_transition RUN_READY_FOR_REVIEW) 50 sample_claimed = (Inr (run, evs), d')"
proof -
  have "TrimSpace ''aaa'' = ''aaa''" "TrimSpace ''bbb'' = ''bbb''" by code_simp+
  then have "\<exists>run evs d'. transitionAdmittedJob (sample_transition RUN_READY_FOR_REVIEW) 50 sample_claimed
      = (Inr (run, evs), d')"
    by (simp add: transition_run ensure_pending_review_def pending_review_def coalesce_text_def review_check_def review_unique_def sample_states sample_eval)
  then show ?thesis using that by blast
qed

text \<open>
  C8. A transition is fenced and complete: it succeeds only for the holder of an unexpired
  lease on the claimed job and only along an allowed edge from the Run's status; RUNNING
  keeps claims, leases and reservations as they are, every other status ends the claim of
  this job alone and leaves no lease and no reservation of it.
\<close>

theorem transition_releases:
  assumes wf: "sched_wf d" and ok: "transitionAdmittedJob input now d = (Inr (run, evs), d')"
  shows "fence (d\<lparr>db_now := now\<rparr>) (trn_project_id input) (trn_job_id input) (trn_run_id input) (trn_lease_token input) \<and>
     (\<exists>current\<in>set (db_runs d). run_id current = trn_run_id input \<and>
        validSchedulerRunTransition (run_status current) (trn_run_status input)) \<and>
     run_id run = trn_run_id input \<and> run_status run = trn_run_status input \<and>
     (if trn_run_status input = RUN_RUNNING
      then claimed d' = claimed d \<and> db_leases d' = db_leases d \<and> db_reservations d' = db_reservations d
      else set (claimed d') = {j \<in> set (claimed d). job_id j \<noteq> trn_job_id input} \<and>
        (\<forall>l\<in>set (db_leases d'). lse_job_id l \<noteq> trn_job_id input) \<and>
        (\<forall>v\<in>set (db_reservations d'). rsv_job_id v \<noteq> trn_job_id input))"
proof -
  let ?d = "d\<lparr>db_now := now\<rparr>"
  note tx = transitionAdmittedJob_Inr [OF ok]
  have wf': "sched_wf ?d" using safe.clock wf by (rule safe_wf)
  have same: "claimed ?d = claimed d" by (simp add: claimed_def)
  from tx obtain current release js terminal d1 d2 u where
    fen: "lockFencedRun (trn_project_id input) (trn_job_id input) (trn_run_id input) (trn_lease_token input) ?d
       = (Inr current, ?d)" and
    val: "validSchedulerRunTransition (run_status current) (trn_run_status input)" and
    st: "set_run_status (trn_project_id input) (trn_run_id input) (trn_run_status input)
       (trn_failure_reason input) terminal ?d = (Inr run, d1)"
    by (rule transition_tx_Inr)
  have "run_id run = trn_run_id input \<and> run_status run = trn_run_status input"
    using st unfolding set_run_status_def by (auto simp: tx_simps dest!: find_Some_in)
  moreover have "current \<in> set (db_runs d) \<and> run_id current = trn_run_id input \<and>
      fence ?d (trn_project_id input) (trn_job_id input) (trn_run_id input) (trn_lease_token input)"
    using fen unfolding lockFencedRun_def by (auto simp: tx_simps dest!: find_Some_in)
  ultimately show ?thesis
    using val transition_ownership [OF tx wf'] by (auto simp: quiet_def settles_def same split: if_splits)
qed

theorem transition_releases_witness:
  "\<exists>run evs d'. transitionAdmittedJob (sample_transition RUN_COMPLETED) 50 sample_claimed = (Inr (run, evs), d') \<and>
     run_status run = RUN_COMPLETED \<and> (\<forall>j\<in>set (claimed d'). job_id j \<noteq> ''j1'') \<and>
     (\<forall>l\<in>set (db_leases d'). lse_job_id l \<noteq> ''j1'')"
proof (rule sample_completes)
  fix run evs d' assume ok: "transitionAdmittedJob (sample_transition RUN_COMPLETED) 50 sample_claimed = (Inr (run, evs), d')"
  show ?thesis using transition_releases [OF sample_wf(2) ok] ok by (auto simp: sample_eval)
qed



lemma ensured_review:
  assumes "ensure_pending_review run b r d = (Inr (), d')"
  shows "\<exists>v\<in>set (db_reviews d'). rev_run_id v = run_id run \<and> review_matches run b r v"
proof -
  have new: "rev_run_id (pending_review u run b r t) = run_id run" "review_matches run b r (pending_review u run b r t)" for u t
    by (simp_all add: pending_review_def review_matches_def coalesce_text_def)
  show ?thesis
    using assms unfolding ensure_pending_review_def
    by (auto simp: tx_simps new split: if_splits dest!: find_Some_in) blast
qed

lemma created_review:
  assumes "createPendingReview run d1 = (Inr (), d2)" "db_reviews d' = db_reviews d2" "db_workspaces d1 = db_workspaces d"
  shows "\<exists>v\<in>set (db_reviews d'). \<exists>w\<in>set (db_workspaces d). rev_run_id v = run_id run \<and> rev_status v = REV_PENDING \<and>
       wsp_id w = run_workspace_id run \<and>
       coalesce_text (rev_base_revision v) = TrimSpace (coalesce_text (wsp_base_revision w)) \<and>
       coalesce_text (rev_review_revision v) = TrimSpace (coalesce_text (wsp_current_revision w)) \<and>
       coalesce_text (rev_base_revision v) \<noteq> [] \<and> coalesce_text (rev_review_revision v) \<noteq> []"
proof -
  obtain w where w: "w \<in> set (db_workspaces d)" "wsp_id w = run_workspace_id run"
    and nonblank: "TrimSpace (coalesce_text (wsp_base_revision w)) \<noteq> []" "TrimSpace (coalesce_text (wsp_current_revision w)) \<noteq> []"
    and ens: "ensure_pending_review run (TrimSpace (coalesce_text (wsp_base_revision w)))
      (TrimSpace (coalesce_text (wsp_current_revision w))) d1 = (Inr (), d2)"
    using assms(1,3) unfolding createPendingReview_def Let_def by (auto simp: tx_simps dest!: find_Some_in)
  then show ?thesis using ensured_review [OF ens] assms(2) unfolding review_matches_def by metis
qed

text \<open>
  A Run handed over for review has a pending Review: after a successful transition to
  READY_FOR_REVIEW the Run has a PENDING Review with the base and the current revision of its
  Workspace, both not blank, and no delegation of the Run is unfinished.
\<close>

theorem review_is_created:
  assumes ok: "transitionAdmittedJob input now d = (Inr (run, evs), d')" and st: "trn_run_status input = RUN_READY_FOR_REVIEW"
  shows "(\<exists>v\<in>set (db_reviews d'). \<exists>w\<in>set (db_workspaces d). rev_run_id v = run_id run \<and> rev_status v = REV_PENDING \<and>
       wsp_id w = run_workspace_id run \<and>
       coalesce_text (rev_base_revision v) = TrimSpace (coalesce_text (wsp_base_revision w)) \<and>
       coalesce_text (rev_review_revision v) = TrimSpace (coalesce_text (wsp_current_revision w)) \<and>
       coalesce_text (rev_base_revision v) \<noteq> [] \<and> coalesce_text (rev_review_revision v) \<noteq> []) \<and>
     (\<exists>current\<in>set (db_runs d). run_id current = trn_run_id input \<and>
       \<not> (\<exists>g\<in>set (db_delegations d). dlg_project_id g = run_project_id current \<and>
           dlg_parent_run_id g = Some (run_id current) \<and> dlg_issue_id g = run_issue_id current \<and> dlg_outcome g = None))"
proof -
  let ?d = "d\<lparr>db_now := now\<rparr>"
  from transitionAdmittedJob_Inr [OF ok] obtain current release js terminal d1 d2 u where
    fen: "lockFencedRun (trn_project_id input) (trn_job_id input) (trn_run_id input) (trn_lease_token input) ?d
       = (Inr current, ?d)" and
    eff: "schedulerTransitionEffects (trn_run_status input) = Inr (release, js, terminal)" and
    chk: "transition_checks input current ?d = (Inr u, ?d)" and
    set: "set_run_status (trn_project_id input) (trn_run_id input) (trn_run_status input)
       (trn_failure_reason input) terminal ?d = (Inr run, d1)" and
    fol: "transition_followups input current terminal run d1 = (Inr evs, d2)" and
    rel: "tx_when release (release_claim (trn_project_id input) (trn_job_id input)
       (trn_run_id input) (trn_lease_token input) js) d2 = (Inr (), d')"
    by (rule transition_tx_Inr)
  have ws: "db_workspaces d1 = db_workspaces d" "run_status run = RUN_READY_FOR_REVIEW"
    using set st unfolding set_run_status_def by (auto simp: tx_simps)
  have "terminal = False" using eff st by (simp add: schedulerTransitionEffects_def)
  then have "createPendingReview run d1 = (Inr (), d2)"
    using fol st ws(2) unfolding transition_followups_def finalizeDelegatedRunTx_def
    by (auto simp: tx_simps terminal_run_def)
  moreover have "db_reviews d' = db_reviews d2"
    using rel unfolding release_claim_def by (auto simp: tx_simps split: if_splits)
  ultimately have "\<exists>v\<in>set (db_reviews d'). \<exists>w\<in>set (db_workspaces d). rev_run_id v = run_id run \<and> rev_status v = REV_PENDING \<and>
       wsp_id w = run_workspace_id run \<and>
       coalesce_text (rev_base_revision v) = TrimSpace (coalesce_text (wsp_base_revision w)) \<and>
       coalesce_text (rev_review_revision v) = TrimSpace (coalesce_text (wsp_current_revision w)) \<and>
       coalesce_text (rev_base_revision v) \<noteq> [] \<and> coalesce_text (rev_review_revision v) \<noteq> []"
    using ws(1) by (rule created_review)
  moreover have "current \<in> set (db_runs d) \<and> run_id current = trn_run_id input"
    using fen unfolding lockFencedRun_def by (auto simp: tx_simps dest!: find_Some_in)
  moreover have "\<not> (\<exists>g\<in>set (db_delegations d). dlg_project_id g = run_project_id current \<and>
      dlg_parent_run_id g = Some (run_id current) \<and> dlg_issue_id g = run_issue_id current \<and> dlg_outcome g = None)"
    using chk st unfolding transition_checks_def unfinishedParentDelegationTx_def by (auto simp: tx_simps)
  ultimately show ?thesis by blast
qed

theorem review_is_created_witness:
  "\<exists>run evs d'. transitionAdmittedJob (sample_transition RUN_READY_FOR_REVIEW) 50 sample_claimed = (Inr (run, evs), d') \<and>
     (\<exists>v\<in>set (db_reviews d'). rev_run_id v = run_id run \<and> rev_status v = REV_PENDING)"
proof (rule sample_reviews)
  fix run evs d'
  assume ok: "transitionAdmittedJob (sample_transition RUN_READY_FOR_REVIEW) 50 sample_claimed = (Inr (run, evs), d')"
  show ?thesis using review_is_created [OF ok] ok by (auto simp: sample_eval)
qed

text \<open>
  A Run that ends settles the work around it: after a successful transition to COMPLETED,
  FAILED or CANCELLED every work request of the Run is closed and the delegation that created
  the Run, if there is one, has its outcome.
\<close>

theorem end_of_run_settles_work:
  assumes ok: "transitionAdmittedJob input now d = (Inr (run, evs), d')" and st: "terminal_run (trn_run_status input)"
  shows "(\<forall>w\<in>set (db_work_requests d'). wrq_project_id w = run_project_id run \<longrightarrow>
       wrq_run_id w = Some (run_id run) \<longrightarrow> wrq_closed_at w \<noteq> None) \<and>
     (case delegation_for d' run of None \<Rightarrow> True | Some g \<Rightarrow> dlg_outcome g \<noteq> None)"
proof -
  let ?d = "d\<lparr>db_now := now\<rparr>"
  from transitionAdmittedJob_Inr [OF ok] obtain current release js terminal d1 d2 u where
    set: "set_run_status (trn_project_id input) (trn_run_id input) (trn_run_status input)
       (trn_failure_reason input) terminal ?d = (Inr run, d1)" and
    fol: "transition_followups input current terminal run d1 = (Inr evs, d2)" and
    rel: "tx_when release (release_claim (trn_project_id input) (trn_job_id input)
       (trn_run_id input) (trn_lease_token input) js) d2 = (Inr (), d')"
    by (rule transition_tx_Inr)
  have run: "terminal_run (run_status run)" using set st unfolding set_run_status_def by (auto simp: tx_simps)
  obtain d3 where fin: "finalizeDelegatedRunTx run d3 = (Inr evs, d2)"
    using fol unfolding transition_followups_def by (auto simp: tx_simps)
  have "same_lineage d2 d'"
    using rel unfolding release_claim_def by (auto simp: tx_simps same_lineage_def split: if_splits)
  then have "delegation_for d' run = delegation_for d2 run" "db_work_requests d' = db_work_requests d2"
    by (rule delegation_for_cong, simp add: same_lineage_def)
  then show ?thesis using finalizeDelegatedRunTx_terminal [OF fin run] by simp
qed

theorem end_of_run_settles_work_witness:
  "\<exists>run evs d'. transitionAdmittedJob (sample_transition RUN_COMPLETED) 50 sample_claimed = (Inr (run, evs), d') \<and>
     terminal_run RUN_COMPLETED \<and>
     (\<forall>w\<in>set (db_work_requests d'). wrq_project_id w = run_project_id run \<longrightarrow>
       wrq_run_id w = Some (run_id run) \<longrightarrow> wrq_closed_at w \<noteq> None)"
proof (rule sample_completes)
  fix run evs d' assume ok: "transitionAdmittedJob (sample_transition RUN_COMPLETED) 50 sample_claimed = (Inr (run, evs), d')"
  have t: "terminal_run RUN_COMPLETED" by (simp add: terminal_run_def)
  show ?thesis using end_of_run_settles_work [OF ok] t ok by (auto simp: sample_eval)
qed

end
