(* ===== verification/Questions.thy ===== *)
theory Questions
  imports Scheduler_Transition
begin

text \<open>
  Questions an Agent asks during a Run (store/postgres/questions.go, interactive_questions.go
  and interactive_question_recovery.go): opening the Questions of a native Engine request as
  one batch, answering one, and resolving the binding when the Engine has taken the answer.
  An answer either reaches the live Engine, which keeps its claim, or queues the Run again.
\<close>

section \<open>JSON as the code reads and writes it\<close>

text \<open>
  \<open>json.Unmarshal\<close> into \<open>[]QuestionOption\<close>: the pairs of id and label. A JSON null is no
  options; keys match up to ASCII case, a null leaves a field empty, any other value that is
  not a string is an error.
\<close>

definition ascii_lower :: "char \<Rightarrow> char" where
  "ascii_lower c = (let n = byte c in if 65 \<le> n \<and> n \<le> 90 then char_of (n + 32) else c)"

definition key_matches :: "string \<Rightarrow> string \<Rightarrow> bool" where
  "key_matches k name \<longleftrightarrow> map ascii_lower k = name"

fun decode_option_fields :: "(string \<times> json) list \<Rightarrow> string \<times> string \<Rightarrow> (string \<times> string) option" where
  "decode_option_fields [] acc = Some acc"
| "decode_option_fields ((k, v) # fs) (i, l) =
     (if key_matches k ''id'' then
        (case v of JStr s \<Rightarrow> decode_option_fields fs (s, l)
         | JNull \<Rightarrow> decode_option_fields fs (i, l) | _ \<Rightarrow> None)
      else if key_matches k ''label'' then
        (case v of JStr s \<Rightarrow> decode_option_fields fs (i, s)
         | JNull \<Rightarrow> decode_option_fields fs (i, l) | _ \<Rightarrow> None)
      else decode_option_fields fs (i, l))"

fun decode_option :: "json \<Rightarrow> (string \<times> string) option" where
  "decode_option JNull = Some ('''', '''')"
| "decode_option (JObj fs) = decode_option_fields fs ('''', '''')"
| "decode_option _ = None"

fun decode_option_list :: "json list \<Rightarrow> (string \<times> string) list option" where
  "decode_option_list [] = Some []"
| "decode_option_list (j # js) =
     (case decode_option j of
        None \<Rightarrow> None
      | Some x \<Rightarrow> (case decode_option_list js of None \<Rightarrow> None | Some xs \<Rightarrow> Some (x # xs)))"

fun decode_options :: "json \<Rightarrow> (string \<times> string) list option" where
  "decode_options JNull = Some []"
| "decode_options (JArr js) = decode_option_list js"
| "decode_options _ = None"

text \<open>\<open>json.Marshal\<close> of a list of strings.\<close>

definition hex_digit :: "nat \<Rightarrow> char" where
  "hex_digit n = (if n < 10 then char_of (48 + n) else char_of (87 + n))"

definition unicode_escape :: "nat \<Rightarrow> string" where
  "unicode_escape r = [CHR 0x5C, CHR ''u'', hex_digit (r div 4096 mod 16), hex_digit (r div 256 mod 16),
     hex_digit (r div 16 mod 16), hex_digit (r mod 16)]"

definition quote_rune :: "nat \<times> nat \<Rightarrow> string" where
  "quote_rune rw = (case rw of (r, w) \<Rightarrow>
     if r = 0xFFFD \<and> w = 1 then unicode_escape 0xFFFD
     else if r = 34 then [CHR 0x5C, CHR 0x22]
     else if r = 92 then [CHR 0x5C, CHR 0x5C]
     else if r = 8 then [CHR 0x5C, CHR ''b''] else if r = 12 then [CHR 0x5C, CHR ''f''] else if r = 10 then [CHR 0x5C, CHR ''n'']
     else if r = 13 then [CHR 0x5C, CHR ''r''] else if r = 9 then [CHR 0x5C, CHR ''t'']
     else if r < 32 \<or> r = 60 \<or> r = 62 \<or> r = 38 \<or> r = 0x2028 \<or> r = 0x2029 then unicode_escape r
     else encode_rune r)"

function quote_text :: "string \<Rightarrow> string" where
  "quote_text s =
     (if s = [] then [] else quote_rune (decode_rune s) @ quote_text (drop (snd (decode_rune s)) s))"
  by pat_completeness auto
termination
proof (relation "measure length", simp)
  fix s :: string assume "s \<noteq> []"
  then obtain c t where "s = c # t" by (cases s) auto
  then show "(drop (snd (decode_rune s)) s, s) \<in> measure length"
    using decode_rune_width [of c t] by simp
qed

declare quote_text.simps [simp del]

fun join_comma :: "string list \<Rightarrow> string" where
  "join_comma [] = []"
| "join_comma [x] = x"
| "join_comma (x # y # ys) = x @ '','' @ join_comma (y # ys)"

definition marshal_strings :: "string list \<Rightarrow> string" where
  "marshal_strings xs =
     (if xs = [] then ''null''
      else ''['' @ join_comma (map (\<lambda>x. [CHR 0x22] @ quote_text x @ [CHR 0x22]) xs) @ '']'')"

section \<open>Answers\<close>

record question_answer =
  ans_kind :: string
  ans_text :: "string option"
  ans_option_ids :: "string list"

definition validateQuestionAnswer :: "question \<Rightarrow> question_answer \<Rightarrow> bool" where
  "validateQuestionAnswer q a =
     (if ans_kind a \<noteq> qst_kind q then False
      else if qst_kind q = ''TEXT'' then
        (case ans_text a of None \<Rightarrow> False | Some t \<Rightarrow> TrimSpace t \<noteq> [] \<and> ans_option_ids a = [])
      else if qst_kind q = ''SINGLE_CHOICE'' \<or> qst_kind q = ''MULTI_CHOICE'' then
        (case ans_text a of
           Some t \<Rightarrow> qst_custom q \<and> TrimSpace t \<noteq> [] \<and> ans_option_ids a = []
         | None \<Rightarrow>
             ans_option_ids a \<noteq> [] \<and>
             (qst_kind q = ''SINGLE_CHOICE'' \<longrightarrow> length (ans_option_ids a) = 1) \<and>
             (case decode_options (qst_options q) of
                None \<Rightarrow> False
              | Some options \<Rightarrow> list_all (\<lambda>x. x \<in> set (map fst options)) (ans_option_ids a) \<and>
                                distinct (ans_option_ids a)))
      else False)"

definition questionAnswerOutcome :: "question_answer \<Rightarrow> string" where
  "questionAnswerOutcome a =
     (case ans_text a of Some t \<Rightarrow> t | None \<Rightarrow> marshal_strings (ans_option_ids a))"

definition answer_json :: "question_answer \<Rightarrow> json" where
  "answer_json a = JObj ([(''kind'', JStr (ans_kind a))] @
     (if ans_option_ids a = [] then [] else [(''optionIds'', JArr (map JStr (ans_option_ids a)))]) @
     (case ans_text a of None \<Rightarrow> [] | Some t \<Rightarrow> [(''text'', JStr t)]))"

definition actor_type_of :: "string \<Rightarrow> actor_type option" where
  "actor_type_of s = (if s = ''HUMAN'' then Some ACT_HUMAN else if s = ''SYSTEM'' then Some ACT_SYSTEM
     else if s = ''AGENT'' then Some ACT_AGENT else None)"

record answer_command =
  anc_project_id :: id
  anc_question_id :: id
  anc_answer :: question_answer
  anc_actor_type :: string
  anc_actor_id :: "string option"

section \<open>Claims of a waiting Run\<close>

definition hasLiveClaim :: "id \<Rightarrow> id \<Rightarrow> (db, bool) tx" where
  "hasLiveClaim projectID runID =
     sql_exists db_jobs (\<lambda>d j. job_project_id j = projectID \<and> job_run_id j = runID \<and>
       job_state j = JOB_CLAIMED \<and>
       exists_row (\<lambda>l. lse_job_id l = job_id j \<and> lse_expires_at l > db_now d) (db_leases d))"

definition finish_claimed_job :: "id \<Rightarrow> id \<Rightarrow> id \<Rightarrow> job_state \<Rightarrow> string option \<Rightarrow> (db, nat) tx" where
  "finish_claimed_job projectID jobID runID state reason =
     sql_update db_jobs db_jobs_update
       (\<lambda>d j. job_project_id j = projectID \<and> job_id j = jobID \<and> job_run_id j = runID \<and>
              job_state j = JOB_CLAIMED)
       (\<lambda>d j. j\<lparr>job_state := state, job_wait_reason := reason, job_updated_at := db_now d\<rparr>)"

definition retire_claim :: "id \<Rightarrow> id \<Rightarrow> id \<Rightarrow> (db, unit) tx" where
  "retire_claim projectID runID jobID =
     tx_bind (finish_claimed_job projectID jobID runID JOB_DONE None) (\<lambda>n.
     tx_bind (tx_guard (n = 1) ErrConflict) (\<lambda>_.
     tx_bind (sql_delete db_reservations db_reservations_update
                (\<lambda>d v. rsv_project_id v = projectID \<and> rsv_job_id v = jobID)) (\<lambda>_.
     tx_bind (sql_delete db_leases db_leases_update (\<lambda>d l. lse_job_id l = jobID)) (\<lambda>_.
     tx_return ()))))"

definition expired_claims :: "db \<Rightarrow> id \<Rightarrow> id \<Rightarrow> job list" where
  "expired_claims d projectID runID =
     filter (\<lambda>j. job_project_id j = projectID \<and> job_run_id j = runID \<and> job_state j = JOB_CLAIMED \<and>
       (\<not> exists_row (\<lambda>l. lse_job_id l = job_id j) (db_leases d) \<or>
        exists_row (\<lambda>l. lse_job_id l = job_id j \<and> lse_expires_at l \<le> db_now d) (db_leases d)))
       (db_jobs d)"

definition retireExpiredInteractiveClaims :: "id \<Rightarrow> id \<Rightarrow> (db, unit) tx" where
  "retireExpiredInteractiveClaims projectID runID =
     tx_bind (tx_get (\<lambda>d. map job_id (expired_claims d projectID runID))) (\<lambda>jobIDs.
     tx_bind (tx_map (retire_claim projectID runID) jobIDs) (\<lambda>_. tx_return ()))"

definition requeue_waiting_run :: "id \<Rightarrow> id \<Rightarrow> (db, run) tx" where
  "requeue_waiting_run projectID runID =
     sql_update_row db_runs db_runs_update
       (\<lambda>d r. run_project_id r = projectID \<and> run_id r = runID \<and> run_status r = RUN_WAITING_FOR_INPUT)
       (\<lambda>d r. r\<lparr>run_status := RUN_QUEUED, run_queue_reason := None, run_failure_reason := None,
                 run_completed_at := None, run_updated_at := db_now d\<rparr>)"

definition queueBlockingQuestionResume :: "question \<Rightarrow> (db, run \<times> job) tx" where
  "queueBlockingQuestionResume q =
     tx_bind (requeue_waiting_run (qst_project_id q) (qst_run_id q)) (\<lambda>run.
     tx_bind gen_random_uuid (\<lambda>uid.
     tx_bind (tx_get db_now) (\<lambda>now.
     tx_bind (sql_insert db_jobs db_jobs_update job_unique job_check notFound
                (new_job uid (qst_project_id q) (qst_run_id q) JOB_RESUME None
                   (''question:'' @ qst_id q @ '':resume'') now now)) (\<lambda>job.
     tx_return (run, job)))))"

section \<open>Answering\<close>

definition find_question :: "id \<Rightarrow> id \<Rightarrow> (db, question) tx" where
  "find_question projectID questionID =
     sql_find db_questions (\<lambda>d q. qst_project_id q = projectID \<and> qst_id q = questionID)"

definition binding_of_question :: "question \<Rightarrow> (db, binding option) tx" where
  "binding_of_question q = tx_get (\<lambda>d. List.find (\<lambda>b. bnd_project_id b = qst_project_id q \<and>
     bnd_question_id b = qst_id q) (db_bindings d))"

text \<open>
  What a blocking Question asks of its Run, answering whether a live Engine holds the claim:
  an interactive Question keeps a live claim and retires expired ones, a plain Question
  needs a Run without active jobs.
\<close>

definition answer_claim_check :: "question \<Rightarrow> bool \<Rightarrow> run \<Rightarrow> (db, bool) tx" where
  "answer_claim_check q interactive run =
     (if \<not> qst_blocking q then tx_return False
      else
        tx_bind (tx_guard (run_status run = RUN_WAITING_FOR_INPUT) ErrConflict) (\<lambda>_.
        if interactive then
          tx_bind (hasLiveClaim (qst_project_id q) (qst_run_id q)) (\<lambda>live.
          tx_bind (tx_when (\<not> live) (retireExpiredInteractiveClaims (qst_project_id q) (qst_run_id q))) (\<lambda>_.
          tx_return live))
        else
          tx_bind (sql_exists db_jobs (\<lambda>d j. job_project_id j = qst_project_id q \<and>
                     job_run_id j = qst_run_id q \<and>
                     (job_state j = JOB_QUEUED \<or> job_state j = JOB_CLAIMED))) (\<lambda>activeJob.
          tx_bind (tx_guard (\<not> activeJob) ErrConflict) (\<lambda>_.
          tx_return False))))"

definition decision_check :: "db \<Rightarrow> decision \<Rightarrow> pg_error option" where
  "decision_check d c =
     (if btrim (dcs_kind c) = [] \<or> btrim (dcs_outcome c) = [] \<or> \<not> is_object (dcs_safe_details c)
      then Some CheckViolation
      else if exists_row (\<lambda>p. prj_id p = dcs_project_id c) (db_projects d) \<and>
         (case dcs_issue_id c of None \<Rightarrow> True
          | Some i \<Rightarrow> exists_row (\<lambda>x. iss_project_id x = dcs_project_id c \<and> iss_id x = i) (db_issues d)) \<and>
         (case dcs_run_id c of None \<Rightarrow> True
          | Some r \<Rightarrow> exists_row (\<lambda>x. run_project_id x = dcs_project_id c \<and> run_id x = r) (db_runs d)) \<and>
         (case dcs_question_id c of None \<Rightarrow> True | Some q \<Rightarrow> exists_row (\<lambda>x. qst_id x = q) (db_questions d))
      then None else Some ForeignKeyViolation)"

definition decision_unique :: "decision \<Rightarrow> decision \<Rightarrow> bool" where
  "decision_unique a b \<longleftrightarrow> dcs_id a = dcs_id b"

definition mark_answered :: "question \<Rightarrow> (db, question) tx" where
  "mark_answered q =
     sql_update_row db_questions db_questions_update
       (\<lambda>d x. qst_project_id x = qst_project_id q \<and> qst_id x = qst_id q \<and> qst_status x = QST_OPEN)
       (\<lambda>d x. x\<lparr>qst_status := QST_ANSWERED, qst_answered_at := Some (db_now d)\<rparr>)"

definition record_answer_decision :: "answer_command \<Rightarrow> question \<Rightarrow> (db, decision) tx" where
  "record_answer_decision input q =
     tx_bind gen_random_uuid (\<lambda>uid.
     tx_bind (tx_get db_now) (\<lambda>now.
     sql_insert db_decisions db_decisions_update decision_unique decision_check notFound
       \<lparr>dcs_id = uid, dcs_project_id = qst_project_id q, dcs_issue_id = Some (qst_issue_id q),
        dcs_run_id = Some (qst_run_id q), dcs_question_id = Some (qst_id q),
        dcs_kind = ''QUESTION_ANSWER'', dcs_outcome = questionAnswerOutcome (anc_answer input),
        dcs_actor_type = ACT_HUMAN, dcs_actor_id = anc_actor_id input,
        dcs_safe_details = JObj [(''questionAnswer'', answer_json (anc_answer input))],
        dcs_created_at = now\<rparr>))"

definition question_event :: "question \<Rightarrow> run \<Rightarrow> string \<Rightarrow> json \<Rightarrow> event" where
  "question_event q run ty payload = zero_event\<lparr>evt_type := ty, evt_project_id := qst_project_id q,
     evt_issue_id := Some (qst_issue_id q), evt_run_id := Some (qst_run_id q),
     evt_agent_id := run_agent_id run, evt_workspace_id := Some (run_workspace_id run),
     evt_actor := EmptyObject, evt_payload := payload\<rparr>"

definition append_answer_events :: "answer_command \<Rightarrow> question \<Rightarrow> run \<Rightarrow> decision \<Rightarrow> (db, event list) tx" where
  "append_answer_events input q run c =
     tx_bind (appendEventTx (question_event q run ''question.answered''
       (JObj [(''actorId'', json_option JStr (anc_actor_id input)), (''actorType'', JStr (anc_actor_type input)),
              (''answer'', answer_json (anc_answer input)), (''questionId'', JStr (qst_id q))]))) (\<lambda>answered.
     tx_bind (appendEventTx (question_event q run ''decision.recorded''
       (JObj [(''actorId'', json_option JStr (dcs_actor_id c)), (''actorType'', JStr ''HUMAN''),
              (''decisionId'', JStr (dcs_id c)), (''kind'', JStr (dcs_kind c)),
              (''outcome'', JStr (dcs_outcome c)), (''questionId'', JStr (qst_id q))]))) (\<lambda>recorded.
     tx_return [answered, recorded]))"

definition set_binding_state :: "question \<Rightarrow> binding_state \<Rightarrow> binding_state \<Rightarrow> (db, binding) tx" where
  "set_binding_state q from to =
     sql_update_row db_bindings db_bindings_update
       (\<lambda>d b. bnd_project_id b = qst_project_id q \<and> bnd_question_id b = qst_id q \<and> bnd_state b = from)
       (\<lambda>d b. b\<lparr>bnd_state := to\<rparr>)"

text \<open>Whether the answer queues the Run again: only after the last open Question of the Run.\<close>

definition answer_queues_resume :: "question \<Rightarrow> bool \<Rightarrow> bool \<Rightarrow> (db, bool) tx" where
  "answer_queues_resume q interactive live =
     (let queueResume = (qst_blocking q \<and> (\<not> interactive \<or> \<not> live)) in
      if queueResume \<and> interactive then
        tx_bind (sql_exists db_bindings (\<lambda>d b. bnd_project_id b = qst_project_id q \<and>
                   bnd_run_id b = qst_run_id q \<and> bnd_state b = BND_OPEN)) (\<lambda>pending.
        tx_return (\<not> pending))
      else tx_return queueResume)"

record answer_result =
  anr_question :: question
  anr_decision :: decision
  anr_run :: run
  anr_job :: "job option"
  anr_events :: "event list"

text \<open>The Question to answer, whether it is bound to an Engine request, and its Run.\<close>

definition answer_target :: "answer_command \<Rightarrow> (db, question \<times> bool \<times> run) tx" where
  "answer_target input =
     tx_bind (find_question (anc_project_id input) (anc_question_id input)) (\<lambda>initial.
     tx_bind (sql_find db_runs (\<lambda>d r. run_project_id r = qst_project_id initial \<and>
                run_id r = qst_run_id initial \<and> run_issue_id r = qst_issue_id initial)) (\<lambda>run.
     tx_bind (find_question (anc_project_id input) (anc_question_id input)) (\<lambda>q.
     tx_bind (tx_guard (qst_run_id q = qst_run_id initial \<and> qst_issue_id q = qst_issue_id initial) ErrConflict) (\<lambda>_.
     tx_bind (tx_guard (qst_status q = QST_OPEN) ErrConflict) (\<lambda>_.
     tx_bind (tx_guard (validateQuestionAnswer q (anc_answer input)) ErrInvalidArgument) (\<lambda>_.
     tx_bind (binding_of_question q) (\<lambda>binding.
     tx_bind (tx_guard (case binding of None \<Rightarrow> True | Some b \<Rightarrow> bnd_state b = BND_OPEN) ErrConflict) (\<lambda>_.
     tx_return (q, binding \<noteq> None, run)))))))))"

text \<open>The writes of an answer, up to the decision whether to queue the Run again.\<close>

definition record_answer :: "answer_command \<Rightarrow> question \<Rightarrow> bool \<Rightarrow> run \<Rightarrow>
   (db, question \<times> decision \<times> event list) tx" where
  "record_answer input q interactive run =
     tx_bind (mark_answered q) (\<lambda>q.
     tx_bind (record_answer_decision input q) (\<lambda>c.
     tx_bind (append_answer_events input q run c) (\<lambda>events.
     tx_bind (if interactive then tx_bind (set_binding_state q BND_OPEN BND_ANSWERED) (\<lambda>_. tx_return ())
              else tx_return ()) (\<lambda>_.
     tx_return (q, c, events)))))"

definition answer_tx :: "answer_command \<Rightarrow> (db, answer_result) tx" where
  "answer_tx input =
     tx_bind (answer_target input) (\<lambda>(q, interactive, run).
     tx_bind (answer_claim_check q interactive run) (\<lambda>live.
     tx_bind (record_answer input q interactive run) (\<lambda>(q, c, events).
     tx_bind (answer_queues_resume q interactive live) (\<lambda>queueResume.
     if queueResume then
       tx_bind (queueBlockingQuestionResume q) (\<lambda>(resumed, job).
       tx_return \<lparr>anr_question = q, anr_decision = c, anr_run = resumed, anr_job = Some job,
                  anr_events = events\<rparr>)
     else tx_return \<lparr>anr_question = q, anr_decision = c, anr_run = run, anr_job = None,
                     anr_events = events\<rparr>))))"

definition AnswerQuestion :: "answer_command \<Rightarrow> time \<Rightarrow> db \<Rightarrow> (store_error + answer_result) \<times> db" where
  "AnswerQuestion input now d =
     (if TrimSpace (anc_project_id input) = [] \<or> TrimSpace (anc_question_id input) = [] \<or>
         anc_actor_type input \<noteq> ''HUMAN''
      then (Inl ErrInvalidArgument, d)
      else run_tx now (answer_tx input) d)"

section \<open>Interactive Questions\<close>

record open_command =
  opc_project_id :: id
  opc_issue_id :: id
  opc_run_id :: id
  opc_prompt :: string
  opc_kind :: string
  opc_options :: "json option"
  opc_recommendation :: "string option"
  opc_custom :: bool
  opc_blocking :: bool
  opc_status :: string
  opc_engine :: string
  opc_correlation_key :: string
  opc_runtime_instance_id :: string

definition validateOpenInteractiveQuestion :: "open_command \<Rightarrow> bool" where
  "validateOpenInteractiveQuestion c \<longleftrightarrow>
     TrimSpace (opc_project_id c) \<noteq> [] \<and> TrimSpace (opc_issue_id c) \<noteq> [] \<and>
     TrimSpace (opc_run_id c) \<noteq> [] \<and> TrimSpace (opc_prompt c) \<noteq> [] \<and>
     TrimSpace (opc_engine c) \<noteq> [] \<and> TrimSpace (opc_correlation_key c) \<noteq> [] \<and> opc_blocking c"

definition same_request :: "open_command \<Rightarrow> open_command \<Rightarrow> bool" where
  "same_request a b \<longleftrightarrow> opc_project_id a = opc_project_id b \<and> opc_issue_id a = opc_issue_id b \<and>
     opc_run_id a = opc_run_id b \<and> opc_engine a = opc_engine b \<and>
     opc_runtime_instance_id a = opc_runtime_instance_id b"

definition question_status_of :: "string \<Rightarrow> question_status option" where
  "question_status_of s = (if s = ''OPEN'' then Some QST_OPEN else if s = ''ANSWERED'' then Some QST_ANSWERED
     else if s = ''CANCELLED'' then Some QST_CANCELLED else None)"

definition is_array :: "json \<Rightarrow> bool" where
  "is_array j \<longleftrightarrow> (case j of JArr _ \<Rightarrow> True | _ \<Rightarrow> False)"

definition question_check :: "db \<Rightarrow> question \<Rightarrow> pg_error option" where
  "question_check d q =
     (if btrim (qst_prompt q) = [] \<or> qst_kind q \<notin> {''TEXT'', ''SINGLE_CHOICE'', ''MULTI_CHOICE''} \<or>
         \<not> is_array (qst_options q)
      then Some CheckViolation
      else if exists_row (\<lambda>i. iss_project_id i = qst_project_id q \<and> iss_id i = qst_issue_id q) (db_issues d) \<and>
              exists_row (\<lambda>r. run_project_id r = qst_project_id q \<and> run_id r = qst_run_id q) (db_runs d)
      then None else Some ForeignKeyViolation)"

definition binding_check :: "db \<Rightarrow> binding \<Rightarrow> pg_error option" where
  "binding_check d b =
     (if btrim (bnd_engine b) = [] \<or> btrim (bnd_correlation_key b) = [] then Some CheckViolation
      else if exists_row (\<lambda>q. qst_project_id q = bnd_project_id b \<and> qst_run_id q = bnd_run_id b \<and>
                qst_id q = bnd_question_id b) (db_questions d)
      then None else Some ForeignKeyViolation)"

definition binding_unique :: "binding \<Rightarrow> binding \<Rightarrow> bool" where
  "binding_unique a b \<longleftrightarrow> bnd_question_id a = bnd_question_id b \<or>
     (bnd_project_id a = bnd_project_id b \<and> bnd_run_id a = bnd_run_id b \<and>
      bnd_engine a = bnd_engine b \<and> bnd_correlation_key a = bnd_correlation_key b)"

text \<open>An existing binding with its Question, or \<open>None\<close> where one has to be created.\<close>

definition existing_question :: "open_command \<Rightarrow> (db, (question \<times> binding) option) tx" where
  "existing_question c =
     tx_bind (tx_get (\<lambda>d. List.find (\<lambda>b. bnd_project_id b = opc_project_id c \<and> bnd_run_id b = opc_run_id c \<and>
                bnd_engine b = opc_engine c \<and> bnd_correlation_key b = opc_correlation_key c) (db_bindings d)))
       (\<lambda>found. case found of
          None \<Rightarrow> tx_return None
        | Some b \<Rightarrow> tx_bind (find_question (bnd_project_id b) (bnd_question_id b)) (\<lambda>q.
                     tx_return (Some (q, b))))"

definition insert_interactive_question :: "open_command \<Rightarrow> (db, question \<times> binding) tx" where
  "insert_interactive_question c =
     (let kind = (if opc_kind c = [] then ''TEXT'' else opc_kind c);
          status = (if opc_status c = [] then ''OPEN'' else opc_status c) in
      tx_bind (tx_option (notFound CheckViolation) (question_status_of status)) (\<lambda>st.
      tx_bind gen_random_uuid (\<lambda>uid.
      tx_bind (tx_get db_now) (\<lambda>now.
      tx_bind (sql_insert db_questions db_questions_update (\<lambda>a b. qst_id a = qst_id b) question_check notFound
                 \<lparr>qst_id = uid, qst_project_id = opc_project_id c, qst_issue_id = opc_issue_id c,
                  qst_run_id = opc_run_id c, qst_prompt = opc_prompt c, qst_kind = kind,
                  qst_options = (case opc_options c of None \<Rightarrow> JArr [] | Some j \<Rightarrow> j),
                  qst_recommendation = opc_recommendation c, qst_custom = opc_custom c,
                  qst_blocking = True, qst_status = st, qst_created_at = now, qst_answered_at = None\<rparr>) (\<lambda>q.
      tx_bind (sql_insert db_bindings db_bindings_update binding_unique binding_check notFound
                 \<lparr>bnd_question_id = qst_id q, bnd_project_id = qst_project_id q, bnd_run_id = qst_run_id q,
                  bnd_engine = opc_engine c, bnd_correlation_key = opc_correlation_key c,
                  bnd_state = BND_OPEN\<rparr>) (\<lambda>b.
      tx_return (q, b)))))))"

definition appendInteractiveQuestionEvent :: "run \<Rightarrow> string \<Rightarrow> string \<Rightarrow> json \<Rightarrow> (db, event) tx" where
  "appendInteractiveQuestionEvent run runtimeInstanceID ty payload =
     appendEventTx ((run_event run ty payload)\<lparr>evt_runtime_instance_id :=
       (if TrimSpace runtimeInstanceID = [] then None else Some runtimeInstanceID)\<rparr>)"

definition ensureInteractiveQuestionCreatedEvent :: "run \<Rightarrow> question \<Rightarrow> string \<Rightarrow> (db, event) tx" where
  "ensureInteractiveQuestionCreatedEvent run q runtimeInstanceID =
     tx_bind (tx_get (\<lambda>d. first_by (\<lambda>e. the (evt_sequence e))
                (filter (\<lambda>e. evt_project_id e = qst_project_id q \<and> evt_run_id e = Some (qst_run_id q) \<and>
                   evt_type e = ''question.created'' \<and>
                   json_text d (evt_payload e) ''questionId'' = Some (qst_id q)) (db_events d)))) (\<lambda>found.
     case found of
       Some e \<Rightarrow> tx_return e
     | None \<Rightarrow>
         tx_bind (tx_option ErrJSON (decode_options (qst_options q))) (\<lambda>options.
         appendInteractiveQuestionEvent run runtimeInstanceID ''question.created''
           (JObj [(''blocking'', JBool True), (''kind'', JStr (qst_kind q)),
                  (''options'', JArr (map (\<lambda>(i, l). JObj [(''id'', JStr i), (''label'', JStr l)]) options)),
                  (''prompt'', JStr (qst_prompt q)), (''questionId'', JStr (qst_id q))])))"

definition enter_waiting :: "id \<Rightarrow> id \<Rightarrow> (db, run) tx" where
  "enter_waiting projectID runID =
     sql_update_row db_runs db_runs_update
       (\<lambda>d r. run_project_id r = projectID \<and> run_id r = runID \<and> run_status r = RUN_RUNNING)
       (\<lambda>d r. r\<lparr>run_status := RUN_WAITING_FOR_INPUT, run_queue_reason := None, run_updated_at := db_now d\<rparr>)"

text \<open>
  The Questions of the batch in the order of the commands, each marked with whether it was
  created now.
\<close>

definition open_or_create :: "open_command \<times> (question \<times> binding) option \<Rightarrow>
   (db, question \<times> binding \<times> bool) tx" where
  "open_or_create cx =
     (case cx of
        (c, Some (q, b)) \<Rightarrow> tx_return (q, b, False)
      | (c, None) \<Rightarrow> tx_bind (insert_interactive_question c) (\<lambda>(q, b). tx_return (q, b, True)))"

definition open_tx :: "open_command \<Rightarrow> open_command list \<Rightarrow>
   (db, (question \<times> binding \<times> bool) list \<times> run \<times> bool \<times> event list) tx" where
  "open_tx first inputs =
     tx_bind (find_run (opc_project_id first) (opc_run_id first)) (\<lambda>run.
     tx_bind (tx_guard (run_issue_id run = opc_issue_id first) ErrConflict) (\<lambda>_.
     tx_bind (tx_map existing_question inputs) (\<lambda>found.
     let missing = list_ex (\<lambda>x. x = None) found in
     tx_bind (tx_when missing
                (tx_bind (tx_guard (run_status run = RUN_RUNNING \<or> run_status run = RUN_WAITING_FOR_INPUT) ErrConflict) (\<lambda>_.
                 tx_bind (hasLiveClaim (opc_project_id first) (opc_run_id first)) (\<lambda>live.
                 tx_guard live ErrConflict)))) (\<lambda>_.
     tx_bind (tx_map open_or_create (zip inputs found)) (\<lambda>results.
     tx_bind (tx_map (\<lambda>(q, b, c). ensureInteractiveQuestionCreatedEvent run q (opc_runtime_instance_id first))
                results) (\<lambda>events.
     if missing \<and> run_status run = RUN_RUNNING then
       tx_bind (enter_waiting (opc_project_id first) (opc_run_id first)) (\<lambda>run.
       tx_bind (appendInteractiveQuestionEvent run (opc_runtime_instance_id first) ''run.waiting_for_input''
                  (JObj [(''questionId'', JStr (case List.find (\<lambda>(q, b, c). c) results of
                     Some (q, _) \<Rightarrow> qst_id q | None \<Rightarrow> []))])) (\<lambda>waiting.
       tx_return (results, run, True, events @ [waiting])))
     else tx_return (results, run, False, events)))))))"

definition OpenInteractiveQuestions :: "open_command list \<Rightarrow> time \<Rightarrow> db \<Rightarrow>
   (store_error + (question \<times> binding \<times> bool) list \<times> run \<times> bool \<times> event list) \<times> db" where
  "OpenInteractiveQuestions inputs now d =
     (case inputs of
        [] \<Rightarrow> (Inl ErrInvalidArgument, d)
      | first # _ \<Rightarrow>
          if list_all validateOpenInteractiveQuestion inputs \<and> list_all (same_request first) inputs \<and>
             distinct (map opc_correlation_key inputs)
          then run_tx now (open_tx first inputs) d
          else (Inl ErrInvalidArgument, d))"

text \<open>\<open>OpenInteractiveQuestion\<close>: a batch of one.\<close>

definition OpenInteractiveQuestion :: "open_command \<Rightarrow> time \<Rightarrow> db \<Rightarrow>
   (store_error + (question \<times> binding \<times> bool) \<times> run \<times> bool \<times> event list) \<times> db" where
  "OpenInteractiveQuestion input now d =
     (case OpenInteractiveQuestions [input] now d of
        (Inl e, d') \<Rightarrow> (Inl e, d')
      | (Inr (qs, run, waiting, events), d') \<Rightarrow>
          (case qs of [q] \<Rightarrow> (Inr (q, run, waiting, events), d') | _ \<Rightarrow> (Inl ErrConflict, d')))"

definition resume_waiting_run :: "id \<Rightarrow> id \<Rightarrow> (db, run) tx" where
  "resume_waiting_run projectID runID =
     sql_update_row db_runs db_runs_update
       (\<lambda>d r. run_project_id r = projectID \<and> run_id r = runID \<and> run_status r = RUN_WAITING_FOR_INPUT)
       (\<lambda>d r. r\<lparr>run_status := RUN_RUNNING, run_queue_reason := None, run_updated_at := db_now d\<rparr>)"

text \<open>The part of \<open>ResolveInteractiveQuestion\<close> after an answered binding has been found.\<close>

definition resolve_answered :: "id \<Rightarrow> id \<Rightarrow> run \<Rightarrow> (db, binding \<times> run \<times> bool \<times> event list) tx" where
  "resolve_answered projectID questionID run =
     tx_bind (sql_update_row db_bindings db_bindings_update
                (\<lambda>d b. bnd_project_id b = projectID \<and> bnd_question_id b = questionID \<and> bnd_state b = BND_ANSWERED)
                (\<lambda>d b. b\<lparr>bnd_state := BND_RESOLVED\<rparr>)) (\<lambda>binding.
     tx_bind (sql_exists db_bindings (\<lambda>d b. bnd_project_id b = projectID \<and> bnd_run_id b = run_id run \<and>
                (bnd_state b = BND_OPEN \<or> bnd_state b = BND_ANSWERED))) (\<lambda>unresolved.
     tx_bind (if unresolved then tx_return (run, False)
              else
                tx_bind (tx_guard (run_status run = RUN_WAITING_FOR_INPUT) ErrConflict) (\<lambda>_.
                tx_bind (hasLiveClaim projectID (run_id run)) (\<lambda>live.
                tx_bind (tx_guard live ErrConflict) (\<lambda>_.
                tx_bind (resume_waiting_run projectID (run_id run)) (\<lambda>run.
                tx_return (run, True)))))) (\<lambda>(run, resumed).
     tx_bind (appendInteractiveQuestionEvent run [] ''engine.question_binding_resolved''
                (JObj [(''engine'', JStr (bnd_engine binding)), (''questionId'', JStr questionID)])) (\<lambda>resolved.
     if resumed then
       tx_bind (appendInteractiveQuestionEvent run [] ''run.resumed'' (JObj [(''questionId'', JStr questionID)]))
         (\<lambda>resumedEvent. tx_return (binding, run, True, [resolved, resumedEvent]))
     else tx_return (binding, run, False, [resolved])))))"

definition resolve_tx :: "id \<Rightarrow> id \<Rightarrow> id \<Rightarrow> (db, binding \<times> run \<times> bool \<times> event list) tx" where
  "resolve_tx projectID questionID runID =
     tx_bind (find_run projectID runID) (\<lambda>run.
     tx_bind (sql_find db_bindings (\<lambda>d b. bnd_project_id b = projectID \<and> bnd_question_id b = questionID)) (\<lambda>b.
     tx_bind (tx_guard (bnd_run_id b = run_id run) ErrConflict) (\<lambda>_.
     if bnd_state b = BND_RESOLVED then
       tx_bind (sql_first db_events (\<lambda>d e. evt_project_id e = projectID \<and> evt_run_id e = Some (run_id run) \<and>
                  evt_type e = ''engine.question_binding_resolved'' \<and>
                  json_text d (evt_payload e) ''questionId'' = Some questionID)
                  (\<lambda>e. the (evt_sequence e))) (\<lambda>event.
       tx_return (b, run, False, [event]))
     else
       tx_bind (tx_guard (bnd_state b = BND_ANSWERED) ErrConflict) (\<lambda>_.
       resolve_answered projectID questionID run))))"

definition ResolveInteractiveQuestion :: "id \<Rightarrow> id \<Rightarrow> time \<Rightarrow> db \<Rightarrow>
   (store_error + binding \<times> run \<times> bool \<times> event list) \<times> db" where
  "ResolveInteractiveQuestion projectID questionID now d =
     (if TrimSpace projectID = [] \<or> TrimSpace questionID = [] then (Inl ErrInvalidArgument, d)
      else case List.find (\<lambda>b. bnd_project_id b = projectID \<and> bnd_question_id b = questionID) (db_bindings d) of
        None \<Rightarrow> (Inl ErrNotFound, d)
      | Some b \<Rightarrow> run_tx now (resolve_tx projectID questionID (bnd_run_id b)) d)"

section \<open>Ownership\<close>

lemma quiet_question_reads [quiet_rules]:
  "tx_keeps quiet (hasLiveClaim p r)" "tx_keeps quiet (find_question p q)"
  "tx_keeps quiet (binding_of_question qu)" "tx_keeps quiet (existing_question c)"
  "tx_keeps quiet (answer_queues_resume qu i l)"
  unfolding hasLiveClaim_def find_question_def binding_of_question_def existing_question_def
    answer_queues_resume_def Let_def
  by (intro quiet_rules)+

lemma quiet_question_writes [quiet_rules]:
  "tx_keeps quiet (mark_answered qu)" "tx_keeps quiet (record_answer_decision input qu)"
  "tx_keeps quiet (append_answer_events input qu run c)" "tx_keeps quiet (set_binding_state qu f t)"
  "tx_keeps quiet (insert_interactive_question oc)"
  "tx_keeps quiet (appendInteractiveQuestionEvent run rt ty pl)"
  "tx_keeps quiet (ensureInteractiveQuestionCreatedEvent run qu rt)"
  unfolding mark_answered_def record_answer_decision_def append_answer_events_def set_binding_state_def
    insert_interactive_question_def appendInteractiveQuestionEvent_def
    ensureInteractiveQuestionCreatedEvent_def Let_def
  by (intro quiet_rules)+

lemma quiet_open_or_create [quiet_rules]: "tx_keeps quiet (open_or_create cx)"
  unfolding open_or_create_def by (intro quiet_rules)

lemma quiet_waiting [quiet_rules]:
  "tx_keeps quiet (enter_waiting p r)" "tx_keeps quiet (resume_waiting_run p r)"
  unfolding enter_waiting_def resume_waiting_run_def
  by (rule quiet_update_runs; simp add: same_place_def)+

lemma quiet_open_tx [quiet_rules]: "tx_keeps quiet (open_tx first inputs)"
  unfolding open_tx_def Let_def by (intro quiet_rules)

lemma OpenInteractiveQuestions_quiet: "OpenInteractiveQuestions inputs now d = (r, d') \<Longrightarrow> quiet d d'"
  unfolding OpenInteractiveQuestions_def
  by (auto split: list.splits if_splits intro: quiet.refl elim!: quiet.keeps_run_tx [rotated] intro!: quiet_rules)

lemma quiet_resolve_tx [quiet_rules]: "tx_keeps quiet (resolve_tx p q r)"
  unfolding resolve_tx_def resolve_answered_def by (intro quiet_rules)

lemma ResolveInteractiveQuestion_quiet: "ResolveInteractiveQuestion p q now d = (r, d') \<Longrightarrow> quiet d d'"
  unfolding ResolveInteractiveQuestion_def
  by (auto split: option.splits if_splits intro: quiet.refl elim!: quiet.keeps_run_tx [rotated] intro!: quiet_rules)

text \<open>No claimed job is about the Run.\<close>

definition idle :: "db \<Rightarrow> id \<Rightarrow> id \<Rightarrow> bool" where
  "idle d p x \<longleftrightarrow> (\<forall>j\<in>set (claimed d). \<not> (job_project_id j = p \<and> job_run_id j = x))"

lemma idle_quiet: "quiet d d' \<Longrightarrow> idle d p x \<Longrightarrow> idle d' p x"
  by (simp add: quiet_def idle_def)

lemma queueBlockingQuestionResume_releasing:
  assumes resume: "queueBlockingQuestionResume q d = (Inr rj, d')"
    and idle: "idle d (qst_project_id q) (qst_run_id q)"
  shows "releasing d d'"
proof -
  obtain run d1 where req: "requeue_waiting_run (qst_project_id q) (qst_run_id q) d = (Inr run, d1)"
    and rest: "tx_bind gen_random_uuid (\<lambda>uid. tx_bind (tx_get db_now) (\<lambda>now.
       tx_bind (sql_insert db_jobs db_jobs_update job_unique job_check notFound
         (new_job uid (qst_project_id q) (qst_run_id q) JOB_RESUME None
            (''question:'' @ qst_id q @ '':resume'') now now)) (\<lambda>job. tx_return (run, job)))) d1 = (Inr rj, d')"
    using resume unfolding queueBlockingQuestionResume_def by (subst (asm) tx_bind_Inr) blast
  obtain f where d1: "db_runs d1 = update_rows (\<lambda>r. run_project_id r = qst_project_id q \<and>
      run_id r = qst_run_id q \<and> run_status r = RUN_WAITING_FOR_INPUT) f (db_runs d)"
      "\<And>r. run_id (f r) = run_id r" "db_jobs d1 = db_jobs d" "db_leases d1 = db_leases d"
      "db_reservations d1 = db_reservations d" "same_config d d1"
    using req unfolding requeue_waiting_run_def by (auto simp: tx_simps same_config_def)
  have "releasing d d1"
    using idle by (intro releasing_idle_run [OF d1(1,2) _ d1(3-6)]) (auto simp: idle_def job_on_def)
  moreover have "quiet d1 d'"
    using rest by (rule tx_keepsD [rotated]) (intro quiet_rules)
  ultimately show ?thesis using quiet_releasing releasing_trans by blast
qed

text \<open>Retiring one claim, and all expired claims of a Run.\<close>

lemma retire_claim_settles:
  assumes ret: "retire_claim p x jid d = (Inr u, d')" and wf: "sched_wf d"
  obtains J where "J \<in> set (claimed d)" "job_id J = jid" "settles d d' J"
proof -
  obtain d1 where fin: "finish_claimed_job p jid x JOB_DONE None d = (Inr 1, d1)"
    and d': "d' = d1\<lparr>db_reservations := filter (\<lambda>v. \<not> (rsv_project_id v = p \<and> rsv_job_id v = jid)) (db_reservations d1),
               db_leases := filter (\<lambda>l. lse_job_id l \<noteq> jid) (db_leases d1)\<rparr>"
    using ret unfolding retire_claim_def by (auto simp: tx_simps)
  have keys: "keys_wf d" and own: "ownership_wf d" using wf by (auto simp: sched_wf_def)
  obtain f where jobs: "db_jobs d1 = update_rows (\<lambda>j. job_project_id j = p \<and> job_id j = jid \<and> job_run_id j = x \<and>
        job_state j = JOB_CLAIMED) f (db_jobs d)" "\<And>j. job_id (f j) = job_id j" "\<And>j. job_state (f j) = JOB_DONE"
    and others: "db_runs d1 = db_runs d" "db_leases d1 = db_leases d" "db_reservations d1 = db_reservations d"
      "same_config d d1"
    and one: "count_rows (\<lambda>j. job_project_id j = p \<and> job_id j = jid \<and> job_run_id j = x \<and>
        job_state j = JOB_CLAIMED) (db_jobs d) = 1"
    using fin unfolding finish_claimed_job_def by (auto simp: tx_simps same_config_def)
  obtain J where J: "J \<in> set (claimed d)" "job_id J = jid" "job_project_id J = p" "job_run_id J = x"
    using one count_rows_0_iff [of "\<lambda>j. job_project_id j = p \<and> job_id j = jid \<and> job_run_id j = x \<and>
        job_state j = JOB_CLAIMED" "db_jobs d"] that by auto
  have only: "j = J" if "j \<in> set (db_jobs d)" "job_id j = jid" for j
    using that J keys by (auto simp: keys_wf_def intro: distinct_key_eq)
  have cl: "set (claimed d') = {j \<in> set (claimed d). job_id j \<noteq> job_id J}"
    using J jobs by (auto simp: d' in_update_rows dest: only)
  have "rsv_project_id v = p" if "v \<in> set (db_reservations d)" "rsv_job_id v = jid" for v
    using that own J only unfolding ownership_wf_def by (metis claimed_iff)
  then have "\<forall>v\<in>set (db_reservations d'). rsv_job_id v \<noteq> job_id J" using J(2) others by (auto simp: d')
  moreover have "keys_kept d d'"
    using jobs others by (auto simp: keys_kept_def keys_wf_def d' map_update_rows distinct_map_filter_rows)
  moreover have "same_config d d'" using others by (simp add: d' same_config_def)
  ultimately have "settles d d' J"
    unfolding settles_def using cl J(2) others same_place_refl by (auto simp: d' simp del: claimed_iff)
  then show ?thesis using that J by blast
qed

lemma safe_retire_claim [safe_rules]: "tx_keeps safe (retire_claim p x jid)"
proof (rule tx_keepsI)
  fix d u d' assume "retire_claim p x jid d = (Inr u, d')"
  then show "safe d d'"
    unfolding safe_def using retire_claim_settles settles_releasing by (metis (no_types))
qed

lemma retire_claims_gone:
  assumes "tx_map (retire_claim p x) ids d = (Inr us, d')" "sched_wf d"
  shows "set (claimed d') \<subseteq> {j \<in> set (claimed d). job_id j \<notin> set ids}"
  using assms
proof (induction ids arbitrary: d us)
  case Nil
  then show ?case by (auto simp: tx_simps)
next
  case (Cons i ids)
  obtain u d1 us' where one: "retire_claim p x i d = (Inr u, d1)"
    and rest: "tx_map (retire_claim p x) ids d1 = (Inr us', d')"
    using Cons.prems(1) by (auto simp: tx_simps)
  have wf1: "sched_wf d1" using tx_keepsD [OF safe_retire_claim one] Cons.prems(2) by (rule safe_wf)
  obtain J where "job_id J = i" "settles d d1 J" using retire_claim_settles [OF one Cons.prems(2)] by metis
  then have "set (claimed d1) = {j \<in> set (claimed d). job_id j \<noteq> i}" by (simp add: settles_def)
  then show ?case using Cons.IH [OF rest wf1] by auto
qed

lemma safe_retireExpired [safe_rules]: "tx_keeps safe (retireExpiredInteractiveClaims p x)"
  unfolding retireExpiredInteractiveClaims_def by (intro safe_rules)

lemma retireExpired_idle:
  assumes ret: "retireExpiredInteractiveClaims p x d = (Inr u, d')" and wf: "sched_wf d"
    and dead: "\<not> (\<exists>j\<in>set (db_jobs d). job_project_id j = p \<and> job_run_id j = x \<and> job_state j = JOB_CLAIMED \<and>
        (\<exists>l\<in>set (db_leases d). lse_job_id l = job_id j \<and> lse_expires_at l > db_now d))"
  shows "idle d' p x"
proof -
  obtain us where "tx_map (retire_claim p x) (map job_id (expired_claims d p x)) d = (Inr us, d')"
    using ret unfolding retireExpiredInteractiveClaims_def by (auto simp: tx_simps)
  then have sub: "set (claimed d') \<subseteq> {j \<in> set (claimed d). job_id j \<notin> job_id ` set (expired_claims d p x)}"
    using retire_claims_gone [OF _ wf] by fastforce
  have "j \<in> set (expired_claims d p x)"
    if "j \<in> set (claimed d)" "job_project_id j = p" "job_run_id j = x" for j
    using that dead by (auto simp: expired_claims_def) (metis linorder_not_le)
  then show ?thesis using sub unfolding idle_def by blast
qed

text \<open>What the claim check leaves: a live claim, or no claim on the Run at all.\<close>

lemma answer_claim_check_Inr:
  assumes chk: "answer_claim_check q interactive run d = (Inr live, d')" and wf: "sched_wf d"
  shows "safe d d'" and "qst_blocking q \<Longrightarrow> \<not> interactive \<or> \<not> live \<Longrightarrow> idle d' (qst_project_id q) (qst_run_id q)"
proof -
  have "tx_keeps safe (answer_claim_check q interactive run)"
    unfolding answer_claim_check_def
    by (intro safe_rules quiet_question_reads(1) [THEN keeps_safe])
  then show "safe d d'" using chk by (rule tx_keepsD)
  assume b: "qst_blocking q" and nl: "\<not> interactive \<or> \<not> live"
  show "idle d' (qst_project_id q) (qst_run_id q)"
  proof (cases interactive)
    case True
    then have "\<not> live" using nl by simp
    then obtain u where "retireExpiredInteractiveClaims (qst_project_id q) (qst_run_id q) d = (Inr u, d')"
      and "\<not> (\<exists>j\<in>set (db_jobs d). job_project_id j = qst_project_id q \<and> job_run_id j = qst_run_id q \<and>
        job_state j = JOB_CLAIMED \<and> (\<exists>l\<in>set (db_leases d). lse_job_id l = job_id j \<and> lse_expires_at l > db_now d))"
      using chk b True unfolding answer_claim_check_def hasLiveClaim_def by (auto simp: tx_simps)
    then show ?thesis using retireExpired_idle [OF _ wf] by blast
  next
    case False
    then show ?thesis using chk b unfolding answer_claim_check_def
      by (auto simp: tx_simps idle_def)
  qed
qed

lemma quiet_answer_target [quiet_rules]: "tx_keeps quiet (answer_target input)"
  unfolding answer_target_def by (intro quiet_rules)

lemma quiet_record_answer [quiet_rules]: "tx_keeps quiet (record_answer input q i run)"
  unfolding record_answer_def by (intro quiet_rules)

text \<open>The claim check does not touch the Questions.\<close>

definition same_questions :: "db \<Rightarrow> db \<Rightarrow> bool" where
  "same_questions d d' \<longleftrightarrow> db_questions d' = db_questions d"

interpretation questions: db_frame same_questions
  by unfold_locales (auto simp: same_questions_def)

lemma questions_tables:
  "same_questions d (db_jobs_update g1 d)" "same_questions d (db_leases_update g2 d)"
  "same_questions d (db_reservations_update g3 d)"
  by (simp_all add: same_questions_def)

lemma questions_claim_check: "tx_keeps same_questions (answer_claim_check q interactive run)"
  unfolding answer_claim_check_def hasLiveClaim_def retireExpiredInteractiveClaims_def retire_claim_def
    finish_claimed_job_def
  by (intro questions.keeps_intros
      questions.keeps_writes [of db_jobs_update, OF questions_tables(1)]
      questions.keeps_writes [of db_leases_update, OF questions_tables(2)]
      questions.keeps_writes [of db_reservations_update, OF questions_tables(3)])

lemma answer_target_Inr:
  assumes "answer_target input d = (Inr (q, interactive, run), d')"
  shows "d' = d" "List.find (\<lambda>x. qst_project_id x = qst_project_id q \<and> qst_id x = qst_id q) (db_questions d) = Some q"
    "qst_status q = QST_OPEN" "validateQuestionAnswer q (anc_answer input)"
    "qst_project_id q = anc_project_id input" "qst_id q = anc_question_id input"
proof -
  have "d' = d \<and> List.find (\<lambda>x. qst_project_id x = anc_project_id input \<and> qst_id x = anc_question_id input)
      (db_questions d) = Some q \<and> qst_status q = QST_OPEN \<and> validateQuestionAnswer q (anc_answer input)"
    using assms unfolding answer_target_def find_question_def binding_of_question_def
    by (auto simp: tx_simps)
  moreover from this have "qst_project_id q = anc_project_id input" "qst_id q = anc_question_id input"
    by (auto dest: find_Some_in)
  ultimately show "d' = d" "List.find (\<lambda>x. qst_project_id x = qst_project_id q \<and> qst_id x = qst_id q) (db_questions d) = Some q"
    "qst_status q = QST_OPEN" "validateQuestionAnswer q (anc_answer input)"
    "qst_project_id q = anc_project_id input" "qst_id q = anc_question_id input" by auto
qed

definition answered_row :: "time \<Rightarrow> question \<Rightarrow> question" where
  "answered_row now q = q\<lparr>qst_status := QST_ANSWERED, qst_answered_at := Some now\<rparr>"

lemma record_answer_question:
  assumes rec: "record_answer input q i run d = (Inr (q1, c, evs), d')"
    and q: "List.find (\<lambda>x. qst_project_id x = qst_project_id q \<and> qst_id x = qst_id q) (db_questions d) = Some q"
      "qst_status q = QST_OPEN"
  shows "q1 = answered_row (db_now d) q"
proof -
  obtain d1 where "mark_answered q d = (Inr q1, d1)"
    using rec unfolding record_answer_def by (auto simp: tx_simps)
  moreover have "List.find (\<lambda>x. qst_project_id x = qst_project_id q \<and> qst_id x = qst_id q \<and> qst_status x = QST_OPEN)
      (db_questions d) = Some q"
    using find_refine [OF q(1), of "\<lambda>x. qst_status x = QST_OPEN"] q(2) by simp
  ultimately show ?thesis unfolding mark_answered_def by (simp add: tx_simps answered_row_def)
qed

text \<open>The steps of a successful answer.\<close>

lemma answer_tx_Inr:
  assumes ans: "answer_tx input d = (Inr res, d')"
  obtains q interactive run live d1 c evs d2 b t where
    "answer_target input d = (Inr (q, interactive, run), d)"
    "answer_claim_check q interactive run d = (Inr live, d1)"
    "record_answer input q interactive run d1 = (Inr (answered_row t q, c, evs), d2)"
    "answer_queues_resume (answered_row t q) interactive live d2 = (Inr b, d2)"
    "if b then \<exists>run' job. queueBlockingQuestionResume (answered_row t q) d2 = (Inr (run', job), d') \<and>
        anr_run res = run' \<and> anr_job res = Some job
     else d' = d2 \<and> anr_run res = run \<and> anr_job res = None"
    "anr_question res = answered_row t q"
proof -
  obtain q interactive run dt where t: "answer_target input d = (Inr (q, interactive, run), dt)"
    using ans unfolding answer_tx_def by (auto simp: tx_bind_Inr)
  note tgt = answer_target_Inr [OF t]
  obtain live d1 where chk: "answer_claim_check q interactive run d = (Inr live, d1)"
    using ans t tgt(1) unfolding answer_tx_def by (auto simp: tx_bind_Inr)
  obtain q1 c evs d2 where rec: "record_answer input q interactive run d1 = (Inr (q1, c, evs), d2)"
    using ans t tgt(1) chk unfolding answer_tx_def by (auto simp: tx_bind_Inr)
  have "db_questions d1 = db_questions d"
    using tx_keepsD [OF questions_claim_check chk] by (simp add: same_questions_def)
  then have q1: "q1 = answered_row (db_now d1) q" using record_answer_question [OF rec] tgt(2,3) by simp
  obtain b d3 where flag: "answer_queues_resume q1 interactive live d2 = (Inr b, d3)"
    using ans t tgt(1) chk rec unfolding answer_tx_def by (auto simp: tx_bind_Inr)
  have d3: "d3 = d2" using flag unfolding answer_queues_resume_def Let_def
    by (auto simp: tx_simps split: if_splits)
  have rest: "(if b then tx_bind (queueBlockingQuestionResume q1) (\<lambda>(resumed, job).
      tx_return \<lparr>anr_question = q1, anr_decision = c, anr_run = resumed, anr_job = Some job, anr_events = evs\<rparr>)
    else tx_return \<lparr>anr_question = q1, anr_decision = c, anr_run = run, anr_job = None, anr_events = evs\<rparr>) d2
      = (Inr res, d')"
    using ans t tgt(1) chk rec flag d3 unfolding answer_tx_def by (auto simp: tx_bind_Inr)
  show ?thesis
    using that [of q interactive run live d1 "db_now d1" c evs d2 b] t [unfolded tgt(1)] chk rec flag d3 rest q1
    by (cases b) (auto simp: tx_simps)
qed

lemma answered_row_simps [simp]:
  "qst_id (answered_row t q) = qst_id q" "qst_project_id (answered_row t q) = qst_project_id q"
  "qst_run_id (answered_row t q) = qst_run_id q" "qst_blocking (answered_row t q) = qst_blocking q"
  "qst_status (answered_row t q) = QST_ANSWERED"
  by (simp_all add: answered_row_def)

lemma answer_safe: "tx_keeps safe (answer_tx input)"
proof (rule tx_keepsI)
  fix d res d' assume "answer_tx input d = (Inr res, d')"
  then obtain q interactive run live d1 c evs d2 b t where
    chk: "answer_claim_check q interactive run d = (Inr live, d1)" and
    rec: "record_answer input q interactive run d1 = (Inr (answered_row t q, c, evs), d2)" and
    flag: "answer_queues_resume (answered_row t q) interactive live d2 = (Inr b, d2)" and
    rest: "if b then \<exists>run' job. queueBlockingQuestionResume (answered_row t q) d2 = (Inr (run', job), d') \<and>
        anr_run res = run' \<and> anr_job res = Some job
      else d' = d2 \<and> anr_run res = run \<and> anr_job res = None"
    by (rule answer_tx_Inr)
  show "safe d d'"
    unfolding safe_def
  proof
    assume wf: "sched_wf d"
    have quiet: "quiet d1 d2" using quiet_record_answer rec by (rule tx_keepsD)
    have "releasing d d1" using answer_claim_check_Inr(1) [OF chk wf] wf by (simp add: safe_def)
    with quiet have "releasing d d2" using quiet_releasing releasing_trans by blast
    moreover have "releasing d2 d'"
    proof (cases b)
      case True
      then have "qst_blocking q \<and> (\<not> interactive \<or> \<not> live)"
        using flag unfolding answer_queues_resume_def by (auto simp: tx_simps Let_def split: if_splits)
      then have "idle d2 (qst_project_id q) (qst_run_id q)"
        using answer_claim_check_Inr(2) [OF chk wf] idle_quiet [OF quiet] by simp
      then show ?thesis using rest True queueBlockingQuestionResume_releasing by auto
    next
      case False then show ?thesis using rest by simp
    qed
    ultimately show "releasing d d'" by (rule releasing_trans)
  qed
qed

lemma AnswerQuestion_safe: "AnswerQuestion input now d = (r, d') \<Longrightarrow> safe d d'"
  unfolding AnswerQuestion_def
  by (auto split: if_splits intro: safe.refl elim!: safe.keeps_run_tx [rotated] intro!: answer_safe)

section \<open>History\<close>

lemma history_question_calls [history_rules]:
  "tx_keeps history (hasLiveClaim p r)" "tx_keeps history (find_question p qi)"
  "tx_keeps history (binding_of_question q)" "tx_keeps history (mark_answered q)"
  "tx_keeps history (record_answer_decision input q)" "tx_keeps history (append_answer_events input q run c)"
  "tx_keeps history (set_binding_state q f t)" "tx_keeps history (retire_claim p r j)"
  "tx_keeps history (appendInteractiveQuestionEvent run rt ty pl)"
  unfolding hasLiveClaim_def find_question_def binding_of_question_def mark_answered_def
    record_answer_decision_def append_answer_events_def set_binding_state_def retire_claim_def
    finish_claimed_job_def appendInteractiveQuestionEvent_def
  by (intro history_rules)+

lemma history_run_changes [history_rules]:
  "tx_keeps history (requeue_waiting_run p r)" "tx_keeps history (enter_waiting p r)"
  "tx_keeps history (resume_waiting_run p r)"
  unfolding requeue_waiting_run_def enter_waiting_def resume_waiting_run_def
  by (rule history_update_runs; simp add: terminal_run_def)+

lemma history_queue_resume [history_rules]: "tx_keeps history (queueBlockingQuestionResume q)"
  unfolding queueBlockingQuestionResume_def by (intro history_rules)

lemma AnswerQuestion_history: "AnswerQuestion input now d = (r, d') \<Longrightarrow> history d d'"
  unfolding AnswerQuestion_def answer_tx_def answer_target_def answer_claim_check_def record_answer_def
    retireExpiredInteractiveClaims_def answer_queues_resume_def Let_def
  by (auto split: if_splits intro: history.refl elim!: history.keeps_run_tx [rotated] intro!: history_rules)

lemma OpenInteractiveQuestions_history: "OpenInteractiveQuestions inputs now d = (r, d') \<Longrightarrow> history d d'"
  unfolding OpenInteractiveQuestions_def open_tx_def existing_question_def open_or_create_def
    insert_interactive_question_def ensureInteractiveQuestionCreatedEvent_def Let_def
  by (auto split: list.splits if_splits intro: history.refl elim!: history.keeps_run_tx [rotated] intro!: history_rules)

lemma ResolveInteractiveQuestion_history: "ResolveInteractiveQuestion p q now d = (r, d') \<Longrightarrow> history d d'"
  unfolding ResolveInteractiveQuestion_def resolve_tx_def resolve_answered_def
  by (auto split: option.splits if_splits intro: history.refl elim!: history.keeps_run_tx [rotated] intro!: history_rules)

section \<open>Properties\<close>

text \<open>The Questions and the identity of the Runs, which most statements of an answer keep.\<close>

definition run_key :: "run \<Rightarrow> id \<times> id \<times> id" where
  "run_key r = (run_project_id r, run_id r, run_issue_id r)"

definition same_asked :: "db \<Rightarrow> db \<Rightarrow> bool" where
  "same_asked d d' \<longleftrightarrow> db_questions d' = db_questions d \<and> map run_key (db_runs d') = map run_key (db_runs d)"

interpretation asked: db_frame same_asked
  by unfold_locales (auto simp: same_asked_def)

lemma asked_tables:
  "same_asked d (db_jobs_update g1 d)" "same_asked d (db_leases_update g2 d)"
  "same_asked d (db_reservations_update g3 d)" "same_asked d (db_bindings_update g4 d)"
  "same_asked d (db_decisions_update g5 d)"
  by (simp_all add: same_asked_def)

lemma asked_runs:
  "(\<And>d r. run_key (f d r) = run_key r) \<Longrightarrow> tx_keeps same_asked (sql_update_row db_runs db_runs_update p f)"
  by (rule tx_keepsI) (auto simp: tx_simps same_asked_def map_update_rows)

lemma asked_event: "tx_keeps same_asked (appendEventTx input)"
proof (rule tx_keepsI)
  fix d e d' assume "appendEventTx input d = (Inr e, d')"
  note d' = appendEventTx_state [OF this]
  show "same_asked d d'"
    unfolding d' by (auto simp: same_asked_def bump_run_def map_update_rows run_key_def split: option.splits)
qed

lemmas asked_rules = asked.keeps_intros asked.keeps_uuid asked_event
  asked.keeps_writes [of db_jobs_update, OF asked_tables(1)]
  asked.keeps_writes [of db_leases_update, OF asked_tables(2)]
  asked.keeps_writes [of db_reservations_update, OF asked_tables(3)]
  asked.keeps_writes [of db_bindings_update, OF asked_tables(4)]
  asked.keeps_writes [of db_decisions_update, OF asked_tables(5)]

lemma asked_claim_check: "tx_keeps same_asked (answer_claim_check q interactive run)"
  unfolding answer_claim_check_def hasLiveClaim_def retireExpiredInteractiveClaims_def retire_claim_def
    finish_claimed_job_def
  by (intro asked_rules)

lemma asked_resume: "tx_keeps same_asked (queueBlockingQuestionResume q)"
  unfolding queueBlockingQuestionResume_def requeue_waiting_run_def
  by (intro asked_rules asked_runs) (simp add: run_key_def)

text \<open>What recording an answer does to the Questions.\<close>

lemma record_answer_asked:
  assumes rec: "record_answer input q i run d = (Inr x, d')"
  shows "same_asked (d\<lparr>db_questions := update_rows (\<lambda>x. qst_project_id x = qst_project_id q \<and> qst_id x = qst_id q \<and>
      qst_status x = QST_OPEN) (answered_row (db_now d)) (db_questions d)\<rparr>) d'"
proof -
  obtain q1 d1 where m: "mark_answered q d = (Inr q1, d1)"
    and rest: "tx_bind (record_answer_decision input q1) (\<lambda>c.
      tx_bind (append_answer_events input q1 run c) (\<lambda>events.
      tx_bind (if i then tx_bind (set_binding_state q1 BND_OPEN BND_ANSWERED) (\<lambda>_. tx_return ())
               else tx_return ()) (\<lambda>_. tx_return (q1, c, events)))) d1 = (Inr x, d')"
    using rec unfolding record_answer_def by (auto simp: tx_bind_Inr)
  have "same_asked d1 d'"
    using rest by (rule tx_keepsD [rotated])
      (unfold record_answer_decision_def append_answer_events_def set_binding_state_def, intro asked_rules)
  moreover have "d1 = d\<lparr>db_questions := update_rows (\<lambda>x. qst_project_id x = qst_project_id q \<and> qst_id x = qst_id q \<and>
      qst_status x = QST_OPEN) (answered_row (db_now d)) (db_questions d)\<rparr>"
    using m unfolding mark_answered_def by (auto simp: tx_simps answered_row_def [abs_def])
  ultimately show ?thesis by simp
qed

lemma find_run_key:
  "List.find (\<lambda>r. run_project_id r = p \<and> run_id r = x \<and> run_issue_id r = i) rs = None \<longleftrightarrow>
     (p, x, i) \<notin> set (map run_key rs)"
  by (auto simp: find_None_iff run_key_def)

text \<open>After an answer the Question is answered and its Run is still there.\<close>

lemma answer_tx_asked:
  assumes ans: "answer_tx input d = (Inr res, d')"
  obtains q t where
    "List.find (\<lambda>x. qst_project_id x = anc_project_id input \<and> qst_id x = anc_question_id input) (db_questions d')
       = Some (answered_row t q)"
    "(qst_project_id q, qst_run_id q, qst_issue_id q) \<in> set (map run_key (db_runs d'))"
proof -
  from ans obtain q interactive run live d1 c evs d2 b t where
    tgt: "answer_target input d = (Inr (q, interactive, run), d)" and
    chk: "answer_claim_check q interactive run d = (Inr live, d1)" and
    rec: "record_answer input q interactive run d1 = (Inr (answered_row t q, c, evs), d2)" and
    rest: "if b then \<exists>run' job. queueBlockingQuestionResume (answered_row t q) d2 = (Inr (run', job), d') \<and>
        anr_run res = run' \<and> anr_job res = Some job
      else d' = d2 \<and> anr_run res = run \<and> anr_job res = None"
    by (rule answer_tx_Inr)
  note q = answer_target_Inr [OF tgt]
  have s1: "same_asked d d1" using asked_claim_check chk by (rule tx_keepsD)
  have s3: "same_asked d2 d'" using rest tx_keepsD [OF asked_resume] asked.refl by (cases b) auto
  have rows: "db_questions d' = update_rows (\<lambda>x. qst_project_id x = qst_project_id q \<and> qst_id x = qst_id q \<and>
      qst_status x = QST_OPEN) (answered_row (db_now d1)) (db_questions d)"
    using record_answer_asked [OF rec] s1 s3 by (simp add: same_asked_def)
  have "List.find (\<lambda>x. qst_project_id x = qst_project_id q \<and> qst_id x = qst_id q) (db_questions d')
       = Some (answered_row (db_now d1) q)"
    unfolding rows using q(2,3) by (intro find_update_rows) auto
  moreover have "run \<in> set (db_runs d)" "run_key run = (qst_project_id q, qst_run_id q, qst_issue_id q)"
    using tgt unfolding answer_target_def find_question_def binding_of_question_def
    by (auto simp: tx_simps run_key_def dest!: find_Some_in)
  then have "(qst_project_id q, qst_run_id q, qst_issue_id q) \<in> set (map run_key (db_runs d))"
    by (metis image_eqI list.set_map)
  moreover have "map run_key (db_runs d') = map run_key (db_runs d)"
    using record_answer_asked [OF rec] s1 s3 by (simp add: same_asked_def)
  ultimately show ?thesis using that [of "db_now d1" q] q(5,6) by metis
qed

text \<open>
  C12. A Question is answered once: after a successful answer every further answer to the same
  Question is refused with ErrConflict, whatever it says, and changes nothing.
\<close>

theorem answer_once:
  assumes ok: "AnswerQuestion input now d = (Inr res, d')"
    and again: "anc_project_id again = anc_project_id input" "anc_question_id again = anc_question_id input"
      "anc_actor_type again = ''HUMAN''"
  shows "AnswerQuestion again later d' = (Inl ErrConflict, d')"
proof -
  let ?d = "d'\<lparr>db_now := later\<rparr>"
  have ids: "TrimSpace (anc_project_id input) \<noteq> []" "TrimSpace (anc_question_id input) \<noteq> []"
    and tx: "answer_tx input (d\<lparr>db_now := now\<rparr>) = (Inr res, d')"
    using ok unfolding AnswerQuestion_def by (auto simp: tx_simps split: if_splits)
  obtain q t where q: "List.find (\<lambda>x. qst_project_id x = anc_project_id input \<and> qst_id x = anc_question_id input)
      (db_questions d') = Some (answered_row t q)"
    and r: "(qst_project_id q, qst_run_id q, qst_issue_id q) \<in> set (map run_key (db_runs d'))"
    using tx by (rule answer_tx_asked)
  obtain run where run: "List.find (\<lambda>r. run_project_id r = qst_project_id q \<and> run_id r = qst_run_id q \<and>
      run_issue_id r = qst_issue_id q) (db_runs d') = Some run"
    using r find_run_key [of "qst_project_id q" "qst_run_id q" "qst_issue_id q" "db_runs d'"] by (auto simp del: set_map)
  have "qst_issue_id (answered_row t q) = qst_issue_id q" by (simp add: answered_row_def)
  then have "answer_target again ?d = (Inl ErrConflict, ?d)"
    using q run again unfolding answer_target_def find_question_def by (simp add: tx_run)
  then have "answer_tx again ?d = (Inl ErrConflict, ?d)" by (simp add: answer_tx_def tx_run)
  then show ?thesis using ids again by (simp add: AnswerQuestion_def run_tx_def tx_run)
qed

text \<open>Live claims pass through an answer.\<close>

definition holds_claim :: "db \<Rightarrow> job \<Rightarrow> lease \<Rightarrow> bool" where
  "holds_claim d j l \<longleftrightarrow> j \<in> set (claimed d) \<and> l \<in> set (db_leases d) \<and> lse_job_id l = job_id j"

lemma retire_claims_spare:
  assumes "tx_map (retire_claim p x) ids d = (Inr us, d')" "sched_wf d" "holds_claim d j l" "job_id j \<notin> set ids"
  shows "holds_claim d' j l"
  using assms
proof (induction ids arbitrary: d us)
  case Nil
  then show ?case by (auto simp: tx_simps)
next
  case (Cons i ids)
  obtain u d1 us' where one: "retire_claim p x i d = (Inr u, d1)"
    and rest: "tx_map (retire_claim p x) ids d1 = (Inr us', d')"
    using Cons.prems(1) by (auto simp: tx_simps)
  have wf1: "sched_wf d1" using tx_keepsD [OF safe_retire_claim one] Cons.prems(2) by (rule safe_wf)
  obtain J where "job_id J = i" "settles d d1 J" using retire_claim_settles [OF one Cons.prems(2)] by metis
  then have "j \<in> set (claimed d1)" using Cons.prems(3,4) by (auto simp: settles_def holds_claim_def)
  moreover have "db_leases d1 = filter (\<lambda>l. lse_job_id l \<noteq> i) (db_leases d)"
    using one unfolding retire_claim_def finish_claimed_job_def by (auto simp: tx_simps)
  ultimately have "holds_claim d1 j l" using Cons.prems(3,4) by (auto simp: holds_claim_def)
  then show ?case using Cons.IH [OF rest wf1] Cons.prems(4) by simp
qed

lemma live_claim_not_expired:
  assumes "sched_wf d" "holds_claim d j l" "lse_expires_at l > db_now d"
  shows "job_id j \<notin> job_id ` set (expired_claims d p x)"
proof
  assume "job_id j \<in> job_id ` set (expired_claims d p x)"
  then obtain k where k: "k \<in> set (expired_claims d p x)" "job_id k = job_id j" by auto
  then obtain l' where "l' \<in> set (db_leases d)" "lse_job_id l' = lse_job_id l" "lse_expires_at l' \<le> db_now d"
    using assms(2) by (auto simp: expired_claims_def holds_claim_def)
  moreover have "l' = l" if "l' \<in> set (db_leases d)" "lse_job_id l' = lse_job_id l" for l'
    using that assms(1,2) by (auto simp: sched_wf_def keys_wf_def holds_claim_def intro: distinct_key_eq)
  ultimately show False using assms(3) by (metis linorder_not_le)
qed

lemma claim_check_spares:
  assumes chk: "answer_claim_check q interactive run d = (Inr live, d')" and wf: "sched_wf d"
    and h: "holds_claim d j l" "lse_expires_at l > db_now d"
  shows "holds_claim d' j l"
proof (cases "qst_blocking q \<and> interactive \<and> \<not> live")
  case True
  then obtain us where "tx_map (retire_claim (qst_project_id q) (qst_run_id q))
      (map job_id (expired_claims d (qst_project_id q) (qst_run_id q))) d = (Inr us, d')"
    using chk unfolding answer_claim_check_def retireExpiredInteractiveClaims_def hasLiveClaim_def
    by (auto simp: tx_simps)
  then show ?thesis using retire_claims_spare [OF _ wf h(1)] live_claim_not_expired [OF wf h] by fastforce
next
  case False
  then have "d' = d" using chk unfolding answer_claim_check_def hasLiveClaim_def
    by (auto simp: tx_simps split: if_splits)
  then show ?thesis using h by simp
qed

lemma resume_spares:
  assumes "queueBlockingQuestionResume q d = (Inr rj, d')" "holds_claim d j l"
  shows "holds_claim d' j l"
  using assms unfolding queueBlockingQuestionResume_def requeue_waiting_run_def holds_claim_def
  by (auto simp: tx_simps)

text \<open>
  An answer never takes the claim of a live Engine away: a claimed job whose lease has not
  expired is claimed under the same lease after any successful answer.
\<close>

theorem answer_spares_live_claims:
  assumes wf: "sched_wf d" and ok: "AnswerQuestion input now d = (Inr res, d')"
    and h: "holds_claim d j l" "lse_expires_at l > now"
  shows "holds_claim d' j l"
proof -
  let ?d = "d\<lparr>db_now := now\<rparr>"
  have tx: "answer_tx input ?d = (Inr res, d')"
    using ok unfolding AnswerQuestion_def by (auto simp: tx_simps split: if_splits)
  have wf': "sched_wf ?d" using safe.clock wf by (rule safe_wf)
  have h': "holds_claim ?d j l" "lse_expires_at l > db_now ?d" using h by (auto simp: holds_claim_def)
  from tx obtain q interactive run live d1 c evs d2 b t where
    chk: "answer_claim_check q interactive run ?d = (Inr live, d1)" and
    rec: "record_answer input q interactive run d1 = (Inr (answered_row t q, c, evs), d2)" and
    rest: "if b then \<exists>run' job. queueBlockingQuestionResume (answered_row t q) d2 = (Inr (run', job), d') \<and>
        anr_run res = run' \<and> anr_job res = Some job
      else d' = d2 \<and> anr_run res = run \<and> anr_job res = None"
    by (rule answer_tx_Inr)
  have "holds_claim d1 j l" using claim_check_spares [OF chk wf' h'] .
  then have "holds_claim d2 j l"
    using tx_keepsD [OF quiet_record_answer rec] by (simp add: holds_claim_def quiet_def del: claimed_iff)
  then show ?thesis using rest resume_spares by (cases b) auto
qed

text \<open>The sample with an open Question of a waiting Run whose Engine is live, and its answer.\<close>

definition sample_question :: question where
  "sample_question = \<lparr>qst_id = ''q1'', qst_project_id = ''p1'', qst_issue_id = ''i1'', qst_run_id = ''r1'',
     qst_prompt = ''Which?'', qst_kind = ''TEXT'', qst_options = JArr [], qst_recommendation = None,
     qst_custom = False, qst_blocking = True, qst_status = QST_OPEN, qst_created_at = 30, qst_answered_at = None\<rparr>"

definition sample_waiting :: db where
  "sample_waiting = sample_claimed\<lparr>db_runs := [sample_run ''r1'' 1 RUN_WAITING_FOR_INPUT],
     db_questions := [sample_question],
     db_bindings := [\<lparr>bnd_question_id = ''q1'', bnd_project_id = ''p1'', bnd_run_id = ''r1'', bnd_engine = ''opencode'',
       bnd_correlation_key = ''k1'', bnd_state = BND_OPEN\<rparr>]\<rparr>"

definition sample_answer :: answer_command where
  "sample_answer = \<lparr>anc_project_id = ''p1'', anc_question_id = ''q1'',
     anc_answer = \<lparr>ans_kind = ''TEXT'', ans_text = Some ''yes'', ans_option_ids = []\<rparr>,
     anc_actor_type = ''HUMAN'', anc_actor_id = None\<rparr>"

lemmas answer_run = tx_run AnswerQuestion_def answer_tx_def answer_target_def find_question_def binding_of_question_def
  validateQuestionAnswer_def answer_claim_check_def hasLiveClaim_def retireExpiredInteractiveClaims_def
  record_answer_def mark_answered_def record_answer_decision_def decision_check_def decision_unique_def
  questionAnswerOutcome_def append_answer_events_def question_event_def set_binding_state_def
  answer_queues_resume_def queueBlockingQuestionResume_def requeue_waiting_run_def
  appendEventTx_def validateEventReferences_def event_references_valid_def next_event_sequence_def
  appended_event_def event_unique_def event_check_def zero_event_def EmptyObject_def objectJSON_def
  is_object_def visible_to_def

lemma answer_texts [sample_eval]:
  "TrimSpace ''q1'' = ''q1''" "TrimSpace ''yes'' = ''yes''" "btrim ''yes'' = ''yes''"
  "btrim ''QUESTION_ANSWER'' = ''QUESTION_ANSWER''"
  by code_simp+

lemma sample_is_answered:
  obtains res d' where "AnswerQuestion sample_answer 50 sample_waiting = (Inr res, d')"
proof -
  have "\<exists>res d'. AnswerQuestion sample_answer 50 sample_waiting = (Inr res, d')"
    by (simp add: answer_run sample_answer_def sample_waiting_def sample_question_def sample_states sample_eval)
  then show ?thesis using that by blast
qed

theorem answer_once_witness:
  "\<exists>res d'. AnswerQuestion sample_answer 50 sample_waiting = (Inr res, d') \<and>
     AnswerQuestion sample_answer 51 d' = (Inl ErrConflict, d')"
proof (rule sample_is_answered)
  fix res d' assume ok: "AnswerQuestion sample_answer 50 sample_waiting = (Inr res, d')"
  show ?thesis using answer_once [OF ok, of sample_answer 51] ok by (simp add: sample_answer_def)
qed

theorem answer_spares_live_claims_witness:
  "\<exists>res d'. AnswerQuestion sample_answer 50 sample_waiting = (Inr res, d') \<and>
     holds_claim d' (sample_job ''j1'' ''r1'' JOB_START JOB_CLAIMED) sample_lease"
proof (rule sample_is_answered)
  fix res d' assume ok: "AnswerQuestion sample_answer 50 sample_waiting = (Inr res, d')"
  have wf: "sched_wf sample_waiting"
    by (simp add: wf_defs sample_eval sample_states sample_waiting_def)
  have "holds_claim sample_waiting (sample_job ''j1'' ''r1'' JOB_START JOB_CLAIMED) sample_lease"
    by (simp add: holds_claim_def sample_eval sample_states sample_waiting_def)
  then show ?thesis using answer_spares_live_claims [OF wf ok] ok by (auto simp: sample_eval)
qed

end
