(* ===== verification/Scheduler_Reconciliation.thy ===== *)
theory Scheduler_Reconciliation
  imports Questions
begin

text \<open>
  Recovery after a lease has expired (store/postgres/scheduler_reconciliation.go and
  scheduler_question_reconciliation.go): a reconciler takes over the lease of a claimed job
  and later reports what became of the execution. Ownership is given up only by an outcome
  that says the execution is over; UNKNOWN and ACTIVE keep it.
\<close>

section \<open>Releasing what a reconciled job holds\<close>

definition releaseReconciledOwnership :: "id \<Rightarrow> id \<Rightarrow> id \<Rightarrow> (db, unit) tx" where
  "releaseReconciledOwnership projectID jobID leaseToken =
     tx_bind (sql_delete db_reservations db_reservations_update
                (\<lambda>d v. rsv_project_id v = projectID \<and> rsv_job_id v = jobID)) (\<lambda>_.
     tx_bind (sql_delete db_leases db_leases_update
                (\<lambda>d l. lse_job_id l = jobID \<and> lse_token l = leaseToken)) (\<lambda>n.
     tx_guard (n = 1) ErrNotFound))"

section \<open>Taking over an expired claim\<close>

definition expired_candidate :: "db \<Rightarrow> (id \<Rightarrow> bool) \<Rightarrow> lease \<times> job \<times> run \<Rightarrow> bool" where
  "expired_candidate d locked c \<longleftrightarrow> (case c of (l, j, r) \<Rightarrow>
     job_id j = lse_job_id l \<and> job_on j r \<and> job_state j = JOB_CLAIMED \<and> lse_expires_at l \<le> db_now d \<and>
     \<not> locked (job_id j) \<and> \<not> locked (run_id r))"

definition expired_candidates :: "(id \<Rightarrow> bool) \<Rightarrow> db \<Rightarrow> (lease \<times> job \<times> run) list" where
  "expired_candidates locked d =
     filter (expired_candidate d locked)
       (List.product (db_leases d) (List.product (db_jobs d) (db_runs d)))"

text \<open>The Agent and Model Profile of a Run where they are visible to its project, else empty.\<close>

definition resolved_agent :: "db \<Rightarrow> run \<Rightarrow> agent option" where
  "resolved_agent d r = List.find (\<lambda>a. Some (agt_id a) = run_agent_id r \<and>
     visible_to (agt_project_id a) (run_project_id r)) (db_agents d)"

definition resolved_config :: "db \<Rightarrow> run \<Rightarrow> id \<times> id" where
  "resolved_config d r =
     (case resolved_agent d r of
        None \<Rightarrow> ([], [])
      | Some a \<Rightarrow> (agt_id a,
          (case List.find (\<lambda>m. mdl_id m = agt_model_profile_id a \<and>
                               visible_to (mdl_project_id m) (run_project_id r)) (db_model_profiles d) of
             None \<Rightarrow> [] | Some m \<Rightarrow> mdl_id m)))"

definition lockExpiredReconciliationCandidate ::
  "(id \<Rightarrow> bool) \<Rightarrow> (db, (job \<times> run \<times> id \<times> id \<times> lease) option) tx" where
  "lockExpiredReconciliationCandidate locked = tx_get (\<lambda>d.
     map_option (\<lambda>(l, j, r). (j, r, fst (resolved_config d r), snd (resolved_config d r), l))
       (first_by (\<lambda>(l, j, r). (lse_expires_at l, job_created_at j, job_id j)) (expired_candidates locked d)))"

definition resetInvalidQueuedClaim :: "job \<Rightarrow> lease \<Rightarrow> (db, unit) tx" where
  "resetInvalidQueuedClaim job lease =
     tx_bind (sql_update db_jobs db_jobs_update
                (\<lambda>d j. job_id j = job_id job \<and> job_state j = JOB_CLAIMED)
                (\<lambda>d j. j\<lparr>job_state := JOB_QUEUED, job_wait_reason := Some schedulerConfigurationWaitReason,
                          job_available_at := db_now d + 1000000, job_updated_at := db_now d\<rparr>)) (\<lambda>_.
     tx_bind (sql_update db_runs db_runs_update
                (\<lambda>d r. run_project_id r = job_project_id job \<and> run_id r = job_run_id job \<and>
                       run_status r = RUN_QUEUED)
                (\<lambda>d r. r\<lparr>run_queue_reason := Some schedulerConfigurationWaitReason,
                          run_updated_at := db_now d\<rparr>)) (\<lambda>_.
     tx_bind (sql_delete db_reservations db_reservations_update
                (\<lambda>d v. rsv_project_id v = job_project_id job \<and> rsv_job_id v = job_id job)) (\<lambda>_.
     tx_bind (sql_delete db_leases db_leases_update
                (\<lambda>d l. lse_job_id l = job_id job \<and> lse_token l = lse_token lease)) (\<lambda>n.
     tx_guard (n = 1) ErrNotFound))))"

text \<open>
  A Run whose execution was lost while a Question was pending. With the answer already
  there, the Run is queued again; with the Question still open, the Run waits for it without
  holding anything.
\<close>

definition answered_question_of_run :: "run \<Rightarrow> (db, question option) tx" where
  "answered_question_of_run run = tx_get (\<lambda>d.
     first_by (\<lambda>q. (qst_answered_at q = None, case qst_answered_at q of None \<Rightarrow> 0 | Some t \<Rightarrow> t, qst_id q))
       (filter (\<lambda>q. qst_project_id q = run_project_id run \<and> qst_run_id q = run_id run \<and> qst_blocking q \<and>
          qst_status q = QST_ANSWERED \<and>
          exists_row (\<lambda>b. bnd_project_id b = qst_project_id q \<and> bnd_run_id b = qst_run_id q \<and>
            bnd_question_id b = qst_id q \<and> bnd_state b = BND_ANSWERED) (db_bindings d) \<and>
          \<not> exists_row (\<lambda>b. bnd_project_id b = qst_project_id q \<and> bnd_run_id b = qst_run_id q \<and>
            bnd_state b = BND_OPEN) (db_bindings d)) (db_questions d)))"

definition finish_and_release :: "job \<Rightarrow> run \<Rightarrow> lease \<Rightarrow> (db, unit) tx" where
  "finish_and_release job run lease =
     tx_bind (finish_claimed_job (job_project_id job) (job_id job) (job_run_id job) JOB_DONE None) (\<lambda>n.
     tx_bind (tx_guard (n = 1) ErrNotFound) (\<lambda>_.
     releaseReconciledOwnership (run_project_id run) (job_id job) (lse_token lease)))"

definition wait_run_row :: "run \<Rightarrow> (db, nat) tx" where
  "wait_run_row run =
     sql_update db_runs db_runs_update
       (\<lambda>d r. run_project_id r = run_project_id run \<and> run_id r = run_id run \<and>
              (run_status r = RUN_STARTING \<or> run_status r = RUN_RUNNING))
       (\<lambda>d r. r\<lparr>run_status := RUN_WAITING_FOR_INPUT, run_queue_reason := None, run_failure_reason := None,
                 run_completed_at := None, run_updated_at := db_now d\<rparr>)"

definition open_blocking_question :: "run \<Rightarrow> (db, bool) tx" where
  "open_blocking_question run =
     sql_exists db_questions (\<lambda>d q. qst_project_id q = run_project_id run \<and> qst_run_id q = run_id run \<and>
       qst_blocking q \<and> qst_status q = QST_OPEN)"

definition resolveExpiredBlockingQuestion :: "job \<Rightarrow> run \<Rightarrow> lease \<Rightarrow> (db, bool) tx" where
  "resolveExpiredBlockingQuestion job run lease =
     (if run_status run = RUN_WAITING_FOR_INPUT then
        tx_bind (answered_question_of_run run) (\<lambda>found.
        case found of
          None \<Rightarrow> tx_return False
        | Some q \<Rightarrow>
            tx_bind (finish_and_release job run lease) (\<lambda>_.
            tx_bind (queueBlockingQuestionResume q) (\<lambda>_.
            tx_return True)))
      else if run_status run \<noteq> RUN_STARTING \<and> run_status run \<noteq> RUN_RUNNING then tx_return False
      else
        tx_bind (open_blocking_question run) (\<lambda>pending.
        if \<not> pending then tx_return False
        else
          tx_bind (wait_run_row run) (\<lambda>_.
          tx_bind (finish_and_release job run lease) (\<lambda>_.
          tx_return True))))"

text \<open>The new lease on the job; a token that is already in use violates its UNIQUE constraint.\<close>

definition renew_expired_lease :: "job \<Rightarrow> string \<Rightarrow> int \<Rightarrow> lease \<Rightarrow> (db, lease) tx" where
  "renew_expired_lease job ownerID leaseMicros old =
     tx_bind gen_random_uuid (\<lambda>token.
     tx_bind (sql_exists db_leases (\<lambda>d l. lse_token l = token \<and> lse_job_id l \<noteq> job_id job)) (\<lambda>used.
     tx_bind (tx_guard (\<not> used) (notFound UniqueViolation)) (\<lambda>_.
     sql_update_row db_leases db_leases_update
       (\<lambda>d l. lse_job_id l = job_id job \<and> lse_token l = lse_token old \<and> lse_expires_at l \<le> db_now d)
       (\<lambda>d l. l\<lparr>lse_owner_id := ownerID, lse_token := token, lse_acquired_at := db_now d,
                 lse_expires_at := db_now d + leaseMicros\<rparr>))))"

definition claim_expired_tx :: "(id \<Rightarrow> bool) \<Rightarrow> string \<Rightarrow> int \<Rightarrow> (db, (job \<times> lease \<times> run \<times> id \<times> id) option) tx" where
  "claim_expired_tx locked ownerID leaseMicros =
     tx_bind (lockExpiredReconciliationCandidate locked) (\<lambda>found.
     case found of
       None \<Rightarrow> tx_return None
     | Some (job, run, agentID, modelProfileID, oldLease) \<Rightarrow>
         tx_bind (resolveExpiredBlockingQuestion job run oldLease) (\<lambda>resolvedQuestion.
         if resolvedQuestion then tx_return None
         else if run_status run = RUN_QUEUED \<and> (agentID = [] \<or> modelProfileID = []) then
           tx_bind (resetInvalidQueuedClaim job oldLease) (\<lambda>_. tx_return None)
         else
           tx_bind (renew_expired_lease job ownerID leaseMicros oldLease) (\<lambda>lease.
           tx_return (Some (job, lease, run, agentID, modelProfileID)))))"

definition claimExpiredJobForReconciliation ::
  "(id \<Rightarrow> bool) \<Rightarrow> string \<Rightarrow> int \<Rightarrow> time \<Rightarrow> db \<Rightarrow>
   (store_error + (job \<times> lease \<times> run \<times> id \<times> id) option) \<times> db" where
  "claimExpiredJobForReconciliation locked ownerID leaseDuration now d =
     (let leaseMicros = Microseconds leaseDuration in
      if TrimSpace ownerID = [] \<or> leaseMicros \<le> 0 then (Inl ErrInvalidArgument, d)
      else run_tx now (claim_expired_tx locked ownerID leaseMicros) d)"

section \<open>Reporting the outcome\<close>

datatype reconciliation_outcome =
    OutcomeActive | OutcomeRetry | OutcomeCompleted | OutcomeFailed | OutcomeCancelled | OutcomeUnknown
  | OutcomeOther string

record scheduler_reconciliation =
  rcn_project_id :: id
  rcn_job_id :: id
  rcn_run_id :: id
  rcn_lease_token :: id
  rcn_outcome :: reconciliation_outcome
  rcn_failure_reason :: "string option"

definition ready_handoff :: "db \<Rightarrow> run \<Rightarrow> bool" where
  "ready_handoff d parent \<longleftrightarrow>
     exists_row (\<lambda>g. dlg_project_id g = run_project_id parent \<and> dlg_parent_run_id g = Some (run_id parent) \<and>
       dlg_issue_id g = run_issue_id parent \<and>
       exists_row (\<lambda>c. run_project_id c = dlg_project_id g \<and> run_id c = dlg_delegated_run_id g \<and>
         run_issue_id c = run_issue_id parent \<and> run_workspace_id c = run_workspace_id parent \<and>
         run_status c = RUN_QUEUED \<and> run_queue_reason c = Some DelegationWorkspaceHandoffReadyReason)
         (db_runs d) \<and>
       exists_row (\<lambda>j. job_project_id j = dlg_project_id g \<and> job_run_id j = dlg_delegated_run_id g \<and>
         job_kind j = JOB_START \<and> job_state j = JOB_QUEUED \<and>
         job_wait_reason j = Some DelegationWorkspaceHandoffReadyReason) (db_jobs d)) (db_delegations d)"

definition pause_running_row :: "run \<Rightarrow> (db, run) tx" where
  "pause_running_row current =
     sql_update_row db_runs db_runs_update
       (\<lambda>d r. run_project_id r = run_project_id current \<and> run_id r = run_id current \<and> run_status r = RUN_RUNNING)
       (\<lambda>d r. r\<lparr>run_status := RUN_PAUSED, run_queue_reason := None, run_updated_at := db_now d\<rparr>)"

definition recoverReadyDelegationWorkspaceHandoff ::
  "run \<Rightarrow> scheduler_reconciliation \<Rightarrow> (db, bool \<times> run) tx" where
  "recoverReadyDelegationWorkspaceHandoff current input =
     (if run_status current \<noteq> RUN_RUNNING then tx_return (False, current)
      else
        tx_bind (tx_get (\<lambda>d. ready_handoff d current)) (\<lambda>ready.
        if \<not> ready then tx_return (False, current)
        else
          tx_bind (activeRunExecutionSessionTx (run_project_id current) (run_id current)) (\<lambda>live.
          if live then tx_return (False, current)
          else
            tx_bind (pause_running_row current) (\<lambda>run.
            tx_bind (releaseReadyDelegationWorkspaceHandoffs run) (\<lambda>_.
            tx_bind (finish_claimed_job (rcn_project_id input) (rcn_job_id input) (rcn_run_id input)
                       JOB_DONE None) (\<lambda>n.
            tx_bind (tx_guard (n = 1) ErrNotFound) (\<lambda>_.
            tx_bind (releaseReconciledOwnership (rcn_project_id input) (rcn_job_id input)
                       (rcn_lease_token input)) (\<lambda>_.
            tx_return (True, run)))))))))"

definition requeue_active_row :: "id \<Rightarrow> id \<Rightarrow> (db, run) tx" where
  "requeue_active_row projectID runID =
     sql_update_row db_runs db_runs_update
       (\<lambda>d r. run_project_id r = projectID \<and> run_id r = runID \<and>
              (run_status r = RUN_STARTING \<or> run_status r = RUN_RUNNING))
       (\<lambda>d r. r\<lparr>run_status := RUN_QUEUED, run_queue_reason := Some schedulerReconciliationRetryReason,
                 run_failure_reason := None, run_completed_at := None, run_updated_at := db_now d\<rparr>)"

definition requeue_claimed_job :: "id \<Rightarrow> id \<Rightarrow> id \<Rightarrow> (db, nat) tx" where
  "requeue_claimed_job projectID jobID runID =
     sql_update db_jobs db_jobs_update
       (\<lambda>d j. job_project_id j = projectID \<and> job_id j = jobID \<and> job_run_id j = runID \<and>
              job_state j = JOB_CLAIMED)
       (\<lambda>d j. j\<lparr>job_state := JOB_QUEUED, job_wait_reason := Some schedulerReconciliationRetryReason,
                 job_available_at := db_now d, job_updated_at := db_now d\<rparr>)"

definition end_active_row :: "id \<Rightarrow> id \<Rightarrow> run_status \<Rightarrow> string option \<Rightarrow> (db, run) tx" where
  "end_active_row projectID runID status failureReason =
     sql_update_row db_runs db_runs_update
       (\<lambda>d r. run_project_id r = projectID \<and> run_id r = runID \<and>
              (run_status r = RUN_STARTING \<or> run_status r = RUN_RUNNING))
       (\<lambda>d r. r\<lparr>run_status := status, run_queue_reason := None, run_failure_reason := failureReason,
                 run_completed_at := Some (db_now d), run_updated_at := db_now d\<rparr>)"

definition terminal_effects :: "scheduler_reconciliation \<Rightarrow> reconciliation_outcome \<Rightarrow>
   store_error + run_status \<times> job_state \<times> string option" where
  "terminal_effects input outcome =
     (case outcome of
        OutcomeFailed \<Rightarrow>
          (case rcn_failure_reason input of
             None \<Rightarrow> Inl ErrInvalidArgument
           | Some s \<Rightarrow> if TrimSpace s = [] then Inl ErrInvalidArgument
                       else Inr (RUN_FAILED, JOB_FAILED, Some s))
      | OutcomeCancelled \<Rightarrow> Inr (RUN_CANCELLED, JOB_CANCELLED, None)
      | OutcomeCompleted \<Rightarrow> Inr (RUN_COMPLETED, JOB_DONE, None)
      | _ \<Rightarrow> Inl ErrInvalidArgument)"

definition resolveReconciliationTerminal ::
  "scheduler_reconciliation \<Rightarrow> reconciliation_outcome \<Rightarrow> (db, run \<times> event list) tx" where
  "resolveReconciliationTerminal input outcome =
     (case terminal_effects input outcome of
        Inl e \<Rightarrow> tx_fail e
      | Inr (runStatus, jobState, failureReason) \<Rightarrow>
          tx_bind (end_active_row (rcn_project_id input) (rcn_run_id input) runStatus failureReason) (\<lambda>run.
          tx_bind (finish_claimed_job (rcn_project_id input) (rcn_job_id input) (rcn_run_id input)
                     jobState None) (\<lambda>_.
          tx_bind (finalizeDelegatedRunTx run) (\<lambda>delegationEvents.
          tx_bind (releaseReconciledOwnership (rcn_project_id input) (rcn_job_id input)
                     (rcn_lease_token input)) (\<lambda>_.
          tx_return (run, delegationEvents))))))"

definition reconcile_retry :: "scheduler_reconciliation \<Rightarrow> (db, run \<times> event list) tx" where
  "reconcile_retry input =
     tx_bind (requeue_active_row (rcn_project_id input) (rcn_run_id input)) (\<lambda>run.
     tx_bind (requeue_claimed_job (rcn_project_id input) (rcn_job_id input) (rcn_run_id input)) (\<lambda>_.
     tx_bind (releaseReconciledOwnership (rcn_project_id input) (rcn_job_id input) (rcn_lease_token input)) (\<lambda>_.
     tx_return (run, []))))"

text \<open>A retry under a parent that has ended becomes a cancellation.\<close>

definition effective_outcome :: "bool \<Rightarrow> reconciliation_outcome \<Rightarrow> reconciliation_outcome" where
  "effective_outcome parentTerminal outcome =
     (if parentTerminal \<and> outcome = OutcomeRetry then OutcomeCancelled else outcome)"

definition outcome_branch :: "run \<Rightarrow> scheduler_reconciliation \<Rightarrow> reconciliation_outcome \<Rightarrow> (db, run \<times> event list) tx" where
  "outcome_branch current input outcome =
     (case outcome of
       OutcomeActive \<Rightarrow> tx_return (current, [])
     | OutcomeUnknown \<Rightarrow>
         tx_bind (recoverReadyDelegationWorkspaceHandoff current input) (\<lambda>(recovered, run).
         tx_return (if recovered then run else current, []))
     | OutcomeRetry \<Rightarrow> reconcile_retry input
     | OutcomeCompleted \<Rightarrow> resolveReconciliationTerminal input outcome
     | OutcomeFailed \<Rightarrow> resolveReconciliationTerminal input outcome
     | OutcomeCancelled \<Rightarrow> resolveReconciliationTerminal input outcome
     | OutcomeOther _ \<Rightarrow> tx_fail ErrInvalidArgument)"

definition reconcile_tx :: "scheduler_reconciliation \<Rightarrow> (db, run \<times> event list) tx" where
  "reconcile_tx input =
     tx_bind (lockFencedRun (rcn_project_id input) (rcn_job_id input) (rcn_run_id input)
                (rcn_lease_token input)) (\<lambda>current.
     tx_bind (delegatedParentTerminalTx current) (\<lambda>parentTerminal.
     outcome_branch current input (effective_outcome parentTerminal (rcn_outcome input))))"

definition resolveReconciliation ::
  "scheduler_reconciliation \<Rightarrow> time \<Rightarrow> db \<Rightarrow> (store_error + run \<times> event list) \<times> db" where
  "resolveReconciliation input now d =
     (if TrimSpace (rcn_project_id input) = [] \<or> TrimSpace (rcn_job_id input) = [] \<or>
         TrimSpace (rcn_run_id input) = [] \<or> TrimSpace (rcn_lease_token input) = [] \<or>
         rcn_outcome input = OutcomeOther []
      then (Inl ErrInvalidArgument, d)
      else run_tx now (reconcile_tx input) d)"

section \<open>Ownership\<close>

text \<open>
  What ties the lease and the reservations of a claimed job to it: they are deleted by job,
  token and project.
\<close>

definition owned_by :: "db \<Rightarrow> job \<Rightarrow> id \<Rightarrow> bool" where
  "owned_by d J tok \<longleftrightarrow> (\<forall>l\<in>set (db_leases d). lse_job_id l = job_id J \<longrightarrow> lse_token l = tok) \<and>
     (\<forall>v\<in>set (db_reservations d). rsv_job_id v = job_id J \<longrightarrow> rsv_project_id v = job_project_id J)"

lemma owned_byI:
  assumes "sched_wf d" "J \<in> set (claimed d)" "l \<in> set (db_leases d)" "lse_job_id l = job_id J"
  shows "owned_by d J (lse_token l)"
proof -
  have keys: "keys_wf d" and own: "ownership_wf d" using assms(1) by (auto simp: sched_wf_def)
  have "\<forall>l'\<in>set (db_leases d). lse_job_id l' = job_id J \<longrightarrow> lse_token l' = lse_token l"
    using keys assms(3,4) unfolding keys_wf_def by (metis distinct_key_eq)
  moreover have "rsv_project_id v = job_project_id J"
    if v: "v \<in> set (db_reservations d)" "rsv_job_id v = job_id J" for v
  proof -
    obtain k where k: "k \<in> set (claimed d)" "job_id k = rsv_job_id v" "job_project_id k = rsv_project_id v"
      using own v unfolding ownership_wf_def by metis
    then have "k = J" using assms(2) v keys by (auto simp: keys_wf_def intro: distinct_key_eq)
    then show ?thesis using k by simp
  qed
  ultimately show ?thesis by (simp add: owned_by_def)
qed

text \<open>A step that ends the claim of \<open>J\<close> in the job table and changes nothing else there.\<close>

definition unclaims :: "db \<Rightarrow> db \<Rightarrow> job \<Rightarrow> bool" where
  "unclaims d d' J \<longleftrightarrow> set (claimed d') = {j \<in> set (claimed d). job_id j \<noteq> job_id J} \<and>
     map job_id (db_jobs d') = map job_id (db_jobs d)"

lemma unclaims_update:
  assumes "db_jobs d' = update_rows (\<lambda>j. job_project_id j = p \<and> job_id j = jid \<and> job_run_id j = x \<and>
        job_state j = JOB_CLAIMED) f (db_jobs d)"
    and "\<And>j. job_id (f j) = job_id j" "\<And>j. job_state (f j) \<noteq> JOB_CLAIMED"
    and "keys_wf d" "J \<in> set (db_jobs d)" "job_id J = jid" "job_project_id J = p" "job_run_id J = x"
  shows "unclaims d d' J"
proof -
  have only: "j = J" if "j \<in> set (db_jobs d)" "job_id j = jid" for j
    using that assms by (auto simp: keys_wf_def intro: distinct_key_eq)
  then have "set (claimed d') = {j \<in> set (claimed d). job_id j \<noteq> job_id J}"
    using assms(2,3,6-8) by (auto simp: assms(1) in_update_rows dest: only)
  then show ?thesis using assms(1,2) by (simp add: unclaims_def map_update_rows)
qed

lemma finish_claimed_job_Inr:
  assumes "finish_claimed_job p jid x st why d = (Inr n, d')" "st \<noteq> JOB_CLAIMED"
    and "keys_wf d" "J \<in> set (db_jobs d)" "job_id J = jid" "job_project_id J = p" "job_run_id J = x"
  shows "unclaims d d' J" "db_runs d' = db_runs d" "db_leases d' = db_leases d"
    "db_reservations d' = db_reservations d" "same_config d d'"
proof -
  have d': "db_jobs d' = update_rows (\<lambda>j. job_project_id j = p \<and> job_id j = jid \<and> job_run_id j = x \<and>
        job_state j = JOB_CLAIMED) (\<lambda>j. j\<lparr>job_state := st, job_wait_reason := why, job_updated_at := db_now d\<rparr>) (db_jobs d)"
    using assms(1) by (auto simp: finish_claimed_job_def tx_simps)
  show "unclaims d d' J" using assms by (intro unclaims_update [OF d']) auto
  show "db_runs d' = db_runs d" "db_leases d' = db_leases d"
    "db_reservations d' = db_reservations d" "same_config d d'"
    using assms(1) by (auto simp: finish_claimed_job_def tx_simps same_config_def)
qed

lemma requeue_claimed_job_Inr:
  assumes "requeue_claimed_job p jid x d = (Inr n, d')"
    and "keys_wf d" "J \<in> set (db_jobs d)" "job_id J = jid" "job_project_id J = p" "job_run_id J = x"
  shows "unclaims d d' J" "db_runs d' = db_runs d" "db_leases d' = db_leases d"
    "db_reservations d' = db_reservations d" "same_config d d'"
proof -
  have d': "db_jobs d' = update_rows (\<lambda>j. job_project_id j = p \<and> job_id j = jid \<and> job_run_id j = x \<and>
        job_state j = JOB_CLAIMED) (\<lambda>j. j\<lparr>job_state := JOB_QUEUED, job_wait_reason := Some schedulerReconciliationRetryReason,
                 job_available_at := db_now d, job_updated_at := db_now d\<rparr>) (db_jobs d)"
    using assms(1) by (auto simp: requeue_claimed_job_def tx_simps)
  show "unclaims d d' J" using assms by (intro unclaims_update [OF d']) auto
  show "db_runs d' = db_runs d" "db_leases d' = db_leases d"
    "db_reservations d' = db_reservations d" "same_config d d'"
    using assms(1) by (auto simp: requeue_claimed_job_def tx_simps same_config_def)
qed

lemma release_owned_settles:
  assumes rel: "releaseReconciledOwnership (job_project_id J) (job_id J) tok d = (Inr u, d')"
    and own: "owned_by d J tok" and gone: "\<forall>j\<in>set (claimed d). job_id j \<noteq> job_id J"
  shows "settles d d' J" "db_runs d' = db_runs d" "db_jobs d' = db_jobs d"
proof -
  have d': "d' = d\<lparr>db_reservations := filter (\<lambda>v. \<not> (rsv_project_id v = job_project_id J \<and> rsv_job_id v = job_id J)) (db_reservations d),
      db_leases := filter (\<lambda>l. \<not> (lse_job_id l = job_id J \<and> lse_token l = tok)) (db_leases d)\<rparr>"
    using rel unfolding releaseReconciledOwnership_def by (auto simp: tx_simps)
  show "db_runs d' = db_runs d" "db_jobs d' = db_jobs d" by (simp_all add: d')
  have same: "claimed d' = claimed d" "same_config d d'" by (simp_all add: d' claimed_def same_config_def)
  show "settles d d' J"
    unfolding settles_def
  proof (intro conjI ballI impI)
    show "keys_kept d d'" by (auto simp: keys_kept_def keys_wf_def d' distinct_map_filter_rows)
    show "\<exists>p. db_leases d' = filter p (db_leases d)" "\<exists>p. db_reservations d' = filter p (db_reservations d)"
      by (auto simp: d')
    show "lse_job_id l \<noteq> job_id J" if "l \<in> set (db_leases d')" for l
      using that own by (auto simp: d' owned_by_def)
    show "rsv_job_id v \<noteq> job_id J" if "v \<in> set (db_reservations d')" for v
      using that own by (auto simp: d' owned_by_def)
    show "set (claimed d') = {j \<in> set (claimed d). job_id j \<noteq> job_id J}" unfolding same(1) using gone by blast
    show "\<exists>r'\<in>set (db_runs d'). same_place r r' \<and> executing (run_status r')"
      if "r \<in> set (db_runs d)" "executing (run_status r)" for r
      by (rule bexI [of _ r]) (use that in \<open>simp_all add: d'\<close>)
  qed (rule same)
qed

text \<open>
  The three stages of every reconciliation that ends a claim: the Run (and perhaps the job)
  changes, other tables follow, ownership is released.
\<close>

lemma settles_stages:
  assumes keys: "keys_wf d" and own: "owned_by d J tok"
    and un: "unclaims d d1 J"
    and run: "db_runs d1 = update_rows q f (db_runs d)" "\<And>r. q r \<Longrightarrow> job_on J r" "\<And>r. run_id (f r) = run_id r"
    and same: "db_leases d1 = db_leases d" "db_reservations d1 = db_reservations d" "same_config d d1"
    and mid: "quiet d1 d2"
    and rel: "releaseReconciledOwnership (job_project_id J) (job_id J) tok d2 = (Inr u, d3)"
  shows "settles d d3 J"
proof -
  have keys1: "keys_wf d1" using keys un run same by (simp add: keys_wf_def unclaims_def map_update_rows)
  have "claimed d2 = claimed d1" "db_leases d2 = db_leases d" "db_reservations d2 = db_reservations d"
    using mid same by (auto simp: quiet_def)
  then have "owned_by d2 J tok" "\<forall>j\<in>set (claimed d2). job_id j \<noteq> job_id J"
    using own un by (auto simp: owned_by_def unclaims_def simp del: claimed_iff)
  note r = release_owned_settles [OF rel this]
  show "settles d d3 J"
    using un by (intro settles_through [OF keys1 _ run(1,2) same mid r(1,2)]) (auto simp: unclaims_def simp del: claimed_iff)
qed

text \<open>Retry and the terminal outcomes.\<close>

lemma reconcile_retry_settles:
  assumes ret: "reconcile_retry input d = (Inr res, d')" and wf: "sched_wf d"
    and J: "J \<in> set (claimed d)" "job_id J = rcn_job_id input" "job_project_id J = rcn_project_id input"
      "job_run_id J = rcn_run_id input"
    and own: "owned_by d J (rcn_lease_token input)"
  shows "settles d d' J"
proof -
  have keys: "keys_wf d" using wf by (simp add: sched_wf_def)
  obtain run d1 n d2 u where
    rr: "requeue_active_row (rcn_project_id input) (rcn_run_id input) d = (Inr run, d1)" and
    rj: "requeue_claimed_job (rcn_project_id input) (rcn_job_id input) (rcn_run_id input) d1 = (Inr n, d2)" and
    rel: "releaseReconciledOwnership (rcn_project_id input) (rcn_job_id input) (rcn_lease_token input) d2 = (Inr u, d')"
    using ret unfolding reconcile_retry_def by (auto simp: tx_bind_Inr tx_return_eq)
  obtain f where d1: "db_runs d1 = update_rows (\<lambda>r. run_project_id r = rcn_project_id input \<and>
      run_id r = rcn_run_id input \<and> (run_status r = RUN_STARTING \<or> run_status r = RUN_RUNNING)) f (db_runs d)"
      "\<And>r. run_id (f r) = run_id r" "db_jobs d1 = db_jobs d" "db_leases d1 = db_leases d"
      "db_reservations d1 = db_reservations d" "same_config d d1"
    using rr unfolding requeue_active_row_def by (auto simp: tx_simps same_config_def)
  have keys1: "keys_wf d1" using keys d1 by (simp add: keys_wf_def map_update_rows)
  have "J \<in> set (db_jobs d1)" using J(1) d1(3) by simp
  note j = requeue_claimed_job_Inr [OF rj keys1 this J(2-4)]
  have un: "unclaims d d2 J" using j(1) d1(3) by (simp add: unclaims_def claimed_def)
  note runs2 = j(2) [unfolded d1(1)]
  show "settles d d' J"
    by (rule settles_stages [OF keys own un runs2, of d2])
      (use j d1 rel J in \<open>auto simp: job_on_def same_config_def quiet.refl\<close>)
qed

lemma reconcile_terminal_settles:
  assumes ret: "resolveReconciliationTerminal input outcome d = (Inr res, d')" and wf: "sched_wf d"
    and J: "J \<in> set (claimed d)" "job_id J = rcn_job_id input" "job_project_id J = rcn_project_id input"
      "job_run_id J = rcn_run_id input"
    and own: "owned_by d J (rcn_lease_token input)"
  shows "settles d d' J"
proof -
  have keys: "keys_wf d" using wf by (simp add: sched_wf_def)
  obtain st js fr where eff: "terminal_effects input outcome = Inr (st, js, fr)"
    using ret unfolding resolveReconciliationTerminal_def
    by (cases "terminal_effects input outcome") (auto simp: tx_simps)
  then have js: "js \<noteq> JOB_CLAIMED"
    by (auto simp: terminal_effects_def split: reconciliation_outcome.splits option.splits if_splits)
  obtain run d1 n d2 evs d3 u where
    er: "end_active_row (rcn_project_id input) (rcn_run_id input) st fr d = (Inr run, d1)" and
    fj: "finish_claimed_job (rcn_project_id input) (rcn_job_id input) (rcn_run_id input) js None d1 = (Inr n, d2)" and
    fin: "finalizeDelegatedRunTx run d2 = (Inr evs, d3)" and
    rel: "releaseReconciledOwnership (rcn_project_id input) (rcn_job_id input) (rcn_lease_token input) d3 = (Inr u, d')"
    using ret eff unfolding resolveReconciliationTerminal_def by (auto simp: tx_bind_Inr tx_return_eq)
  obtain f where d1: "db_runs d1 = update_rows (\<lambda>r. run_project_id r = rcn_project_id input \<and>
      run_id r = rcn_run_id input \<and> (run_status r = RUN_STARTING \<or> run_status r = RUN_RUNNING)) f (db_runs d)"
      "\<And>r. run_id (f r) = run_id r" "db_jobs d1 = db_jobs d" "db_leases d1 = db_leases d"
      "db_reservations d1 = db_reservations d" "same_config d d1"
    using er unfolding end_active_row_def by (auto simp: tx_simps same_config_def)
  have keys1: "keys_wf d1" using keys d1 by (simp add: keys_wf_def map_update_rows)
  have "J \<in> set (db_jobs d1)" using J(1) d1(3) by simp
  note j = finish_claimed_job_Inr [OF fj js keys1 this J(2-4)]
  have un: "unclaims d d2 J" using j(1) d1(3) by (simp add: unclaims_def claimed_def)
  note runs2 = j(2) [unfolded d1(1)]
  have "quiet d2 d3" using quiet_finalizeDelegatedRun fin by (rule tx_keepsD)
  then show "settles d d' J"
    by (intro settles_stages [OF keys own un runs2, of d3])
      (use j d1 rel J in \<open>auto simp: job_on_def same_config_def\<close>)
qed

text \<open>The handoff of the Workspace to a delegated Run that is ready.\<close>

lemma recover_handoff_releasing:
  assumes rec: "recoverReadyDelegationWorkspaceHandoff current input d = (Inr (recovered, run), d')"
    and wf: "sched_wf d"
    and J: "J \<in> set (claimed d)" "job_id J = rcn_job_id input" "job_project_id J = rcn_project_id input"
      "job_run_id J = rcn_run_id input"
    and cur: "run_project_id current = rcn_project_id input" "run_id current = rcn_run_id input"
    and own: "owned_by d J (rcn_lease_token input)"
  shows "releasing d d'" and "\<not> recovered \<Longrightarrow> d' = d"
proof -
  have keys: "keys_wf d" using wf by (simp add: sched_wf_def)
  have cases: "(\<not> recovered \<and> d' = d) \<or> (\<exists>d1 u d2 n d3 v.
      recovered \<and> pause_running_row current d = (Inr run, d1) \<and>
      releaseReadyDelegationWorkspaceHandoffs run d1 = (Inr u, d2) \<and>
      finish_claimed_job (rcn_project_id input) (rcn_job_id input) (rcn_run_id input) JOB_DONE None d2 = (Inr n, d3) \<and>
      releaseReconciledOwnership (rcn_project_id input) (rcn_job_id input) (rcn_lease_token input) d3 = (Inr v, d'))"
    using rec unfolding recoverReadyDelegationWorkspaceHandoff_def activeRunExecutionSessionTx_def
    by (auto simp: tx_bind_Inr tx_return_eq tx_get_eq tx_guard_Inr sql_exists_eq split: if_splits)
  then show "\<not> recovered \<Longrightarrow> d' = d" by blast
  from cases show "releasing d d'"
  proof (elim disjE exE conjE)
    fix d1 u d2 n d3 v
    assume pr: "pause_running_row current d = (Inr run, d1)" and
      ho: "releaseReadyDelegationWorkspaceHandoffs run d1 = (Inr u, d2)" and
      fj: "finish_claimed_job (rcn_project_id input) (rcn_job_id input) (rcn_run_id input) JOB_DONE None d2 = (Inr n, d3)" and
      rel: "releaseReconciledOwnership (rcn_project_id input) (rcn_job_id input) (rcn_lease_token input) d3 = (Inr v, d')"
    obtain f where d1: "db_runs d1 = update_rows (\<lambda>r. run_project_id r = run_project_id current \<and>
        run_id r = run_id current \<and> run_status r = RUN_RUNNING) f (db_runs d)"
        "\<And>r. run_id (f r) = run_id r" "db_jobs d1 = db_jobs d" "db_leases d1 = db_leases d"
        "db_reservations d1 = db_reservations d" "same_config d d1"
      using pr unfolding pause_running_row_def by (auto simp: tx_simps same_config_def)
    have keys1: "keys_wf d1" using keys d1 by (simp add: keys_wf_def map_update_rows)
    have mid: "quiet d1 d2" using quiet_handoffs ho by (rule tx_keepsD)
    then have m: "keys_wf d2" "claimed d2 = claimed d" "db_leases d2 = db_leases d" "db_reservations d2 = db_reservations d"
      using keys1 d1 by (auto simp: quiet_def keys_kept_def claimed_def)
    have "J \<in> set (claimed d2)" using J(1) m(2) by simp
    then have "J \<in> set (db_jobs d2)" by simp
    note j = finish_claimed_job_Inr [OF fj _ m(1) this J(2-4), simplified]
    have own2: "owned_by d2 J (rcn_lease_token input)" using own m by (simp add: owned_by_def)
    have runs3: "db_runs d3 = update_rows (\<lambda>r. False) id (db_runs d2)" using j(2) by (simp add: update_rows_no_match)
    have st: "settles d2 d' J"
      by (rule settles_stages [OF m(1) own2 j(1) runs3, of d3])
        (use j rel J in \<open>auto simp: quiet.refl\<close>)
    have "db_runs d' = db_runs d2"
      using rel j(2) unfolding releaseReconciledOwnership_def by (auto simp: tx_simps)
    then have "settles d d' J"
      by (intro settles_through [OF keys1 _ d1(1) _ d1(4-6) mid st])
        (use d1(3) J cur in \<open>auto simp: job_on_def claimed_def\<close>)
    then show ?thesis by (rule settles_releasing [OF wf J(1)])
  qed simp
qed

text \<open>The steps of a report: the fence, the parent of the Run, and the branch of the outcome.\<close>

lemma reconcile_tx_Inr:
  assumes rec: "reconcile_tx input d = (Inr res, d')"
  obtains current J l pt where
    "current \<in> set (db_runs d)" "run_project_id current = rcn_project_id input" "run_id current = rcn_run_id input"
    "J \<in> set (claimed d)" "job_id J = rcn_job_id input" "job_project_id J = rcn_project_id input"
    "job_run_id J = rcn_run_id input"
    "l \<in> set (db_leases d)" "lse_job_id l = rcn_job_id input" "lse_token l = rcn_lease_token input"
    "delegatedParentTerminalTx current d = (Inr pt, d)"
    "outcome_branch current input (effective_outcome pt (rcn_outcome input)) d = (Inr res, d')"
proof -
  obtain current d0 where fen: "lockFencedRun (rcn_project_id input) (rcn_job_id input) (rcn_run_id input)
      (rcn_lease_token input) d = (Inr current, d0)"
    using rec unfolding reconcile_tx_def by (auto simp: tx_bind_Inr)
  obtain J l where f: "d0 = d" "current \<in> set (db_runs d)" "run_project_id current = rcn_project_id input"
    "run_id current = rcn_run_id input" and J: "J \<in> set (claimed d)" "job_id J = rcn_job_id input"
    "job_project_id J = rcn_project_id input" "job_run_id J = rcn_run_id input"
    and l: "l \<in> set (db_leases d)" "lse_job_id l = rcn_job_id input" "lse_token l = rcn_lease_token input"
    using lockFencedRun_Inr [OF fen] by metis
  obtain pt d1 where pt: "delegatedParentTerminalTx current d = (Inr pt, d1)"
    using rec fen f(1) unfolding reconcile_tx_def by (auto simp: tx_bind_Inr)
  have d1: "d1 = d" using pt unfolding delegatedParentTerminalTx_def find_run_def
    by (auto simp: tx_simps split: option.splits)
  have "outcome_branch current input (effective_outcome pt (rcn_outcome input)) d = (Inr res, d')"
    using rec fen f(1) pt d1 unfolding reconcile_tx_def by (auto simp: tx_bind_Inr)
  then show ?thesis using that f J l pt d1 by metis
qed

lemma reconcile_safe: "tx_keeps safe (reconcile_tx input)"
proof (rule tx_keepsI)
  fix d res d' assume "reconcile_tx input d = (Inr res, d')"
  then obtain current J l pt where f: "run_project_id current = rcn_project_id input" "run_id current = rcn_run_id input"
    and J: "J \<in> set (claimed d)" "job_id J = rcn_job_id input" "job_project_id J = rcn_project_id input"
      "job_run_id J = rcn_run_id input"
    and l: "l \<in> set (db_leases d)" "lse_job_id l = rcn_job_id input" "lse_token l = rcn_lease_token input"
    and rest: "outcome_branch current input (effective_outcome pt (rcn_outcome input)) d = (Inr res, d')"
    by (rule reconcile_tx_Inr)
  show "safe d d'" unfolding safe_def
  proof
    assume wf: "sched_wf d"
    have own: "owned_by d J (rcn_lease_token input)" using owned_byI [OF wf J(1) l(1)] l J(2) by simp
    show "releasing d d'"
    proof (cases "effective_outcome pt (rcn_outcome input)")
      case OutcomeUnknown
      then obtain r run where "recoverReadyDelegationWorkspaceHandoff current input d = (Inr (r, run), d')"
        using rest by (auto simp: outcome_branch_def tx_bind_Inr tx_return_eq)
      then show ?thesis using recover_handoff_releasing(1) [OF _ wf J f own] by blast
    next
      case OutcomeRetry
      then show ?thesis using rest reconcile_retry_settles [OF _ wf J own] settles_releasing [OF wf J(1)]
        by (simp add: outcome_branch_def)
    next
      case OutcomeActive then show ?thesis using rest by (simp add: outcome_branch_def tx_simps)
    next
      case (OutcomeOther s) then show ?thesis using rest by (simp add: outcome_branch_def tx_simps)
    qed (use rest reconcile_terminal_settles [OF _ wf J own] settles_releasing [OF wf J(1)] in \<open>auto simp: outcome_branch_def\<close>)
  qed
qed

lemma resolveReconciliation_safe: "resolveReconciliation input now d = (r, d') \<Longrightarrow> safe d d'"
  unfolding resolveReconciliation_def
  by (auto split: if_splits intro: safe.refl elim!: safe.keeps_run_tx [rotated] intro!: reconcile_safe)

section \<open>Taking over an expired claim\<close>

lemma lockExpired_Inr:
  assumes "lockExpiredReconciliationCandidate locked d = (Inr (Some (job, run, a, m, l)), d')"
  shows "d' = d" "l \<in> set (db_leases d)" "job \<in> set (claimed d)" "run \<in> set (db_runs d)" "job_on job run"
    "lse_job_id l = job_id job" "lse_expires_at l \<le> db_now d"
    "\<forall>c\<in>set (expired_candidates locked d). (lse_expires_at l, job_created_at job, job_id job) \<le>
       (case c of (l', j', r') \<Rightarrow> (lse_expires_at l', job_created_at j', job_id j'))"
proof -
  have d': "d' = d" and sel: "first_by (\<lambda>(l, j, r). (lse_expires_at l, job_created_at j, job_id j))
      (expired_candidates locked d) = Some (l, job, run)"
    using assms unfolding lockExpiredReconciliationCandidate_def
    by (auto simp: tx_get_eq eq_commute [of "Some _" "map_option _ _"])
  show "d' = d" by (rule d')
  have "(l, job, run) \<in> set (expired_candidates locked d)" using sel by (rule first_by_in)
  then show "l \<in> set (db_leases d)" "job \<in> set (claimed d)" "run \<in> set (db_runs d)" "job_on job run"
    "lse_job_id l = job_id job" "lse_expires_at l \<le> db_now d"
    by (auto simp: expired_candidates_def expired_candidate_def)
  show "\<forall>c\<in>set (expired_candidates locked d). (lse_expires_at l, job_created_at job, job_id job) \<le>
       (case c of (l', j', r') \<Rightarrow> (lse_expires_at l', job_created_at j', job_id j'))"
    using first_by_least [OF sel] by (auto split: prod.splits)
qed

lemma finish_and_release_releasing:
  assumes fr: "finish_and_release job run l d1 = (Inr u, d')" and wf: "sched_wf d"
    and J: "job \<in> set (claimed d)" "job_on job run" "l \<in> set (db_leases d)" "lse_job_id l = job_id job"
    and d1: "db_runs d1 = update_rows q f (db_runs d)" "\<And>r. q r \<Longrightarrow> job_on job r" "\<And>r. run_id (f r) = run_id r"
      "db_jobs d1 = db_jobs d" "db_leases d1 = db_leases d" "db_reservations d1 = db_reservations d" "same_config d d1"
  shows "releasing d d'" and "idle d' (job_project_id job) (job_run_id job)"
proof -
  have keys: "keys_wf d" using wf by (simp add: sched_wf_def)
  have keys1: "keys_wf d1" using keys d1 by (simp add: keys_wf_def map_update_rows)
  obtain n d2 where
    fj: "finish_claimed_job (job_project_id job) (job_id job) (job_run_id job) JOB_DONE None d1 = (Inr n, d2)" and
    rel: "releaseReconciledOwnership (run_project_id run) (job_id job) (lse_token l) d2 = (Inr u, d')"
    using fr unfolding finish_and_release_def by (auto simp: tx_bind_Inr tx_guard_Inr)
  have "job \<in> set (db_jobs d1)" using J(1) d1(4) by simp
  note j = finish_claimed_job_Inr [OF fj _ keys1 this refl refl refl, simplified]
  have un: "unclaims d d2 job" using j(1) d1(4) by (simp add: unclaims_def claimed_def)
  have own: "owned_by d job (lse_token l)" using owned_byI [OF wf J(1,3,4)] .
  have rel': "releaseReconciledOwnership (job_project_id job) (job_id job) (lse_token l) d2 = (Inr u, d')"
    using rel J(2) by (simp add: job_on_def)
  have st: "settles d d' job"
    by (rule settles_stages [OF keys own un j(2) [unfolded d1(1)] d1(2,3) _ _ _ quiet.refl rel'])
      (use j d1 in \<open>auto simp: same_config_def\<close>)
  then show "releasing d d'" by (rule settles_releasing [OF wf J(1)])
  have ws: "workspace_exclusive d" and own': "ownership_wf d" using wf by (auto simp: sched_wf_def)
  obtain r where r: "r \<in> set (db_runs d)" "job_on job r" using own' J(1) unfolding ownership_wf_def by blast
  show "idle d' (job_project_id job) (job_run_id job)"
    unfolding idle_def
  proof (intro ballI notI)
    fix k assume k: "k \<in> set (claimed d')" "job_project_id k = job_project_id job \<and> job_run_id k = job_run_id job"
    then have k': "k \<in> set (claimed d)" "job_id k \<noteq> job_id job" using st by (auto simp: settles_def)
    have "job_on k r" using r k(2) by (simp add: job_on_def)
    then have "k = job" using ws k'(1) J(1) r unfolding workspace_exclusive_def by blast
    then show False using k'(2) by simp
  qed
qed

lemma resolveExpiredBlockingQuestion_releasing:
  assumes res: "resolveExpiredBlockingQuestion job run l d = (Inr b, d')" and wf: "sched_wf d"
    and J: "job \<in> set (claimed d)" "run \<in> set (db_runs d)" "job_on job run" "l \<in> set (db_leases d)" "lse_job_id l = job_id job"
  shows "releasing d d'" and "\<not> b \<Longrightarrow> d' = d"
proof -
  have same: "db_runs d = update_rows (\<lambda>r. False) id (db_runs d)" by (simp add: update_rows_no_match)
  consider (keep) "d' = d" "\<not> b"
    | (answered) q u d1 rj where "b" "qst_project_id q = run_project_id run" "qst_run_id q = run_id run"
        "finish_and_release job run l d = (Inr u, d1)" "queueBlockingQuestionResume q d1 = (Inr rj, d')"
    | (waiting) n d1 u where "b" "wait_run_row run d = (Inr n, d1)" "finish_and_release job run l d1 = (Inr u, d')"
  proof (cases "run_status run = RUN_WAITING_FOR_INPUT")
    case True
    then show ?thesis
      using res that unfolding resolveExpiredBlockingQuestion_def answered_question_of_run_def
      by (auto simp: tx_bind_Inr tx_return_eq tx_get_eq split: option.splits dest!: first_by_in)
  next
    case False
    then show ?thesis
      using res that unfolding resolveExpiredBlockingQuestion_def open_blocking_question_def
      by (auto simp: tx_bind_Inr tx_return_eq sql_exists_eq split: if_splits)
  qed
  then have "releasing d d' \<and> (\<not> b \<longrightarrow> d' = d)"
  proof cases
    case keep
    then show ?thesis by simp
  next
    case answered
    note fr = finish_and_release_releasing [OF answered(4) wf J(1,3-5) same]
    have "releasing d d1" "idle d1 (job_project_id job) (job_run_id job)" using fr by simp_all
    then show ?thesis
      using answered queueBlockingQuestionResume_releasing [OF answered(5)] J(3) releasing_trans
      by (auto simp: job_on_def)
  next
    case waiting
    obtain f where d1: "db_runs d1 = update_rows (\<lambda>r. run_project_id r = run_project_id run \<and> run_id r = run_id run \<and>
          (run_status r = RUN_STARTING \<or> run_status r = RUN_RUNNING)) f (db_runs d)" "\<And>r. run_id (f r) = run_id r"
        "db_jobs d1 = db_jobs d" "db_leases d1 = db_leases d" "db_reservations d1 = db_reservations d" "same_config d d1"
      using waiting(2) unfolding wait_run_row_def by (auto simp: tx_simps same_config_def)
    have on: "job_on job r" if "run_project_id r = run_project_id run \<and> run_id r = run_id run \<and>
        (run_status r = RUN_STARTING \<or> run_status r = RUN_RUNNING)" for r
      using that J(3) by (simp add: job_on_def)
    show ?thesis
      using finish_and_release_releasing(1) [OF waiting(3) wf J(1,3-5) d1(1) on d1(2-6)] waiting(1) by blast
  qed
  then show "releasing d d'" "\<not> b \<Longrightarrow> d' = d" by simp_all
qed

lemma claim_expired_safe: "tx_keeps safe (claim_expired_tx locked owner micros)"
proof (rule tx_keepsI)
  fix d res d' assume cl: "claim_expired_tx locked owner micros d = (Inr res, d')"
  obtain found d0 where lk: "lockExpiredReconciliationCandidate locked d = (Inr found, d0)"
    using cl unfolding claim_expired_tx_def by (auto simp: tx_bind_Inr)
  have d0: "d0 = d" using lk unfolding lockExpiredReconciliationCandidate_def by (simp add: tx_simps)
  show "safe d d'" unfolding safe_def
  proof
    assume wf: "sched_wf d"
    show "releasing d d'"
    proof (cases found)
      case None
      then show ?thesis using cl lk d0 unfolding claim_expired_tx_def by (auto simp: tx_bind_Inr tx_return_eq)
    next
      case (Some c)
      obtain job run a m l where c: "c = (job, run, a, m, l)" by (cases c) auto
      note cand = lockExpired_Inr [OF lk [unfolded Some c]]
      obtain b d1 where rq: "resolveExpiredBlockingQuestion job run l d = (Inr b, d1)"
        using cl lk d0 Some c unfolding claim_expired_tx_def by (auto simp: tx_bind_Inr)
      note r = resolveExpiredBlockingQuestion_releasing [OF rq wf cand(3,4,5,2,6)]
      show ?thesis
      proof (cases b)
        case True
        then have "d' = d1" using cl lk d0 Some c rq unfolding claim_expired_tx_def by (auto simp: tx_bind_Inr tx_return_eq)
        then show ?thesis using r(1) by simp
      next
        case False
        then have d1: "d1 = d" using r(2) by simp
        obtain q where q: "q \<in> set (db_runs d)" "job_on job q" "executing (run_status q)"
          using wf cand(3) unfolding sched_wf_def ownership_wf_def by blast
        have "q = run" using q(2) cand(4,5) q(1) wf
          by (auto simp: sched_wf_def keys_wf_def job_on_def intro: distinct_key_eq)
        then have "run_status run \<noteq> RUN_QUEUED" using q(3) by auto
        then obtain lease where "renew_expired_lease job owner micros l d = (Inr lease, d')"
          using cl lk d0 Some c rq False d1 unfolding claim_expired_tx_def by (auto simp: tx_bind_Inr tx_return_eq)
        moreover have "tx_keeps safe (renew_expired_lease job owner micros l)"
          unfolding renew_expired_lease_def by (intro safe_rules safe_lease_update) simp
        ultimately show ?thesis using wf by (metis safe_def tx_keepsD)
      qed
    qed
  qed
qed

lemma claimExpired_safe: "claimExpiredJobForReconciliation locked owner dur now d = (r, d') \<Longrightarrow> safe d d'"
  unfolding claimExpiredJobForReconciliation_def Let_def
  by (auto split: if_splits intro: safe.refl elim!: safe.keeps_run_tx [rotated] intro!: claim_expired_safe)

section \<open>History\<close>

lemma history_reconciliation_calls [history_rules]:
  "tx_keeps history (releaseReconciledOwnership p j t)"
  "tx_keeps history (finish_claimed_job p j x st why)"
  "tx_keeps history (requeue_claimed_job p j x)"
  unfolding releaseReconciledOwnership_def finish_claimed_job_def requeue_claimed_job_def
  by (intro history_rules)+

lemma history_reconciliation_rows [history_rules]:
  "tx_keeps history (wait_run_row run)" "tx_keeps history (pause_running_row run)"
  "tx_keeps history (requeue_active_row p x)" "tx_keeps history (end_active_row p x st fr)"
  unfolding wait_run_row_def pause_running_row_def requeue_active_row_def end_active_row_def
  by (rule history_update_runs; auto simp: terminal_run_def)+

lemma history_resetInvalid [history_rules]: "tx_keeps history (resetInvalidQueuedClaim job l)"
  unfolding resetInvalidQueuedClaim_def
  by (intro history_rules history_update_runs) (auto simp: terminal_run_def)

lemma history_claim_expired [history_rules]: "tx_keeps history (claim_expired_tx locked owner micros)"
  unfolding claim_expired_tx_def lockExpiredReconciliationCandidate_def resolveExpiredBlockingQuestion_def
    answered_question_of_run_def finish_and_release_def open_blocking_question_def renew_expired_lease_def
  by (intro history_rules)

lemma claimExpired_history:
  "claimExpiredJobForReconciliation locked owner dur now d = (r, d') \<Longrightarrow> history d d'"
  unfolding claimExpiredJobForReconciliation_def Let_def
  by (auto split: if_splits intro: history.refl elim!: history.keeps_run_tx [rotated] intro!: history_rules)

lemma history_recover_handoff [history_rules]:
  "tx_keeps history (recoverReadyDelegationWorkspaceHandoff current input)"
  unfolding recoverReadyDelegationWorkspaceHandoff_def by (intro history_rules)

lemma history_reconcile_retry [history_rules]: "tx_keeps history (reconcile_retry input)"
  unfolding reconcile_retry_def by (intro history_rules)

lemma history_reconcile_terminal [history_rules]:
  "tx_keeps history (resolveReconciliationTerminal input outcome)"
  unfolding resolveReconciliationTerminal_def
  by (cases "terminal_effects input outcome") (auto intro!: history_rules split: prod.split)

lemma history_outcome_case:
  assumes "\<And>outcome. tx_keeps history (f outcome)" "tx_keeps history a" "tx_keeps history b" "tx_keeps history c"
  shows "tx_keeps history (case outcome of
       OutcomeActive \<Rightarrow> a | OutcomeUnknown \<Rightarrow> b | OutcomeRetry \<Rightarrow> c
     | OutcomeCompleted \<Rightarrow> f outcome | OutcomeFailed \<Rightarrow> f outcome | OutcomeCancelled \<Rightarrow> f outcome
     | OutcomeOther _ \<Rightarrow> tx_fail ErrInvalidArgument)"
  using assms by (cases outcome) (auto intro: history_rules)

lemma history_reconcile [history_rules]: "tx_keeps history (reconcile_tx input)"
  unfolding reconcile_tx_def outcome_branch_def lockFencedRun_def
  by (intro history_rules history_outcome_case)

lemma resolveReconciliation_history: "resolveReconciliation input now d = (r, d') \<Longrightarrow> history d d'"
  unfolding resolveReconciliation_def
  by (auto split: if_splits intro: history.refl elim!: history.keeps_run_tx [rotated] intro!: history_rules)

section \<open>Properties\<close>

lemma claimExpired_Inr:
  assumes ok: "claimExpiredJobForReconciliation locked owner dur now d = (Inr (Some (job, lease, run, a, m)), d')"
  obtains old where "lockExpiredReconciliationCandidate locked (d\<lparr>db_now := now\<rparr>) = (Inr (Some (job, run, a, m, old)), d\<lparr>db_now := now\<rparr>)"
    "renew_expired_lease job owner (Microseconds dur) old (d\<lparr>db_now := now\<rparr>) = (Inr lease, d')"
    "0 < Microseconds dur"
proof -
  let ?d = "d\<lparr>db_now := now\<rparr>"
  have pos: "0 < Microseconds dur" and cl: "claim_expired_tx locked owner (Microseconds dur) ?d = (Inr (Some (job, lease, run, a, m)), d')"
    using ok unfolding claimExpiredJobForReconciliation_def Let_def by (auto simp: tx_simps split: if_splits)
  obtain found d0 where lk: "lockExpiredReconciliationCandidate locked ?d = (Inr found, d0)"
    using cl unfolding claim_expired_tx_def by (auto simp: tx_bind_Inr)
  have d0: "d0 = ?d" using lk unfolding lockExpiredReconciliationCandidate_def by (simp add: tx_simps)
  obtain c where "found = Some c" using cl lk d0 unfolding claim_expired_tx_def
    by (cases found) (auto simp: tx_bind_Inr tx_return_eq)
  then obtain job1 run1 a1 m1 old where f: "found = Some (job1, run1, a1, m1, old)" by (cases c) auto
  obtain b d1 where rq: "resolveExpiredBlockingQuestion job1 run1 old ?d = (Inr b, d1)"
    using cl lk d0 f unfolding claim_expired_tx_def by (auto simp: tx_bind_Inr)
  have nb: "\<not> b" and ren: "renew_expired_lease job1 owner (Microseconds dur) old d1 = (Inr lease, d')"
    and same: "job1 = job" "run1 = run" "a1 = a" "m1 = m"
    using cl lk d0 f rq unfolding claim_expired_tx_def by (auto simp: tx_bind_Inr tx_return_eq split: if_splits)
  have "d1 = ?d"
    using rq nb unfolding resolveExpiredBlockingQuestion_def answered_question_of_run_def open_blocking_question_def
    by (auto simp: tx_simps split: if_splits option.splits)
  then show ?thesis using that [of old] lk d0 f ren same pos by simp
qed

text \<open>
  A takeover steals nothing: the lease a reconciler takes over had expired, no unlocked
  expired claim has an earlier expiry, the new lease names the new owner, a new token and a
  later expiry, and nothing but that one lease changes.
\<close>

theorem takeover_of_expired:
  assumes ok: "claimExpiredJobForReconciliation locked owner dur now d = (Inr (Some (job, lease, run, a, m)), d')"
  shows "\<exists>old\<in>set (db_leases d). lse_job_id old = job_id job \<and> lse_expires_at old \<le> now \<and>
     job \<in> set (claimed d) \<and> run \<in> set (db_runs d) \<and> job_on job run \<and>
     (\<forall>(l, j, r)\<in>set (expired_candidates locked (d\<lparr>db_now := now\<rparr>)). lse_expires_at old \<le> lse_expires_at l) \<and>
     lse_owner_id lease = owner \<and> lse_job_id lease = job_id job \<and> lse_expires_at lease = now + Microseconds dur \<and>
     now < lse_expires_at lease \<and> lease \<in> set (db_leases d') \<and>
     db_jobs d' = db_jobs d \<and> db_runs d' = db_runs d \<and> db_reservations d' = db_reservations d \<and>
     (\<forall>l\<in>set (db_leases d). lse_job_id l \<noteq> job_id job \<longrightarrow> l \<in> set (db_leases d'))"
proof -
  let ?d = "d\<lparr>db_now := now\<rparr>"
  obtain old where lk: "lockExpiredReconciliationCandidate locked ?d = (Inr (Some (job, run, a, m, old)), ?d)"
    and ren: "renew_expired_lease job owner (Microseconds dur) old ?d = (Inr lease, d')" and pos: "0 < Microseconds dur"
    using ok by (rule claimExpired_Inr)
  note c = lockExpired_Inr [OF lk]
  obtain x tok where x: "x \<in> set (db_leases d)" "lse_job_id x = job_id job"
      "lse_token x = lse_token old" "lse_expires_at x \<le> now"
    and lease: "lease = x\<lparr>lse_owner_id := owner, lse_token := tok, lse_acquired_at := now, lse_expires_at := now + Microseconds dur\<rparr>"
    and leases: "db_leases d' = update_rows (\<lambda>l. lse_job_id l = job_id job \<and> lse_token l = lse_token old \<and> lse_expires_at l \<le> now)
       (\<lambda>l. l\<lparr>lse_owner_id := owner, lse_token := tok, lse_acquired_at := now, lse_expires_at := now + Microseconds dur\<rparr>) (db_leases d)"
    and same: "db_jobs d' = db_jobs d" "db_runs d' = db_runs d" "db_reservations d' = db_reservations d"
    using ren unfolding renew_expired_lease_def by (auto simp: tx_simps dest!: find_Some_in)
  have "lease \<in> set (db_leases d')" unfolding leases lease by (rule matched_row) (use x in auto)
  moreover have "\<forall>l\<in>set (db_leases d). lse_job_id l \<noteq> job_id job \<longrightarrow> l \<in> set (db_leases d')"
    unfolding leases by (intro ballI impI unmatched_row) auto
  moreover have "\<forall>(l, j, r)\<in>set (expired_candidates locked ?d). lse_expires_at old \<le> lse_expires_at l"
    using c(8) by (auto simp: less_eq_prod_def)
  moreover have "lse_owner_id lease = owner" "lse_job_id lease = job_id job"
    "lse_expires_at lease = now + Microseconds dur" "now < lse_expires_at lease"
    using lease x(2) pos by auto
  ultimately show ?thesis using c(2-7) same by (intro bexI [of _ old]) auto
qed

lemma resolveReconciliation_Inr:
  assumes "resolveReconciliation input now d = (Inr res, d')"
  shows "reconcile_tx input (d\<lparr>db_now := now\<rparr>) = (Inr res, d')"
  using assms unfolding resolveReconciliation_def by (auto simp: tx_simps split: if_splits)

lemma no_handoff:
  "\<not> ready_handoff d current \<Longrightarrow>
     recoverReadyDelegationWorkspaceHandoff current input d = (Inr (False, current), d)"
  unfolding recoverReadyDelegationWorkspaceHandoff_def by (simp add: tx_run)

text \<open>
  C13. Uncertainty keeps ownership: a report that the execution is still ACTIVE, or that its
  state is UNKNOWN, changes nothing but the clock, unless a delegated Run is ready to take
  the Workspace over.
\<close>

theorem uncertainty_keeps_ownership:
  assumes ok: "resolveReconciliation input now d = (Inr (run, evs), d')"
    and oc: "rcn_outcome input = OutcomeActive \<or>
      rcn_outcome input = OutcomeUnknown \<and> (\<forall>r\<in>set (db_runs d). run_id r = rcn_run_id input \<longrightarrow> \<not> ready_handoff d r)"
  shows "d' = d\<lparr>db_now := now\<rparr> \<and> run \<in> set (db_runs d) \<and> evs = []"
proof -
  let ?d = "d\<lparr>db_now := now\<rparr>"
  from resolveReconciliation_Inr [OF ok] obtain current J l pt where
    cur: "current \<in> set (db_runs ?d)" "run_id current = rcn_run_id input" and
    br: "outcome_branch current input (effective_outcome pt (rcn_outcome input)) ?d = (Inr (run, evs), d')"
    by (rule reconcile_tx_Inr)
  have "ready_handoff ?d current = ready_handoff d current" by (simp add: ready_handoff_def)
  then show ?thesis
    using br oc cur unfolding outcome_branch_def effective_outcome_def
    by (auto simp: tx_simps no_handoff)
qed

lemma retry_run_row:
  assumes "reconcile_retry input d = (Inr (run, evs), d')"
  shows "\<exists>r\<in>set (db_runs d'). run_id r = rcn_run_id input \<and> run_status r = RUN_QUEUED \<and>
     run_queue_reason r = Some schedulerReconciliationRetryReason"
proof -
  obtain d1 n d2 u where
    rr: "requeue_active_row (rcn_project_id input) (rcn_run_id input) d = (Inr run, d1)" and
    rj: "requeue_claimed_job (rcn_project_id input) (rcn_job_id input) (rcn_run_id input) d1 = (Inr n, d2)" and
    rel: "releaseReconciledOwnership (rcn_project_id input) (rcn_job_id input) (rcn_lease_token input) d2 = (Inr u, d')"
    using assms unfolding reconcile_retry_def by (auto simp: tx_bind_Inr tx_return_eq)
  have "db_runs d' = db_runs d1"
    using rj rel unfolding requeue_claimed_job_def releaseReconciledOwnership_def by (auto simp: tx_simps)
  moreover have "run \<in> set (db_runs d1)" "run_id run = rcn_run_id input" "run_status run = RUN_QUEUED"
    "run_queue_reason run = Some schedulerReconciliationRetryReason"
    using rr unfolding requeue_active_row_def
    by (auto simp: tx_simps in_update_rows dest!: find_Some_in)
  ultimately show ?thesis by auto
qed

lemma terminal_run_row:
  assumes "resolveReconciliationTerminal input OutcomeCancelled d = (Inr (run, evs), d')" "event_log_wf d"
  shows "\<exists>r\<in>set (db_runs d'). run_id r = rcn_run_id input \<and> run_status r = RUN_CANCELLED"
proof -
  obtain d1 n d2 d3 u where
    er: "end_active_row (rcn_project_id input) (rcn_run_id input) RUN_CANCELLED None d = (Inr run, d1)" and
    fj: "finish_claimed_job (rcn_project_id input) (rcn_job_id input) (rcn_run_id input) JOB_CANCELLED None d1 = (Inr n, d2)" and
    fin: "finalizeDelegatedRunTx run d2 = (Inr evs, d3)" and
    rel: "releaseReconciledOwnership (rcn_project_id input) (rcn_job_id input) (rcn_lease_token input) d3 = (Inr u, d')"
    using assms(1) unfolding resolveReconciliationTerminal_def terminal_effects_def
    by (auto simp: tx_bind_Inr tx_return_eq)
  have run: "run \<in> set (db_runs d1)" "run_id run = rcn_run_id input" "run_status run = RUN_CANCELLED"
    using er unfolding end_active_row_def by (auto simp: tx_simps in_update_rows dest!: find_Some_in)
  have "history d d1" using history_reconciliation_rows(4) er by (rule tx_keepsD)
  then have log: "event_log_wf d1" using assms(2) by (simp add: history_def)
  have "history d1 d2" using history_reconciliation_calls(2) fj by (rule tx_keepsD)
  moreover have "history d2 d3" using fin by (rule tx_keepsD [rotated]) (intro history_rules)
  moreover have "history d3 d'" using history_reconciliation_calls(1) rel by (rule tx_keepsD)
  ultimately have "history d1 d'" by (metis history.trans)
  then have "terminal_kept d1 d'" using log by (simp add: history_def)
  then show ?thesis using run unfolding terminal_kept_def terminal_run_def by metis
qed

lemma delegatedParentTerminal_clock:
  "delegatedParentTerminalTx current (d\<lparr>db_now := now\<rparr>) = (Inr pt, d\<lparr>db_now := now\<rparr>) \<longleftrightarrow>
     delegatedParentTerminalTx current d = (Inr pt, d)"
  unfolding delegatedParentTerminalTx_def delegation_of_run_def find_run_def
  by (auto simp: tx_run split: option.splits)

text \<open>
  A retry gives everything back: after a successful RETRY report the Run is QUEUED again
  with the reconciliation reason, or CANCELLED when its delegating parent has ended, and its
  job holds no lease and no capacity and is no longer claimed.
\<close>

theorem retry_gives_back:
  assumes wf: "sched_wf d" and log: "event_log_wf d"
    and ok: "resolveReconciliation input now d = (Inr (run, evs), d')" and oc: "rcn_outcome input = OutcomeRetry"
  shows "(\<exists>current\<in>set (db_runs d). \<exists>ended. run_id current = rcn_run_id input \<and>
       delegatedParentTerminalTx current d = (Inr ended, d) \<and>
       (\<exists>r\<in>set (db_runs d'). run_id r = rcn_run_id input \<and>
          (if ended then run_status r = RUN_CANCELLED
           else run_status r = RUN_QUEUED \<and> run_queue_reason r = Some schedulerReconciliationRetryReason))) \<and>
     (\<forall>l\<in>set (db_leases d'). lse_job_id l \<noteq> rcn_job_id input) \<and>
     (\<forall>v\<in>set (db_reservations d'). rsv_job_id v \<noteq> rcn_job_id input) \<and>
     (\<forall>j\<in>set (claimed d'). job_id j \<noteq> rcn_job_id input)"
proof -
  let ?d = "d\<lparr>db_now := now\<rparr>"
  from resolveReconciliation_Inr [OF ok] obtain current J l pt where
    cur: "current \<in> set (db_runs ?d)" "run_id current = rcn_run_id input"
    and J: "J \<in> set (claimed ?d)" "job_id J = rcn_job_id input" "job_project_id J = rcn_project_id input"
      "job_run_id J = rcn_run_id input"
    and l: "l \<in> set (db_leases ?d)" "lse_job_id l = rcn_job_id input" "lse_token l = rcn_lease_token input"
    and pt: "delegatedParentTerminalTx current ?d = (Inr pt, ?d)"
    and br: "outcome_branch current input (effective_outcome pt (rcn_outcome input)) ?d = (Inr (run, evs), d')"
    by (rule reconcile_tx_Inr)
  have wf': "sched_wf ?d" using safe.clock wf by (rule safe_wf)
  have log': "event_log_wf ?d" using log by (simp add: event_log_wf_def run_events_def)
  have own: "owned_by ?d J (rcn_lease_token input)" using owned_byI [OF wf' J(1) l(1)] l J(2) by simp
  have "settles ?d d' J"
    using br oc reconcile_retry_settles [OF _ wf' J own] reconcile_terminal_settles [OF _ wf' J own]
    by (cases pt) (auto simp: outcome_branch_def effective_outcome_def)
  then have gone: "(\<forall>l\<in>set (db_leases d'). lse_job_id l \<noteq> rcn_job_id input) \<and>
     (\<forall>v\<in>set (db_reservations d'). rsv_job_id v \<noteq> rcn_job_id input) \<and>
     (\<forall>j\<in>set (claimed d'). job_id j \<noteq> rcn_job_id input)"
    using J(2) unfolding settles_def by auto
  have "\<exists>r\<in>set (db_runs d'). run_id r = rcn_run_id input \<and>
      (if pt then run_status r = RUN_CANCELLED
       else run_status r = RUN_QUEUED \<and> run_queue_reason r = Some schedulerReconciliationRetryReason)"
    using br oc retry_run_row terminal_run_row [OF _ log']
    by (cases pt) (auto simp: outcome_branch_def effective_outcome_def)
  moreover have "delegatedParentTerminalTx current d = (Inr pt, d)" using pt delegatedParentTerminal_clock by blast
  moreover have "current \<in> set (db_runs d)" using cur(1) by simp
  ultimately show ?thesis using cur(2) gone by blast
qed

text \<open>Reports on the claimed job of the sample, while its lease is valid and after it has expired.\<close>

definition sample_report :: "reconciliation_outcome \<Rightarrow> scheduler_reconciliation" where
  "sample_report outcome = \<lparr>rcn_project_id = ''p1'', rcn_job_id = ''j1'', rcn_run_id = ''r1'',
     rcn_lease_token = ''t1'', rcn_outcome = outcome, rcn_failure_reason = None\<rparr>"

lemmas reconciliation_run = tx_run resolveReconciliation_def reconcile_tx_def lockFencedRun_def fence_def
  delegatedParentTerminalTx_def delegation_of_run_def find_run_def outcome_branch_def effective_outcome_def
  recoverReadyDelegationWorkspaceHandoff_def ready_handoff_def reconcile_retry_def requeue_active_row_def
  requeue_claimed_job_def releaseReconciledOwnership_def sample_report_def

lemmas takeover_run = tx_run claimExpiredJobForReconciliation_def claim_expired_tx_def
  lockExpiredReconciliationCandidate_def expired_candidates_def expired_candidate_def job_on_def resolved_config_def
  resolved_agent_def visible_to_def resolveExpiredBlockingQuestion_def open_blocking_question_def
  renew_expired_lease_def Microseconds_def

theorem takeover_of_expired_witness:
  "\<exists>job lease run a m d'. claimExpiredJobForReconciliation (\<lambda>_. False) ''srv'' 5000000 200 sample_claimed =
       (Inr (Some (job, lease, run, a, m)), d') \<and>
     (\<exists>old\<in>set (db_leases sample_claimed). lse_job_id old = job_id job \<and> lse_expires_at old \<le> 200) \<and>
     lease \<in> set (db_leases d') \<and> lse_owner_id lease = ''srv'' \<and> lse_expires_at lease = 5200"
proof -
  have "\<exists>job lease run a m d'. claimExpiredJobForReconciliation (\<lambda>_. False) ''srv'' 5000000 200 sample_claimed =
       (Inr (Some (job, lease, run, a, m)), d')"
    by (simp add: takeover_run sample_states sample_eval)
  then obtain job lease run a m d' where ok: "claimExpiredJobForReconciliation (\<lambda>_. False) ''srv'' 5000000 200 sample_claimed =
       (Inr (Some (job, lease, run, a, m)), d')" by blast
  have micros: "Microseconds 5000000 = 5000" by (simp add: Microseconds_def)
  show ?thesis using takeover_of_expired [OF ok] ok by (auto simp: micros sample_eval)
qed

theorem uncertainty_keeps_ownership_witness:
  "\<exists>run evs. resolveReconciliation (sample_report OutcomeUnknown) 50 sample_claimed =
     (Inr (run, evs), sample_claimed\<lparr>db_now := 50\<rparr>)"
proof -
  have "\<exists>run evs d'. resolveReconciliation (sample_report OutcomeUnknown) 50 sample_claimed = (Inr (run, evs), d')"
    by (simp add: reconciliation_run sample_states sample_eval)
  then obtain run evs d' where ok: "resolveReconciliation (sample_report OutcomeUnknown) 50 sample_claimed = (Inr (run, evs), d')"
    by blast
  have "\<forall>r\<in>set (db_runs sample_claimed). \<not> ready_handoff sample_claimed r"
    by (simp add: ready_handoff_def sample_states sample_eval)
  then show ?thesis using uncertainty_keeps_ownership [OF ok] ok by (simp add: sample_report_def)
qed

theorem retry_gives_back_witness:
  "\<exists>run evs d'. resolveReconciliation (sample_report OutcomeRetry) 50 sample_claimed = (Inr (run, evs), d') \<and>
     (\<forall>l\<in>set (db_leases d'). lse_job_id l \<noteq> ''j1'') \<and> (\<forall>v\<in>set (db_reservations d'). rsv_job_id v \<noteq> ''j1'')"
proof -
  have "\<exists>run evs d'. resolveReconciliation (sample_report OutcomeRetry) 50 sample_claimed = (Inr (run, evs), d')"
    by (simp add: reconciliation_run sample_states sample_eval)
  then obtain run evs d' where ok: "resolveReconciliation (sample_report OutcomeRetry) 50 sample_claimed = (Inr (run, evs), d')"
    by blast
  show ?thesis using retry_gives_back [OF sample_wf(2) sample_log(2) ok] ok by (auto simp: sample_report_def)
qed

end
