(* ===== verification/Issue_Keys.thy ===== *)
theory Issue_Keys
  imports Prelude Go_Strings
begin

text \<open>
  Public Issue keys (store/issuekey.go): \<open>PREFIX-NUMBER\<close>, and the working branch named
  after a key. An int is 64 bits wide; \<open>strconv.Atoi\<close> fails outside that range.
\<close>

section \<open>Keys\<close>

definition FormatIssueKey :: "string \<Rightarrow> int \<Rightarrow> string" where
  "FormatIssueKey prefix number = prefix @ ''-'' @ show_int number"

definition issueWorkingBranchPrefix :: string where
  "issueWorkingBranchPrefix = ''agent-board/''"

definition WorkingBranchForIssue :: "string \<Rightarrow> string" where
  "WorkingBranchForIssue issueKey = issueWorkingBranchPrefix @ TrimSpace issueKey"

text \<open>
  The loop of the source ranges over runes with their byte offsets; every accepted rune is
  one ASCII byte, and a byte above 127 starts a rune that is refused.
\<close>

definition upper_letter :: "nat \<Rightarrow> bool" where
  "upper_letter r \<longleftrightarrow> 65 \<le> r \<and> r \<le> 90"

definition ValidIssuePrefix :: "string \<Rightarrow> bool" where
  "ValidIssuePrefix prefix \<longleftrightarrow> 2 \<le> length prefix \<and> length prefix \<le> 10 \<and>
     (case runes prefix of
        [] \<Rightarrow> True
      | r # rs \<Rightarrow> upper_letter r \<and> list_all (\<lambda>r. upper_letter r \<or> (48 \<le> r \<and> r \<le> 57)) rs)"

text \<open>\<open>strconv.Atoi\<close>: an optional sign and at least one decimal digit.\<close>

definition int_max :: int where
  "int_max = 9223372036854775807"

definition Atoi :: "string \<Rightarrow> int option" where
  "Atoi s =
     (let (neg, ds) = (case s of
        [] \<Rightarrow> (False, [])
      | c # t \<Rightarrow> if c = CHR ''-'' then (True, t) else if c = CHR ''+'' then (False, t) else (False, s)) in
      if ds = [] \<or> \<not> list_all is_digit ds then None
      else let n = int (decimal_value ds) in
        if neg then (if n \<le> int_max + 1 then Some (- n) else None)
        else (if n \<le> int_max then Some n else None))"

text \<open>The position of the first dash, as \<open>strings.IndexByte\<close> finds it.\<close>

fun IndexByte :: "string \<Rightarrow> char \<Rightarrow> nat option" where
  "IndexByte [] c = None"
| "IndexByte (x # xs) c = (if x = c then Some 0 else map_option Suc (IndexByte xs c))"

definition ParseIssueKey :: "string \<Rightarrow> (string \<times> int) option" where
  "ParseIssueKey key =
     (let key = TrimSpace key in
      case IndexByte key (CHR ''-'') of
        None \<Rightarrow> None
      | Some dash \<Rightarrow>
          if dash = 0 \<or> dash = length key - 1 then None
          else
            let prefix = take dash key; numberText = drop (dash + 1) key in
            if \<not> ValidIssuePrefix prefix then None
            else (case Atoi numberText of
                    None \<Rightarrow> None
                  | Some number \<Rightarrow> if number < 1 then None else Some (prefix, number)))"

definition ValidIssueKey :: "string \<Rightarrow> bool" where
  "ValidIssueKey key \<longleftrightarrow> ParseIssueKey key \<noteq> None"

section \<open>Facts about the parts\<close>

text \<open>The runes of a text all of whose runes are ASCII are its bytes.\<close>

lemma wide_rune: "0x80 \<le> byte c \<Longrightarrow> 0x80 \<le> fst (decode_rune (c # s))"
proof -
  let ?b = "byte c"
  assume b: "0x80 \<le> ?b"
  have two: "0x80 \<le> (?b - 0xC0) * 64 + x" if "0xC2 \<le> ?b" for x using that by arith
  have three: "0x80 \<le> (?b - 0xE0) * 4096 + (y - 0x80) * 64 + x" if "second_ok ?b y" "0xE0 \<le> ?b" for x y
    using that by (cases "?b = 0xE0") (auto simp: second_ok_def)
  have four: "0x80 \<le> (?b - 0xF0) * 262144 + (y - 0x80) * 4096 + z * 64 + x" if "second_ok ?b y" "0xF0 \<le> ?b" for x y z
    using that by (cases "?b = 0xF0") (auto simp: second_ok_def)
  show ?thesis using b two three four by (auto simp: decode_rune.simps Let_def split: list.split)
qed

lemma ascii_rune_byte:
  assumes "fst (decode_rune (c # s)) < 0x80"
  shows "fst (decode_rune (c # s)) = byte c" "snd (decode_rune (c # s)) = 1"
proof -
  have "byte c < 0x80" using assms wide_rune [of c s] by (metis not_less)
  then show "fst (decode_rune (c # s)) = byte c" "snd (decode_rune (c # s)) = 1"
    by (simp_all add: decode_rune.simps Let_def)
qed

lemma ascii_runes: "\<forall>r\<in>set (runes s). r < 0x80 \<Longrightarrow> runes s = map byte s"
proof (induction "length s" arbitrary: s)
  case 0
  then show ?case by simp
next
  case (Suc n)
  then obtain c t where s: "s = c # t" by (cases s) auto
  have r: "runes s = fst (decode_rune (c # t)) # runes (drop (snd (decode_rune (c # t))) (c # t))"
    unfolding s by (rule runes_Cons)
  then have "fst (decode_rune (c # t)) < 0x80" using Suc.prems by simp
  note this [THEN ascii_rune_byte(1)] this [THEN ascii_rune_byte(2)]
  then show ?case using r Suc s by simp
qed

lemma prefix_bytes:
  assumes "ValidIssuePrefix p"
  shows "c \<in> set p \<Longrightarrow> upper_letter (byte c) \<or> is_digit c" "p \<noteq> []" "upper_letter (byte (hd p))"
proof -
  have "\<forall>r\<in>set (runes p). r < 0x80"
    using assms by (auto simp: ValidIssuePrefix_def upper_letter_def list_all_iff split: list.splits)
  then have r: "runes p = map byte p" by (rule ascii_runes)
  show "p \<noteq> []" using assms by (auto simp: ValidIssuePrefix_def)
  then show "upper_letter (byte (hd p))" "c \<in> set p \<Longrightarrow> upper_letter (byte c) \<or> is_digit c"
    using assms r by (cases p; auto simp: ValidIssuePrefix_def list_all_iff is_digit_def byte_def)+
qed

lemma IndexByte_append: "c \<notin> set p \<Longrightarrow> IndexByte (p @ c # s) c = Some (length p)"
  by (induction p) auto

lemma Atoi_show: "0 \<le> n \<Longrightarrow> n \<le> int_max \<Longrightarrow> Atoi (show_int n) = Some n"
proof -
  assume n: "0 \<le> n" "n \<le> int_max"
  obtain c t where s: "show_nat (nat n) = c # t" using show_nat_digits(2) by (cases "show_nat (nat n)") auto
  have "is_digit c" using show_nat_digits(1) [of "nat n"] by (simp add: s)
  then have "c \<noteq> CHR ''-''" "c \<noteq> CHR ''+''" by (auto simp: is_digit_def)
  then show ?thesis
    using n s show_nat_digits [of "nat n"] decimal_show_nat [of "nat n"]
    by (simp add: Atoi_def show_int_def Let_def)
qed

section \<open>Properties\<close>

text \<open>
  C19. Parsing undoes formatting: for every valid prefix and every number from 1 to the largest
  int, the key built from them parses back to exactly that prefix and number.
\<close>

theorem issue_key_roundtrip:
  assumes p: "ValidIssuePrefix p" and n: "1 \<le> n" "n \<le> int_max"
  shows "ParseIssueKey (FormatIssueKey p n) = Some (p, n)"
proof -
  have key: "FormatIssueKey p n = p @ CHR ''-'' # show_nat (nat n)"
    using n by (simp add: FormatIssueKey_def show_int_def)
  note b = prefix_bytes [OF p]
  obtain c t where s: "show_nat (nat n) = t @ [c]" "is_digit c"
    using show_nat_digits [of "nat n"] by (cases "show_nat (nat n)" rule: rev_cases) auto
  have "TrimSpace (FormatIssueKey p n) = FormatIssueKey p n"
    using b(2,3) s by (intro TrimSpace_id) (auto simp: key upper_letter_def byte_def is_digit_def)
  moreover have "CHR ''-'' \<notin> set p" using b(1) [of "CHR ''-''"] by (auto simp: upper_letter_def byte_def is_digit_def)
  then have "IndexByte (FormatIssueKey p n) (CHR ''-'') = Some (length p)" unfolding key by (rule IndexByte_append)
  moreover have "Atoi (show_nat (nat n)) = Some n" using Atoi_show [of n] n by (simp add: show_int_def)
  ultimately show ?thesis using p n b(2) s by (simp add: ParseIssueKey_def Let_def key)
qed

theorem issue_key_roundtrip_witness: "ParseIssueKey (FormatIssueKey ''AB'' 42) = Some (''AB'', 42)"
proof -
  have "ValidIssuePrefix ''AB''" by code_simp
  then show ?thesis using issue_key_roundtrip [of "''AB''" 42] by (simp add: int_max_def)
qed

text \<open>
  A key is not canonical: a sign and leading zeros are accepted, so several texts name the same
  Issue.
\<close>

lemma issue_key_not_canonical:
  "ParseIssueKey ''AB-+7'' = Some (''AB'', 7)" "ParseIssueKey ''AB-007'' = ParseIssueKey ''AB-7''"
  by code_simp+

end
