(* ===== verification/Assignment.thy ===== *)
theory Assignment
  imports Scheduler_Admission Issue_Keys
begin

text \<open>
  From an Issue to its queued Run (store/postgres/assignment.go, store/issue_enqueue.go): which
  mutations of an Issue start work, which Agent an assignee stands for, whether that Agent can
  run, and the creation of the Workspace and the Run under the lock of the Issue.
  \<open>engineRegistered\<close> is the registry of Engines the Store is built with; \<open>None\<close> is a
  Store without one.
\<close>

section \<open>Statuses and policy\<close>

definition activeRunStatus :: "run_status \<Rightarrow> bool" where
  "activeRunStatus s \<longleftrightarrow> s \<in> {RUN_QUEUED, RUN_STARTING, RUN_RUNNING, RUN_WAITING_FOR_INPUT, RUN_PAUSED,
     RUN_READY_FOR_REVIEW}"

text \<open>
  \<open>ShouldAutoEnqueueIssue\<close>. The previous status of a new Issue is the empty string, here
  \<open>None\<close>.
\<close>

definition ShouldAutoEnqueueIssue :: "issue_status option \<Rightarrow> issue_status \<Rightarrow> string \<Rightarrow> bool \<Rightarrow> bool" where
  "ShouldAutoEnqueueIssue previousStatus status assigneeType assignment =
     (if assigneeType \<noteq> ''AGENT'' \<and> assigneeType \<noteq> ''SQUAD'' then False
      else if assignment then status \<noteq> ISS_BACKLOG
      else previousStatus = Some ISS_BACKLOG \<and> status \<noteq> ISS_BACKLOG \<and> status \<noteq> ISS_DONE)"

text \<open>The Agent an assignee stands for, and \<open>None\<close> where the Issue is not executable.\<close>

definition resolveIssueExecutionAgent :: "issue \<Rightarrow> (db, id option) tx" where
  "resolveIssueExecutionAgent issue =
     (case (iss_assignee_type issue, iss_assignee_id issue) of
        (Some ty, Some assignee) \<Rightarrow>
          if ty = ''AGENT'' then tx_return (Some assignee)
          else if ty = ''SQUAD'' then
            tx_bind (sql_find db_squads (\<lambda>d s. sqd_project_id s = iss_project_id issue \<and> sqd_id s = assignee)) (\<lambda>s.
            tx_return (Some (sqd_leader_agent_id s)))
          else tx_return None
      | _ \<Rightarrow> tx_return None)"

section \<open>Reading under the lock of the Issue\<close>

text \<open>The Issue joined with its project, which gives the key, the repository and the branch.\<close>

definition lockAssignmentIssue :: "id \<Rightarrow> id \<Rightarrow> (db, issue \<times> string \<times> string \<times> string) tx" where
  "lockAssignmentIssue projectID issueID =
     tx_bind (sql_find db_issues (\<lambda>d i. iss_project_id i = projectID \<and> iss_id i = issueID)) (\<lambda>issue.
     tx_bind (sql_find db_projects (\<lambda>d p. prj_id p = iss_project_id issue)) (\<lambda>project.
     tx_return (issue, FormatIssueKey (prj_issue_prefix project) (iss_number issue),
                prj_repository_path project, prj_default_branch project)))"

definition runnable_config :: "db \<Rightarrow> id \<Rightarrow> id \<Rightarrow> (agent \<times> model_profile \<times> provider) option" where
  "runnable_config d projectID agentID =
     (case List.find (\<lambda>a. agt_id a = agentID \<and> visible_to (agt_project_id a) projectID) (db_agents d) of
        None \<Rightarrow> None
      | Some a \<Rightarrow>
          (case List.find (\<lambda>m. mdl_id m = agt_model_profile_id a \<and> visible_to (mdl_project_id m) projectID)
                  (db_model_profiles d) of
             None \<Rightarrow> None
           | Some m \<Rightarrow> map_option (\<lambda>p. (a, m, p))
               (List.find (\<lambda>p. prv_id p = mdl_provider_id m) (db_providers d))))"

definition verifyRunnableAgent :: "(string \<Rightarrow> bool) option \<Rightarrow> id \<Rightarrow> id \<Rightarrow> (db, unit) tx" where
  "verifyRunnableAgent engineRegistered projectID agentID =
     tx_bind (tx_get (\<lambda>d. runnable_config d projectID agentID)) (\<lambda>found.
     case found of
       None \<Rightarrow> tx_fail ErrNotFound
     | Some (a, m, p) \<Rightarrow>
         tx_guard (agt_state a = AGT_ENABLED \<and> mdl_enabled m \<and> prv_enabled p \<and> \<not> prv_unhealthy p \<and>
           (case engineRegistered of None \<Rightarrow> True | Some reg \<Rightarrow> reg (TrimSpace (agt_engine a)))) ErrConflict)"

definition activeRunForAgent :: "id \<Rightarrow> id \<Rightarrow> id \<Rightarrow> (db, run) tx" where
  "activeRunForAgent projectID issueID agentID =
     sql_first db_runs (\<lambda>d r. run_project_id r = projectID \<and> run_issue_id r = issueID \<and>
       run_agent_id r = Some agentID \<and> activeRunStatus (run_status r)) (\<lambda>r. - run_attempt r)"

section \<open>Creating the Workspace and the Run\<close>

definition pendingWorkspacePrefix :: string where
  "pendingWorkspacePrefix = ''pending://workspace/''"

definition workspace_unique :: "workspace \<Rightarrow> workspace \<Rightarrow> bool" where
  "workspace_unique a b \<longleftrightarrow> wsp_id a = wsp_id b \<or> wsp_issue_id a = wsp_issue_id b \<or> wsp_path a = wsp_path b"

definition workspace_check :: "db \<Rightarrow> workspace \<Rightarrow> pg_error option" where
  "workspace_check d w =
     (if btrim (wsp_path w) = [] \<or> btrim (wsp_working_branch w) = [] \<or>
         (case wsp_current_branch w of None \<Rightarrow> False | Some b \<Rightarrow> btrim b = [])
      then Some CheckViolation
      else if exists_row (\<lambda>i. iss_project_id i = wsp_project_id w \<and> iss_id i = wsp_issue_id w) (db_issues d)
      then None else Some ForeignKeyViolation)"

definition workspaceForAssignment :: "id \<Rightarrow> id \<Rightarrow> string \<Rightarrow> string \<Rightarrow> string \<Rightarrow> (db, workspace) tx" where
  "workspaceForAssignment projectID issueID issueKey repositoryPath defaultBranch =
     tx_bind (tx_get (\<lambda>d. List.find (\<lambda>w. wsp_project_id w = projectID \<and> wsp_issue_id w = issueID) (db_workspaces d)))
       (\<lambda>found. case found of
          Some workspace \<Rightarrow> tx_return workspace
        | None \<Rightarrow>
            let workingBranch = WorkingBranchForIssue issueKey in
            tx_bind gen_random_uuid (\<lambda>uid.
            tx_bind (tx_get db_now) (\<lambda>now.
            sql_insert db_workspaces db_workspaces_update workspace_unique workspace_check notFound
              \<lparr>wsp_id = uid, wsp_project_id = projectID, wsp_issue_id = issueID,
               wsp_path = pendingWorkspacePrefix @ issueID, wsp_repository_path = Some repositoryPath,
               wsp_base_branch = Some defaultBranch, wsp_base_revision = None,
               wsp_working_branch = workingBranch, wsp_current_branch = Some workingBranch,
               wsp_current_revision = None, wsp_bootstrap_status = ''PENDING'', wsp_created_at = now, wsp_updated_at = now\<rparr>)))"

text \<open>The next attempt of an Issue; the sum is an \<open>int4\<close>.\<close>

definition issue_attempts :: "db \<Rightarrow> id \<Rightarrow> id \<Rightarrow> int list" where
  "issue_attempts d projectID issueID =
     map run_attempt (filter (\<lambda>r. run_project_id r = projectID \<and> run_issue_id r = issueID) (db_runs d))"

definition nextIssueRunAttempt :: "id \<Rightarrow> id \<Rightarrow> (db, int) tx" where
  "nextIssueRunAttempt projectID issueID =
     tx_bind (tx_get (\<lambda>d. case issue_attempts d projectID issueID of [] \<Rightarrow> 0 | as \<Rightarrow> Max (set as))) (\<lambda>last.
     tx_bind (tx_guard (last + 1 \<le> 2147483647) (PgError NumericOutOfRange)) (\<lambda>_.
     tx_return (last + 1)))"

text \<open>
  \<open>enqueueAssignedIssue\<close>: the Run that works on the Issue, and the Event of its creation
  when this call created it. \<open>None\<close> is the zero Run of the source.
\<close>

definition create_assigned_run :: "issue \<Rightarrow> string \<Rightarrow> id \<Rightarrow> string \<Rightarrow> string \<Rightarrow> (db, run option \<times> event option) tx" where
  "create_assigned_run issue issueKey agentID repositoryPath defaultBranch =
     tx_bind (workspaceForAssignment (iss_project_id issue) (iss_id issue) issueKey repositoryPath defaultBranch) (\<lambda>workspace.
     tx_bind (nextIssueRunAttempt (iss_project_id issue) (iss_id issue)) (\<lambda>attempt.
     tx_bind (createQueuedRunTx \<lparr>qri_project_id = iss_project_id issue, qri_issue_id = iss_id issue,
                qri_workspace_id = wsp_id workspace, qri_agent_id = agentID, qri_attempt = attempt,
                qri_idempotency_key = []\<rparr>) (\<lambda>(run, job, event).
     tx_return (Some run, Some event))))"

definition enqueueAssignedIssue ::
  "(string \<Rightarrow> bool) option \<Rightarrow> issue \<Rightarrow> string \<Rightarrow> id \<Rightarrow> string \<Rightarrow> string \<Rightarrow> bool \<Rightarrow>
   (db, run option \<times> event option) tx" where
  "enqueueAssignedIssue engineRegistered issue issueKey agentID repositoryPath defaultBranch strict =
     tx_bind (tx_try (verifyRunnableAgent engineRegistered (iss_project_id issue) agentID)) (\<lambda>runnable.
     case runnable of
       Inl e \<Rightarrow> if e = ErrConflict \<or> e = ErrNotFound
                then (if strict then tx_fail ErrConflict else tx_return (None, None))
                else tx_fail e
     | Inr _ \<Rightarrow>
         tx_bind (tx_try (activeRunForAgent (iss_project_id issue) (iss_id issue) agentID)) (\<lambda>active.
         case active of
           Inr run \<Rightarrow> tx_return (Some run, None)
         | Inl e \<Rightarrow> if e \<noteq> ErrNotFound then tx_fail e
                    else create_assigned_run issue issueKey agentID repositoryPath defaultBranch))"

definition enqueueIssueMutation ::
  "(string \<Rightarrow> bool) option \<Rightarrow> issue \<Rightarrow> string \<Rightarrow> issue_status option \<Rightarrow> bool \<Rightarrow> string \<Rightarrow> string \<Rightarrow>
   (db, run option \<times> event option) tx" where
  "enqueueIssueMutation engineRegistered issue issueKey previousStatus assignment repositoryPath defaultBranch =
     (let kind = (case iss_assignee_type issue of None \<Rightarrow> [] | Some ty \<Rightarrow> ty) in
      if \<not> ShouldAutoEnqueueIssue previousStatus (iss_status issue) kind assignment \<or> iss_assignee_id issue = None
      then tx_return (None, None)
      else
        tx_bind (resolveIssueExecutionAgent issue) (\<lambda>agent.
        case agent of
          None \<Rightarrow> tx_return (None, None)
        | Some agentID \<Rightarrow>
            enqueueAssignedIssue engineRegistered issue issueKey agentID repositoryPath defaultBranch False))"

section \<open>Frames\<close>

text \<open>Checks and lookups leave the database alone, whatever they answer.\<close>

lemma read_assignment [read_rules]:
  "tx_keeps_on UNIV (=) (lockAssignmentIssue p i)" "tx_keeps_on UNIV (=) (verifyRunnableAgent eng p a)"
  "tx_keeps_on UNIV (=) (activeRunForAgent p i a)" "tx_keeps_on UNIV (=) (resolveIssueExecutionAgent issue)"
  "tx_keeps_on UNIV (=) (nextIssueRunAttempt p i)"
  unfolding lockAssignmentIssue_def verifyRunnableAgent_def activeRunForAgent_def resolveIssueExecutionAgent_def
    nextIssueRunAttempt_def
  by (intro read_rules)+

lemmas read_tried [read_rules] = read_assignment(2,3) [THEN reads.keeps_on_try]

lemmas quiet_reads_only = quiet.keeps_on_read [THEN keeps_on_keeps]

lemmas history_reads_only = history.keeps_on_read [THEN keeps_on_keeps]

lemmas [quiet_rules] = read_assignment [THEN quiet_reads_only] read_tried [THEN quiet_reads_only]

lemmas [history_rules] = read_assignment [THEN history_reads_only] read_tried [THEN history_reads_only]

lemma quiet_assignment [quiet_rules]:
  "tx_keeps quiet (workspaceForAssignment p i key path branch)"
  "tx_keeps quiet (create_assigned_run issue key agent path branch)"
  "tx_keeps quiet (enqueueAssignedIssue eng issue key agent path branch strict)"
  "tx_keeps quiet (enqueueIssueMutation eng issue key prev assignment path branch)"
  unfolding workspaceForAssignment_def create_assigned_run_def enqueueAssignedIssue_def enqueueIssueMutation_def Let_def
  by (intro quiet_rules)+

lemma history_assignment [history_rules]:
  "tx_keeps history (workspaceForAssignment p i key path branch)"
  "tx_keeps history (create_assigned_run issue key agent path branch)"
  "tx_keeps history (enqueueAssignedIssue eng issue key agent path branch strict)"
  "tx_keeps history (enqueueIssueMutation eng issue key prev assignment path branch)"
  unfolding workspaceForAssignment_def create_assigned_run_def enqueueAssignedIssue_def enqueueIssueMutation_def Let_def
  by (intro history_rules)+

end
