(* ===== verification/Sha256.thy ===== *)
theory Sha256
  imports Go_Strings "HOL-Library.Word"
begin

text \<open>
  \<open>crypto/sha256.Sum256\<close> and the verb \<open>%x\<close> on its digest (FIPS 180-4), which
  delegation.go uses for scheduler keys: 32-bit words with wrap-around addition.
\<close>

unbundle bit_operations_syntax

type_synonym word32 = "32 word"

definition sha256_initial :: "word32 list" where
  "sha256_initial =
    [0x6A09E667, 0xBB67AE85, 0x3C6EF372, 0xA54FF53A, 0x510E527F, 0x9B05688C,
     0x1F83D9AB, 0x5BE0CD19]"

definition sha256_constants :: "word32 list" where
  "sha256_constants =
    [0x428A2F98, 0x71374491, 0xB5C0FBCF, 0xE9B5DBA5, 0x3956C25B, 0x59F111F1,
     0x923F82A4, 0xAB1C5ED5, 0xD807AA98, 0x12835B01, 0x243185BE, 0x550C7DC3,
     0x72BE5D74, 0x80DEB1FE, 0x9BDC06A7, 0xC19BF174, 0xE49B69C1, 0xEFBE4786,
     0x0FC19DC6, 0x240CA1CC, 0x2DE92C6F, 0x4A7484AA, 0x5CB0A9DC, 0x76F988DA,
     0x983E5152, 0xA831C66D, 0xB00327C8, 0xBF597FC7, 0xC6E00BF3, 0xD5A79147,
     0x06CA6351, 0x14292967, 0x27B70A85, 0x2E1B2138, 0x4D2C6DFC, 0x53380D13,
     0x650A7354, 0x766A0ABB, 0x81C2C92E, 0x92722C85, 0xA2BFE8A1, 0xA81A664B,
     0xC24B8B70, 0xC76C51A3, 0xD192E819, 0xD6990624, 0xF40E3585, 0x106AA070,
     0x19A4C116, 0x1E376C08, 0x2748774C, 0x34B0BCB5, 0x391C0CB3, 0x4ED8AA4A,
     0x5B9CCA4F, 0x682E6FF3, 0x748F82EE, 0x78A5636F, 0x84C87814, 0x8CC70208,
     0x90BEFFFA, 0xA4506CEB, 0xBEF9A3F7, 0xC67178F2]"

section \<open>Padding\<close>

text \<open>The message, one bit, zeros up to 8 bytes before a block of 64, and the length in bits.\<close>

definition length_bytes :: "nat \<Rightarrow> word32 list" where
  "length_bytes n =
     map (\<lambda>i. ucast (drop_bit i (word_of_nat (8 * n) :: 64 word) AND 0xFF)) [56, 48, 40, 32, 24, 16, 8, 0]"

definition sha256_padded :: "word32 list \<Rightarrow> word32 list" where
  "sha256_padded msg =
     msg @ [0x80] @ replicate ((119 - length msg mod 64) mod 64) 0 @ length_bytes (length msg)"

fun sha256_words :: "word32 list \<Rightarrow> word32 list" where
  "sha256_words (a # b # c # d # bs) =
     (push_bit 24 a OR push_bit 16 b OR push_bit 8 c OR d) # sha256_words bs"
| "sha256_words _ = []"

section \<open>Compression\<close>

definition small_sigma0 :: "word32 \<Rightarrow> word32" where
  "small_sigma0 w = (word_rotr 7 w) XOR (word_rotr 18 w) XOR (drop_bit 3 w)"

definition small_sigma1 :: "word32 \<Rightarrow> word32" where
  "small_sigma1 w = (word_rotr 17 w) XOR (word_rotr 19 w) XOR (drop_bit 10 w)"

definition big_sigma0 :: "word32 \<Rightarrow> word32" where
  "big_sigma0 w = (word_rotr 2 w) XOR (word_rotr 13 w) XOR (word_rotr 22 w)"

definition big_sigma1 :: "word32 \<Rightarrow> word32" where
  "big_sigma1 w = (word_rotr 6 w) XOR (word_rotr 11 w) XOR (word_rotr 25 w)"

text \<open>The message schedule, newest word first.\<close>

fun sha256_extend :: "nat \<Rightarrow> word32 list \<Rightarrow> word32 list" where
  "sha256_extend 0 ws = ws"
| "sha256_extend (Suc n) ws =
     sha256_extend n ((small_sigma1 (ws ! 1) + ws ! 6 + small_sigma0 (ws ! 14) + ws ! 15) # ws)"

definition sha256_schedule :: "word32 list \<Rightarrow> word32 list" where
  "sha256_schedule block = rev (sha256_extend 48 (rev block))"

fun sha256_round :: "word32 list \<Rightarrow> word32 \<times> word32 \<Rightarrow> word32 list" where
  "sha256_round [a, b, c, d, e, f, g, h] (k, w) =
     (let t1 = h + big_sigma1 e + ((e AND f) XOR (NOT e AND g)) + k + w;
          t2 = big_sigma0 a + ((a AND b) XOR (a AND c) XOR (b AND c)) in
      [t1 + t2, a, b, c, d + t1, e, f, g])"
| "sha256_round s _ = s"

definition sha256_block :: "word32 list \<Rightarrow> word32 list \<Rightarrow> word32 list" where
  "sha256_block block state =
     map2 (+) state (foldl sha256_round state (zip sha256_constants (sha256_schedule block)))"

function sha256_blocks :: "word32 list \<Rightarrow> word32 list \<Rightarrow> word32 list" where
  "sha256_blocks ws state =
     (if length ws < 16 then state else sha256_blocks (drop 16 ws) (sha256_block (take 16 ws) state))"
  by pat_completeness auto
termination
  by (relation "measure (\<lambda>(ws, state). length ws)") auto

declare sha256_blocks.simps [simp del]

section \<open>Digest\<close>

definition Sum256 :: "string \<Rightarrow> word32 list" where
  "Sum256 s = sha256_blocks (sha256_words (sha256_padded (map of_char s))) sha256_initial"

definition lower_hex :: "nat \<Rightarrow> char" where
  "lower_hex n = (if n < 10 then char_of (48 + n) else char_of (87 + n))"

definition hex_word :: "word32 \<Rightarrow> string" where
  "hex_word w = map (\<lambda>i. lower_hex (unat (drop_bit i w AND 0xF))) [28, 24, 20, 16, 12, 8, 4, 0]"

definition Sum256_hex :: "string \<Rightarrow> string" where
  "Sum256_hex s = concat (map hex_word (Sum256 s))"

section \<open>Shape of a digest\<close>

lemma length_sha256_round: "length (sha256_round s kw) = length s"
  by (induction s kw rule: sha256_round.induct) (auto simp: Let_def)

lemma length_sha256_rounds: "length (foldl sha256_round s kws) = length s"
  by (induction kws arbitrary: s) (simp_all add: length_sha256_round)

lemma length_sha256_blocks: "length (sha256_blocks ws state) = length state"
proof (induction ws state rule: sha256_blocks.induct)
  case (1 ws state)
  then show ?case
    by (subst sha256_blocks.simps) (simp add: sha256_block_def length_sha256_rounds)
qed

lemma length_Sum256: "length (Sum256 s) = 8"
  by (simp add: Sum256_def length_sha256_blocks sha256_initial_def)

lemma length_Sum256_hex: "length (Sum256_hex s) = 64"
proof -
  have "sum_list (map (length \<circ> hex_word) ws) = 8 * length ws" for ws
    by (induction ws) (simp_all add: hex_word_def)
  then show ?thesis by (simp add: Sum256_hex_def length_concat length_Sum256)
qed

text \<open>Padded messages are whole blocks.\<close>

lemma length_sha256_padded: "length (sha256_padded msg) mod 64 = 0"
proof -
  define m where "m = length msg mod 64"
  have m: "m < 64" by (simp add: m_def)
  have "(m + 1 + (119 - m) mod 64 + 8) mod 64 = 0"
    using m by (cases "m < 56") (auto simp: mod_if)
  then have "(length msg + (1 + (119 - m) mod 64 + 8)) mod 64 = 0"
    unfolding m_def by (metis add.assoc mod_add_left_eq)
  then show ?thesis by (simp add: sha256_padded_def length_bytes_def m_def add.left_commute)
qed

end
