(* ===== verification/Delegation_Request.thy ===== *)
theory Delegation_Request
  imports Assignment Sha256
begin

text \<open>
  Requesting delegated work (store/postgres/delegation.go): a running parent Run, or a human
  comment on the Issue, asks for a Run of another Agent. A request carries a key; repeating it
  returns the delegation it created. The Run a parent asks for is held back until the parent has
  handed the Workspace over.
\<close>

section \<open>Commands and constraints\<close>

definition MaxDelegationTaskCharacters :: nat where
  "MaxDelegationTaskCharacters = 16384"

record delegation_command =
  dlc_project_id :: id
  dlc_parent_run_id :: id
  dlc_target_agent_id :: id
  dlc_task :: string
  dlc_request_key :: string

record issue_delegation_command =
  idc_project_id :: id
  idc_issue_id :: id
  idc_source_comment_id :: id
  idc_target_agent_id :: id
  idc_task :: string
  idc_request_key :: string

record delegation_result =
  dlr_delegation :: delegation
  dlr_run :: run
  dlr_job :: job
  dlr_events :: "event list"

definition delegation_unique :: "delegation \<Rightarrow> delegation \<Rightarrow> bool" where
  "delegation_unique a b \<longleftrightarrow> dlg_id a = dlg_id b \<or> dlg_delegated_run_id a = dlg_delegated_run_id b \<or>
     (dlg_parent_run_id a \<noteq> None \<and> dlg_parent_run_id a = dlg_parent_run_id b \<and> dlg_request_key a = dlg_request_key b) \<or>
     (dlg_source_comment_id a \<noteq> None \<and> dlg_source_comment_id a = dlg_source_comment_id b \<and>
      dlg_request_key a = dlg_request_key b)"

definition delegation_origin_valid :: "delegation \<Rightarrow> bool" where
  "delegation_origin_valid g \<longleftrightarrow>
     (dlg_parent_run_id g \<noteq> None \<and> dlg_parent_agent_id g \<noteq> None \<and> dlg_source_comment_id g = None \<or>
      dlg_parent_run_id g = None \<and> dlg_parent_agent_id g = None \<and> dlg_source_comment_id g \<noteq> None) \<and>
     dlg_parent_agent_id g \<noteq> Some (dlg_target_agent_id g)"

definition delegation_check :: "db \<Rightarrow> delegation \<Rightarrow> pg_error option" where
  "delegation_check d g =
     (let run_of = (\<lambda>x. exists_row (\<lambda>r. run_project_id r = dlg_project_id g \<and> run_issue_id r = dlg_issue_id g \<and>
                             run_id r = x) (db_runs d)) in
      if btrim (dlg_task g) = [] \<or> btrim (dlg_request_key g) = [] \<or> \<not> delegation_origin_valid g
      then Some CheckViolation
      else if exists_row (\<lambda>i. iss_project_id i = dlg_project_id g \<and> iss_id i = dlg_issue_id g) (db_issues d) \<and>
              (case dlg_parent_run_id g of None \<Rightarrow> True | Some p \<Rightarrow> run_of p) \<and>
              run_of (dlg_delegated_run_id g) \<and>
              (case dlg_source_comment_id g of None \<Rightarrow> True
               | Some c \<Rightarrow> exists_row (\<lambda>m. cmt_issue_id m = dlg_issue_id g \<and> cmt_id m = c) (db_comments d)) \<and>
              (case dlg_parent_agent_id g of None \<Rightarrow> True
               | Some a \<Rightarrow> exists_row (\<lambda>x. agt_id x = a) (db_agents d)) \<and>
              exists_row (\<lambda>x. agt_id x = dlg_target_agent_id g) (db_agents d)
      then None else Some ForeignKeyViolation)"

definition new_delegation :: "id \<Rightarrow> id \<Rightarrow> id \<Rightarrow> id option \<Rightarrow> id option \<Rightarrow> id option \<Rightarrow> id \<Rightarrow> string \<Rightarrow> id \<Rightarrow>
   string \<Rightarrow> time \<Rightarrow> delegation" where
  "new_delegation uid projectID issueID parentRunID parentAgentID sourceCommentID targetAgentID task runID key now =
     \<lparr>dlg_id = uid, dlg_project_id = projectID, dlg_issue_id = issueID, dlg_parent_run_id = parentRunID,
      dlg_parent_agent_id = parentAgentID, dlg_source_comment_id = sourceCommentID,
      dlg_target_agent_id = targetAgentID, dlg_task = task, dlg_delegated_run_id = runID,
      dlg_request_key = key, dlg_outcome = None, dlg_result_summary = None, dlg_result_event_id = None,
      dlg_workspace_changes_accepted = None, dlg_continuation_job_id = None, dlg_completed_at = None,
      dlg_created_at = now, dlg_updated_at = now\<rparr>"

definition insert_delegation :: "(id \<Rightarrow> time \<Rightarrow> delegation) \<Rightarrow> (db, delegation) tx" where
  "insert_delegation row =
     tx_bind gen_random_uuid (\<lambda>uid.
     tx_bind (tx_get db_now) (\<lambda>now.
     sql_insert db_delegations db_delegations_update delegation_unique delegation_check notFound (row uid now)))"

definition delegationSchedulerKey :: "string \<Rightarrow> string \<Rightarrow> string" where
  "delegationSchedulerKey parentRunID requestKey =
     ''delegation:'' @ Sum256_hex (parentRunID @ [CHR 0x00] @ requestKey) @ '':start''"

section \<open>Repeated requests\<close>

text \<open>The delegated Run and its first START job.\<close>

definition start_job_of_run :: "id \<Rightarrow> id \<Rightarrow> (db, job) tx" where
  "start_job_of_run projectID runID =
     sql_first db_jobs (\<lambda>d j. job_project_id j = projectID \<and> job_run_id j = runID \<and> job_kind j = JOB_START)
       (\<lambda>j. (job_created_at j, job_id j))"

definition repeated_request :: "delegation \<Rightarrow> id \<Rightarrow> (db, delegation_result option) tx" where
  "repeated_request delegation projectID =
     tx_bind (find_run projectID (dlg_delegated_run_id delegation)) (\<lambda>run.
     tx_bind (start_job_of_run projectID (dlg_delegated_run_id delegation)) (\<lambda>job.
     tx_return (Some \<lparr>dlr_delegation = delegation, dlr_run = run, dlr_job = job, dlr_events = []\<rparr>)))"

definition existingDelegationRequest :: "delegation_command \<Rightarrow> (db, delegation_result option) tx" where
  "existingDelegationRequest input =
     tx_bind (tx_get (\<lambda>d. List.find (\<lambda>g. dlg_project_id g = dlc_project_id input \<and>
                dlg_parent_run_id g = Some (dlc_parent_run_id input) \<and>
                dlg_request_key g = dlc_request_key input) (db_delegations d))) (\<lambda>found.
     case found of
       None \<Rightarrow> tx_return None
     | Some delegation \<Rightarrow>
         tx_bind (tx_guard (dlg_target_agent_id delegation = dlc_target_agent_id input \<and>
                            dlg_task delegation = dlc_task input) ErrConflict) (\<lambda>_.
         repeated_request delegation (dlc_project_id input)))"

definition existingIssueDelegationRequest :: "issue_delegation_command \<Rightarrow> (db, delegation_result option) tx" where
  "existingIssueDelegationRequest input =
     tx_bind (tx_get (\<lambda>d. List.find (\<lambda>g. dlg_project_id g = idc_project_id input \<and>
                dlg_source_comment_id g = Some (idc_source_comment_id input) \<and>
                dlg_request_key g = idc_request_key input) (db_delegations d))) (\<lambda>found.
     case found of
       None \<Rightarrow> tx_return None
     | Some delegation \<Rightarrow>
         tx_bind (tx_guard (dlg_source_comment_id delegation = Some (idc_source_comment_id input) \<and>
                            dlg_issue_id delegation = idc_issue_id input \<and>
                            dlg_target_agent_id delegation = idc_target_agent_id input \<and>
                            dlg_task delegation = idc_task input \<and>
                            dlg_parent_run_id delegation = None \<and> dlg_parent_agent_id delegation = None)
                    ErrConflict) (\<lambda>_.
         repeated_request delegation (idc_project_id input)))"

section \<open>The delegated Run\<close>

text \<open>9999-12-31 23:59:59 UTC, in microseconds: a job that is not available.\<close>

definition never_available :: time where
  "never_available = 253402300799000000"

definition holdDelegatedRunForWorkspaceHandoff :: "run \<Rightarrow> job \<Rightarrow> (db, run \<times> job) tx" where
  "holdDelegatedRunForWorkspaceHandoff run job =
     tx_bind (sql_update_row db_runs db_runs_update
                (\<lambda>d r. run_project_id r = run_project_id run \<and> run_id r = run_id run \<and> run_status r = RUN_QUEUED)
                (\<lambda>d r. r\<lparr>run_queue_reason := Some DelegationWorkspaceHandoffWaitReason, run_updated_at := db_now d\<rparr>))
       (\<lambda>run.
     tx_bind (sql_update_row db_jobs db_jobs_update
                (\<lambda>d j. job_project_id j = job_project_id job \<and> job_id j = job_id job \<and>
                       job_run_id j = job_run_id job \<and> job_state j = JOB_QUEUED)
                (\<lambda>d j. j\<lparr>job_wait_reason := Some DelegationWorkspaceHandoffWaitReason,
                          job_available_at := never_available, job_updated_at := db_now d\<rparr>)) (\<lambda>job.
     tx_return (run, job)))"

definition agent_is_free :: "id \<Rightarrow> id \<Rightarrow> id \<Rightarrow> (db, unit) tx" where
  "agent_is_free projectID issueID agentID =
     tx_bind (tx_try (activeRunForAgent projectID issueID agentID)) (\<lambda>active.
     case active of
       Inr _ \<Rightarrow> tx_fail ErrConflict
     | Inl e \<Rightarrow> if e = ErrNotFound then tx_return () else tx_fail e)"

definition runnable_or_conflict :: "(string \<Rightarrow> bool) option \<Rightarrow> id \<Rightarrow> id \<Rightarrow> (db, unit) tx" where
  "runnable_or_conflict engineRegistered projectID agentID =
     tx_bind (tx_try (verifyRunnableAgent engineRegistered projectID agentID)) (\<lambda>runnable.
     case runnable of
       Inr _ \<Rightarrow> tx_return ()
     | Inl e \<Rightarrow> if e = ErrNotFound \<or> e = ErrConflict then tx_fail ErrConflict else tx_fail e)"

text \<open>
  \<open>violation\<close> is what becomes of the error of a statement: \<open>as_is\<close> for a caller that
  returns it, the error of the next statement for a caller that goes on inside the
  transaction PostgreSQL has marked as failed.
\<close>

definition createDelegatedTargetRunTx ::
  "(store_error \<Rightarrow> store_error) \<Rightarrow> (string \<Rightarrow> bool) option \<Rightarrow> id \<Rightarrow> id \<Rightarrow> id \<Rightarrow> id \<Rightarrow> string \<Rightarrow> bool \<Rightarrow> (db, run \<times> job \<times> event) tx" where
  "createDelegatedTargetRunTx violation engineRegistered projectID issueID workspaceID targetAgentID idempotencyKey
     holdForParentHandoff =
     tx_bind (runnable_or_conflict engineRegistered projectID targetAgentID) (\<lambda>_.
     tx_bind (agent_is_free projectID issueID targetAgentID) (\<lambda>_.
     tx_bind (nextIssueRunAttempt projectID issueID) (\<lambda>attempt.
     tx_bind (tx_map_error violation (createQueuedRunTx \<lparr>qri_project_id = projectID, qri_issue_id = issueID,
                qri_workspace_id = workspaceID, qri_agent_id = targetAgentID, qri_attempt = attempt,
                qri_idempotency_key = idempotencyKey\<rparr>)) (\<lambda>(run, job, event).
     if \<not> holdForParentHandoff then tx_return (run, job, event)
     else
       tx_bind (holdDelegatedRunForWorkspaceHandoff run job) (\<lambda>(run, job).
       tx_return (run, job, event))))))"

section \<open>Requests\<close>

text \<open>What a parent Run has to fulfil before it may delegate, answering its Agent.\<close>

definition delegating_agent :: "delegation_command \<Rightarrow> run \<Rightarrow> (db, id) tx" where
  "delegating_agent input parent =
     tx_bind (sql_exists db_delegations (\<lambda>d g. dlg_project_id g = dlc_project_id input \<and>
                dlg_parent_run_id g = Some (run_id parent) \<and> dlg_outcome g = None)) (\<lambda>unfinished.
     tx_bind (tx_guard (\<not> unfinished) ErrConflict) (\<lambda>_.
     tx_bind (tx_guard (run_status parent = RUN_RUNNING \<and> run_agent_id parent \<noteq> None \<and>
                        run_agent_id parent \<noteq> Some (dlc_target_agent_id input)) ErrConflict) (\<lambda>_.
     tx_bind (sql_exists db_delegations (\<lambda>d g. dlg_project_id g = dlc_project_id input \<and>
                dlg_delegated_run_id g = run_id parent)) (\<lambda>delegatedParent.
     tx_bind (tx_guard (\<not> delegatedParent) ErrConflict) (\<lambda>_.
     tx_bind (tx_option ErrConflict (run_agent_id parent)) (\<lambda>parentAgentID.
     tx_bind (sql_find db_agents (\<lambda>d a. agt_id a = parentAgentID \<and>
                visible_to (agt_project_id a) (dlc_project_id input))) (\<lambda>agent.
     tx_bind (tx_guard (agt_allow_delegation agent) ErrConflict) (\<lambda>_.
     tx_return parentAgentID))))))))"

definition create_delegation :: "(store_error \<Rightarrow> store_error) \<Rightarrow> (string \<Rightarrow> bool) option \<Rightarrow> delegation_command \<Rightarrow> run \<Rightarrow> (db, delegation_result) tx" where
  "create_delegation violation engineRegistered input parent =
     tx_bind (delegating_agent input parent) (\<lambda>parentAgentID.
     tx_bind (lockAssignmentIssue (dlc_project_id input) (run_issue_id parent)) (\<lambda>(issue, _).
     tx_bind (tx_guard (iss_id issue = run_issue_id parent) ErrConflict) (\<lambda>_.
     tx_bind (createDelegatedTargetRunTx violation engineRegistered (dlc_project_id input) (run_issue_id parent)
                (run_workspace_id parent) (dlc_target_agent_id input)
                (delegationSchedulerKey (run_id parent) (dlc_request_key input)) True) (\<lambda>(run, job, event).
     tx_bind (tx_map_error violation (insert_delegation (\<lambda>uid now. new_delegation uid (dlc_project_id input)
                (run_issue_id parent) (Some (run_id parent)) (Some parentAgentID) None (dlc_target_agent_id input)
                (dlc_task input) (run_id run) (dlc_request_key input) now))) (\<lambda>delegation.
     tx_return \<lparr>dlr_delegation = delegation, dlr_run = run, dlr_job = job, dlr_events = [event]\<rparr>)))))"

definition requestDelegationTx :: "(store_error \<Rightarrow> store_error) \<Rightarrow> (string \<Rightarrow> bool) option \<Rightarrow> delegation_command \<Rightarrow> (db, delegation_result) tx" where
  "requestDelegationTx violation engineRegistered input =
     tx_bind (existingDelegationRequest input) (\<lambda>found.
     case found of
       Some result \<Rightarrow> tx_return result
     | None \<Rightarrow>
         tx_bind (find_run (dlc_project_id input) (dlc_parent_run_id input)) (\<lambda>parent.
         tx_bind (existingDelegationRequest input) (\<lambda>found.
         case found of
           Some result \<Rightarrow> tx_return result
         | None \<Rightarrow> create_delegation violation engineRegistered input parent)))"

definition trim_delegation :: "delegation_command \<Rightarrow> delegation_command" where
  "trim_delegation input = \<lparr>dlc_project_id = TrimSpace (dlc_project_id input),
     dlc_parent_run_id = TrimSpace (dlc_parent_run_id input),
     dlc_target_agent_id = TrimSpace (dlc_target_agent_id input), dlc_task = TrimSpace (dlc_task input),
     dlc_request_key = TrimSpace (dlc_request_key input)\<rparr>"

definition RequestDelegation :: "(string \<Rightarrow> bool) option \<Rightarrow> delegation_command \<Rightarrow> time \<Rightarrow> db \<Rightarrow>
   (store_error + delegation_result) \<times> db" where
  "RequestDelegation engineRegistered command now d =
     (let input = trim_delegation command in
      if dlc_project_id input = [] \<or> dlc_parent_run_id input = [] \<or> dlc_target_agent_id input = [] \<or>
         dlc_task input = [] \<or> dlc_request_key input = [] \<or>
         RuneCountInString (dlc_task input) > MaxDelegationTaskCharacters
      then (Inl ErrInvalidArgument, d)
      else run_tx now (requestDelegationTx as_is engineRegistered input) d)"

definition create_issue_delegation :: "(store_error \<Rightarrow> store_error) \<Rightarrow> (string \<Rightarrow> bool) option \<Rightarrow> issue_delegation_command \<Rightarrow>
   issue \<times> string \<times> string \<times> string \<Rightarrow> (db, delegation_result) tx" where
  "create_issue_delegation violation engineRegistered input locked =
     (case locked of (issue, issueKey, repositoryPath, defaultBranch) \<Rightarrow>
      tx_bind (tx_map_error violation
                 (workspaceForAssignment (idc_project_id input) (iss_id issue) issueKey repositoryPath defaultBranch))
        (\<lambda>workspace.
      tx_bind (createDelegatedTargetRunTx violation engineRegistered (idc_project_id input) (iss_id issue)
                 (wsp_id workspace) (idc_target_agent_id input)
                 (delegationSchedulerKey (idc_source_comment_id input) (idc_request_key input)) False)
        (\<lambda>(run, job, event).
      tx_bind (tx_map_error violation (insert_delegation (\<lambda>uid now. new_delegation uid (idc_project_id input)
                 (iss_id issue) None None (Some (idc_source_comment_id input)) (idc_target_agent_id input)
                 (idc_task input) (run_id run) (idc_request_key input) now))) (\<lambda>delegation.
      tx_return \<lparr>dlr_delegation = delegation, dlr_run = run, dlr_job = job, dlr_events = [event]\<rparr>))))"

definition requestIssueDelegationTx ::
  "(store_error \<Rightarrow> store_error) \<Rightarrow> (string \<Rightarrow> bool) option \<Rightarrow> issue_delegation_command \<Rightarrow> (db, delegation_result) tx" where
  "requestIssueDelegationTx violation engineRegistered input =
     tx_bind (existingIssueDelegationRequest input) (\<lambda>found.
     case found of
       Some result \<Rightarrow> tx_return result
     | None \<Rightarrow>
         tx_bind (lockAssignmentIssue (idc_project_id input) (idc_issue_id input)) (\<lambda>locked.
         tx_bind (sql_find db_comments (\<lambda>d c. cmt_issue_id c = iss_id (fst locked) \<and>
                    cmt_id c = idc_source_comment_id input \<and> cmt_author_type c = ACT_HUMAN \<and>
                    cmt_deleted_at c = None)) (\<lambda>_.
         tx_bind (existingIssueDelegationRequest input) (\<lambda>found.
         case found of
           Some result \<Rightarrow> tx_return result
         | None \<Rightarrow> create_issue_delegation violation engineRegistered input locked))))"

definition trim_issue_delegation :: "issue_delegation_command \<Rightarrow> issue_delegation_command" where
  "trim_issue_delegation input = \<lparr>idc_project_id = TrimSpace (idc_project_id input),
     idc_issue_id = TrimSpace (idc_issue_id input),
     idc_source_comment_id = TrimSpace (idc_source_comment_id input),
     idc_target_agent_id = TrimSpace (idc_target_agent_id input), idc_task = TrimSpace (idc_task input),
     idc_request_key = TrimSpace (idc_request_key input)\<rparr>"

definition RequestIssueDelegation :: "(string \<Rightarrow> bool) option \<Rightarrow> issue_delegation_command \<Rightarrow> time \<Rightarrow> db \<Rightarrow>
   (store_error + delegation_result) \<times> db" where
  "RequestIssueDelegation engineRegistered command now d =
     (let input = trim_issue_delegation command in
      if idc_project_id input = [] \<or> idc_issue_id input = [] \<or> idc_source_comment_id input = [] \<or>
         idc_target_agent_id input = [] \<or> idc_task input = [] \<or> idc_request_key input = [] \<or>
         RuneCountInString (idc_task input) > MaxDelegationTaskCharacters
      then (Inl ErrInvalidArgument, d)
      else run_tx now (requestIssueDelegationTx as_is engineRegistered input) d)"

section \<open>The Workspace handoff\<close>

definition mark_handoff_ready :: "id \<Rightarrow> id \<Rightarrow> job \<Rightarrow> (db, unit) tx" where
  "mark_handoff_ready projectID delegatedRunID job =
     tx_bind (sql_update db_jobs db_jobs_update
                (\<lambda>d j. job_project_id j = projectID \<and> job_id j = job_id job \<and> job_run_id j = delegatedRunID \<and>
                       job_state j = JOB_QUEUED \<and> job_wait_reason j = Some DelegationWorkspaceHandoffWaitReason)
                (\<lambda>d j. j\<lparr>job_wait_reason := Some DelegationWorkspaceHandoffReadyReason, job_updated_at := db_now d\<rparr>))
       (\<lambda>_.
     tx_bind (sql_update db_runs db_runs_update
                (\<lambda>d r. run_project_id r = projectID \<and> run_id r = delegatedRunID \<and> run_status r = RUN_QUEUED \<and>
                       run_queue_reason r = Some DelegationWorkspaceHandoffWaitReason)
                (\<lambda>d r. r\<lparr>run_queue_reason := Some DelegationWorkspaceHandoffReadyReason, run_updated_at := db_now d\<rparr>))
       (\<lambda>_. tx_return ()))"

definition handoff_ready_tx :: "id \<Rightarrow> id \<Rightarrow> id \<Rightarrow> id \<Rightarrow> (db, unit) tx" where
  "handoff_ready_tx projectID parentRunID delegationID delegatedRunID =
     tx_bind (sql_find db_delegations (\<lambda>d g. dlg_project_id g = projectID \<and> dlg_id g = delegationID \<and>
                dlg_parent_run_id g = Some parentRunID \<and> dlg_delegated_run_id g = delegatedRunID)) (\<lambda>delegation.
     tx_bind (find_run projectID parentRunID) (\<lambda>parent.
     tx_bind (find_run projectID delegatedRunID) (\<lambda>delegated.
     tx_bind (tx_guard (run_issue_id parent = dlg_issue_id delegation \<and>
                        run_issue_id delegated = dlg_issue_id delegation \<and>
                        run_workspace_id parent = run_workspace_id delegated) ErrConflict) (\<lambda>_.
     tx_bind (start_job_of_run projectID delegatedRunID) (\<lambda>job.
     if job_wait_reason job = Some DelegationWorkspaceHandoffReadyReason then tx_return ()
     else
       tx_bind (tx_guard (run_status parent = RUN_RUNNING \<and> run_status delegated = RUN_QUEUED \<and>
                          job_state job = JOB_QUEUED \<and>
                          job_wait_reason job = Some DelegationWorkspaceHandoffWaitReason) ErrConflict) (\<lambda>_.
       mark_handoff_ready projectID delegatedRunID job))))))"

definition MarkDelegationWorkspaceHandoffReady :: "id \<Rightarrow> id \<Rightarrow> id \<Rightarrow> id \<Rightarrow> time \<Rightarrow> db \<Rightarrow> (store_error + unit) \<times> db" where
  "MarkDelegationWorkspaceHandoffReady projectID parentRunID delegationID delegatedRunID now d =
     (if TrimSpace projectID = [] \<or> TrimSpace parentRunID = [] \<or> TrimSpace delegationID = [] \<or>
         TrimSpace delegatedRunID = []
      then (Inl ErrInvalidArgument, d)
      else run_tx now (handoff_ready_tx (TrimSpace projectID) (TrimSpace parentRunID) (TrimSpace delegationID)
             (TrimSpace delegatedRunID)) d)"

section \<open>Reading\<close>

definition GetDelegationByRun :: "id \<Rightarrow> id \<Rightarrow> (db, delegation) tx" where
  "GetDelegationByRun projectID runID =
     sql_find db_delegations (\<lambda>d g. dlg_project_id g = projectID \<and> dlg_delegated_run_id g = runID)"

definition GetDelegationByContinuationJob :: "id \<Rightarrow> id \<Rightarrow> id \<Rightarrow> (db, delegation) tx" where
  "GetDelegationByContinuationJob projectID parentRunID jobID =
     sql_find db_delegations (\<lambda>d g. dlg_project_id g = projectID \<and> dlg_parent_run_id g = Some parentRunID \<and>
       dlg_continuation_job_id g = Some jobID)"

definition ListDelegationsByParentRun :: "id \<Rightarrow> id \<Rightarrow> (db, delegation list) tx" where
  "ListDelegationsByParentRun projectID parentRunID = tx_get (\<lambda>d.
     sort_key (\<lambda>g. (dlg_created_at g, dlg_id g))
       (filter (\<lambda>g. dlg_project_id g = projectID \<and> dlg_parent_run_id g = Some parentRunID) (db_delegations d)))"

section \<open>Frames\<close>

lemma read_delegation [read_rules]:
  "tx_keeps_on UNIV (=) (find_run p r)" "tx_keeps_on UNIV (=) (start_job_of_run p r)"
  "tx_keeps_on UNIV (=) (repeated_request g p)" "tx_keeps_on UNIV (=) (existingDelegationRequest input)"
  "tx_keeps_on UNIV (=) (existingIssueDelegationRequest issue_input)"
  "tx_keeps_on UNIV (=) (agent_is_free p i a)" "tx_keeps_on UNIV (=) (runnable_or_conflict eng p a)"
  "tx_keeps_on UNIV (=) (delegating_agent input parent)"
  unfolding find_run_def start_job_of_run_def repeated_request_def existingDelegationRequest_def
    existingIssueDelegationRequest_def agent_is_free_def runnable_or_conflict_def delegating_agent_def
  by (intro read_rules)+

lemmas [quiet_rules] = read_delegation(2-8) [THEN quiet_reads_only]

lemmas [history_rules] = read_delegation [THEN history_reads_only]

lemma quiet_hold [quiet_rules]: "tx_keeps quiet (holdDelegatedRunForWorkspaceHandoff run job)"
  unfolding holdDelegatedRunForWorkspaceHandoff_def
  by (intro quiet_rules quiet_update_runs quiet_update_jobs) (auto simp: same_place_def)

lemma quiet_delegation [quiet_rules]:
  "tx_keeps quiet (insert_delegation row)"
  "tx_keeps quiet (createDelegatedTargetRunTx violation eng p i w a key hold)"
  "tx_keeps quiet (requestDelegationTx violation eng input)"
  "tx_keeps quiet (requestIssueDelegationTx violation eng issue_input)"
  unfolding insert_delegation_def createDelegatedTargetRunTx_def requestDelegationTx_def create_delegation_def
    requestIssueDelegationTx_def create_issue_delegation_def
  by (intro quiet_rules)+

lemma RequestDelegation_quiet: "RequestDelegation eng input now d = (r, d') \<Longrightarrow> quiet d d'"
  unfolding RequestDelegation_def Let_def
  by (auto split: if_splits intro: quiet.refl elim!: quiet.keeps_run_tx [rotated] intro!: quiet_rules)

lemma RequestIssueDelegation_quiet: "RequestIssueDelegation eng input now d = (r, d') \<Longrightarrow> quiet d d'"
  unfolding RequestIssueDelegation_def Let_def
  by (auto split: if_splits intro: quiet.refl elim!: quiet.keeps_run_tx [rotated] intro!: quiet_rules)

lemma quiet_handoff_ready [quiet_rules]: "tx_keeps quiet (handoff_ready_tx p r g c)"
  unfolding handoff_ready_tx_def mark_handoff_ready_def
  by (intro quiet_rules quiet_update_runs quiet_update_jobs) (auto simp: same_place_def)

lemma MarkHandoffReady_quiet: "MarkDelegationWorkspaceHandoffReady p r g c now d = (x, d') \<Longrightarrow> quiet d d'"
  unfolding MarkDelegationWorkspaceHandoffReady_def
  by (auto split: if_splits intro: quiet.refl elim!: quiet.keeps_run_tx [rotated] intro!: quiet_rules)

lemma history_hold [history_rules]: "tx_keeps history (holdDelegatedRunForWorkspaceHandoff run job)"
  unfolding holdDelegatedRunForWorkspaceHandoff_def
  by (intro history_rules history_update_runs) auto

lemma history_delegation [history_rules]:
  "tx_keeps history (insert_delegation row)"
  "tx_keeps history (createDelegatedTargetRunTx violation eng p i w a key hold)"
  "tx_keeps history (requestDelegationTx violation eng input)"
  "tx_keeps history (requestIssueDelegationTx violation eng issue_input)"
  unfolding insert_delegation_def createDelegatedTargetRunTx_def requestDelegationTx_def create_delegation_def
    requestIssueDelegationTx_def create_issue_delegation_def
  by (intro history_rules)+

lemma history_handoff_ready [history_rules]: "tx_keeps history (handoff_ready_tx p r g c)"
  unfolding handoff_ready_tx_def mark_handoff_ready_def
  by (intro history_rules history_update_runs) auto

lemma delegation_requests_history:
  "RequestDelegation eng input now d = (r, d') \<Longrightarrow> history d d'"
  "RequestIssueDelegation eng issue_input now d = (r1, d') \<Longrightarrow> history d d'"
  "MarkDelegationWorkspaceHandoffReady p x g c now d = (u, d') \<Longrightarrow> history d d'"
  unfolding RequestDelegation_def RequestIssueDelegation_def MarkDelegationWorkspaceHandoffReady_def Let_def
  by (auto split: if_splits intro: history.refl elim!: history.keeps_run_tx [rotated] intro!: history_rules)

section \<open>What a request creates\<close>

lemma createQueuedRun_rows:
  assumes "createQueuedRunTx input d = (Inr (run, job, ev), d')"
  shows "\<exists>r\<in>set (db_runs d'). run_id r = run_id run \<and> run_project_id r = qri_project_id input \<and> run_status r = RUN_QUEUED"
    and "job \<in> set (db_jobs d')" "job_run_id job = run_id run" "job_kind job = JOB_START"
    and "job_project_id job = qri_project_id input" "run_project_id run = qri_project_id input"
    and "db_delegations d' = db_delegations d" "\<forall>r\<in>set (db_runs d). run_id r \<noteq> run_id run"
    and "\<forall>r\<in>set (db_runs d). \<exists>r'\<in>set (db_runs d'). run_id r' = run_id r \<and> run_project_id r' = run_project_id r \<and>
       run_status r' = run_status r"
    and "\<forall>j\<in>set (db_jobs d'). job_id j = job_id job \<longrightarrow> j = job"
proof -
  obtain uid da db dc key jid dd where
    r: "gen_random_uuid d = (Inr uid, da)"
      "sql_insert db_runs db_runs_update run_unique run_check notFound (new_run uid input (db_now da)) da = (Inr run, db)"
      "gen_random_uuid db = (Inr jid, dc)"
      "sql_insert db_jobs db_jobs_update job_unique job_check notFound
        (new_job jid (qri_project_id input) (run_id run) JOB_START None key (db_now da) (db_now da)) dc = (Inr job, dd)"
    and ev: "appendEventTx (run_event run ''run.created''
       (JObj [(''attempt'', JInt (run_attempt run)), (''status'', JStr ''QUEUED'')])) dd = (Inr ev, d')"
    using assms unfolding createQueuedRunTx_def Let_def
    by (simp only: tx_bind_Inr tx_get_eq tx_return_eq sum.inject prod.inject) blast
  have ins: "run = new_run uid input (db_now da)" "\<forall>r\<in>set (db_runs d). \<not> run_unique r run"
      "db_runs dd = db_runs d @ [run]" "db_delegations dd = db_delegations d"
    using r by (auto simp: tx_simps)
  have job: "db_jobs dd = db_jobs d @ [job]" "\<forall>j\<in>set (db_jobs d). \<not> job_unique j job" "job_run_id job = run_id run"
      "job_kind job = JOB_START" "job_project_id job = qri_project_id input"
    using r by (auto simp: tx_simps new_job_def)
  note d' = appendEventTx_state [OF ev]
  have bump: "db_runs d' = bump_run (run_project_id run) (run_id run) (db_runs d @ [run])"
    unfolding d' using ins(3) by (simp add: run_event_def)
  have run: "run_project_id run = qri_project_id input" "run_status run = RUN_QUEUED"
    using ins(1) by (simp_all add: new_run_def)
  have "run\<lparr>run_event_sequence := run_event_sequence run + 1\<rparr> \<in> set (db_runs d')"
    unfolding bump by (auto simp: in_bump_run)
  then show "\<exists>r\<in>set (db_runs d'). run_id r = run_id run \<and> run_project_id r = qri_project_id input \<and> run_status r = RUN_QUEUED"
    by (rule bexI [rotated]) (simp add: run)
  show "job \<in> set (db_jobs d')" "job_run_id job = run_id run" "job_kind job = JOB_START"
    "job_project_id job = qri_project_id input" "run_project_id run = qri_project_id input"
    "db_delegations d' = db_delegations d" "\<forall>j\<in>set (db_jobs d'). job_id j = job_id job \<longrightarrow> j = job"
    unfolding d' using ins(4) job run(1) by (auto simp: job_unique_def)
  show "\<forall>r\<in>set (db_runs d). run_id r \<noteq> run_id run" using ins(2) by (auto simp: run_unique_def)
  show "\<forall>r\<in>set (db_runs d). \<exists>r'\<in>set (db_runs d'). run_id r' = run_id r \<and> run_project_id r' = run_project_id r \<and>
       run_status r' = run_status r"
  proof
    fix r assume "r \<in> set (db_runs d)"
    then have "r \<in> set (db_runs d')" unfolding bump using ins(2) by (auto simp: in_bump_run run_unique_def)
    then show "\<exists>r'\<in>set (db_runs d'). run_id r' = run_id r \<and> run_project_id r' = run_project_id r \<and>
       run_status r' = run_status r" by blast
  qed
qed

text \<open>The delegated Run of a parent: queued and held, with its job out of reach.\<close>

lemma createDelegatedTarget_held:
  assumes "createDelegatedTargetRunTx violation eng p i w a key True d = (Inr (run, job, ev), d')"
  shows "\<exists>r\<in>set (db_runs d'). run_id r = run_id run \<and> run_project_id r = p" "job_run_id job = run_id run"
    "job \<in> set (db_jobs d')" "job_kind job = JOB_START" "job_project_id job = p" "run_project_id run = p"
    "job_available_at job = never_available" "db_delegations d' = db_delegations d"
    "\<forall>r\<in>set (db_runs d). run_id r \<noteq> run_id run"
    "\<forall>r\<in>set (db_runs d). \<exists>r'\<in>set (db_runs d'). run_id r' = run_id r \<and> run_project_id r' = run_project_id r \<and>
       run_status r' = run_status r"
proof -
  obtain run0 job0 d1 attempt where
    cr: "createQueuedRunTx \<lparr>qri_project_id = p, qri_issue_id = i, qri_workspace_id = w, qri_agent_id = a,
       qri_attempt = attempt, qri_idempotency_key = key\<rparr> d = (Inr (run0, job0, ev), d1)" and
    hold: "holdDelegatedRunForWorkspaceHandoff run0 job0 d1 = (Inr (run, job), d')"
    using assms unfolding createDelegatedTargetRunTx_def
    by (auto simp: tx_bind_Inr tx_map_error_Inr tx_return_eq
        dest!: read_state [OF read_assignment(5)] read_state [OF read_delegation(6)] read_state [OF read_delegation(7)])
  note c = createQueuedRun_rows [OF cr, simplified]
  obtain r j where r: "List.find (\<lambda>r. run_project_id r = run_project_id run0 \<and> run_id r = run_id run0 \<and> run_status r = RUN_QUEUED)
      (db_runs d1) = Some r"
    and j: "List.find (\<lambda>j. job_project_id j = job_project_id job0 \<and> job_id j = job_id job0 \<and>
      job_run_id j = job_run_id job0 \<and> job_state j = JOB_QUEUED) (db_jobs d1) = Some j"
    and run: "run = r\<lparr>run_queue_reason := Some DelegationWorkspaceHandoffWaitReason, run_updated_at := db_now d1\<rparr>"
    and job: "job = j\<lparr>job_wait_reason := Some DelegationWorkspaceHandoffWaitReason,
      job_available_at := never_available, job_updated_at := db_now d1\<rparr>"
    and d': "db_runs d' = update_rows (\<lambda>r. run_project_id r = run_project_id run0 \<and> run_id r = run_id run0 \<and> run_status r = RUN_QUEUED)
        (\<lambda>r. r\<lparr>run_queue_reason := Some DelegationWorkspaceHandoffWaitReason, run_updated_at := db_now d1\<rparr>) (db_runs d1)"
      "db_jobs d' = update_rows (\<lambda>j. job_project_id j = job_project_id job0 \<and> job_id j = job_id job0 \<and>
        job_run_id j = job_run_id job0 \<and> job_state j = JOB_QUEUED) (\<lambda>j. j\<lparr>job_wait_reason := Some DelegationWorkspaceHandoffWaitReason,
          job_available_at := never_available, job_updated_at := db_now d1\<rparr>) (db_jobs d1)"
      "db_delegations d' = db_delegations d1"
    using hold unfolding holdDelegatedRunForWorkspaceHandoff_def by (auto simp: tx_simps)
  note r' = find_Some_in [OF r] and j' = find_Some_in [OF j]
  have id: "run_id run = run_id run0" "run_project_id run = p" using r' run c by auto
  show "\<exists>r\<in>set (db_runs d'). run_id r = run_id run \<and> run_project_id r = p"
    unfolding d'(1) by (rule bexI [OF _ matched_row [where r = r]]) (use r' run id in auto)
  show "job \<in> set (db_jobs d')" unfolding d'(2) job by (rule matched_row) (use j' in auto)
  show "job_run_id job = run_id run" "job_project_id job = p" "run_project_id run = p"
    "job_available_at job = never_available" "db_delegations d' = db_delegations d"
    "\<forall>r\<in>set (db_runs d). run_id r \<noteq> run_id run"
    using job j' id c d'(3) by auto
  show "\<forall>r\<in>set (db_runs d). \<exists>r'\<in>set (db_runs d'). run_id r' = run_id r \<and> run_project_id r' = run_project_id r \<and>
       run_status r' = run_status r"
  proof
    fix x assume "x \<in> set (db_runs d)"
    then obtain x' where "x' \<in> set (db_runs d1)" "run_id x' = run_id x" "run_project_id x' = run_project_id x" "run_status x' = run_status x"
      using c(9) by blast
    then show "\<exists>r'\<in>set (db_runs d'). run_id r' = run_id x \<and> run_project_id r' = run_project_id x \<and> run_status r' = run_status x"
      unfolding d'(1) by (subst bex_update_rows) auto
  qed
  have "j = job0" using c(10) j' by blast
  then show "job_kind job = JOB_START" using job c(4) by simp
qed

lemma create_delegation_Inr:
  assumes "create_delegation violation eng input parent d = (Inr r, d')"
  shows "db_delegations d' = db_delegations d @ [dlr_delegation r]"
    "dlg_project_id (dlr_delegation r) = dlc_project_id input" "dlg_parent_run_id (dlr_delegation r) = Some (run_id parent)"
    "dlg_request_key (dlr_delegation r) = dlc_request_key input" "dlg_target_agent_id (dlr_delegation r) = dlc_target_agent_id input"
    "dlg_task (dlr_delegation r) = dlc_task input" "dlg_delegated_run_id (dlr_delegation r) = run_id (dlr_run r)"
    "dlg_outcome (dlr_delegation r) = None"
    "\<exists>x\<in>set (db_runs d'). run_id x = run_id (dlr_run r) \<and> run_project_id x = dlc_project_id input"
    "dlr_job r \<in> set (db_jobs d')" "job_run_id (dlr_job r) = run_id (dlr_run r)" "job_kind (dlr_job r) = JOB_START"
    "job_project_id (dlr_job r) = dlc_project_id input" "job_available_at (dlr_job r) = never_available"
    "\<forall>x\<in>set (db_runs d). run_id x \<noteq> run_id (dlr_run r)"
    "\<exists>agent. delegating_agent input parent d = (Inr agent, d)"
proof -
  obtain agent d0 issue rest d1 run job ev d2 g where
    agent: "delegating_agent input parent d = (Inr agent, d0)"
    and lock: "lockAssignmentIssue (dlc_project_id input) (run_issue_id parent) d0 = (Inr (issue, rest), d1)"
    and run: "createDelegatedTargetRunTx violation eng (dlc_project_id input) (run_issue_id parent) (run_workspace_id parent)
      (dlc_target_agent_id input) (delegationSchedulerKey (run_id parent) (dlc_request_key input)) True d1 = (Inr (run, job, ev), d2)"
    and g: "insert_delegation (\<lambda>uid now. new_delegation uid (dlc_project_id input) (run_issue_id parent)
                (Some (run_id parent)) (Some agent) None (dlc_target_agent_id input) (dlc_task input)
                (run_id run) (dlc_request_key input) now) d2 = (Inr g, d')"
    and r: "r = \<lparr>dlr_delegation = g, dlr_run = run, dlr_job = job, dlr_events = [ev]\<rparr>"
    using assms unfolding create_delegation_def
    by (auto simp: tx_bind_Inr tx_guard_Inr tx_return_eq tx_map_error_Inr)
  have d: "d0 = d" "d1 = d" using read_state [OF read_delegation(8) agent] read_state [OF read_assignment(1) lock] by simp_all
  note run = createDelegatedTarget_held [OF run [unfolded d]]
  show "db_delegations d' = db_delegations d @ [dlr_delegation r]" "dlg_project_id (dlr_delegation r) = dlc_project_id input"
    "dlg_parent_run_id (dlr_delegation r) = Some (run_id parent)"
    "dlg_request_key (dlr_delegation r) = dlc_request_key input" "dlg_target_agent_id (dlr_delegation r) = dlc_target_agent_id input"
    "dlg_task (dlr_delegation r) = dlc_task input" "dlg_delegated_run_id (dlr_delegation r) = run_id (dlr_run r)"
    "dlg_outcome (dlr_delegation r) = None"
    using g run(8) by (auto simp: r insert_delegation_def new_delegation_def tx_simps)
  show "\<exists>x\<in>set (db_runs d'). run_id x = run_id (dlr_run r) \<and> run_project_id x = dlc_project_id input"
    "dlr_job r \<in> set (db_jobs d')" "job_run_id (dlr_job r) = run_id (dlr_run r)" "job_kind (dlr_job r) = JOB_START"
    "job_project_id (dlr_job r) = dlc_project_id input" "job_available_at (dlr_job r) = never_available"
    "\<forall>x\<in>set (db_runs d). run_id x \<noteq> run_id (dlr_run r)"
    using g run by (auto simp: r insert_delegation_def tx_simps)
  show "\<exists>agent. delegating_agent input parent d = (Inr agent, d)" using agent d by blast
qed

lemma requestDelegation_cases [consumes 1, case_names repeated created]:
  assumes "requestDelegationTx violation eng input d = (Inr r, d')"
  obtains "existingDelegationRequest input d = (Inr (Some r), d)" "d' = d"
    | parent where "existingDelegationRequest input d = (Inr None, d)"
      "find_run (dlc_project_id input) (dlc_parent_run_id input) d = (Inr parent, d)" "create_delegation violation eng input parent d = (Inr r, d')"
proof -
  obtain found d1 where f: "existingDelegationRequest input d = (Inr found, d1)"
    and rest: "(case found of Some result \<Rightarrow> tx_return result
      | None \<Rightarrow> tx_bind (find_run (dlc_project_id input) (dlc_parent_run_id input)) (\<lambda>parent.
         tx_bind (existingDelegationRequest input) (\<lambda>found.
         case found of Some result \<Rightarrow> tx_return result | None \<Rightarrow> create_delegation violation eng input parent))) d1 = (Inr r, d')"
    using assms unfolding requestDelegationTx_def tx_bind_Inr by blast
  have d1: "d1 = d" by (rule read_state [OF read_delegation(4) f])
  show ?thesis
  proof (cases found)
    case Some then show ?thesis using that(1) f rest d1 by (simp add: tx_return_eq)
  next
    case None
    then obtain parent where "find_run (dlc_project_id input) (dlc_parent_run_id input) d = (Inr parent, d)"
      "create_delegation violation eng input parent d = (Inr r, d')"
      using rest f d1 by (auto simp: tx_bind_Inr find_run_def sql_find_Inr)
    then show ?thesis using that(2) f None d1 by simp
  qed
qed

text \<open>The rows a repeated request finds.\<close>

lemma existing_found:
  assumes "List.find (\<lambda>g. dlg_project_id g = dlc_project_id input \<and> dlg_parent_run_id g = Some (dlc_parent_run_id input) \<and>
      dlg_request_key g = dlc_request_key input) (db_delegations d) = Some g"
    and "dlg_target_agent_id g = dlc_target_agent_id input" "dlg_task g = dlc_task input"
    and "\<exists>x\<in>set (db_runs d). run_id x = dlg_delegated_run_id g \<and> run_project_id x = dlc_project_id input"
    and "\<exists>j\<in>set (db_jobs d). job_run_id j = dlg_delegated_run_id g \<and> job_project_id j = dlc_project_id input \<and> job_kind j = JOB_START"
  obtains run job where "run_id run = dlg_delegated_run_id g"
    "existingDelegationRequest input d = (Inr (Some \<lparr>dlr_delegation = g, dlr_run = run, dlr_job = job, dlr_events = []\<rparr>), d)"
proof -
  obtain run where run: "List.find (\<lambda>r. run_project_id r = dlc_project_id input \<and> run_id r = dlg_delegated_run_id g) (db_runs d) = Some run"
    using assms(4) by (cases "List.find (\<lambda>r. run_project_id r = dlc_project_id input \<and> run_id r = dlg_delegated_run_id g) (db_runs d)")
      (auto simp: find_None_iff)
  obtain job where job: "first_by (\<lambda>j. (job_created_at j, job_id j)) (filter (\<lambda>j. job_project_id j = dlc_project_id input \<and>
      job_run_id j = dlg_delegated_run_id g \<and> job_kind j = JOB_START) (db_jobs d)) = Some job"
    using assms(5) by (cases "first_by (\<lambda>j. (job_created_at j, job_id j)) (filter (\<lambda>j. job_project_id j = dlc_project_id input \<and>
      job_run_id j = dlg_delegated_run_id g \<and> job_kind j = JOB_START) (db_jobs d))") (auto simp: filter_empty_conv)
  have "existingDelegationRequest input d = (Inr (Some \<lparr>dlr_delegation = g, dlr_run = run, dlr_job = job, dlr_events = []\<rparr>), d)"
    using assms(1-3) run job
    by (simp add: existingDelegationRequest_def repeated_request_def find_run_def start_job_of_run_def tx_simps)
  then show ?thesis using that find_Some_in [OF run] by blast
qed

lemma existing_now:
  "existingDelegationRequest input d = (Inr x, d) \<Longrightarrow>
     existingDelegationRequest input (d\<lparr>db_now := t\<rparr>) = (Inr x, d\<lparr>db_now := t\<rparr>)"
  by (auto simp: existingDelegationRequest_def repeated_request_def find_run_def start_job_of_run_def tx_simps split: option.splits)


text \<open>Only available jobs are admitted; a job passed over its time is cleaned up, never started.\<close>

lemma admitted_available:
  assumes "AdmitNextJob rc locked owner lease backoff now d = (Inr (Some adm), d')"
    and "keys_wf d" "distinct (map dlg_delegated_run_id (db_delegations d))"
    and "j \<in> set (db_jobs d)" "job_id j = job_id (adm_job adm)"
  shows "job_available_at j \<le> now"
  using assms(1)
proof (rule AdmitNextJob_Some)
  fix c assume c: "c \<in> set (admission_candidates locked (d\<lparr>db_now := now\<rparr>))" and same: "same_claim (cnd_job c) (adm_job adm)"
    and par: "delegatedParentTerminalTx (cnd_run c) (d\<lparr>db_now := now\<rparr>) = (Inr False, d\<lparr>db_now := now\<rparr>)"
  obtain j' where j': "candidate_of (d\<lparr>db_now := now\<rparr>) j' = Some c" "j' \<in> set (db_jobs d)" "eligible (d\<lparr>db_now := now\<rparr>) c"
    using c by (auto simp: admission_candidates_def List.map_filter_def split: option.splits)
  have "cnd_job c = j"
    using candidate_of_Some(1) [OF j'(1)] j'(2) assms(2,4,5) same by (auto simp: keys_wf_def same_claim_def intro: distinct_key_eq)
  moreover have "\<not> terminal_parent_cleanup d (cnd_run c)"
  proof
    assume "terminal_parent_cleanup d (cnd_run c)"
    then obtain g p where g: "g \<in> set (db_delegations d)" "dlg_project_id g = run_project_id (cnd_run c)"
      "dlg_delegated_run_id g = run_id (cnd_run c)" and p: "p \<in> set (db_runs d)" "run_project_id p = dlg_project_id g"
      "dlg_parent_run_id g = Some (run_id p)" "terminal_run (run_status p)"
      by (auto simp: terminal_parent_cleanup_def)
    have "List.find (\<lambda>g. dlg_project_id g = run_project_id (cnd_run c) \<and> dlg_delegated_run_id g = run_id (cnd_run c))
        (db_delegations d) = Some g"
      by (rule delegations.find_by_key) (use assms(3) g in auto)
    moreover have "q = p" if "List.find (\<lambda>r. run_project_id r = dlg_project_id g \<and> run_id r = run_id p) (db_runs d) = Some q" for q
      using find_Some_in [OF that] assms(2) p(1) by (auto simp: keys_wf_def intro: distinct_key_eq)
    ultimately show False
      using par p unfolding delegatedParentTerminalTx_def delegation_of_run_def find_run_def by (auto simp: tx_simps)
  qed
  ultimately show ?thesis using j'(3) candidate_of_Some(5) [OF j'(1)] by (auto simp: eligible_def terminal_parent_cleanup_def)
qed

lemma create_delegation_free:
  assumes "create_delegation violation eng input parent d = (Inr r, d')" "x \<in> set (db_runs d)" "run_project_id x = dlc_project_id input"
    "run_issue_id x = run_issue_id parent" "run_agent_id x = Some (dlc_target_agent_id input)"
  shows "\<not> activeRunStatus (run_status x)"
proof -
  obtain agent d0 issue rest d1 d2 d3 where
    agent: "delegating_agent input parent d = (Inr agent, d0)"
    and lock: "lockAssignmentIssue (dlc_project_id input) (run_issue_id parent) d0 = (Inr (issue, rest), d1)"
    and ok: "runnable_or_conflict eng (dlc_project_id input) (dlc_target_agent_id input) d1 = (Inr (), d2)"
    and free: "agent_is_free (dlc_project_id input) (run_issue_id parent) (dlc_target_agent_id input) d2 = (Inr (), d3)"
    using assms(1) unfolding create_delegation_def createDelegatedTargetRunTx_def
    by (auto simp: tx_bind_Inr tx_guard_Inr tx_return_eq)
  have "d2 = d"
    using read_state [OF read_delegation(8) agent] read_state [OF read_assignment(1) lock] read_state [OF read_delegation(7) ok] by simp
  then show ?thesis using free assms(2-)
    by (auto simp: agent_is_free_def activeRunForAgent_def tx_bind_run tx_basic_run sql_read_run filter_empty_conv
        split: option.splits)
qed

lemma RequestDelegation_created:
  assumes "RequestDelegation eng command now d = (Inr r, d')" "dlr_events r \<noteq> []"
  obtains parent where "find_run (TrimSpace (dlc_project_id command)) (TrimSpace (dlc_parent_run_id command)) d = (Inr parent, d)"
    "create_delegation as_is eng (trim_delegation command) parent (d\<lparr>db_now := now\<rparr>) = (Inr r, d')"
proof -
  have "requestDelegationTx as_is eng (trim_delegation command) (d\<lparr>db_now := now\<rparr>) = (Inr r, d')"
    using assms(1) unfolding RequestDelegation_def Let_def run_tx_def by (auto split: if_splits simp: tx_simps)
  then show ?thesis
  proof (cases rule: requestDelegation_cases)
    case repeated
    then show ?thesis using assms(2)
      by (auto simp: existingDelegationRequest_def repeated_request_def tx_simps split: option.splits)
  next
    case (created parent)
    then show ?thesis using that by (auto simp: find_run_def tx_simps trim_delegation_def)
  qed
qed

text \<open>
  C15. Work is delegated only with authority: a request that creates a delegation found its parent
  Run RUNNING under an Agent that is allowed to delegate and is not the target, without an
  unfinished delegation and not itself a delegated Run. The target Agent had no active Run on the
  Issue.
\<close>

theorem delegation_is_authorized:
  assumes "RequestDelegation eng command now d = (Inr r, d')" "dlr_events r \<noteq> []"
  shows "\<exists>parent agent. parent \<in> set (db_runs d) \<and> dlg_parent_run_id (dlr_delegation r) = Some (run_id parent) \<and>
      run_status parent = RUN_RUNNING \<and> run_agent_id parent = Some (agt_id agent) \<and> agent \<in> set (db_agents d) \<and>
      agt_allow_delegation agent \<and> agt_id agent \<noteq> dlg_target_agent_id (dlr_delegation r) \<and>
      (\<forall>g\<in>set (db_delegations d). dlg_project_id g = dlg_project_id (dlr_delegation r) \<longrightarrow>
         dlg_delegated_run_id g \<noteq> run_id parent \<and> (dlg_parent_run_id g = Some (run_id parent) \<longrightarrow> dlg_outcome g \<noteq> None)) \<and>
      (\<forall>x\<in>set (db_runs d). run_project_id x = dlg_project_id (dlr_delegation r) \<and> run_issue_id x = run_issue_id parent \<and>
         run_agent_id x = Some (dlg_target_agent_id (dlr_delegation r)) \<longrightarrow> \<not> activeRunStatus (run_status x))"
  using assms
proof (rule RequestDelegation_created)
  let ?input = "trim_delegation command" and ?d = "d\<lparr>db_now := now\<rparr>"
  fix parent
  assume parent: "find_run (TrimSpace (dlc_project_id command)) (TrimSpace (dlc_parent_run_id command)) d = (Inr parent, d)"
    and c: "create_delegation as_is eng ?input parent ?d = (Inr r, d')"
  note g = create_delegation_Inr [OF c]
  have free: "filter (\<lambda>x. run_project_id x = dlc_project_id ?input \<and> run_issue_id x = run_issue_id parent \<and>
      run_agent_id x = Some (dlc_target_agent_id ?input) \<and> activeRunStatus (run_status x)) (db_runs d) = []"
    using create_delegation_free [OF c] by (auto simp: filter_empty_conv)
  obtain agent where "delegating_agent ?input parent ?d = (Inr agent, ?d)" using g(16) by blast
  then have "\<exists>a\<in>set (db_agents d). run_status parent = RUN_RUNNING \<and> run_agent_id parent = Some (agt_id a) \<and>
      agt_allow_delegation a \<and> agt_id a \<noteq> dlc_target_agent_id ?input \<and>
      (\<forall>g\<in>set (db_delegations d). dlg_project_id g = dlc_project_id ?input \<longrightarrow> dlg_delegated_run_id g \<noteq> run_id parent \<and>
         (dlg_parent_run_id g = Some (run_id parent) \<longrightarrow> dlg_outcome g \<noteq> None))"
    by (auto simp: delegating_agent_def tx_simps dest!: find_Some_in)
  moreover have "parent \<in> set (db_runs d)" using parent by (auto simp: find_run_def tx_simps dest!: find_Some_in)
  ultimately show ?thesis using free g(2,3,5) by (fastforce simp: filter_empty_conv)
qed

text \<open>
  C16. The Run a parent delegates to waits for the handoff: the request leaves a START job in the
  queue that is not available, and in every database that still holds this job, no admission
  before the end of the year 9999 starts it.
\<close>

theorem delegated_run_waits:
  assumes "RequestDelegation eng command now d = (Inr r, d')" "dlr_events r \<noteq> []"
    and "keys_wf x" "distinct (map dlg_delegated_run_id (db_delegations x))" "dlr_job r \<in> set (db_jobs x)"
    and "t < never_available"
  shows "dlr_job r \<in> set (db_jobs d') \<and> job_run_id (dlr_job r) = dlg_delegated_run_id (dlr_delegation r) \<and>
    (\<forall>adm. fst (AdmitNextJob rc locked owner lease backoff t x) = Inr (Some adm) \<longrightarrow> job_id (adm_job adm) \<noteq> job_id (dlr_job r))"
proof (intro conjI allI impI)
  obtain parent where "create_delegation as_is eng (trim_delegation command) parent (d\<lparr>db_now := now\<rparr>) = (Inr r, d')"
    using assms(1,2) by (rule RequestDelegation_created)
  note g = create_delegation_Inr [OF this]
  show "dlr_job r \<in> set (db_jobs d')" "job_run_id (dlr_job r) = dlg_delegated_run_id (dlr_delegation r)"
    using g(7,10,11) by simp_all
  fix adm assume "fst (AdmitNextJob rc locked owner lease backoff t x) = Inr (Some adm)"
  then have "AdmitNextJob rc locked owner lease backoff t x = (Inr (Some adm), snd (AdmitNextJob rc locked owner lease backoff t x))"
    by (metis prod.collapse)
  then show "job_id (adm_job adm) \<noteq> job_id (dlr_job r)"
    using admitted_available [OF _ assms(3,4,5)] g(14) assms(6) by fastforce
qed

section \<open>A request on the sample\<close>

lemmas delegation_run = tx_run RequestDelegation_def requestDelegationTx_def trim_delegation_def existingDelegationRequest_def
  find_run_def create_delegation_def delegating_agent_def lockAssignmentIssue_def createDelegatedTargetRunTx_def
  runnable_or_conflict_def verifyRunnableAgent_def runnable_config_def agent_is_free_def activeRunForAgent_def
  activeRunStatus_def nextIssueRunAttempt_def issue_attempts_def createQueuedRunTx_def new_run_def run_unique_def run_check_def
  job_check_def job_unique_def new_job_def holdDelegatedRunForWorkspaceHandoff_def insert_delegation_def new_delegation_def
  delegation_unique_def delegation_check_def delegation_origin_valid_def
  appendEventTx_def validateEventReferences_def event_references_valid_def next_event_sequence_def appended_event_def
  event_unique_def event_check_def run_event_def zero_event_def EmptyObject_def objectJSON_def is_object_def visible_to_def

definition sample_request :: delegation_command where
  "sample_request = \<lparr>dlc_project_id = ''p1'', dlc_parent_run_id = ''r1'', dlc_target_agent_id = ''a2'',
     dlc_task = ''task'', dlc_request_key = ''k''\<rparr>"

lemma scheduler_key_text:
  "btrim (delegationSchedulerKey p k) \<noteq> []" "delegationSchedulerKey p k \<noteq> []" "CHR ''r'' # s \<noteq> delegationSchedulerKey p k"
  by (simp_all add: delegationSchedulerKey_def btrim_def)

lemma sample_requested:
  obtains r d' where "RequestDelegation None sample_request 50 sample_claimed = (Inr r, d')" "dlr_events r \<noteq> []"
    "keys_wf d'" "distinct (map dlg_delegated_run_id (db_delegations d'))" "dlr_job r \<in> set (db_jobs d')"
proof -
  have texts: "TrimSpace ''a2'' = ''a2''" "TrimSpace ''task'' = ''task''" "TrimSpace ''k'' = ''k''"
    "RuneCountInString ''task'' \<le> MaxDelegationTaskCharacters" "btrim ''task'' \<noteq> []" "btrim ''k'' \<noteq> []"
    by code_simp+
  have "\<exists>r d'. RequestDelegation None sample_request 50 sample_claimed = (Inr r, d') \<and> dlr_events r \<noteq> [] \<and>
    keys_wf d' \<and> distinct (map dlg_delegated_run_id (db_delegations d')) \<and> dlr_job r \<in> set (db_jobs d')"
    using texts scheduler_key_text
    by (simp add: delegation_run sample_states sample_eval sample_request_def keys_wf_def)
  then show ?thesis using that by blast
qed


theorem delegation_is_authorized_witness:
  "\<exists>r d'. RequestDelegation None sample_request 50 sample_claimed = (Inr r, d') \<and>
     dlg_target_agent_id (dlr_delegation r) \<noteq> ''a1''"
proof (rule sample_requested)
  fix r d' assume "RequestDelegation None sample_request 50 sample_claimed = (Inr r, d')" "dlr_events r \<noteq> []"
  then show ?thesis using delegation_is_authorized [of None sample_request 50 sample_claimed r d']
    by (auto simp: sample_states sample_eval)
qed

theorem delegated_run_waits_witness:
  "\<exists>r d'. RequestDelegation None sample_request 50 sample_claimed = (Inr r, d') \<and>
     (\<forall>adm. fst (AdmitNextJob (Some (\<lambda>_. [''n1''])) (\<lambda>_. False) ''srv'' 1000000 1000000 60 d') = Inr (Some adm) \<longrightarrow>
        job_id (adm_job adm) \<noteq> job_id (dlr_job r))"
proof (rule sample_requested)
  fix r d' assume r: "RequestDelegation None sample_request 50 sample_claimed = (Inr r, d')" "dlr_events r \<noteq> []"
    and x: "keys_wf d'" "distinct (map dlg_delegated_run_id (db_delegations d'))" "dlr_job r \<in> set (db_jobs d')"
  have "60 < never_available" by (simp add: never_available_def)
  then show ?thesis using delegated_run_waits [OF r x] r by blast
qed

end
