(* ===== verification/Work_Requests.thy ===== *)
theory Work_Requests
  imports Delegation_Request
begin

text \<open>
  Work that comments ask of Agents (store/postgres/agent_work_requests.go and
  store/agent_work_requests.go). One policy decides whether a trigger creates delegated work,
  joins a compatible open request, or waits behind the active Run of the Agent; the scheduler
  loop later promotes waiting requests.
\<close>

section \<open>Compatibility\<close>

definition AgentWorkRequestAuthorityIssue :: string where
  "AgentWorkRequestAuthorityIssue = ''ISSUE''"

definition AgentWorkRequestAuthorityParentRun :: string where
  "AgentWorkRequestAuthorityParentRun = ''PARENT_RUN''"

definition SameAgentWorkRequestCompatibility :: "work_request \<Rightarrow> work_request \<Rightarrow> bool" where
  "SameAgentWorkRequestCompatibility left right =
     (if wrq_project_id left \<noteq> wrq_project_id right \<or> wrq_issue_id left \<noteq> wrq_issue_id right \<or>
         wrq_workspace_id left \<noteq> wrq_workspace_id right \<or> wrq_target_agent_id left \<noteq> wrq_target_agent_id right \<or>
         wrq_authority_kind left \<noteq> wrq_authority_kind right
      then False
      else if wrq_authority_kind left = AgentWorkRequestAuthorityIssue
      then wrq_parent_run_id left = None \<and> wrq_parent_run_id right = None
      else if wrq_authority_kind left = AgentWorkRequestAuthorityParentRun
      then wrq_parent_run_id left \<noteq> None \<and> wrq_parent_run_id right \<noteq> None \<and>
           wrq_parent_run_id left = wrq_parent_run_id right
      else False)"

record work_request_input =
  wri_project_id :: id
  wri_issue_id :: id
  wri_source_comment_id :: id
  wri_target_agent_id :: id
  wri_task :: string
  wri_authority_kind :: string
  wri_parent_run_id :: "id option"

datatype work_request_outcome = WORK_QUEUED | WORK_COALESCED | WORK_DEFERRED

record work_request_result =
  wrr_request :: work_request
  wrr_outcome :: work_request_outcome
  wrr_delegation :: "delegation_result option"
  wrr_events :: "event list"

section \<open>Rows\<close>

text \<open>The UNIQUE indexes on open requests: one per compatibility bucket and one per Run.\<close>

definition open_bucket :: "work_request \<Rightarrow> bool" where
  "open_bucket w \<longleftrightarrow> wrq_sealed_at w = None"

definition work_request_unique :: "work_request \<Rightarrow> work_request \<Rightarrow> bool" where
  "work_request_unique a b \<longleftrightarrow> wrq_id a = wrq_id b \<or>
     (open_bucket a \<and> open_bucket b \<and> SameAgentWorkRequestCompatibility a b) \<or>
     (wrq_run_id a \<noteq> None \<and> wrq_closed_at a = None \<and> wrq_closed_at b = None \<and>
      wrq_project_id a = wrq_project_id b \<and> wrq_run_id a = wrq_run_id b)"

definition work_request_check :: "db \<Rightarrow> work_request \<Rightarrow> pg_error option" where
  "work_request_check d w =
     (let run_of = (\<lambda>x. case x of None \<Rightarrow> True
              | Some r \<Rightarrow> exists_row (\<lambda>y. run_project_id y = wrq_project_id w \<and> run_issue_id y = wrq_issue_id w \<and>
                                        run_id y = r) (db_runs d)) in
      if \<not> (wrq_authority_kind w = AgentWorkRequestAuthorityIssue \<and> wrq_parent_run_id w = None \<or>
             wrq_authority_kind w = AgentWorkRequestAuthorityParentRun \<and> wrq_parent_run_id w \<noteq> None) \<or>
         (wrq_closed_at w \<noteq> None \<and> wrq_sealed_at w = None) \<or>
         (wrq_delegation_id w \<noteq> None \<and> wrq_run_id w = None)
      then Some CheckViolation
      else if exists_row (\<lambda>i. iss_project_id i = wrq_project_id w \<and> iss_id i = wrq_issue_id w) (db_issues d) \<and>
              exists_row (\<lambda>s. wsp_project_id s = wrq_project_id w \<and> wsp_issue_id s = wrq_issue_id w \<and>
                              wsp_id s = wrq_workspace_id w) (db_workspaces d) \<and>
              run_of (wrq_parent_run_id w) \<and> run_of (wrq_run_id w) \<and>
              exists_row (\<lambda>a. agt_id a = wrq_target_agent_id w) (db_agents d) \<and>
              (case wrq_delegation_id w of None \<Rightarrow> True
               | Some g \<Rightarrow> exists_row (\<lambda>x. dlg_project_id x = wrq_project_id w \<and> dlg_id x = g) (db_delegations d))
      then None else Some ForeignKeyViolation)"

definition insertAgentWorkRequestWithIDTx ::
  "id \<Rightarrow> work_request_input \<Rightarrow> id \<Rightarrow> id option \<Rightarrow> id option \<Rightarrow> (db, work_request) tx" where
  "insertAgentWorkRequestWithIDTx requestID input workspaceID runID delegationID =
     tx_bind (if requestID = [] then gen_random_uuid else tx_return requestID) (\<lambda>uid.
     tx_bind (tx_get db_now) (\<lambda>now.
     sql_insert db_work_requests db_work_requests_update work_request_unique work_request_check notFound
       \<lparr>wrq_id = uid, wrq_project_id = wri_project_id input, wrq_issue_id = wri_issue_id input,
        wrq_workspace_id = workspaceID, wrq_target_agent_id = wri_target_agent_id input,
        wrq_authority_kind = wri_authority_kind input, wrq_parent_run_id = wri_parent_run_id input,
        wrq_run_id = runID, wrq_delegation_id = delegationID, wrq_sealed_at = None, wrq_closed_at = None,
        wrq_created_at = now, wrq_updated_at = now\<rparr>))"

definition insertAgentWorkRequestTx :: "work_request_input \<Rightarrow> id \<Rightarrow> id option \<Rightarrow> id option \<Rightarrow> (db, work_request) tx" where
  "insertAgentWorkRequestTx input workspaceID runID delegationID =
     insertAgentWorkRequestWithIDTx [] input workspaceID runID delegationID"

definition findOpenAgentWorkRequestTx :: "work_request_input \<Rightarrow> id \<Rightarrow> (db, work_request option) tx" where
  "findOpenAgentWorkRequestTx input workspaceID = tx_get (\<lambda>d.
     List.find (\<lambda>w. wrq_project_id w = wri_project_id input \<and> wrq_issue_id w = wri_issue_id input \<and>
       wrq_workspace_id w = workspaceID \<and> wrq_target_agent_id w = wri_target_agent_id input \<and>
       wrq_authority_kind w = wri_authority_kind input \<and> wrq_sealed_at w = None \<and>
       wrq_parent_run_id w = wri_parent_run_id input) (db_work_requests d))"

definition coalesce_time :: "time option \<Rightarrow> time \<Rightarrow> time option" where
  "coalesce_time t now = (case t of None \<Rightarrow> Some now | Some _ \<Rightarrow> t)"

definition sealAgentWorkRequestTx :: "id \<Rightarrow> (db, nat) tx" where
  "sealAgentWorkRequestTx requestID =
     sql_update db_work_requests db_work_requests_update
       (\<lambda>d w. wrq_id w = requestID \<and> wrq_sealed_at w = None)
       (\<lambda>d w. w\<lparr>wrq_sealed_at := coalesce_time (wrq_sealed_at w) (db_now d), wrq_updated_at := db_now d\<rparr>)"

definition closeAgentWorkRequestTx :: "id \<Rightarrow> (db, nat) tx" where
  "closeAgentWorkRequestTx requestID =
     sql_update db_work_requests db_work_requests_update
       (\<lambda>d w. wrq_id w = requestID \<and> wrq_closed_at w = None)
       (\<lambda>d w. w\<lparr>wrq_sealed_at := coalesce_time (wrq_sealed_at w) (db_now d),
                 wrq_closed_at := coalesce_time (wrq_closed_at w) (db_now d), wrq_updated_at := db_now d\<rparr>)"

definition touchAgentWorkRequestTx :: "id \<Rightarrow> (db, nat) tx" where
  "touchAgentWorkRequestTx requestID =
     sql_update db_work_requests db_work_requests_update (\<lambda>d w. wrq_id w = requestID)
       (\<lambda>d w. w\<lparr>wrq_updated_at := db_now d\<rparr>)"

definition lockRunForAgentWork :: "id \<Rightarrow> id \<Rightarrow> (db, run) tx" where
  "lockRunForAgentWork projectID runID =
     sql_find db_runs (\<lambda>d r. run_project_id r = projectID \<and> run_id r = runID)"

definition lockActiveRunForAgentWork :: "id \<Rightarrow> id \<Rightarrow> id \<Rightarrow> (db, run) tx" where
  "lockActiveRunForAgentWork projectID issueID agentID =
     sql_first db_runs (\<lambda>d r. run_project_id r = projectID \<and> run_issue_id r = issueID \<and>
       run_agent_id r = Some agentID \<and> activeRunStatus (run_status r)) (\<lambda>r. - run_attempt r)"

text \<open>Whether a queued Run may take the request in, with the delegation that created the Run.\<close>

definition queuedRunAgentWorkCompatibility :: "work_request_input \<Rightarrow> run \<Rightarrow> (db, id option \<times> bool) tx" where
  "queuedRunAgentWorkCompatibility input run =
     tx_bind (tx_get (\<lambda>d. List.find (\<lambda>g. dlg_project_id g = wri_project_id input \<and>
                dlg_delegated_run_id g = run_id run) (db_delegations d))) (\<lambda>found.
     case found of
       None \<Rightarrow> tx_return (None, wri_authority_kind input = AgentWorkRequestAuthorityIssue)
     | Some g \<Rightarrow>
         if wri_authority_kind input = AgentWorkRequestAuthorityIssue
         then tx_return (Some (dlg_id g), dlg_source_comment_id g \<noteq> None \<and> dlg_parent_run_id g = None)
         else tx_return (Some (dlg_id g),
                wri_parent_run_id input \<noteq> None \<and> dlg_parent_run_id g = wri_parent_run_id input))"

section \<open>The admission policy\<close>

definition validateAgentWorkSourceComment :: "work_request_input \<Rightarrow> run option \<Rightarrow> (db, unit) tx" where
  "validateAgentWorkSourceComment input parent =
     tx_bind (sql_find db_comments (\<lambda>d c. cmt_issue_id c = wri_issue_id input \<and>
                cmt_id c = wri_source_comment_id input \<and> cmt_deleted_at c = None)) (\<lambda>c.
     tx_bind (tx_guard (TrimSpace (case cmt_body c of None \<Rightarrow> [] | Some b \<Rightarrow> b) = wri_task input) ErrConflict) (\<lambda>_.
     if wri_authority_kind input = AgentWorkRequestAuthorityIssue
     then tx_guard (cmt_author_type c = ACT_HUMAN \<and> cmt_source_run_id c = None) ErrConflict
     else
       (case parent of
          None \<Rightarrow> tx_fail ErrConflict
        | Some p \<Rightarrow> tx_guard (cmt_author_type c = ACT_AGENT \<and> cmt_source_run_id c = Some (run_id p) \<and>
                              run_status p = RUN_RUNNING) ErrConflict)))"

definition trim_work_request :: "work_request_input \<Rightarrow> work_request_input" where
  "trim_work_request input = input\<lparr>wri_project_id := TrimSpace (wri_project_id input),
     wri_issue_id := TrimSpace (wri_issue_id input),
     wri_source_comment_id := TrimSpace (wri_source_comment_id input),
     wri_target_agent_id := TrimSpace (wri_target_agent_id input), wri_task := TrimSpace (wri_task input),
     wri_parent_run_id := map_option TrimSpace (wri_parent_run_id input)\<rparr>"

definition work_request_valid :: "work_request_input \<Rightarrow> bool" where
  "work_request_valid input \<longleftrightarrow>
     wri_project_id input \<noteq> [] \<and> wri_issue_id input \<noteq> [] \<and> wri_source_comment_id input \<noteq> [] \<and>
     wri_target_agent_id input \<noteq> [] \<and> wri_task input \<noteq> [] \<and>
     RuneCountInString (wri_task input) \<le> MaxDelegationTaskCharacters \<and>
     (wri_authority_kind input = AgentWorkRequestAuthorityIssue \<or>
      wri_authority_kind input = AgentWorkRequestAuthorityParentRun) \<and>
     (wri_authority_kind input = AgentWorkRequestAuthorityIssue \<longleftrightarrow> wri_parent_run_id input = None) \<and>
     wri_parent_run_id input \<noteq> Some []"

text \<open>The parent Run, the Workspace and the checks before the policy.\<close>

definition work_request_parent :: "work_request_input \<Rightarrow> (db, run option) tx" where
  "work_request_parent input =
     (case wri_parent_run_id input of
        None \<Rightarrow> tx_return None
      | Some parentRunID \<Rightarrow>
          tx_bind (lockRunForAgentWork (wri_project_id input) parentRunID) (\<lambda>value.
          tx_bind (tx_guard (run_issue_id value = wri_issue_id input) ErrConflict) (\<lambda>_.
          tx_return (Some value))))"

definition work_request_workspace ::
  "(store_error \<Rightarrow> store_error) \<Rightarrow> (string \<Rightarrow> bool) option \<Rightarrow> work_request_input \<Rightarrow> (db, workspace) tx" where
  "work_request_workspace violation engineRegistered input =
     tx_bind (work_request_parent input) (\<lambda>parent.
     tx_bind (lockAssignmentIssue (wri_project_id input) (wri_issue_id input))
       (\<lambda>(issue, issueKey, repositoryPath, defaultBranch).
     tx_bind (tx_map_error violation
                (workspaceForAssignment (wri_project_id input) (iss_id issue) issueKey repositoryPath defaultBranch))
       (\<lambda>workspace.
     tx_bind (tx_guard (case parent of None \<Rightarrow> True | Some p \<Rightarrow> run_workspace_id p = wsp_id workspace) ErrConflict) (\<lambda>_.
     tx_bind (validateAgentWorkSourceComment input parent) (\<lambda>_.
     tx_bind (runnable_or_conflict engineRegistered (wri_project_id input) (wri_target_agent_id input)) (\<lambda>_.
     tx_return workspace))))))"

definition waits_for_start :: "run \<Rightarrow> bool" where
  "waits_for_start r \<longleftrightarrow> run_status r = RUN_QUEUED \<and> run_started_at r = None"

definition coalesced :: "work_request \<Rightarrow> work_request_result" where
  "coalesced w = \<lparr>wrr_request = w, wrr_outcome = WORK_COALESCED, wrr_delegation = None, wrr_events = []\<rparr>"

text \<open>Work behind an active Run of the Agent: join it while it is queued, else wait.\<close>

definition join_or_defer :: "(store_error \<Rightarrow> store_error) \<Rightarrow> work_request_input \<Rightarrow> id \<Rightarrow> run \<Rightarrow> (db, work_request_result) tx" where
  "join_or_defer violation input workspaceID active =
     tx_bind (if waits_for_start active then queuedRunAgentWorkCompatibility input active
              else tx_return (None, False)) (\<lambda>(delegationID, compatible).
     if compatible then
       tx_bind (tx_map_error violation (insertAgentWorkRequestTx input workspaceID (Some (run_id active)) delegationID))
         (\<lambda>request.
       tx_return (coalesced request))
     else
       tx_bind (tx_guard (wri_authority_kind input \<noteq> AgentWorkRequestAuthorityParentRun) ErrConflict) (\<lambda>_.
       tx_bind (tx_map_error violation (insertAgentWorkRequestTx input workspaceID None None)) (\<lambda>request.
       tx_return \<lparr>wrr_request = request, wrr_outcome = WORK_DEFERRED, wrr_delegation = None, wrr_events = []\<rparr>)))"

definition agentWorkRequestDelegationKey :: "string \<Rightarrow> string" where
  "agentWorkRequestDelegationKey requestID = ''agent-work-request:'' @ requestID"

text \<open>Work for an Agent without an active Run: canonical delegation.\<close>

definition queue_work :: "(store_error \<Rightarrow> store_error) \<Rightarrow> (string \<Rightarrow> bool) option \<Rightarrow> work_request_input \<Rightarrow> id \<Rightarrow> (db, work_request_result) tx" where
  "queue_work violation engineRegistered input workspaceID =
     tx_bind gen_random_uuid (\<lambda>requestID.
     let requestKey = agentWorkRequestDelegationKey requestID in
     tx_bind (case wri_parent_run_id input of
         Some parentRunID \<Rightarrow> requestDelegationTx violation engineRegistered
           \<lparr>dlc_project_id = wri_project_id input, dlc_parent_run_id = parentRunID,
            dlc_target_agent_id = wri_target_agent_id input, dlc_task = wri_task input, dlc_request_key = requestKey\<rparr>
       | None \<Rightarrow> requestIssueDelegationTx violation engineRegistered
           \<lparr>idc_project_id = wri_project_id input, idc_issue_id = wri_issue_id input,
            idc_source_comment_id = wri_source_comment_id input, idc_target_agent_id = wri_target_agent_id input,
            idc_task = wri_task input, idc_request_key = requestKey\<rparr>) (\<lambda>delegation.
     tx_bind (tx_map_error violation (insertAgentWorkRequestWithIDTx requestID input workspaceID
                (Some (run_id (dlr_run delegation))) (Some (dlg_id (dlr_delegation delegation))))) (\<lambda>request.
     tx_return \<lparr>wrr_request = request, wrr_outcome = WORK_QUEUED, wrr_delegation = Some delegation,
                wrr_events = dlr_events delegation\<rparr>)))"

text \<open>An open request takes the trigger in while it has no Run or its Run has not started.\<close>

definition takes_trigger :: "work_request \<Rightarrow> run option \<Rightarrow> bool" where
  "takes_trigger w active \<longleftrightarrow>
     (case wrq_run_id w of
        None \<Rightarrow> True
      | Some r \<Rightarrow> (case active of None \<Rightarrow> False | Some a \<Rightarrow> run_id a = r \<and> waits_for_start a))"

definition admit_work :: "(store_error \<Rightarrow> store_error) \<Rightarrow> (string \<Rightarrow> bool) option \<Rightarrow> work_request_input \<Rightarrow> id \<Rightarrow> run option \<Rightarrow> (db, work_request_result) tx" where
  "admit_work violation engineRegistered input workspaceID active =
     (case active of
        Some run \<Rightarrow> join_or_defer violation input workspaceID run
      | None \<Rightarrow> queue_work violation engineRegistered input workspaceID)"

definition request_work :: "(store_error \<Rightarrow> store_error) \<Rightarrow> (string \<Rightarrow> bool) option \<Rightarrow> work_request_input \<Rightarrow> (db, work_request_result) tx" where
  "request_work violation engineRegistered input =
     tx_bind (work_request_workspace violation engineRegistered input) (\<lambda>workspace.
     tx_bind (tx_try (lockActiveRunForAgentWork (wri_project_id input) (wri_issue_id input) (wri_target_agent_id input)))
       (\<lambda>locked.
     tx_bind (case locked of
                Inr run \<Rightarrow> tx_return (Some run)
              | Inl e \<Rightarrow> if e = ErrNotFound then tx_return None else tx_fail e) (\<lambda>active.
     tx_bind (findOpenAgentWorkRequestTx input (wsp_id workspace)) (\<lambda>found.
     case found of
       None \<Rightarrow> admit_work violation engineRegistered input (wsp_id workspace) active
     | Some existing \<Rightarrow>
         if takes_trigger existing active then tx_return (coalesced existing)
         else
           tx_bind (sealAgentWorkRequestTx (wrq_id existing)) (\<lambda>_.
           admit_work violation engineRegistered input (wsp_id workspace) active)))))"

definition requestAgentWorkTx :: "(store_error \<Rightarrow> store_error) \<Rightarrow> (string \<Rightarrow> bool) option \<Rightarrow> work_request_input \<Rightarrow> (db, work_request_result) tx" where
  "requestAgentWorkTx violation engineRegistered command =
     (let input = trim_work_request command in
      if \<not> work_request_valid input then tx_fail ErrInvalidArgument
      else request_work violation engineRegistered input)"

section \<open>Promoting waiting requests\<close>

text \<open>The first human comment linked to a request.\<close>

definition linked_comments :: "db \<Rightarrow> id \<Rightarrow> id \<Rightarrow> id \<Rightarrow> id list" where
  "linked_comments d projectID issueID requestID =
     map mnt_comment_id (filter (\<lambda>m. mnt_project_id m = projectID \<and> mnt_issue_id m = issueID \<and>
       mnt_work_request_id m = Some requestID) (db_mentions d)) @
     map imt_comment_id (filter (\<lambda>t. imt_project_id t = projectID \<and> imt_issue_id t = issueID \<and>
       imt_work_request_id t = Some requestID) (db_implicit_triggers d))"

definition agentWorkRequestAnchorTx :: "id \<Rightarrow> id \<Rightarrow> id \<Rightarrow> (db, (id \<times> string) option) tx" where
  "agentWorkRequestAnchorTx projectID issueID requestID = tx_get (\<lambda>d.
     map_option (\<lambda>c. (cmt_id c, case cmt_body c of None \<Rightarrow> [] | Some b \<Rightarrow> b))
       (first_by (\<lambda>c. (cmt_created_at c, cmt_id c))
         (filter (\<lambda>c. cmt_issue_id c = issueID \<and> cmt_id c \<in> set (linked_comments d projectID issueID requestID) \<and>
            cmt_author_type c = ACT_HUMAN \<and> cmt_deleted_at c = None) (db_comments d))))"

definition pending_request :: "work_request \<Rightarrow> bool" where
  "pending_request w \<longleftrightarrow> wrq_authority_kind w = AgentWorkRequestAuthorityIssue \<and> wrq_run_id w = None \<and>
     wrq_delegation_id w = None \<and> wrq_sealed_at w = None \<and> wrq_closed_at w = None"

definition pending_candidate :: "db \<Rightarrow> work_request option" where
  "pending_candidate d =
     first_by (\<lambda>w. (wrq_updated_at w, wrq_created_at w, wrq_id w))
       (filter (\<lambda>w. pending_request w \<and>
          \<not> exists_row (\<lambda>r. run_project_id r = wrq_project_id w \<and> run_issue_id r = wrq_issue_id w \<and>
              run_agent_id r = Some (wrq_target_agent_id w) \<and> activeRunStatus (run_status r)) (db_runs d))
         (db_work_requests d))"

definition promoted_row :: "work_request \<Rightarrow> delegation_result \<Rightarrow> (db, work_request) tx" where
  "promoted_row current delegation =
     sql_update_row db_work_requests db_work_requests_update
       (\<lambda>d w. wrq_project_id w = wrq_project_id current \<and> wrq_id w = wrq_id current \<and> wrq_run_id w = None \<and>
              wrq_delegation_id w = None \<and> wrq_sealed_at w = None \<and> wrq_closed_at w = None)
       (\<lambda>d w. w\<lparr>wrq_run_id := Some (run_id (dlr_run delegation)),
                 wrq_delegation_id := Some (dlg_id (dlr_delegation delegation)), wrq_updated_at := db_now d\<rparr>)"

text \<open>
  The delegation of a pending request. The transaction goes on after \<open>ErrConflict\<close> and
  \<open>ErrNotFound\<close> with an update of the request. After a UNIQUE violation PostgreSQL refuses
  that update too, and the error of the update is what the call returns.
\<close>

definition touched :: "work_request \<Rightarrow> (db, bool \<times> event list) tx" where
  "touched current = tx_bind (touchAgentWorkRequestTx (wrq_id current)) (\<lambda>_. tx_return (False, []))"

definition promote_request :: "(string \<Rightarrow> bool) option \<Rightarrow> work_request \<Rightarrow> id \<Rightarrow> string \<Rightarrow> (db, bool \<times> event list) tx" where
  "promote_request engineRegistered current commentID task =
     tx_bind (tx_try (requestIssueDelegationTx conflict_aborts engineRegistered
        \<lparr>idc_project_id = wrq_project_id current, idc_issue_id = wrq_issue_id current,
         idc_source_comment_id = commentID, idc_target_agent_id = wrq_target_agent_id current,
         idc_task = TrimSpace task, idc_request_key = agentWorkRequestDelegationKey (wrq_id current)\<rparr>)) (\<lambda>requested.
     case requested of
       Inl e \<Rightarrow> if e = ErrConflict \<or> e = ErrNotFound then touched current else tx_fail e
     | Inr delegation \<Rightarrow>
         tx_bind (promoted_row current delegation) (\<lambda>updated.
         tx_bind (tx_guard (wrq_run_id updated = Some (run_id (dlr_run delegation))) ErrConflict) (\<lambda>_.
         tx_return (True, dlr_events delegation))))"

definition reconcile_request :: "(string \<Rightarrow> bool) option \<Rightarrow> work_request \<Rightarrow> (db, bool \<times> event list) tx" where
  "reconcile_request engineRegistered current =
     tx_bind (tx_try (lockActiveRunForAgentWork (wrq_project_id current) (wrq_issue_id current)
                (wrq_target_agent_id current))) (\<lambda>active.
     case active of
       Inr _ \<Rightarrow> touched current
     | Inl e \<Rightarrow>
       if e \<noteq> ErrNotFound then tx_fail e
       else
         tx_bind (tx_try (verifyRunnableAgent engineRegistered (wrq_project_id current) (wrq_target_agent_id current)))
           (\<lambda>runnable.
         case runnable of
           Inl e \<Rightarrow> if e = ErrNotFound \<or> e = ErrConflict then touched current else tx_fail e
         | Inr _ \<Rightarrow>
             tx_bind (agentWorkRequestAnchorTx (wrq_project_id current) (wrq_issue_id current) (wrq_id current))
               (\<lambda>anchor.
             case anchor of
               None \<Rightarrow> tx_bind (closeAgentWorkRequestTx (wrq_id current)) (\<lambda>_. tx_return (True, []))
             | Some (commentID, task) \<Rightarrow>
                 if TrimSpace task = [] \<or> RuneCountInString (TrimSpace task) > MaxDelegationTaskCharacters
                 then tx_bind (closeAgentWorkRequestTx (wrq_id current)) (\<lambda>_. tx_return (True, []))
                 else promote_request engineRegistered current commentID task)))"

definition reconcile_pending_tx :: "(string \<Rightarrow> bool) option \<Rightarrow> work_request \<Rightarrow> (db, bool \<times> event list) tx" where
  "reconcile_pending_tx engineRegistered candidate =
     tx_bind (lockAssignmentIssue (wrq_project_id candidate) (wrq_issue_id candidate)) (\<lambda>(issue, _).
     tx_bind (sql_find db_work_requests (\<lambda>d w. wrq_project_id w = wrq_project_id candidate \<and>
                wrq_id w = wrq_id candidate)) (\<lambda>current.
     if \<not> pending_request current then tx_return (True, [])
     else
       tx_bind (tx_guard (wrq_issue_id current = iss_id issue) ErrConflict) (\<lambda>_.
       reconcile_request engineRegistered current)))"

definition ReconcilePendingAgentWorkRequest :: "(string \<Rightarrow> bool) option \<Rightarrow> time \<Rightarrow> db \<Rightarrow>
   (store_error + bool \<times> event list) \<times> db" where
  "ReconcilePendingAgentWorkRequest engineRegistered now d =
     (case pending_candidate d of
        None \<Rightarrow> (Inr (False, []), d)
      | Some candidate \<Rightarrow> run_tx now (reconcile_pending_tx engineRegistered candidate) d)"

section \<open>Frames\<close>

lemma read_work_requests [read_rules]:
  "tx_keeps_on UNIV (=) (findOpenAgentWorkRequestTx input w)" "tx_keeps_on UNIV (=) (lockRunForAgentWork p r)"
  "tx_keeps_on UNIV (=) (lockActiveRunForAgentWork p i a)" "tx_keeps_on UNIV (=) (queuedRunAgentWorkCompatibility input run)"
  "tx_keeps_on UNIV (=) (validateAgentWorkSourceComment input parent)" "tx_keeps_on UNIV (=) (work_request_parent input)"
  "tx_keeps_on UNIV (=) (agentWorkRequestAnchorTx p i w)"
  unfolding findOpenAgentWorkRequestTx_def lockRunForAgentWork_def lockActiveRunForAgentWork_def
    queuedRunAgentWorkCompatibility_def validateAgentWorkSourceComment_def work_request_parent_def agentWorkRequestAnchorTx_def
  by (intro read_rules)+

lemmas read_tried_work [read_rules] = read_work_requests(3) [THEN reads.keeps_on_try]

lemmas [quiet_rules] = read_work_requests [THEN quiet_reads_only] read_tried_work [THEN quiet_reads_only]

lemmas [history_rules] = read_work_requests [THEN history_reads_only] read_tried_work [THEN history_reads_only]

text \<open>
  A relation the inserts of a delegation keep is also kept where the delegation fails half way
  with an error its caller goes on after: every statement that answers such an error changed
  nothing.
\<close>

abbreviation handled :: "store_error set" where
  "handled \<equiv> {ErrConflict, ErrNotFound}"

lemma conflict_handled: "conflict_aborts -` handled \<subseteq> {ErrNotFound}"
  by (auto simp: conflict_aborts_def split: if_splits)

lemma insert_failed: "sql_insert rows upd uq ok err row d = (Inl e, d') \<Longrightarrow> d' = d"
  by (simp add: sql_insert_Inl)

lemma event_check_found: "event_check d e = Some v \<Longrightarrow> notFound v \<noteq> ErrNotFound"
  by (auto simp: event_check_def simp del: exists_row_iff split: if_splits)

lemma append_not_found:
  assumes "appendEventTx input d = (Inl ErrNotFound, d')"
  shows "d' = d"
proof -
  have next_failed: "next_event_sequence input d1 = (Inl e, d2) \<Longrightarrow> d2 = d1" for d1 e d2
    by (cases "evt_run_id input") (auto simp: next_event_sequence_def tx_bind_Inl tx_simps)
  have checked: "validateEventReferences input d = (r, d1) \<Longrightarrow> d1 = d" for r d1
    by (cases r) (auto simp: validateEventReferences_def tx_simps)
  show ?thesis
    using assms next_failed checked unfolding appendEventTx_def
    by (auto simp: tx_bind_Inl tx_get_eq gen_random_uuid_def sql_insert_Inl dest: event_check_found)
qed

locale request_frame = tx_frame R for R :: "db \<Rightarrow> db \<Rightarrow> bool" +
  assumes keeps_uuid: "tx_keeps R gen_random_uuid"
    and keeps_append: "tx_keeps R (appendEventTx e)"
    and keeps_workspace: "tx_keeps R (sql_insert db_workspaces db_workspaces_update workspace_unique workspace_check notFound w)"
    and keeps_run: "tx_keeps R (sql_insert db_runs db_runs_update run_unique run_check notFound (new_run uid input now))"
    and keeps_job: "tx_keeps R (sql_insert db_jobs db_jobs_update job_unique job_check notFound
      (new_job jid p r k reason key t1 t2))"
    and keeps_delegation: "tx_keeps R (sql_insert db_delegations db_delegations_update delegation_unique delegation_check notFound g)"
begin

lemma on_uuid: "tx_keeps_on E R gen_random_uuid"
  by (rule keeps_on_atomic [OF keeps_uuid]) (simp add: gen_random_uuid_def)

lemmas on_inserts = keeps_workspace [THEN keeps_on_atomic, OF insert_failed] keeps_run [THEN keeps_on_atomic, OF insert_failed]
  keeps_job [THEN keeps_on_atomic, OF insert_failed] keeps_delegation [THEN keeps_on_atomic, OF insert_failed]

lemma on_append: "tx_keeps_on {ErrNotFound} R (appendEventTx e)"
  by (rule keeps_on_atomic [OF keeps_append]) (simp add: append_not_found)

lemma on_queued_run: "tx_keeps_on {ErrNotFound} R (createQueuedRunTx input)"
  unfolding createQueuedRunTx_def Let_def
  by (intro keeps_on_intros on_uuid on_inserts on_append)

lemma on_workspace: "tx_keeps_on E R (workspaceForAssignment p i key path branch)"
  unfolding workspaceForAssignment_def Let_def by (intro keeps_on_intros on_uuid on_inserts)

lemma on_insert_delegation: "tx_keeps_on E R (insert_delegation row)"
  unfolding insert_delegation_def by (intro keeps_on_intros on_uuid on_inserts)

lemma on_statements: "f -` E \<subseteq> {ErrNotFound} \<Longrightarrow> tx_keeps_on {ErrNotFound} R m \<Longrightarrow> tx_keeps_on E R (tx_map_error f m)"
  by (rule keeps_on_map_error) (auto elim: keeps_on_mono)

lemma on_target_run:
  assumes "f -` E \<subseteq> {ErrNotFound}"
  shows "tx_keeps_on E R (createDelegatedTargetRunTx f eng p i w a key False)"
  unfolding createDelegatedTargetRunTx_def
  by (simp cong: if_cong, intro keeps_on_intros on_statements [OF assms] on_queued_run read_delegation(6,7) [THEN keeps_on_read]
      read_assignment(5) [THEN keeps_on_read])

lemma on_request_delegation:
  assumes "f -` E \<subseteq> {ErrNotFound}"
  shows "tx_keeps_on E R (requestIssueDelegationTx f eng input)"
  unfolding requestIssueDelegationTx_def create_issue_delegation_def
  by (intro keeps_on_intros on_statements [OF assms] on_target_run assms on_workspace on_insert_delegation
      read_delegation(5) [THEN keeps_on_read] read_assignment(1) [THEN keeps_on_read])

end

text \<open>A promotion also writes the request itself.\<close>

locale promotion_frame = request_frame +
  assumes keeps_touch: "tx_keeps R (touchAgentWorkRequestTx w)"
    and keeps_close: "tx_keeps R (closeAgentWorkRequestTx w)"
    and keeps_promoted: "tx_keeps R (promoted_row current delegation)"
begin

lemma keeps_touched: "tx_keeps R (touched current)"
  unfolding touched_def by (intro keeps_intros keeps_touch)

lemma keeps_promote: "tx_keeps R (promote_request eng current c task)"
  unfolding promote_request_def
proof (rule keeps_handler [OF on_request_delegation [OF conflict_handled]])
qed (auto simp: tx_fail_def split: sum.splits intro!: keeps_intros keeps_promoted keeps_touched)

lemma keeps_reconcile_pending: "tx_keeps R (reconcile_pending_tx eng candidate)"
  unfolding reconcile_pending_tx_def reconcile_request_def
  by (intro keeps_intros keeps_close keeps_touched keeps_promote
      read_assignment(1) [THEN keeps_on_read, THEN keeps_on_keeps] read_tried(1) [THEN keeps_on_read, THEN keeps_on_keeps]
      read_tried_work [THEN keeps_on_read, THEN keeps_on_keeps] read_work_requests(7) [THEN keeps_on_read, THEN keeps_on_keeps])

end

lemmas request_writes = touchAgentWorkRequestTx_def closeAgentWorkRequestTx_def promoted_row_def

interpretation quiet_requests: promotion_frame quiet
  by unfold_locales (unfold request_writes,
    (intro quiet_rules quiet_insert_run quiet_insert_job quiet_tables; auto simp: run_unique_def job_unique_def new_job_def)+)

interpretation history_requests: promotion_frame history
  by unfold_locales (unfold request_writes,
    (intro history_rules history_insert_run history_tables; auto simp: run_unique_def new_run_def)+)

text \<open>A delegation leaves the requests alone.\<close>

definition same_requests :: "db \<Rightarrow> db \<Rightarrow> bool" where
  "same_requests d d' \<longleftrightarrow> db_work_requests d' = db_work_requests d \<and> db_now d' = db_now d"

interpretation request_rows: request_frame same_requests
  by unfold_locales
    (auto simp: same_requests_def tx_keeps_def gen_random_uuid_def sql_insert_Inr appendEventTx_Inr next_event_sequence_def tx_simps
      split: option.splits)

lemma quiet_work [quiet_rules]:
  "tx_keeps quiet (work_request_workspace violation eng input)" "tx_keeps quiet (insertAgentWorkRequestWithIDTx wid input w r g)"
  "tx_keeps quiet (queue_work violation eng input w)" "tx_keeps quiet (join_or_defer violation input w run)" "tx_keeps quiet (requestAgentWorkTx violation eng input)"
  unfolding work_request_workspace_def insertAgentWorkRequestWithIDTx_def queue_work_def join_or_defer_def Let_def
    requestAgentWorkTx_def request_work_def admit_work_def sealAgentWorkRequestTx_def insertAgentWorkRequestTx_def
  by (intro quiet_rules)+

lemma history_work [history_rules]:
  "tx_keeps history (work_request_workspace violation eng input)" "tx_keeps history (insertAgentWorkRequestWithIDTx wid input w r g)"
  "tx_keeps history (queue_work violation eng input w)" "tx_keeps history (join_or_defer violation input w run)" "tx_keeps history (requestAgentWorkTx violation eng input)"
  unfolding work_request_workspace_def insertAgentWorkRequestWithIDTx_def queue_work_def join_or_defer_def Let_def
    requestAgentWorkTx_def request_work_def admit_work_def sealAgentWorkRequestTx_def insertAgentWorkRequestTx_def
  by (intro history_rules)+

lemma ReconcilePending_quiet: "ReconcilePendingAgentWorkRequest eng now d = (r, d') \<Longrightarrow> quiet d d'"
  unfolding ReconcilePendingAgentWorkRequest_def
  by (auto split: option.splits intro: quiet.refl elim!: quiet.keeps_run_tx [rotated] intro!: quiet_requests.keeps_reconcile_pending)

lemma ReconcilePending_history: "ReconcilePendingAgentWorkRequest eng now d = (r, d') \<Longrightarrow> history d d'"
  unfolding ReconcilePendingAgentWorkRequest_def
  by (auto split: option.splits intro: history.refl elim!: history.keeps_run_tx [rotated]
      intro!: history_requests.keeps_reconcile_pending)

section \<open>What a trigger does\<close>

text \<open>The execution tables are the same.\<close>

definition same_execution :: "db \<Rightarrow> db \<Rightarrow> bool" where
  "same_execution d d' \<longleftrightarrow> db_runs d' = db_runs d \<and> db_jobs d' = db_jobs d \<and> db_delegations d' = db_delegations d \<and>
     db_events d' = db_events d"

interpretation execution: tx_frame same_execution
  by unfold_locales (auto simp: same_execution_def)

lemmas execution_reads = execution.keeps_on_read [THEN keeps_on_keeps]

lemma execution_rows:
  "tx_keeps same_execution (workspaceForAssignment p i key path branch)"
  "tx_keeps same_execution (insertAgentWorkRequestWithIDTx wid input w r g)"
  "tx_keeps same_execution (sealAgentWorkRequestTx wid)"
  unfolding workspaceForAssignment_def insertAgentWorkRequestWithIDTx_def sealAgentWorkRequestTx_def Let_def
  by (auto simp: tx_keeps_def same_execution_def tx_simps gen_random_uuid_def split: option.splits if_splits)

lemma execution_workspace: "tx_keeps same_execution (work_request_workspace violation eng input)"
  unfolding work_request_workspace_def
  by (intro execution.keeps_intros execution_rows read_work_requests(5,6) [THEN execution_reads]
      read_assignment(1) [THEN execution_reads] read_delegation(7) [THEN execution_reads])

text \<open>The decision a trigger comes to, with the database after its checks.\<close>

lemma request_work_cases [consumes 1, case_names taken_in admitted]:
  assumes "requestAgentWorkTx violation eng command d = (Inr res, d')"
  obtains input active w where "input = trim_work_request command" "same_execution d d'" "res = coalesced w" "takes_trigger w active"
      "\<And>a. active = Some a \<Longrightarrow> a \<in> set (db_runs d)"
    | input active w d1 where "input = trim_work_request command" "same_execution d d1"
      "active = first_by (\<lambda>r. - run_attempt r) (filter (\<lambda>r. run_project_id r = wri_project_id input \<and>
         run_issue_id r = wri_issue_id input \<and> run_agent_id r = Some (wri_target_agent_id input) \<and>
         activeRunStatus (run_status r)) (db_runs d))"
      "admit_work violation eng input w active d1 = (Inr res, d')"
proof -
  let ?input = "trim_work_request command"
  obtain ws d1 locked d2 active d3 found d4 where
    ws: "work_request_workspace violation eng ?input d = (Inr ws, d1)" and
    lock: "lockActiveRunForAgentWork (wri_project_id ?input) (wri_issue_id ?input) (wri_target_agent_id ?input) d1 = (locked, d2)" and
    active: "(case locked of Inr run \<Rightarrow> tx_return (Some run)
              | Inl e \<Rightarrow> if e = ErrNotFound then tx_return None else tx_fail e) d2 = (Inr active, d3)" and
    found: "findOpenAgentWorkRequestTx ?input (wsp_id ws) d3 = (Inr found, d4)" and
    rest: "(case found of None \<Rightarrow> admit_work violation eng ?input (wsp_id ws) active
     | Some existing \<Rightarrow> if takes_trigger existing active then tx_return (coalesced existing)
         else tx_bind (sealAgentWorkRequestTx (wrq_id existing)) (\<lambda>_. admit_work violation eng ?input (wsp_id ws) active)) d4 = (Inr res, d')"
    using assms unfolding requestAgentWorkTx_def Let_def request_work_def
    by (auto simp: tx_bind_Inr tx_try_eq tx_fail_eq split: if_splits)
  have d1: "same_execution d d1" by (rule tx_keepsD [OF execution_workspace ws])
  have same: "d2 = d1" "d4 = d3"
    using read_state [OF read_work_requests(3) lock] read_state [OF read_work_requests(1) found] by simp_all
  have act: "d3 = d1" "active = first_by (\<lambda>r. - run_attempt r) (filter (\<lambda>r. run_project_id r = wri_project_id ?input \<and>
         run_issue_id r = wri_issue_id ?input \<and> run_agent_id r = Some (wri_target_agent_id ?input) \<and>
         activeRunStatus (run_status r)) (db_runs d))"
    using lock active d1 same(1) unfolding lockActiveRunForAgentWork_def sql_read_run same_execution_def
    by (auto split: option.splits simp: tx_simps first_by_def)
  have in_db: "a \<in> set (db_runs d)" if "active = Some a" for a using that act(2) by (auto dest!: first_by_in)
  consider (new) d5 where "same_execution d1 d5" "admit_work violation eng ?input (wsp_id ws) active d5 = (Inr res, d')"
    | (old) w where "found = Some w" "takes_trigger w active" "res = coalesced w" "d' = d1"
    using rest same act(1) execution.refl [of d1]
    by (cases found) (auto split: if_splits simp: tx_simps dest: tx_keepsD [OF execution_rows(3)])
  then show ?thesis
  proof cases
    case new
    from new(1) have "same_execution d d5" by (rule execution.trans [OF d1])
    then show ?thesis using that(2) [OF refl _ act(2) new(2)] by blast
  next
    case old
    then show ?thesis using that(1) [OF refl _ old(3,2)] d1 in_db by blast
  qed
qed

lemma admitted_outcome:
  assumes "admit_work violation eng input w active d = (Inr res, d')" "\<And>a. active = Some a \<Longrightarrow> a \<in> set (db_runs d)"
  shows "wrr_outcome res = WORK_COALESCED \<Longrightarrow> same_execution d d' \<and>
      (\<exists>a. active = Some a \<and> wrq_run_id (wrr_request res) = Some (run_id a) \<and> waits_for_start a)"
    and "wrr_outcome res = WORK_DEFERRED \<Longrightarrow> same_execution d d' \<and> active \<noteq> None \<and> wrq_run_id (wrr_request res) = None \<and>
      wri_authority_kind input \<noteq> AgentWorkRequestAuthorityParentRun"
    and "wrr_outcome res = WORK_QUEUED \<Longrightarrow> active = None \<and> (\<exists>dl. wrr_delegation res = Some dl \<and>
      wrq_run_id (wrr_request res) = Some (run_id (dlr_run dl)) \<and> wrq_delegation_id (wrr_request res) = Some (dlg_id (dlr_delegation dl)))"
proof -
  have row: "insertAgentWorkRequestWithIDTx wid input w r g x = (Inr q, x') \<Longrightarrow> wrq_run_id q = r \<and> wrq_delegation_id q = g \<and>
      same_execution x x'"
    for wid r g x q x'
    using tx_keepsD [OF execution_rows(2)] by (auto simp: insertAgentWorkRequestWithIDTx_def tx_simps split: if_splits)
  note same = read_state [OF read_work_requests(4)]
  show "wrr_outcome res = WORK_COALESCED \<Longrightarrow> same_execution d d' \<and>
      (\<exists>a. active = Some a \<and> wrq_run_id (wrr_request res) = Some (run_id a) \<and> waits_for_start a)"
    using assms unfolding admit_work_def join_or_defer_def queue_work_def insertAgentWorkRequestTx_def coalesced_def Let_def
    by (auto simp: tx_bind_Inr tx_return_eq tx_guard_Inr tx_map_error_Inr split: option.splits if_splits dest!: same row)
  show "wrr_outcome res = WORK_DEFERRED \<Longrightarrow> same_execution d d' \<and> active \<noteq> None \<and> wrq_run_id (wrr_request res) = None \<and>
      wri_authority_kind input \<noteq> AgentWorkRequestAuthorityParentRun"
    using assms unfolding admit_work_def join_or_defer_def queue_work_def insertAgentWorkRequestTx_def coalesced_def Let_def
    by (auto simp: tx_bind_Inr tx_return_eq tx_guard_Inr tx_map_error_Inr split: option.splits if_splits dest!: same row)
  show "wrr_outcome res = WORK_QUEUED \<Longrightarrow> active = None \<and> (\<exists>dl. wrr_delegation res = Some dl \<and>
      wrq_run_id (wrr_request res) = Some (run_id (dlr_run dl)) \<and> wrq_delegation_id (wrr_request res) = Some (dlg_id (dlr_delegation dl)))"
    using assms unfolding admit_work_def join_or_defer_def queue_work_def insertAgentWorkRequestTx_def coalesced_def Let_def
    by (auto simp: tx_bind_Inr tx_return_eq tx_guard_Inr tx_map_error_Inr split: option.splits if_splits dest!: row)
qed

text \<open>
  C17. A comment never disturbs execution: a trigger that joins existing work changes no Run, job,
  delegation or Event, and the Run it joins, if there is one, is still QUEUED and was never
  started; a trigger is deferred only behind an active Run of its Agent on the Issue, again without
  touching execution; and it creates delegated work, linked to its request, only when the Agent has
  no active Run on the Issue.
\<close>

theorem trigger_outcomes:
  assumes "requestAgentWorkTx violation eng command d = (Inr res, d')"
  shows "case wrr_outcome res of
      WORK_COALESCED \<Rightarrow> same_execution d d' \<and> (\<forall>r. wrq_run_id (wrr_request res) = Some r \<longrightarrow>
        (\<exists>x\<in>set (db_runs d). run_id x = r \<and> run_status x = RUN_QUEUED \<and> run_started_at x = None))
    | WORK_DEFERRED \<Rightarrow> same_execution d d' \<and> wrq_run_id (wrr_request res) = None \<and>
        (\<exists>x\<in>set (db_runs d). run_issue_id x = TrimSpace (wri_issue_id command) \<and>
          run_agent_id x = Some (TrimSpace (wri_target_agent_id command)) \<and> activeRunStatus (run_status x))
    | WORK_QUEUED \<Rightarrow> (\<forall>x\<in>set (db_runs d). run_project_id x = TrimSpace (wri_project_id command) \<and>
          run_issue_id x = TrimSpace (wri_issue_id command) \<and>
          run_agent_id x = Some (TrimSpace (wri_target_agent_id command)) \<longrightarrow> \<not> activeRunStatus (run_status x)) \<and>
        (\<exists>dl. wrr_delegation res = Some dl \<and> wrq_run_id (wrr_request res) = Some (run_id (dlr_run dl)) \<and>
          wrq_delegation_id (wrr_request res) = Some (dlg_id (dlr_delegation dl)))"
  using assms
proof (cases rule: request_work_cases)
  case (taken_in input active w)
  then show ?thesis
    by (auto simp: coalesced_def takes_trigger_def waits_for_start_def split: option.splits)
next
  case (admitted input active w d1)
  let ?mine = "\<lambda>r. run_project_id r = wri_project_id input \<and> run_issue_id r = wri_issue_id input \<and>
    run_agent_id r = Some (wri_target_agent_id input) \<and> activeRunStatus (run_status r)"
  have runs: "db_runs d1 = db_runs d" using admitted(2) by (simp add: same_execution_def)
  have act: "a \<in> set (db_runs d) \<and> ?mine a" if "active = Some a" for a
    using first_by_in [OF admitted(3) [symmetric, unfolded that]] by simp
  have trimmed: "wri_project_id input = TrimSpace (wri_project_id command)" "wri_issue_id input = TrimSpace (wri_issue_id command)"
    "wri_target_agent_id input = TrimSpace (wri_target_agent_id command)"
    by (simp_all add: admitted(1) trim_work_request_def)
  have none: "\<forall>x\<in>set (db_runs d). \<not> ?mine x" if "active = None"
    using admitted(3) [symmetric] that by (simp add: filter_empty_conv)
  note out = admitted_outcome [OF admitted(4)]
  show ?thesis
  proof (cases "wrr_outcome res")
    case WORK_QUEUED then show ?thesis using out(3) act none runs unfolding trimmed by auto
  next
    case WORK_COALESCED
    then show ?thesis using out(1) act runs execution.trans [OF admitted(2)] by (auto simp: waits_for_start_def)
  next
    case WORK_DEFERRED
    then show ?thesis using out(2) act runs execution.trans [OF admitted(2)] unfolding trimmed by auto
  qed
qed

definition sample_trigger :: work_request_input where
  "sample_trigger = \<lparr>wri_project_id = ''p1'', wri_issue_id = ''i1'', wri_source_comment_id = ''c1'',
     wri_target_agent_id = ''a1'', wri_task = ''please help'', wri_authority_kind = ''ISSUE'', wri_parent_run_id = None\<rparr>"

lemmas trigger_run = delegation_run requestAgentWorkTx_def trim_work_request_def work_request_valid_def request_work_def
  work_request_workspace_def work_request_parent_def workspaceForAssignment_def validateAgentWorkSourceComment_def
  lockActiveRunForAgentWork_def findOpenAgentWorkRequestTx_def admit_work_def join_or_defer_def waits_for_start_def
  queuedRunAgentWorkCompatibility_def insertAgentWorkRequestTx_def insertAgentWorkRequestWithIDTx_def work_request_check_def
  coalesced_def AgentWorkRequestAuthorityIssue_def AgentWorkRequestAuthorityParentRun_def gen_random_uuid_def

theorem trigger_outcomes_witness:
  "\<exists>res d'. requestAgentWorkTx as_is None sample_trigger sample_queued = (Inr res, d') \<and> wrr_outcome res = WORK_COALESCED \<and>
     same_execution sample_queued d'"
proof -
  have texts: "TrimSpace ''a1'' = ''a1''" "TrimSpace ''i1'' = ''i1''" "TrimSpace ''c1'' = ''c1''"
    "TrimSpace ''please help'' = ''please help''" "RuneCountInString ''please help'' \<le> MaxDelegationTaskCharacters"
    by code_simp+
  then obtain res d' where r: "requestAgentWorkTx as_is None sample_trigger sample_queued = (Inr res, d')" "wrr_outcome res = WORK_COALESCED"
    by (simp add: trigger_run sample_eval sample_trigger_def)
  then show ?thesis using trigger_outcomes [OF r(1)] by simp
qed

text \<open>What becomes of a pending request.\<close>

definition settled_or_touched :: "work_request \<Rightarrow> bool \<Rightarrow> db \<Rightarrow> bool" where
  "settled_or_touched c settled d \<longleftrightarrow> (\<exists>w\<in>set (db_work_requests d). wrq_id w = wrq_id c \<and>
     (if settled then \<not> pending_request w else wrq_updated_at w = db_now d))"

lemma touched_settles:
  assumes "touched c d = (Inr (settled, evs), d')" "c \<in> set (db_work_requests d)"
  shows "settled_or_touched c settled d'"
proof -
  have d': "db_work_requests d' = update_rows (\<lambda>w. wrq_id w = wrq_id c) (\<lambda>w. w\<lparr>wrq_updated_at := db_now d\<rparr>) (db_work_requests d)"
    "db_now d' = db_now d" "\<not> settled"
    using assms(1) by (auto simp: touched_def touchAgentWorkRequestTx_def tx_simps)
  have "c\<lparr>wrq_updated_at := db_now d\<rparr> \<in> set (db_work_requests d')"
    unfolding d'(1) by (rule matched_row) (use assms(2) in auto)
  then show ?thesis unfolding settled_or_touched_def using d' by (intro bexI) simp_all
qed

lemma closed_settles:
  assumes "closeAgentWorkRequestTx (wrq_id c) d = (Inr n, d')" "c \<in> set (db_work_requests d)" "pending_request c"
  shows "settled_or_touched c True d'"
proof -
  let ?f = "\<lambda>w. w\<lparr>wrq_sealed_at := coalesce_time (wrq_sealed_at w) (db_now d),
                 wrq_closed_at := coalesce_time (wrq_closed_at w) (db_now d), wrq_updated_at := db_now d\<rparr>"
  have "?f c \<in> set (update_rows (\<lambda>w. wrq_id w = wrq_id c \<and> wrq_closed_at w = None) ?f (db_work_requests d))"
    by (rule matched_row) (use assms(2,3) in \<open>auto simp: pending_request_def\<close>)
  then have "?f c \<in> set (db_work_requests d')"
    using assms(1) by (auto simp: closeAgentWorkRequestTx_def tx_simps)
  moreover have "\<not> pending_request (?f c)" by (simp add: pending_request_def coalesce_time_def split: option.splits)
  ultimately show ?thesis unfolding settled_or_touched_def by (intro bexI [of _ "?f c"]) simp_all
qed

lemma promoted_settles:
  assumes "promoted_row c dl d = (Inr w, d')"
  shows "settled_or_touched c True d'"
proof -
  let ?p = "\<lambda>w. wrq_project_id w = wrq_project_id c \<and> wrq_id w = wrq_id c \<and> wrq_run_id w = None \<and>
              wrq_delegation_id w = None \<and> wrq_sealed_at w = None \<and> wrq_closed_at w = None"
  let ?f = "\<lambda>w. w\<lparr>wrq_run_id := Some (run_id (dlr_run dl)),
                 wrq_delegation_id := Some (dlg_id (dlr_delegation dl)), wrq_updated_at := db_now d\<rparr>"
  obtain q where q: "List.find ?p (db_work_requests d) = Some q" and d': "db_work_requests d' = update_rows ?p ?f (db_work_requests d)"
    using assms by (auto simp: promoted_row_def tx_simps)
  have "?f q \<in> set (db_work_requests d')" unfolding d' by (rule matched_row) (use find_Some_in [OF q] in auto)
  moreover have "wrq_id (?f q) = wrq_id c" "\<not> pending_request (?f q)" using find_Some_in [OF q] by (auto simp: pending_request_def)
  ultimately show ?thesis unfolding settled_or_touched_def by (intro bexI [of _ "?f q"]) simp_all
qed

lemma promote_settles:
  assumes "promote_request eng c comment task d = (Inr (settled, evs), d')" "c \<in> set (db_work_requests d)"
  shows "settled_or_touched c settled d'"
proof -
  obtain requested d1 where
    req: "requestIssueDelegationTx conflict_aborts eng
        \<lparr>idc_project_id = wrq_project_id c, idc_issue_id = wrq_issue_id c,
         idc_source_comment_id = comment, idc_target_agent_id = wrq_target_agent_id c,
         idc_task = TrimSpace task, idc_request_key = agentWorkRequestDelegationKey (wrq_id c)\<rparr> d = (requested, d1)"
    and rest: "(case requested of
       Inl e \<Rightarrow> if e = ErrConflict \<or> e = ErrNotFound then touched c else tx_fail e
     | Inr delegation \<Rightarrow>
         tx_bind (promoted_row c delegation) (\<lambda>updated.
         tx_bind (tx_guard (wrq_run_id updated = Some (run_id (dlr_run delegation))) ErrConflict) (\<lambda>_.
         tx_return (True, dlr_events delegation)))) d1 = (Inr (settled, evs), d')"
    using assms(1) unfolding promote_request_def by (auto simp: tx_bind_Inr tx_try_eq)
  show ?thesis
  proof (cases requested)
    case (Inl e)
    then have h: "e = ErrConflict \<or> e = ErrNotFound" "touched c d1 = (Inr (settled, evs), d')"
      using rest by (auto simp: tx_fail_eq split: if_splits)
    then have "same_requests d d1"
      using tx_keeps_onD [OF request_rows.on_request_delegation [OF conflict_handled] req] Inl by auto
    then show ?thesis using touched_settles [OF h(2)] assms(2) by (simp add: same_requests_def)
  next
    case (Inr dl)
    then show ?thesis using rest by (auto simp: tx_bind_Inr tx_guard_Inr tx_return_eq intro: promoted_settles)
  qed
qed

lemma reconcile_request_settles:
  assumes "reconcile_request eng c d = (Inr (settled, evs), d')" "c \<in> set (db_work_requests d)" "pending_request c"
  shows "settled_or_touched c settled d'"
proof -
  obtain active d1 where act: "lockActiveRunForAgentWork (wrq_project_id c) (wrq_issue_id c) (wrq_target_agent_id c) d = (active, d1)"
    by (cases "lockActiveRunForAgentWork (wrq_project_id c) (wrq_issue_id c) (wrq_target_agent_id c) d")
  obtain runnable d2 where ok: "verifyRunnableAgent eng (wrq_project_id c) (wrq_target_agent_id c) d1 = (runnable, d2)"
    by (cases "verifyRunnableAgent eng (wrq_project_id c) (wrq_target_agent_id c) d1")
  have d: "d1 = d" "d2 = d" using read_state [OF read_work_requests(3) act] read_state [OF read_assignment(2) ok] by simp_all
  note settles = touched_settles [OF _ assms(2)] closed_settles [OF _ assms(2,3)] promote_settles [OF _ assms(2)]
  have step: "(case active of Inr _ \<Rightarrow> touched c
     | Inl e \<Rightarrow> if e \<noteq> ErrNotFound then tx_fail e else
        (case runnable of Inl e \<Rightarrow> if e = ErrNotFound \<or> e = ErrConflict then touched c else tx_fail e
         | Inr _ \<Rightarrow> tx_bind (agentWorkRequestAnchorTx (wrq_project_id c) (wrq_issue_id c) (wrq_id c)) (\<lambda>anchor.
             case anchor of
               None \<Rightarrow> tx_bind (closeAgentWorkRequestTx (wrq_id c)) (\<lambda>_. tx_return (True, []))
             | Some (commentID, task) \<Rightarrow>
                 if TrimSpace task = [] \<or> RuneCountInString (TrimSpace task) > MaxDelegationTaskCharacters
                 then tx_bind (closeAgentWorkRequestTx (wrq_id c)) (\<lambda>_. tx_return (True, []))
                 else promote_request eng c commentID task))) d = (Inr (settled, evs), d')"
    using assms(1) act ok unfolding reconcile_request_def d
    by (cases active; cases runnable) (auto simp: tx_bind_run tx_basic_run split: if_splits)
  show ?thesis
    using step settles
    by (auto simp: tx_bind_Inr tx_return_eq tx_fail_eq agentWorkRequestAnchorTx_def tx_get_eq
        split: sum.splits if_splits option.splits)
qed

definition same_clock :: "db \<Rightarrow> db \<Rightarrow> bool" where
  "same_clock d d' \<longleftrightarrow> db_now d' = db_now d"

interpretation clock: promotion_frame same_clock
  by unfold_locales
    (auto simp: same_clock_def tx_keeps_def request_writes gen_random_uuid_def sql_insert_Inr appendEventTx_Inr next_event_sequence_def tx_simps
      split: option.splits)

text \<open>What a call does to the request it picks up.\<close>

lemma reconcile_pending_settles:
  assumes "distinct (map wrq_id (db_work_requests d))" "pending_candidate d = Some c"
    and "ReconcilePendingAgentWorkRequest eng now d = (Inr (settled, evs), d')"
  shows "settled_or_touched c settled d'" "db_now d' = now" "c \<in> set (db_work_requests d)" "pending_request c"
proof -
  show c: "c \<in> set (db_work_requests d)" "pending_request c"
    using assms(2) unfolding pending_candidate_def by (auto dest!: first_by_in)
  obtain issue :: issue and current where
    cur: "List.find (\<lambda>w. wrq_project_id w = wrq_project_id c \<and> wrq_id w = wrq_id c) (db_work_requests d) = Some current"
    and run: "(if \<not> pending_request current then tx_return (True, [])
     else tx_bind (tx_guard (wrq_issue_id current = iss_id issue) ErrConflict) (\<lambda>_. reconcile_request eng current)) (d\<lparr>db_now := now\<rparr>)
      = (Inr (settled, evs), d')"
    using assms(2,3) unfolding ReconcilePendingAgentWorkRequest_def reconcile_pending_tx_def run_tx_def
    by (auto simp: tx_simps lockAssignmentIssue_def)
  have "current = c" using find_Some_in [OF cur] c(1) assms(1) by (auto intro: distinct_key_eq)
  then have "reconcile_request eng c (d\<lparr>db_now := now\<rparr>) = (Inr (settled, evs), d')"
    using run c(2) by (simp add: tx_simps split: if_splits)
  from reconcile_request_settles [OF this] c show "settled_or_touched c settled d'" by simp
  show "db_now d' = now"
    using assms(2,3) tx_keepsD [OF clock.keeps_reconcile_pending] unfolding ReconcilePendingAgentWorkRequest_def run_tx_def
    by (force simp: tx_simps same_clock_def)
qed


definition sample_pending :: db where
  "sample_pending = sample_claimed\<lparr>db_work_requests := [\<lparr>wrq_id = ''q1'', wrq_project_id = ''p1'', wrq_issue_id = ''i1'',
     wrq_workspace_id = ''w1'', wrq_target_agent_id = ''a2'', wrq_authority_kind = ''ISSUE'', wrq_parent_run_id = None,
     wrq_run_id = None, wrq_delegation_id = None, wrq_sealed_at = None, wrq_closed_at = None,
     wrq_created_at = 30, wrq_updated_at = 30\<rparr>]\<rparr>"


end
