(* ===== verification/Board.thy ===== *)
theory Board
  imports Work_Requests "HOL-Library.Multiset"
begin

text \<open>
  The board (store/postgres/board_order.go, issue_status.go, issue_patch.go, issue_mutation_tx.go;
  store/issue_status.go, issue_events.go): the columns of a project are its Issues of one status in
  the order of their positions. Moving, patching and setting the status of an Issue rewrite the
  positions of the columns they touch, record an Event and start work where the assignment policy
  asks for it. The advisory lock \<open>lockIssueBoardOrder\<close> serializes these transactions, which
  the model runs one at a time.
\<close>

section \<open>Commands and Events\<close>

definition ValidIssueStatus :: "issue_status \<Rightarrow> bool" where
  "ValidIssueStatus status \<longleftrightarrow>
     status \<in> {ISS_BACKLOG, ISS_TODO, ISS_IN_PROGRESS, ISS_BLOCKED, ISS_REVIEW, ISS_DONE}"

fun issue_status_text :: "issue_status \<Rightarrow> string" where
  "issue_status_text ISS_BACKLOG = ''BACKLOG''"
| "issue_status_text ISS_TODO = ''TODO''"
| "issue_status_text ISS_IN_PROGRESS = ''IN_PROGRESS''"
| "issue_status_text ISS_BLOCKED = ''BLOCKED''"
| "issue_status_text ISS_REVIEW = ''REVIEW''"
| "issue_status_text ISS_DONE = ''DONE''"
| "issue_status_text (ISS_OTHER s) = s"

record issue_placement =
  ipl_project_id :: id
  ipl_issue_id :: id
  ipl_status :: "issue_status option"
  ipl_before_id :: "id option"
  ipl_after_id :: "id option"

record issue_status_mutation =
  ism_project_id :: id
  ism_issue_id :: id
  ism_status :: issue_status
  ism_actor :: json
  ism_run_id :: "id option"
  ism_agent_id :: "id option"
  ism_workspace_id :: "id option"
  ism_recovery :: bool

record issue_patch =
  ipt_project_id :: id
  ipt_id :: id
  ipt_title :: "string option"
  ipt_description :: "string option"
  ipt_status :: "issue_status option"
  ipt_priority :: "int option"

text \<open>The Issue of a result is its row; the names and the last Event a client also sees are read models.\<close>

record issue_mutation_result =
  imr_issue :: issue
  imr_events :: "event list"

definition newIssueMutationEvent :: "string \<Rightarrow> issue \<Rightarrow> json \<Rightarrow> issue_status option \<Rightarrow> event" where
  "newIssueMutationEvent eventType issue actor previousStatus = zero_event\<lparr>evt_type := eventType,
     evt_project_id := iss_project_id issue, evt_issue_id := Some (iss_id issue),
     evt_actor := (if actor = JNull then EmptyObject else actor),
     evt_payload := JObj ((if eventType = ''issue.status_changed''
         then [(''previousStatus'', JStr (case previousStatus of None \<Rightarrow> [] | Some s \<Rightarrow> issue_status_text s))] else []) @
       [(''priority'', JInt (iss_priority issue)), (''status'', JStr (issue_status_text (iss_status issue))),
        (''title'', JStr (iss_title issue))])\<rparr>"

definition NewIssueUpdatedEventWithActor :: "issue \<Rightarrow> issue_status \<Rightarrow> json \<Rightarrow> event" where
  "NewIssueUpdatedEventWithActor issue previousStatus actor =
     newIssueMutationEvent (if previousStatus \<noteq> iss_status issue then ''issue.status_changed'' else ''issue.updated'')
       issue actor (Some previousStatus)"

section \<open>Positions\<close>

definition int8_max :: int where
  "int8_max = 9223372036854775807"

definition in_column :: "id \<Rightarrow> issue_status \<Rightarrow> issue \<Rightarrow> bool" where
  "in_column projectID status i \<longleftrightarrow> iss_project_id i = projectID \<and> iss_status i = status"

text \<open>The position a new Issue takes; position columns are \<open>int8\<close>.\<close>

definition newIssueBoardPosition :: "id \<Rightarrow> issue_status \<Rightarrow> string \<Rightarrow> (db, int) tx" where
  "newIssueBoardPosition projectID status placement =
     (if placement = ''top'' then
        tx_bind (tx_get (\<lambda>d. \<exists>i\<in>set (db_issues d). in_column projectID status i \<and> iss_board_position i \<ge> int8_max)) (\<lambda>full.
        tx_bind (tx_guard (\<not> full) (PgError NumericOutOfRange)) (\<lambda>_.
        tx_bind (sql_update db_issues db_issues_update (\<lambda>d. in_column projectID status)
                   (\<lambda>d i. i\<lparr>iss_board_position := iss_board_position i + 1\<rparr>)) (\<lambda>_.
        tx_return 0)))
      else if placement = ''bottom'' then
        tx_bind (tx_get (\<lambda>d. case map iss_board_position (filter (in_column projectID status) (db_issues d)) of
                    [] \<Rightarrow> - 1 | ps \<Rightarrow> Max (set ps))) (\<lambda>last.
        tx_bind (tx_guard (last < int8_max) (PgError NumericOutOfRange)) (\<lambda>_.
        tx_return (last + 1)))
      else tx_fail ErrInvalidArgument)"

text \<open>The loop of \<open>placementIndex\<close> over neighbouring pairs, from index 1.\<close>

fun neighbour_index :: "id list \<Rightarrow> id \<Rightarrow> id \<Rightarrow> nat \<Rightarrow> nat option" where
  "neighbour_index (x # y # ids) before after n =
     (if x = before \<and> y = after then Some n else neighbour_index (y # ids) before after (Suc n))"
| "neighbour_index _ _ _ _ = None"

definition placementIndex :: "id list \<Rightarrow> id option \<Rightarrow> id option \<Rightarrow> nat option" where
  "placementIndex ids beforeID afterID =
     (case beforeID of
        None \<Rightarrow>
          (case afterID of
             None \<Rightarrow> if ids = [] then Some 0 else None
           | Some after \<Rightarrow> if ids \<noteq> [] \<and> hd ids = after then Some 0 else None)
      | Some before \<Rightarrow>
          (case afterID of
             None \<Rightarrow> if ids \<noteq> [] \<and> last ids = before then Some (length ids) else None
           | Some after \<Rightarrow> neighbour_index ids before after 1))"

definition board_key :: "issue \<Rightarrow> int \<times> time \<times> id" where
  "board_key i = (iss_board_position i, iss_created_at i, iss_id i)"

definition orderedIssueIDsTx :: "id \<Rightarrow> issue_status \<Rightarrow> id \<Rightarrow> (db, id list) tx" where
  "orderedIssueIDsTx projectID status excludeID = tx_get (\<lambda>d.
     map iss_id (sort_key board_key (filter (\<lambda>i. in_column projectID status i \<and> iss_id i \<noteq> excludeID) (db_issues d))))"

text \<open>The loop of \<open>rewriteIssuePositionsTx\<close>, from a running index.\<close>

definition set_position :: "id \<Rightarrow> id \<Rightarrow> int \<Rightarrow> (db, nat) tx" where
  "set_position projectID issueID index =
     sql_update db_issues db_issues_update (\<lambda>d i. iss_project_id i = projectID \<and> iss_id i = issueID)
       (\<lambda>d i. i\<lparr>iss_board_position := index\<rparr>)"

fun rewrite_from :: "id \<Rightarrow> int \<Rightarrow> id list \<Rightarrow> (db, unit) tx" where
  "rewrite_from projectID index [] = tx_return ()"
| "rewrite_from projectID index (issueID # ids) =
     tx_bind (set_position projectID issueID index) (\<lambda>_. rewrite_from projectID (index + 1) ids)"

definition rewriteIssuePositionsTx :: "id \<Rightarrow> id list \<Rightarrow> (db, unit) tx" where
  "rewriteIssuePositionsTx projectID ids = rewrite_from projectID 0 ids"

definition moveIssueToStatusTopTx :: "id \<Rightarrow> id \<Rightarrow> issue_status \<Rightarrow> issue_status \<Rightarrow> (db, unit) tx" where
  "moveIssueToStatusTopTx projectID issueID sourceStatus destinationStatus =
     (if sourceStatus = destinationStatus then tx_return ()
      else
        tx_bind (orderedIssueIDsTx projectID sourceStatus issueID) (\<lambda>sourceIDs.
        tx_bind (orderedIssueIDsTx projectID destinationStatus issueID) (\<lambda>destinationIDs.
        tx_bind (rewriteIssuePositionsTx projectID sourceIDs) (\<lambda>_.
        rewriteIssuePositionsTx projectID (issueID # destinationIDs)))))"

section \<open>Applying a mutation\<close>

record issue_mutation_input =
  imi_issue :: issue
  imi_previous :: issue
  imi_repository_path :: string
  imi_default_branch :: string
  imi_actor :: json
  imi_run_id :: "id option"
  imi_agent_id :: "id option"
  imi_workspace_id :: "id option"

text \<open>The CHECK constraints of the columns a mutation sets; \<open>priority\<close> is an \<open>int4\<close>.\<close>

definition issue_check :: "issue \<Rightarrow> pg_error option" where
  "issue_check i =
     (if iss_priority i > 2147483647 \<or> iss_priority i < - 2147483648 then Some NumericOutOfRange
      else if btrim (iss_title i) = [] \<or> \<not> ValidIssueStatus (iss_status i) \<or> iss_priority i < 0 \<or> iss_priority i > 4
      then Some CheckViolation else None)"

definition update_issue_row :: "issue \<Rightarrow> (db, issue \<times> string) tx" where
  "update_issue_row issue =
     tx_bind (sql_find db_projects (\<lambda>d p. prj_id p = iss_project_id issue)) (\<lambda>project.
     tx_bind (sql_find db_issues (\<lambda>d i. iss_project_id i = iss_project_id issue \<and> iss_id i = iss_id issue)) (\<lambda>_.
     tx_bind (case issue_check issue of None \<Rightarrow> tx_return () | Some v \<Rightarrow> tx_fail (notFound v)) (\<lambda>_.
     tx_bind (sql_update_row db_issues db_issues_update
                (\<lambda>d i. iss_project_id i = iss_project_id issue \<and> iss_id i = iss_id issue)
                (\<lambda>d i. i\<lparr>iss_title := iss_title issue, iss_description := iss_description issue,
                   iss_status := iss_status issue, iss_priority := iss_priority issue, iss_updated_at := db_now d\<rparr>)) (\<lambda>updated.
     tx_return (updated, FormatIssueKey (prj_issue_prefix project) (iss_number updated))))))"

definition applyIssueMutationTx :: "(string \<Rightarrow> bool) option \<Rightarrow> issue_mutation_input \<Rightarrow> (db, issue_mutation_result) tx" where
  "applyIssueMutationTx engineRegistered input =
     tx_bind (update_issue_row (imi_issue input)) (\<lambda>(updated, issueKey).
     tx_bind (enqueueIssueMutation engineRegistered updated issueKey (Some (iss_status (imi_previous input))) False
                (imi_repository_path input) (imi_default_branch input)) (\<lambda>(run, runEvent).
     tx_bind (appendEventTx ((NewIssueUpdatedEventWithActor updated (iss_status (imi_previous input)) (imi_actor input))
                \<lparr>evt_run_id := imi_run_id input, evt_agent_id := imi_agent_id input,
                 evt_workspace_id := imi_workspace_id input\<rparr>)) (\<lambda>issueEvent.
     tx_return \<lparr>imr_issue = updated, imr_events = (case runEvent of None \<Rightarrow> [] | Some e \<Rightarrow> [e]) @ [issueEvent]\<rparr>)))"

section \<open>Moving an Issue\<close>

definition insert_at :: "nat \<Rightarrow> 'a \<Rightarrow> 'a list \<Rightarrow> 'a list" where
  "insert_at n x xs = take n xs @ x # drop n xs"

definition place_tx :: "(string \<Rightarrow> bool) option \<Rightarrow> issue_placement \<Rightarrow> json \<Rightarrow> (db, issue_mutation_result) tx" where
  "place_tx engineRegistered input actor =
     tx_bind (lockAssignmentIssue (ipl_project_id input) (ipl_issue_id input)) (\<lambda>(previous, _, repositoryPath, defaultBranch).
     let destinationStatus = (case ipl_status input of None \<Rightarrow> iss_status previous | Some s \<Rightarrow> s) in
     tx_bind (orderedIssueIDsTx (ipl_project_id input) destinationStatus (ipl_issue_id input)) (\<lambda>destinationIDs.
     tx_bind (tx_option ErrConflict (placementIndex destinationIDs (ipl_before_id input) (ipl_after_id input))) (\<lambda>index.
     tx_bind (tx_when (iss_status previous \<noteq> destinationStatus)
                (tx_bind (orderedIssueIDsTx (ipl_project_id input) (iss_status previous) (ipl_issue_id input)) (\<lambda>sourceIDs.
                 rewriteIssuePositionsTx (ipl_project_id input) sourceIDs))) (\<lambda>_.
     tx_bind (rewriteIssuePositionsTx (ipl_project_id input) (insert_at index (ipl_issue_id input) destinationIDs)) (\<lambda>_.
     applyIssueMutationTx engineRegistered \<lparr>imi_issue = previous\<lparr>iss_status := destinationStatus\<rparr>, imi_previous = previous,
       imi_repository_path = repositoryPath, imi_default_branch = defaultBranch, imi_actor = actor,
       imi_run_id = None, imi_agent_id = None, imi_workspace_id = None\<rparr>)))))"

definition PlaceIssue :: "(string \<Rightarrow> bool) option \<Rightarrow> issue_placement \<Rightarrow> json \<Rightarrow> time \<Rightarrow> db \<Rightarrow>
   (store_error + issue_mutation_result) \<times> db" where
  "PlaceIssue engineRegistered input actor now d =
     (if ipl_project_id input = [] \<or> ipl_issue_id input = [] then (Inl ErrInvalidArgument, d)
      else if (case ipl_status input of None \<Rightarrow> False | Some s \<Rightarrow> \<not> ValidIssueStatus s) then (Inl ErrInvalidArgument, d)
      else if ipl_before_id input = Some (ipl_issue_id input) then (Inl ErrInvalidArgument, d)
      else if ipl_after_id input = Some (ipl_issue_id input) then (Inl ErrInvalidArgument, d)
      else if ipl_before_id input \<noteq> None \<and> ipl_before_id input = ipl_after_id input then (Inl ErrInvalidArgument, d)
      else run_tx now (place_tx engineRegistered input actor) d)"

section \<open>Setting the status\<close>

definition lockIssueStatusRunFence :: "issue_status_mutation \<Rightarrow> (db, run option) tx" where
  "lockIssueStatusRunFence input =
     (case ism_run_id input of
        None \<Rightarrow> tx_return None
      | Some runID \<Rightarrow>
          tx_bind (find_run (ism_project_id input) runID) (\<lambda>run.
          tx_bind (tx_guard (run_status run = RUN_RUNNING \<and> run_issue_id run = ism_issue_id input \<and>
                     Some (run_workspace_id run) = ism_workspace_id input \<and> run_agent_id run \<noteq> None \<and>
                     run_agent_id run = ism_agent_id input) ErrConflict) (\<lambda>_.
          tx_return (Some run))))"

text \<open>An Event that shows a decision on the Issue that is not progress of this Run itself.\<close>

definition supersedes :: "db \<Rightarrow> issue_status_mutation \<Rightarrow> time \<Rightarrow> event \<Rightarrow> bool" where
  "supersedes d input startedAt e \<longleftrightarrow>
     evt_project_id e = ism_project_id input \<and> evt_issue_id e = Some (ism_issue_id input) \<and>
     (evt_type e = ''issue.updated'' \<or> evt_type e = ''issue.status_changed'') \<and> evt_created_at e \<ge> startedAt \<and>
     \<not> (evt_type e = ''issue.status_changed'' \<and> evt_run_id e \<noteq> None \<and> evt_run_id e = ism_run_id input \<and>
        evt_agent_id e \<noteq> None \<and> evt_agent_id e = ism_agent_id input \<and>
        evt_workspace_id e \<noteq> None \<and> evt_workspace_id e = ism_workspace_id input \<and>
        (case json_text d (evt_actor e) ''type'' of None \<Rightarrow> [] | Some t \<Rightarrow> t) = ''AGENT'' \<and>
        Some (case json_text d (evt_actor e) ''id'' of None \<Rightarrow> [] | Some t \<Rightarrow> t) = ism_agent_id input)"

definition validateIssueStatusRecoveryFence :: "issue_status_mutation \<Rightarrow> run option \<Rightarrow> (db, unit) tx" where
  "validateIssueStatusRecoveryFence input run =
     (if ism_run_id input = None \<or> ism_agent_id input = None \<or> ism_workspace_id input = None then tx_fail ErrConflict
      else case (case run of None \<Rightarrow> None | Some r \<Rightarrow> run_started_at r) of
        None \<Rightarrow> tx_fail ErrConflict
      | Some startedAt \<Rightarrow>
          tx_bind (sql_exists db_events (\<lambda>d. supersedes d input startedAt)) (\<lambda>superseded.
          tx_guard (\<not> superseded) ErrIssueStatusRecoverySuperseded))"

definition set_status_tx :: "(string \<Rightarrow> bool) option \<Rightarrow> issue_status_mutation \<Rightarrow> (db, issue_mutation_result) tx" where
  "set_status_tx engineRegistered input =
     tx_bind (lockIssueStatusRunFence input) (\<lambda>run.
     tx_bind (lockAssignmentIssue (ism_project_id input) (ism_issue_id input)) (\<lambda>(previous, _, repositoryPath, defaultBranch).
     tx_bind (tx_when (ism_recovery input) (validateIssueStatusRecoveryFence input run)) (\<lambda>_.
     if iss_status previous = ism_status input then tx_return \<lparr>imr_issue = previous, imr_events = []\<rparr>
     else
       tx_bind (moveIssueToStatusTopTx (ism_project_id input) (ism_issue_id input) (iss_status previous) (ism_status input)) (\<lambda>_.
       applyIssueMutationTx engineRegistered \<lparr>imi_issue = previous\<lparr>iss_status := ism_status input\<rparr>, imi_previous = previous,
         imi_repository_path = repositoryPath, imi_default_branch = defaultBranch, imi_actor = ism_actor input,
         imi_run_id = ism_run_id input, imi_agent_id = ism_agent_id input, imi_workspace_id = ism_workspace_id input\<rparr>))))"

definition SetIssueStatus :: "(string \<Rightarrow> bool) option \<Rightarrow> issue_status_mutation \<Rightarrow> time \<Rightarrow> db \<Rightarrow>
   (store_error + issue_mutation_result) \<times> db" where
  "SetIssueStatus engineRegistered input now d =
     (if \<not> ValidIssueStatus (ism_status input) then (Inl ErrInvalidArgument, d)
      else if ism_run_id input = None \<and> (ism_agent_id input \<noteq> None \<or> ism_workspace_id input \<noteq> None)
      then (Inl ErrInvalidArgument, d)
      else if ism_run_id input \<noteq> None \<and> (ism_agent_id input = None \<or> ism_workspace_id input = None)
      then (Inl ErrInvalidArgument, d)
      else if ism_recovery input \<and> ism_run_id input = None then (Inl ErrInvalidArgument, d)
      else run_tx now (set_status_tx engineRegistered input) d)"

section \<open>Patching\<close>

definition patched :: "issue_patch \<Rightarrow> issue \<Rightarrow> issue" where
  "patched patch previous = previous\<lparr>
     iss_title := (case ipt_title patch of None \<Rightarrow> iss_title previous | Some v \<Rightarrow> v),
     iss_description := (case ipt_description patch of None \<Rightarrow> iss_description previous | Some v \<Rightarrow> v),
     iss_status := (case ipt_status patch of None \<Rightarrow> iss_status previous | Some v \<Rightarrow> v),
     iss_priority := (case ipt_priority patch of None \<Rightarrow> iss_priority previous | Some v \<Rightarrow> v)\<rparr>"

definition patch_tx :: "(string \<Rightarrow> bool) option \<Rightarrow> issue_patch \<Rightarrow> json \<Rightarrow> (db, issue_mutation_result) tx" where
  "patch_tx engineRegistered patch actor =
     tx_bind (lockAssignmentIssue (ipt_project_id patch) (ipt_id patch)) (\<lambda>(previous, _, repositoryPath, defaultBranch).
     let updated = patched patch previous in
     if iss_title updated = iss_title previous \<and> iss_description updated = iss_description previous \<and>
        iss_status updated = iss_status previous \<and> iss_priority updated = iss_priority previous
     then tx_return \<lparr>imr_issue = previous, imr_events = []\<rparr>
     else
       tx_bind (tx_when (iss_status updated \<noteq> iss_status previous)
                  (moveIssueToStatusTopTx (ipt_project_id patch) (ipt_id patch) (iss_status previous) (iss_status updated))) (\<lambda>_.
       applyIssueMutationTx engineRegistered \<lparr>imi_issue = updated, imi_previous = previous,
         imi_repository_path = repositoryPath, imi_default_branch = defaultBranch, imi_actor = actor,
         imi_run_id = None, imi_agent_id = None, imi_workspace_id = None\<rparr>))"

definition UpdateIssuePatchMutation :: "(string \<Rightarrow> bool) option \<Rightarrow> issue_patch \<Rightarrow> json \<Rightarrow> time \<Rightarrow> db \<Rightarrow>
   (store_error + issue_mutation_result) \<times> db" where
  "UpdateIssuePatchMutation engineRegistered patch actor now d = run_tx now (patch_tx engineRegistered patch actor) d"

section \<open>The board as columns of Issues\<close>

text \<open>The abstract state of a project's board: every status has a list of Issues, top first.\<close>

definition board :: "db \<Rightarrow> id \<Rightarrow> issue_status \<Rightarrow> id list" where
  "board d projectID status = map iss_id (sort_key board_key (filter (in_column projectID status) (db_issues d)))"

text \<open>The abstract operation: take a card from wherever it is and put it into a column.\<close>

definition move_card :: "(issue_status \<Rightarrow> id list) \<Rightarrow> id \<Rightarrow> issue_status \<Rightarrow> nat \<Rightarrow> issue_status \<Rightarrow> id list" where
  "move_card b x t n = (\<lambda>u. if u = t then insert_at n x (filter (\<lambda>y. y \<noteq> x) (b t)) else filter (\<lambda>y. y \<noteq> x) (b u))"

lemma rows_of_ids:
  assumes "set ids \<subseteq> key ` set rows"
  obtains rs where "map key rs = ids" "set rs \<subseteq> set rows"
proof -
  have "\<exists>rs. map key rs = ids \<and> set rs \<subseteq> set rows"
    using assms
  proof (induction ids)
    case (Cons x xs)
    then obtain r rs where "r \<in> set rows" "key r = x" "map key rs = xs" "set rs \<subseteq> set rows" by auto
    then show ?case by (intro exI [of _ "r # rs"]) simp
  qed simp
  then show ?thesis using that by blast
qed

text \<open>Rows whose positions count along a list of their ids are sorted into that list.\<close>

lemma sorted_column:
  assumes rows: "distinct (map iss_id rows)" and ids: "distinct ids" "set ids = iss_id ` set rows"
    and pos: "\<And>k i. k < length ids \<Longrightarrow> i \<in> set rows \<Longrightarrow> iss_id i = ids ! k \<Longrightarrow> iss_board_position i = int k"
  shows "map iss_id (sort_key board_key rows) = ids"
proof -
  obtain rs where rs: "map iss_id rs = ids" "set rs \<subseteq> set rows"
    by (rule rows_of_ids [of ids iss_id rows]) (use ids(2) in auto)
  have "set rs = set rows"
  proof (rule antisym [OF rs(2)], rule)
    fix i assume i: "i \<in> set rows"
    then obtain r where "r \<in> set rs" "iss_id r = iss_id i" using ids(2) rs(1) by (metis imageE image_eqI list.set_map)
    then show "i \<in> set rs" using rows i rs(2) by (metis distinct_key_eq subsetD)
  qed
  moreover have "distinct rs" "distinct rows" using rs(1) ids(1) rows by (auto simp: distinct_map)
  ultimately have "mset rows = mset rs" by (metis set_eq_iff_mset_eq_distinct)
  moreover have "inj_on board_key (set rows)"
    using rows by (auto simp: inj_on_def board_key_def intro: distinct_key_eq)
  moreover have "sorted (map board_key rs)"
  proof -
    have "iss_board_position (rs ! k) = int k" if "k < length rs" for k
      using that rs pos [of k "rs ! k"] by (metis length_map nth_map nth_mem subsetD)
    then show ?thesis by (auto simp: sorted_iff_nth_mono_less board_key_def)
  qed
  ultimately show ?thesis using rs(1) sort_key_inj_key_eq by metis
qed

lemma distinct_column: "distinct (map iss_id (db_issues d)) \<Longrightarrow> distinct (board d p s)"
  by (simp add: board_def distinct_map inj_on_def)

lemma set_column: "set (board d p s) = iss_id ` {i \<in> set (db_issues d). in_column p s i}"
  by (simp add: board_def)

lemma ordered_without:
  "orderedIssueIDsTx p s x d = (Inr (filter (\<lambda>y. y \<noteq> x) (board d p s)), d)"
  by (simp add: orderedIssueIDsTx_def tx_get_def board_def filter_sort filter_map comp_def conj_commute flip: filter_filter)

section \<open>Rewriting positions\<close>

fun repositioned :: "id \<Rightarrow> int \<Rightarrow> id list \<Rightarrow> issue \<Rightarrow> issue" where
  "repositioned p n [] i = i"
| "repositioned p n (x # xs) i =
     repositioned p (n + 1) xs (if iss_project_id i = p \<and> iss_id i = x then i\<lparr>iss_board_position := n\<rparr> else i)"

lemma update_rows_map: "update_rows p f = map (\<lambda>r. if p r then f r else r)"
  by (rule ext) (simp add: update_rows_def)

lemma rewrite_from_eq:
  "rewrite_from p n ids d = (r, d') \<longleftrightarrow> r = Inr () \<and> d' = db_issues_update (map (repositioned p n ids)) d"
proof (induction ids arbitrary: n d)
  case Nil then show ?case by (auto simp: tx_return_eq)
next
  case (Cons x xs)
  have "rewrite_from p n (x # xs) d =
      rewrite_from p (n + 1) xs (db_issues_update (map (\<lambda>i. if iss_project_id i = p \<and> iss_id i = x then i\<lparr>iss_board_position := n\<rparr> else i)) d)"
    by (simp add: tx_bind_run set_position_def sql_write_run update_rows_map)
  then show ?case using Cons.IH by (simp add: comp_def)
qed

lemma repositioned_columns [simp]:
  "iss_id (repositioned p n ids i) = iss_id i" "iss_project_id (repositioned p n ids i) = iss_project_id i"
  "iss_status (repositioned p n ids i) = iss_status i"
  by (induction ids arbitrary: n i) auto

lemma repositioned_other:
  "\<not> (iss_project_id i = p \<and> iss_id i \<in> set ids) \<Longrightarrow> repositioned p n ids i = i"
  by (induction ids arbitrary: n) auto

lemma repositioned_position:
  assumes "distinct ids" "k < length ids" "iss_id i = ids ! k" "iss_project_id i = p"
  shows "iss_board_position (repositioned p n ids i) = n + int k"
  using assms
proof (induction ids arbitrary: n k i)
  case (Cons x xs)
  then show ?case
  proof (cases k)
    case 0
    then have "iss_id i \<notin> set xs" using Cons.prems by auto
    then show ?thesis using Cons.prems 0 by (simp add: repositioned_other)
  next
    case (Suc m)
    then have "iss_id i \<noteq> x" using Cons.prems by auto
    then show ?thesis using Cons.IH [of m i "n + 1"] Cons.prems Suc by simp
  qed
qed simp

text \<open>A database whose rows are those of another one, changed one by one.\<close>

lemma column_unchanged:
  assumes "db_issues d' = map g (db_issues d)"
    and "\<And>i. i \<in> set (db_issues d) \<Longrightarrow> in_column p s (g i) = in_column p s i"
    and "\<And>i. i \<in> set (db_issues d) \<Longrightarrow> in_column p s i \<Longrightarrow> g i = i"
  shows "board d' p s = board d p s"
proof -
  have "filter (in_column p s) (map g rows) = filter (in_column p s) rows" if "set rows \<subseteq> set (db_issues d)" for rows
    using that assms(2,3) by (induction rows) auto
  then show ?thesis by (simp add: board_def assms(1))
qed

lemma column_becomes:
  assumes "db_issues d' = map g (db_issues d)" "distinct (map iss_id (db_issues d))"
    and "\<And>i. i \<in> set (db_issues d) \<Longrightarrow> iss_id (g i) = iss_id i"
    and "distinct ids" "set ids = iss_id ` {i \<in> set (db_issues d). in_column p s (g i)}"
    and "\<And>k i. k < length ids \<Longrightarrow> i \<in> set (db_issues d) \<Longrightarrow> in_column p s (g i) \<Longrightarrow> iss_id i = ids ! k \<Longrightarrow>
           iss_board_position (g i) = int k"
  shows "board d' p s = ids"
  unfolding board_def
proof (rule sorted_column)
  have "map iss_id (db_issues d') = map iss_id (db_issues d)" using assms(1,3) by simp
  then show "distinct (map iss_id (filter (in_column p s) (db_issues d')))"
    using assms(2) by (intro distinct_map_filter_rows) simp
  show "set ids = iss_id ` set (filter (in_column p s) (db_issues d'))"
    unfolding assms(1,5) using assms(3) by (force simp: image_iff)
  show "iss_board_position i = int k"
    if "k < length ids" "i \<in> set (filter (in_column p s) (db_issues d'))" "iss_id i = ids ! k" for k i
    using that assms(1,3,6) by auto
qed (rule assms(4))

section \<open>What a mutation changes\<close>

definition same_issues :: "db \<Rightarrow> db \<Rightarrow> bool" where
  "same_issues d d' \<longleftrightarrow> db_issues d' = db_issues d"

interpretation issue_rows: request_frame same_issues
  by unfold_locales
    (auto simp: same_issues_def tx_keeps_def gen_random_uuid_def sql_insert_Inr appendEventTx_Inr next_event_sequence_def tx_simps
      split: option.splits)

lemmas issue_reads = issue_rows.keeps_on_read [THEN keeps_on_keeps]

lemma issues_enqueue: "tx_keeps same_issues (enqueueIssueMutation eng issue key prev assignment path branch)"
  unfolding enqueueIssueMutation_def enqueueAssignedIssue_def create_assigned_run_def Let_def
  by (intro issue_rows.keeps_intros issue_rows.on_workspace [THEN keeps_on_keeps] issue_rows.on_queued_run [THEN keeps_on_keeps]
      read_assignment(4,5) [THEN issue_reads] read_tried [THEN issue_reads])

definition edited :: "issue \<Rightarrow> time \<Rightarrow> issue \<Rightarrow> issue" where
  "edited issue now i =
     (if iss_project_id i = iss_project_id issue \<and> iss_id i = iss_id issue
      then i\<lparr>iss_title := iss_title issue, iss_description := iss_description issue,
             iss_status := iss_status issue, iss_priority := iss_priority issue, iss_updated_at := now\<rparr> else i)"

lemma edited_columns [simp]:
  "iss_id (edited issue now i) = iss_id i" "iss_project_id (edited issue now i) = iss_project_id i"
  "iss_board_position (edited issue now i) = iss_board_position i"
  by (simp_all add: edited_def)

lemma apply_issues:
  assumes "applyIssueMutationTx eng input d = (Inr res, d')"
  shows "db_issues d' = map (edited (imi_issue input) (db_now d)) (db_issues d)"
    "iss_status (imr_issue res) = iss_status (imi_issue input)"
proof -
  obtain updated key d1 run runEvent d2 ev where
    u: "update_issue_row (imi_issue input) d = (Inr (updated, key), d1)" and
    e: "enqueueIssueMutation eng updated key (Some (iss_status (imi_previous input))) False
          (imi_repository_path input) (imi_default_branch input) d1 = (Inr (run, runEvent), d2)" and
    a: "appendEventTx ((NewIssueUpdatedEventWithActor updated (iss_status (imi_previous input)) (imi_actor input))
          \<lparr>evt_run_id := imi_run_id input, evt_agent_id := imi_agent_id input, evt_workspace_id := imi_workspace_id input\<rparr>) d2 = (Inr ev, d')" and
    r: "imr_issue res = updated"
    using assms unfolding applyIssueMutationTx_def by (auto simp: tx_bind_Inr tx_return_eq)
  have "db_issues d' = db_issues d1"
    using tx_keepsD [OF issues_enqueue e] tx_keepsD [OF issue_rows.keeps_append a] by (simp add: same_issues_def)
  then show "db_issues d' = map (edited (imi_issue input) (db_now d)) (db_issues d)"
    using u unfolding update_issue_row_def
    by (auto simp: tx_simps update_rows_def edited_def split: option.splits)
  show "iss_status (imr_issue res) = iss_status (imi_issue input)"
    using u r unfolding update_issue_row_def by (auto simp: tx_simps split: option.splits)
qed

lemma placed_ids:
  assumes "distinct ids" "x \<notin> set ids"
  shows "distinct (insert_at n x ids)" "set (insert_at n x ids) = insert x (set ids)"
proof -
  have "set ids = set (take n ids) \<union> set (drop n ids)" by (metis append_take_drop_id set_append)
  then show "set (insert_at n x ids) = insert x (set ids)" "distinct (insert_at n x ids)"
    using assms distinct_append [of "take n ids" "drop n ids"] by (auto simp: insert_at_def)
qed

text \<open>
  The rows after a move: the Issue has its new status, the destination column is numbered along
  the new list and, when the Issue came from another column, that column without it.
\<close>

definition moved_row :: "id \<Rightarrow> issue \<Rightarrow> time \<Rightarrow> id list \<Rightarrow> id list \<Rightarrow> issue \<Rightarrow> issue" where
  "moved_row p issue now src dst i = edited issue now (repositioned p 0 dst (repositioned p 0 src i))"

lemma board_moved:
  assumes wf: "distinct (map iss_id (db_issues d))" and prev: "prev \<in> set (db_issues d)"
    and issue: "iss_id issue = iss_id prev" "iss_project_id issue = iss_project_id prev" "iss_status issue = t"
    and src: "src = (if iss_status prev = t then [] else filter (\<lambda>y. y \<noteq> iss_id prev) (board d (iss_project_id prev) (iss_status prev)))"
    and dst: "dst = insert_at n (iss_id prev) (filter (\<lambda>y. y \<noteq> iss_id prev) (board d (iss_project_id prev) t))"
    and d': "db_issues d' = map (moved_row (iss_project_id prev) issue now src dst) (db_issues d)"
  shows "board d' (iss_project_id prev) = move_card (board d (iss_project_id prev)) (iss_id prev) t n"
    and "q \<noteq> iss_project_id prev \<Longrightarrow> board d' q = board d q"
proof -
  let ?x = "iss_id prev" and ?p = "iss_project_id prev" and ?g = "moved_row (iss_project_id prev) issue now src dst"
  have same: "i = prev" if "i \<in> set (db_issues d)" "iss_id i = ?x" for i
    using wf prev that by (metis distinct_key_eq)
  have g: "iss_id (?g i) = iss_id i" "iss_project_id (?g i) = iss_project_id i" for i by (simp_all add: moved_row_def)
  have g_status: "iss_status (?g i) = (if i = prev then t else iss_status i)" if "i \<in> set (db_issues d)" for i
    using same [OF that] issue by (auto simp: moved_row_def edited_def)
  have dst_set: "set dst = insert ?x (set (board d ?p t))" and dst_distinct: "distinct dst"
    unfolding dst using placed_ids [of "filter (\<lambda>y. y \<noteq> ?x) (board d ?p t)" ?x n] distinct_column [OF wf, of ?p t] by auto
  have src_distinct: "distinct src" unfolding src using distinct_column [OF wf] by simp
  have one: "a = b" if "a \<in> set (db_issues d)" "b \<in> set (db_issues d)" "iss_id a = iss_id b" for a b
    using wf that by (metis distinct_key_eq)
  have disjoint: "set src \<inter> set dst = {}"
  proof (rule equals0I)
    fix y assume y: "y \<in> set src \<inter> set dst"
    then obtain a where a: "a \<in> set (db_issues d)" "iss_id a = y" "iss_status a \<noteq> t" "y \<noteq> ?x"
      unfolding src by (auto simp: set_column in_column_def split: if_splits)
    then obtain b where b: "b \<in> set (db_issues d)" "iss_id b = y" "iss_status b = t"
      using y unfolding dst_set by (auto simp: set_column in_column_def)
    have "b = a" by (rule one) (simp_all add: a b)
    then show False using a(3) b(3) by simp
  qed
  have rows_t: "{i \<in> set (db_issues d). in_column ?p t (?g i)} = insert prev {i \<in> set (db_issues d). in_column ?p t i}"
    using prev by (auto simp: in_column_def g g_status)
  have rows_s: "{i \<in> set (db_issues d). in_column ?p s (?g i)} = {i \<in> set (db_issues d). in_column ?p s i \<and> i \<noteq> prev}"
    if "s \<noteq> t" for s
    using that by (auto simp: in_column_def g g_status split: if_splits)
  have column_t: "board d' ?p t = dst"
  proof (rule column_becomes [OF d' wf])
    show "set dst = iss_id ` {i \<in> set (db_issues d). in_column ?p t (?g i)}"
      unfolding dst_set set_column rows_t by simp
    fix k i assume k: "k < length dst" "i \<in> set (db_issues d)" "in_column ?p t (?g i)" "iss_id i = dst ! k"
    then show "iss_board_position (?g i) = int k"
      using repositioned_position [OF dst_distinct k(1), of "repositioned ?p 0 src i" ?p 0] by (simp add: moved_row_def g in_column_def)
  qed (auto simp: g dst_distinct)
  have column_s: "board d' ?p s = src" if s: "s = iss_status prev" "s \<noteq> t" for s
  proof (rule column_becomes [OF d' wf])
    show "set src = iss_id ` {i \<in> set (db_issues d). in_column ?p s (?g i)}"
    proof -
      have "set src = {y \<in> set (board d ?p s). y \<noteq> ?x}" using s src by simp
      then show ?thesis unfolding rows_s [OF s(2)] set_column using same by auto
    qed
    fix k i assume k: "k < length src" "i \<in> set (db_issues d)" "in_column ?p s (?g i)" "iss_id i = src ! k"
    then have "iss_id i \<notin> set dst" using disjoint nth_mem by fastforce
    then show "iss_board_position (?g i) = int k"
      using repositioned_position [OF src_distinct k(1,4), of ?p 0] k(3)
      by (simp add: moved_row_def repositioned_other g in_column_def)
  qed (auto simp: g src_distinct)
  have other: "?g i = i" if "i \<in> set (db_issues d)" "\<not> in_column ?p t i" "\<not> in_column ?p (iss_status prev) i" for i
  proof -
    have "i \<noteq> prev" using that(3) by (auto simp: in_column_def)
    then have "iss_id i \<noteq> ?x" using same that(1) by blast
    moreover have "iss_id i \<notin> set (board d ?p u)" if "u = t \<or> u = iss_status prev" for u
      using that \<open>\<not> in_column ?p t i\<close> \<open>\<not> in_column ?p (iss_status prev) i\<close> \<open>i \<in> set (db_issues d)\<close> wf
      by (auto simp: set_column dest: distinct_key_eq)
    ultimately have "iss_id i \<notin> set src" "iss_id i \<notin> set dst" unfolding dst_set src by auto
    then show ?thesis using \<open>iss_id i \<noteq> ?x\<close> issue(1) by (simp add: moved_row_def repositioned_other edited_def)
  qed
  have rest: "board d' q u = board d q u" if "q \<noteq> ?p \<or> u \<noteq> t \<and> u \<noteq> iss_status prev" for q u
  proof (rule column_unchanged [OF d'])
    fix i assume i: "i \<in> set (db_issues d)"
    show "in_column q u (?g i) = in_column q u i"
      using that i g_status [OF i] by (auto simp: in_column_def g)
    show "?g i = i" if "in_column q u i"
      by (rule other [OF i]) (use that \<open>q \<noteq> ?p \<or> u \<noteq> t \<and> u \<noteq> iss_status prev\<close> in \<open>auto simp: in_column_def\<close>)
  qed
  have absent: "filter (\<lambda>y. y \<noteq> ?x) (board d ?p u) = board d ?p u" if "u \<noteq> iss_status prev" for u
    using that same by (auto simp: filter_id_conv set_column in_column_def)
  show "board d' ?p = move_card (board d ?p) ?x t n"
  proof (rule ext)
    fix u
    show "board d' ?p u = move_card (board d ?p) ?x t n u"
      using column_t column_s [of u] rest [of ?p u] absent [of u] src dst by (cases "u = iss_status prev") (auto simp: move_card_def)
  qed
  show "board d' q = board d q" if "q \<noteq> ?p" using rest that by blast
qed

section \<open>Neighbours\<close>

text \<open>The place a client asks for: right behind one card and right before another.\<close>

definition between :: "id list \<Rightarrow> nat \<Rightarrow> id option \<Rightarrow> id option \<Rightarrow> bool" where
  "between ids n before after \<longleftrightarrow>
     (case before of None \<Rightarrow> n = 0 | Some b \<Rightarrow> 0 < n \<and> n \<le> length ids \<and> ids ! (n - 1) = b) \<and>
     (case after of None \<Rightarrow> n = length ids | Some a \<Rightarrow> n < length ids \<and> ids ! n = a)"

lemma neighbour_index_Some:
  "neighbour_index ids b a m = Some n \<Longrightarrow> \<exists>k. n = m + k \<and> Suc k < length ids \<and> ids ! k = b \<and> ids ! Suc k = a"
proof (induction ids b a m rule: neighbour_index.induct)
  case (1 x y ids b a m)
  show ?case
  proof (cases "x = b \<and> y = a")
    case True then show ?thesis using 1(2) by (intro exI [of _ 0]) simp
  next
    case False
    then obtain k where "n = Suc m + k" "Suc k < length (y # ids)" "(y # ids) ! k = b" "(y # ids) ! Suc k = a"
      using 1 by auto
    then show ?thesis by (intro exI [of _ "Suc k"]) simp
  qed
qed auto

lemma neighbour_index_finds:
  "distinct ids \<Longrightarrow> Suc k < length ids \<Longrightarrow> neighbour_index ids (ids ! k) (ids ! Suc k) m = Some (m + k)"
proof (induction ids "ids ! k" "ids ! Suc k" m arbitrary: k rule: neighbour_index.induct)
  case (1 x y ids m)
  then show ?case
  proof (cases k)
    case (Suc j)
    have "(y # ids) ! j \<in> set (y # ids)" using 1(3) Suc by (intro nth_mem) simp
    then have "x \<noteq> (y # ids) ! j" using 1(2) by auto
    then show ?thesis using 1 Suc by simp
  qed simp
qed auto

lemma placement_exact:
  assumes "distinct ids"
  shows "placementIndex ids before after = Some n \<longleftrightarrow> between ids n before after"
proof (cases before)
  case None
  then show ?thesis by (cases ids; cases after) (auto simp: placementIndex_def between_def)
next
  case (Some b)
  show ?thesis
  proof (cases after)
    case None
    then show ?thesis using Some by (cases "ids = []") (auto simp: placementIndex_def between_def last_conv_nth)
  next
    case (Some a)
    have "between ids n before after \<longleftrightarrow> (\<exists>k. n = 1 + k \<and> Suc k < length ids \<and> ids ! k = b \<and> ids ! Suc k = a)"
      unfolding between_def \<open>before = Some b\<close> Some by (cases n) auto
    also have "\<dots> \<longleftrightarrow> neighbour_index ids b a 1 = Some n"
      using neighbour_index_Some [of ids b a 1 n] neighbour_index_finds [OF assms] by auto
    finally show ?thesis using \<open>before = Some b\<close> Some by (simp add: placementIndex_def)
  qed
qed

text \<open>
  C22. The index of a placement is exactly the place between the named neighbours: on a column
  without duplicates, \<open>placementIndex\<close> answers an index if and only if it is the place behind
  \<open>beforeID\<close> and in front of \<open>afterID\<close>, where a missing neighbour stands for the end of
  the column; otherwise, and only then, it reports the conflict.
\<close>

theorem placement_is_exact:
  assumes "distinct ids"
  shows "placementIndex ids before after = Some n \<longleftrightarrow> between ids n before after"
  using assms by (rule placement_exact)

theorem placement_is_exact_witness:
  "distinct [''x'', ''y'', ''z''] \<and> between [''x'', ''y'', ''z''] 2 (Some ''y'') (Some ''z'')"
  using placement_is_exact [of "[''x'', ''y'', ''z'']" "Some ''y''" "Some ''z''" 2] by (simp add: placementIndex_def)

section \<open>Moves refine the board\<close>

lemma repositioned_none [simp]: "map (repositioned p n []) rows = rows"
  by (simp add: map_idI)

lemma lockAssignmentIssue_Inr:
  assumes "lockAssignmentIssue p x d = (Inr (prev, rest), d')"
  shows "d' = d" "prev \<in> set (db_issues d)" "iss_project_id prev = p" "iss_id prev = x"
  using assms by (auto simp: lockAssignmentIssue_def tx_simps dest!: find_Some_in)

lemma place_tx_Inr:
  assumes "place_tx eng input actor d = (Inr res, d')"
  obtains prev t n where "prev \<in> set (db_issues d)" "iss_project_id prev = ipl_project_id input" "iss_id prev = ipl_issue_id input"
    "t = (case ipl_status input of None \<Rightarrow> iss_status prev | Some s \<Rightarrow> s)" "iss_status (imr_issue res) = t"
    "placementIndex (filter (\<lambda>y. y \<noteq> iss_id prev) (board d (iss_project_id prev) t)) (ipl_before_id input) (ipl_after_id input) = Some n"
    "db_issues d' = map (moved_row (iss_project_id prev) (prev\<lparr>iss_status := t\<rparr>) (db_now d)
       (if iss_status prev = t then [] else filter (\<lambda>y. y \<noteq> iss_id prev) (board d (iss_project_id prev) (iss_status prev)))
       (insert_at n (iss_id prev) (filter (\<lambda>y. y \<noteq> iss_id prev) (board d (iss_project_id prev) t)))) (db_issues d)"
proof -
  obtain prev key path branch d0 where lock: "lockAssignmentIssue (ipl_project_id input) (ipl_issue_id input) d = (Inr (prev, key, path, branch), d0)"
    and rest: "(let t = (case ipl_status input of None \<Rightarrow> iss_status prev | Some s \<Rightarrow> s) in
     tx_bind (orderedIssueIDsTx (ipl_project_id input) t (ipl_issue_id input)) (\<lambda>destinationIDs.
     tx_bind (tx_option ErrConflict (placementIndex destinationIDs (ipl_before_id input) (ipl_after_id input))) (\<lambda>index.
     tx_bind (tx_when (iss_status prev \<noteq> t)
                (tx_bind (orderedIssueIDsTx (ipl_project_id input) (iss_status prev) (ipl_issue_id input)) (\<lambda>sourceIDs.
                 rewriteIssuePositionsTx (ipl_project_id input) sourceIDs))) (\<lambda>_.
     tx_bind (rewriteIssuePositionsTx (ipl_project_id input) (insert_at index (ipl_issue_id input) destinationIDs)) (\<lambda>_.
     applyIssueMutationTx eng \<lparr>imi_issue = prev\<lparr>iss_status := t\<rparr>, imi_previous = prev,
       imi_repository_path = path, imi_default_branch = branch, imi_actor = actor,
       imi_run_id = None, imi_agent_id = None, imi_workspace_id = None\<rparr>))))) d0 = (Inr res, d')"
    using assms unfolding place_tx_def by (auto simp: tx_bind_Inr)
  note prev = lockAssignmentIssue_Inr [OF lock]
  define t where "t = (case ipl_status input of None \<Rightarrow> iss_status prev | Some s \<Rightarrow> s)"
  define dst where "dst = filter (\<lambda>y. y \<noteq> iss_id prev) (board d (iss_project_id prev) t)"
  define src where "src = (if iss_status prev = t then [] else filter (\<lambda>y. y \<noteq> iss_id prev) (board d (iss_project_id prev) (iss_status prev)))"
  let ?p = "iss_project_id prev" and ?x = "iss_id prev"
  obtain n d1 d2 where n: "placementIndex dst (ipl_before_id input) (ipl_after_id input) = Some n"
    and d1: "tx_when (iss_status prev \<noteq> t) (tx_bind (orderedIssueIDsTx ?p (iss_status prev) ?x) (\<lambda>sourceIDs.
        rewriteIssuePositionsTx ?p sourceIDs)) d = (Inr (), d1)"
    and d2: "rewriteIssuePositionsTx ?p (insert_at n ?x dst) d1 = (Inr (), d2)"
    and app: "applyIssueMutationTx eng \<lparr>imi_issue = prev\<lparr>iss_status := t\<rparr>, imi_previous = prev,
       imi_repository_path = path, imi_default_branch = branch, imi_actor = actor,
       imi_run_id = None, imi_agent_id = None, imi_workspace_id = None\<rparr> d2 = (Inr res, d')"
    using rest unfolding t_def [symmetric] Let_def prev(1) prev(3,4) [symmetric]
    by (auto simp: tx_bind_Inr [where m = "orderedIssueIDsTx ?p t ?x"] tx_bind_Inr [where m = "tx_option e v" for e v]
        tx_bind_Inr [where m = "tx_when c m" for c m] tx_bind_Inr [where m = "rewriteIssuePositionsTx p xs" for p xs]
        tx_option_Inr ordered_without dst_def [symmetric])
  have issues: "db_issues d1 = map (repositioned ?p 0 src) (db_issues d)" "db_now d1 = db_now d"
      "d2 = db_issues_update (map (repositioned ?p 0 (insert_at n ?x dst))) d1"
    using d1 d2 by (auto simp: tx_bind_Inr tx_when_Inr ordered_without rewriteIssuePositionsTx_def rewrite_from_eq src_def split: if_splits)
  have "db_issues d' = map (moved_row (iss_project_id prev) (prev\<lparr>iss_status := t\<rparr>) (db_now d) src (insert_at n (iss_id prev) dst)) (db_issues d)"
    using apply_issues(1) [OF app] by (simp add: issues moved_row_def comp_def)
  then show ?thesis
    using that [OF prev(2,3,4) t_def _ n [unfolded dst_def]] apply_issues(2) [OF app] by (simp add: dst_def src_def)
qed

text \<open>
  C20. Moving a card implements the abstract board: a successful \<open>PlaceIssue\<close> takes the Issue
  out of its column and puts it between the neighbours the client named, in the column of its new
  status. Every other card keeps its column and its order, and the boards of other projects stay
  as they were.
\<close>

theorem place_refines_board:
  assumes "distinct (map iss_id (db_issues d))" "PlaceIssue eng input actor now d = (Inr res, d')"
  shows "(\<exists>n. board d' (ipl_project_id input) =
        move_card (board d (ipl_project_id input)) (ipl_issue_id input) (iss_status (imr_issue res)) n \<and>
      between (filter (\<lambda>y. y \<noteq> ipl_issue_id input) (board d (ipl_project_id input) (iss_status (imr_issue res)))) n
        (ipl_before_id input) (ipl_after_id input)) \<and>
    (\<forall>status. ipl_status input = Some status \<longrightarrow> iss_status (imr_issue res) = status) \<and>
    (\<forall>q. q \<noteq> ipl_project_id input \<longrightarrow> board d' q = board d q)"
proof -
  have "place_tx eng input actor (d\<lparr>db_now := now\<rparr>) = (Inr res, d')"
    using assms(2) unfolding PlaceIssue_def run_tx_def by (auto split: if_splits simp: tx_simps)
  then show ?thesis
  proof (rule place_tx_Inr)
    fix prev t n
    assume prev: "prev \<in> set (db_issues (d\<lparr>db_now := now\<rparr>))" "iss_project_id prev = ipl_project_id input" "iss_id prev = ipl_issue_id input"
      and t: "t = (case ipl_status input of None \<Rightarrow> iss_status prev | Some s \<Rightarrow> s)" "iss_status (imr_issue res) = t"
      and n: "placementIndex (filter (\<lambda>y. y \<noteq> iss_id prev) (board (d\<lparr>db_now := now\<rparr>) (iss_project_id prev) t))
        (ipl_before_id input) (ipl_after_id input) = Some n"
      and d': "db_issues d' = map (moved_row (iss_project_id prev) (prev\<lparr>iss_status := t\<rparr>) (db_now (d\<lparr>db_now := now\<rparr>))
       (if iss_status prev = t then [] else filter (\<lambda>y. y \<noteq> iss_id prev) (board (d\<lparr>db_now := now\<rparr>) (iss_project_id prev) (iss_status prev)))
       (insert_at n (iss_id prev) (filter (\<lambda>y. y \<noteq> iss_id prev) (board (d\<lparr>db_now := now\<rparr>) (iss_project_id prev) t)))) (db_issues (d\<lparr>db_now := now\<rparr>))"
    have now: "board (d\<lparr>db_now := now\<rparr>) = board d" by (intro ext) (simp add: board_def)
    have moved: "board d' (iss_project_id prev) = move_card (board d (iss_project_id prev)) (iss_id prev) t n"
      "\<And>q. q \<noteq> iss_project_id prev \<Longrightarrow> board d' q = board d q"
      using board_moved [OF _ prev(1) _ _ _ refl refl d', unfolded now] assms(1) by simp_all
    have "between (filter (\<lambda>y. y \<noteq> iss_id prev) (board d (iss_project_id prev) t)) n (ipl_before_id input) (ipl_after_id input)"
      using n placement_exact [OF distinct_filter [OF distinct_column [OF assms(1)]]] unfolding now by blast
    then show ?thesis using moved t(1) unfolding prev(2,3) t(2) by auto
  qed
qed

lemma read_board [read_rules]:
  "tx_keeps_on UNIV (=) (lockIssueStatusRunFence input)"
  "tx_keeps_on UNIV (=) (tx_when c (validateIssueStatusRecoveryFence input f))"
  "tx_keeps_on UNIV (=) (orderedIssueIDsTx p s x)"
proof -
  show "tx_keeps_on UNIV (=) (lockIssueStatusRunFence input)" "tx_keeps_on UNIV (=) (orderedIssueIDsTx p s x)"
    unfolding lockIssueStatusRunFence_def orderedIssueIDsTx_def by (intro read_rules)+
  have "tx_keeps_on UNIV (=) (validateIssueStatusRecoveryFence input f)"
    unfolding validateIssueStatusRecoveryFence_def by (intro read_rules)
  then show "tx_keeps_on UNIV (=) (tx_when c (validateIssueStatusRecoveryFence input f))"
    by (cases c) (auto simp: tx_when_def intro: read_rules)
qed

lemma moved_to_top:
  assumes "moveIssueToStatusTopTx p x s t d = (Inr u, d')" "s \<noteq> t"
  shows "db_issues d' = map (\<lambda>i. repositioned p 0 (insert_at 0 x (filter (\<lambda>y. y \<noteq> x) (board d p t)))
      (repositioned p 0 (filter (\<lambda>y. y \<noteq> x) (board d p s)) i)) (db_issues d)"
    "db_now d' = db_now d"
  using assms by (auto simp: moveIssueToStatusTopTx_def tx_bind_Inr ordered_without rewriteIssuePositionsTx_def rewrite_from_eq
      insert_at_def comp_def simp del: rewrite_from.simps repositioned.simps)

lemma sort_key_map:
  assumes "\<And>i. key (g i) = key i"
  shows "sort_key key (map g rows) = map g (sort_key key rows)"
proof (induction rows)
  case (Cons r rows)
  have "insort_key key (g x) (map g xs) = map g (insort_key key x xs)" for x xs
    by (induction xs) (simp_all add: assms)
  then show ?case using Cons by simp
qed simp

text \<open>A change of status, followed by the edit of the row.\<close>

lemma status_change_board:
  assumes wf: "distinct (map iss_id (db_issues d))"
    and prev: "prev \<in> set (db_issues d)" "iss_id issue = iss_id prev" "iss_project_id issue = iss_project_id prev"
    and move: "tx_when (iss_status issue \<noteq> iss_status prev)
        (moveIssueToStatusTopTx (iss_project_id prev) (iss_id prev) (iss_status prev) (iss_status issue)) d = (Inr (), d1)"
    and d': "db_issues d' = map (edited issue now) (db_issues d1)"
  shows "board d' (iss_project_id prev) = (if iss_status issue = iss_status prev then board d (iss_project_id prev)
      else move_card (board d (iss_project_id prev)) (iss_id prev) (iss_status issue) 0)"
    and "q \<noteq> iss_project_id prev \<Longrightarrow> board d' q = board d q"
proof -
  let ?p = "iss_project_id prev" and ?x = "iss_id prev" and ?t = "iss_status issue"
  have both: "board d' ?p = (if ?t = iss_status prev then board d ?p else move_card (board d ?p) ?x ?t 0) \<and>
      (\<forall>q. q \<noteq> ?p \<longrightarrow> board d' q = board d q)"
  proof (cases "?t = iss_status prev")
    case True
    then have "d1 = d" using move by (simp add: tx_when_Inr)
    then have rows: "db_issues d' = map (edited issue now) (db_issues d)" using d' by simp
    have keys: "board_key (edited issue now i) = board_key i" for i by (simp add: board_key_def edited_def)
    have st: "iss_status (edited issue now i) = iss_status i" if "i \<in> set (db_issues d)" for i
      using wf prev that True by (auto simp: edited_def dest: distinct_key_eq)
    have "board d' q u = board d q u" for q u
    proof -
      have "filter (in_column q u) (db_issues d') = map (edited issue now) (filter (in_column q u) (db_issues d))"
        unfolding rows using st by (auto simp: filter_map comp_def in_column_def intro!: arg_cong [where f = "map (edited issue now)"] filter_cong)
      then show ?thesis by (simp add: board_def sort_key_map [where g = "edited issue now" and key = board_key, OF keys] comp_def)
    qed
    then show ?thesis using True by auto
  next
    case False
    then have "moveIssueToStatusTopTx ?p ?x (iss_status prev) ?t d = (Inr (), d1)" using move by (simp add: tx_when_Inr)
    note top = moved_to_top [OF this not_sym [OF False]]
    have rows: "db_issues d' = map (moved_row ?p issue now (filter (\<lambda>y. y \<noteq> ?x) (board d ?p (iss_status prev)))
        (insert_at 0 ?x (filter (\<lambda>y. y \<noteq> ?x) (board d ?p ?t)))) (db_issues d)"
      using d' top(1) by (simp add: moved_row_def comp_def)
    have src: "filter (\<lambda>y. y \<noteq> ?x) (board d ?p (iss_status prev)) =
        (if iss_status prev = ?t then [] else filter (\<lambda>y. y \<noteq> ?x) (board d ?p (iss_status prev)))" using False by simp
    show ?thesis
      using board_moved [OF wf prev(1,2,3) refl src refl rows] False by simp
  qed
  then show "board d' ?p = (if ?t = iss_status prev then board d ?p else move_card (board d ?p) ?x ?t 0)" by blast
  show "q \<noteq> ?p \<Longrightarrow> board d' q = board d q" using both by blast
qed

text \<open>A transaction that leaves the Issue as it is, or moves and edits it.\<close>

definition edits_issue :: "issue \<Rightarrow> issue_mutation_result \<Rightarrow> db \<Rightarrow> db \<Rightarrow> bool" where
  "edits_issue prev res d d' \<longleftrightarrow> d' = d \<and> imr_issue res = prev \<or>
     (\<exists>issue d1 t. iss_id issue = iss_id prev \<and> iss_project_id issue = iss_project_id prev \<and>
        iss_status (imr_issue res) = iss_status issue \<and>
        tx_when (iss_status issue \<noteq> iss_status prev)
          (moveIssueToStatusTopTx (iss_project_id prev) (iss_id prev) (iss_status prev) (iss_status issue)) d = (Inr (), d1) \<and>
        db_issues d' = map (edited issue t) (db_issues d1))"

lemma edits_issueI:
  assumes "tx_when (iss_status issue \<noteq> iss_status prev)
      (moveIssueToStatusTopTx (iss_project_id prev) (iss_id prev) (iss_status prev) (iss_status issue)) d = (Inr (), d1)"
    and "applyIssueMutationTx eng input d1 = (Inr res, d')" "imi_issue input = issue"
    and "iss_id issue = iss_id prev" "iss_project_id issue = iss_project_id prev"
  shows "edits_issue prev res d d'"
  unfolding edits_issue_def using assms(1,3-) apply_issues [OF assms(2)] by blast

lemma edits_board:
  assumes "edits_issue prev res d d'" "distinct (map iss_id (db_issues d))" "prev \<in> set (db_issues d)"
  shows "board d' (iss_project_id prev) =
      (if iss_status (imr_issue res) = iss_status prev then board d (iss_project_id prev)
       else move_card (board d (iss_project_id prev)) (iss_id prev) (iss_status (imr_issue res)) 0)"
    and "q \<noteq> iss_project_id prev \<Longrightarrow> board d' q = board d q"
proof -
  have "board d' (iss_project_id prev) =
      (if iss_status (imr_issue res) = iss_status prev then board d (iss_project_id prev)
       else move_card (board d (iss_project_id prev)) (iss_id prev) (iss_status (imr_issue res)) 0) \<and>
      (\<forall>q. q \<noteq> iss_project_id prev \<longrightarrow> board d' q = board d q)"
    using assms(1) unfolding edits_issue_def
  proof (elim disjE exE conjE)
    fix issue d1 t assume "iss_id issue = iss_id prev" "iss_project_id issue = iss_project_id prev"
      and st: "iss_status (imr_issue res) = iss_status issue"
      and "tx_when (iss_status issue \<noteq> iss_status prev)
          (moveIssueToStatusTopTx (iss_project_id prev) (iss_id prev) (iss_status prev) (iss_status issue)) d = (Inr (), d1)"
        "db_issues d' = map (edited issue t) (db_issues d1)"
    from status_change_board [OF assms(2,3) this(1,2,4,5)] show ?thesis unfolding st by blast
  qed simp
  then show "board d' (iss_project_id prev) =
      (if iss_status (imr_issue res) = iss_status prev then board d (iss_project_id prev)
       else move_card (board d (iss_project_id prev)) (iss_id prev) (iss_status (imr_issue res)) 0)"
    "q \<noteq> iss_project_id prev \<Longrightarrow> board d' q = board d q" by blast+
qed

lemma locked_issue:
  assumes "lockAssignmentIssue (iss_project_id prev) (iss_id prev) d = (Inr (p', rest), d0)"
    and "distinct (map iss_id (db_issues d))" "prev \<in> set (db_issues d)"
  shows "p' = prev" "d0 = d"
  using lockAssignmentIssue_Inr [OF assms(1)] assms(2,3) by (auto intro: distinct_key_eq)

lemma set_status_edits:
  assumes "set_status_tx eng input d = (Inr res, d')" "distinct (map iss_id (db_issues d))" "prev \<in> set (db_issues d)"
    and "ism_project_id input = iss_project_id prev" "ism_issue_id input = iss_id prev"
  shows "edits_issue prev res d d'"
proof -
  obtain f d0 p' rest d1 d2 path branch where
    fence: "lockIssueStatusRunFence input d = (Inr f, d0)" and
    lock: "lockAssignmentIssue (iss_project_id prev) (iss_id prev) d0 = (Inr (p', rest), d1)" and
    rec: "tx_when (ism_recovery input) (validateIssueStatusRecoveryFence input f) d1 = (Inr (), d2)" and
    step: "(if iss_status p' = ism_status input then tx_return \<lparr>imr_issue = p', imr_events = []\<rparr>
     else tx_bind (moveIssueToStatusTopTx (iss_project_id prev) (iss_id prev) (iss_status p') (ism_status input)) (\<lambda>_.
       applyIssueMutationTx eng \<lparr>imi_issue = p'\<lparr>iss_status := ism_status input\<rparr>, imi_previous = p',
       imi_repository_path = path, imi_default_branch = branch, imi_actor = ism_actor input,
       imi_run_id = ism_run_id input, imi_agent_id = ism_agent_id input, imi_workspace_id = ism_workspace_id input\<rparr>)) d2 = (Inr res, d')"
    using assms(1) unfolding set_status_tx_def assms(4,5) by (auto simp: tx_bind_Inr)
  have d: "d0 = d" "d2 = d1"
    using read_state [OF read_board(1) fence] read_state [OF read_board(2) rec] by simp_all
  note p' = locked_issue [OF lock [unfolded d] assms(2,3)]
  show ?thesis
  proof (cases "iss_status prev = ism_status input")
    case True then show ?thesis using step p' d by (simp add: tx_return_eq edits_issue_def)
  next
    case False
    then obtain d3 where "moveIssueToStatusTopTx (iss_project_id prev) (iss_id prev) (iss_status prev) (ism_status input) d = (Inr (), d3)"
      "applyIssueMutationTx eng \<lparr>imi_issue = prev\<lparr>iss_status := ism_status input\<rparr>, imi_previous = prev,
         imi_repository_path = path, imi_default_branch = branch, imi_actor = ism_actor input,
         imi_run_id = ism_run_id input, imi_agent_id = ism_agent_id input, imi_workspace_id = ism_workspace_id input\<rparr> d3 = (Inr res, d')"
      using step unfolding p' d by (auto simp: tx_bind_Inr)
    then show ?thesis using False by (intro edits_issueI [of "prev\<lparr>iss_status := ism_status input\<rparr>"]) (auto simp: tx_when_Inr)
  qed
qed

lemma patch_edits:
  assumes "patch_tx eng patch actor d = (Inr res, d')" "distinct (map iss_id (db_issues d))" "prev \<in> set (db_issues d)"
    and "ipt_project_id patch = iss_project_id prev" "ipt_id patch = iss_id prev"
  shows "edits_issue prev res d d'"
proof -
  obtain p' rest d1 path branch where
    lock: "lockAssignmentIssue (iss_project_id prev) (iss_id prev) d = (Inr (p', rest), d1)" and
    step: "(if iss_title (patched patch p') = iss_title p' \<and> iss_description (patched patch p') = iss_description p' \<and>
      iss_status (patched patch p') = iss_status p' \<and> iss_priority (patched patch p') = iss_priority p'
     then tx_return \<lparr>imr_issue = p', imr_events = []\<rparr>
     else tx_bind (tx_when (iss_status (patched patch p') \<noteq> iss_status p')
         (moveIssueToStatusTopTx (iss_project_id prev) (iss_id prev) (iss_status p') (iss_status (patched patch p')))) (\<lambda>_.
       applyIssueMutationTx eng \<lparr>imi_issue = patched patch p', imi_previous = p',
       imi_repository_path = path, imi_default_branch = branch, imi_actor = actor,
       imi_run_id = None, imi_agent_id = None, imi_workspace_id = None\<rparr>)) d1 = (Inr res, d')"
    using assms(1) unfolding patch_tx_def assms(4,5) by (auto simp: tx_bind_Inr Let_def)
  note p' = locked_issue [OF lock assms(2,3)]
  show ?thesis
  proof (cases "res = \<lparr>imr_issue = prev, imr_events = []\<rparr> \<and> d' = d")
    case True then show ?thesis by (simp add: edits_issue_def)
  next
    case False
    then obtain d3 where "tx_when (iss_status (patched patch prev) \<noteq> iss_status prev)
         (moveIssueToStatusTopTx (iss_project_id prev) (iss_id prev) (iss_status prev) (iss_status (patched patch prev))) d = (Inr (), d3)"
      "applyIssueMutationTx eng \<lparr>imi_issue = patched patch prev, imi_previous = prev,
         imi_repository_path = path, imi_default_branch = branch, imi_actor = actor,
         imi_run_id = None, imi_agent_id = None, imi_workspace_id = None\<rparr> d3 = (Inr res, d')"
      using step unfolding p' by (auto simp: tx_bind_Inr tx_return_eq split: if_splits)
    then show ?thesis by (rule edits_issueI) (simp_all add: patched_def)
  qed
qed

text \<open>
  C21. A change of status puts the card on top of its new column: when \<open>SetIssueStatus\<close> or a
  patch succeeds, the board of the project is the old one with the Issue moved to the top of the
  column of its status, and the very same board when the status did not change. The boards of other
  projects stay as they were.
\<close>

theorem status_refines_board:
  assumes "distinct (map iss_id (db_issues d))" "prev \<in> set (db_issues d)"
    and "(\<exists>input. SetIssueStatus eng input now d = (Inr res, d') \<and>
            ism_project_id input = iss_project_id prev \<and> ism_issue_id input = iss_id prev) \<or>
         (\<exists>patch actor. UpdateIssuePatchMutation eng patch actor now d = (Inr res, d') \<and>
            ipt_project_id patch = iss_project_id prev \<and> ipt_id patch = iss_id prev)"
  shows "board d' (iss_project_id prev) =
      (if iss_status (imr_issue res) = iss_status prev then board d (iss_project_id prev)
       else move_card (board d (iss_project_id prev)) (iss_id prev) (iss_status (imr_issue res)) 0) \<and>
    (\<forall>q. q \<noteq> iss_project_id prev \<longrightarrow> board d' q = board d q)"
proof -
  let ?d = "d\<lparr>db_now := now\<rparr>"
  have now: "board ?d = board d" by (intro ext) (simp add: board_def)
  have wf: "distinct (map iss_id (db_issues ?d))" "prev \<in> set (db_issues ?d)" using assms(1,2) by simp_all
  have "edits_issue prev res ?d d'"
    using assms(3) unfolding SetIssueStatus_def UpdateIssuePatchMutation_def run_tx_def
    by (auto split: if_splits simp: tx_simps intro: set_status_edits [OF _ wf] patch_edits [OF _ wf])
  from edits_board [OF this wf] show ?thesis unfolding now by blast
qed

text \<open>
  C23. A recovered status is not stale: when a status found in the history of an Engine after a
  restart is applied, the Run that reported it is RUNNING on the Issue under the given Agent and
  Workspace, and since it started no other decision on the Issue has been recorded. Otherwise
  nothing changes.
\<close>

theorem recovery_is_fenced:
  assumes "ism_recovery input" "SetIssueStatus eng input now d = (r, d')"
  shows "(\<exists>res. r = Inr res \<and> (\<exists>run\<in>set (db_runs d). \<exists>started. ism_run_id input = Some (run_id run) \<and>
      run_status run = RUN_RUNNING \<and> run_issue_id run = ism_issue_id input \<and> run_agent_id run = ism_agent_id input \<and>
      Some (run_workspace_id run) = ism_workspace_id input \<and> run_started_at run = Some started \<and>
      (\<forall>e\<in>set (db_events d). \<not> supersedes d input started e))) \<or> (\<exists>e. r = Inl e) \<and> d' = d"
proof (cases r)
  case (Inl e)
  then show ?thesis using assms(2) unfolding SetIssueStatus_def by (auto split: if_splits simp: run_tx_Inl)
next
  case (Inr res)
  have json: "json_text (d\<lparr>db_now := now\<rparr>) = json_text d" by (intro ext) (simp add: json_text_def split: option.splits json.splits)
  have "set_status_tx eng input (d\<lparr>db_now := now\<rparr>) = (Inr res, d')"
    using assms(2) Inr unfolding SetIssueStatus_def run_tx_def by (auto split: if_splits simp: tx_simps)
  then obtain f d0 p' rest d1 d2 where
    fence: "lockIssueStatusRunFence input (d\<lparr>db_now := now\<rparr>) = (Inr f, d0)" and
    lock: "lockAssignmentIssue (ism_project_id input) (ism_issue_id input) d0 = (Inr (p', rest), d1)" and
    rec: "validateIssueStatusRecoveryFence input f d1 = (Inr (), d2)"
    using assms(1) unfolding set_status_tx_def by (auto simp: tx_bind_Inr tx_when_Inr)
  have d: "d0 = d\<lparr>db_now := now\<rparr>" "d1 = d\<lparr>db_now := now\<rparr>"
    using read_state [OF read_board(1) fence] lockAssignmentIssue_Inr(1) [OF lock] by simp_all
  obtain run where "f = Some run" "run \<in> set (db_runs d)" "ism_run_id input = Some (run_id run)" "run_status run = RUN_RUNNING"
    "run_issue_id run = ism_issue_id input" "run_agent_id run = ism_agent_id input" "Some (run_workspace_id run) = ism_workspace_id input"
    using fence rec unfolding lockIssueStatusRunFence_def validateIssueStatusRecoveryFence_def find_run_def
    by (auto simp: tx_simps split: option.splits if_splits dest!: find_Some_in)
  moreover obtain started where "run_started_at run = Some started" "\<forall>e\<in>set (db_events d). \<not> supersedes d input started e"
    using rec \<open>f = Some run\<close> unfolding validateIssueStatusRecoveryFence_def d
    by (auto simp: tx_simps supersedes_def json split: option.splits if_splits)
  ultimately show ?thesis using Inr by blast
qed

section \<open>Frames\<close>

lemmas [quiet_rules] = read_board [THEN quiet_reads_only]

lemmas [history_rules] = read_board [THEN history_reads_only]

lemma quiet_rewrite [quiet_rules]: "tx_keeps quiet (rewrite_from p n ids)"
  by (induction ids arbitrary: n) (auto simp: set_position_def intro!: quiet_rules)

lemma history_rewrite [history_rules]: "tx_keeps history (rewrite_from p n ids)"
  by (induction ids arbitrary: n) (auto simp: set_position_def intro!: history_rules)

lemma quiet_board [quiet_rules]:
  "tx_keeps quiet (newIssueBoardPosition p s placement)" "tx_keeps quiet (moveIssueToStatusTopTx p x s t)"
  "tx_keeps quiet (applyIssueMutationTx eng input)" "tx_keeps quiet (place_tx eng placement_input actor)"
  "tx_keeps quiet (set_status_tx eng status_input)" "tx_keeps quiet (patch_tx eng patch actor)"
proof -
  show top: "tx_keeps quiet (moveIssueToStatusTopTx p x s t)" for p x s t
    unfolding moveIssueToStatusTopTx_def rewriteIssuePositionsTx_def by (intro quiet_rules)
  show app: "tx_keeps quiet (applyIssueMutationTx eng input)" for input
    unfolding applyIssueMutationTx_def update_issue_row_def by (intro quiet_rules)
  show "tx_keeps quiet (newIssueBoardPosition p s placement)" "tx_keeps quiet (place_tx eng placement_input actor)"
    "tx_keeps quiet (set_status_tx eng status_input)" "tx_keeps quiet (patch_tx eng patch actor)"
    unfolding newIssueBoardPosition_def place_tx_def set_status_tx_def patch_tx_def rewriteIssuePositionsTx_def Let_def
    by (intro quiet_rules top app)+
qed

lemma history_board [history_rules]:
  "tx_keeps history (newIssueBoardPosition p s placement)" "tx_keeps history (moveIssueToStatusTopTx p x s t)"
  "tx_keeps history (applyIssueMutationTx eng input)" "tx_keeps history (place_tx eng placement_input actor)"
  "tx_keeps history (set_status_tx eng status_input)" "tx_keeps history (patch_tx eng patch actor)"
proof -
  show top: "tx_keeps history (moveIssueToStatusTopTx p x s t)" for p x s t
    unfolding moveIssueToStatusTopTx_def rewriteIssuePositionsTx_def by (intro history_rules)
  show app: "tx_keeps history (applyIssueMutationTx eng input)" for input
    unfolding applyIssueMutationTx_def update_issue_row_def by (intro history_rules)
  show "tx_keeps history (newIssueBoardPosition p s placement)" "tx_keeps history (place_tx eng placement_input actor)"
    "tx_keeps history (set_status_tx eng status_input)" "tx_keeps history (patch_tx eng patch actor)"
    unfolding newIssueBoardPosition_def place_tx_def set_status_tx_def patch_tx_def rewriteIssuePositionsTx_def Let_def
    by (intro history_rules top app)+
qed

lemma board_quiet:
  "PlaceIssue eng placement_input actor now d = (r1, d') \<Longrightarrow> quiet d d'"
  "SetIssueStatus eng status_input now d = (r2, d') \<Longrightarrow> quiet d d'"
  "UpdateIssuePatchMutation eng patch actor now d = (r3, d') \<Longrightarrow> quiet d d'"
  unfolding PlaceIssue_def SetIssueStatus_def UpdateIssuePatchMutation_def
  by (auto split: if_splits option.splits intro: quiet.refl elim!: quiet.keeps_run_tx [rotated] intro!: quiet_rules)

lemma board_history:
  "PlaceIssue eng placement_input actor now d = (r1, d') \<Longrightarrow> history d d'"
  "SetIssueStatus eng status_input now d = (r2, d') \<Longrightarrow> history d d'"
  "UpdateIssuePatchMutation eng patch actor now d = (r3, d') \<Longrightarrow> history d d'"
  unfolding PlaceIssue_def SetIssueStatus_def UpdateIssuePatchMutation_def
  by (auto split: if_splits option.splits intro: history.refl elim!: history.keeps_run_tx [rotated] intro!: history_rules)

section \<open>The board of the sample\<close>

text \<open>A second Issue that is done already.\<close>

definition sample_board :: db where
  "sample_board = sample_queued\<lparr>db_issues := db_issues sample_queued @ [(hd (db_issues sample_queued))
     \<lparr>iss_id := ''i2'', iss_number := 2, iss_status := ISS_DONE, iss_board_position := 7\<rparr>],
     db_runs := [(sample_run ''r1'' 1 RUN_RUNNING)\<lparr>run_started_at := Some 20\<rparr>]\<rparr>"

lemmas board_run = tx_run PlaceIssue_def place_tx_def SetIssueStatus_def set_status_tx_def lockIssueStatusRunFence_def find_run_def
  validateIssueStatusRecoveryFence_def lockAssignmentIssue_def placementIndex_def ValidIssueStatus_def orderedIssueIDsTx_def
  in_column_def board_key_def rewriteIssuePositionsTx_def set_position_def insert_at_def moveIssueToStatusTopTx_def
  applyIssueMutationTx_def update_issue_row_def issue_check_def enqueueIssueMutation_def ShouldAutoEnqueueIssue_def
  NewIssueUpdatedEventWithActor_def newIssueMutationEvent_def appendEventTx_def validateEventReferences_def
  event_references_valid_def next_event_sequence_def appended_event_def event_unique_def event_check_def zero_event_def
  EmptyObject_def objectJSON_def is_object_def visible_to_def

definition sample_placement :: issue_placement where
  "sample_placement = \<lparr>ipl_project_id = ''p1'', ipl_issue_id = ''i1'', ipl_status = Some ISS_DONE,
     ipl_before_id = Some ''i2'', ipl_after_id = None\<rparr>"

definition sample_status :: issue_status_mutation where
  "sample_status = \<lparr>ism_project_id = ''p1'', ism_issue_id = ''i1'', ism_status = ISS_DONE, ism_actor = JNull,
     ism_run_id = Some ''r1'', ism_agent_id = Some ''a1'', ism_workspace_id = Some ''w1'', ism_recovery = True\<rparr>"

lemma sample_board_rows:
  "distinct (map iss_id (db_issues sample_board))" "board sample_board ''p1'' ISS_DONE = [''i2'']"
  by (simp_all add: sample_board_def sample_eval board_def in_column_def board_key_def)

theorem place_refines_board_witness:
  "\<exists>res d'. PlaceIssue None sample_placement JNull 90 sample_board = (Inr res, d') \<and> board d' ''p1'' ISS_DONE = [''i2'', ''i1'']"
proof -
  have title: "btrim ''Title'' \<noteq> []" by code_simp
  have "\<exists>res d'. PlaceIssue None sample_placement JNull 90 sample_board = (Inr res, d')"
    using title by (simp add: board_run sample_eval sample_board_def sample_placement_def)
  then obtain res d' where run: "PlaceIssue None sample_placement JNull 90 sample_board = (Inr res, d')" by blast
  note place_refines_board [OF sample_board_rows(1) run]
  then have "board d' ''p1'' ISS_DONE = [''i2'', ''i1'']"
    using sample_board_rows(2) by (auto simp: sample_placement_def move_card_def between_def insert_at_def)
  then show ?thesis using run by blast
qed

lemma sample_recovered:
  obtains res d' where "SetIssueStatus None sample_status 90 sample_board = (Inr res, d')" "iss_status (imr_issue res) = ISS_DONE"
proof -
  have title: "btrim ''Title'' \<noteq> []" by code_simp
  have "\<exists>res d'. SetIssueStatus None sample_status 90 sample_board = (Inr res, d') \<and> iss_status (imr_issue res) = ISS_DONE"
    using title by (simp add: board_run sample_eval sample_board_def sample_status_def)
  then show ?thesis using that by blast
qed

theorem status_refines_board_witness:
  "\<exists>res d'. SetIssueStatus None sample_status 90 sample_board = (Inr res, d') \<and> board d' ''p1'' ISS_DONE = [''i1'', ''i2'']"
proof (rule sample_recovered)
  fix res d' assume run: "SetIssueStatus None sample_status 90 sample_board = (Inr res, d')" "iss_status (imr_issue res) = ISS_DONE"
  define prev where "prev = hd (db_issues sample_board)"
  have prev: "prev \<in> set (db_issues sample_board)" "iss_project_id prev = ''p1''" "iss_id prev = ''i1''" "iss_status prev = ISS_TODO"
    by (simp_all add: prev_def sample_board_def sample_eval)
  have "\<exists>input. SetIssueStatus None input 90 sample_board = (Inr res, d') \<and>
      ism_project_id input = iss_project_id prev \<and> ism_issue_id input = iss_id prev"
    using run(1) prev by (intro exI [of _ sample_status]) (simp add: sample_status_def)
  from status_refines_board [OF sample_board_rows(1) prev(1) disjI1, OF this]
  have "board d' ''p1'' ISS_DONE = [''i1'', ''i2'']"
    using prev run(2) sample_board_rows(2) by (simp add: move_card_def insert_at_def)
  then show ?thesis using run(1) by blast
qed

theorem recovery_is_fenced_witness:
  "\<exists>res d'. SetIssueStatus None sample_status 90 sample_board = (Inr res, d') \<and>
     (\<exists>run\<in>set (db_runs sample_board). run_status run = RUN_RUNNING)"
proof (rule sample_recovered)
  fix res d' assume run: "SetIssueStatus None sample_status 90 sample_board = (Inr res, d')"
  have "ism_recovery sample_status" by (simp add: sample_status_def)
  from recovery_is_fenced [OF this run] show ?thesis using run by blast
qed

end
