(* ===== verification/Issue_Execution.thy ===== *)
theory Issue_Execution
  imports Board
begin

text \<open>
  Starting and reconciling the execution of Issues (store/postgres/issue_execution.go,
  store/issue_execution.go): the state a client sees before it starts an Issue, the start itself,
  and the reconciliation that enqueues every Issue whose Agent has become runnable. The name of an
  execution Agent is a read model and left out.
\<close>

section \<open>Candidates\<close>

record issue_execution_filter =
  ief_project_id :: string
  ief_agent_id :: string
  ief_squad_id :: string
  ief_model_profile_id :: string
  ief_provider_id :: string

record issue_execution_candidate =
  iec_project_id :: id
  iec_issue_id :: id
  iec_agent_id :: id

definition executionAgentMatchesFilter :: "id \<Rightarrow> id \<Rightarrow> issue_execution_filter \<Rightarrow> (db, bool) tx" where
  "executionAgentMatchesFilter projectID agentID filt =
     (if ief_model_profile_id filt = [] \<and> ief_provider_id filt = [] then tx_return True
      else tx_get (\<lambda>d.
        case List.find (\<lambda>a. agt_id a = agentID \<and> visible_to (agt_project_id a) projectID) (db_agents d) of
          None \<Rightarrow> False
        | Some a \<Rightarrow>
            (case List.find (\<lambda>m. mdl_id m = agt_model_profile_id a \<and> visible_to (mdl_project_id m) projectID)
                    (db_model_profiles d) of
               None \<Rightarrow> False
             | Some m \<Rightarrow>
                 \<not> (ief_model_profile_id filt \<noteq> [] \<and> agt_model_profile_id a \<noteq> ief_model_profile_id filt) \<and>
                 \<not> (ief_provider_id filt \<noteq> [] \<and> mdl_provider_id m \<noteq> ief_provider_id filt))))"

definition owned_by_filter :: "issue_execution_filter \<Rightarrow> issue \<Rightarrow> bool" where
  "owned_by_filter filt i \<longleftrightarrow>
     (ief_project_id filt = [] \<or> iss_project_id i = ief_project_id filt) \<and>
     (ief_squad_id filt = [] \<or> iss_assignee_type i = Some ''SQUAD'' \<and> iss_assignee_id i = Some (ief_squad_id filt)) \<and>
     (iss_assignee_type i = Some ''AGENT'' \<or> iss_assignee_type i = Some ''SQUAD'') \<and>
     iss_assignee_id i \<noteq> None \<and> iss_status i \<noteq> ISS_BACKLOG"

definition candidate_of_owner :: "issue_execution_filter \<Rightarrow> issue \<Rightarrow> (db, issue_execution_candidate list) tx" where
  "candidate_of_owner filt owner =
     tx_bind (resolveIssueExecutionAgent owner) (\<lambda>agent.
     case agent of
       None \<Rightarrow> tx_return []
     | Some agentID \<Rightarrow>
         if ief_agent_id filt \<noteq> [] \<and> agentID \<noteq> ief_agent_id filt then tx_return []
         else
           tx_bind (executionAgentMatchesFilter (iss_project_id owner) agentID filt) (\<lambda>matches.
           tx_return (if matches then [\<lparr>iec_project_id = iss_project_id owner, iec_issue_id = iss_id owner,
                                        iec_agent_id = agentID\<rparr>] else [])))"

definition resolvedIssueExecutionCandidates :: "issue_execution_filter \<Rightarrow> (db, issue_execution_candidate list) tx" where
  "resolvedIssueExecutionCandidates filt =
     tx_bind (tx_get (\<lambda>d. sort_key (\<lambda>i. (iss_project_id i, iss_id i)) (filter (owned_by_filter filt) (db_issues d)))) (\<lambda>owners.
     tx_bind (tx_map (candidate_of_owner filt) owners) (\<lambda>found.
     tx_return (concat found)))"

section \<open>The state before a start\<close>

datatype issue_execution = IssueExecutionBacklog | IssueExecutionNotAgentOwned | IssueExecutionConfigurationUnavailable
  | IssueExecutionActive | IssueExecutionReady

record issue_execution_state =
  ies_state :: issue_execution
  ies_can_start :: bool
  ies_execution_agent :: "id option"
  ies_active_run :: "run option"

definition issueExecutionAgentIdentity :: "id \<Rightarrow> id \<Rightarrow> (db, id option) tx" where
  "issueExecutionAgentIdentity projectID agentID = tx_get (\<lambda>d.
     map_option agt_id (List.find (\<lambda>a. agt_id a = agentID \<and> visible_to (agt_project_id a) projectID) (db_agents d)))"

definition execution_state_of_agent :: "(string \<Rightarrow> bool) option \<Rightarrow> id \<Rightarrow> id \<Rightarrow> id \<Rightarrow> (db, issue_execution_state) tx" where
  "execution_state_of_agent engineRegistered projectID issueID agentID =
     tx_bind (issueExecutionAgentIdentity projectID agentID) (\<lambda>executionAgent.
     tx_bind (tx_try (activeRunForAgent projectID issueID agentID)) (\<lambda>active.
     case active of
       Inr run \<Rightarrow> tx_return \<lparr>ies_state = IssueExecutionActive, ies_can_start = False,
                    ies_execution_agent = executionAgent, ies_active_run = Some run\<rparr>
     | Inl e \<Rightarrow>
         if e \<noteq> ErrNotFound then tx_fail e
         else
           tx_bind (tx_try (verifyRunnableAgent engineRegistered projectID agentID)) (\<lambda>runnable.
           case runnable of
             Inl e \<Rightarrow> if e = ErrConflict \<or> e = ErrNotFound
                      then tx_return \<lparr>ies_state = IssueExecutionConfigurationUnavailable, ies_can_start = False,
                             ies_execution_agent = executionAgent, ies_active_run = None\<rparr>
                      else tx_fail e
           | Inr _ \<Rightarrow> tx_return \<lparr>ies_state = IssueExecutionReady, ies_can_start = True,
                        ies_execution_agent = executionAgent, ies_active_run = None\<rparr>)))"

definition idle_state :: "issue_execution \<Rightarrow> issue_execution_state" where
  "idle_state st = \<lparr>ies_state = st, ies_can_start = False, ies_execution_agent = None, ies_active_run = None\<rparr>"

definition GetIssueExecutionState :: "(string \<Rightarrow> bool) option \<Rightarrow> id \<Rightarrow> id \<Rightarrow> (db, issue_execution_state) tx" where
  "GetIssueExecutionState engineRegistered projectID issueID =
     tx_bind (sql_find db_issues (\<lambda>d i. iss_project_id i = projectID \<and> iss_id i = issueID)) (\<lambda>issue.
     if iss_status issue = ISS_BACKLOG then tx_return (idle_state IssueExecutionBacklog)
     else
       tx_bind (resolveIssueExecutionAgent issue) (\<lambda>agent.
       case agent of
         None \<Rightarrow> tx_return (idle_state IssueExecutionNotAgentOwned)
       | Some agentID \<Rightarrow> execution_state_of_agent engineRegistered projectID issueID agentID))"

section \<open>Starting\<close>

definition refused :: "bool \<Rightarrow> (db, run option \<times> event option) tx" where
  "refused strict = (if strict then tx_fail ErrConflict else tx_return (None, None))"

definition enqueue_current_tx :: "(string \<Rightarrow> bool) option \<Rightarrow> id \<Rightarrow> id \<Rightarrow> id \<Rightarrow> bool \<Rightarrow> (db, run option \<times> event option) tx" where
  "enqueue_current_tx engineRegistered projectID issueID expectedAgentID strict =
     tx_bind (lockAssignmentIssue projectID issueID) (\<lambda>(issue, issueKey, path, branch).
     let kind = (case iss_assignee_type issue of None \<Rightarrow> [] | Some ty \<Rightarrow> ty) in
     if \<not> ShouldAutoEnqueueIssue (Some (iss_status issue)) (iss_status issue) kind True \<or> iss_assignee_id issue = None
     then refused strict
     else
       tx_bind (resolveIssueExecutionAgent issue) (\<lambda>agent.
       case agent of
         None \<Rightarrow> refused strict
       | Some agentID \<Rightarrow>
           if expectedAgentID \<noteq> [] \<and> agentID \<noteq> expectedAgentID then refused strict
           else enqueueAssignedIssue engineRegistered issue issueKey agentID path branch strict))"

definition enqueueCurrentIssue :: "(string \<Rightarrow> bool) option \<Rightarrow> id \<Rightarrow> id \<Rightarrow> id \<Rightarrow> bool \<Rightarrow> time \<Rightarrow> db \<Rightarrow>
   (store_error + run option \<times> event option) \<times> db" where
  "enqueueCurrentIssue engineRegistered projectID issueID expectedAgentID strict now d =
     run_tx now (enqueue_current_tx engineRegistered projectID issueID expectedAgentID strict) d"

definition StartIssueRun :: "(string \<Rightarrow> bool) option \<Rightarrow> id \<Rightarrow> id \<Rightarrow> time \<Rightarrow> db \<Rightarrow>
   (store_error + run option \<times> event option) \<times> db" where
  "StartIssueRun engineRegistered projectID issueID now d =
     enqueueCurrentIssue engineRegistered projectID issueID [] True now d"

section \<open>Reconciliation\<close>

text \<open>
  The loop over the candidates, one transaction each: the Events it created and the errors it
  collected. \<open>now\<close> gives the time of every transaction.
\<close>

fun reconcile_candidates :: "(string \<Rightarrow> bool) option \<Rightarrow> (nat \<Rightarrow> time) \<Rightarrow> issue_execution_candidate list \<Rightarrow> db \<Rightarrow>
   (event list \<times> store_error list) \<times> db" where
  "reconcile_candidates engineRegistered now [] d = (([], []), d)"
| "reconcile_candidates engineRegistered now (c # cs) d =
     (let (r, d1) = enqueueCurrentIssue engineRegistered (iec_project_id c) (iec_issue_id c) (iec_agent_id c) False (now 0) d;
          ((events, failures), d2) = reconcile_candidates engineRegistered (\<lambda>n. now (Suc n)) cs d1
      in case r of
           Inl e \<Rightarrow> ((events, if e = ErrNotFound then failures else e # failures), d2)
         | Inr (_, None) \<Rightarrow> ((events, failures), d2)
         | Inr (_, Some event) \<Rightarrow> ((event # events, failures), d2))"

definition ReconcileIssueExecution :: "(string \<Rightarrow> bool) option \<Rightarrow> issue_execution_filter \<Rightarrow> (nat \<Rightarrow> time) \<Rightarrow> db \<Rightarrow>
   (store_error + event list \<times> store_error list) \<times> db" where
  "ReconcileIssueExecution engineRegistered filt now d =
     (case resolvedIssueExecutionCandidates filt d of
        (Inl e, _) \<Rightarrow> (Inl e, d)
      | (Inr candidates, _) \<Rightarrow>
          (case reconcile_candidates engineRegistered now candidates d of (r, d') \<Rightarrow> (Inr r, d')))"

text \<open>The scopes in which work can start. Go iterates over a map: the order of the list is left open there.\<close>

definition RunnableIssueExecutionScopes :: "(string \<Rightarrow> bool) option \<Rightarrow> issue_execution_filter \<Rightarrow> (db, (id \<times> id) list) tx" where
  "RunnableIssueExecutionScopes engineRegistered filt =
     tx_bind (resolvedIssueExecutionCandidates filt) (\<lambda>candidates.
     tx_bind (tx_map (\<lambda>(projectID, agentID).
        tx_bind (tx_try (verifyRunnableAgent engineRegistered projectID agentID)) (\<lambda>runnable.
        case runnable of
          Inr _ \<Rightarrow> tx_return [(projectID, agentID)]
        | Inl e \<Rightarrow> if e = ErrConflict \<or> e = ErrNotFound then tx_return [] else tx_fail e))
       (remdups (map (\<lambda>c. (iec_project_id c, iec_agent_id c)) candidates))) (\<lambda>scopes.
     tx_return (concat scopes)))"

section \<open>What a start creates\<close>

text \<open>An Issue has an active Run of the Agent.\<close>

definition has_active :: "db \<Rightarrow> id \<Rightarrow> id \<Rightarrow> id \<Rightarrow> bool" where
  "has_active d projectID issueID agentID \<longleftrightarrow>
     (\<exists>r\<in>set (db_runs d). run_project_id r = projectID \<and> run_issue_id r = issueID \<and>
        run_agent_id r = Some agentID \<and> activeRunStatus (run_status r))"

lemma activeRun_cases:
  "activeRunForAgent p i a d = (Inl e, d') \<longleftrightarrow> e = ErrNotFound \<and> d' = d \<and> \<not> has_active d p i a"
  "activeRunForAgent p i a d = (Inr r, d') \<Longrightarrow> has_active d p i a \<and> d' = d"
  unfolding activeRunForAgent_def has_active_def
  by (auto simp: tx_simps first_by_def filter_empty_conv dest!: arg_min_list_in split: if_splits)

text \<open>Only the clock is set before the Issue is read, and no check looks at it.\<close>

lemma reads_at:
  "has_active (d\<lparr>db_now := now\<rparr>) p i a = has_active d p i a"
  "runnable_config (d\<lparr>db_now := now\<rparr>) p a = runnable_config d p a"
  by (simp_all add: has_active_def runnable_config_def cong: option.case_cong)

lemma createQueuedRun_row:
  assumes "createQueuedRunTx input d = (Inr (run, job, ev), d')"
  shows "run_status run = RUN_QUEUED" "run_project_id run = qri_project_id input" "run_issue_id run = qri_issue_id input"
    "run_agent_id run = Some (qri_agent_id input)" "evt_type ev = ''run.created''" "evt_run_id ev = Some (run_id run)"
    "has_active d' (qri_project_id input) (qri_issue_id input) (qri_agent_id input)"
    "ev \<in> set (db_events d')" "\<forall>r\<in>set (db_runs d). run_id r \<noteq> run_id run"
proof -
  obtain uid da db dc key jid dd where
    r: "gen_random_uuid d = (Inr uid, da)"
      "sql_insert db_runs db_runs_update run_unique run_check notFound (new_run uid input (db_now da)) da = (Inr run, db)"
      "gen_random_uuid db = (Inr jid, dc)"
      "sql_insert db_jobs db_jobs_update job_unique job_check notFound
        (new_job jid (qri_project_id input) (run_id run) JOB_START None key (db_now da) (db_now da)) dc = (Inr job, dd)"
    and ev: "appendEventTx (run_event run ''run.created''
       (JObj [(''attempt'', JInt (run_attempt run)), (''status'', JStr ''QUEUED'')])) dd = (Inr ev, d')"
    using assms unfolding createQueuedRunTx_def Let_def
    by (simp only: tx_bind_Inr tx_get_eq tx_return_eq sum.inject prod.inject) blast
  have ins: "run = new_run uid input (db_now da)" "db_runs dd = db_runs d @ [run]"
    using r by (auto simp: tx_simps)
  note d' = appendEventTx_state [OF ev]
  show run: "run_status run = RUN_QUEUED" "run_project_id run = qri_project_id input" "run_issue_id run = qri_issue_id input"
      "run_agent_id run = Some (qri_agent_id input)"
    using ins(1) by (simp_all add: new_run_def)
  show "evt_type ev = ''run.created''" "evt_run_id ev = Some (run_id run)"
    using appendEventTx_event [OF ev] by (simp_all add: run_event_def)
  show "ev \<in> set (db_events d')" unfolding d' by simp
  show "\<forall>r\<in>set (db_runs d). run_id r \<noteq> run_id run" using createQueuedRun_rows(8) [OF assms] .
  have "run\<lparr>run_event_sequence := run_event_sequence run + 1\<rparr> \<in> set (db_runs d')"
    unfolding d' using ins(2) by (auto simp: run_event_def in_bump_run)
  then show "has_active d' (qri_project_id input) (qri_issue_id input) (qri_agent_id input)"
    unfolding has_active_def by (rule bexI [rotated]) (simp add: run activeRunStatus_def)
qed

lemma run_check_found: "run_check d r = Some v \<Longrightarrow> notFound v \<noteq> ErrNotFound"
  by (auto simp: run_check_def simp del: exists_row_iff split: if_splits)

lemma job_check_found: "job_check d j = Some v \<Longrightarrow> notFound v \<noteq> ErrNotFound"
  by (auto simp: job_check_def simp del: exists_row_iff split: if_splits)

lemma workspace_check_found: "workspace_check d w = Some v \<Longrightarrow> notFound v \<noteq> ErrNotFound"
  by (auto simp: workspace_check_def simp del: exists_row_iff split: if_splits)

text \<open>The Event of a Run that is there, of an Agent the project sees, is appended or refused with another error.\<close>

lemma append_run_found:
  assumes "appendEventTx (run_event run ty payload) d = (Inl e, d')" "run \<in> set (db_runs d)"
    and "\<forall>a. run_agent_id run = Some a \<longrightarrow> exists_row (\<lambda>g. agt_id g = a \<and> visible_to (agt_project_id g) (run_project_id run)) (db_agents d)"
  shows "e \<noteq> ErrNotFound"
proof -
  have refs: "event_references_valid d (run_event run ty payload)"
    using assms(3) unfolding event_references_valid_def
    by (cases "run_agent_id run") (simp_all add: run_event_def zero_event_def del: exists_row_iff)
  have "List.find (\<lambda>x. run_project_id x = run_project_id run \<and> run_id x = run_id run) (db_runs d) \<noteq> None"
    using assms(2) by (auto simp: find_None_iff)
  then have "next_event_sequence (run_event run ty payload) d \<noteq> (Inl e', d1)" for e' d1
    by (auto simp: next_event_sequence_def run_event_def zero_event_def tx_bind_Inl tx_simps)
  then show ?thesis
    using assms(1) refs unfolding appendEventTx_def validateEventReferences_def
    by (auto simp: tx_bind_Inl tx_get_eq gen_random_uuid_def sql_insert_Inl tx_simps dest: event_check_found)
qed

lemma queued_run_found: "createQueuedRunTx input d \<noteq> (Inl ErrNotFound, d')"
proof
  assume "createQueuedRunTx input d = (Inl ErrNotFound, d')"
  then obtain uid now da run db n key jid job dd where
    r: "sql_insert db_runs db_runs_update run_unique run_check notFound (new_run uid input now) da = (Inr run, db)"
      "sql_insert db_jobs db_jobs_update job_unique job_check notFound
        (new_job jid (qri_project_id input) (run_id run) JOB_START None key now now) (db\<lparr>db_uuid_next := n\<rparr>) = (Inr job, dd)"
    and ev: "appendEventTx (run_event run ''run.created''
       (JObj [(''attempt'', JInt (run_attempt run)), (''status'', JStr ''QUEUED'')])) dd = (Inl ErrNotFound, d')"
    unfolding createQueuedRunTx_def Let_def
    by (simp only: tx_bind_Inl tx_get_eq tx_return_eq gen_random_uuid_eq sql_insert_Inl)
      (auto dest: run_check_found job_check_found split del: if_split)
  have "run_check da run = None" "db_agents dd = db_agents da" "run \<in> set (db_runs dd)" 
    using r by (auto simp: tx_simps)
  then show False using append_run_found [OF ev]
    by (auto simp: run_check_def simp del: exists_row_iff split: if_splits option.splits)
qed

lemma create_assigned_row:
  assumes "create_assigned_run issue key a path branch d = (Inr (ro, eo), d')"
  shows "\<exists>run ev. ro = Some run \<and> eo = Some ev \<and> run_status run = RUN_QUEUED \<and> run_project_id run = iss_project_id issue \<and>
     run_issue_id run = iss_id issue \<and> run_agent_id run = Some a \<and> evt_type ev = ''run.created'' \<and>
     evt_run_id ev = Some (run_id run) \<and> ev \<in> set (db_events d') \<and> (\<forall>r\<in>set (db_runs d). run_id r \<noteq> run_id run)"
    and "has_active d' (iss_project_id issue) (iss_id issue) a"
proof -
  obtain w d1 n run job ev where w: "workspaceForAssignment (iss_project_id issue) (iss_id issue) key path branch d = (Inr w, d1)"
    and cr: "createQueuedRunTx \<lparr>qri_project_id = iss_project_id issue, qri_issue_id = iss_id issue,
                qri_workspace_id = wsp_id w, qri_agent_id = a, qri_attempt = n, qri_idempotency_key = []\<rparr> d1
        = (Inr (run, job, ev), d')" and r: "ro = Some run" "eo = Some ev"
    using assms unfolding create_assigned_run_def
    by (auto simp: tx_bind_Inr tx_return_eq dest!: read_state [OF read_assignment(5)])
  have "db_runs d1 = db_runs d"
    using execution_rows(1) w unfolding tx_keeps_def same_execution_def by blast
  then show "\<exists>run ev. ro = Some run \<and> eo = Some ev \<and> run_status run = RUN_QUEUED \<and> run_project_id run = iss_project_id issue \<and>
     run_issue_id run = iss_id issue \<and> run_agent_id run = Some a \<and> evt_type ev = ''run.created'' \<and>
     evt_run_id ev = Some (run_id run) \<and> ev \<in> set (db_events d') \<and> (\<forall>r\<in>set (db_runs d). run_id r \<noteq> run_id run)"
    and "has_active d' (iss_project_id issue) (iss_id issue) a"
    using r createQueuedRun_row [OF cr] by simp_all
qed

lemma create_assigned_found: "create_assigned_run issue key a path branch d \<noteq> (Inl ErrNotFound, d')"
proof
  assume "create_assigned_run issue key a path branch d = (Inl ErrNotFound, d')"
  then show False
    unfolding create_assigned_run_def workspaceForAssignment_def nextIssueRunAttempt_def Let_def
    by (auto simp: tx_bind_Inl tx_bind_Inr tx_simps sql_insert_Inl queued_run_found dest: workspace_check_found split: option.splits)
qed

text \<open>The verdict on an Agent: it runs, it is refused, or it is not there.\<close>

definition verdict :: "(string \<Rightarrow> bool) option \<Rightarrow> id \<Rightarrow> id \<Rightarrow> db \<Rightarrow> store_error + unit" where
  "verdict eng p a d = (case runnable_config d p a of
     None \<Rightarrow> Inl ErrNotFound
   | Some (g, m, v) \<Rightarrow>
       if agt_state g = AGT_ENABLED \<and> mdl_enabled m \<and> prv_enabled v \<and> \<not> prv_unhealthy v \<and>
          (case eng of None \<Rightarrow> True | Some reg \<Rightarrow> reg (TrimSpace (agt_engine g)))
       then Inr () else Inl ErrConflict)"

lemma verify_eq: "verifyRunnableAgent eng p a d = (verdict eng p a d, d)"
  by (simp add: verifyRunnableAgent_def verdict_def tx_bind_def tx_get_def tx_fail_def tx_guard_def tx_return_def
      split: option.splits prod.splits)

lemma verdict_cases: "verdict eng p a d = Inr () \<or> verdict eng p a d = Inl ErrConflict \<or> verdict eng p a d = Inl ErrNotFound"
  by (simp add: verdict_def split: option.splits prod.splits)

lemma verdict_at: "verdict eng p a (d\<lparr>db_now := now\<rparr>) = verdict eng p a d"
  by (simp add: verdict_def reads_at)

lemma active_cases:
  obtains r where "activeRunForAgent p i a d = (Inr r, d)" "\<And>now. activeRunForAgent p i a (d\<lparr>db_now := now\<rparr>) = (Inr r, d\<lparr>db_now := now\<rparr>)"
      "has_active d p i a"
  | "activeRunForAgent p i a d = (Inl ErrNotFound, d)" "\<not> has_active d p i a"
      "\<And>now. activeRunForAgent p i a (d\<lparr>db_now := now\<rparr>) = (Inl ErrNotFound, d\<lparr>db_now := now\<rparr>)"
proof (cases "fst (activeRunForAgent p i a d)")
  case (Inl e)
  then have "activeRunForAgent p i a d = (Inl e, snd (activeRunForAgent p i a d))" by (metis prod.collapse)
  then have na: "\<not> has_active d p i a" by (simp add: activeRun_cases(1))
  show ?thesis by (rule that(2)) (use na in \<open>simp_all add: activeRun_cases(1) reads_at\<close>)
next
  case (Inr r)
  then have r: "activeRunForAgent p i a d = (Inr r, snd (activeRunForAgent p i a d))" by (metis prod.collapse)
  note h = activeRun_cases(2) [OF this]
  show ?thesis
    by (rule that(1) [of r]) (use r h in \<open>auto simp: activeRunForAgent_def tx_simps\<close>)
qed

text \<open>The Agent of an Issue is resolved from the Squads alone.\<close>

lemma resolve_at: "resolveIssueExecutionAgent issue (d\<lparr>db_now := now\<rparr>) =
    (fst (resolveIssueExecutionAgent issue d), (snd (resolveIssueExecutionAgent issue d))\<lparr>db_now := now\<rparr>)"
  by (auto simp: resolveIssueExecutionAgent_def tx_bind_def tx_return_def sql_find_def tx_option_def tx_fail_def
      split: option.splits if_splits prod.splits sum.splits)

lemma resolve_Some:
  assumes "resolveIssueExecutionAgent issue d = (Inr (Some a), d')"
  shows "\<exists>ty. iss_assignee_type issue = Some ty \<and> (ty = ''AGENT'' \<or> ty = ''SQUAD'')" "iss_assignee_id issue \<noteq> None"
  using assms by (auto simp: resolveIssueExecutionAgent_def tx_simps split: option.splits if_splits)

lemma resolve_None:
  assumes "resolveIssueExecutionAgent issue d = (Inr None, d')"
  shows "\<not> ShouldAutoEnqueueIssue prev st (case iss_assignee_type issue of None \<Rightarrow> [] | Some ty \<Rightarrow> ty) True \<or> iss_assignee_id issue = None"
  using assms by (auto simp: resolveIssueExecutionAgent_def ShouldAutoEnqueueIssue_def tx_simps split: option.splits if_splits)

section \<open>The state predicts the start\<close>

lemma lock_found:
  assumes "List.find (\<lambda>x. iss_project_id x = p \<and> iss_id x = i) (db_issues d) = Some issue"
    and "exists_row (\<lambda>x. prj_id x = p) (db_projects d)"
  obtains key path branch where "lockAssignmentIssue p i d = (Inr (issue, key, path, branch), d)"
    "iss_project_id issue = p" "iss_id issue = i"
proof -
  obtain prj where prj: "List.find (\<lambda>x. prj_id x = p) (db_projects d) = Some prj"
    using assms(2) by (cases "List.find (\<lambda>x. prj_id x = p) (db_projects d)") (auto simp: find_None_iff)
  have ids: "iss_project_id issue = p" "iss_id issue = i" using find_Some_in [OF assms(1)] by simp_all
  show ?thesis
    using that assms(1) prj ids by (simp add: lockAssignmentIssue_def tx_simps)
qed

lemma start_of_agent:
  assumes "List.find (\<lambda>x. iss_project_id x = p \<and> iss_id x = i) (db_issues d) = Some issue"
    and "exists_row (\<lambda>x. prj_id x = p) (db_projects d)" "iss_status issue \<noteq> ISS_BACKLOG"
    and "resolveIssueExecutionAgent issue d = (Inr (Some a), d)" "expected = [] \<or> expected = a"
  obtains key path branch where "enqueue_current_tx eng p i expected strict d =
    (case verdict eng p a d of
       Inl _ \<Rightarrow> (if strict then Inl ErrConflict else Inr (None, None), d)
     | Inr _ \<Rightarrow> (case fst (activeRunForAgent p i a d) of
         Inr run \<Rightarrow> (Inr (Some run, None), d)
       | Inl _ \<Rightarrow> create_assigned_run issue key a path branch d))"
proof -
  obtain key path branch where lock: "lockAssignmentIssue p i d = (Inr (issue, key, path, branch), d)"
    and ids: "iss_project_id issue = p" "iss_id issue = i" using lock_found [OF assms(1,2)] .
  have go: "ShouldAutoEnqueueIssue (Some (iss_status issue)) (iss_status issue)
      (case iss_assignee_type issue of None \<Rightarrow> [] | Some ty \<Rightarrow> ty) True" "iss_assignee_id issue \<noteq> None"
    using resolve_Some [OF assms(4)] assms(3) by (auto simp: ShouldAutoEnqueueIssue_def)
  have "enqueue_current_tx eng p i expected strict d =
      enqueueAssignedIssue eng issue key a path branch strict d"
    using go assms(5) unfolding enqueue_current_tx_def by (auto simp: tx_bind_def lock assms(4))
  then show ?thesis
    using verdict_cases [of eng p a d]
    by (intro that, cases rule: active_cases [of p i a d])
      (auto simp: enqueueAssignedIssue_def tx_bind_def tx_try_def verify_eq ids tx_fail_def tx_return_def)
qed

text \<open>A start of an Issue that is in the backlog or that no Agent owns is refused.\<close>

lemma start_refused:
  assumes "List.find (\<lambda>x. iss_project_id x = p \<and> iss_id x = i) (db_issues d) = Some issue"
    and "exists_row (\<lambda>x. prj_id x = p) (db_projects d)"
    and "iss_status issue = ISS_BACKLOG \<or> resolveIssueExecutionAgent issue d = (Inr None, d)"
  shows "enqueue_current_tx eng p i expected strict d = (if strict then Inl ErrConflict else Inr (None, None), d)"
proof -
  obtain key path branch where lock: "lockAssignmentIssue p i d = (Inr (issue, key, path, branch), d)"
    and ids: "iss_project_id issue = p" "iss_id issue = i" using lock_found [OF assms(1,2)] .
  have "\<not> ShouldAutoEnqueueIssue (Some (iss_status issue)) (iss_status issue)
      (case iss_assignee_type issue of None \<Rightarrow> [] | Some ty \<Rightarrow> ty) True \<or> iss_assignee_id issue = None"
    using assms(3) resolve_None by (auto simp: ShouldAutoEnqueueIssue_def)
  then show ?thesis
    unfolding enqueue_current_tx_def by (auto simp: tx_bind_def lock refused_def tx_fail_def tx_return_def Let_def)
qed

text \<open>What the state says of the Issue.\<close>

lemma execution_state_cases:
  assumes "GetIssueExecutionState eng p i d = (Inr st, d1)"
  obtains issue where "List.find (\<lambda>x. iss_project_id x = p \<and> iss_id x = i) (db_issues d) = Some issue"
      "iss_status issue = ISS_BACKLOG \<or> resolveIssueExecutionAgent issue d = (Inr None, d)"
      "ies_state st = IssueExecutionBacklog \<or> ies_state st = IssueExecutionNotAgentOwned" "\<not> ies_can_start st"
  | issue a where "List.find (\<lambda>x. iss_project_id x = p \<and> iss_id x = i) (db_issues d) = Some issue"
      "iss_status issue \<noteq> ISS_BACKLOG" "resolveIssueExecutionAgent issue d = (Inr (Some a), d)"
      "execution_state_of_agent eng p i a d = (Inr st, d)"
proof -
  obtain issue where i: "List.find (\<lambda>x. iss_project_id x = p \<and> iss_id x = i) (db_issues d) = Some issue"
    using assms by (auto simp: GetIssueExecutionState_def tx_simps)
  show ?thesis
  proof (cases "iss_status issue = ISS_BACKLOG")
    case True then show ?thesis using i assms by (intro that(1)) (auto simp: GetIssueExecutionState_def tx_simps idle_state_def)
  next
    case False
    then obtain ao d2 where ao2: "resolveIssueExecutionAgent issue d = (Inr ao, d2)"
      using assms i by (auto simp: GetIssueExecutionState_def tx_simps)
    then have ao: "resolveIssueExecutionAgent issue d = (Inr ao, d)" using read_state [OF read_assignment(4) ao2] by simp
    show ?thesis
    proof (cases ao)
      case None then show ?thesis using i ao assms False
        by (intro that(1)) (auto simp: GetIssueExecutionState_def tx_simps idle_state_def)
    next
      case (Some a)
      have st: "execution_state_of_agent eng p i a d = (Inr st, d1)"
        using i ao assms False Some by (auto simp: GetIssueExecutionState_def tx_simps)
      moreover have "d1 = d" using st verdict_cases [of eng p a d]
        by (cases rule: active_cases [of p i a d])
          (auto simp: execution_state_of_agent_def issueExecutionAgentIdentity_def tx_simps verify_eq)
      ultimately show ?thesis using that(2) i False ao Some by simp
    qed
  qed
qed

lemma agent_state_cases:
  "execution_state_of_agent eng p i a d = (Inr st, d) \<longleftrightarrow>
     st = \<lparr>ies_state = (case fst (activeRunForAgent p i a d) of Inr _ \<Rightarrow> IssueExecutionActive
             | Inl _ \<Rightarrow> (case verdict eng p a d of Inr _ \<Rightarrow> IssueExecutionReady
                          | Inl _ \<Rightarrow> IssueExecutionConfigurationUnavailable)),
           ies_can_start = (\<not> has_active d p i a \<and> verdict eng p a d = Inr ()),
           ies_execution_agent = map_option agt_id
             (List.find (\<lambda>x. agt_id x = a \<and> visible_to (agt_project_id x) p) (db_agents d)),
           ies_active_run = (case fst (activeRunForAgent p i a d) of Inr r \<Rightarrow> Some r | Inl _ \<Rightarrow> None)\<rparr>"
  using verdict_cases [of eng p a d]
  by (cases rule: active_cases [of p i a d])
    (auto simp: execution_state_of_agent_def issueExecutionAgentIdentity_def tx_bind_def tx_try_def tx_get_def verify_eq tx_return_def)


section \<open>Reconciliation leaves nothing to start\<close>

text \<open>Starts leave the configuration and the Issues alone, and an active Run stays active.\<close>

definition standing :: "db \<Rightarrow> db \<Rightarrow> bool" where
  "standing d d' \<longleftrightarrow> db_issues d' = db_issues d \<and> db_squads d' = db_squads d \<and> db_agents d' = db_agents d \<and>
     db_model_profiles d' = db_model_profiles d \<and> db_providers d' = db_providers d \<and> db_projects d' = db_projects d \<and>
     (\<forall>p i a. has_active d p i a \<longrightarrow> has_active d' p i a)"

lemma has_active_bump: "has_active (d\<lparr>db_runs := bump_run q r (db_runs d)\<rparr>) p i a = has_active d p i a"
proof -
  have "(\<exists>x\<in>set (bump_run q r rs). run_project_id x = p \<and> run_issue_id x = i \<and> run_agent_id x = Some a \<and> activeRunStatus (run_status x)) =
      (\<exists>x\<in>set rs. run_project_id x = p \<and> run_issue_id x = i \<and> run_agent_id x = Some a \<and> activeRunStatus (run_status x))" for rs
    by (induction rs) (auto simp: bump_run_def update_rows_def)
  then show ?thesis by (simp add: has_active_def)
qed

lemma standing_append: "tx_keeps standing (appendEventTx e)"
proof (rule tx_keepsI)
  fix d ev d' assume "appendEventTx e d = (Inr ev, d')"
  note d' = appendEventTx_state [OF this]
  have "has_active d' p i a = has_active d p i a" for p i a
    using has_active_bump unfolding d' by (cases "evt_run_id e") (simp_all add: has_active_def)
  then show "standing d d'" unfolding standing_def by (simp add: d')
qed

interpretation standing: request_frame standing
proof unfold_locales
  fix d1 d2 d3 show "standing d1 d1" "standing d1 d2 \<Longrightarrow> standing d2 d3 \<Longrightarrow> standing d1 d3"
    by (auto simp: standing_def)
qed (auto simp: standing_append, auto simp: tx_keeps_def standing_def has_active_def gen_random_uuid_def sql_insert_Inr)

lemmas standing_reads = standing.keeps_on_read [THEN keeps_on_keeps]

lemma standing_enqueue: "tx_keeps standing (enqueue_current_tx eng p i expected strict)"
  unfolding enqueue_current_tx_def enqueueAssignedIssue_def create_assigned_run_def refused_def Let_def
  by (intro standing.keeps_intros standing.on_workspace [THEN keeps_on_keeps] standing.on_queued_run [THEN keeps_on_keeps]
      read_assignment(1,4,5) [THEN standing_reads] read_tried [THEN standing_reads])

lemma enqueue_standing:
  assumes "enqueueCurrentIssue eng p i expected strict now d = (r, d')"
  shows "standing d d'"
proof (cases r)
  case (Inl e) with assms show ?thesis by (simp add: enqueueCurrentIssue_def run_tx_Inl standing.refl)
next
  case (Inr x)
  then have "standing (d\<lparr>db_now := now\<rparr>) d'"
    using assms by (auto simp: enqueueCurrentIssue_def run_tx_Inr intro: tx_keepsD [OF standing_enqueue])
  then show ?thesis by (simp add: standing_def reads_at)
qed

lemma reconcile_standing: "reconcile_candidates eng now cs d = (r, d') \<Longrightarrow> standing d d'"
proof (induction eng now cs d arbitrary: r d' rule: reconcile_candidates.induct)
  case (1 eng now d) then show ?case by (simp add: standing.refl)
next
  case (2 eng now c cs d)
  obtain x d1 where x: "enqueueCurrentIssue eng (iec_project_id c) (iec_issue_id c) (iec_agent_id c) False (now 0) d = (x, d1)"
    by fastforce
  obtain evs fs d2 where y: "reconcile_candidates eng (\<lambda>n. now (Suc n)) cs d1 = ((evs, fs), d2)" by (metis surj_pair)
  have "d' = d2" using 2(2) by (auto simp: x y split: sum.splits option.splits prod.splits)
  moreover have "standing d1 d2" using 2(1) [OF refl x [symmetric] y] .
  ultimately show ?case using standing.trans [OF enqueue_standing [OF x]] by simp
qed

lemma standing_state:
  assumes "standing d d'"
  shows "resolveIssueExecutionAgent issue d = (r, d) \<Longrightarrow> resolveIssueExecutionAgent issue d' = (r, d')"
    "verdict eng p a d' = verdict eng p a d"
proof -
  show "resolveIssueExecutionAgent issue d = (r, d) \<Longrightarrow> resolveIssueExecutionAgent issue d' = (r, d')"
    using assms unfolding standing_def
    by (auto simp: resolveIssueExecutionAgent_def tx_bind_def tx_return_def sql_find_def tx_option_def tx_fail_def
      split: option.splits if_splits)
  show "verdict eng p a d' = verdict eng p a d"
    using assms unfolding standing_def verdict_def runnable_config_def by (simp cong: option.case_cong)
qed

lemma read_candidates [read_rules]:
  "tx_keeps_on UNIV (=) (executionAgentMatchesFilter p a filt)" "tx_keeps_on UNIV (=) (candidate_of_owner filt owner)"
  unfolding executionAgentMatchesFilter_def candidate_of_owner_def by (intro read_rules)+

lemma tx_map_reads:
  assumes "\<And>x. tx_keeps_on UNIV (=) (f x)" "tx_map f xs d = (Inr ys, d')" "y \<in> set ys"
  shows "\<exists>x\<in>set xs. f x d = (Inr y, d)"
  using assms(2,3)
proof (induction xs arbitrary: ys)
  case (Cons x xs)
  obtain y1 d1 where x: "f x d = (Inr y1, d1)" using Cons(2) by (auto simp: tx_simps)
  have "d1 = d" using read_state [OF assms(1) x] by simp
  then obtain ys1 where "tx_map f xs d = (Inr ys1, d')" "ys = y1 # ys1" using Cons(2) x by (auto simp: tx_simps)
  then show ?case using Cons(1) [of ys1] Cons(3) x \<open>d1 = d\<close> by auto
qed (simp add: tx_simps)

text \<open>A candidate is an Issue outside the backlog with the Agent its assignee stands for.\<close>

lemma candidate_is_owned:
  assumes "resolvedIssueExecutionCandidates filt d = (Inr cs, d1)" "c \<in> set cs"
  shows "\<exists>owner\<in>set (db_issues d). owned_by_filter filt owner \<and> iss_project_id owner = iec_project_id c \<and>
     iss_id owner = iec_issue_id c \<and> resolveIssueExecutionAgent owner d = (Inr (Some (iec_agent_id c)), d)"
proof -
  obtain found where m: "tx_map (candidate_of_owner filt)
      (sort_key (\<lambda>i. (iss_project_id i, iss_id i)) (filter (owned_by_filter filt) (db_issues d))) d = (Inr found, d1)"
    and cs: "cs = concat found"
    using assms(1) unfolding resolvedIssueExecutionCandidates_def by (auto simp: tx_simps)
  obtain ys where ys: "ys \<in> set found" "c \<in> set ys" using assms(2) cs by auto
  obtain owner where o: "owner \<in> set (db_issues d)" "owned_by_filter filt owner" "candidate_of_owner filt owner d = (Inr ys, d)"
    using tx_map_reads [OF read_candidates(2) m ys(1)] by auto
  obtain a d2 where a: "resolveIssueExecutionAgent owner d = (Inr (Some a), d2)"
      "c = \<lparr>iec_project_id = iss_project_id owner, iec_issue_id = iss_id owner, iec_agent_id = a\<rparr>"
    using o(3) ys(2) by (auto simp: candidate_of_owner_def tx_simps split: option.splits if_splits)
  then show ?thesis using o read_state [OF read_assignment(4) a(1)] by auto
qed

text \<open>After the transaction of a candidate the Issue is active, or its Agent cannot run.\<close>

definition settled :: "(string \<Rightarrow> bool) option \<Rightarrow> issue_execution_candidate \<Rightarrow> db \<Rightarrow> bool" where
  "settled eng c d \<longleftrightarrow> verdict eng (iec_project_id c) (iec_agent_id c) d \<noteq> Inr () \<or>
     has_active d (iec_project_id c) (iec_issue_id c) (iec_agent_id c)"

lemma settled_stays: "settled eng c d \<Longrightarrow> standing d d' \<Longrightarrow> settled eng c d'"
  using standing_state(2) by (auto simp: settled_def standing_def)

text \<open>What the constraints of the schema promise of the Issue of a candidate.\<close>

definition startable :: "issue_execution_candidate \<Rightarrow> db \<Rightarrow> bool" where
  "startable c d \<longleftrightarrow> exists_row (\<lambda>x. prj_id x = iec_project_id c) (db_projects d) \<and>
     (\<exists>issue. List.find (\<lambda>x. iss_project_id x = iec_project_id c \<and> iss_id x = iec_issue_id c) (db_issues d) = Some issue \<and>
        iss_status issue \<noteq> ISS_BACKLOG \<and> resolveIssueExecutionAgent issue d = (Inr (Some (iec_agent_id c)), d))"

lemma startable_stays: "startable c d \<Longrightarrow> standing d d' \<Longrightarrow> startable c d'"
  using standing_state(1) by (fastforce simp: startable_def standing_def)

lemma enqueue_settles:
  assumes "startable c d"
    and "enqueueCurrentIssue eng (iec_project_id c) (iec_issue_id c) (iec_agent_id c) False now d = (r, d')"
    and "\<And>e. r = Inl e \<Longrightarrow> e = ErrNotFound"
  shows "settled eng c d'"
proof (cases "verdict eng (iec_project_id c) (iec_agent_id c) d")
  case (Inl e)
  then show ?thesis using standing_state(2) [OF enqueue_standing [OF assms(2)]] by (simp add: settled_def)
next
  case (Inr u)
  let ?d = "d\<lparr>db_now := now\<rparr>" and ?p = "iec_project_id c" and ?i = "iec_issue_id c" and ?a = "iec_agent_id c"
  obtain issue where i: "List.find (\<lambda>x. iss_project_id x = ?p \<and> iss_id x = ?i) (db_issues ?d) = Some issue"
      "iss_status issue \<noteq> ISS_BACKLOG" "resolveIssueExecutionAgent issue ?d = (Inr (Some ?a), ?d)"
      "exists_row (\<lambda>x. prj_id x = ?p) (db_projects ?d)"
    using assms(1) by (auto simp: startable_def resolve_at)
  have ids: "iss_project_id issue = ?p" "iss_id issue = ?i" using find_Some_in [OF i(1)] by simp_all
  obtain key path branch where tx: "enqueue_current_tx eng ?p ?i ?a False ?d =
      (case fst (activeRunForAgent ?p ?i ?a ?d) of
         Inr run \<Rightarrow> (Inr (Some run, None), ?d)
       | Inl _ \<Rightarrow> create_assigned_run issue key ?a path branch ?d)"
    by (rule start_of_agent [OF i(1,4,2,3), of ?a eng False]) (simp_all add: verdict_at Inr)
  show ?thesis
  proof (cases rule: active_cases [of ?p ?i ?a d])
    case (1 run)
    then show ?thesis using enqueue_standing [OF assms(2)] by (auto simp: settled_def standing_def)
  next
    case 2
    have cr: "run_tx now (\<lambda>_. create_assigned_run issue key ?a path branch ?d) d = (r, d')"
      using assms(2) 2(3) tx by (simp add: enqueueCurrentIssue_def run_tx_def tx_commit_def)
    then obtain x where "r = Inr x"
      using assms(3) create_assigned_found by (cases r) (auto simp: run_tx_Inl)
    then have "has_active d' ?p ?i ?a"
      using cr ids create_assigned_row(2) by (cases x) (fastforce simp: run_tx_Inr)
    then show ?thesis by (simp add: settled_def)
  qed
qed

lemma reconcile_settles:
  assumes "reconcile_candidates eng now cs d = ((events, []), d')" "\<And>c. c \<in> set cs \<Longrightarrow> startable c d" "c \<in> set cs"
  shows "settled eng c d'"
  using assms
proof (induction eng now cs d arbitrary: events d' rule: reconcile_candidates.induct)
  case (2 eng now c1 cs d)
  obtain x d1 where x: "enqueueCurrentIssue eng (iec_project_id c1) (iec_issue_id c1) (iec_agent_id c1) False (now 0) d = (x, d1)"
    by fastforce
  obtain evs fs d2 where y: "reconcile_candidates eng (\<lambda>n. now (Suc n)) cs d1 = ((evs, fs), d2)" by (metis surj_pair)
  have r: "d' = d2" "fs = []" "\<And>e. x = Inl e \<Longrightarrow> e = ErrNotFound"
    using 2(2) by (auto simp: x y split: sum.splits option.splits prod.splits if_splits)
  note st = enqueue_standing [OF x] reconcile_standing [OF y]
  show ?case
  proof (cases "c = c1")
    case True
    then have "settled eng c d1" using enqueue_settles [OF _ x r(3)] 2(3) by simp
    then show ?thesis using settled_stays [OF _ st(2)] r(1) by simp
  next
    case False
    then show ?thesis
      using 2(1) [OF refl x [symmetric], of evs d2] y r 2(3,4) startable_stays [OF _ st(1)] by simp
  qed
qed simp

lemma settled_state:
  assumes "startable c d" "settled eng c d"
  shows "\<exists>st. GetIssueExecutionState eng (iec_project_id c) (iec_issue_id c) d = (Inr st, d) \<and>
     (ies_state st = IssueExecutionActive \<or> ies_state st = IssueExecutionConfigurationUnavailable)"
proof -
  let ?p = "iec_project_id c" and ?i = "iec_issue_id c" and ?a = "iec_agent_id c"
  obtain issue where i: "List.find (\<lambda>x. iss_project_id x = ?p \<and> iss_id x = ?i) (db_issues d) = Some issue"
      "iss_status issue \<noteq> ISS_BACKLOG" "resolveIssueExecutionAgent issue d = (Inr (Some ?a), d)"
    using assms(1) by (auto simp: startable_def)
  have "GetIssueExecutionState eng ?p ?i d = execution_state_of_agent eng ?p ?i ?a d"
    using i by (simp add: GetIssueExecutionState_def tx_bind_def sql_find_def tx_option_def tx_return_def)
  moreover obtain st where st: "execution_state_of_agent eng ?p ?i ?a d = (Inr st, d)"
    unfolding agent_state_cases by blast
  moreover have "ies_state st = IssueExecutionActive \<or> ies_state st = IssueExecutionConfigurationUnavailable"
    using assms(2) st [unfolded agent_state_cases]
    by (cases rule: active_cases [of ?p ?i ?a d]) (auto simp: settled_def split: sum.splits)
  ultimately show ?thesis by auto
qed

interpretation issues: keyed_table db_issues db_issues_update iss_id
  by unfold_locales simp

lemma candidate_startable:
  assumes "resolvedIssueExecutionCandidates filt d = (Inr cs, d1)" "c \<in> set cs" "distinct (map iss_id (db_issues d))"
    and "\<And>i. i \<in> set (db_issues d) \<Longrightarrow> exists_row (\<lambda>x. prj_id x = iss_project_id i) (db_projects d)"
  shows "startable c d"
proof -
  obtain owner where o: "owner \<in> set (db_issues d)" "owned_by_filter filt owner" "iss_project_id owner = iec_project_id c"
     "iss_id owner = iec_issue_id c" "resolveIssueExecutionAgent owner d = (Inr (Some (iec_agent_id c)), d)"
    using candidate_is_owned [OF assms(1,2)] by blast
  have "List.find (\<lambda>x. iss_project_id x = iec_project_id c \<and> iss_id x = iec_issue_id c) (db_issues d) = Some owner"
    by (rule issues.find_by_key) (use assms(3) o in auto)
  moreover have "exists_row (\<lambda>x. prj_id x = iec_project_id c) (db_projects d)" using assms(4) [OF o(1)] o(3) by simp
  moreover have "iss_status owner \<noteq> ISS_BACKLOG" using o(2) by (simp add: owned_by_filter_def)
  ultimately show ?thesis using o(5) by (auto simp: startable_def)
qed

text \<open>
  C25. A reconciliation that reports no failure leaves nothing to start: afterwards every Issue that
  was a candidate is shown as ACTIVE or as CONFIGURATION_UNAVAILABLE, never as READY. The Issues
  have distinct ids and a project, as the primary and the foreign key of the table say.
\<close>

theorem reconciliation_leaves_none_ready:
  assumes "ReconcileIssueExecution eng filt now d = (Inr (events, []), d')"
    and "resolvedIssueExecutionCandidates filt d = (Inr cs, d1)" "c \<in> set cs"
    and "distinct (map iss_id (db_issues d))"
    and "\<And>i. i \<in> set (db_issues d) \<Longrightarrow> exists_row (\<lambda>x. prj_id x = iss_project_id i) (db_projects d)"
  shows "\<exists>st. GetIssueExecutionState eng (iec_project_id c) (iec_issue_id c) d' = (Inr st, d') \<and>
     (ies_state st = IssueExecutionActive \<or> ies_state st = IssueExecutionConfigurationUnavailable)"
proof -
  have rec: "reconcile_candidates eng now cs d = ((events, []), d')"
    using assms(1,2) by (auto simp: ReconcileIssueExecution_def split: prod.splits)
  have ok: "startable x d" if "x \<in> set cs" for x
    using candidate_startable [OF assms(2) that assms(4,5)] .
  have "settled eng c d'" by (rule reconcile_settles [OF rec ok assms(3)])
  moreover have "startable c d'" by (rule startable_stays [OF ok [OF assms(3)] reconcile_standing [OF rec]])
  ultimately show ?thesis by (rule settled_state [rotated])
qed

section \<open>Frames\<close>

lemma quiet_execution: "tx_keeps quiet (enqueue_current_tx eng p i expected strict)"
  unfolding enqueue_current_tx_def refused_def Let_def by (intro quiet_rules)

lemma history_execution: "tx_keeps history (enqueue_current_tx eng p i expected strict)"
  unfolding enqueue_current_tx_def refused_def Let_def by (intro history_rules)

lemma enqueueCurrentIssue_quiet: "enqueueCurrentIssue eng p i a strict now d = (r, d') \<Longrightarrow> quiet d d'"
  unfolding enqueueCurrentIssue_def by (rule quiet.keeps_run_tx [OF quiet_execution])

lemma enqueueCurrentIssue_history: "enqueueCurrentIssue eng p i a strict now d = (r, d') \<Longrightarrow> history d d'"
  unfolding enqueueCurrentIssue_def by (rule history.keeps_run_tx [OF history_execution])

section \<open>Starts on the sample\<close>

text \<open>The sample with its Run cancelled: the Issue is ready to start again.\<close>

definition sample_idle :: db where
  "sample_idle = sample_queued\<lparr>db_runs := [sample_run ''r1'' 1 RUN_CANCELLED],
     db_jobs := [sample_job ''j1'' ''r1'' JOB_START JOB_CANCELLED]\<rparr>"

lemmas execution_run = delegation_run GetIssueExecutionState_def resolveIssueExecutionAgent_def execution_state_of_agent_def
  issueExecutionAgentIdentity_def idle_state_def StartIssueRun_def enqueueCurrentIssue_def enqueue_current_tx_def
  ShouldAutoEnqueueIssue_def enqueueAssignedIssue_def create_assigned_run_def workspaceForAssignment_def refused_def

definition any_issue :: issue_execution_filter where
  "any_issue = \<lparr>ief_project_id = [], ief_agent_id = [], ief_squad_id = [], ief_model_profile_id = [], ief_provider_id = []\<rparr>"

lemma sample_ready:
  "\<exists>st. GetIssueExecutionState None ''p1'' ''i1'' sample_idle = (Inr st, sample_idle) \<and> ies_state st = IssueExecutionReady"
  by (simp add: execution_run sample_idle_def sample_eval)

lemma start_key_text: "btrim (CHR ''r'' # s) \<noteq> []"
  by (simp add: btrim_def)

lemma sample_start:
  "\<exists>ro eo d'. StartIssueRun None ''p1'' ''i1'' 60 sample_idle = (Inr (ro, eo), d')"
  by (simp add: execution_run sample_idle_def sample_eval start_key_text)


lemma sample_candidates:
  "resolvedIssueExecutionCandidates any_issue sample_idle =
     (Inr [\<lparr>iec_project_id = ''p1'', iec_issue_id = ''i1'', iec_agent_id = ''a1''\<rparr>], sample_idle)"
  by (simp add: resolvedIssueExecutionCandidates_def candidate_of_owner_def executionAgentMatchesFilter_def owned_by_filter_def
      any_issue_def execution_run sample_idle_def sample_eval)

lemma sample_reconciled:
  "\<exists>events d'. ReconcileIssueExecution None any_issue (\<lambda>_. 60) sample_idle = (Inr (events, []), d')"
  by (simp add: ReconcileIssueExecution_def sample_candidates)
    (simp add: execution_run sample_idle_def sample_eval start_key_text)

theorem reconciliation_leaves_none_ready_witness:
  "\<exists>events d' st. ReconcileIssueExecution None any_issue (\<lambda>_. 60) sample_idle = (Inr (events, []), d') \<and>
     GetIssueExecutionState None ''p1'' ''i1'' d' = (Inr st, d') \<and> ies_state st \<noteq> IssueExecutionReady"
proof -
  obtain events d' where rec: "ReconcileIssueExecution None any_issue (\<lambda>_. 60) sample_idle = (Inr (events, []), d')"
    using sample_reconciled by blast
  have "\<exists>st. GetIssueExecutionState None (iec_project_id c) (iec_issue_id c) d' = (Inr st, d') \<and>
     (ies_state st = IssueExecutionActive \<or> ies_state st = IssueExecutionConfigurationUnavailable)"
    if "c = \<lparr>iec_project_id = ''p1'', iec_issue_id = ''i1'', iec_agent_id = ''a1''\<rparr>" for c
    by (rule reconciliation_leaves_none_ready [OF rec sample_candidates]) (use that in \<open>auto simp: sample_idle_def sample_eval\<close>)
  then show ?thesis using rec by fastforce
qed

end
