(* ===== verification/Reviews.thy ===== *)
theory Reviews
  imports Issue_Execution Questions
begin

text \<open>
  Reviews (store/postgres/reviews.go, store/reviews.go) and the service that approves them
  (app/reviews.go). An approval has two phases: an intent is recorded, the reviewed revision is
  integrated outside the database, and the approval is completed or its failure recorded. The
  integration is a parameter of the service.
\<close>

section \<open>Commands and results\<close>

record review_filter =
  rvf_issue_id :: "id option"
  rvf_statuses :: "string list"

record begin_approval_command =
  bac_project_id :: string
  bac_review_id :: string
  bac_actor_id :: "string option"

record begin_approval_result =
  bar_review :: review
  bar_decision :: decision
  bar_run :: run

record complete_approval_command =
  cac_project_id :: string
  cac_review_id :: string
  cac_accepted_revision :: string
  cac_delivery_complete :: bool

record complete_approval_result =
  car_review :: review
  car_decision :: decision
  car_run :: run
  car_issue :: issue
  car_events :: "event list"

record fail_approval_command =
  fac_project_id :: string
  fac_review_id :: string
  fac_reason :: string

record review_changes_command =
  rcc_project_id :: string
  rcc_review_id :: string
  rcc_feedback :: string
  rcc_actor_id :: "string option"

record review_changes_result =
  rcr_review :: review
  rcr_decision :: decision
  rcr_run :: run
  rcr_job :: job
  rcr_issue :: issue
  rcr_events :: "event list"

section \<open>Reading\<close>

definition review_status_text :: "review_status \<Rightarrow> string" where
  "review_status_text s = (case s of REV_PENDING \<Rightarrow> ''PENDING'' | REV_APPROVED \<Rightarrow> ''APPROVED''
     | REV_CHANGES_REQUESTED \<Rightarrow> ''CHANGES_REQUESTED'' | REV_CANCELLED \<Rightarrow> ''CANCELLED'')"

definition actor_type_text :: "actor_type \<Rightarrow> string" where
  "actor_type_text a = (case a of ACT_HUMAN \<Rightarrow> ''HUMAN'' | ACT_SYSTEM \<Rightarrow> ''SYSTEM'' | ACT_AGENT \<Rightarrow> ''AGENT'')"

definition GetReview :: "id \<Rightarrow> id \<Rightarrow> (db, review) tx" where
  "GetReview projectID reviewID = sql_find db_reviews (\<lambda>d v. rev_project_id v = projectID \<and> rev_id v = reviewID)"

definition GetReviewByRun :: "id \<Rightarrow> id \<Rightarrow> (db, review) tx" where
  "GetReviewByRun projectID runID = sql_find db_reviews (\<lambda>d v. rev_project_id v = projectID \<and> rev_run_id v = runID)"

definition ListReviews :: "id \<Rightarrow> review_filter \<Rightarrow> (db, review list) tx" where
  "ListReviews projectID filt = tx_get (\<lambda>d. sort_key (\<lambda>v. (rev_requested_at v, rev_id v))
     (filter (\<lambda>v. rev_project_id v = projectID \<and>
        (rvf_issue_id filt = None \<or> rvf_issue_id filt = Some (rev_issue_id v)) \<and>
        (rvf_statuses filt = [] \<or> review_status_text (rev_status v) \<in> set (rvf_statuses filt))) (db_reviews d)))"

definition decisionByIDTx :: "id \<Rightarrow> id \<Rightarrow> (db, decision) tx" where
  "decisionByIDTx projectID decisionID =
     sql_find db_decisions (\<lambda>d c. dcs_project_id c = projectID \<and> dcs_id c = decisionID)"

definition GetDecision :: "id \<Rightarrow> id \<Rightarrow> (db, decision) tx" where
  "GetDecision projectID decisionID = decisionByIDTx projectID decisionID"

text \<open>
  The Run, the Review and the Issue under their locks. The Review is read before and after the Run
  is locked; within one transaction of the model both reads give the same row.
\<close>

definition lockReviewCommandState :: "id \<Rightarrow> id \<Rightarrow> (db, review \<times> run \<times> issue) tx" where
  "lockReviewCommandState projectID reviewID =
     tx_bind (GetReview projectID reviewID) (\<lambda>initial.
     tx_bind (sql_find db_runs (\<lambda>d r. run_project_id r = rev_project_id initial \<and> run_id r = rev_run_id initial \<and>
                run_issue_id r = rev_issue_id initial)) (\<lambda>run.
     tx_bind (GetReview projectID reviewID) (\<lambda>review.
     tx_bind (tx_guard (rev_run_id review = rev_run_id initial \<and> rev_issue_id review = rev_issue_id initial) ErrConflict) (\<lambda>_.
     tx_bind (sql_find db_issues (\<lambda>d i. iss_project_id i = rev_project_id review \<and> iss_id i = rev_issue_id review \<and>
                exists_row (\<lambda>p. prj_id p = iss_project_id i) (db_projects d))) (\<lambda>issue.
     tx_return (review, run, issue))))))"

definition ensureLatestReviewAttempt :: "run \<Rightarrow> (db, unit) tx" where
  "ensureLatestReviewAttempt run =
     tx_bind (sql_exists db_runs (\<lambda>d r. run_project_id r = run_project_id run \<and> run_issue_id r = run_issue_id run \<and>
                run_attempt r > run_attempt run \<and> run_agent_id r = run_agent_id run)) (\<lambda>newer.
     tx_guard (\<not> newer) ErrConflict)"

text \<open>
  Go's decoder takes a field whose name differs in case only, and folds U+017F to s and U+212A to k;
  the last such field counts, a null leaves the value alone and a value of another type is an error.
\<close>

fun fold_name :: "string \<Rightarrow> string" where
  "fold_name (a # b # c # s) =
     (if byte a = 0xE2 \<and> byte b = 0x84 \<and> byte c = 0xAA then CHR ''k'' # fold_name s
      else if byte a = 0xC5 \<and> byte b = 0xBF then CHR ''s'' # fold_name (c # s)
      else (if CHR ''A'' \<le> a \<and> a \<le> CHR ''Z'' then char_of (byte a + 32) else a) # fold_name (b # c # s))"
| "fold_name [a, b] =
     (if byte a = 0xC5 \<and> byte b = 0xBF then ''s''
      else (if CHR ''A'' \<le> a \<and> a \<le> CHR ''Z'' then char_of (byte a + 32) else a) # fold_name [b])"
| "fold_name [a] = [if CHR ''A'' \<le> a \<and> a \<le> CHR ''Z'' then char_of (byte a + 32) else a]"
| "fold_name [] = []"

fun string_field :: "string \<Rightarrow> (string \<times> json) list \<Rightarrow> string \<Rightarrow> string option" where
  "string_field name [] v = Some v"
| "string_field name ((k, j) # fs) v =
     (if fold_name k \<noteq> fold_name name then string_field name fs v
      else case j of
        JStr s \<Rightarrow> string_field name fs s
      | JNull \<Rightarrow> string_field name fs v
      | _ \<Rightarrow> None)"

definition decisionHasAcceptedRevision :: "decision \<Rightarrow> string \<Rightarrow> bool" where
  "decisionHasAcceptedRevision decision revision \<longleftrightarrow>
     (case dcs_safe_details decision of
        JObj fs \<Rightarrow> string_field ''acceptedRevision'' fs [] = Some revision
      | JNull \<Rightarrow> [] = revision
      | _ \<Rightarrow> False)"
section \<open>Writes\<close>

definition insert_review_decision :: "review \<Rightarrow> string \<Rightarrow> string \<Rightarrow> actor_type \<Rightarrow> string option \<Rightarrow> json \<Rightarrow> (db, decision) tx" where
  "insert_review_decision review kind outcome actorType actorID details =
     tx_bind gen_random_uuid (\<lambda>uid.
     tx_bind (tx_get db_now) (\<lambda>now.
     sql_insert db_decisions db_decisions_update decision_unique decision_check notFound
       \<lparr>dcs_id = uid, dcs_project_id = rev_project_id review, dcs_issue_id = Some (rev_issue_id review),
        dcs_run_id = Some (rev_run_id review), dcs_question_id = None, dcs_kind = kind, dcs_outcome = outcome,
        dcs_actor_type = actorType, dcs_actor_id = actorID, dcs_safe_details = details, dcs_created_at = now\<rparr>))"

text \<open>The two updates of a pending Review: a new decision while it stays pending, and the verdict.\<close>

definition set_review_decision :: "review \<Rightarrow> id \<Rightarrow> (db, review) tx" where
  "set_review_decision review decisionID =
     sql_update_row db_reviews db_reviews_update
       (\<lambda>d v. rev_project_id v = rev_project_id review \<and> rev_id v = rev_id review \<and> rev_status v = REV_PENDING)
       (\<lambda>d v. v\<lparr>rev_decision_id := Some decisionID, rev_updated_at := db_now d\<rparr>)"

definition decide_review :: "review \<Rightarrow> review_status \<Rightarrow> id \<Rightarrow> (db, review) tx" where
  "decide_review review status decisionID =
     sql_update_row db_reviews db_reviews_update
       (\<lambda>d v. rev_project_id v = rev_project_id review \<and> rev_id v = rev_id review \<and> rev_status v = REV_PENDING)
       (\<lambda>d v. v\<lparr>rev_status := status, rev_decision_id := Some decisionID, rev_decided_at := Some (db_now d),
                rev_updated_at := db_now d\<rparr>)"

definition complete_reviewed_run :: "run \<Rightarrow> (db, run) tx" where
  "complete_reviewed_run run =
     sql_update_row db_runs db_runs_update
       (\<lambda>d r. run_project_id r = run_project_id run \<and> run_id r = run_id run \<and> run_status r = RUN_READY_FOR_REVIEW)
       (\<lambda>d r. r\<lparr>run_status := RUN_COMPLETED, run_completed_at := Some (db_now d), run_updated_at := db_now d\<rparr>)"

definition review_event :: "run \<Rightarrow> review \<Rightarrow> string \<Rightarrow> json \<Rightarrow> event" where
  "review_event run review ty payload = (run_event run ty payload)\<lparr>evt_project_id := rev_project_id review\<rparr>"

definition appendReviewDecisionEvents :: "run \<Rightarrow> review \<Rightarrow> decision \<Rightarrow> string \<Rightarrow> (db, event list) tx" where
  "appendReviewDecisionEvents run review decision reviewEventType =
     tx_bind (appendEventTx (review_event run review reviewEventType
       (JObj [(''decisionId'', JStr (dcs_id decision)), (''reviewId'', JStr (rev_id review))]))) (\<lambda>reviewEvent.
     tx_bind (appendEventTx (review_event run review ''decision.recorded''
       (JObj [(''actorId'', json_option JStr (dcs_actor_id decision)), (''actorType'', JStr (actor_type_text (dcs_actor_type decision))),
              (''decisionId'', JStr (dcs_id decision)), (''kind'', JStr (dcs_kind decision)),
              (''outcome'', JStr (dcs_outcome decision)), (''reviewId'', JStr (rev_id review))]))) (\<lambda>decisionEvent.
     if run_status run = RUN_COMPLETED then
       tx_bind (appendEventTx (review_event run review ''run.completed'' EmptyObject)) (\<lambda>completedEvent.
       tx_return [reviewEvent, decisionEvent, completedEvent])
     else tx_return [reviewEvent, decisionEvent]))"

section \<open>Approval\<close>

definition approval_intent :: "decision \<Rightarrow> bool" where
  "approval_intent c \<longleftrightarrow> dcs_kind c = ''REVIEW_APPROVAL_INTENT'' \<and> dcs_outcome c = ''PENDING''"

definition record_intent :: "begin_approval_command \<Rightarrow> review \<Rightarrow> run \<Rightarrow> (db, begin_approval_result) tx" where
  "record_intent input review run =
     tx_bind (insert_review_decision review ''REVIEW_APPROVAL_INTENT'' ''PENDING'' ACT_HUMAN (bac_actor_id input) EmptyObject) (\<lambda>decision.
     tx_bind (set_review_decision review (dcs_id decision)) (\<lambda>review.
     tx_return \<lparr>bar_review = review, bar_decision = decision, bar_run = run\<rparr>))"

definition begin_approval_tx :: "begin_approval_command \<Rightarrow> (db, begin_approval_result) tx" where
  "begin_approval_tx input =
     tx_bind (lockReviewCommandState (bac_project_id input) (bac_review_id input)) (\<lambda>(review, run, _).
     tx_bind (tx_guard (\<not> (rev_status review \<noteq> REV_PENDING \<or> run_status run \<noteq> RUN_READY_FOR_REVIEW)) ErrConflict) (\<lambda>_.
     tx_bind (ensureLatestReviewAttempt run) (\<lambda>_.
     case rev_decision_id review of
       None \<Rightarrow> record_intent input review run
     | Some decisionID \<Rightarrow>
         tx_bind (decisionByIDTx (rev_project_id review) decisionID) (\<lambda>decision.
         if approval_intent decision
         then tx_return \<lparr>bar_review = review, bar_decision = decision, bar_run = run\<rparr>
         else if dcs_kind decision \<noteq> ''REVIEW_APPROVAL_FAILED'' then tx_fail ErrConflict
         else record_intent input review run))))"

definition BeginReviewApproval :: "begin_approval_command \<Rightarrow> time \<Rightarrow> db \<Rightarrow> (store_error + begin_approval_result) \<times> db" where
  "BeginReviewApproval input now d =
     (if TrimSpace (bac_project_id input) = [] \<or> TrimSpace (bac_review_id input) = [] then (Inl ErrInvalidArgument, d)
      else run_tx now (begin_approval_tx input) d)"

text \<open>An approval that is repeated: the same verdict on the same revision, in the same delivery state.\<close>

definition approved_already :: "complete_approval_command \<Rightarrow> review \<Rightarrow> run \<Rightarrow> issue \<Rightarrow> (db, complete_approval_result) tx" where
  "approved_already input review run issue =
     (case rev_decision_id review of
        None \<Rightarrow> tx_fail ErrConflict
      | Some decisionID \<Rightarrow>
          tx_bind (tx_guard (if cac_delivery_complete input then run_status run = RUN_COMPLETED
                             else run_status run = RUN_READY_FOR_REVIEW) ErrConflict) (\<lambda>_.
          tx_bind (decisionByIDTx (rev_project_id review) decisionID) (\<lambda>decision.
          tx_bind (tx_guard (\<not> (dcs_kind decision \<noteq> ''REVIEW'' \<or> dcs_outcome decision \<noteq> ''APPROVED'' \<or>
                     \<not> decisionHasAcceptedRevision decision (cac_accepted_revision input))) ErrConflict) (\<lambda>_.
          tx_return \<lparr>car_review = review, car_decision = decision, car_run = run, car_issue = issue, car_events = []\<rparr>))))"

definition pending_intent :: "review \<Rightarrow> run \<Rightarrow> bool \<Rightarrow> (db, decision) tx" where
  "pending_intent review run latest =
     (case (rev_status review, run_status run, rev_decision_id review) of
        (REV_PENDING, RUN_READY_FOR_REVIEW, Some decisionID) \<Rightarrow>
          tx_bind (if latest then ensureLatestReviewAttempt run else tx_return ()) (\<lambda>_.
          tx_bind (decisionByIDTx (rev_project_id review) decisionID) (\<lambda>intent.
          tx_bind (tx_guard (approval_intent intent) ErrConflict) (\<lambda>_.
          tx_return intent)))
      | _ \<Rightarrow> tx_fail ErrConflict)"

definition approve_review :: "complete_approval_command \<Rightarrow> review \<Rightarrow> run \<Rightarrow> issue \<Rightarrow> (db, complete_approval_result) tx" where
  "approve_review input review run issue =
     tx_bind (pending_intent review run True) (\<lambda>intent.
     tx_bind (insert_review_decision review ''REVIEW'' ''APPROVED'' (dcs_actor_type intent) (dcs_actor_id intent)
                (JObj [(''acceptedRevision'', JStr (cac_accepted_revision input)),
                       (''deliveryComplete'', JBool (cac_delivery_complete input))])) (\<lambda>decision.
     tx_bind (decide_review review REV_APPROVED (dcs_id decision)) (\<lambda>review.
     tx_bind (if cac_delivery_complete input then complete_reviewed_run run else tx_return run) (\<lambda>run.
     tx_bind (appendReviewDecisionEvents run review decision ''review.approved'') (\<lambda>events.
     tx_return \<lparr>car_review = review, car_decision = decision, car_run = run, car_issue = issue, car_events = events\<rparr>)))))"

definition complete_approval_tx :: "complete_approval_command \<Rightarrow> (db, complete_approval_result) tx" where
  "complete_approval_tx input =
     tx_bind (lockReviewCommandState (cac_project_id input) (cac_review_id input)) (\<lambda>(review, run, issue).
     if rev_status review = REV_APPROVED then approved_already input review run issue
     else approve_review input review run issue)"

definition CompleteReviewApproval :: "complete_approval_command \<Rightarrow> time \<Rightarrow> db \<Rightarrow> (store_error + complete_approval_result) \<times> db" where
  "CompleteReviewApproval input now d =
     (if TrimSpace (cac_project_id input) = [] \<or> TrimSpace (cac_review_id input) = [] \<or> TrimSpace (cac_accepted_revision input) = []
      then (Inl ErrInvalidArgument, d)
      else run_tx now (complete_approval_tx input) d)"

definition fail_approval_tx :: "fail_approval_command \<Rightarrow> string \<Rightarrow> (db, review) tx" where
  "fail_approval_tx input reason =
     tx_bind (lockReviewCommandState (fac_project_id input) (fac_review_id input)) (\<lambda>(review, run, _).
     tx_bind (pending_intent review run False) (\<lambda>intent.
     tx_bind (insert_review_decision review ''REVIEW_APPROVAL_FAILED'' ''FAILED'' (dcs_actor_type intent) (dcs_actor_id intent)
                (JObj [(''reason'', JStr reason)])) (\<lambda>failed.
     set_review_decision review (dcs_id failed))))"

definition FailReviewApproval :: "fail_approval_command \<Rightarrow> time \<Rightarrow> db \<Rightarrow> (store_error + review) \<times> db" where
  "FailReviewApproval input now d =
     (let reason = TrimSpace (fac_reason input) in
      if TrimSpace (fac_project_id input) = [] \<or> TrimSpace (fac_review_id input) = [] \<or> reason = [] \<or> length reason > 4096
      then (Inl ErrInvalidArgument, d)
      else run_tx now (fail_approval_tx input reason) d)"

section \<open>Requested changes\<close>

definition maxReviewFeedbackCharacters :: nat where
  "maxReviewFeedbackCharacters = 32768"

definition changes_key :: "review \<Rightarrow> string" where
  "changes_key review = ''review:'' @ rev_id review @ '':changes''"

definition existingRequestedChanges :: "review \<Rightarrow> issue \<Rightarrow> (db, review_changes_result) tx" where
  "existingRequestedChanges review issue =
     (case rev_decision_id review of
        None \<Rightarrow> tx_fail ErrConflict
      | Some decisionID \<Rightarrow>
          tx_bind (decisionByIDTx (rev_project_id review) decisionID) (\<lambda>decision.
          tx_bind (tx_guard (\<not> (dcs_kind decision \<noteq> ''REVIEW'' \<or> dcs_outcome decision \<noteq> ''CHANGES_REQUESTED'')) ErrConflict) (\<lambda>_.
          tx_bind (sql_find db_jobs (\<lambda>d j. job_project_id j = rev_project_id review \<and> job_idempotency_key j = changes_key review)) (\<lambda>job.
          tx_bind (sql_find db_runs (\<lambda>d r. run_project_id r = rev_project_id review \<and> run_id r = job_run_id job)) (\<lambda>run.
          tx_return \<lparr>rcr_review = review, rcr_decision = decision, rcr_run = run, rcr_job = job, rcr_issue = issue, rcr_events = []\<rparr>)))))"

text \<open>A pending intent bars the request: the integration may be under way.\<close>

definition no_intent :: "review \<Rightarrow> (db, unit) tx" where
  "no_intent review =
     (case rev_decision_id review of
        None \<Rightarrow> tx_return ()
      | Some decisionID \<Rightarrow>
          tx_bind (decisionByIDTx (rev_project_id review) decisionID) (\<lambda>decision.
          tx_guard (\<not> approval_intent decision) ErrConflict))"

definition queue_changes :: "review_changes_command \<Rightarrow> string \<Rightarrow> review \<Rightarrow> run \<Rightarrow> id \<Rightarrow> issue \<Rightarrow> (db, review_changes_result) tx" where
  "queue_changes input feedback review run agentID issue =
     tx_bind (insert_review_decision review ''REVIEW'' ''CHANGES_REQUESTED'' ACT_HUMAN (rcc_actor_id input)
                (JObj [(''feedback'', JStr feedback)])) (\<lambda>decision.
     tx_bind (decide_review review REV_CHANGES_REQUESTED (dcs_id decision)) (\<lambda>review.
     tx_bind (complete_reviewed_run run) (\<lambda>run.
     tx_bind (nextIssueRunAttempt (run_project_id run) (run_issue_id run)) (\<lambda>nextAttempt.
     tx_bind (createQueuedRunTx \<lparr>qri_project_id = run_project_id run, qri_issue_id = run_issue_id run,
                qri_workspace_id = run_workspace_id run, qri_agent_id = agentID, qri_attempt = nextAttempt,
                qri_idempotency_key = changes_key review\<rparr>) (\<lambda>(nextRun, job, createdEvent).
     tx_bind (appendReviewDecisionEvents run review decision ''review.changes_requested'') (\<lambda>events.
     tx_return \<lparr>rcr_review = review, rcr_decision = decision, rcr_run = nextRun, rcr_job = job, rcr_issue = issue,
                rcr_events = events @ [createdEvent]\<rparr>))))))"

definition request_changes_tx :: "review_changes_command \<Rightarrow> string \<Rightarrow> (db, review_changes_result) tx" where
  "request_changes_tx input feedback =
     tx_bind (lockReviewCommandState (rcc_project_id input) (rcc_review_id input)) (\<lambda>(review, run, issue).
     if rev_status review = REV_CHANGES_REQUESTED then existingRequestedChanges review issue
     else case run_agent_id run of
       None \<Rightarrow> tx_fail ErrConflict
     | Some agentID \<Rightarrow>
         tx_bind (tx_guard (\<not> (rev_status review \<noteq> REV_PENDING \<or> run_status run \<noteq> RUN_READY_FOR_REVIEW)) ErrConflict) (\<lambda>_.
         tx_bind (ensureLatestReviewAttempt run) (\<lambda>_.
         tx_bind (no_intent review) (\<lambda>_.
         queue_changes input feedback review run agentID issue))))"

definition RequestReviewChanges :: "review_changes_command \<Rightarrow> time \<Rightarrow> db \<Rightarrow> (store_error + review_changes_result) \<times> db" where
  "RequestReviewChanges input now d =
     (let feedback = TrimSpace (rcc_feedback input) in
      if TrimSpace (rcc_project_id input) = [] \<or> TrimSpace (rcc_review_id input) = [] \<or> feedback = [] \<or>
         RuneCountInString feedback > maxReviewFeedbackCharacters
      then (Inl ErrInvalidArgument, d)
      else run_tx now (request_changes_tx input feedback) d)"

section \<open>Frames\<close>

lemma read_reviews [read_rules]:
  "tx_keeps_on UNIV (=) (GetReview p x)" "tx_keeps_on UNIV (=) (decisionByIDTx p c)"
  "tx_keeps_on UNIV (=) (lockReviewCommandState p x)" "tx_keeps_on UNIV (=) (ensureLatestReviewAttempt run)"
  "tx_keeps_on UNIV (=) (pending_intent review run latest)" "tx_keeps_on UNIV (=) (no_intent review)"
  "tx_keeps_on UNIV (=) (approved_already input review run issue)" "tx_keeps_on UNIV (=) (existingRequestedChanges review issue)"
proof -
  show get: "tx_keeps_on UNIV (=) (GetReview p x)" "tx_keeps_on UNIV (=) (decisionByIDTx p c)"
    "tx_keeps_on UNIV (=) (ensureLatestReviewAttempt run)" for p x c
    unfolding GetReview_def decisionByIDTx_def ensureLatestReviewAttempt_def by (intro read_rules)+
  show "tx_keeps_on UNIV (=) (lockReviewCommandState p x)" "tx_keeps_on UNIV (=) (pending_intent review run latest)"
    "tx_keeps_on UNIV (=) (no_intent review)" "tx_keeps_on UNIV (=) (approved_already input review run issue)"
    "tx_keeps_on UNIV (=) (existingRequestedChanges review issue)"
    unfolding lockReviewCommandState_def pending_intent_def no_intent_def approved_already_def existingRequestedChanges_def
    by (intro read_rules get | (split prod.split run_status.split review_status.split option.split; intro conjI impI allI))+
qed

lemmas [quiet_rules] = read_reviews [THEN quiet_reads_only]

lemmas [history_rules] = read_reviews [THEN history_reads_only]

lemma quiet_review [quiet_rules]:
  "tx_keeps quiet (insert_review_decision review k o1 a i details)" "tx_keeps quiet (set_review_decision review c)"
  "tx_keeps quiet (decide_review review st c)" "tx_keeps quiet (complete_reviewed_run run)"
  "tx_keeps quiet (appendReviewDecisionEvents run review decision ty)"
  unfolding insert_review_decision_def set_review_decision_def decide_review_def complete_reviewed_run_def
    appendReviewDecisionEvents_def
  by (intro quiet_rules quiet_update_runs; simp add: executing_def)+

lemma history_review [history_rules]:
  "tx_keeps history (insert_review_decision review k o1 a i details)" "tx_keeps history (set_review_decision review c)"
  "tx_keeps history (decide_review review st c)" "tx_keeps history (complete_reviewed_run run)"
  "tx_keeps history (appendReviewDecisionEvents run review decision ty)"
  unfolding insert_review_decision_def set_review_decision_def decide_review_def complete_reviewed_run_def
    appendReviewDecisionEvents_def
  by (intro history_rules history_update_runs; simp add: terminal_run_def)+

lemma quiet_review_tx [quiet_rules]:
  "tx_keeps quiet (begin_approval_tx input1)" "tx_keeps quiet (complete_approval_tx input2)"
  "tx_keeps quiet (fail_approval_tx input3 reason)" "tx_keeps quiet (request_changes_tx input4 feedback)"
  unfolding begin_approval_tx_def record_intent_def complete_approval_tx_def approve_review_def fail_approval_tx_def
    request_changes_tx_def queue_changes_def
  by (intro quiet_rules)+

lemma history_review_tx [history_rules]:
  "tx_keeps history (begin_approval_tx input1)" "tx_keeps history (complete_approval_tx input2)"
  "tx_keeps history (fail_approval_tx input3 reason)" "tx_keeps history (request_changes_tx input4 feedback)"
  unfolding begin_approval_tx_def record_intent_def complete_approval_tx_def approve_review_def fail_approval_tx_def
    request_changes_tx_def queue_changes_def
  by (intro history_rules)+

lemma review_quiet:
  "BeginReviewApproval input1 now d = (r1, d') \<Longrightarrow> quiet d d'" "CompleteReviewApproval input2 now d = (r2, d') \<Longrightarrow> quiet d d'"
  "FailReviewApproval input3 now d = (r3, d') \<Longrightarrow> quiet d d'" "RequestReviewChanges input4 now d = (r4, d') \<Longrightarrow> quiet d d'"
  unfolding BeginReviewApproval_def CompleteReviewApproval_def FailReviewApproval_def RequestReviewChanges_def Let_def
  by (auto split: if_splits intro: quiet.refl elim!: quiet.keeps_run_tx [rotated] intro!: quiet_rules)

lemma review_history:
  "BeginReviewApproval input1 now d = (r1, d') \<Longrightarrow> history d d'" "CompleteReviewApproval input2 now d = (r2, d') \<Longrightarrow> history d d'"
  "FailReviewApproval input3 now d = (r3, d') \<Longrightarrow> history d d'" "RequestReviewChanges input4 now d = (r4, d') \<Longrightarrow> history d d'"
  unfolding BeginReviewApproval_def CompleteReviewApproval_def FailReviewApproval_def RequestReviewChanges_def Let_def
  by (auto split: if_splits intro: history.refl elim!: history.keeps_run_tx [rotated] intro!: history_rules)

section \<open>The protocol of a Review\<close>

text \<open>The abstract state of a Review, and the steps the protocol allows.\<close>

datatype review_phase = Open | Approving | Approval_Failed | Approved | Changes_Requested | Cancelled | Unknown

inductive phase_step :: "review_phase \<Rightarrow> review_phase \<Rightarrow> bool" where
  intend: "phase_step Open Approving"
| retry: "phase_step Approval_Failed Approving"
| approve: "phase_step Approving Approved"
| give_up: "phase_step Approving Approval_Failed"
| change: "phase_step Open Changes_Requested"
| change_after_failure: "phase_step Approval_Failed Changes_Requested"

inductive_simps phase_step_from: "phase_step Approving y" "phase_step Approved y" "phase_step Changes_Requested y" "phase_step Cancelled y"

definition decision_of :: "db \<Rightarrow> review \<Rightarrow> decision option" where
  "decision_of d v = (case rev_decision_id v of None \<Rightarrow> None
     | Some c \<Rightarrow> List.find (\<lambda>x. dcs_project_id x = rev_project_id v \<and> dcs_id x = c) (db_decisions d))"

definition phase_of :: "db \<Rightarrow> review \<Rightarrow> review_phase" where
  "phase_of d v = (case rev_status v of
     REV_CANCELLED \<Rightarrow> Cancelled
   | REV_PENDING \<Rightarrow> (if rev_decision_id v = None then Open else case decision_of d v of
        None \<Rightarrow> Unknown
      | Some c \<Rightarrow> if approval_intent c then Approving else if dcs_kind c = ''REVIEW_APPROVAL_FAILED'' then Approval_Failed else Unknown)
   | REV_APPROVED \<Rightarrow> (case decision_of d v of None \<Rightarrow> Unknown
      | Some c \<Rightarrow> if dcs_kind c = ''REVIEW'' \<and> dcs_outcome c = ''APPROVED'' then Approved else Unknown)
   | REV_CHANGES_REQUESTED \<Rightarrow> (case decision_of d v of None \<Rightarrow> Unknown
      | Some c \<Rightarrow> if dcs_kind c = ''REVIEW'' \<and> dcs_outcome c = ''CHANGES_REQUESTED'' then Changes_Requested else Unknown))"

text \<open>
  Every Review is in a phase of the protocol: its decision is the one its status speaks of.
\<close>

definition reviews_wf :: "db \<Rightarrow> bool" where
  "reviews_wf d \<longleftrightarrow> distinct (map rev_id (db_reviews d)) \<and> (\<forall>v\<in>set (db_reviews d). phase_of d v \<noteq> Unknown)"

definition same_reviews :: "db \<Rightarrow> db \<Rightarrow> bool" where
  "same_reviews d d' \<longleftrightarrow> db_reviews d' = db_reviews d \<and> db_decisions d' = db_decisions d"

interpretation review_rows: request_frame same_reviews
  by unfold_locales
    (auto simp: same_reviews_def tx_keeps_def gen_random_uuid_def sql_insert_Inr appendEventTx_Inr next_event_sequence_def tx_simps
      split: option.splits)

text \<open>One command: a new decision, and the pending Review it is about moved to a status.\<close>

definition moved :: "db \<Rightarrow> db \<Rightarrow> review \<Rightarrow> decision \<Rightarrow> review_status \<Rightarrow> bool" where
  "moved d d' v c st \<longleftrightarrow> v \<in> set (db_reviews d) \<and> rev_status v = REV_PENDING \<and>
     (\<forall>x\<in>set (db_decisions d). dcs_id x \<noteq> dcs_id c) \<and> db_decisions d' = db_decisions d @ [c] \<and>
     dcs_project_id c = rev_project_id v \<and>
     (\<exists>f. (\<forall>x. rev_status (f x) = st \<and> rev_decision_id (f x) = Some (dcs_id c) \<and> rev_id (f x) = rev_id x \<and>
             rev_project_id (f x) = rev_project_id x) \<and>
        db_reviews d' = update_rows (\<lambda>x. rev_project_id x = rev_project_id v \<and> rev_id x = rev_id v \<and>
          rev_status x = REV_PENDING) f (db_reviews d))"

lemma find_append_row: "List.find p (xs @ ys) = (case List.find p xs of Some x \<Rightarrow> Some x | None \<Rightarrow> List.find p ys)"
  by (induction xs) auto

lemma decision_of_append:
  assumes "db_decisions d' = db_decisions d @ [c]" "\<forall>x\<in>set (db_decisions d). dcs_id x \<noteq> dcs_id c"
  shows "decision_of d v = Some x \<Longrightarrow> decision_of d' v = Some x"
    "rev_decision_id v = Some (dcs_id c) \<Longrightarrow> dcs_project_id c = rev_project_id v \<Longrightarrow> decision_of d' v = Some c"
proof -
  show "decision_of d v = Some x \<Longrightarrow> decision_of d' v = Some x"
    using assms(1) by (cases "rev_decision_id v") (simp_all add: decision_of_def find_append_row)
  show "rev_decision_id v = Some (dcs_id c) \<Longrightarrow> dcs_project_id c = rev_project_id v \<Longrightarrow> decision_of d' v = Some c"
    using assms by (simp add: decision_of_def find_snoc)
qed

lemma phase_kept:
  assumes "db_decisions d' = db_decisions d @ [c]" "\<forall>x\<in>set (db_decisions d). dcs_id x \<noteq> dcs_id c"
    and "phase_of d v \<noteq> Unknown"
  shows "phase_of d' v = phase_of d v"
proof (cases "decision_of d v")
  case (Some x)
  then have "decision_of d' v = decision_of d v" using decision_of_append(1) [OF assms(1,2) Some] by simp
  then show ?thesis unfolding phase_of_def by (rule ssubst) (rule refl)
next
  case None
  then show ?thesis using assms(3) by (auto simp: phase_of_def split: review_status.splits if_splits)
qed

lemma moved_phases:
  assumes wf: "reviews_wf d" and m: "moved d d' v c st" and x: "x \<in> set (db_reviews d)"
  shows "\<exists>x'\<in>set (db_reviews d'). rev_id x' = rev_id x \<and> rev_project_id x' = rev_project_id x \<and>
     (if x = v then rev_status x' = st \<and> decision_of d' x' = Some c \<and> rev_decision_id x' \<noteq> None else phase_of d' x' = phase_of d x)"
proof -
  obtain f where f: "\<And>x. rev_status (f x) = st \<and> rev_decision_id (f x) = Some (dcs_id c) \<and> rev_id (f x) = rev_id x \<and>
             rev_project_id (f x) = rev_project_id x"
      "db_reviews d' = update_rows (\<lambda>x. rev_project_id x = rev_project_id v \<and> rev_id x = rev_id v \<and>
          rev_status x = REV_PENDING) f (db_reviews d)"
    using m by (auto simp: moved_def)
  note dec = m [unfolded moved_def, THEN conjunct2, THEN conjunct2]
  have new: "\<forall>x\<in>set (db_decisions d). dcs_id x \<noteq> dcs_id c" "db_decisions d' = db_decisions d @ [c]" "dcs_project_id c = rev_project_id v"
    using dec by blast+
  show ?thesis
  proof (cases "x = v")
    case True
    have "f v \<in> set (db_reviews d')" using m f(2) by (force simp: moved_def set_update_rows)
    moreover have "decision_of d' (f v) = Some c"
      by (rule decision_of_append(2) [OF new(2,1)]) (use f(1) [of v] new(3) in auto)
    ultimately show ?thesis using True f(1) [of v] by auto
  next
    case False
    have "rev_id x \<noteq> rev_id v"
      using wf x m False distinct_key_eq [of rev_id "db_reviews d" x v] by (auto simp: reviews_wf_def moved_def)
    then have "x \<in> set (db_reviews d')" using f(2) x by (force simp: set_update_rows)
    moreover have "phase_of d' x = phase_of d x" by (rule phase_kept [OF new(2,1)]) (use wf x in \<open>simp add: reviews_wf_def\<close>)
    ultimately show ?thesis using False by auto
  qed
qed

lemma moved_wf:
  assumes wf: "reviews_wf d" and m: "moved d d' v c st" and ok: "\<And>x. rev_status x = st \<Longrightarrow> decision_of d' x = Some c \<Longrightarrow> rev_decision_id x \<noteq> None \<Longrightarrow> phase_of d' x \<noteq> Unknown"
  shows "reviews_wf d'"
proof -
  obtain f where f: "\<And>x. rev_status (f x) = st \<and> rev_decision_id (f x) = Some (dcs_id c) \<and> rev_id (f x) = rev_id x \<and>
             rev_project_id (f x) = rev_project_id x"
      "db_reviews d' = update_rows (\<lambda>x. rev_project_id x = rev_project_id v \<and> rev_id x = rev_id v \<and>
          rev_status x = REV_PENDING) f (db_reviews d)"
    using m by (auto simp: moved_def)
  have "map rev_id (db_reviews d') = map rev_id (db_reviews d)" using f by (simp add: map_update_rows)
  moreover have "phase_of d' y \<noteq> Unknown" if "y \<in> set (db_reviews d')" for y
  proof -
    have "rev_id y \<in> rev_id ` set (db_reviews d)"
      using that \<open>map rev_id (db_reviews d') = map rev_id (db_reviews d)\<close> by (metis image_eqI list.set_map)
    then obtain x where x: "x \<in> set (db_reviews d)" "rev_id x = rev_id y" by auto
    obtain x' where x': "x' \<in> set (db_reviews d')" "rev_id x' = rev_id x"
      "if x = v then rev_status x' = st \<and> decision_of d' x' = Some c \<and> rev_decision_id x' \<noteq> None else phase_of d' x' = phase_of d x"
      using moved_phases [OF wf m x(1)] by blast
    have "x' = y" using x' x that wf \<open>map rev_id (db_reviews d') = map rev_id (db_reviews d)\<close>
      by (intro distinct_key_eq [of rev_id "db_reviews d'"]) (auto simp: reviews_wf_def)
    then show ?thesis using x' ok wf x(1) by (auto simp: reviews_wf_def split: if_splits)
  qed
  ultimately show ?thesis using wf by (simp add: reviews_wf_def)
qed

lemma insert_review_decision_row:
  assumes "insert_review_decision v k o1 a i details d = (Inr c, d1)"
  shows "dcs_kind c = k" "dcs_outcome c = o1" "dcs_project_id c = rev_project_id v" "dcs_actor_type c = a" "dcs_actor_id c = i"
    "dcs_safe_details c = details" "\<forall>x\<in>set (db_decisions d). dcs_id x \<noteq> dcs_id c" "db_decisions d1 = db_decisions d @ [c]"
    "db_reviews d1 = db_reviews d" "db_runs d1 = db_runs d" "db_work_requests d1 = db_work_requests d"
  using assms unfolding insert_review_decision_def by (auto simp: tx_simps decision_unique_def)

lemma moved_by:
  assumes "insert_review_decision v k o1 a i details d = (Inr c, d1)" "v \<in> set (db_reviews d)" "rev_status v = REV_PENDING"
  shows "set_review_decision v (dcs_id c) d1 = (Inr v1, d2) \<Longrightarrow> same_reviews d2 d' \<Longrightarrow> moved d d' v c REV_PENDING"
    "decide_review v st (dcs_id c) d1 = (Inr v2, d2) \<Longrightarrow> same_reviews d2 d' \<Longrightarrow> moved d d' v c st"
proof -
  note c = insert_review_decision_row [OF assms(1)]
  show "moved d d' v c REV_PENDING" if "set_review_decision v (dcs_id c) d1 = (Inr v1, d2)" "same_reviews d2 d'"
    unfolding moved_def
    by (intro conjI exI [of _ "\<lambda>x. x\<lparr>rev_status := REV_PENDING, rev_decision_id := Some (dcs_id c), rev_updated_at := db_now d1\<rparr>"])
      (use that c assms(2,3) in \<open>auto simp: set_review_decision_def tx_simps same_reviews_def update_rows_def\<close>)
  show "moved d d' v c st" if "decide_review v st (dcs_id c) d1 = (Inr v2, d2)" "same_reviews d2 d'"
    unfolding moved_def
    by (intro conjI exI [of _ "\<lambda>x. x\<lparr>rev_status := st, rev_decision_id := Some (dcs_id c), rev_decided_at := Some (db_now d1),
        rev_updated_at := db_now d1\<rparr>"])
      (use that c assms(2,3) in \<open>auto simp: decide_review_def tx_simps same_reviews_def\<close>)
qed

lemma lock_review:
  assumes "lockReviewCommandState p x d = (Inr (v, run, issue), d1)"
  shows "d1 = d" "v \<in> set (db_reviews d)" "rev_id v = x" "rev_project_id v = p" "run \<in> set (db_runs d)"
    "run_id run = rev_run_id v" "run_project_id run = p" "run_issue_id run = rev_issue_id v"
  using assms by (auto simp: lockReviewCommandState_def GetReview_def tx_simps dest!: find_Some_in)

lemma decision_found:
  assumes "decisionByIDTx (rev_project_id v) c d = (Inr dec, d1)" "rev_decision_id v = Some c"
  shows "decision_of d v = Some dec" "d1 = d"
  using assms by (simp_all add: decisionByIDTx_def decision_of_def tx_simps)

text \<open>What each command does to the Reviews.\<close>

definition about :: "review \<Rightarrow> id \<Rightarrow> id \<Rightarrow> bool" where
  "about v p x \<longleftrightarrow> rev_project_id v = p \<and> rev_id v = x"

lemma begin_effect:
  assumes "begin_approval_tx input d = (Inr r, d')"
  shows "same_reviews d d' \<and> (\<exists>v\<in>set (db_reviews d). about v (bac_project_id input) (bac_review_id input) \<and> phase_of d v = Approving) \<or>
    (\<exists>v c. moved d d' v c REV_PENDING \<and> about v (bac_project_id input) (bac_review_id input) \<and> approval_intent c \<and>
      (phase_of d v = Open \<or> phase_of d v = Approval_Failed))"
proof -
  obtain v run issue where lock: "lockReviewCommandState (bac_project_id input) (bac_review_id input) d = (Inr (v, run, issue), d)"
    and pend: "rev_status v = REV_PENDING"
    and rest: "(case rev_decision_id v of
       None \<Rightarrow> record_intent input v run
     | Some decisionID \<Rightarrow>
         tx_bind (decisionByIDTx (rev_project_id v) decisionID) (\<lambda>decision.
         if approval_intent decision
         then tx_return \<lparr>bar_review = v, bar_decision = decision, bar_run = run\<rparr>
         else if dcs_kind decision \<noteq> ''REVIEW_APPROVAL_FAILED'' then tx_fail ErrConflict
         else record_intent input v run)) d = (Inr r, d')"
    using assms unfolding begin_approval_tx_def
    by (auto simp: tx_bind_Inr tx_guard_Inr ensureLatestReviewAttempt_def tx_simps dest: lock_review(1))
  have ab: "about v (bac_project_id input) (bac_review_id input)" "v \<in> set (db_reviews d)"
    using lock_review [OF lock] by (simp_all add: about_def)
  have intent: "\<exists>c. moved d d' v c REV_PENDING \<and> approval_intent c" if rec: "record_intent input v run d = (Inr r, d')"
  proof -
    obtain c d1 v1 where ins: "insert_review_decision v ''REVIEW_APPROVAL_INTENT'' ''PENDING'' ACT_HUMAN (bac_actor_id input) EmptyObject d = (Inr c, d1)"
      and set: "set_review_decision v (dcs_id c) d1 = (Inr v1, d')"
      using rec by (auto simp: record_intent_def tx_bind_Inr tx_return_eq)
    then show ?thesis
      using moved_by(1) [OF ins lock_review(2) [OF lock] pend set review_rows.refl] insert_review_decision_row(1,2) [OF ins]
      by (auto simp: approval_intent_def)
  qed
  show ?thesis
  proof (cases "rev_decision_id v")
    case None
    then have "phase_of d v = Open" using pend by (simp add: phase_of_def)
    then show ?thesis using intent rest None ab by auto
  next
    case (Some x)
    obtain dec d1 where by_id: "decisionByIDTx (rev_project_id v) x d = (Inr dec, d1)"
      using rest Some by (auto simp: tx_bind_Inr)
    note dec = decision_found [OF by_id Some]
    have "d' = d \<and> approval_intent dec \<or> \<not> approval_intent dec \<and> dcs_kind dec = ''REVIEW_APPROVAL_FAILED'' \<and> record_intent input v run d = (Inr r, d')"
      using rest by_id dec(2) Some by (auto simp: tx_bind_Inr tx_simps split: if_splits)
    then show ?thesis
    proof (elim disjE)
      assume same: "d' = d \<and> approval_intent dec"
      then have "phase_of d v = Approving" using pend Some dec(1) by (simp add: phase_of_def)
      then show ?thesis using same ab review_rows.refl by blast
    next
      assume a: "\<not> approval_intent dec \<and> dcs_kind dec = ''REVIEW_APPROVAL_FAILED'' \<and> record_intent input v run d = (Inr r, d')"
      then have "phase_of d v = Approval_Failed" using pend Some dec(1) by (simp add: phase_of_def)
      then show ?thesis using intent a ab by blast
    qed
  qed
qed

lemma intent_found:
  assumes "pending_intent v run latest d = (Inr intent, d1)"
  shows "rev_status v = REV_PENDING" "run_status run = RUN_READY_FOR_REVIEW" "phase_of d v = Approving" "decision_of d v = Some intent" "d1 = d"
    "latest \<Longrightarrow> \<forall>r\<in>set (db_runs d). run_project_id r = run_project_id run \<and> run_issue_id r = run_issue_id run \<and>
       run_agent_id r = run_agent_id run \<longrightarrow> run_attempt r \<le> run_attempt run"
proof -
  obtain c where c: "rev_decision_id v = Some c" and st: "rev_status v = REV_PENDING" "run_status run = RUN_READY_FOR_REVIEW"
    and d: "decisionByIDTx (rev_project_id v) c d = (Inr intent, d)" "approval_intent intent" "d1 = d"
    and l: "latest \<Longrightarrow> ensureLatestReviewAttempt run d = (Inr (), d)"
    using assms unfolding pending_intent_def
    by (auto simp: tx_simps ensureLatestReviewAttempt_def decisionByIDTx_def split: review_status.splits run_status.splits option.splits if_splits)
  show "rev_status v = REV_PENDING" "run_status run = RUN_READY_FOR_REVIEW" "d1 = d" by (fact st d)+
  show dec: "decision_of d v = Some intent" using decision_found(1) [OF d(1) c] .
  show "phase_of d v = Approving" using st dec d(2) c by (simp add: phase_of_def)
  show "\<forall>r\<in>set (db_runs d). run_project_id r = run_project_id run \<and> run_issue_id r = run_issue_id run \<and>
       run_agent_id r = run_agent_id run \<longrightarrow> run_attempt r \<le> run_attempt run" if latest
    using l [OF that] by (auto simp: ensureLatestReviewAttempt_def tx_simps not_less)
qed

lemma fail_effect:
  assumes "fail_approval_tx input reason d = (Inr r, d')"
  shows "\<exists>v c. moved d d' v c REV_PENDING \<and> about v (fac_project_id input) (fac_review_id input) \<and>
    dcs_kind c = ''REVIEW_APPROVAL_FAILED'' \<and> phase_of d v = Approving"
proof -
  obtain v run issue d1 intent d2 c d3 where lock: "lockReviewCommandState (fac_project_id input) (fac_review_id input) d = (Inr (v, run, issue), d1)"
    and int: "pending_intent v run False d1 = (Inr intent, d2)"
    and ins: "insert_review_decision v ''REVIEW_APPROVAL_FAILED'' ''FAILED'' (dcs_actor_type intent) (dcs_actor_id intent) (JObj [(''reason'', JStr reason)]) d2 = (Inr c, d3)"
    and set: "set_review_decision v (dcs_id c) d3 = (Inr r, d')"
    using assms unfolding fail_approval_tx_def by (auto simp: tx_bind_Inr)
  note l = lock_review [OF lock] and i = intent_found [OF int]
  have "moved d d' v c REV_PENDING"
    using moved_by(1) [OF ins _ i(1) set review_rows.refl] l(1,2) i(5) by simp
  then show ?thesis using insert_review_decision_row(1) [OF ins] i(3) l(1,3,4) by (auto simp: about_def)
qed

lemma reviews_after:
  "tx_keeps same_reviews (appendReviewDecisionEvents run v c ty)" "tx_keeps same_reviews (complete_reviewed_run run)"
  "tx_keeps same_reviews (createQueuedRunTx queued)" "tx_keeps same_reviews (nextIssueRunAttempt p i)"
proof -
  show "tx_keeps same_reviews (appendReviewDecisionEvents run v c ty)" "tx_keeps same_reviews (createQueuedRunTx queued)"
    "tx_keeps same_reviews (nextIssueRunAttempt p i)"
    unfolding appendReviewDecisionEvents_def
    by (intro review_rows.keeps_intros review_rows.keeps_append review_rows.on_queued_run [THEN keeps_on_keeps]
        read_assignment(5) [THEN review_rows.keeps_on_read, THEN keeps_on_keeps])+
  show "tx_keeps same_reviews (complete_reviewed_run run)"
    by (auto simp: tx_keeps_def same_reviews_def complete_reviewed_run_def tx_simps)
qed

text \<open>The statements of an approval that takes effect.\<close>

lemma approve_steps:
  assumes "approve_review input v run issue d = (Inr r, d')"
  obtains intent c d1 v1 d2 run1 d3 where "pending_intent v run True d = (Inr intent, d)"
    "insert_review_decision v ''REVIEW'' ''APPROVED'' (dcs_actor_type intent) (dcs_actor_id intent)
       (JObj [(''acceptedRevision'', JStr (cac_accepted_revision input)), (''deliveryComplete'', JBool (cac_delivery_complete input))]) d
       = (Inr c, d1)"
    "decide_review v REV_APPROVED (dcs_id c) d1 = (Inr v1, d2)"
    "(if cac_delivery_complete input then complete_reviewed_run run else tx_return run) d2 = (Inr run1, d3)"
    "appendReviewDecisionEvents run1 v1 c ''review.approved'' d3 = (Inr (car_events r), d')"
    "car_review r = v1" "car_decision r = c" "car_run r = run1" "car_issue r = issue"
proof -
  obtain intent d0 where int: "pending_intent v run True d = (Inr intent, d0)"
    using assms by (auto simp: approve_review_def tx_bind_Inr)
  note d0 = intent_found(5) [OF int]
  show ?thesis
    using assms int d0 that unfolding approve_review_def
    by (auto simp only: tx_bind_Inr tx_return_eq sum.inject complete_approval_result.simps)
qed

lemma complete_effect:
  assumes "complete_approval_tx input d = (Inr r, d')"
  shows "same_reviews d d' \<and> (\<exists>v\<in>set (db_reviews d). about v (cac_project_id input) (cac_review_id input) \<and> phase_of d v = Approved) \<or>
    (\<exists>v c. moved d d' v c REV_APPROVED \<and> about v (cac_project_id input) (cac_review_id input) \<and> dcs_kind c = ''REVIEW'' \<and>
      dcs_outcome c = ''APPROVED'' \<and> phase_of d v = Approving)"
proof -
  obtain v run issue where lock: "lockReviewCommandState (cac_project_id input) (cac_review_id input) d = (Inr (v, run, issue), d)"
    and rest: "(if rev_status v = REV_APPROVED then approved_already input v run issue else approve_review input v run issue) d = (Inr r, d')"
    using assms unfolding complete_approval_tx_def by (auto simp: tx_bind_Inr dest: lock_review(1))
  have ab: "about v (cac_project_id input) (cac_review_id input)" "v \<in> set (db_reviews d)"
    using lock_review [OF lock] by (simp_all add: about_def)
  show ?thesis
  proof (cases "rev_status v = REV_APPROVED")
    case True
    then have al: "approved_already input v run issue d = (Inr r, d')" using rest by simp
    then have "d' = d" using read_state [OF read_reviews(7)] by simp
    moreover have "phase_of d v = Approved"
      using al True by (auto simp: approved_already_def decisionByIDTx_def phase_of_def decision_of_def tx_simps split: option.splits)
    ultimately show ?thesis using ab review_rows.refl by blast
  next
    case False
    then have "approve_review input v run issue d = (Inr r, d')" using rest by simp
    then show ?thesis
    proof (cases rule: approve_steps)
      case (1 intent c d1 v1 d2 run1 d3)
      note i = intent_found [OF 1(1)]
      have "same_reviews d2 d3" using 1(4) tx_keepsD [OF reviews_after(2)] by (auto simp: tx_simps review_rows.refl split: if_splits)
      then have "same_reviews d2 d'" using review_rows.trans tx_keepsD [OF reviews_after(1) 1(5)] by blast
      then have "moved d d' v c REV_APPROVED" using moved_by(2) [OF 1(2) lock_review(2) [OF lock] i(1) 1(3)] by simp
      then show ?thesis using insert_review_decision_row(1,2) [OF 1(2)] i(3) ab by blast
    qed
  qed
qed

lemma changes_steps:
  assumes "queue_changes input feedback v run a issue d = (Inr r, d')"
  obtains c d1 v1 d2 run1 d3 n d4 ev evs where
    "insert_review_decision v ''REVIEW'' ''CHANGES_REQUESTED'' ACT_HUMAN (rcc_actor_id input) (JObj [(''feedback'', JStr feedback)]) d = (Inr c, d1)"
    "decide_review v REV_CHANGES_REQUESTED (dcs_id c) d1 = (Inr v1, d2)" "complete_reviewed_run run d2 = (Inr run1, d3)"
    "nextIssueRunAttempt (run_project_id run1) (run_issue_id run1) d3 = (Inr n, d3)"
    "createQueuedRunTx \<lparr>qri_project_id = run_project_id run1, qri_issue_id = run_issue_id run1,
       qri_workspace_id = run_workspace_id run1, qri_agent_id = a, qri_attempt = n, qri_idempotency_key = changes_key v1\<rparr> d3
       = (Inr (rcr_run r, rcr_job r, ev), d4)"
    "appendReviewDecisionEvents run1 v1 c ''review.changes_requested'' d4 = (Inr evs, d')"
    "rcr_review r = v1" "rcr_decision r = c" "rcr_issue r = issue" "rcr_events r = evs @ [ev]"
proof -
  obtain c d1 v1 d2 run1 d3 n d4 run2 job ev d5 evs where s:
    "insert_review_decision v ''REVIEW'' ''CHANGES_REQUESTED'' ACT_HUMAN (rcc_actor_id input) (JObj [(''feedback'', JStr feedback)]) d = (Inr c, d1)"
    "decide_review v REV_CHANGES_REQUESTED (dcs_id c) d1 = (Inr v1, d2)" "complete_reviewed_run run d2 = (Inr run1, d3)"
    "nextIssueRunAttempt (run_project_id run1) (run_issue_id run1) d3 = (Inr n, d4)"
    "createQueuedRunTx \<lparr>qri_project_id = run_project_id run1, qri_issue_id = run_issue_id run1,
       qri_workspace_id = run_workspace_id run1, qri_agent_id = a, qri_attempt = n, qri_idempotency_key = changes_key v1\<rparr> d4
       = (Inr (run2, job, ev), d5)"
    "appendReviewDecisionEvents run1 v1 c ''review.changes_requested'' d5 = (Inr evs, d')"
    "r = \<lparr>rcr_review = v1, rcr_decision = c, rcr_run = run2, rcr_job = job, rcr_issue = issue, rcr_events = evs @ [ev]\<rparr>"
    using assms unfolding queue_changes_def tx_bind_Inr tx_return_eq
    by (simp only: split_paired_Ex case_prod_conv tx_bind_Inr tx_return_eq sum.inject) blast
  have "d4 = d3" using read_state [OF read_assignment(5) s(4)] by simp
  then show ?thesis using that s by simp
qed

lemma no_intent_found:
  assumes "no_intent v d = (Inr u, d1)" "rev_status v = REV_PENDING" "phase_of d v \<noteq> Unknown"
  shows "phase_of d v = Open \<or> phase_of d v = Approval_Failed" "d1 = d"
proof -
  show "d1 = d" using read_state [OF read_reviews(6) assms(1)] by simp
  show "phase_of d v = Open \<or> phase_of d v = Approval_Failed"
  proof (cases "rev_decision_id v")
    case None then show ?thesis using assms(2) by (simp add: phase_of_def)
  next
    case (Some c)
    then obtain dec where "decision_of d v = Some dec" "\<not> approval_intent dec"
      using assms(1) by (auto simp: no_intent_def decisionByIDTx_def decision_of_def tx_simps)
    then show ?thesis using assms(2,3) Some by (auto simp: phase_of_def split: if_splits)
  qed
qed

lemma changes_cases:
  assumes "request_changes_tx input feedback d = (Inr r, d')"
  obtains v run issue where "rev_status v = REV_CHANGES_REQUESTED" "existingRequestedChanges v issue d = (Inr r, d)" "d' = d"
      "lockReviewCommandState (rcc_project_id input) (rcc_review_id input) d = (Inr (v, run, issue), d)"
  | v run issue a where "rev_status v = REV_PENDING" "run_status run = RUN_READY_FOR_REVIEW" "run_agent_id run = Some a"
      "ensureLatestReviewAttempt run d = (Inr (), d)" "no_intent v d = (Inr (), d)"
      "queue_changes input feedback v run a issue d = (Inr r, d')"
      "lockReviewCommandState (rcc_project_id input) (rcc_review_id input) d = (Inr (v, run, issue), d)"
proof -
  obtain v run issue where lock: "lockReviewCommandState (rcc_project_id input) (rcc_review_id input) d = (Inr (v, run, issue), d)"
    and rest: "(if rev_status v = REV_CHANGES_REQUESTED then existingRequestedChanges v issue
     else case run_agent_id run of
       None \<Rightarrow> tx_fail ErrConflict
     | Some agentID \<Rightarrow>
         tx_bind (tx_guard (\<not> (rev_status v \<noteq> REV_PENDING \<or> run_status run \<noteq> RUN_READY_FOR_REVIEW)) ErrConflict) (\<lambda>_.
         tx_bind (ensureLatestReviewAttempt run) (\<lambda>_.
         tx_bind (no_intent v) (\<lambda>_.
         queue_changes input feedback v run agentID issue)))) d = (Inr r, d')"
    using assms unfolding request_changes_tx_def by (auto simp: tx_bind_Inr dest: lock_review(1))
  show ?thesis
  proof (cases "rev_status v = REV_CHANGES_REQUESTED")
    case True
    then have ex: "existingRequestedChanges v issue d = (Inr r, d')" using rest by simp
    have "d' = d" using read_state [OF read_reviews(8) ex] by simp
    then show ?thesis using that(1) True ex lock by simp
  next
    case False
    then obtain a d1 d2 where s: "run_agent_id run = Some a" "rev_status v = REV_PENDING" "run_status run = RUN_READY_FOR_REVIEW"
        "ensureLatestReviewAttempt run d = (Inr (), d1)" "no_intent v d1 = (Inr (), d2)"
        "queue_changes input feedback v run a issue d2 = (Inr r, d')"
      using rest by (auto simp: tx_bind_Inr tx_guard_Inr tx_fail_eq split: option.splits)
    have "d1 = d" "d2 = d1" using read_state [OF read_reviews(4) s(4)] read_state [OF read_reviews(6) s(5)] by simp_all
    then show ?thesis using that(2) s lock by simp
  qed
qed

lemma changes_effect:
  assumes "request_changes_tx input feedback d = (Inr r, d')" "reviews_wf d"
  shows "same_reviews d d' \<or> (\<exists>v c. moved d d' v c REV_CHANGES_REQUESTED \<and> dcs_kind c = ''REVIEW'' \<and>
     dcs_outcome c = ''CHANGES_REQUESTED'' \<and> (phase_of d v = Open \<or> phase_of d v = Approval_Failed))"
  using assms(1)
proof (cases rule: changes_cases)
  case 1 then show ?thesis by (simp add: review_rows.refl)
next
  case (2 v run issue a)
  note v = lock_review(2) [OF 2(7)]
  have ph: "phase_of d v = Open \<or> phase_of d v = Approval_Failed"
    using no_intent_found(1) [OF 2(5,1)] assms(2) v by (simp add: reviews_wf_def)
  show ?thesis using 2(6)
  proof (cases rule: changes_steps)
    case (1 c d1 v1 d2 run1 d3 n d4 ev evs)
    have "same_reviews d2 d'"
      using review_rows.trans [OF tx_keepsD [OF reviews_after(2) 1(3)] review_rows.trans [OF tx_keepsD [OF reviews_after(3) 1(5)]
            tx_keepsD [OF reviews_after(1) 1(6)]]] .
    then have "moved d d' v c REV_CHANGES_REQUESTED" using moved_by(2) [OF 1(1) v 2(1) 1(2)] by simp
    then show ?thesis using insert_review_decision_row(1,2) [OF 1(1)] ph by blast
  qed
qed

text \<open>
  The commands on Reviews as steps. Elsewhere Reviews only come into being: a transition creates
  one that is open, and decisions are only added, under new ids.
\<close>

inductive review_step :: "db \<Rightarrow> db \<Rightarrow> bool" where
  begin_approval: "BeginReviewApproval input1 now d = (r1, d') \<Longrightarrow> review_step d d'"
| complete_approval: "CompleteReviewApproval input2 now d = (r2, d') \<Longrightarrow> review_step d d'"
| fail_approval: "FailReviewApproval input3 now d = (r3, d') \<Longrightarrow> review_step d d'"
| request_changes: "RequestReviewChanges input4 now d = (r4, d') \<Longrightarrow> review_step d d'"

definition follows :: "db \<Rightarrow> db \<Rightarrow> bool" where
  "follows d d' \<longleftrightarrow> (\<forall>v\<in>set (db_reviews d). \<exists>v'\<in>set (db_reviews d'). rev_id v' = rev_id v \<and> rev_project_id v' = rev_project_id v \<and>
     (phase_of d' v' = phase_of d v \<or> phase_step (phase_of d v) (phase_of d' v')))"

lemma same_reviews_protocol: "same_reviews d d' \<Longrightarrow> reviews_wf d \<Longrightarrow> reviews_wf d' \<and> follows d d'"
proof -
  assume s: "same_reviews d d'" and wf: "reviews_wf d"
  have "decision_of d' v = decision_of d v" for v using s unfolding decision_of_def same_reviews_def by (simp split: option.split)
  then have "phase_of d' v = phase_of d v" for v unfolding phase_of_def by (rule ssubst) (rule refl)
  then show ?thesis using s wf by (auto simp: reviews_wf_def follows_def same_reviews_def)
qed

lemma moved_protocol:
  assumes "reviews_wf d" "moved d d' v c st"
    and "\<And>x. rev_status x = st \<Longrightarrow> decision_of d' x = Some c \<Longrightarrow> rev_decision_id x \<noteq> None \<Longrightarrow> phase_of d' x = ph"
    and "ph \<noteq> Unknown" "phase_step (phase_of d v) ph"
  shows "reviews_wf d' \<and> follows d d'"
proof
  show "reviews_wf d'" by (rule moved_wf [OF assms(1,2)]) (use assms(3,4) in blast)
  show "follows d d'" unfolding follows_def
  proof
    fix x assume x: "x \<in> set (db_reviews d)"
    obtain x' where x': "x' \<in> set (db_reviews d')" "rev_id x' = rev_id x" "rev_project_id x' = rev_project_id x"
      "if x = v then rev_status x' = st \<and> decision_of d' x' = Some c \<and> rev_decision_id x' \<noteq> None else phase_of d' x' = phase_of d x"
      using moved_phases [OF assms(1,2) x] by blast
    then show "\<exists>v'\<in>set (db_reviews d'). rev_id v' = rev_id x \<and> rev_project_id v' = rev_project_id x \<and>
        (phase_of d' v' = phase_of d x \<or> phase_step (phase_of d x) (phase_of d' v'))"
      using assms(3) [of x'] assms(5) by (auto split: if_splits)
  qed
qed

lemma review_tx_protocol:
  assumes "reviews_wf d"
  shows "begin_approval_tx input1 d = (Inr r1, d') \<Longrightarrow> reviews_wf d' \<and> follows d d'"
    "complete_approval_tx input2 d = (Inr r2, d') \<Longrightarrow> reviews_wf d' \<and> follows d d'"
    "fail_approval_tx input3 reason d = (Inr r3, d') \<Longrightarrow> reviews_wf d' \<and> follows d d'"
    "request_changes_tx input4 feedback d = (Inr r4, d') \<Longrightarrow> reviews_wf d' \<and> follows d d'"
proof -
  show "reviews_wf d' \<and> follows d d'" if tx: "begin_approval_tx input1 d = (Inr r1, d')"
    using begin_effect [OF tx]
  proof (elim disjE exE conjE)
    fix v c assume m: "moved d d' v c REV_PENDING" "approval_intent c" "phase_of d v = Open"
    show ?thesis by (rule moved_protocol [OF assms m(1), where ph = Approving]) (use m in \<open>auto simp: phase_of_def phase_step.simps\<close>)
  next
    fix v c assume m: "moved d d' v c REV_PENDING" "approval_intent c" "phase_of d v = Approval_Failed"
    show ?thesis by (rule moved_protocol [OF assms m(1), where ph = Approving]) (use m in \<open>auto simp: phase_of_def phase_step.simps\<close>)
  qed (rule same_reviews_protocol [OF _ assms])
  show "reviews_wf d' \<and> follows d d'" if tx: "complete_approval_tx input2 d = (Inr r2, d')"
    using complete_effect [OF tx]
  proof (elim disjE exE conjE)
    fix v c assume m: "moved d d' v c REV_APPROVED" "dcs_kind c = ''REVIEW''" "dcs_outcome c = ''APPROVED''" "phase_of d v = Approving"
    show ?thesis by (rule moved_protocol [OF assms m(1), where ph = Approved]) (use m in \<open>auto simp: phase_of_def phase_step.simps\<close>)
  qed (rule same_reviews_protocol [OF _ assms])
  show "reviews_wf d' \<and> follows d d'" if tx: "fail_approval_tx input3 reason d = (Inr r3, d')"
  proof -
    obtain v c where m: "moved d d' v c REV_PENDING" "dcs_kind c = ''REVIEW_APPROVAL_FAILED''" "phase_of d v = Approving"
      using fail_effect [OF tx] by blast
    show ?thesis by (rule moved_protocol [OF assms m(1), where ph = Approval_Failed])
        (use m in \<open>auto simp: phase_of_def phase_step.simps approval_intent_def\<close>)
  qed
  show "reviews_wf d' \<and> follows d d'" if tx: "request_changes_tx input4 feedback d = (Inr r4, d')"
    using changes_effect [OF tx assms]
  proof (elim disjE exE conjE)
    fix v c assume m: "moved d d' v c REV_CHANGES_REQUESTED" "dcs_kind c = ''REVIEW''" "dcs_outcome c = ''CHANGES_REQUESTED''"
      and ph: "phase_of d v = Open"
    show ?thesis by (rule moved_protocol [OF assms m(1), where ph = Changes_Requested]) (use m ph in \<open>auto simp: phase_of_def phase_step.simps\<close>)
  next
    fix v c assume m: "moved d d' v c REV_CHANGES_REQUESTED" "dcs_kind c = ''REVIEW''" "dcs_outcome c = ''CHANGES_REQUESTED''"
      and ph: "phase_of d v = Approval_Failed"
    show ?thesis by (rule moved_protocol [OF assms m(1), where ph = Changes_Requested]) (use m ph in \<open>auto simp: phase_of_def phase_step.simps\<close>)
  qed (rule same_reviews_protocol [OF _ assms])
qed

lemma reviews_wf_clock: "reviews_wf (d\<lparr>db_now := now\<rparr>) = reviews_wf d" "follows (d\<lparr>db_now := now\<rparr>) d' = follows d d'"
proof -
  have "same_reviews (d\<lparr>db_now := now\<rparr>) d" "same_reviews d (d\<lparr>db_now := now\<rparr>)" by (simp_all add: same_reviews_def)
  then show "reviews_wf (d\<lparr>db_now := now\<rparr>) = reviews_wf d" using same_reviews_protocol by blast
  have "decision_of (d\<lparr>db_now := now\<rparr>) v = decision_of d v" for v by (simp add: decision_of_def split: option.split)
  then have "phase_of (d\<lparr>db_now := now\<rparr>) v = phase_of d v" for v unfolding phase_of_def by (rule ssubst) (rule refl)
  then show "follows (d\<lparr>db_now := now\<rparr>) d' = follows d d'" by (simp add: follows_def)
qed

lemma follows_refl: "follows d d"
  by (auto simp: follows_def)

lemma run_tx_protocol:
  assumes "run_tx now m d = (r, d')" "reviews_wf d"
    and "\<And>d x. reviews_wf d \<Longrightarrow> m d = (Inr x, d') \<Longrightarrow> reviews_wf d' \<and> follows d d'"
  shows "reviews_wf d' \<and> follows d d'"
proof (cases r)
  case (Inl e) then show ?thesis using assms(1,2) by (simp add: run_tx_Inl follows_refl)
next
  case (Inr x)
  then show ?thesis using assms(3) [of "d\<lparr>db_now := now\<rparr>" x] assms(1,2) by (simp add: run_tx_Inr reviews_wf_clock)
qed

lemma review_step_protocol: "review_step d d' \<Longrightarrow> reviews_wf d \<Longrightarrow> reviews_wf d' \<and> follows d d'"
proof (induction rule: review_step.induct)
  case (begin_approval input now d r d')
  then show ?case by (auto simp: BeginReviewApproval_def follows_refl split: if_splits dest: run_tx_protocol [OF _ _ review_tx_protocol(1)])
next
  case (complete_approval input now d r d')
  then show ?case by (auto simp: CompleteReviewApproval_def follows_refl split: if_splits dest: run_tx_protocol [OF _ _ review_tx_protocol(2)])
next
  case (fail_approval input now d r d')
  then show ?case by (auto simp: FailReviewApproval_def Let_def follows_refl split: if_splits dest: run_tx_protocol [OF _ _ review_tx_protocol(3)])
next
  case (request_changes input now d r d')
  then show ?case by (auto simp: RequestReviewChanges_def Let_def follows_refl split: if_splits dest: run_tx_protocol [OF _ _ review_tx_protocol(4)])
qed

text \<open>
  C26. Commands on Reviews refine the two-phase protocol: however they are mixed, every Review stays
  in a phase whose decision its status speaks of, and moves only along the protocol. So an approval
  needs an intent, a pending intent bars requested changes until it has failed, a failed approval can
  be tried again, and a Review that is approved or sent back keeps its verdict for ever.
\<close>

theorem reviews_follow_protocol:
  assumes "reviews_wf d" "review_step\<^sup>*\<^sup>* d d'" "v \<in> set (db_reviews d)"
  shows "reviews_wf d' \<and> (\<exists>v'\<in>set (db_reviews d'). rev_id v' = rev_id v \<and>
     phase_step\<^sup>*\<^sup>* (phase_of d v) (phase_of d' v'))"
  using assms(2)
proof (induction rule: rtranclp_induct)
  case base
  then show ?case using assms(1,3) by blast
next
  case (step d1 d2)
  then obtain v1 where v1: "v1 \<in> set (db_reviews d1)" "rev_id v1 = rev_id v" "phase_step\<^sup>*\<^sup>* (phase_of d v) (phase_of d1 v1)" by blast
  have s: "reviews_wf d2" "follows d1 d2" using review_step_protocol [OF step(2)] step(3) by blast+
  then obtain v2 where "v2 \<in> set (db_reviews d2)" "rev_id v2 = rev_id v1"
      "phase_of d2 v2 = phase_of d1 v1 \<or> phase_step (phase_of d1 v1) (phase_of d2 v2)"
    using v1(1) by (auto simp: follows_def)
  then show ?case using v1 s(1) by (auto intro!: bexI [of _ v2] intro: rtranclp.rtrancl_into_rtrancl)
qed

section \<open>An approval is final\<close>

text \<open>The Runs but for their event counters, and the tables a command reads.\<close>

definition run_core :: "run \<Rightarrow> id \<times> id \<times> id \<times> id \<times> id option \<times> int \<times> run_status" where
  "run_core r = (run_id r, run_project_id r, run_issue_id r, run_workspace_id r, run_agent_id r, run_attempt r, run_status r)"

definition same_cores :: "db \<Rightarrow> db \<Rightarrow> bool" where
  "same_cores d d' \<longleftrightarrow> map run_core (db_runs d') = map run_core (db_runs d) \<and> db_issues d' = db_issues d \<and>
     db_projects d' = db_projects d \<and> db_work_requests d' = db_work_requests d"

interpretation cores: tx_frame same_cores
  by unfold_locales (auto simp: same_cores_def)

lemma cores_append: "tx_keeps same_cores (appendEventTx e)"
proof (rule tx_keepsI)
  fix d ev d' assume "appendEventTx e d = (Inr ev, d')"
  note d' = appendEventTx_state [OF this]
  have "map run_core (bump_run p r rs) = map run_core rs" for p r rs
    by (induction rs) (auto simp: bump_run_def update_rows_def run_core_def)
  then show "same_cores d d'" unfolding d' same_cores_def by (simp split: option.split)
qed

lemma cores_events: "tx_keeps same_cores (appendReviewDecisionEvents run v c ty)"
  unfolding appendReviewDecisionEvents_def by (intro cores.keeps_intros cores_append)

lemma cores_writes:
  "tx_keeps same_cores (insert_review_decision v k o1 a i details)" "tx_keeps same_cores (decide_review v st c)"
  unfolding insert_review_decision_def decide_review_def
  by (auto simp: tx_keeps_def same_cores_def tx_simps)

lemma same_core_run:
  assumes "same_cores d d'" "r \<in> set (db_runs d)"
  shows "\<exists>r'\<in>set (db_runs d'). run_core r' = run_core r"
proof -
  have "run_core r \<in> run_core ` set (db_runs d')" using assms by (metis image_eqI list.set_map same_cores_def)
  then show ?thesis by force
qed

lemma cores_ids: "same_cores d d' \<Longrightarrow> map run_id (db_runs d') = map run_id (db_runs d)"
proof -
  assume "same_cores d d'"
  then have "map fst (map run_core (db_runs d')) = map fst (map run_core (db_runs d))" by (simp add: same_cores_def)
  then show ?thesis by (simp add: run_core_def comp_def)
qed

lemma accepted_revision_read:
  "decisionHasAcceptedRevision c revision \<longleftrightarrow> revision = accepted"
  if "dcs_safe_details c = JObj [(''acceptedRevision'', JStr accepted), (''deliveryComplete'', JBool b)]"
proof -
  have "fold_name ''deliveryComplete'' \<noteq> fold_name ''acceptedRevision''" by code_simp
  then show ?thesis using that by (auto simp: decisionHasAcceptedRevision_def)
qed

interpretation reviews: keyed_table db_reviews db_reviews_update rev_id
  by unfold_locales simp

text \<open>The rows an approval leaves behind.\<close>

lemma approval_rows:
  assumes "approve_review input v run issue d = (Inr r, d')" "v \<in> set (db_reviews d)" "run \<in> set (db_runs d)"
    and "distinct (map rev_id (db_reviews d))"
  shows "car_review r \<in> set (db_reviews d')" "rev_id (car_review r) = rev_id v" "rev_project_id (car_review r) = rev_project_id v"
    "rev_run_id (car_review r) = rev_run_id v" "rev_issue_id (car_review r) = rev_issue_id v"
    "rev_status (car_review r) = REV_APPROVED" "rev_decision_id (car_review r) = Some (dcs_id (car_decision r))"
    "decision_of d' (car_review r) = Some (car_decision r)" "dcs_kind (car_decision r) = ''REVIEW''"
    "dcs_outcome (car_decision r) = ''APPROVED''"
    "dcs_safe_details (car_decision r) = JObj [(''acceptedRevision'', JStr (cac_accepted_revision input)),
       (''deliveryComplete'', JBool (cac_delivery_complete input))]"
    "\<exists>r'\<in>set (db_runs d'). run_id r' = run_id run \<and> run_project_id r' = run_project_id run \<and> run_issue_id r' = run_issue_id run \<and>
       run_status r' = (if cac_delivery_complete input then RUN_COMPLETED else RUN_READY_FOR_REVIEW)"
    "map run_id (db_runs d') = map run_id (db_runs d)" "map rev_id (db_reviews d') = map rev_id (db_reviews d)"
    "db_issues d' = db_issues d" "db_projects d' = db_projects d" "db_work_requests d' = db_work_requests d"
proof -
  obtain intent c d1 v1 d2 run1 d3 where s: "pending_intent v run True d = (Inr intent, d)"
    "insert_review_decision v ''REVIEW'' ''APPROVED'' (dcs_actor_type intent) (dcs_actor_id intent)
       (JObj [(''acceptedRevision'', JStr (cac_accepted_revision input)), (''deliveryComplete'', JBool (cac_delivery_complete input))]) d
       = (Inr c, d1)"
    "decide_review v REV_APPROVED (dcs_id c) d1 = (Inr v1, d2)"
    "(if cac_delivery_complete input then complete_reviewed_run run else tx_return run) d2 = (Inr run1, d3)"
    "appendReviewDecisionEvents run1 v1 c ''review.approved'' d3 = (Inr (car_events r), d')"
    "car_review r = v1" "car_decision r = c" "car_run r = run1"
    using approve_steps [OF assms(1)] by metis
  note i = intent_found [OF s(1)] and c = insert_review_decision_row [OF s(2)]
  have pend: "List.find (\<lambda>x. rev_project_id x = rev_project_id v \<and> rev_id x = rev_id v \<and> rev_status x = REV_PENDING) (db_reviews d1) = Some v"
    by (rule reviews.find_by_key) (use assms(2,4) c(9) i(1) in auto)
  let ?f = "\<lambda>x. x\<lparr>rev_status := REV_APPROVED, rev_decision_id := Some (dcs_id c), rev_decided_at := Some (db_now d1), rev_updated_at := db_now d1\<rparr>"
  have v1: "v1 = ?f v" "db_reviews d2 = update_rows (\<lambda>x. rev_project_id x = rev_project_id v \<and> rev_id x = rev_id v \<and> rev_status x = REV_PENDING)
      ?f (db_reviews d)" "db_decisions d2 = db_decisions d1"
    using s(3) pend c(9) by (auto simp: decide_review_def tx_simps)
  have "same_reviews d2 d3" using s(4) tx_keepsD [OF reviews_after(2)] by (auto simp: tx_simps review_rows.refl split: if_splits)
  then have after: "db_reviews d' = db_reviews d2" "db_decisions d' = db_decisions d @ [c]"
    using review_rows.trans tx_keepsD [OF reviews_after(1) s(5)] v1(3) c(8) unfolding same_reviews_def by auto
  show rows: "car_review r \<in> set (db_reviews d')" unfolding s(6) after(1) v1(2) v1(1) using assms(2) i(1) by (force simp: set_update_rows)
  show "rev_id (car_review r) = rev_id v" "rev_project_id (car_review r) = rev_project_id v"
    "rev_run_id (car_review r) = rev_run_id v" "rev_issue_id (car_review r) = rev_issue_id v"
    "rev_status (car_review r) = REV_APPROVED" "rev_decision_id (car_review r) = Some (dcs_id (car_decision r))"
    unfolding s(6,7) v1(1) by simp_all
  show "decision_of d' (car_review r) = Some (car_decision r)"
    unfolding s(6,7) by (rule decision_of_append(2) [OF after(2) c(7)]) (simp_all add: v1(1) c(3))
  show "dcs_kind (car_decision r) = ''REVIEW''" "dcs_outcome (car_decision r) = ''APPROVED''"
    "dcs_safe_details (car_decision r) = JObj [(''acceptedRevision'', JStr (cac_accepted_revision input)),
       (''deliveryComplete'', JBool (cac_delivery_complete input))]"
    unfolding s(7) by (fact c)+
  have pre: "same_cores d d2" using cores.trans [OF tx_keepsD [OF cores_writes(1) s(2)] tx_keepsD [OF cores_writes(2) s(3)]] .
  have post: "same_cores d3 d'" by (rule tx_keepsD [OF cores_events s(5)])
  have mid: "map run_id (db_runs d3) = map run_id (db_runs d2)" "db_issues d3 = db_issues d2" "db_projects d3 = db_projects d2"
      "db_work_requests d3 = db_work_requests d2"
    using s(4) by (auto simp: complete_reviewed_run_def tx_simps map_update_rows split: if_splits)
  show "map run_id (db_runs d') = map run_id (db_runs d)" using cores_ids [OF pre] cores_ids [OF post] mid(1) by simp
  show "map rev_id (db_reviews d') = map rev_id (db_reviews d)" unfolding after(1) v1(2) by (simp add: map_update_rows)
  show "db_issues d' = db_issues d" "db_projects d' = db_projects d" "db_work_requests d' = db_work_requests d"
    using pre post mid by (simp_all add: same_cores_def)
  obtain q where q: "q \<in> set (db_runs d2)" "run_core q = run_core run" using same_core_run [OF pre assms(3)] by blast
  have "\<exists>r'\<in>set (db_runs d3). run_id r' = run_id run \<and> run_project_id r' = run_project_id run \<and> run_issue_id r' = run_issue_id run \<and>
       run_status r' = (if cac_delivery_complete input then RUN_COMPLETED else RUN_READY_FOR_REVIEW)"
  proof (cases "cac_delivery_complete input")
    case True
    have "q\<lparr>run_status := RUN_COMPLETED, run_completed_at := Some (db_now d2), run_updated_at := db_now d2\<rparr> \<in> set (db_runs d3)"
      using s(4) True q i(2) by (force simp: complete_reviewed_run_def tx_simps set_update_rows run_core_def)
    then show ?thesis by (rule bexI [rotated]) (use q(2) True in \<open>simp add: run_core_def\<close>)
  next
    case False
    then have "d3 = d2" using s(4) by (simp add: tx_simps)
    then show ?thesis using q i(2) False by (auto simp: run_core_def)
  qed
  then show "\<exists>r'\<in>set (db_runs d'). run_id r' = run_id run \<and> run_project_id r' = run_project_id run \<and> run_issue_id r' = run_issue_id run \<and>
       run_status r' = (if cac_delivery_complete input then RUN_COMPLETED else RUN_READY_FOR_REVIEW)"
    using same_core_run [OF post] unfolding run_core_def by fastforce
qed

lemma lock_review_issue:
  assumes "lockReviewCommandState p x d = (Inr (v, run, issue), d1)"
  shows "List.find (\<lambda>i. iss_project_id i = rev_project_id v \<and> iss_id i = rev_issue_id v \<and>
      exists_row (\<lambda>p. prj_id p = iss_project_id i) (db_projects d)) (db_issues d) = Some issue"
  using assms unfolding lockReviewCommandState_def GetReview_def by (auto simp: tx_simps simp del: exists_row_iff)

text \<open>The state a command locks, from the rows.\<close>

lemma lock_review_rows:
  assumes "v \<in> set (db_reviews d)" "distinct (map rev_id (db_reviews d))" "run \<in> set (db_runs d)" "distinct (map run_id (db_runs d))"
    and "run_id run = rev_run_id v" "run_project_id run = rev_project_id v" "run_issue_id run = rev_issue_id v"
    and "List.find (\<lambda>i. iss_project_id i = rev_project_id v \<and> iss_id i = rev_issue_id v \<and>
      exists_row (\<lambda>p. prj_id p = iss_project_id i) (db_projects d)) (db_issues d) = Some issue"
  shows "lockReviewCommandState (rev_project_id v) (rev_id v) d = (Inr (v, run, issue), d)"
proof -
  have v: "List.find (\<lambda>x. rev_project_id x = rev_project_id v \<and> rev_id x = rev_id v) (db_reviews d) = Some v"
    by (rule reviews.find_by_key) (use assms in auto)
  have r: "List.find (\<lambda>r. run_project_id r = rev_project_id v \<and> run_id r = rev_run_id v \<and> run_issue_id r = rev_issue_id v) (db_runs d) = Some run"
    by (rule runs.find_by_key) (use assms in auto)
  show ?thesis
    using v r assms(8) by (simp add: lockReviewCommandState_def GetReview_def tx_bind_def sql_find_def tx_option_def tx_return_def
        tx_guard_def del: exists_row_iff)
qed

lemma approved_again:
  assumes "rev_status v = REV_APPROVED" "rev_decision_id v = Some (dcs_id c)" "decision_of d v = Some c"
    and "dcs_kind c = ''REVIEW''" "dcs_outcome c = ''APPROVED''"
    and "run_status run = (if cac_delivery_complete input then RUN_COMPLETED else RUN_READY_FOR_REVIEW)"
  shows "approved_already input v run issue d = (if decisionHasAcceptedRevision c (cac_accepted_revision input)
    then (Inr \<lparr>car_review = v, car_decision = c, car_run = run, car_issue = issue, car_events = []\<rparr>, d) else (Inl ErrConflict, d))"
  using assms unfolding approved_already_def decisionByIDTx_def decision_of_def
  by (simp add: tx_bind_def tx_guard_def tx_return_def tx_fail_def sql_find_def tx_option_def)

lemma decision_of_clock: "decision_of (d\<lparr>db_now := now\<rparr>) v = decision_of d v"
  by (simp add: decision_of_def split: option.split)

text \<open>
  C27. An approval is final and pins its revision: an approval that took effect, called again with the
  same command, answers the same Review with the same decision and changes nothing, and the Run is
  COMPLETED exactly when the delivery was complete; called with another revision it is refused.
\<close>

theorem approval_repeats:
  assumes "CompleteReviewApproval input now d = (Inr r, d')" "car_events r \<noteq> []"
    and "reviews_wf d" "distinct (map run_id (db_runs d))"
  shows "(\<exists>r'. CompleteReviewApproval input now' d' = (Inr r', d'\<lparr>db_now := now'\<rparr>) \<and> car_review r' = car_review r \<and>
      car_decision r' = car_decision r \<and> car_events r' = [] \<and> rev_status (car_review r') = REV_APPROVED \<and>
      run_status (car_run r') = (if cac_delivery_complete input then RUN_COMPLETED else RUN_READY_FOR_REVIEW)) \<and>
    (revision \<noteq> cac_accepted_revision input \<longrightarrow> TrimSpace revision \<noteq> [] \<longrightarrow>
      CompleteReviewApproval (input\<lparr>cac_accepted_revision := revision\<rparr>) now' d' = (Inl ErrConflict, d'))"
proof -
  let ?d = "d\<lparr>db_now := now\<rparr>" and ?d' = "d'\<lparr>db_now := now'\<rparr>"
  have args: "TrimSpace (cac_project_id input) \<noteq> []" "TrimSpace (cac_review_id input) \<noteq> []" "TrimSpace (cac_accepted_revision input) \<noteq> []"
    and tx: "complete_approval_tx input ?d = (Inr r, d')"
    using assms(1) by (auto simp: CompleteReviewApproval_def run_tx_Inr split: if_splits)
  obtain v run issue where lock: "lockReviewCommandState (cac_project_id input) (cac_review_id input) ?d = (Inr (v, run, issue), ?d)"
    and rest: "(if rev_status v = REV_APPROVED then approved_already input v run issue else approve_review input v run issue) ?d = (Inr r, d')"
    using tx unfolding complete_approval_tx_def by (auto simp: tx_bind_Inr dest: lock_review(1))
  have "car_events r = []" if "approved_already input v run issue ?d = (Inr r, d')"
    using that by (auto simp: approved_already_def tx_simps split: option.splits)
  then have appr: "approve_review input v run issue ?d = (Inr r, d')" using rest assms(2) by (auto split: if_splits)
  note l = lock_review [OF lock]
  have ids: "distinct (map rev_id (db_reviews d))" using assms(3) by (simp add: reviews_wf_def)
  note a = approval_rows [OF appr l(2,5)] and a' = approval_rows(1) [OF appr l(2,5)]
  obtain q where q: "q \<in> set (db_runs d')" "run_id q = run_id run" "run_project_id q = run_project_id run" "run_issue_id q = run_issue_id run"
      "run_status q = (if cac_delivery_complete input then RUN_COMPLETED else RUN_READY_FOR_REVIEW)"
    using a(12) ids by auto
  have lock': "lockReviewCommandState (rev_project_id (car_review r)) (rev_id (car_review r)) ?d' = (Inr (car_review r, q, issue), ?d')"
  proof (rule lock_review_rows)
    show "List.find (\<lambda>i. iss_project_id i = rev_project_id (car_review r) \<and> iss_id i = rev_issue_id (car_review r) \<and>
      exists_row (\<lambda>p. prj_id p = iss_project_id i) (db_projects ?d')) (db_issues ?d') = Some issue"
      using lock_review_issue [OF lock] a(3,5,15,16) ids by (simp del: exists_row_iff)
  qed (use a q l ids assms(4) in simp_all)
  have tx': "complete_approval_tx (input\<lparr>cac_accepted_revision := rv\<rparr>) ?d' =
      (if rv = cac_accepted_revision input
       then (Inr \<lparr>car_review = car_review r, car_decision = car_decision r, car_run = q, car_issue = issue, car_events = []\<rparr>, ?d')
       else (Inl ErrConflict, ?d'))" for rv
  proof -
    have "approved_already (input\<lparr>cac_accepted_revision := rv\<rparr>) (car_review r) q issue ?d' =
      (if decisionHasAcceptedRevision (car_decision r) rv
       then (Inr \<lparr>car_review = car_review r, car_decision = car_decision r, car_run = q, car_issue = issue, car_events = []\<rparr>, ?d')
       else (Inl ErrConflict, ?d'))"
      by (subst approved_again) (use a q ids in \<open>simp_all add: decision_of_clock\<close>)
    moreover have "decisionHasAcceptedRevision (car_decision r) rv \<longleftrightarrow> rv = cac_accepted_revision input"
      by (rule accepted_revision_read) (use a ids in simp)
    ultimately show ?thesis
      using lock' a(2,3,6) l(3,4) ids by (simp add: complete_approval_tx_def tx_bind_def)
  qed
  show ?thesis
    using tx' [of "cac_accepted_revision input"] tx' [of revision] args a(6) q(5) ids
    by (auto simp: CompleteReviewApproval_def run_tx_Inr run_tx_Inl)
qed

lemma createQueuedRun_input:
  assumes "createQueuedRunTx input d = (Inr (run, job, ev), d')" "qri_idempotency_key input \<noteq> []"
  shows "run_workspace_id run = qri_workspace_id input" "run_attempt run = qri_attempt input"
    "job_idempotency_key job = qri_idempotency_key input"
  using assms unfolding createQueuedRunTx_def by (auto simp: tx_simps new_run_def new_job_def)

lemma next_attempt_above:
  assumes "nextIssueRunAttempt p i d = (Inr n, d')" "x \<in> set (db_runs d)" "run_project_id x = p" "run_issue_id x = i"
  shows "run_attempt x < n"
proof -
  have "run_attempt x \<in> set (issue_attempts d p i)" using assms(2-4) by (auto simp: issue_attempts_def)
  then show ?thesis using assms(1) Max_ge [of "set (issue_attempts d p i)" "run_attempt x"]
    by (cases "issue_attempts d p i") (auto simp: nextIssueRunAttempt_def tx_simps)
qed

text \<open>The reviewed Run and the Review a request changes.\<close>

lemma changes_rows:
  assumes "insert_review_decision v ''REVIEW'' o1 a i details d = (Inr c, d1)" "decide_review v st (dcs_id c) d1 = (Inr v1, d2)"
    and "complete_reviewed_run run d2 = (Inr run1, d3)"
    and "v \<in> set (db_reviews d)" "rev_status v = REV_PENDING" "distinct (map rev_id (db_reviews d))"
    and "run \<in> set (db_runs d)" "run_status run = RUN_READY_FOR_REVIEW" "distinct (map run_id (db_runs d))"
  shows "rev_status v1 = st" "rev_decision_id v1 = Some (dcs_id c)" "rev_run_id v1 = rev_run_id v" "rev_id v1 = rev_id v"
    "run_project_id run1 = run_project_id run" "run_issue_id run1 = run_issue_id run" "run_workspace_id run1 = run_workspace_id run"
    "x \<in> set (db_runs d) \<Longrightarrow> \<exists>x'\<in>set (db_runs d3). run_project_id x' = run_project_id x \<and> run_issue_id x' = run_issue_id x \<and> run_attempt x' = run_attempt x"
proof -
  note c = insert_review_decision_row [OF assms(1)]
  have v: "List.find (\<lambda>x. rev_project_id x = rev_project_id v \<and> rev_id x = rev_id v \<and> rev_status x = REV_PENDING) (db_reviews d1) = Some v"
    by (rule reviews.find_by_key) (use assms(4-6) c(9) in auto)
  have d2: "db_runs d2 = db_runs d" using assms(2) c(10) by (auto simp: decide_review_def tx_simps)
  have r: "List.find (\<lambda>r. run_project_id r = run_project_id run \<and> run_id r = run_id run \<and> run_status r = RUN_READY_FOR_REVIEW) (db_runs d2) = Some run"
    by (rule runs.find_by_key) (use assms(7-9) d2 in auto)
  show "rev_status v1 = st" "rev_decision_id v1 = Some (dcs_id c)" "rev_run_id v1 = rev_run_id v" "rev_id v1 = rev_id v"
    using assms(2) v by (auto simp: decide_review_def tx_simps)
  show "run_project_id run1 = run_project_id run" "run_issue_id run1 = run_issue_id run" "run_workspace_id run1 = run_workspace_id run"
    using assms(3) r by (auto simp: complete_reviewed_run_def tx_simps)
  show "\<exists>x'\<in>set (db_runs d3). run_project_id x' = run_project_id x \<and> run_issue_id x' = run_issue_id x \<and> run_attempt x' = run_attempt x"
    if x: "x \<in> set (db_runs d)"
  proof -
    obtain p f where f: "db_runs d3 = update_rows p f (db_runs d)" "\<And>y. run_project_id (f y) = run_project_id y \<and>
        run_issue_id (f y) = run_issue_id y \<and> run_attempt (f y) = run_attempt y"
      using assms(3) d2 by (auto simp: complete_reviewed_run_def tx_simps)
    have "(if p x then f x else x) \<in> set (db_runs d3)" using f(1) x by (auto simp: set_update_rows)
    then show ?thesis by (rule bexI [rotated]) (simp add: f(2))
  qed
qed

text \<open>
  Requested changes start over: a request that took effect sends the Review back with a decision,
  completes the reviewed Run, which was the latest attempt of its Agent, and queues a new Run of the
  same Agent in the same Workspace. The attempt of the new Run is above every attempt of the Issue,
  and its START job carries the key of the Review.
\<close>

theorem changes_start_over:
  assumes "RequestReviewChanges input now d = (Inr r, d')" "rcr_events r \<noteq> []"
    and "reviews_wf d" "distinct (map run_id (db_runs d))"
  shows "\<exists>run\<in>set (db_runs d). run_id run = rev_run_id (rcr_review r) \<and> run_status run = RUN_READY_FOR_REVIEW \<and>
     (\<forall>x\<in>set (db_runs d). run_project_id x = run_project_id run \<and> run_issue_id x = run_issue_id run \<and> run_agent_id x = run_agent_id run
        \<longrightarrow> run_attempt x \<le> run_attempt run) \<and>
     rev_status (rcr_review r) = REV_CHANGES_REQUESTED \<and> rev_decision_id (rcr_review r) = Some (dcs_id (rcr_decision r)) \<and>
     dcs_safe_details (rcr_decision r) = JObj [(''feedback'', JStr (TrimSpace (rcc_feedback input)))] \<and>
     run_status (rcr_run r) = RUN_QUEUED \<and> run_agent_id (rcr_run r) = run_agent_id run \<and>
     run_workspace_id (rcr_run r) = run_workspace_id run \<and> run_issue_id (rcr_run r) = run_issue_id run \<and>
     (\<forall>x\<in>set (db_runs d). run_project_id x = run_project_id run \<and> run_issue_id x = run_issue_id run
        \<longrightarrow> run_attempt x < run_attempt (rcr_run r)) \<and>
     job_run_id (rcr_job r) = run_id (rcr_run r) \<and> job_kind (rcr_job r) = JOB_START \<and>
     job_idempotency_key (rcr_job r) = ''review:'' @ rev_id (rcr_review r) @ '':changes''"
proof -
  let ?d = "d\<lparr>db_now := now\<rparr>"
  have tx: "request_changes_tx input (TrimSpace (rcc_feedback input)) ?d = (Inr r, d')"
    using assms(1) by (auto simp: RequestReviewChanges_def Let_def run_tx_Inr split: if_splits)
  show ?thesis using tx
  proof (cases rule: changes_cases)
    case (1 v run issue)
    then have "rcr_events r = []" by (auto simp: existingRequestedChanges_def tx_simps split: option.splits)
    then show ?thesis using assms(2) by simp
  next
    case (2 v run issue a)
    note l = lock_review [OF 2(7)]
    have latest: "\<forall>x\<in>set (db_runs d). run_project_id x = run_project_id run \<and> run_issue_id x = run_issue_id run \<and> run_agent_id x = run_agent_id run
        \<longrightarrow> run_attempt x \<le> run_attempt run"
      using 2(4) by (auto simp: ensureLatestReviewAttempt_def tx_simps not_less)
    show ?thesis using 2(6)
    proof (cases rule: changes_steps)
      case (1 c d1 v1 d2 run1 d3 n d4 ev evs)
      have ids: "distinct (map rev_id (db_reviews ?d))" "distinct (map run_id (db_runs ?d))" using assms(3,4) by (simp_all add: reviews_wf_def)
      note rows = changes_rows [OF 1(1,2,3) l(2) 2(1) ids(1) l(5) 2(2) ids(2)]
      note q = createQueuedRun_row [OF 1(5), simplified] and i = createQueuedRun_input [OF 1(5), simplified]
        and j = createQueuedRun_rows(3,4) [OF 1(5)]
      have key: "changes_key v1 \<noteq> []" by (simp add: changes_key_def)
      have above: "run_attempt x < n" if x: "x \<in> set (db_runs d)" "run_project_id x = run_project_id run" "run_issue_id x = run_issue_id run" for x
      proof -
        obtain x' where x': "x' \<in> set (db_runs d3)" "run_project_id x' = run_project_id x" "run_issue_id x' = run_issue_id x" "run_attempt x' = run_attempt x"
          using rows(8) [of x] x(1) by auto
        then show ?thesis using next_attempt_above [OF 1(4) x'(1)] x' x(2,3) rows(5,6) by simp
      qed
      show ?thesis
        by (rule bexI [of _ run]) (use l latest above rows q i [OF key] j 1 2 insert_review_decision_row(6) [OF 1(1)] in \<open>simp_all add: changes_key_def\<close>)
    qed
  qed
qed

text \<open>
  A Run that an approval completes keeps its work requests as they were: the command does not go
  through the end of a Run, which closes them.
\<close>

lemma approval_leaves_work_requests:
  assumes "CompleteReviewApproval input now d = (Inr r, d')" "reviews_wf d"
  shows "db_work_requests d' = db_work_requests d"
proof -
  let ?d = "d\<lparr>db_now := now\<rparr>"
  have tx: "complete_approval_tx input ?d = (Inr r, d')"
    using assms(1) by (auto simp: CompleteReviewApproval_def run_tx_Inr split: if_splits)
  obtain v run issue where lock: "lockReviewCommandState (cac_project_id input) (cac_review_id input) ?d = (Inr (v, run, issue), ?d)"
    and rest: "(if rev_status v = REV_APPROVED then approved_already input v run issue else approve_review input v run issue) ?d = (Inr r, d')"
    using tx unfolding complete_approval_tx_def by (auto simp: tx_bind_Inr dest: lock_review(1))
  show ?thesis
  proof (cases "rev_status v = REV_APPROVED")
    case True
    then have "approved_already input v run issue ?d = (Inr r, d')" using rest by simp
    from read_state [OF read_reviews(7) this] show ?thesis by simp
  next
    case False
    then have "approve_review input v run issue ?d = (Inr r, d')" using rest by simp
    then show ?thesis using approval_rows(17) lock_review(2,5) [OF lock] assms(2) by (auto simp: reviews_wf_def)
  qed
qed

section \<open>A Review on the sample\<close>

definition sample_review :: review where
  "sample_review = \<lparr>rev_id = ''v1'', rev_project_id = ''p1'', rev_issue_id = ''i1'', rev_run_id = ''r1'', rev_status = REV_PENDING,
     rev_decision_id = None, rev_base_revision = Some ''aaa'', rev_review_revision = Some ''bbb'', rev_requested_at = 40,
     rev_decided_at = None, rev_created_at = 40, rev_updated_at = 40\<rparr>"

definition sample_reviewed :: db where
  "sample_reviewed = sample_queued\<lparr>db_runs := [sample_run ''r1'' 1 RUN_READY_FOR_REVIEW],
     db_jobs := [sample_job ''j1'' ''r1'' JOB_START JOB_DONE], db_reviews := [sample_review]\<rparr>"

lemmas review_run = delegation_run BeginReviewApproval_def begin_approval_tx_def lockReviewCommandState_def GetReview_def
  ensureLatestReviewAttempt_def record_intent_def insert_review_decision_def set_review_decision_def decision_check_def decision_unique_def
  CompleteReviewApproval_def complete_approval_tx_def approve_review_def pending_intent_def decisionByIDTx_def approval_intent_def
  decide_review_def complete_reviewed_run_def appendReviewDecisionEvents_def review_event_def
  RequestReviewChanges_def request_changes_tx_def no_intent_def queue_changes_def changes_key_def Let_def

lemma review_texts [sample_eval]: "TrimSpace ''v1'' = ''v1''" "TrimSpace ''bbb'' = ''bbb''" "TrimSpace ''fix'' = ''fix''"
  "btrim ''REVIEW'' \<noteq> []" "btrim ''APPROVED'' \<noteq> []" "btrim ''REVIEW_APPROVAL_INTENT'' \<noteq> []" "btrim ''PENDING'' \<noteq> []"
  "btrim ''CHANGES_REQUESTED'' \<noteq> []" "\<not> maxReviewFeedbackCharacters < RuneCountInString ''fix''" "''REVIEW'' \<noteq> ''REVIEW_APPROVAL_INTENT''"
  by code_simp+

lemma sample_reviewed_wf: "reviews_wf sample_reviewed" "distinct (map run_id (db_runs sample_reviewed))" "sample_review \<in> set (db_reviews sample_reviewed)"
  by (simp_all add: reviews_wf_def sample_reviewed_def sample_eval phase_of_def sample_review_def)

definition sample_begin :: begin_approval_command where
  "sample_begin = \<lparr>bac_project_id = ''p1'', bac_review_id = ''v1'', bac_actor_id = None\<rparr>"

definition sample_complete :: complete_approval_command where
  "sample_complete = \<lparr>cac_project_id = ''p1'', cac_review_id = ''v1'', cac_accepted_revision = ''bbb'', cac_delivery_complete = True\<rparr>"

definition sample_changes :: review_changes_command where
  "sample_changes = \<lparr>rcc_project_id = ''p1'', rcc_review_id = ''v1'', rcc_feedback = ''fix'', rcc_actor_id = None\<rparr>"

lemma sample_begun:
  "\<exists>r. BeginReviewApproval sample_begin 50 sample_reviewed = (Inr r, snd (BeginReviewApproval sample_begin 50 sample_reviewed))"
  by (simp add: review_run sample_begin_def sample_reviewed_def sample_review_def sample_eval)

lemma sample_approved:
  "\<exists>r d'. CompleteReviewApproval sample_complete 60 (snd (BeginReviewApproval sample_begin 50 sample_reviewed)) = (Inr r, d') \<and>
     car_events r \<noteq> [] \<and> distinct (map run_id (db_runs (snd (BeginReviewApproval sample_begin 50 sample_reviewed))))"
  by (simp add: review_run sample_begin_def sample_complete_def sample_reviewed_def sample_review_def sample_eval)

lemma sample_sent_back:
  "\<exists>r d'. RequestReviewChanges sample_changes 50 sample_reviewed = (Inr r, d') \<and> rcr_events r \<noteq> []"
  by (simp add: review_run sample_changes_def sample_reviewed_def sample_review_def sample_eval start_key_text)

theorem reviews_follow_protocol_witness:
  "\<exists>v'\<in>set (db_reviews (snd (BeginReviewApproval sample_begin 50 sample_reviewed))). rev_id v' = ''v1'' \<and>
     phase_step\<^sup>*\<^sup>* Open (phase_of (snd (BeginReviewApproval sample_begin 50 sample_reviewed)) v')"
proof -
  have "review_step\<^sup>*\<^sup>* sample_reviewed (snd (BeginReviewApproval sample_begin 50 sample_reviewed))"
    by (rule r_into_rtranclp, rule review_step.begin_approval, rule prod.collapse [symmetric])
  moreover have "phase_of sample_reviewed sample_review = Open" "rev_id sample_review = ''v1''"
    by (simp_all add: phase_of_def sample_review_def)
  ultimately show ?thesis using reviews_follow_protocol [OF sample_reviewed_wf(1) _ sample_reviewed_wf(3)] by simp
qed

theorem approval_repeats_witness:
  "\<exists>r d' r'. CompleteReviewApproval sample_complete 60 (snd (BeginReviewApproval sample_begin 50 sample_reviewed)) = (Inr r, d') \<and>
     CompleteReviewApproval sample_complete 70 d' = (Inr r', d'\<lparr>db_now := 70\<rparr>) \<and> car_decision r' = car_decision r"
proof -
  obtain r d' where r: "CompleteReviewApproval sample_complete 60 (snd (BeginReviewApproval sample_begin 50 sample_reviewed)) = (Inr r, d')"
      "car_events r \<noteq> []" "distinct (map run_id (db_runs (snd (BeginReviewApproval sample_begin 50 sample_reviewed))))"
    using sample_approved by blast
  have "reviews_wf (snd (BeginReviewApproval sample_begin 50 sample_reviewed))"
    using review_step_protocol [OF review_step.begin_approval [OF prod.collapse [symmetric]] sample_reviewed_wf(1)] by blast
  from approval_repeats [OF r(1,2) this r(3), of 70] r(1) show ?thesis by blast
qed

theorem changes_start_over_witness:
  "\<exists>r d'. RequestReviewChanges sample_changes 50 sample_reviewed = (Inr r, d') \<and> run_attempt (rcr_run r) > 1"
proof -
  obtain r d' where r: "RequestReviewChanges sample_changes 50 sample_reviewed = (Inr r, d')" "rcr_events r \<noteq> []"
    using sample_sent_back by blast
  from changes_start_over [OF r sample_reviewed_wf(1,2)] have "run_attempt (rcr_run r) > 1"
    by (auto simp: sample_reviewed_def sample_eval)
  then show ?thesis using r(1) by blast
qed

end
