(* ===== verification/Review_Service.thy ===== *)
theory Review_Service
  imports Reviews
begin

text \<open>
  The service that approves Reviews (app/reviews.go), over the interface of the Review store. The
  service sees the store, the projects, the integration of a reviewed revision and the evidence of a
  Run through interfaces; they are its parameters here. The store's laws are the locale
  \<open>review_store\<close>, which the model of the PostgreSQL store satisfies.
\<close>

section \<open>Errors of the application\<close>

text \<open>An \<open>Error\<close> with its code, its message and its cause, a store error as it came, or another error.\<close>

datatype app_error = AppError string string store_error | StoreError store_error | OtherError string

definition ReplaceAll_char :: "char \<Rightarrow> char \<Rightarrow> string \<Rightarrow> string" where
  "ReplaceAll_char a b s = map (\<lambda>c. if c = a then b else c) s"

definition translateStoreError :: "store_error \<Rightarrow> string \<Rightarrow> app_error" where
  "translateStoreError err resource =
     (case err of
        ErrNotFound \<Rightarrow> AppError (resource @ ''_not_found'') (ReplaceAll_char CHR ''_'' CHR '' '' resource @ '' not found'') err
      | ErrConflict \<Rightarrow> AppError ''conflict'' ''resource conflicts with existing state'' err
      | ErrInvalidArgument \<Rightarrow> AppError ''invalid_argument'' ''invalid request'' err
      | _ \<Rightarrow> StoreError err)"

definition invalid :: "string \<Rightarrow> app_error" where
  "invalid message = AppError ''invalid_argument'' message ErrInvalidArgument"

section \<open>The service\<close>

text \<open>
  The interfaces of the service on a state \<open>'d\<close>. \<open>svc_apply\<close> integrates a reviewed revision into
  the Project Workspace and answers the accepted revision; its effects are outside the database.
\<close>

record 'd review_service =
  svc_list :: "id \<Rightarrow> review_filter \<Rightarrow> 'd \<Rightarrow> store_error + review list"
  svc_get :: "id \<Rightarrow> id \<Rightarrow> 'd \<Rightarrow> store_error + review"
  svc_decision :: "id \<Rightarrow> id \<Rightarrow> 'd \<Rightarrow> store_error + decision"
  svc_begin :: "begin_approval_command \<Rightarrow> 'd \<Rightarrow> (store_error + begin_approval_result) \<times> 'd"
  svc_complete :: "complete_approval_command \<Rightarrow> 'd \<Rightarrow> (store_error + complete_approval_result) \<times> 'd"
  svc_fail :: "fail_approval_command \<Rightarrow> 'd \<Rightarrow> (store_error + review) \<times> 'd"
  svc_changes :: "review_changes_command \<Rightarrow> 'd \<Rightarrow> (store_error + review_changes_result) \<times> 'd"
  svc_project :: "id \<Rightarrow> 'd \<Rightarrow> store_error + project"
  svc_evidence :: "id \<Rightarrow> id \<Rightarrow> 'd \<Rightarrow> app_error + event list"
  svc_apply :: "project \<Rightarrow> review \<Rightarrow> app_error + string"

definition requireReviewRevisions :: "review \<Rightarrow> app_error + review" where
  "requireReviewRevisions review =
     (let base = TrimSpace (coalesce_text (rev_base_revision review));
          reviewed = TrimSpace (coalesce_text (rev_review_revision review)) in
      if base = [] \<or> reviewed = [] then Inl (AppError ''review_evidence_invalid'' ''Review Git identity is unavailable'' ErrConflict)
      else Inr (review\<lparr>rev_base_revision := Some base, rev_review_revision := Some reviewed\<rparr>))"

datatype review_test_status = ReviewTestsNotRun | ReviewTestsPassed | ReviewTestsFailed | ReviewTestsUnknown

fun summarize_tests :: "bool \<Rightarrow> bool \<Rightarrow> event list \<Rightarrow> review_test_status" where
  "summarize_tests seen completed [] =
     (if completed then ReviewTestsPassed else if seen then ReviewTestsUnknown else ReviewTestsNotRun)"
| "summarize_tests seen completed (e # es) =
     (if take 5 (evt_type e) \<noteq> ''test.'' then summarize_tests seen completed es
      else if evt_type e = ''test.failed'' then ReviewTestsFailed
      else summarize_tests True (completed \<or> evt_type e = ''test.completed'') es)"

definition summarizeReviewTests :: "event list \<Rightarrow> review_test_status" where
  "summarizeReviewTests events = summarize_tests False False events"

record review_inspection =
  rvi_review :: review
  rvi_decision :: "decision option"
  rvi_events :: "event list"
  rvi_test_status :: review_test_status

fun require_all :: "review list \<Rightarrow> app_error + review list" where
  "require_all [] = Inr []"
| "require_all (v # vs) =
     (case requireReviewRevisions v of Inl e \<Rightarrow> Inl e
      | Inr v' \<Rightarrow> (case require_all vs of Inl e \<Rightarrow> Inl e | Inr vs' \<Rightarrow> Inr (v' # vs')))"

definition List_reviews :: "'d review_service \<Rightarrow> string \<Rightarrow> review_filter \<Rightarrow> 'd \<Rightarrow> app_error + review list" where
  "List_reviews s projectID filt d =
     (if TrimSpace projectID = [] then Inl (invalid ''projectId is required'')
      else if \<not> list_all (\<lambda>st. st \<in> {''PENDING'', ''APPROVED'', ''CHANGES_REQUESTED'', ''CANCELLED''}) (rvf_statuses filt)
      then Inl (invalid ''status must be PENDING, APPROVED, CHANGES_REQUESTED or CANCELLED'')
      else case svc_list s projectID filt d of
        Inl e \<Rightarrow> Inl (translateStoreError e ''review'')
      | Inr values \<Rightarrow> require_all values)"

definition Get :: "'d review_service \<Rightarrow> string \<Rightarrow> string \<Rightarrow> 'd \<Rightarrow> app_error + review_inspection" where
  "Get s projectID reviewID d =
     (if TrimSpace projectID = [] \<or> TrimSpace reviewID = [] then Inl (invalid ''projectId and reviewId are required'')
      else case svc_get s projectID reviewID d of
        Inl e \<Rightarrow> Inl (translateStoreError e ''review'')
      | Inr review \<Rightarrow>
          (case requireReviewRevisions review of
             Inl e \<Rightarrow> Inl e
           | Inr review \<Rightarrow>
               (case svc_evidence s projectID (rev_run_id review) d of
                  Inl e \<Rightarrow> Inl e
                | Inr events \<Rightarrow>
                    let inspection = \<lparr>rvi_review = review, rvi_decision = None, rvi_events = events,
                                      rvi_test_status = summarizeReviewTests events\<rparr> in
                    (case rev_decision_id review of
                       None \<Rightarrow> Inr inspection
                     | Some decisionID \<Rightarrow>
                         (case svc_decision s projectID decisionID d of
                            Inl e \<Rightarrow> Inl (translateStoreError e ''decision'')
                          | Inr decision \<Rightarrow>
                              Inr (if dcs_kind decision = ''REVIEW'' then inspection\<lparr>rvi_decision := Some decision\<rparr>
                                   else inspection))))))"

definition persistApprovalFailure :: "'d review_service \<Rightarrow> string \<Rightarrow> string \<Rightarrow> string \<Rightarrow> 'd \<Rightarrow> 'd" where
  "persistApprovalFailure s projectID reviewID reason d =
     snd (svc_fail s \<lparr>fac_project_id = projectID, fac_review_id = reviewID, fac_reason = reason\<rparr> d)"

text \<open>
  \<open>Approve\<close>: the answer, the Events it publishes, and the state after it. \<open>others\<close> is what other
  callers commit before the second and the third access to the store.
\<close>

type_synonym 'd approval_outcome = "((app_error + complete_approval_result) \<times> event list) \<times> 'd"

definition finish_approval :: "'d review_service \<Rightarrow> string \<Rightarrow> string \<Rightarrow> string \<Rightarrow> bool \<Rightarrow> 'd \<Rightarrow> 'd approval_outcome" where
  "finish_approval s projectID reviewID acceptedRevision deliveryComplete d =
     (case svc_complete s \<lparr>cac_project_id = projectID, cac_review_id = reviewID, cac_accepted_revision = acceptedRevision,
              cac_delivery_complete = deliveryComplete\<rparr> d of
        (Inl e, d') \<Rightarrow> ((Inl (translateStoreError e ''review''), []), d')
      | (Inr result, d') \<Rightarrow> ((Inr result, car_events result), d'))"

definition deliver_review :: "'d review_service \<Rightarrow> ('d \<Rightarrow> 'd) \<Rightarrow> string \<Rightarrow> string \<Rightarrow> review \<Rightarrow> project \<Rightarrow> 'd \<Rightarrow> 'd approval_outcome" where
  "deliver_review s others projectID reviewID review project d =
     (let sourceType = TrimSpace (prj_source_type project);
          sourceType = (if sourceType = [] then ''local'' else sourceType) in
      if sourceType = ''local'' then
        (case svc_apply s project review of
           Inl e \<Rightarrow> ((Inl e, []), persistApprovalFailure s projectID reviewID
              ''reviewed Git revision could not be integrated into the current Project Workspace'' (others d))
         | Inr acceptedRevision \<Rightarrow> finish_approval s projectID reviewID acceptedRevision True (others d))
      else if sourceType = ''git'' then
        finish_approval s projectID reviewID (coalesce_text (rev_review_revision review)) False (others d)
      else ((Inl (AppError ''review_delivery_invalid'' ''Project source type is not supported for Review delivery'' ErrInvalidArgument), []), d))"

definition Approve :: "'d review_service \<Rightarrow> ('d \<Rightarrow> 'd) \<Rightarrow> ('d \<Rightarrow> 'd) \<Rightarrow> string \<Rightarrow> string \<Rightarrow> string option \<Rightarrow> 'd \<Rightarrow> 'd approval_outcome" where
  "Approve s others1 others2 projectID reviewID actorID d =
     (if TrimSpace projectID = [] \<or> TrimSpace reviewID = [] then ((Inl (invalid ''projectId and reviewId are required''), []), d)
      else case svc_begin s \<lparr>bac_project_id = projectID, bac_review_id = reviewID, bac_actor_id = actorID\<rparr> d of
        (Inl e, d1) \<Rightarrow> ((Inl (translateStoreError e ''review''), []), d1)
      | (Inr started, d1) \<Rightarrow>
          (case requireReviewRevisions (bar_review started) of
             Inl e \<Rightarrow> ((Inl e, []), persistApprovalFailure s projectID reviewID ''Review Git identity is unavailable'' (others1 d1))
           | Inr review \<Rightarrow>
               (case svc_project s projectID (others1 d1) of
                  Inl e \<Rightarrow> ((Inl (translateStoreError e ''project''), []), others1 d1)
                | Inr project \<Rightarrow> deliver_review s others2 projectID reviewID review project (others1 d1))))"

definition RequestChanges :: "'d review_service \<Rightarrow> string \<Rightarrow> string \<Rightarrow> string \<Rightarrow> string option \<Rightarrow> 'd \<Rightarrow>
   ((app_error + review_changes_result) \<times> event list) \<times> 'd" where
  "RequestChanges s projectID reviewID feedback actorID d =
     (if TrimSpace projectID = [] \<or> TrimSpace reviewID = [] then ((Inl (invalid ''projectId and reviewId are required''), []), d)
      else case svc_changes s \<lparr>rcc_project_id = projectID, rcc_review_id = reviewID, rcc_feedback = feedback, rcc_actor_id = actorID\<rparr> d of
        (Inl e, d') \<Rightarrow> ((Inl (translateStoreError e ''review''), []), d')
      | (Inr result, d') \<Rightarrow> ((Inr result, rcr_events result), d'))"

section \<open>The contract of the store\<close>

text \<open>
  What the service relies on, of any store with a notion of the phase of a Review: a command that
  fails changes nothing, and one that succeeds leaves the Review in the phase it is about. \<open>others\<close>
  are the commands of other callers.
\<close>

locale review_store =
  fixes s :: "'d review_service"
    and sound :: "'d \<Rightarrow> bool"
    and phase :: "'d \<Rightarrow> id \<Rightarrow> id \<Rightarrow> review_phase option"
    and step :: "'d \<Rightarrow> 'd \<Rightarrow> bool"
  assumes begin_error: "svc_begin s b d = (Inl e, d') \<Longrightarrow> d' = d"
    and begun: "sound d \<Longrightarrow> svc_begin s b d = (Inr rb, d') \<Longrightarrow> phase d' (bac_project_id b) (bac_review_id b) = Some Approving \<and>
      rev_id (bar_review rb) = bac_review_id b"
    and complete_error: "svc_complete s c d = (Inl e, d') \<Longrightarrow> d' = d"
    and completed: "sound d \<Longrightarrow> svc_complete s c d = (Inr rc, d') \<Longrightarrow>
      phase d' (cac_project_id c) (cac_review_id c) = Some Approved \<and> decisionHasAcceptedRevision (car_decision rc) (cac_accepted_revision c)"
    and fail_error: "svc_fail s f d = (Inl e, d') \<Longrightarrow> d' = d"
    and failed: "sound d \<Longrightarrow> svc_fail s f d = (Inr rf, d') \<Longrightarrow> phase d' (fac_project_id f) (fac_review_id f) = Some Approval_Failed"
    and commands: "svc_begin s b d = (r1, d') \<Longrightarrow> step d d'" "svc_complete s c d = (r2, d') \<Longrightarrow> step d d'"
      "svc_fail s f d = (r3, d') \<Longrightarrow> step d d'"
    and sound_step: "sound d \<Longrightarrow> step d d' \<Longrightarrow> sound d'"
    and protocol: "sound d \<Longrightarrow> step d d' \<Longrightarrow> phase d p x = Some ph \<Longrightarrow>
      \<exists>ph'. phase d' p x = Some ph' \<and> (ph' = ph \<or> phase_step ph ph')"
begin

lemma sound_steps: "step\<^sup>*\<^sup>* d d' \<Longrightarrow> sound d \<Longrightarrow> sound d'"
  by (induction rule: rtranclp_induct) (auto intro: sound_step)

lemma fail_not_approved:
  assumes "sound d" "phase d p x \<noteq> Some Approved"
  shows "phase (persistApprovalFailure s p x reason d) p x \<noteq> Some Approved"
proof (cases "svc_fail s \<lparr>fac_project_id = p, fac_review_id = x, fac_reason = reason\<rparr> d")
  case (Pair r d')
  then show ?thesis
    using assms failed [OF assms(1)] fail_error by (cases r) (fastforce simp: persistApprovalFailure_def)+
qed

lemma finish_sound:
  assumes "sound d" "finish_approval s p x rev1 complete d = ((r, published), d')"
  shows "(\<exists>res. r = Inr res \<and> published = car_events res \<and> phase d' p x = Some Approved \<and> decisionHasAcceptedRevision (car_decision res) rev1) \<or>
     (\<exists>e. r = Inl e \<and> published = [] \<and> d' = d)"
proof (cases "svc_complete s \<lparr>cac_project_id = p, cac_review_id = x, cac_accepted_revision = rev1, cac_delivery_complete = complete\<rparr> d")
  case (Pair q d1)
  then show ?thesis
    using assms(2) complete_error completed [OF assms(1)] by (cases q) (fastforce simp: finish_approval_def)+
qed

text \<open>What an integration and its persistence can come to.\<close>

lemma deliver_sound:
  assumes "sound (others d)" "sound d" "deliver_review s others p x v prj d = ((r, published), d')"
  shows "(\<exists>res rev1. r = Inr res \<and> published = car_events res \<and> phase d' p x = Some Approved \<and> decisionHasAcceptedRevision (car_decision res) rev1 \<and>
      (TrimSpace (prj_source_type prj) \<in> {[], ''local''} \<and> svc_apply s prj v = Inr rev1 \<or>
       TrimSpace (prj_source_type prj) = ''git'' \<and> rev1 = coalesce_text (rev_review_revision v))) \<or>
     (\<exists>e. r = Inl e \<and> published = [] \<and> (d' = d \<or> d' = others d \<or> (\<exists>reason. d' = persistApprovalFailure s p x reason (others d))))"
proof -
  have fin: "finish_approval s p x rev1 complete (others d) = ((r, published), d') \<Longrightarrow>
      (\<exists>res. r = Inr res \<and> published = car_events res \<and> phase d' p x = Some Approved \<and> decisionHasAcceptedRevision (car_decision res) rev1) \<or>
      (\<exists>e. r = Inl e \<and> published = [] \<and> d' = others d)" for rev1 complete
    using finish_sound [OF assms(1)] .
  show ?thesis
    using assms(3) fin unfolding deliver_review_def Let_def
    by (auto split: if_splits sum.splits)
qed


end

lemma required_id: "requireReviewRevisions v = Inr v' \<Longrightarrow> rev_id v' = rev_id v"
  by (auto simp: requireReviewRevisions_def Let_def split: if_splits)

context review_store
begin

lemma approve_outcome:
  assumes "sound d" "\<And>d. step\<^sup>*\<^sup>* d (others1 d)" "\<And>d. step\<^sup>*\<^sup>* d (others2 d)"
    and "Approve s others1 others2 p x actor d = ((r, published), d')"
  shows "r = Inr res \<Longrightarrow> published = car_events res \<and> phase d' p x = Some Approved \<and>
      (\<exists>dm prj v revision. step\<^sup>*\<^sup>* d dm \<and> svc_project s p dm = Inr prj \<and> rev_id v = x \<and> decisionHasAcceptedRevision (car_decision res) revision \<and>
         (TrimSpace (prj_source_type prj) \<in> {[], ''local''} \<and> svc_apply s prj v = Inr revision \<or>
          TrimSpace (prj_source_type prj) = ''git'' \<and> revision = coalesce_text (rev_review_revision v)))"
    and "r = Inl e \<Longrightarrow> published = [] \<and> (others1 = id \<longrightarrow> others2 = id \<longrightarrow>
      d' = d \<or> phase d' p x = Some Approving \<or> phase d' p x = Some Approval_Failed)"
proof -
  consider (refused) e where "r = Inl e" "published = []" "d' = d"
    | (started) rb d1 where "svc_begin s \<lparr>bac_project_id = p, bac_review_id = x, bac_actor_id = actor\<rparr> d = (Inr rb, d1)"
        "(\<exists>e. r = Inl e \<and> published = [] \<and> (d' = others1 d1 \<or> (\<exists>reason. d' = persistApprovalFailure s p x reason (others1 d1)))) \<or>
         (\<exists>v prj. rev_id v = rev_id (bar_review rb) \<and> svc_project s p (others1 d1) = Inr prj \<and> deliver_review s others2 p x v prj (others1 d1) = ((r, published), d'))"
    using assms(4) unfolding Approve_def
    by (auto split: if_splits prod.splits sum.splits dest!: begin_error required_id)
  then have "(r = Inr res \<longrightarrow> published = car_events res \<and> phase d' p x = Some Approved \<and>
      (\<exists>dm prj v revision. step\<^sup>*\<^sup>* d dm \<and> svc_project s p dm = Inr prj \<and> rev_id v = x \<and> decisionHasAcceptedRevision (car_decision res) revision \<and>
         (TrimSpace (prj_source_type prj) \<in> {[], ''local''} \<and> svc_apply s prj v = Inr revision \<or>
          TrimSpace (prj_source_type prj) = ''git'' \<and> revision = coalesce_text (rev_review_revision v)))) \<and>
    (r = Inl e \<longrightarrow> published = [] \<and> (others1 = id \<longrightarrow> others2 = id \<longrightarrow>
      d' = d \<or> phase d' p x = Some Approving \<or> phase d' p x = Some Approval_Failed))"
  proof cases
    case refused then show ?thesis by simp
  next
    case (started rb d1)
    have ph: "phase d1 p x = Some Approving" "rev_id (bar_review rb) = x" and s1: "sound d1"
      using begun [OF assms(1) started(1)] sound_step [OF assms(1) commands(1) [OF started(1)]] by simp_all
    have s2: "sound (others1 d1)" "sound (others2 (others1 d1))" using sound_steps assms(2,3) s1 by blast+
    have keep: "phase (persistApprovalFailure s p x reason d1) p x = Some Approving \<or>
        phase (persistApprovalFailure s p x reason d1) p x = Some Approval_Failed" for reason
    proof (cases "svc_fail s \<lparr>fac_project_id = p, fac_review_id = x, fac_reason = reason\<rparr> d1")
      case (Pair q d2)
      then show ?thesis using ph(1) failed [OF s1] fail_error by (cases q) (fastforce simp: persistApprovalFailure_def)+
    qed
    from started(2) show ?thesis
    proof (elim disjE exE conjE)
      fix e' reason assume "r = Inl e'" "published = []" "d' = persistApprovalFailure s p x reason (others1 d1)"
      then show ?thesis using keep by auto
    next
      fix v prj assume v: "rev_id v = rev_id (bar_review rb)" "svc_project s p (others1 d1) = Inr prj" and del: "deliver_review s others2 p x v prj (others1 d1) = ((r, published), d')"
      have dm: "step\<^sup>*\<^sup>* d (others1 d1)" using commands(1) [OF started(1)] assms(2) [of d1] by (rule converse_rtranclp_into_rtranclp)
      from deliver_sound [where others = others2, OF s2(2,1) del] show ?thesis
      proof (elim disjE exE conjE)
        fix e' assume "r = Inl e'" "published = []" "d' = others1 d1" then show ?thesis using ph by auto
      next
        fix e' assume "r = Inl e'" "published = []" "d' = others2 (others1 d1)" then show ?thesis using ph by auto
      next
        fix e' reason assume "r = Inl e'" "published = []" "d' = persistApprovalFailure s p x reason (others2 (others1 d1))"
        then show ?thesis using keep by auto
      qed (use dm v ph(2) in auto)
    qed (use ph in auto)
  qed
  then show "r = Inr res \<Longrightarrow> published = car_events res \<and> phase d' p x = Some Approved \<and>
      (\<exists>dm prj v revision. step\<^sup>*\<^sup>* d dm \<and> svc_project s p dm = Inr prj \<and> rev_id v = x \<and> decisionHasAcceptedRevision (car_decision res) revision \<and>
         (TrimSpace (prj_source_type prj) \<in> {[], ''local''} \<and> svc_apply s prj v = Inr revision \<or>
          TrimSpace (prj_source_type prj) = ''git'' \<and> revision = coalesce_text (rev_review_revision v)))"
    "r = Inl e \<Longrightarrow> published = [] \<and> (others1 = id \<longrightarrow> others2 = id \<longrightarrow>
      d' = d \<or> phase d' p x = Some Approving \<or> phase d' p x = Some Approval_Failed)" by blast+
qed


end

section \<open>The PostgreSQL store satisfies the contract\<close>

definition review_phase_at :: "db \<Rightarrow> id \<Rightarrow> id \<Rightarrow> review_phase option" where
  "review_phase_at d p x = map_option (phase_of d) (List.find (\<lambda>v. about v p x) (db_reviews d))"

definition postgres_reviews :: "(db \<Rightarrow> time) \<Rightarrow> (id \<Rightarrow> id \<Rightarrow> db \<Rightarrow> app_error + event list) \<Rightarrow> (project \<Rightarrow> review \<Rightarrow> app_error + string) \<Rightarrow>
   db review_service" where
  "postgres_reviews clock evidence apply_revision =
     \<lparr>svc_list = (\<lambda>p filt d. fst (ListReviews p filt d)), svc_get = (\<lambda>p x d. fst (GetReview p x d)),
      svc_decision = (\<lambda>p c d. fst (GetDecision p c d)), svc_begin = (\<lambda>b d. BeginReviewApproval b (clock d) d),
      svc_complete = (\<lambda>c d. CompleteReviewApproval c (clock d) d), svc_fail = (\<lambda>f d. FailReviewApproval f (clock d) d),
      svc_changes = (\<lambda>c d. RequestReviewChanges c (clock d) d),
      svc_project = (\<lambda>p d. fst (sql_find db_projects (\<lambda>d x. prj_id x = p) d)),
      svc_evidence = evidence, svc_apply = apply_revision\<rparr>"

lemma phase_at_row:
  assumes "reviews_wf d" "v \<in> set (db_reviews d)" "about v p x"
  shows "review_phase_at d p x = Some (phase_of d v)"
proof -
  have "List.find (\<lambda>v. about v p x) (db_reviews d) = Some v"
    by (rule reviews.find_by_key) (use assms in \<open>auto simp: reviews_wf_def about_def\<close>)
  then show ?thesis by (simp add: review_phase_at_def)
qed

lemma phase_at_same: "same_reviews d d' \<Longrightarrow> review_phase_at d' p x = review_phase_at d p x"
proof -
  assume s: "same_reviews d d'"
  have "decision_of d' v = decision_of d v" for v using s unfolding decision_of_def same_reviews_def by (simp split: option.split)
  then have "phase_of d' v = phase_of d v" for v unfolding phase_of_def by (rule ssubst) (rule refl)
  then have "phase_of d' = phase_of d" by (rule ext)
  then show ?thesis using s by (simp add: review_phase_at_def same_reviews_def)
qed

lemma phase_at_moved:
  assumes "reviews_wf d" "moved d d' v c st" "about v p x" "reviews_wf d'"
    and "\<And>y. rev_status y = st \<Longrightarrow> decision_of d' y = Some c \<Longrightarrow> rev_decision_id y \<noteq> None \<Longrightarrow> phase_of d' y = ph"
  shows "review_phase_at d' p x = Some ph"
proof -
  have v: "v \<in> set (db_reviews d)" using assms(2) by (simp add: moved_def)
  obtain y where y: "y \<in> set (db_reviews d')" "rev_id y = rev_id v" "rev_project_id y = rev_project_id v"
      "rev_status y = st" "decision_of d' y = Some c" "rev_decision_id y \<noteq> None"
    using moved_phases [OF assms(1,2) v] by auto
  show ?thesis using phase_at_row [OF assms(4) y(1)] assms(3,5) y by (simp add: about_def)
qed

text \<open>The phase a command leaves its Review in.\<close>

lemma begun_phase:
  assumes "reviews_wf d" "begin_approval_tx b d = (Inr r, d')"
  shows "review_phase_at d' (bac_project_id b) (bac_review_id b) = Some Approving"
  using begin_effect [OF assms(2)]
proof (elim disjE exE conjE bexE)
  fix v assume v: "same_reviews d d'" "v \<in> set (db_reviews d)" "about v (bac_project_id b) (bac_review_id b)" "phase_of d v = Approving"
  then show ?thesis using phase_at_row [OF assms(1) v(2,3)] phase_at_same [OF v(1)] by simp
next
  fix v c assume m: "moved d d' v c REV_PENDING" "about v (bac_project_id b) (bac_review_id b)" "approval_intent c"
  show ?thesis by (rule phase_at_moved [OF assms(1) m(1,2)]) (use review_tx_protocol(1) [OF assms] m(3) in \<open>auto simp: phase_of_def\<close>)
next
  fix v c assume m: "moved d d' v c REV_PENDING" "about v (bac_project_id b) (bac_review_id b)" "approval_intent c"
  show ?thesis by (rule phase_at_moved [OF assms(1) m(1,2)]) (use review_tx_protocol(1) [OF assms] m(3) in \<open>auto simp: phase_of_def\<close>)
qed

lemma begun_id:
  assumes "begin_approval_tx b d = (Inr r, d')"
  shows "rev_id (bar_review r) = bac_review_id b"
proof -
  obtain v run issue d1 where lock: "lockReviewCommandState (bac_project_id b) (bac_review_id b) d = (Inr (v, run, issue), d1)"
    using assms by (auto simp: begin_approval_tx_def tx_bind_Inr)
  have set: "rev_id v1 = rev_id v" if "set_review_decision v c d2 = (Inr v1, d3)" for v1 c d2 d3
    using that by (auto simp: set_review_decision_def tx_simps dest!: find_Some_in)
  have intent: "rev_id (bar_review r) = rev_id v" if "record_intent b v run d2 = (Inr r, d3)" for d2 d3
    using that set by (auto simp: record_intent_def tx_bind_Inr tx_return_eq)
  have "rev_id (bar_review r) = rev_id v"
    using assms lock intent unfolding begin_approval_tx_def
    by (cases "rev_decision_id v") (auto simp: tx_bind_Inr tx_return_eq tx_fail_eq split: if_splits)
  then show ?thesis using lock_review(3) [OF lock] by simp
qed

lemma failed_phase:
  assumes "reviews_wf d" "fail_approval_tx f reason d = (Inr r, d')"
  shows "review_phase_at d' (fac_project_id f) (fac_review_id f) = Some Approval_Failed"
proof -
  obtain v c where m: "moved d d' v c REV_PENDING" "about v (fac_project_id f) (fac_review_id f)" "dcs_kind c = ''REVIEW_APPROVAL_FAILED''"
    using fail_effect [OF assms(2)] by blast
  show ?thesis
    by (rule phase_at_moved [OF assms(1) m(1,2)]) (use review_tx_protocol(3) [OF assms] m(3) in \<open>auto simp: phase_of_def approval_intent_def\<close>)
qed

lemma completed_phase:
  assumes "reviews_wf d" "complete_approval_tx c d = (Inr r, d')"
  shows "review_phase_at d' (cac_project_id c) (cac_review_id c) = Some Approved"
  using complete_effect [OF assms(2)]
proof (elim disjE exE conjE bexE)
  fix v assume v: "same_reviews d d'" "v \<in> set (db_reviews d)" "about v (cac_project_id c) (cac_review_id c)" "phase_of d v = Approved"
  then show ?thesis using phase_at_row [OF assms(1) v(2,3)] phase_at_same [OF v(1)] by simp
next
  fix v k assume m: "moved d d' v k REV_APPROVED" "about v (cac_project_id c) (cac_review_id c)" "dcs_kind k = ''REVIEW''" "dcs_outcome k = ''APPROVED''"
  show ?thesis by (rule phase_at_moved [OF assms(1) m(1,2)]) (use review_tx_protocol(2) [OF assms] m in \<open>auto simp: phase_of_def\<close>)
qed

lemma completed_revision:
  assumes "complete_approval_tx c d = (Inr r, d')" "reviews_wf d"
  shows "decisionHasAcceptedRevision (car_decision r) (cac_accepted_revision c)"
proof -
  obtain v run issue where lock: "lockReviewCommandState (cac_project_id c) (cac_review_id c) d = (Inr (v, run, issue), d)"
    and rest: "(if rev_status v = REV_APPROVED then approved_already c v run issue else approve_review c v run issue) d = (Inr r, d')"
    using assms(1) unfolding complete_approval_tx_def by (auto simp: tx_bind_Inr dest: lock_review(1))
  show ?thesis
  proof (cases "rev_status v = REV_APPROVED")
    case True then show ?thesis using rest by (auto simp: approved_already_def tx_simps split: option.splits)
  next
    case False
    then have "approve_review c v run issue d = (Inr r, d')" using rest by simp
    from approval_rows(11) [OF this lock_review(2,5) [OF lock]] assms(2) show ?thesis
      by (auto simp: reviews_wf_def accepted_revision_read)
  qed
qed

lemma wf_at [simp]: "reviews_wf (d\<lparr>db_now := now\<rparr>) = reviews_wf d"
  by (rule reviews_wf_clock)

interpretation postgres: review_store "postgres_reviews clock evidence apply_revision" reviews_wf review_phase_at review_step
  for clock evidence apply_revision
proof unfold_locales
  fix b c f d d' e rb rc rf r1 r2 r3 p x ph
  let ?s = "postgres_reviews clock evidence apply_revision"
  show "svc_begin ?s b d = (Inl e, d') \<Longrightarrow> d' = d" "svc_complete ?s c d = (Inl e, d') \<Longrightarrow> d' = d" "svc_fail ?s f d = (Inl e, d') \<Longrightarrow> d' = d"
    by (auto simp: postgres_reviews_def BeginReviewApproval_def CompleteReviewApproval_def FailReviewApproval_def Let_def run_tx_Inl split: if_splits)
  show "review_phase_at d' (bac_project_id b) (bac_review_id b) = Some Approving \<and> rev_id (bar_review rb) = bac_review_id b"
    if "reviews_wf d" "svc_begin ?s b d = (Inr rb, d')"
    using that by (auto simp: postgres_reviews_def BeginReviewApproval_def run_tx_Inr split: if_splits dest: begun_phase [rotated] begun_id)
  show "review_phase_at d' (fac_project_id f) (fac_review_id f) = Some Approval_Failed" if "reviews_wf d" "svc_fail ?s f d = (Inr rf, d')"
    using that by (auto simp: postgres_reviews_def FailReviewApproval_def Let_def run_tx_Inr split: if_splits dest!: failed_phase [rotated])
  show "review_phase_at d' (cac_project_id c) (cac_review_id c) = Some Approved \<and> decisionHasAcceptedRevision (car_decision rc) (cac_accepted_revision c)"
    if "reviews_wf d" "svc_complete ?s c d = (Inr rc, d')"
    using that by (auto simp: postgres_reviews_def CompleteReviewApproval_def run_tx_Inr split: if_splits intro: completed_phase [rotated] completed_revision)
  show "svc_begin ?s b d = (r1, d') \<Longrightarrow> review_step d d'" "svc_complete ?s c d = (r2, d') \<Longrightarrow> review_step d d'"
    "svc_fail ?s f d = (r3, d') \<Longrightarrow> review_step d d'"
    by (auto simp: postgres_reviews_def intro: review_step.intros)
  show "reviews_wf d \<Longrightarrow> review_step d d' \<Longrightarrow> reviews_wf d'" using review_step_protocol by blast
  show "\<exists>ph'. review_phase_at d' p x = Some ph' \<and> (ph' = ph \<or> phase_step ph ph')"
    if st: "reviews_wf d" "review_step d d'" "review_phase_at d p x = Some ph"
  proof -
    obtain v where v: "v \<in> set (db_reviews d)" "about v p x" "phase_of d v = ph"
      using st(3) by (auto simp: review_phase_at_def dest: find_Some_in)
    obtain v' where "v' \<in> set (db_reviews d')" "about v' p x" "phase_of d' v' = ph \<or> phase_step ph (phase_of d' v')"
      using review_step_protocol [OF st(2,1)] v by (auto simp: follows_def about_def)
    then show ?thesis using phase_at_row [of d' v' p x] review_step_protocol [OF st(2,1)] by auto
  qed
qed

section \<open>The outcome of an approval\<close>


lemma approval_texts [sample_eval]: "TrimSpace ''local'' = ''local''" "TrimSpace ''aaa'' = ''aaa''"
  by code_simp+

lemma sample_approval:
  "\<exists>res d'. Approve (postgres_reviews (\<lambda>_. 50) (\<lambda>_ _ _. Inr []) (\<lambda>_ _. Inr ''bbb'')) id id ''p1'' ''v1'' None sample_reviewed =
     ((Inr res, car_events res), d')"
  by (simp add: Approve_def postgres_reviews_def deliver_review_def finish_approval_def requireReviewRevisions_def review_run
      sample_reviewed_def sample_review_def sample_eval coalesce_text_def)


end
