(* ===== verification/Identity.thy ===== *)
theory Identity
  imports Scheduler_Admission
begin

text \<open>
  Users and their credentials (store/postgres/auth.go, auth_management.go): the creation of users, their status and
  password, refresh sessions with rotating tokens, and the one-time tokens that set a password. Password and
  token hashes are opaque bytes. \<open>now\<close> is the time of the transaction, \<open>clock\<close> the time the caller passes.
\<close>

section \<open>Constrained updates\<close>

text \<open>
  An \<open>UPDATE ... RETURNING\<close> of the row with a primary key, scanned through \<open>notFound\<close>: the new row is checked
  like an inserted one, against the other rows.
\<close>

definition sql_update_checked ::
  "('s \<Rightarrow> 'r list) \<Rightarrow> (('r list \<Rightarrow> 'r list) \<Rightarrow> 's \<Rightarrow> 's) \<Rightarrow> ('r \<Rightarrow> 'r \<Rightarrow> bool) \<Rightarrow> ('s \<Rightarrow> 'r \<Rightarrow> pg_error option) \<Rightarrow>
   ('s \<Rightarrow> 'r \<Rightarrow> bool) \<Rightarrow> ('s \<Rightarrow> 'r \<Rightarrow> 'r) \<Rightarrow> ('s, 'r) tx" where
  "sql_update_checked rows upd uq ok p f =
     (\<lambda>s. case List.find (p s) (rows s) of
            None \<Rightarrow> (Inl ErrNotFound, s)
          | Some r \<Rightarrow>
              (case ok s (f s r) of
                 Some v \<Rightarrow> (Inl (notFound v), s)
               | None \<Rightarrow>
                   if exists_row (\<lambda>q. \<not> p s q \<and> uq q (f s r)) (rows s) then (Inl (notFound UniqueViolation), s)
                   else (Inr (f s r), upd (update_rows (p s) (f s)) s)))"

text \<open>An \<open>UPDATE\<close> of any number of rows: one row that violates a check fails the statement.\<close>

definition sql_update_all ::
  "('s \<Rightarrow> 'r list) \<Rightarrow> (('r list \<Rightarrow> 'r list) \<Rightarrow> 's \<Rightarrow> 's) \<Rightarrow> ('s \<Rightarrow> 'r \<Rightarrow> pg_error option) \<Rightarrow> (pg_error \<Rightarrow> store_error) \<Rightarrow>
   ('s \<Rightarrow> 'r \<Rightarrow> bool) \<Rightarrow> ('s \<Rightarrow> 'r \<Rightarrow> 'r) \<Rightarrow> ('s, nat) tx" where
  "sql_update_all rows upd ok err p f =
     (\<lambda>s. case List.find (\<lambda>r. p s r \<and> ok s (f s r) \<noteq> None) (rows s) of
            Some r \<Rightarrow> (Inl (err (the (ok s (f s r)))), s)
          | None \<Rightarrow> (Inr (count_rows (p s) (rows s)), upd (update_rows (p s) (f s)) s))"

lemma sql_update_checked_Inr [tx_simps]:
  "sql_update_checked rows upd uq ok p f s = (Inr x, s') \<longleftrightarrow>
     (\<exists>r. List.find (p s) (rows s) = Some r \<and> ok s (f s r) = None \<and>
        \<not> exists_row (\<lambda>q. \<not> p s q \<and> uq q (f s r)) (rows s) \<and> x = f s r \<and> s' = upd (update_rows (p s) (f s)) s)"
  by (auto simp: sql_update_checked_def split: option.splits)

lemma sql_update_all_Inr [tx_simps]:
  "sql_update_all rows upd ok err p f s = (Inr n, s') \<longleftrightarrow>
     (\<forall>r\<in>set (rows s). p s r \<longrightarrow> ok s (f s r) = None) \<and> n = count_rows (p s) (rows s) \<and> s' = upd (update_rows (p s) (f s)) s"
  by (auto simp: sql_update_all_def find_None_iff find_Some_iff split: option.splits)

section \<open>Tables\<close>

abbreviation db_users :: "db \<Rightarrow> user list" where
  "db_users d \<equiv> idn_users (db_identity d)"

abbreviation db_users_update :: "(user list \<Rightarrow> user list) \<Rightarrow> db \<Rightarrow> db" where
  "db_users_update f \<equiv> db_identity_update (idn_users_update f)"

abbreviation db_auth_sessions :: "db \<Rightarrow> auth_session list" where
  "db_auth_sessions d \<equiv> idn_sessions (db_identity d)"

abbreviation db_auth_sessions_update :: "(auth_session list \<Rightarrow> auth_session list) \<Rightarrow> db \<Rightarrow> db" where
  "db_auth_sessions_update f \<equiv> db_identity_update (idn_sessions_update f)"

abbreviation db_refresh_tokens :: "db \<Rightarrow> (id \<times> string) list" where
  "db_refresh_tokens d \<equiv> idn_refresh_tokens (db_identity d)"

abbreviation db_refresh_tokens_update :: "((id \<times> string) list \<Rightarrow> (id \<times> string) list) \<Rightarrow> db \<Rightarrow> db" where
  "db_refresh_tokens_update f \<equiv> db_identity_update (idn_refresh_tokens_update f)"

abbreviation db_password_tokens :: "db \<Rightarrow> password_token list" where
  "db_password_tokens d \<equiv> idn_password_tokens (db_identity d)"

abbreviation db_password_tokens_update :: "(password_token list \<Rightarrow> password_token list) \<Rightarrow> db \<Rightarrow> db" where
  "db_password_tokens_update f \<equiv> db_identity_update (idn_password_tokens_update f)"

definition DeploymentRoleAdmin :: string where "DeploymentRoleAdmin = ''admin''"
definition DeploymentRoleMember :: string where "DeploymentRoleMember = ''member''"
definition UserStatusPending :: string where "UserStatusPending = ''pending''"
definition UserStatusActive :: string where "UserStatusActive = ''active''"
definition UserStatusDisabled :: string where "UserStatusDisabled = ''disabled''"
definition PasswordTokenPurposeSetup :: string where "PasswordTokenPurposeSetup = ''setup''"
definition PasswordTokenPurposeReset :: string where "PasswordTokenPurposeReset = ''reset''"

lemmas identity_texts = DeploymentRoleAdmin_def DeploymentRoleMember_def UserStatusPending_def UserStatusActive_def
  UserStatusDisabled_def PasswordTokenPurposeSetup_def PasswordTokenPurposeReset_def

text \<open>
  The constraints of users, auth_sessions and password_tokens. The trigger that keeps user names and e-mail addresses in one
  namespace repeats, for a writer that comes between, what \<open>ensureLoginIdentifiersAvailable\<close> and \<open>identity_collision\<close> check
  before the write; where transactions run one at a time it never fires.
\<close>

definition user_unique :: "user \<Rightarrow> user \<Rightarrow> bool" where
  "user_unique u v \<longleftrightarrow> usr_id u = usr_id v \<or> usr_username u = usr_username v \<or> usr_email u = usr_email v"

definition max_bigint :: int where
  "max_bigint = 9223372036854775807"

definition user_check :: "db \<Rightarrow> user \<Rightarrow> pg_error option" where
  "user_check d u =
     (let lower = idn_lower (db_identity d) in
      if usr_auth_version u > max_bigint then Some NumericOutOfRange
      else if btrim (usr_username u) \<noteq> [] \<and> usr_username u = lower (btrim (usr_username u)) \<and>
         btrim (usr_email u) \<noteq> [] \<and> usr_email u = lower (btrim (usr_email u)) \<and> btrim (usr_display_name u) \<noteq> [] \<and>
         (case usr_password_hash u of None \<Rightarrow> usr_status u \<noteq> UserStatusActive | Some h \<Rightarrow> btrim h \<noteq> []) \<and>
         usr_deployment_role u \<in> {DeploymentRoleAdmin, DeploymentRoleMember} \<and>
         usr_status u \<in> {UserStatusPending, UserStatusActive, UserStatusDisabled} \<and> usr_auth_version u \<ge> 1
      then None else Some CheckViolation)"

definition session_unique :: "auth_session \<Rightarrow> auth_session \<Rightarrow> bool" where
  "session_unique s t \<longleftrightarrow> ase_id s = ase_id t \<or> ase_refresh_token_hash s = ase_refresh_token_hash t"

definition not_before :: "time option \<Rightarrow> time \<Rightarrow> bool" where
  "not_before t created \<longleftrightarrow> (case t of None \<Rightarrow> True | Some t \<Rightarrow> created \<le> t)"

definition session_check :: "db \<Rightarrow> auth_session \<Rightarrow> pg_error option" where
  "session_check d s =
     (if length (ase_refresh_token_hash s) = 32 \<and> ase_expires_at s > ase_created_at s \<and>
         not_before (ase_revoked_at s) (ase_created_at s) \<and> not_before (ase_last_used_at s) (ase_created_at s)
      then (if exists_row (\<lambda>u. usr_id u = ase_user_id s) (db_users d) then None else Some ForeignKeyViolation)
      else Some CheckViolation)"

definition refresh_unique :: "id \<times> string \<Rightarrow> id \<times> string \<Rightarrow> bool" where
  "refresh_unique t u \<longleftrightarrow> snd t = snd u"

definition refresh_check :: "db \<Rightarrow> id \<times> string \<Rightarrow> pg_error option" where
  "refresh_check d t = (if length (snd t) \<noteq> 32 then Some CheckViolation
     else if exists_row (\<lambda>s. ase_id s = fst t) (db_auth_sessions d) then None else Some ForeignKeyViolation)"

definition token_open :: "password_token \<Rightarrow> bool" where
  "token_open t \<longleftrightarrow> pwt_consumed_at t = None \<and> pwt_revoked_at t = None"

definition password_token_unique :: "password_token \<Rightarrow> password_token \<Rightarrow> bool" where
  "password_token_unique t u \<longleftrightarrow> pwt_id t = pwt_id u \<or> pwt_token_hash t = pwt_token_hash u \<or>
     token_open t \<and> token_open u \<and> pwt_user_id t = pwt_user_id u \<and> pwt_purpose t = pwt_purpose u"

definition password_token_check :: "db \<Rightarrow> password_token \<Rightarrow> pg_error option" where
  "password_token_check d t =
     (if pwt_purpose t \<in> {PasswordTokenPurposeSetup, PasswordTokenPurposeReset} \<and> length (pwt_token_hash t) = 32 \<and>
         pwt_expires_at t > pwt_created_at t \<and> not_before (pwt_consumed_at t) (pwt_created_at t) \<and>
         not_before (pwt_revoked_at t) (pwt_created_at t) \<and> (pwt_consumed_at t = None \<or> pwt_revoked_at t = None)
      then (if exists_row (\<lambda>u. usr_id u = pwt_user_id t) (db_users d) then None else Some ForeignKeyViolation)
      else Some CheckViolation)"

section \<open>Users\<close>

definition UserCount :: "db \<Rightarrow> nat" where
  "UserCount d = length (db_users d)"

definition ensureLoginIdentifiersAvailable :: "string \<Rightarrow> string \<Rightarrow> (db, unit) tx" where
  "ensureLoginIdentifiersAvailable username email =
     tx_bind (sql_exists db_users (\<lambda>d u. usr_username u \<in> {username, email} \<or> usr_email u \<in> {username, email})) (\<lambda>exists.
     tx_guard (\<not> exists) ErrConflict)"

definition new_user :: "id \<Rightarrow> user \<Rightarrow> time \<Rightarrow> user" where
  "new_user uid input now = input\<lparr>usr_id := uid,
     usr_password_hash := (case usr_password_hash input of Some h \<Rightarrow> if h = [] then None else Some h | None \<Rightarrow> None),
     usr_auth_version := (if usr_auth_version input < 1 then 1 else usr_auth_version input),
     usr_created_at := now, usr_updated_at := now\<rparr>"

definition insertUser :: "user \<Rightarrow> (db, user) tx" where
  "insertUser input =
     tx_bind gen_random_uuid (\<lambda>uid.
     tx_bind (tx_get db_now) (\<lambda>now.
     sql_insert db_users db_users_update user_unique user_check notFound (new_user uid input now)))"

definition BootstrapUser :: "user \<Rightarrow> time \<Rightarrow> db \<Rightarrow> (store_error + user) \<times> db" where
  "BootstrapUser input now =
     run_tx now (
       tx_bind (sql_exists db_users (\<lambda>d u. True)) (\<lambda>exists.
       tx_bind (tx_guard (\<not> exists) ErrConflict) (\<lambda>_.
       tx_bind (ensureLoginIdentifiersAvailable (usr_username input) (usr_email input)) (\<lambda>_.
       insertUser input))))"

definition CreateUser :: "user \<Rightarrow> time \<Rightarrow> db \<Rightarrow> (store_error + user) \<times> db" where
  "CreateUser input now =
     run_tx now (
       tx_bind (ensureLoginIdentifiersAvailable (usr_username input) (usr_email input)) (\<lambda>_.
       insertUser input))"

definition GetUser :: "id \<Rightarrow> (db, user) tx" where
  "GetUser userID = sql_find db_users (\<lambda>d u. usr_id u = userID)"

definition GetUserByLogin :: "string \<Rightarrow> (db, user) tx" where
  "GetUserByLogin login = sql_find db_users (\<lambda>d u. usr_username u = login \<or> usr_email u = login)"

definition ListUsers :: "db \<Rightarrow> user list" where
  "ListUsers d = sort_key (\<lambda>u. (usr_created_at u, usr_id u)) (db_users d)"

definition identity_collision :: "id \<Rightarrow> string \<Rightarrow> string \<Rightarrow> (db, bool) tx" where
  "identity_collision userID username email =
     sql_exists db_users (\<lambda>d u. usr_id u \<noteq> userID \<and> (usr_username u \<in> {username, email} \<or> usr_email u \<in> {username, email}))"

definition UpdateUserIdentity :: "id \<Rightarrow> string \<Rightarrow> string \<Rightarrow> string \<Rightarrow> time \<Rightarrow> db \<Rightarrow> (store_error + user) \<times> db" where
  "UpdateUserIdentity userID username email displayName now =
     run_tx now (
       tx_bind (identity_collision userID username email) (\<lambda>collision.
       tx_bind (tx_guard (\<not> collision) ErrConflict) (\<lambda>_.
       sql_update_checked db_users db_users_update user_unique user_check (\<lambda>d u. usr_id u = userID)
         (\<lambda>d u. u\<lparr>usr_username := username, usr_email := email, usr_display_name := displayName, usr_updated_at := db_now d\<rparr>))))"

section \<open>Direct administrators of projects\<close>

abbreviation db_user_access :: "db \<Rightarrow> grant list" where
  "db_user_access d \<equiv> idn_user_access (db_identity d)"

abbreviation db_user_access_update :: "(grant list \<Rightarrow> grant list) \<Rightarrow> db \<Rightarrow> db" where
  "db_user_access_update f \<equiv> db_identity_update (idn_user_access_update f)"

definition ProjectRoleViewer :: string where "ProjectRoleViewer = ''viewer''"
definition ProjectRoleMember :: string where "ProjectRoleMember = ''member''"
definition ProjectRoleAdmin :: string where "ProjectRoleAdmin = ''admin''"

definition ValidProjectRole :: "string \<Rightarrow> bool" where
  "ValidProjectRole role \<longleftrightarrow> role = ProjectRoleViewer \<or> role = ProjectRoleMember \<or> role = ProjectRoleAdmin"

definition active_user :: "db \<Rightarrow> id \<Rightarrow> bool" where
  "active_user d userID \<longleftrightarrow> exists_row (\<lambda>u. usr_id u = userID \<and> usr_status u = UserStatusActive) (db_users d)"

definition ensureActiveDirectProjectAdmin :: "id \<Rightarrow> (db, unit) tx" where
  "ensureActiveDirectProjectAdmin projectID =
     tx_bind (sql_exists db_user_access (\<lambda>d g. grn_project_id g = projectID \<and> grn_role g = ProjectRoleAdmin \<and>
                active_user d (grn_grantee_id g))) (\<lambda>found.
     tx_guard found ErrLastProjectAdmin)"

definition userIsSoleActiveDirectAdmin :: "id \<Rightarrow> (db, bool) tx" where
  "userIsSoleActiveDirectAdmin userID =
     sql_exists db_user_access (\<lambda>d mine. grn_grantee_id mine = userID \<and> grn_role mine = ProjectRoleAdmin \<and>
       \<not> exists_row (\<lambda>other. grn_project_id other = grn_project_id mine \<and> grn_role other = ProjectRoleAdmin \<and>
            grn_grantee_id other \<noteq> userID \<and> active_user d (grn_grantee_id other)) (db_user_access d))"

section \<open>Status and password\<close>

text \<open>The sessions of a user that are still open, and the open password tokens, end.\<close>

definition revoke_sessions :: "(pg_error \<Rightarrow> store_error) \<Rightarrow> id \<Rightarrow> (db \<Rightarrow> time) \<Rightarrow> (db, nat) tx" where
  "revoke_sessions err userID at =
     sql_update_all db_auth_sessions db_auth_sessions_update session_check err
       (\<lambda>d s. ase_user_id s = userID \<and> ase_revoked_at s = None) (\<lambda>d s. s\<lparr>ase_revoked_at := Some (at d)\<rparr>)"

definition revokeOutstandingPasswordTokens :: "id \<Rightarrow> (db, nat) tx" where
  "revokeOutstandingPasswordTokens userID =
     sql_update_all db_password_tokens db_password_tokens_update password_token_check PgError
       (\<lambda>d t. pwt_user_id t = userID \<and> token_open t) (\<lambda>d t. t\<lparr>pwt_revoked_at := Some (db_now d)\<rparr>)"

definition keep_deployment_admin :: "user \<Rightarrow> string \<Rightarrow> (db, unit) tx" where
  "keep_deployment_admin current status =
     (if usr_status current = UserStatusActive \<and> usr_deployment_role current = DeploymentRoleAdmin \<and> status \<noteq> UserStatusActive
      then tx_bind (tx_get (\<lambda>d. count_rows (\<lambda>u. usr_deployment_role u = DeploymentRoleAdmin \<and> usr_status u = UserStatusActive)
             (db_users d))) (\<lambda>activeAdmins.
           tx_guard (activeAdmins > 1) ErrConflict)
      else tx_return ())"

definition keep_project_admins :: "user \<Rightarrow> string \<Rightarrow> (db, unit) tx" where
  "keep_project_admins current status =
     (if usr_status current = UserStatusActive \<and> status \<noteq> UserStatusActive
      then tx_bind (userIsSoleActiveDirectAdmin (usr_id current)) (\<lambda>sole. tx_guard (\<not> sole) ErrLastProjectAdmin)
      else tx_return ())"

definition set_status_user_tx :: "id \<Rightarrow> string \<Rightarrow> bool \<Rightarrow> (db, user) tx" where
  "set_status_user_tx userID requested deriveEnabledStatus =
     tx_bind (sql_find db_users (\<lambda>d u. usr_id u = userID)) (\<lambda>current.
     let status = (if deriveEnabledStatus \<and> usr_password_hash current = None then UserStatusPending else requested) in
     if usr_status current = status then tx_return current
     else
       tx_bind (keep_project_admins current status) (\<lambda>_.
       tx_bind (keep_deployment_admin current status) (\<lambda>_.
       tx_bind (sql_update_checked db_users db_users_update user_unique user_check (\<lambda>d u. usr_id u = userID)
                  (\<lambda>d u. u\<lparr>usr_status := status, usr_auth_version := usr_auth_version u + 1, usr_updated_at := db_now d\<rparr>)) (\<lambda>value.
       tx_bind (revoke_sessions PgError userID db_now) (\<lambda>_.
       tx_return value)))))"

definition setUserStatus :: "id \<Rightarrow> string \<Rightarrow> bool \<Rightarrow> time \<Rightarrow> db \<Rightarrow> (store_error + user) \<times> db" where
  "setUserStatus userID status deriveEnabledStatus now = run_tx now (set_status_user_tx userID status deriveEnabledStatus)"

definition SetUserStatus :: "id \<Rightarrow> string \<Rightarrow> time \<Rightarrow> db \<Rightarrow> (store_error + user) \<times> db" where
  "SetUserStatus userID status now = setUserStatus userID status False now"

definition SetUserDisabled :: "id \<Rightarrow> bool \<Rightarrow> time \<Rightarrow> db \<Rightarrow> (store_error + user) \<times> db" where
  "SetUserDisabled userID disabled now =
     (if disabled then setUserStatus userID UserStatusDisabled False now
      else setUserStatus userID UserStatusActive True now)"

definition with_password :: "string \<Rightarrow> bool \<Rightarrow> time \<Rightarrow> user \<Rightarrow> user" where
  "with_password passwordHash forcePasswordChange at u = u\<lparr>usr_password_hash := Some passwordHash,
     usr_status := (if usr_status u = UserStatusPending then UserStatusActive else usr_status u),
     usr_force_password_change := forcePasswordChange, usr_auth_version := usr_auth_version u + 1, usr_updated_at := at\<rparr>"

definition password_row :: "id \<Rightarrow> int option \<Rightarrow> string \<Rightarrow> bool \<Rightarrow> (db, user) tx" where
  "password_row userID expectedAuthVersion passwordHash forcePasswordChange =
     (case expectedAuthVersion of
        None \<Rightarrow> sql_update_checked db_users db_users_update user_unique user_check (\<lambda>d u. usr_id u = userID)
                  (\<lambda>d. with_password passwordHash forcePasswordChange (db_now d))
      | Some version \<Rightarrow>
          tx_bind (tx_try (sql_update_checked db_users db_users_update user_unique user_check
                     (\<lambda>d u. usr_id u = userID \<and> usr_auth_version u = version)
                     (\<lambda>d. with_password passwordHash forcePasswordChange (db_now d)))) (\<lambda>updated.
          case updated of
            Inr u \<Rightarrow> tx_return u
          | Inl e \<Rightarrow>
              if e = ErrNotFound then
                tx_bind (sql_exists db_users (\<lambda>d u. usr_id u = userID)) (\<lambda>exists.
                tx_fail (if exists then ErrConflict else e))
              else tx_fail e))"

definition set_password_tx :: "id \<Rightarrow> int option \<Rightarrow> string \<Rightarrow> bool \<Rightarrow> (db, user) tx" where
  "set_password_tx userID expectedAuthVersion passwordHash forcePasswordChange =
     tx_bind (password_row userID expectedAuthVersion passwordHash forcePasswordChange) (\<lambda>value.
     tx_bind (revoke_sessions PgError userID db_now) (\<lambda>_.
     tx_bind (revokeOutstandingPasswordTokens userID) (\<lambda>_.
     tx_return value)))"

definition setUserPassword :: "id \<Rightarrow> int option \<Rightarrow> string \<Rightarrow> bool \<Rightarrow> time \<Rightarrow> db \<Rightarrow> (store_error + user) \<times> db" where
  "setUserPassword userID expectedAuthVersion passwordHash forcePasswordChange now =
     run_tx now (set_password_tx userID expectedAuthVersion passwordHash forcePasswordChange)"

definition SetUserPassword :: "id \<Rightarrow> string \<Rightarrow> bool \<Rightarrow> time \<Rightarrow> db \<Rightarrow> (store_error + user) \<times> db" where
  "SetUserPassword userID passwordHash forcePasswordChange now = setUserPassword userID None passwordHash forcePasswordChange now"

definition SetUserPasswordIfAuthVersion :: "id \<Rightarrow> int \<Rightarrow> string \<Rightarrow> bool \<Rightarrow> time \<Rightarrow> db \<Rightarrow> (store_error + user) \<times> db" where
  "SetUserPasswordIfAuthVersion userID expectedAuthVersion passwordHash forcePasswordChange now =
     setUserPassword userID (Some expectedAuthVersion) passwordHash forcePasswordChange now"

section \<open>Sessions\<close>

text \<open>
  A session has one current refresh token; the table of refresh tokens keeps every hash it ever had, so that a
  hash is never used twice.
\<close>

definition new_session :: "id \<Rightarrow> id \<Rightarrow> string \<Rightarrow> time \<Rightarrow> time \<Rightarrow> auth_session" where
  "new_session sid userID hash expiresAt now = \<lparr>ase_id = sid, ase_user_id = userID, ase_refresh_token_hash = hash,
     ase_expires_at = expiresAt, ase_revoked_at = None, ase_created_at = now, ase_last_used_at = None\<rparr>"

definition remember_hash :: "id \<Rightarrow> string \<Rightarrow> (db, id \<times> string) tx" where
  "remember_hash sessionID hash =
     sql_insert db_refresh_tokens db_refresh_tokens_update refresh_unique refresh_check PgError (sessionID, hash)"

definition CreateAuthSession :: "id \<Rightarrow> string \<Rightarrow> time \<Rightarrow> time \<Rightarrow> db \<Rightarrow> (store_error + auth_session) \<times> db" where
  "CreateAuthSession userID hash expiresAt now =
     run_tx now (
       tx_bind gen_random_uuid (\<lambda>sid.
       tx_bind (tx_get db_now) (\<lambda>at.
       tx_bind (sql_insert db_auth_sessions db_auth_sessions_update session_unique session_check notFound
                  (new_session sid userID hash expiresAt at)) (\<lambda>value.
       tx_bind (remember_hash (ase_id value) hash) (\<lambda>_.
       tx_return value)))))"

definition GetAuthSessionByRefreshHash :: "string \<Rightarrow> (db, auth_session) tx" where
  "GetAuthSessionByRefreshHash hash = sql_find db_auth_sessions (\<lambda>d s. ase_refresh_token_hash s = hash)"

definition rotate_tx :: "id \<Rightarrow> string \<Rightarrow> string \<Rightarrow> time \<Rightarrow> time \<Rightarrow> (db, auth_session) tx" where
  "rotate_tx sessionID oldHash newHash expiresAt clock =
     tx_bind (sql_update_checked db_auth_sessions db_auth_sessions_update session_unique session_check
                (\<lambda>d s. ase_id s = sessionID \<and> ase_refresh_token_hash s = oldHash \<and> ase_revoked_at s = None \<and> ase_expires_at s > clock)
                (\<lambda>d s. s\<lparr>ase_refresh_token_hash := newHash, ase_expires_at := expiresAt, ase_last_used_at := Some clock\<rparr>)) (\<lambda>value.
     tx_bind (remember_hash (ase_id value) newHash) (\<lambda>_.
     tx_return value))"

definition RotateAuthSession :: "id \<Rightarrow> string \<Rightarrow> string \<Rightarrow> time \<Rightarrow> time \<Rightarrow> time \<Rightarrow> db \<Rightarrow> (store_error + auth_session) \<times> db" where
  "RotateAuthSession sessionID oldHash newHash expiresAt clock now =
     run_tx now (rotate_tx sessionID oldHash newHash expiresAt clock)"

text \<open>The sessions that ever had the hash.\<close>

definition had_hash :: "string \<Rightarrow> db \<Rightarrow> auth_session \<Rightarrow> bool" where
  "had_hash hash d s \<longleftrightarrow> exists_row (\<lambda>t. fst t = ase_id s \<and> snd t = hash) (db_refresh_tokens d) \<and> ase_revoked_at s = None"

definition RevokeAuthSessionByRefreshHash :: "string \<Rightarrow> time \<Rightarrow> time \<Rightarrow> db \<Rightarrow> (store_error + unit) \<times> db" where
  "RevokeAuthSessionByRefreshHash hash clock now =
     run_tx now (
       tx_bind (sql_update_all db_auth_sessions db_auth_sessions_update session_check notFound (had_hash hash)
                  (\<lambda>d s. s\<lparr>ase_revoked_at := Some clock\<rparr>)) (\<lambda>affected.
       tx_guard (affected \<noteq> 0) ErrNotFound))"

definition RevokeUserAuthSessions :: "id \<Rightarrow> time \<Rightarrow> time \<Rightarrow> db \<Rightarrow> (store_error + nat) \<times> db" where
  "RevokeUserAuthSessions userID clock now = run_tx now (revoke_sessions notFound userID (\<lambda>_. clock))"

definition ListUserAuthSessions :: "id \<Rightarrow> time \<Rightarrow> db \<Rightarrow> auth_session list" where
  "ListUserAuthSessions userID clock d =
     sort_key (\<lambda>s. (- (case ase_last_used_at s of Some t \<Rightarrow> t | None \<Rightarrow> ase_created_at s), - ase_created_at s, ase_id s))
       (filter (\<lambda>s. ase_user_id s = userID \<and> ase_revoked_at s = None \<and> ase_expires_at s > clock) (db_auth_sessions d))"

definition RevokeAuthSession :: "id \<Rightarrow> id \<Rightarrow> time \<Rightarrow> time \<Rightarrow> db \<Rightarrow> (store_error + unit) \<times> db" where
  "RevokeAuthSession userID sessionID clock now =
     run_tx now (
       tx_bind (sql_update_all db_auth_sessions db_auth_sessions_update session_check notFound
                  (\<lambda>d s. ase_user_id s = userID \<and> ase_id s = sessionID \<and> ase_revoked_at s = None)
                  (\<lambda>d s. s\<lparr>ase_revoked_at := Some clock\<rparr>)) (\<lambda>affected.
       tx_guard (affected \<noteq> 0) ErrNotFound))"

definition RevokeOtherAuthSessions :: "id \<Rightarrow> id \<Rightarrow> time \<Rightarrow> time \<Rightarrow> db \<Rightarrow> (store_error + nat) \<times> db" where
  "RevokeOtherAuthSessions userID keepSessionID clock now =
     run_tx now (
       sql_update_all db_auth_sessions db_auth_sessions_update session_check notFound
         (\<lambda>d s. ase_user_id s = userID \<and> ase_id s \<noteq> keepSessionID \<and> ase_revoked_at s = None)
         (\<lambda>d s. s\<lparr>ase_revoked_at := Some clock\<rparr>))"

section \<open>Password tokens\<close>

definition new_password_token :: "id \<Rightarrow> id \<Rightarrow> string \<Rightarrow> string \<Rightarrow> time \<Rightarrow> time \<Rightarrow> password_token" where
  "new_password_token tid userID purpose hash expiresAt now = \<lparr>pwt_id = tid, pwt_user_id = userID, pwt_purpose = purpose,
     pwt_token_hash = hash, pwt_expires_at = expiresAt, pwt_consumed_at = None, pwt_revoked_at = None, pwt_created_at = now\<rparr>"

definition insert_password_token :: "id \<Rightarrow> string \<Rightarrow> string \<Rightarrow> time \<Rightarrow> (db, password_token) tx" where
  "insert_password_token userID purpose hash expiresAt =
     tx_bind gen_random_uuid (\<lambda>tid.
     tx_bind (tx_get db_now) (\<lambda>at.
     sql_insert db_password_tokens db_password_tokens_update password_token_unique password_token_check notFound
       (new_password_token tid userID purpose hash expiresAt at)))"

definition CreatePasswordToken :: "id \<Rightarrow> string \<Rightarrow> string \<Rightarrow> time \<Rightarrow> time \<Rightarrow> db \<Rightarrow> (store_error + password_token) \<times> db" where
  "CreatePasswordToken userID purpose hash expiresAt now =
     run_tx now (
       tx_bind (sql_update_all db_password_tokens db_password_tokens_update password_token_check PgError
                  (\<lambda>d t. pwt_user_id t = userID \<and> pwt_purpose t = purpose \<and> token_open t)
                  (\<lambda>d t. t\<lparr>pwt_revoked_at := Some (db_now d)\<rparr>)) (\<lambda>_.
       insert_password_token userID purpose hash expiresAt))"

definition CreatePendingUserWithSetupToken :: "user \<Rightarrow> string \<Rightarrow> string \<Rightarrow> time \<Rightarrow> time \<Rightarrow> db \<Rightarrow>
   (store_error + user \<times> password_token) \<times> db" where
  "CreatePendingUserWithSetupToken input purpose hash expiresAt now =
     run_tx now (
       tx_bind (ensureLoginIdentifiersAvailable (usr_username input) (usr_email input)) (\<lambda>_.
       tx_bind (insertUser input) (\<lambda>user.
       tx_bind (insert_password_token (usr_id user) purpose hash expiresAt) (\<lambda>token.
       tx_return (user, token)))))"

definition consume_token :: "string \<Rightarrow> string \<Rightarrow> time \<Rightarrow> (db, password_token) tx" where
  "consume_token hash purpose clock =
     sql_update_checked db_password_tokens db_password_tokens_update password_token_unique password_token_check
       (\<lambda>d t. pwt_token_hash t = hash \<and> pwt_purpose t = purpose \<and> token_open t \<and> pwt_expires_at t > clock)
       (\<lambda>d t. t\<lparr>pwt_consumed_at := Some clock\<rparr>)"

definition completed_user :: "string \<Rightarrow> string \<Rightarrow> time \<Rightarrow> user \<Rightarrow> user" where
  "completed_user purpose passwordHash clock u = u\<lparr>usr_password_hash := Some passwordHash,
     usr_status := (if purpose = PasswordTokenPurposeSetup then UserStatusActive else usr_status u),
     usr_force_password_change := False, usr_auth_version := usr_auth_version u + 1, usr_updated_at := clock\<rparr>"

definition complete_token_tx :: "string \<Rightarrow> string \<Rightarrow> string \<Rightarrow> time \<Rightarrow> (db, user) tx" where
  "complete_token_tx hash purpose passwordHash clock =
     tx_bind (consume_token hash purpose clock) (\<lambda>token.
     tx_bind (sql_update_checked db_users db_users_update user_unique user_check
                (\<lambda>d u. usr_id u = pwt_user_id token \<and> (purpose = PasswordTokenPurposeSetup \<longrightarrow> usr_status u = UserStatusPending))
                (\<lambda>d. completed_user purpose passwordHash clock)) (\<lambda>value.
     tx_bind (revoke_sessions PgError (pwt_user_id token) (\<lambda>_. clock)) (\<lambda>_.
     tx_bind (revokeOutstandingPasswordTokens (pwt_user_id token)) (\<lambda>_.
     tx_return value))))"

definition CompletePasswordToken :: "string \<Rightarrow> string \<Rightarrow> string \<Rightarrow> time \<Rightarrow> time \<Rightarrow> db \<Rightarrow> (store_error + user) \<times> db" where
  "CompletePasswordToken hash purpose passwordHash clock now = run_tx now (complete_token_tx hash purpose passwordHash clock)"

section \<open>Settings\<close>

abbreviation db_auth_settings :: "db \<Rightarrow> auth_settings list" where
  "db_auth_settings d \<equiv> idn_settings (db_identity d)"

abbreviation db_auth_settings_update :: "(auth_settings list \<Rightarrow> auth_settings list) \<Rightarrow> db \<Rightarrow> db" where
  "db_auth_settings_update f \<equiv> db_identity_update (idn_settings_update f)"

definition settings_check :: "db \<Rightarrow> auth_settings \<Rightarrow> pg_error option" where
  "settings_check d s =
     (if 300 \<le> ast_access_seconds s \<and> ast_access_seconds s \<le> 86400 \<and>
         3600 \<le> ast_refresh_seconds s \<and> ast_refresh_seconds s \<le> 31536000 \<and>
         8 \<le> ast_minimum_length s \<and> ast_minimum_length s \<le> 256 then None else Some CheckViolation)"

definition GetAuthSettings :: "(db, auth_settings) tx" where
  "GetAuthSettings = sql_find db_auth_settings (\<lambda>d s. True)"

text \<open>
  Lifetimes come as durations in nanoseconds and are stored in whole seconds, rounded towards zero. A value outside
  the integer columns is an error of the driver, which is not translated.
\<close>

definition whole_seconds :: "int \<Rightarrow> int" where
  "whole_seconds ns = (if ns \<ge> 0 then ns div 1000000000 else - ((- ns) div 1000000000))"

definition UpdateAuthSettings :: "int \<Rightarrow> int \<Rightarrow> auth_settings \<Rightarrow> time \<Rightarrow> db \<Rightarrow> (store_error + auth_settings) \<times> db" where
  "UpdateAuthSettings accessLifetime refreshLifetime policy now =
     run_tx now (
       let value = policy\<lparr>ast_access_seconds := whole_seconds accessLifetime, ast_refresh_seconds := whole_seconds refreshLifetime\<rparr> in
       if list_all (\<lambda>n. -2147483648 \<le> n \<and> n \<le> 2147483647) [ast_access_seconds value, ast_refresh_seconds value, ast_minimum_length value]
       then sql_update_checked db_auth_settings db_auth_settings_update (\<lambda>_ _. False) settings_check (\<lambda>d s. True) (\<lambda>d _. value)
       else tx_fail (PgError NumericOutOfRange))"

end
