(* ===== verification/Comment_Routing.thy ===== *)
theory Comment_Routing
  imports Reviews Identity
begin

text \<open>
  Whom a comment addresses (store/issue_comments.go, store/issue_comment_routing.go, the targets of
  store/postgres/issue_comments.go, the thread walk of store/postgres/issue_comment_implicit.go and issue_discussions.go):
  the targets a comment names, and the Agent it reaches by its place in the discussion. Identifiers are the canonical
  texts of uuid columns.
\<close>

section \<open>Targets\<close>

record comment_target =
  tgt_type :: string
  tgt_id :: id

definition IssueCommentTargetTypeAgent :: string where "IssueCommentTargetTypeAgent = ''AGENT''"
definition IssueCommentTargetTypeSquad :: string where "IssueCommentTargetTypeSquad = ''SQUAD''"
definition IssueCommentMentionOutcomeBlocked :: string where "IssueCommentMentionOutcomeBlocked = ''BLOCKED''"
definition IssueCommentImplicitOutcomeSuppressed :: string where "IssueCommentImplicitOutcomeSuppressed = ''SUPPRESSED''"
definition IssueCommentMentionReasonTargetUnavailable :: string where
  "IssueCommentMentionReasonTargetUnavailable = ''TARGET_UNAVAILABLE''"
definition IssueCommentMentionReasonDelegationBlocked :: string where
  "IssueCommentMentionReasonDelegationBlocked = ''DELEGATION_BLOCKED''"
definition IssueCommentImplicitReasonWorkflowBlocked :: string where
  "IssueCommentImplicitReasonWorkflowBlocked = ''WORKFLOW_BLOCKED''"
definition MaxIssueCommentMentions :: nat where "MaxIssueCommentMentions = 10"

lemmas comment_texts = IssueCommentTargetTypeAgent_def IssueCommentTargetTypeSquad_def IssueCommentMentionOutcomeBlocked_def
  IssueCommentImplicitOutcomeSuppressed_def IssueCommentMentionReasonTargetUnavailable_def
  IssueCommentMentionReasonDelegationBlocked_def IssueCommentImplicitReasonWorkflowBlocked_def

definition Valid :: "comment_target \<Rightarrow> bool" where
  "Valid t \<longleftrightarrow> (tgt_type t = IssueCommentTargetTypeAgent \<or> tgt_type t = IssueCommentTargetTypeSquad) \<and> tgt_id t \<noteq> []"

definition hex_char :: "char \<Rightarrow> bool" where
  "hex_char c \<longleftrightarrow> (CHR ''0'' \<le> c \<and> c \<le> CHR ''9'') \<or> (CHR ''a'' \<le> c \<and> c \<le> CHR ''f'') \<or> (CHR ''A'' \<le> c \<and> c \<le> CHR ''F'')"

definition validUUIDText :: "string \<Rightarrow> bool" where
  "validUUIDText value \<longleftrightarrow> length value = 36 \<and>
     list_all (\<lambda>(i, c). if i \<in> {8, 13, 18, 23} then c = CHR ''-'' else hex_char c) (enumerate 0 value)"

definition trim_target :: "comment_target \<Rightarrow> comment_target" where
  "trim_target t = \<lparr>tgt_type = TrimSpace (tgt_type t), tgt_id = TrimSpace (tgt_id t)\<rparr>"

text \<open>The loop with the set of keys seen so far; a colon separates type and identifier.\<close>

definition target_key :: "comment_target \<Rightarrow> string" where
  "target_key t = tgt_type t @ '':'' @ tgt_id t"

fun normalize_targets :: "string list \<Rightarrow> comment_target list \<Rightarrow> comment_target list option" where
  "normalize_targets seen [] = Some []"
| "normalize_targets seen (raw # rest) =
     (let t = trim_target raw in
      if \<not> Valid t \<or> \<not> validUUIDText (tgt_id t) \<or> target_key t \<in> set seen then None
      else map_option ((#) t) (normalize_targets (target_key t # seen) rest))"

definition agent_target :: "id \<Rightarrow> comment_target" where
  "agent_target a = \<lparr>tgt_type = IssueCommentTargetTypeAgent, tgt_id = a\<rparr>"

definition normalizeIssueCommentTargets :: "comment_target list \<Rightarrow> id list \<Rightarrow> store_error + comment_target list" where
  "normalizeIssueCommentTargets values legacyAgentIDs =
     (let vs = (if values = [] \<and> legacyAgentIDs \<noteq> [] then map agent_target legacyAgentIDs else values) in
      if length vs > MaxIssueCommentMentions then Inl ErrInvalidArgument
      else case normalize_targets [] vs of None \<Rightarrow> Inl ErrInvalidArgument | Some ts \<Rightarrow> Inr ts)"

definition nullableString :: "string \<Rightarrow> string option" where
  "nullableString value = (if TrimSpace value = [] then None else Some value)"

text \<open>What is said about a target before anything is asked of it.\<close>

record target_preview =
  pvw_target :: comment_target
  pvw_target_name :: string
  pvw_resolved_agent_id :: id
  pvw_resolved_agent_name :: string
  pvw_target_agent_id :: id
  pvw_target_agent_name :: string
  pvw_eligible :: bool
  pvw_reason :: "string option"

definition empty_preview :: "comment_target \<Rightarrow> target_preview" where
  "empty_preview t = \<lparr>pvw_target = t, pvw_target_name = [], pvw_resolved_agent_id = [], pvw_resolved_agent_name = [],
     pvw_target_agent_id = [], pvw_target_agent_name = [], pvw_eligible = False, pvw_reason = None\<rparr>"

definition issueCommentMentionTargetTx :: "(string \<Rightarrow> bool) option \<Rightarrow> id \<Rightarrow> id \<Rightarrow> (db, target_preview) tx" where
  "issueCommentMentionTargetTx engineRegistered projectID targetAgentID =
     (let preview = (empty_preview (agent_target targetAgentID))\<lparr>pvw_target_agent_id := targetAgentID\<rparr>;
          unavailable = Some IssueCommentMentionReasonTargetUnavailable in
      tx_bind (tx_get (\<lambda>d. List.find (\<lambda>a. agt_id a = targetAgentID \<and> visible_to (agt_project_id a) projectID) (db_agents d))) (\<lambda>found.
      case found of
        None \<Rightarrow> tx_return (preview\<lparr>pvw_reason := unavailable\<rparr>)
      | Some agent \<Rightarrow>
          (let named = preview\<lparr>pvw_target_agent_name := agt_name agent, pvw_target_name := agt_name agent,
                 pvw_resolved_agent_id := targetAgentID, pvw_resolved_agent_name := agt_name agent\<rparr> in
           tx_bind (tx_try (verifyRunnableAgent engineRegistered projectID targetAgentID)) (\<lambda>runnable.
           case runnable of
             Inl e \<Rightarrow> if e = ErrNotFound \<or> e = ErrConflict then tx_return (named\<lparr>pvw_reason := unavailable\<rparr>) else tx_fail e
           | Inr _ \<Rightarrow> tx_return (named\<lparr>pvw_eligible := True\<rparr>)))))"

definition issueCommentTargetTx :: "(string \<Rightarrow> bool) option \<Rightarrow> id \<Rightarrow> comment_target \<Rightarrow> (db, target_preview) tx" where
  "issueCommentTargetTx engineRegistered projectID target =
     (if tgt_type target = IssueCommentTargetTypeAgent
      then issueCommentMentionTargetTx engineRegistered projectID (tgt_id target)
      else if tgt_type target \<noteq> IssueCommentTargetTypeSquad then tx_fail ErrInvalidArgument
      else
        tx_bind (tx_get (\<lambda>d. List.find (\<lambda>s. sqd_project_id s = projectID \<and> sqd_id s = tgt_id target) (db_squads d))) (\<lambda>found.
        case found of
          None \<Rightarrow> tx_return ((empty_preview target)\<lparr>pvw_reason := Some IssueCommentMentionReasonTargetUnavailable\<rparr>)
        | Some squad \<Rightarrow>
            tx_bind (issueCommentMentionTargetTx engineRegistered projectID (sqd_leader_agent_id squad)) (\<lambda>agent.
            tx_return \<lparr>pvw_target = target, pvw_target_name = sqd_name squad,
              pvw_resolved_agent_id = (if pvw_eligible agent then sqd_leader_agent_id squad else []),
              pvw_resolved_agent_name = (if pvw_eligible agent then pvw_target_agent_name agent else []),
              pvw_target_agent_id = sqd_leader_agent_id squad, pvw_target_agent_name = pvw_target_agent_name agent,
              pvw_eligible = pvw_eligible agent, pvw_reason = pvw_reason agent\<rparr>)))"

section \<open>Routing by place\<close>

definition IssueCommentImplicitRoutingReasonDirectAgentReply :: string where
  "IssueCommentImplicitRoutingReasonDirectAgentReply = ''DIRECT_AGENT_REPLY''"
definition IssueCommentImplicitRoutingReasonUniqueThreadAgent :: string where
  "IssueCommentImplicitRoutingReasonUniqueThreadAgent = ''UNIQUE_THREAD_AGENT''"
definition IssueCommentImplicitRoutingReasonIssueAssignee :: string where
  "IssueCommentImplicitRoutingReasonIssueAssignee = ''ISSUE_ASSIGNEE''"
definition IssueCommentImplicitRoutingReasonIssueSquadAssignee :: string where
  "IssueCommentImplicitRoutingReasonIssueSquadAssignee = ''ISSUE_SQUAD_ASSIGNEE''"

lemmas routing_texts = IssueCommentImplicitRoutingReasonDirectAgentReply_def IssueCommentImplicitRoutingReasonUniqueThreadAgent_def
  IssueCommentImplicitRoutingReasonIssueAssignee_def IssueCommentImplicitRoutingReasonIssueSquadAssignee_def

record routing_facts =
  rtf_explicit :: bool  \<comment> \<open>HasExplicitMentions\<close>
  rtf_reply :: bool
  rtf_parent_author_type :: string
  rtf_parent_author_id :: id
  rtf_thread_agents :: "id list"
  rtf_assignee_type :: "string option"
  rtf_assignee_id :: "id option"

record comment_route =
  rte_target :: comment_target
  rte_target_agent_id :: id
  rte_reason :: string

fun unique_text :: "string \<Rightarrow> string list \<Rightarrow> string option" where
  "unique_text selected [] = (if selected = [] then None else Some selected)"
| "unique_text selected (raw # rest) =
     (let value = TrimSpace raw in
      if value = [] then unique_text selected rest
      else if selected = [] then unique_text value rest
      else if value \<noteq> selected then None
      else unique_text selected rest)"

definition uniqueNonEmptyString :: "string list \<Rightarrow> string option" where
  "uniqueNonEmptyString values = unique_text [] values"

definition ResolveIssueCommentImplicitRoute :: "routing_facts \<Rightarrow> comment_route option" where
  "ResolveIssueCommentImplicitRoute facts =
     (if rtf_explicit facts then None
      else if rtf_reply facts \<and> rtf_parent_author_type facts = ''AGENT'' \<and> TrimSpace (rtf_parent_author_id facts) \<noteq> []
      then Some \<lparr>rte_target = agent_target (TrimSpace (rtf_parent_author_id facts)),
                 rte_target_agent_id = TrimSpace (rtf_parent_author_id facts), rte_reason = IssueCommentImplicitRoutingReasonDirectAgentReply\<rparr>
      else if rtf_reply facts
      then map_option (\<lambda>t. \<lparr>rte_target = agent_target t, rte_target_agent_id = t,
               rte_reason = IssueCommentImplicitRoutingReasonUniqueThreadAgent\<rparr>)
             (uniqueNonEmptyString (rtf_thread_agents facts))
      else
        (case (rtf_assignee_type facts, rtf_assignee_id facts) of
           (Some ty, Some a) \<Rightarrow>
             if ty = ''AGENT'' \<and> TrimSpace a \<noteq> []
             then Some \<lparr>rte_target = agent_target (TrimSpace a), rte_target_agent_id = TrimSpace a,
                        rte_reason = IssueCommentImplicitRoutingReasonIssueAssignee\<rparr>
             else if ty = ''SQUAD'' \<and> TrimSpace a \<noteq> []
             then Some \<lparr>rte_target = \<lparr>tgt_type = IssueCommentTargetTypeSquad, tgt_id = TrimSpace a\<rparr>, rte_target_agent_id = [],
                        rte_reason = IssueCommentImplicitRoutingReasonIssueSquadAssignee\<rparr>
             else None
         | _ \<Rightarrow> None))"

definition IssueCommentImplicitWakeAllowed :: "string \<Rightarrow> bool" where
  "IssueCommentImplicitWakeAllowed status \<longleftrightarrow> TrimSpace status \<notin> {''BACKLOG'', ''DONE''}"

text \<open>The walk from a comment to the root of its thread, at most \<open>depth\<close> parents.\<close>

definition issueDiscussionRootTraversalDepth :: nat where "issueDiscussionRootTraversalDepth = 64"

fun ancestors :: "db \<Rightarrow> id \<Rightarrow> nat \<Rightarrow> comment \<Rightarrow> comment list" where
  "ancestors d issueID 0 c = [c]"
| "ancestors d issueID (Suc depth) c = c #
     (case List.find (\<lambda>p. cmt_issue_id p = issueID \<and> Some (cmt_id p) = cmt_parent_comment_id c) (db_comments d) of
        None \<Rightarrow> []
      | Some p \<Rightarrow> ancestors d issueID depth p)"

definition issueCommentAncestorIDsBoundedWith :: "id \<Rightarrow> id \<Rightarrow> id \<Rightarrow> nat \<Rightarrow> (db, id list \<times> bool) tx" where
  "issueCommentAncestorIDsBoundedWith projectID issueID anchorID maxDepth =
     tx_bind (sql_find db_comments (\<lambda>d c. cmt_issue_id c = issueID \<and> cmt_id c = anchorID \<and>
                exists_row (\<lambda>i. iss_id i = issueID \<and> iss_project_id i = projectID) (db_issues d))) (\<lambda>anchor.
     tx_bind (tx_get (\<lambda>d. ancestors d issueID maxDepth anchor)) (\<lambda>chain.
     tx_bind (tx_guard (distinct (map cmt_id chain)) ErrInvalidArgument) (\<lambda>_.
     let open_end = cmt_parent_comment_id (last chain) \<noteq> None in
     tx_bind (tx_guard (\<not> (open_end \<and> length chain - 1 < maxDepth)) ErrInvalidArgument) (\<lambda>_.
     tx_return (rev (map cmt_id chain), open_end)))))"

text \<open>The comments of a thread, level by level.\<close>

definition replies :: "db \<Rightarrow> id \<Rightarrow> comment list \<Rightarrow> comment list" where
  "replies d issueID cs = concat (map (\<lambda>c. filter (\<lambda>r. cmt_issue_id r = issueID \<and> cmt_parent_comment_id r = Some (cmt_id c))
     (db_comments d)) cs)"

fun thread_levels :: "db \<Rightarrow> id \<Rightarrow> nat \<Rightarrow> comment list \<Rightarrow> comment list \<times> comment list" where
  "thread_levels d issueID 0 cs = (cs, cs)"
| "thread_levels d issueID (Suc depth) cs =
     (let (all, deepest) = thread_levels d issueID depth (replies d issueID cs) in (cs @ all, deepest))"

definition issueCommentThreadAgentIDsTx :: "id \<Rightarrow> id \<Rightarrow> nat \<Rightarrow> (db, id list \<times> bool) tx" where
  "issueCommentThreadAgentIDsTx issueID rootID maxDepth = tx_get (\<lambda>d.
     let (thread, deepest) = thread_levels d issueID maxDepth
           (filter (\<lambda>c. cmt_issue_id c = issueID \<and> cmt_id c = rootID) (db_comments d));
         participants = sort (remdups (map cmt_author_id (filter (\<lambda>c. cmt_author_type c = ACT_AGENT) thread))) in
     (take 3 participants, replies d issueID deepest \<noteq> []))"

text \<open>The route of a comment without mentions, with the status of the Issue.\<close>

definition resolveIssueCommentImplicitRouteTx ::
  "id \<Rightarrow> id \<Rightarrow> id option \<Rightarrow> bool \<Rightarrow> (db, comment_route option \<times> string) tx" where
  "resolveIssueCommentImplicitRouteTx projectID issueID parentCommentID hasExplicitMentions =
     tx_bind (sql_find db_issues (\<lambda>d i. iss_project_id i = projectID \<and> iss_id i = issueID)) (\<lambda>issue.
     let status = issue_status_text (iss_status issue);
         facts = \<lparr>rtf_explicit = hasExplicitMentions, rtf_reply = False, rtf_parent_author_type = [], rtf_parent_author_id = [],
           rtf_thread_agents = [], rtf_assignee_type = iss_assignee_type issue, rtf_assignee_id = iss_assignee_id issue\<rparr> in
     case parentCommentID of
       None \<Rightarrow> tx_return (ResolveIssueCommentImplicitRoute facts, status)
     | Some parent \<Rightarrow>
         tx_bind (sql_find db_comments (\<lambda>d c. cmt_issue_id c = issueID \<and> cmt_id c = parent \<and> cmt_deleted_at c = None)) (\<lambda>p.
         let reply = facts\<lparr>rtf_reply := True, rtf_parent_author_type := actor_type_text (cmt_author_type p),
               rtf_parent_author_id := cmt_author_id p\<rparr> in
         if hasExplicitMentions \<or> cmt_author_type p = ACT_AGENT
         then tx_return (ResolveIssueCommentImplicitRoute reply, status)
         else
           tx_bind (issueCommentAncestorIDsBoundedWith projectID issueID parent issueDiscussionRootTraversalDepth) (\<lambda>(chain, truncated).
           if truncated \<or> chain = [] then tx_return (None, status)
           else
             tx_bind (issueCommentThreadAgentIDsTx issueID (hd chain) issueDiscussionRootTraversalDepth) (\<lambda>(agents, deeper).
             if deeper then tx_return (None, status)
             else tx_return (ResolveIssueCommentImplicitRoute (reply\<lparr>rtf_thread_agents := agents\<rparr>), status)))))"

end
