(* ===== verification/Issue_Comments.thy ===== *)
theory Issue_Comments
  imports Comment_Routing
begin

text \<open>
  Comments on Issues (store/postgres/issue_comments.go, issue_comment_implicit.go): their creation with the work they ask
  for, by name or by place, their repetition, edits, deletion, resolution and reactions, and the views of all of it.
\<close>

section \<open>Rows\<close>

text \<open>The constraints of issue_comments.\<close>

definition same_action :: "comment \<Rightarrow> comment \<Rightarrow> bool" where
  "same_action a b \<longleftrightarrow> cmt_source_action_key a \<noteq> None \<and> cmt_source_action_key a = cmt_source_action_key b \<and>
     (cmt_source_run_id a \<noteq> None \<and> cmt_source_run_id a = cmt_source_run_id b \<or>
      cmt_author_type a = ACT_HUMAN \<and> cmt_author_type b = ACT_HUMAN \<and> cmt_issue_id a = cmt_issue_id b \<and>
      cmt_author_id a = cmt_author_id b)"

definition comment_unique :: "comment \<Rightarrow> comment \<Rightarrow> bool" where
  "comment_unique a b \<longleftrightarrow> cmt_id a = cmt_id b \<or> same_action a b"

definition non_blank :: "string option \<Rightarrow> bool" where
  "non_blank t \<longleftrightarrow> (case t of None \<Rightarrow> True | Some s \<Rightarrow> btrim s \<noteq> [])"

definition comment_columns_ok :: "comment \<Rightarrow> bool" where
  "comment_columns_ok c \<longleftrightarrow> cmt_parent_comment_id c \<noteq> Some (cmt_id c) \<and>
     (cmt_deleted_at c = None \<and> cmt_body c \<noteq> None \<and> non_blank (cmt_body c) \<or> cmt_deleted_at c \<noteq> None \<and> cmt_body c = None) \<and>
     (cmt_resolved_at c = None \<longleftrightarrow> cmt_resolved_by_user_id c = None) \<and>
     (cmt_parent_comment_id c = None \<or> cmt_resolved_at c = None \<and> cmt_resolved_by_user_id c = None) \<and>
     (cmt_author_type c = ACT_HUMAN \<or> \<not> cmt_suppress_implicit c) \<and>
     (cmt_author_type c = ACT_HUMAN \<and> cmt_source_run_id c = None \<and> non_blank (cmt_source_action_key c) \<or>
      cmt_author_type c = ACT_AGENT \<and> cmt_source_run_id c \<noteq> None \<and> cmt_source_action_key c \<noteq> None \<and>
        non_blank (cmt_source_action_key c))"

definition comment_check :: "db \<Rightarrow> comment \<Rightarrow> pg_error option" where
  "comment_check d c =
     (if \<not> comment_columns_ok c then Some CheckViolation
      else if exists_row (\<lambda>i. iss_id i = cmt_issue_id c) (db_issues d) \<and>
        (case cmt_parent_comment_id c of None \<Rightarrow> True
         | Some p \<Rightarrow> exists_row (\<lambda>q. cmt_issue_id q = cmt_issue_id c \<and> cmt_id q = p) (db_comments d)) \<and>
        (case cmt_source_run_id c of None \<Rightarrow> True | Some r \<Rightarrow> exists_row (\<lambda>x. run_id x = r) (db_runs d))
      then None else Some ForeignKeyViolation)"

text \<open>What mentions and implicit triggers share: an outcome goes with the work that came of it.\<close>

definition outcome_ok :: "string \<Rightarrow> string option \<Rightarrow> id option \<Rightarrow> id option \<Rightarrow> bool" where
  "outcome_ok outcome reason delegation request \<longleftrightarrow>
     outcome = ''QUEUED'' \<and> request \<noteq> None \<and> delegation \<noteq> None \<and> reason = None \<or>
     outcome \<in> {''COALESCED'', ''DEFERRED''} \<and> request \<noteq> None \<and> delegation = None \<and> reason = None \<or>
     outcome = ''BLOCKED'' \<and> request = None \<and> delegation = None \<and> reason \<noteq> None \<and> non_blank reason"

definition link_refers :: "db \<Rightarrow> id \<Rightarrow> id \<Rightarrow> id \<Rightarrow> id option \<Rightarrow> id option \<Rightarrow> bool" where
  "link_refers d projectID issueID commentID delegation request \<longleftrightarrow>
     exists_row (\<lambda>i. iss_project_id i = projectID \<and> iss_id i = issueID) (db_issues d) \<and>
     exists_row (\<lambda>c. cmt_issue_id c = issueID \<and> cmt_id c = commentID) (db_comments d) \<and>
     (case delegation of None \<Rightarrow> True | Some g \<Rightarrow> exists_row (\<lambda>x. dlg_project_id x = projectID \<and> dlg_id x = g) (db_delegations d)) \<and>
     (case request of None \<Rightarrow> True | Some w \<Rightarrow> exists_row (\<lambda>x. wrq_project_id x = projectID \<and> wrq_id x = w) (db_work_requests d))"

definition mention_unique :: "mention \<Rightarrow> mention \<Rightarrow> bool" where
  "mention_unique a b \<longleftrightarrow> mnt_id a = mnt_id b \<or>
     mnt_issue_id a = mnt_issue_id b \<and> mnt_comment_id a = mnt_comment_id b \<and>
       (mnt_target_type a = mnt_target_type b \<and> mnt_target_id a = mnt_target_id b \<or> mnt_ordinal a = mnt_ordinal b)"

definition mention_check :: "db \<Rightarrow> mention \<Rightarrow> pg_error option" where
  "mention_check d m =
     (if mnt_ordinal m < 0 \<or> mnt_target_type m \<notin> {''AGENT'', ''SQUAD''} \<or>
         \<not> outcome_ok (mnt_outcome m) (mnt_reason_code m) (mnt_delegation_id m) (mnt_work_request_id m)
      then Some CheckViolation
      else if link_refers d (mnt_project_id m) (mnt_issue_id m) (mnt_comment_id m) (mnt_delegation_id m) (mnt_work_request_id m)
      then None else Some ForeignKeyViolation)"

definition implicit_unique :: "implicit_trigger \<Rightarrow> implicit_trigger \<Rightarrow> bool" where
  "implicit_unique a b \<longleftrightarrow> imt_issue_id a = imt_issue_id b \<and> imt_comment_id a = imt_comment_id b"

definition implicit_check :: "db \<Rightarrow> implicit_trigger \<Rightarrow> pg_error option" where
  "implicit_check d t =
     (if imt_target_type t \<notin> {''AGENT'', ''SQUAD''} \<or>
         imt_routing_reason t \<notin> {''DIRECT_AGENT_REPLY'', ''UNIQUE_THREAD_AGENT'', ''ISSUE_ASSIGNEE'', ''ISSUE_SQUAD_ASSIGNEE''} \<or>
         \<not> (outcome_ok (imt_outcome t) (imt_reason_code t) (imt_delegation_id t) (imt_work_request_id t) \<or>
             imt_outcome t = ''SUPPRESSED'' \<and> imt_work_request_id t = None \<and> imt_delegation_id t = None \<and> imt_reason_code t = None)
      then Some CheckViolation
      else if link_refers d (imt_project_id t) (imt_issue_id t) (imt_comment_id t) (imt_delegation_id t) (imt_work_request_id t)
      then None else Some ForeignKeyViolation)"

section \<open>Views\<close>

text \<open>\<open>IssueCommentMention\<close> and \<open>IssueCommentImplicitTrigger\<close>; an implicit trigger has no identifier of its own.\<close>

record link_view =
  lvw_target :: comment_target
  lvw_target_name :: string
  lvw_resolved_agent_id :: id
  lvw_resolved_agent_name :: string
  lvw_target_agent_id :: id
  lvw_target_agent_name :: string
  lvw_outcome :: string
  lvw_reason_code :: "string option"
  lvw_delegation_id :: "id option"
  lvw_delegated_run_id :: "id option"
  lvw_work_request_id :: "id option"
  lvw_created_at :: time

record mention_view = link_view +
  mvw_id :: id

record implicit_view = link_view +
  ivw_routing_reason :: string

record reaction_summary =
  rsm_reaction :: string
  rsm_count :: int
  rsm_actor_ids :: "id list"

text \<open>\<open>IssueComment\<close>: the row, whose absent body reads as the empty text, and what is resolved for display.\<close>

record comment_view =
  cvw_comment :: comment
  cvw_author_name :: string
  cvw_resolved_by_name :: string
  cvw_reactions :: "reaction_summary list"
  cvw_mentions :: "mention_view list"
  cvw_implicit :: "implicit_view option"

definition body_text :: "comment \<Rightarrow> string" where
  "body_text c = (case cmt_body c of None \<Rightarrow> [] | Some b \<Rightarrow> b)"

definition agent_row :: "db \<Rightarrow> id \<Rightarrow> id \<Rightarrow> agent option" where
  "agent_row d projectID agentID = List.find (\<lambda>a. agt_id a = agentID \<and> visible_to (agt_project_id a) projectID) (db_agents d)"

definition user_name :: "db \<Rightarrow> id \<Rightarrow> string option" where
  "user_name d userID = map_option usr_display_name (List.find (\<lambda>u. usr_id u = userID) (db_users d))"

definition or_empty :: "string option \<Rightarrow> string" where
  "or_empty t = (case t of None \<Rightarrow> [] | Some s \<Rightarrow> s)"

definition author_name :: "db \<Rightarrow> id \<Rightarrow> comment \<Rightarrow> string" where
  "author_name d projectID c = or_empty
     (case cmt_author_type c of
        ACT_HUMAN \<Rightarrow> user_name d (cmt_author_id c)
      | ACT_AGENT \<Rightarrow> map_option agt_name (agent_row d projectID (cmt_author_id c))
      | ACT_SYSTEM \<Rightarrow> None)"

definition resolver_name :: "db \<Rightarrow> comment \<Rightarrow> string" where
  "resolver_name d c = or_empty (case cmt_resolved_by_user_id c of None \<Rightarrow> None | Some u \<Rightarrow> user_name d u)"

text \<open>The names and the work of a link to a target.\<close>

definition target_name :: "db \<Rightarrow> id \<Rightarrow> comment_target \<Rightarrow> id \<Rightarrow> string" where
  "target_name d projectID target agentID = or_empty
     (if tgt_type target = IssueCommentTargetTypeSquad
      then map_option sqd_name (List.find (\<lambda>s. sqd_project_id s = projectID \<and> sqd_id s = tgt_id target) (db_squads d))
      else map_option agt_name (agent_row d projectID agentID))"

definition resolved_name :: "db \<Rightarrow> id \<Rightarrow> id option \<Rightarrow> id \<Rightarrow> string" where
  "resolved_name d projectID resolved agentID = or_empty
     (case (case resolved of None \<Rightarrow> None | Some r \<Rightarrow> agent_row d projectID r) of
        Some a \<Rightarrow> Some (agt_name a)
      | None \<Rightarrow> map_option agt_name (agent_row d projectID agentID))"

definition link_delegation :: "db \<Rightarrow> id \<Rightarrow> id option \<Rightarrow> id option \<Rightarrow> id option" where
  "link_delegation d projectID delegation request =
     (case delegation of
        Some g \<Rightarrow> Some g
      | None \<Rightarrow> (case request of None \<Rightarrow> None
          | Some w \<Rightarrow> (case List.find (\<lambda>x. wrq_project_id x = projectID \<and> wrq_id x = w) (db_work_requests d) of
              None \<Rightarrow> None | Some x \<Rightarrow> wrq_delegation_id x)))"

definition link_run :: "db \<Rightarrow> id \<Rightarrow> id option \<Rightarrow> id option" where
  "link_run d projectID delegation =
     (case delegation of None \<Rightarrow> None
      | Some g \<Rightarrow> map_option dlg_delegated_run_id (List.find (\<lambda>x. dlg_project_id x = projectID \<and> dlg_id x = g) (db_delegations d)))"

definition mention_of :: "db \<Rightarrow> mention \<Rightarrow> mention_view" where
  "mention_of d m =
     (let target = \<lparr>tgt_type = mnt_target_type m, tgt_id = mnt_target_id m\<rparr>;
          name = resolved_name d (mnt_project_id m) (mnt_resolved_agent_id m) (mnt_target_agent_id m);
          delegation = link_delegation d (mnt_project_id m) (mnt_delegation_id m) (mnt_work_request_id m) in
      \<lparr>lvw_target = target, lvw_target_name = target_name d (mnt_project_id m) target (mnt_target_agent_id m),
       lvw_resolved_agent_id = or_empty (mnt_resolved_agent_id m), lvw_resolved_agent_name = name,
       lvw_target_agent_id = mnt_target_agent_id m, lvw_target_agent_name = name, lvw_outcome = mnt_outcome m,
       lvw_reason_code = mnt_reason_code m, lvw_delegation_id = delegation,
       lvw_delegated_run_id = link_run d (mnt_project_id m) delegation, lvw_work_request_id = mnt_work_request_id m,
       lvw_created_at = mnt_created_at m, mvw_id = mnt_id m\<rparr>)"

definition implicit_of :: "db \<Rightarrow> implicit_trigger \<Rightarrow> implicit_view" where
  "implicit_of d t =
     (let target = \<lparr>tgt_type = imt_target_type t, tgt_id = imt_target_id t\<rparr>;
          name = resolved_name d (imt_project_id t) (imt_resolved_agent_id t) (imt_target_agent_id t);
          delegation = link_delegation d (imt_project_id t) (imt_delegation_id t) (imt_work_request_id t) in
      \<lparr>lvw_target = target, lvw_target_name = target_name d (imt_project_id t) target (imt_target_agent_id t),
       lvw_resolved_agent_id = or_empty (imt_resolved_agent_id t), lvw_resolved_agent_name = name,
       lvw_target_agent_id = imt_target_agent_id t, lvw_target_agent_name = name, lvw_outcome = imt_outcome t,
       lvw_reason_code = imt_reason_code t, lvw_delegation_id = delegation,
       lvw_delegated_run_id = link_run d (imt_project_id t) delegation, lvw_work_request_id = imt_work_request_id t,
       lvw_created_at = imt_created_at t, ivw_routing_reason = imt_routing_reason t\<rparr>)"

definition loadIssueCommentMentionsWith :: "db \<Rightarrow> id \<Rightarrow> id \<Rightarrow> id \<Rightarrow> mention_view list" where
  "loadIssueCommentMentionsWith d projectID issueID commentID =
     map (mention_of d) (sort_key mnt_ordinal (filter (\<lambda>m. mnt_project_id m = projectID \<and> mnt_issue_id m = issueID \<and>
       mnt_comment_id m = commentID) (db_mentions d)))"

definition loadIssueCommentImplicitTriggersWith :: "db \<Rightarrow> id \<Rightarrow> id \<Rightarrow> id \<Rightarrow> implicit_view option" where
  "loadIssueCommentImplicitTriggersWith d projectID issueID commentID =
     map_option (implicit_of d) (List.find (\<lambda>t. imt_project_id t = projectID \<and> imt_issue_id t = issueID \<and>
       imt_comment_id t = commentID) (db_implicit_triggers d))"

text \<open>The reactions of one comment, summed up in the order of the rows.\<close>

fun count_reaction :: "string \<Rightarrow> id \<Rightarrow> reaction_summary list \<Rightarrow> reaction_summary list" where
  "count_reaction reaction actor [] = [\<lparr>rsm_reaction = reaction, rsm_count = 1, rsm_actor_ids = [actor]\<rparr>]"
| "count_reaction reaction actor (s # rest) =
     (if rsm_reaction s = reaction
      then s\<lparr>rsm_count := rsm_count s + 1, rsm_actor_ids := rsm_actor_ids s @ [actor]\<rparr> # rest
      else s # count_reaction reaction actor rest)"

definition loadIssueCommentReactions :: "db \<Rightarrow> id \<Rightarrow> id \<Rightarrow> id \<Rightarrow> reaction_summary list" where
  "loadIssueCommentReactions d projectID issueID commentID =
     (if exists_row (\<lambda>i. iss_id i = issueID \<and> iss_project_id i = projectID) (db_issues d)
      then fold (\<lambda>r. count_reaction (rct_reaction r) (rct_actor_id r))
        (sort_key (\<lambda>r. (rct_reaction r, rct_actor_id r))
          (filter (\<lambda>r. rct_issue_id r = issueID \<and> rct_comment_id r = commentID) (db_reactions d))) []
      else [])"

definition comment_view_of :: "db \<Rightarrow> id \<Rightarrow> comment \<Rightarrow> comment_view" where
  "comment_view_of d projectID c =
     \<lparr>cvw_comment = c, cvw_author_name = author_name d projectID c, cvw_resolved_by_name = resolver_name d c,
      cvw_reactions = loadIssueCommentReactions d projectID (cmt_issue_id c) (cmt_id c),
      cvw_mentions = loadIssueCommentMentionsWith d projectID (cmt_issue_id c) (cmt_id c),
      cvw_implicit = loadIssueCommentImplicitTriggersWith d projectID (cmt_issue_id c) (cmt_id c)\<rparr>"

definition comment_in :: "id \<Rightarrow> id \<Rightarrow> db \<Rightarrow> comment \<Rightarrow> bool" where
  "comment_in projectID issueID d c \<longleftrightarrow> cmt_issue_id c = issueID \<and>
     exists_row (\<lambda>i. iss_id i = issueID \<and> iss_project_id i = projectID) (db_issues d)"

definition ListIssueComments :: "id \<Rightarrow> id \<Rightarrow> db \<Rightarrow> comment_view list" where
  "ListIssueComments projectID issueID d =
     map (comment_view_of d projectID)
       (sort_key (\<lambda>c. (cmt_created_at c, cmt_id c)) (filter (comment_in projectID issueID d) (db_comments d)))"

definition GetIssueComment :: "id \<Rightarrow> id \<Rightarrow> id \<Rightarrow> (db, comment_view) tx" where
  "GetIssueComment projectID issueID commentID =
     tx_bind (sql_find db_comments (\<lambda>d c. comment_in projectID issueID d c \<and> cmt_id c = commentID)) (\<lambda>c.
     tx_get (\<lambda>d. comment_view_of d projectID c))"

section \<open>Creation\<close>

text \<open>The request of a comment, \<open>store.IssueComment\<close> as its callers fill it in.\<close>

record comment_input =
  cin_issue_id :: id
  cin_parent_comment_id :: "id option"
  cin_author_type :: string
  cin_author_id :: id
  cin_source_run_id :: "id option"
  cin_source_action_key :: "string option"
  cin_body :: string

definition blank :: "string option \<Rightarrow> bool" where
  "blank t \<longleftrightarrow> (case t of None \<Rightarrow> False | Some s \<Rightarrow> TrimSpace s = [])"

text \<open>The checks before the transaction, with the action key trimmed.\<close>

definition comment_input_valid :: "id \<Rightarrow> comment_input \<Rightarrow> comment_target list \<Rightarrow> bool \<Rightarrow> bool" where
  "comment_input_valid projectID input mentions implicitRouting \<longleftrightarrow>
     TrimSpace projectID \<noteq> [] \<and> TrimSpace (cin_issue_id input) \<noteq> [] \<and> TrimSpace (cin_author_id input) \<noteq> [] \<and>
     TrimSpace (cin_body input) \<noteq> [] \<and> cin_author_type input \<in> {''HUMAN'', ''AGENT''} \<and>
     \<not> blank (cin_parent_comment_id input) \<and> \<not> blank (cin_source_action_key input) \<and>
     (mentions \<noteq> [] \<or> implicitRouting \<longrightarrow> cin_source_action_key input \<noteq> None) \<and>
     (implicitRouting \<longrightarrow> cin_author_type input = ''HUMAN'') \<and>
     (cin_author_type input = ''HUMAN'' \<longrightarrow> cin_source_run_id input = None) \<and>
     (cin_author_type input = ''AGENT'' \<longrightarrow> cin_source_run_id input \<noteq> None \<and> \<not> blank (cin_source_run_id input) \<and>
        cin_source_action_key input \<noteq> None)"

definition trim_comment_input :: "comment_input \<Rightarrow> comment_input" where
  "trim_comment_input input = input\<lparr>cin_source_action_key := map_option TrimSpace (cin_source_action_key input)\<rparr>"

definition issueCommentAuthorName :: "id \<Rightarrow> string \<Rightarrow> id \<Rightarrow> (db, string) tx" where
  "issueCommentAuthorName projectID authorType authorID =
     (if authorType = ''HUMAN'' then tx_bind (tx_get (\<lambda>d. user_name d authorID)) (tx_option ErrNotFound)
      else if authorType = ''AGENT''
      then tx_bind (tx_get (\<lambda>d. map_option agt_name (agent_row d projectID authorID))) (tx_option ErrNotFound)
      else tx_fail ErrInvalidArgument)"

text \<open>An Agent comments on the Issue of the Run that is its own; a reply names a comment of the Issue that is not deleted.\<close>

definition comment_source_tx :: "id \<Rightarrow> id \<Rightarrow> comment_input \<Rightarrow> (db, unit) tx" where
  "comment_source_tx projectID issueID input =
     (case cin_source_run_id input of
        Some runID \<Rightarrow>
          if cin_author_type input = ''AGENT''
          then tx_bind (sql_find db_runs (\<lambda>d r. run_project_id r = projectID \<and> run_id r = runID)) (\<lambda>run.
               tx_guard (run_issue_id run = issueID \<and> or_empty (run_agent_id run) = cin_author_id input) ErrInvalidArgument)
          else tx_return ()
      | None \<Rightarrow> tx_return ())"

definition comment_parent_tx :: "id \<Rightarrow> id option \<Rightarrow> (db, unit) tx" where
  "comment_parent_tx issueID parent =
     (case parent of
        None \<Rightarrow> tx_return ()
      | Some parentID \<Rightarrow>
          tx_bind (sql_find db_comments (\<lambda>d c. cmt_issue_id c = issueID \<and> cmt_id c = parentID \<and> cmt_deleted_at c = None)) (\<lambda>_.
          tx_return ()))"

definition new_comment :: "id \<Rightarrow> id \<Rightarrow> comment_input \<Rightarrow> bool \<Rightarrow> time \<Rightarrow> comment" where
  "new_comment uid issueID input suppress now =
     \<lparr>cmt_id = uid, cmt_issue_id = issueID, cmt_parent_comment_id = cin_parent_comment_id input,
      cmt_author_type = (if cin_author_type input = ''HUMAN'' then ACT_HUMAN else ACT_AGENT), cmt_author_id = cin_author_id input,
      cmt_source_run_id = cin_source_run_id input, cmt_source_action_key = cin_source_action_key input,
      cmt_body = Some (cin_body input), cmt_suppress_implicit = suppress, cmt_deleted_at = None, cmt_resolved_at = None,
      cmt_resolved_by_user_id = None, cmt_created_at = now, cmt_updated_at = now\<rparr>"

definition insert_comment :: "id \<Rightarrow> comment_input \<Rightarrow> bool \<Rightarrow> (db, comment option) tx" where
  "insert_comment issueID input suppress =
     tx_bind gen_random_uuid (\<lambda>uid.
     tx_bind (tx_get db_now) (\<lambda>now.
     sql_insert_unless db_comments db_comments_update comment_unique comment_unique comment_check notFound
       (new_comment uid issueID input suppress now)))"

subsection \<open>A request that was made before\<close>

definition existingIssueCommentRequest :: "id \<Rightarrow> comment_input \<Rightarrow> (db, comment) tx" where
  "existingIssueCommentRequest issueID input =
     (if cin_source_action_key input = None then tx_fail ErrNotFound
      else if cin_author_type input = ''AGENT''
      then sql_find db_comments (\<lambda>d c. cmt_source_run_id c \<noteq> None \<and> cmt_source_run_id c = cin_source_run_id input \<and>
             cmt_source_action_key c = cin_source_action_key input)
      else sql_find db_comments (\<lambda>d c. cmt_issue_id c = issueID \<and> cmt_author_type c = ACT_HUMAN \<and>
             cmt_author_id c = cin_author_id input \<and> cmt_source_action_key c = cin_source_action_key input))"

definition sameIssueCommentRequest :: "comment \<Rightarrow> comment_input \<Rightarrow> bool" where
  "sameIssueCommentRequest existing requested \<longleftrightarrow>
     cmt_issue_id existing = cin_issue_id requested \<and> actor_type_text (cmt_author_type existing) = cin_author_type requested \<and>
     cmt_author_id existing = cin_author_id requested \<and> body_text existing = cin_body requested \<and>
     cmt_parent_comment_id existing = cin_parent_comment_id requested \<and>
     cmt_source_action_key existing \<noteq> None \<and> cmt_source_action_key existing = cin_source_action_key requested \<and>
     (if cmt_author_type existing = ACT_HUMAN then cmt_source_run_id existing = None \<and> cin_source_run_id requested = None
      else cmt_source_run_id existing \<noteq> None \<and> cmt_source_run_id existing = cin_source_run_id requested)"

definition sameIssueCommentMentionTargets :: "mention_view list \<Rightarrow> comment_target list \<Rightarrow> bool" where
  "sameIssueCommentMentionTargets existing requested \<longleftrightarrow> map lvw_target existing = requested"

definition sameIssueCommentImplicitRequest :: "implicit_view option \<Rightarrow> bool \<Rightarrow> bool \<Rightarrow> bool \<Rightarrow> bool \<Rightarrow> bool" where
  "sameIssueCommentImplicitRequest existing enabled suppress persistedSuppress hasExplicitMentions =
     (if \<not> enabled \<or> hasExplicitMentions then existing = None \<and> \<not> persistedSuppress
      else if persistedSuppress \<noteq> suppress then False
      else case existing of
        None \<Rightarrow> True
      | Some t \<Rightarrow> if persistedSuppress then lvw_outcome t = IssueCommentImplicitOutcomeSuppressed
                  else lvw_outcome t \<noteq> IssueCommentImplicitOutcomeSuppressed)"

text \<open>The answer to a repeated request: the comment with its links, without the reactions.\<close>

definition repeated_comment :: "id \<Rightarrow> id \<Rightarrow> string \<Rightarrow> comment_input \<Rightarrow> comment_target list \<Rightarrow> bool \<Rightarrow> bool \<Rightarrow> (db, comment_view \<times> event list) tx" where
  "repeated_comment projectID issueID authorName input mentions implicitRouting suppressImplicit =
     tx_bind (existingIssueCommentRequest issueID input) (\<lambda>existing.
     tx_bind (tx_guard (sameIssueCommentRequest existing input) ErrConflict) (\<lambda>_.
     tx_bind (sql_find db_comments (\<lambda>d c. cmt_issue_id c = issueID \<and> cmt_id c = cmt_id existing)) (\<lambda>row.
     tx_bind (tx_get (\<lambda>d. \<lparr>cvw_comment = existing, cvw_author_name = authorName, cvw_resolved_by_name = resolver_name d existing,
        cvw_reactions = [], cvw_mentions = loadIssueCommentMentionsWith d projectID issueID (cmt_id existing),
        cvw_implicit = loadIssueCommentImplicitTriggersWith d projectID issueID (cmt_id existing)\<rparr>)) (\<lambda>view.
     tx_bind (tx_guard (sameIssueCommentMentionTargets (cvw_mentions view) mentions \<and>
        sameIssueCommentImplicitRequest (cvw_implicit view) implicitRouting suppressImplicit (cmt_suppress_implicit row)
          (mentions \<noteq> [])) ErrConflict) (\<lambda>_.
     tx_return (view, []))))))"

subsection \<open>The work a comment asks for\<close>

definition outcome_text :: "work_request_outcome \<Rightarrow> string" where
  "outcome_text x = (case x of WORK_QUEUED \<Rightarrow> ''QUEUED'' | WORK_COALESCED \<Rightarrow> ''COALESCED'' | WORK_DEFERRED \<Rightarrow> ''DEFERRED'')"

text \<open>What came of asking: the outcome, the reason of a refusal, the request and the Events.\<close>

record asked =
  ask_outcome :: string
  ask_reason :: "string option"
  ask_request :: "work_request option"
  ask_queued :: bool
  ask_events :: "event list"

definition blocked :: "string option \<Rightarrow> asked" where
  "blocked reason = \<lparr>ask_outcome = IssueCommentMentionOutcomeBlocked, ask_reason = reason, ask_request = None,
     ask_queued = False, ask_events = []\<rparr>"

definition ask_agent :: "(string \<Rightarrow> bool) option \<Rightarrow> work_request_input \<Rightarrow> (db, asked) tx" where
  "ask_agent engineRegistered input =
     tx_bind (tx_try (requestAgentWorkTx violation_aborts engineRegistered input)) (\<lambda>requested.
     case requested of
       Inr res \<Rightarrow> tx_return \<lparr>ask_outcome = outcome_text (wrr_outcome res), ask_reason = None, ask_request = Some (wrr_request res),
           ask_queued = (wrr_outcome res = WORK_QUEUED), ask_events = wrr_events res\<rparr>
     | Inl e \<Rightarrow> if e = ErrConflict \<or> e = ErrNotFound \<or> e = ErrInvalidArgument
                then tx_return (blocked (Some IssueCommentMentionReasonDelegationBlocked)) else tx_fail e)"

text \<open>The delegation that is stored, and the one that is shown.\<close>

definition stored_delegation :: "asked \<Rightarrow> id option" where
  "stored_delegation a = (if ask_queued a then (case ask_request a of None \<Rightarrow> None | Some w \<Rightarrow> wrq_delegation_id w) else None)"

definition shown_work :: "asked \<Rightarrow> id option \<Rightarrow> id option \<times> id option" where
  "shown_work a stored =
     (case ask_request a of
        Some w \<Rightarrow> (if wrq_delegation_id w \<noteq> None then (wrq_delegation_id w, wrq_run_id w) else (stored, None))
      | None \<Rightarrow> (stored, None))"

definition mention_asks :: "(string \<Rightarrow> bool) option \<Rightarrow> id \<Rightarrow> comment \<Rightarrow> target_preview \<Rightarrow> (db, asked) tx" where
  "mention_asks engineRegistered projectID c preview =
     (if \<not> pvw_eligible preview then tx_return (blocked (pvw_reason preview))
      else if RuneCountInString (body_text c) > MaxDelegationTaskCharacters
      then tx_return (blocked (Some IssueCommentMentionReasonDelegationBlocked))
      else ask_agent engineRegistered
        \<lparr>wri_project_id = projectID, wri_issue_id = cmt_issue_id c, wri_source_comment_id = cmt_id c,
         wri_target_agent_id = pvw_resolved_agent_id preview, wri_task = body_text c,
         wri_authority_kind = (if cmt_author_type c = ACT_AGENT then AgentWorkRequestAuthorityParentRun else AgentWorkRequestAuthorityIssue),
         wri_parent_run_id = (if cmt_author_type c = ACT_AGENT then cmt_source_run_id c else None)\<rparr>)"

definition stored_agent :: "target_preview \<Rightarrow> comment_target \<Rightarrow> id" where
  "stored_agent preview target = (if pvw_resolved_agent_id preview = [] then tgt_id target else pvw_resolved_agent_id preview)"

definition insert_mention :: "id \<Rightarrow> comment \<Rightarrow> nat \<Rightarrow> comment_target \<Rightarrow> target_preview \<Rightarrow> asked \<Rightarrow> (db, mention) tx" where
  "insert_mention projectID c ordinal target preview a =
     tx_bind gen_random_uuid (\<lambda>uid.
     tx_bind (tx_get db_now) (\<lambda>now.
     sql_insert db_mentions db_mentions_update mention_unique mention_check PgError
       \<lparr>mnt_id = uid, mnt_project_id = projectID, mnt_issue_id = cmt_issue_id c, mnt_comment_id = cmt_id c,
        mnt_ordinal = int ordinal, mnt_target_agent_id = stored_agent preview target, mnt_target_type = tgt_type target,
        mnt_target_id = tgt_id target, mnt_resolved_agent_id = nullableString (pvw_resolved_agent_id preview),
        mnt_outcome = ask_outcome a, mnt_reason_code = ask_reason a, mnt_delegation_id = stored_delegation a,
        mnt_work_request_id = map_option wrq_id (ask_request a), mnt_created_at = now\<rparr>))"

definition created_mention :: "comment_target \<Rightarrow> target_preview \<Rightarrow> asked \<Rightarrow> mention \<Rightarrow> mention_view" where
  "created_mention target preview a m =
     (let shown = shown_work a (mnt_delegation_id m) in
      \<lparr>lvw_target = target, lvw_target_name = pvw_target_name preview, lvw_resolved_agent_id = or_empty (mnt_resolved_agent_id m),
       lvw_resolved_agent_name = pvw_resolved_agent_name preview, lvw_target_agent_id = stored_agent preview target,
       lvw_target_agent_name = pvw_resolved_agent_name preview, lvw_outcome = mnt_outcome m, lvw_reason_code = mnt_reason_code m,
       lvw_delegation_id = fst shown, lvw_delegated_run_id = snd shown, lvw_work_request_id = mnt_work_request_id m,
       lvw_created_at = mnt_created_at m, mvw_id = mnt_id m\<rparr>)"

fun createIssueCommentMentionsTx :: "(string \<Rightarrow> bool) option \<Rightarrow> id \<Rightarrow> comment \<Rightarrow> nat \<Rightarrow> comment_target list \<Rightarrow>
   (db, mention_view list \<times> event list) tx" where
  "createIssueCommentMentionsTx engineRegistered projectID c index [] = tx_return ([], [])"
| "createIssueCommentMentionsTx engineRegistered projectID c index (target # rest) =
     tx_bind (issueCommentTargetTx engineRegistered projectID target) (\<lambda>preview.
     tx_bind (mention_asks engineRegistered projectID c preview) (\<lambda>a.
     tx_bind (insert_mention projectID c index target preview a) (\<lambda>m.
     tx_bind (createIssueCommentMentionsTx engineRegistered projectID c (index + 1) rest) (\<lambda>(views, events).
     tx_return (created_mention target preview a m # views, ask_events a @ events)))))"

definition implicit_asks :: "(string \<Rightarrow> bool) option \<Rightarrow> id \<Rightarrow> comment \<Rightarrow> string \<Rightarrow> bool \<Rightarrow> target_preview \<Rightarrow> (db, asked) tx" where
  "implicit_asks engineRegistered projectID c status suppress preview =
     (if suppress
      then tx_return ((blocked None)\<lparr>ask_outcome := IssueCommentImplicitOutcomeSuppressed\<rparr>)
      else if \<not> IssueCommentImplicitWakeAllowed status
      then tx_return (blocked (Some IssueCommentImplicitReasonWorkflowBlocked))
      else if \<not> pvw_eligible preview then tx_return (blocked (pvw_reason preview))
      else if RuneCountInString (body_text c) > MaxDelegationTaskCharacters
      then tx_return (blocked (Some IssueCommentMentionReasonDelegationBlocked))
      else ask_agent engineRegistered
        \<lparr>wri_project_id = projectID, wri_issue_id = cmt_issue_id c, wri_source_comment_id = cmt_id c,
         wri_target_agent_id = pvw_resolved_agent_id preview, wri_task = body_text c,
         wri_authority_kind = AgentWorkRequestAuthorityIssue, wri_parent_run_id = None\<rparr>)"

definition insert_implicit :: "id \<Rightarrow> comment \<Rightarrow> comment_route \<Rightarrow> target_preview \<Rightarrow> asked \<Rightarrow> (db, implicit_trigger) tx" where
  "insert_implicit projectID c route preview a =
     tx_bind (tx_get db_now) (\<lambda>now.
     sql_insert db_implicit_triggers db_implicit_triggers_update implicit_unique implicit_check PgError
       \<lparr>imt_project_id = projectID, imt_issue_id = cmt_issue_id c, imt_comment_id = cmt_id c,
        imt_target_agent_id = stored_agent preview (rte_target route), imt_target_type = tgt_type (rte_target route),
        imt_target_id = tgt_id (rte_target route), imt_resolved_agent_id = nullableString (pvw_resolved_agent_id preview),
        imt_routing_reason = rte_reason route, imt_outcome = ask_outcome a, imt_reason_code = ask_reason a,
        imt_delegation_id = stored_delegation a, imt_work_request_id = map_option wrq_id (ask_request a), imt_created_at = now\<rparr>)"

definition created_implicit :: "comment_route \<Rightarrow> target_preview \<Rightarrow> asked \<Rightarrow> implicit_trigger \<Rightarrow> implicit_view" where
  "created_implicit route preview a t =
     (let shown = shown_work a (imt_delegation_id t) in
      \<lparr>lvw_target = rte_target route, lvw_target_name = pvw_target_name preview, lvw_resolved_agent_id = or_empty (imt_resolved_agent_id t),
       lvw_resolved_agent_name = pvw_resolved_agent_name preview, lvw_target_agent_id = stored_agent preview (rte_target route),
       lvw_target_agent_name = pvw_resolved_agent_name preview, lvw_outcome = imt_outcome t, lvw_reason_code = imt_reason_code t,
       lvw_delegation_id = fst shown, lvw_delegated_run_id = snd shown, lvw_work_request_id = imt_work_request_id t,
       lvw_created_at = imt_created_at t, ivw_routing_reason = imt_routing_reason t\<rparr>)"

definition createIssueCommentImplicitTriggerTx :: "(string \<Rightarrow> bool) option \<Rightarrow> id \<Rightarrow> comment \<Rightarrow> bool \<Rightarrow>
   (db, implicit_view option \<times> event list) tx" where
  "createIssueCommentImplicitTriggerTx engineRegistered projectID c suppress =
     tx_bind (resolveIssueCommentImplicitRouteTx projectID (cmt_issue_id c) (cmt_parent_comment_id c) False) (\<lambda>(found, status).
     case found of
       None \<Rightarrow> tx_return (None, [])
     | Some route \<Rightarrow>
         tx_bind (issueCommentTargetTx engineRegistered projectID (rte_target route)) (\<lambda>preview.
         tx_bind (implicit_asks engineRegistered projectID c status suppress preview) (\<lambda>a.
         tx_bind (insert_implicit projectID c route preview a) (\<lambda>t.
         tx_return (Some (created_implicit route preview a t), ask_events a)))))"


subsection \<open>The whole operation\<close>

definition comment_created_event :: "id \<Rightarrow> comment_input \<Rightarrow> comment \<Rightarrow> event" where
  "comment_created_event projectID input c = zero_event\<lparr>evt_type := ''issue.comment_created'', evt_occurred_at := cmt_created_at c,
     evt_project_id := projectID, evt_issue_id := Some (cmt_issue_id c),
     evt_actor := JObj [(''id'', JStr (cin_author_id input)), (''type'', JStr (cin_author_type input))],
     evt_payload := JObj ((''commentId'', JStr (cmt_id c)) #
       (case cmt_parent_comment_id c of None \<Rightarrow> [] | Some p \<Rightarrow> [(''parentCommentId'', JStr p)]))\<rparr>"

definition created_comment :: "(string \<Rightarrow> bool) option \<Rightarrow> id \<Rightarrow> string \<Rightarrow> comment_input \<Rightarrow> comment_target list \<Rightarrow> bool \<Rightarrow> bool \<Rightarrow>
   comment \<Rightarrow> (db, comment_view \<times> event list) tx" where
  "created_comment engineRegistered projectID authorName input mentions implicitRouting suppressImplicit c =
     tx_bind (appendEventTx (comment_created_event projectID input c)) (\<lambda>event.
     tx_bind (createIssueCommentMentionsTx engineRegistered projectID c 0 mentions) (\<lambda>(views, events).
     tx_bind (if implicitRouting \<and> mentions = []
              then createIssueCommentImplicitTriggerTx engineRegistered projectID c suppressImplicit
              else tx_return (None, [])) (\<lambda>(implicit, implicitEvents).
     tx_return (\<lparr>cvw_comment = c, cvw_author_name = authorName, cvw_resolved_by_name = [], cvw_reactions = [],
        cvw_mentions = views, cvw_implicit = implicit\<rparr>, event # events @ implicitEvents))))"

definition create_comment_tx :: "(string \<Rightarrow> bool) option \<Rightarrow> id \<Rightarrow> comment_input \<Rightarrow> comment_target list \<Rightarrow> bool \<Rightarrow> bool \<Rightarrow>
   (db, comment_view \<times> event list) tx" where
  "create_comment_tx engineRegistered projectID input mentions implicitRouting suppressImplicit =
     tx_bind (sql_find db_issues (\<lambda>d i. iss_project_id i = projectID \<and> iss_id i = cin_issue_id input)) (\<lambda>issue.
     tx_bind (issueCommentAuthorName projectID (cin_author_type input) (cin_author_id input)) (\<lambda>authorName.
     tx_bind (comment_source_tx projectID (iss_id issue) input) (\<lambda>_.
     tx_bind (comment_parent_tx (iss_id issue) (cin_parent_comment_id input)) (\<lambda>_.
     tx_bind (insert_comment (iss_id issue) input (implicitRouting \<and> mentions = [] \<and> suppressImplicit)) (\<lambda>inserted.
     case inserted of
       Some c \<Rightarrow> created_comment engineRegistered projectID authorName input mentions implicitRouting suppressImplicit c
     | None \<Rightarrow>
         if cin_source_action_key input = None then tx_fail ErrNotFound
         else repeated_comment projectID (iss_id issue) authorName input mentions implicitRouting suppressImplicit)))))"

definition createIssueComment :: "(string \<Rightarrow> bool) option \<Rightarrow> id \<Rightarrow> comment_input \<Rightarrow> comment_target list \<Rightarrow> bool \<Rightarrow> bool \<Rightarrow> time \<Rightarrow> db \<Rightarrow>
   (store_error + comment_view \<times> event list) \<times> db" where
  "createIssueComment engineRegistered projectID input targets implicitRouting suppressImplicit now d =
     (case normalizeIssueCommentTargets targets [] of
        Inl e \<Rightarrow> (Inl e, d)
      | Inr mentions \<Rightarrow>
          if \<not> comment_input_valid projectID input mentions implicitRouting then (Inl ErrInvalidArgument, d)
          else run_tx now (create_comment_tx engineRegistered projectID (trim_comment_input input) mentions implicitRouting
                 suppressImplicit) d)"

definition CreateIssueComment :: "(string \<Rightarrow> bool) option \<Rightarrow> id \<Rightarrow> comment_input \<Rightarrow> time \<Rightarrow> db \<Rightarrow>
   (store_error + comment_view \<times> event list) \<times> db" where
  "CreateIssueComment engineRegistered projectID input now = createIssueComment engineRegistered projectID input [] False False now"

definition CreateIssueCommentWithMentions :: "(string \<Rightarrow> bool) option \<Rightarrow> id \<Rightarrow> comment_input \<Rightarrow> id list \<Rightarrow> time \<Rightarrow> db \<Rightarrow>
   (store_error + comment_view \<times> event list) \<times> db" where
  "CreateIssueCommentWithMentions engineRegistered projectID input mentionAgentIDs now =
     createIssueComment engineRegistered projectID input (map agent_target mentionAgentIDs) False False now"

definition CreateIssueCommentWithTargets :: "(string \<Rightarrow> bool) option \<Rightarrow> id \<Rightarrow> comment_input \<Rightarrow> comment_target list \<Rightarrow> time \<Rightarrow> db \<Rightarrow>
   (store_error + comment_view \<times> event list) \<times> db" where
  "CreateIssueCommentWithTargets engineRegistered projectID input targets now =
     createIssueComment engineRegistered projectID input targets False False now"

record trigger_request =
  trg_mention_targets :: "comment_target list"
  trg_mention_agent_ids :: "id list"
  trg_suppress_implicit :: bool

definition CreateIssueCommentWithTriggers :: "(string \<Rightarrow> bool) option \<Rightarrow> id \<Rightarrow> comment_input \<Rightarrow> trigger_request \<Rightarrow> time \<Rightarrow> db \<Rightarrow>
   (store_error + comment_view \<times> event list) \<times> db" where
  "CreateIssueCommentWithTriggers engineRegistered projectID input request now d =
     (case normalizeIssueCommentTargets (trg_mention_targets request) (trg_mention_agent_ids request) of
        Inl e \<Rightarrow> (Inl e, d)
      | Inr targets \<Rightarrow> createIssueComment engineRegistered projectID input targets True (trg_suppress_implicit request) now d)"

section \<open>Previews\<close>

definition PreviewIssueCommentTargets :: "(string \<Rightarrow> bool) option \<Rightarrow> id \<Rightarrow> id \<Rightarrow> comment_target list \<Rightarrow> (db, target_preview list) tx" where
  "PreviewIssueCommentTargets engineRegistered rawProjectID rawIssueID targets =
     (let projectID = TrimSpace rawProjectID; issueID = TrimSpace rawIssueID in
      case normalizeIssueCommentTargets targets [] of
        Inl _ \<Rightarrow> tx_fail ErrInvalidArgument
      | Inr mentions \<Rightarrow>
          if projectID = [] \<or> issueID = [] then tx_fail ErrInvalidArgument
          else
            tx_bind (sql_exists db_issues (\<lambda>d i. iss_project_id i = projectID \<and> iss_id i = issueID)) (\<lambda>found.
            tx_bind (tx_guard found ErrNotFound) (\<lambda>_.
            tx_map (issueCommentTargetTx engineRegistered projectID) mentions)))"

definition PreviewIssueCommentMentions :: "(string \<Rightarrow> bool) option \<Rightarrow> id \<Rightarrow> id \<Rightarrow> id list \<Rightarrow> (db, target_preview list) tx" where
  "PreviewIssueCommentMentions engineRegistered projectID issueID mentionAgentIDs =
     PreviewIssueCommentTargets engineRegistered projectID issueID (map agent_target mentionAgentIDs)"

record implicit_preview =
  ipv_target :: comment_target
  ipv_target_name :: string
  ipv_resolved_agent_id :: id
  ipv_resolved_agent_name :: string
  ipv_target_agent_id :: id
  ipv_target_agent_name :: string
  ipv_routing_reason :: string
  ipv_eligible :: bool
  ipv_suppressed :: bool
  ipv_reason :: "string option"

definition implicit_preview_of :: "comment_route \<Rightarrow> string \<Rightarrow> string \<Rightarrow> bool \<Rightarrow> target_preview \<Rightarrow> implicit_preview" where
  "implicit_preview_of route status body suppress target =
     (let value = \<lparr>ipv_target = rte_target route, ipv_target_name = pvw_target_name target,
            ipv_resolved_agent_id = pvw_resolved_agent_id target, ipv_resolved_agent_name = pvw_resolved_agent_name target,
            ipv_target_agent_id = pvw_resolved_agent_id target, ipv_target_agent_name = pvw_resolved_agent_name target,
            ipv_routing_reason = rte_reason route, ipv_eligible = False, ipv_suppressed = False, ipv_reason = None\<rparr> in
      if suppress then value\<lparr>ipv_suppressed := True\<rparr>
      else if \<not> IssueCommentImplicitWakeAllowed status then value\<lparr>ipv_reason := Some IssueCommentImplicitReasonWorkflowBlocked\<rparr>
      else if \<not> pvw_eligible target then value\<lparr>ipv_reason := pvw_reason target\<rparr>
      else if TrimSpace body \<noteq> [] \<and> RuneCountInString body > MaxDelegationTaskCharacters
      then value\<lparr>ipv_reason := Some IssueCommentMentionReasonDelegationBlocked\<rparr>
      else value\<lparr>ipv_eligible := True\<rparr>)"

definition PreviewIssueCommentTriggers :: "(string \<Rightarrow> bool) option \<Rightarrow> id \<Rightarrow> id \<Rightarrow> id option \<Rightarrow> string \<Rightarrow> trigger_request \<Rightarrow>
   (db, target_preview list \<times> implicit_preview option) tx" where
  "PreviewIssueCommentTriggers engineRegistered rawProjectID rawIssueID parentCommentID body request =
     (let projectID = TrimSpace rawProjectID; issueID = TrimSpace rawIssueID in
      case normalizeIssueCommentTargets (trg_mention_targets request) (trg_mention_agent_ids request) of
        Inl _ \<Rightarrow> tx_fail ErrInvalidArgument
      | Inr mentions \<Rightarrow>
          if projectID = [] \<or> issueID = [] \<or> blank parentCommentID then tx_fail ErrInvalidArgument
          else
            tx_bind (resolveIssueCommentImplicitRouteTx projectID issueID parentCommentID (mentions \<noteq> [])) (\<lambda>(found, status).
            tx_bind (tx_map (issueCommentTargetTx engineRegistered projectID) mentions) (\<lambda>previews.
            case found of
              None \<Rightarrow> tx_return (previews, None)
            | Some route \<Rightarrow>
                if mentions \<noteq> [] then tx_return (previews, None)
                else
                  tx_bind (issueCommentTargetTx engineRegistered projectID (rte_target route)) (\<lambda>target.
                  tx_return (previews, Some (implicit_preview_of route status body (trg_suppress_implicit request) target))))))"

section \<open>Changes\<close>

definition appendIssueCommentChangedEventTx :: "id \<Rightarrow> id \<Rightarrow> id \<Rightarrow> id \<Rightarrow> string \<Rightarrow> string option \<Rightarrow> time \<Rightarrow> (db, event) tx" where
  "appendIssueCommentChangedEventTx projectID issueID commentID actorID change reaction occurredAt =
     appendEventTx (zero_event\<lparr>evt_type := ''issue.comment_changed'', evt_occurred_at := occurredAt, evt_project_id := projectID,
       evt_issue_id := Some issueID, evt_actor := JObj [(''id'', JStr actorID), (''type'', JStr ''HUMAN'')],
       evt_payload := JObj ([(''change'', JStr change), (''commentId'', JStr commentID)] @
         (case reaction of None \<Rightarrow> [] | Some r \<Rightarrow> [(''reaction'', JStr r)]))\<rparr>)"

definition find_comment :: "id \<Rightarrow> id \<Rightarrow> id \<Rightarrow> (db, comment) tx" where
  "find_comment projectID issueID commentID =
     sql_find db_comments (\<lambda>d c. comment_in projectID issueID d c \<and> cmt_id c = commentID)"

definition any_blank :: "string list \<Rightarrow> bool" where
  "any_blank ts \<longleftrightarrow> list_ex (\<lambda>t. TrimSpace t = []) ts"

text \<open>After the commit the comment is read again.\<close>

definition reread :: "id \<Rightarrow> id \<Rightarrow> id \<Rightarrow> (store_error + event list) \<times> db \<Rightarrow> (store_error + comment_view \<times> event list) \<times> db" where
  "reread projectID issueID commentID result =
     (case result of
        (Inl e, d) \<Rightarrow> (Inl e, d)
      | (Inr events, d) \<Rightarrow>
          (case fst (GetIssueComment projectID issueID commentID d) of
             Inl e \<Rightarrow> (Inl e, d)
           | Inr view \<Rightarrow> (Inr (view, events), d)))"

definition write_comment :: "id \<Rightarrow> id \<Rightarrow> (time \<Rightarrow> comment \<Rightarrow> comment) \<Rightarrow> (db, nat) tx" where
  "write_comment issueID commentID f =
     sql_update_all db_comments db_comments_update comment_check PgError
       (\<lambda>d c. cmt_issue_id c = issueID \<and> cmt_id c = commentID) (\<lambda>d. f (db_now d))"

definition update_comment_tx :: "id \<Rightarrow> id \<Rightarrow> id \<Rightarrow> id \<Rightarrow> string \<Rightarrow> (db, event list) tx" where
  "update_comment_tx projectID issueID commentID actorID body =
     tx_bind (find_comment projectID issueID commentID) (\<lambda>c.
     tx_bind (tx_guard (cmt_deleted_at c = None) ErrConflict) (\<lambda>_.
     if body_text c = body then tx_return []
     else
       tx_bind (write_comment issueID commentID (\<lambda>now c. c\<lparr>cmt_body := Some body, cmt_updated_at := now\<rparr>)) (\<lambda>_.
       tx_bind (tx_get db_now) (\<lambda>changedAt.
       tx_bind (appendIssueCommentChangedEventTx projectID issueID commentID actorID ''EDITED'' None changedAt) (\<lambda>event.
       tx_return [event])))))"

definition UpdateIssueComment :: "id \<Rightarrow> id \<Rightarrow> id \<Rightarrow> id \<Rightarrow> string \<Rightarrow> time \<Rightarrow> db \<Rightarrow> (store_error + comment_view \<times> event list) \<times> db" where
  "UpdateIssueComment projectID issueID commentID actorID body now d =
     (if any_blank [projectID, issueID, commentID, actorID, body] then (Inl ErrInvalidArgument, d)
      else reread projectID issueID commentID (run_tx now (update_comment_tx projectID issueID commentID actorID body) d))"

text \<open>
  A comment that something refers to stays as a tombstone; otherwise its row goes, with its reactions and notifications.
  A delegation that names it as its source forbids that.
\<close>

definition comment_answered :: "db \<Rightarrow> id \<Rightarrow> id \<Rightarrow> bool" where
  "comment_answered d issueID commentID \<longleftrightarrow>
     exists_row (\<lambda>c. cmt_issue_id c = issueID \<and> cmt_parent_comment_id c = Some commentID) (db_comments d) \<or>
     exists_row (\<lambda>m. mnt_issue_id m = issueID \<and> mnt_comment_id m = commentID) (db_mentions d) \<or>
     exists_row (\<lambda>t. imt_issue_id t = issueID \<and> imt_comment_id t = commentID) (db_implicit_triggers d)"

definition remove_comment :: "id \<Rightarrow> id \<Rightarrow> (db, unit) tx" where
  "remove_comment issueID commentID =
     tx_bind (sql_exists db_delegations (\<lambda>d g. dlg_issue_id g = issueID \<and> dlg_source_comment_id g = Some commentID)) (\<lambda>restricted.
     tx_bind (tx_guard (\<not> restricted) (PgError ForeignKeyViolation)) (\<lambda>_.
     tx_bind (sql_delete db_comments db_comments_update (\<lambda>d c. cmt_issue_id c = issueID \<and> cmt_id c = commentID)) (\<lambda>affected.
     tx_bind (sql_delete db_reactions db_reactions_update (\<lambda>d r. rct_issue_id r = issueID \<and> rct_comment_id r = commentID)) (\<lambda>_.
     tx_bind (sql_delete db_notifications db_notifications_update (\<lambda>d n. ntf_issue_id n = issueID \<and> ntf_source_comment_id n = commentID)) (\<lambda>_.
     tx_guard (affected = 1) ErrNotFound)))))"

definition bury_comment :: "id \<Rightarrow> id \<Rightarrow> (db, unit) tx" where
  "bury_comment issueID commentID =
     tx_bind (sql_delete db_reactions db_reactions_update (\<lambda>d r. rct_issue_id r = issueID \<and> rct_comment_id r = commentID)) (\<lambda>_.
     tx_bind (write_comment issueID commentID (\<lambda>now c. c\<lparr>cmt_body := None, cmt_deleted_at := Some now, cmt_resolved_at := None,
                cmt_resolved_by_user_id := None\<rparr>)) (\<lambda>_.
     tx_return ()))"

definition delete_comment_tx :: "id \<Rightarrow> id \<Rightarrow> id \<Rightarrow> id \<Rightarrow> (db, event list) tx" where
  "delete_comment_tx projectID issueID commentID actorID =
     tx_bind (find_comment projectID issueID commentID) (\<lambda>c.
     if cmt_deleted_at c \<noteq> None then tx_return []
     else
       tx_bind (tx_get (\<lambda>d. comment_answered d issueID commentID)) (\<lambda>preserveComment.
       tx_bind (tx_get db_now) (\<lambda>changedAt.
       tx_bind (if preserveComment then bury_comment issueID commentID else remove_comment issueID commentID) (\<lambda>_.
       tx_bind (appendIssueCommentChangedEventTx projectID issueID commentID actorID ''DELETED'' None changedAt) (\<lambda>event.
       tx_return [event])))))"

definition DeleteIssueComment :: "id \<Rightarrow> id \<Rightarrow> id \<Rightarrow> id \<Rightarrow> time \<Rightarrow> db \<Rightarrow> (store_error + event list) \<times> db" where
  "DeleteIssueComment projectID issueID commentID actorID now d =
     (if any_blank [projectID, issueID, commentID, actorID] then (Inl ErrInvalidArgument, d)
      else run_tx now (delete_comment_tx projectID issueID commentID actorID) d)"

definition resolve_comment_tx :: "id \<Rightarrow> id \<Rightarrow> id \<Rightarrow> id \<Rightarrow> bool \<Rightarrow> (db, event list) tx" where
  "resolve_comment_tx projectID issueID commentID actorID resolved =
     tx_bind (find_comment projectID issueID commentID) (\<lambda>c.
     tx_bind (tx_guard (cmt_parent_comment_id c = None) ErrInvalidArgument) (\<lambda>_.
     tx_bind (tx_guard (cmt_deleted_at c = None) ErrConflict) (\<lambda>_.
     if resolved = (cmt_resolved_at c \<noteq> None) then tx_return []
     else
       tx_bind (tx_get db_now) (\<lambda>changedAt.
       tx_bind (write_comment issueID commentID (\<lambda>now c.
                  if resolved then c\<lparr>cmt_resolved_at := Some now, cmt_resolved_by_user_id := Some actorID\<rparr>
                  else c\<lparr>cmt_resolved_at := None, cmt_resolved_by_user_id := None\<rparr>)) (\<lambda>_.
       tx_bind (appendIssueCommentChangedEventTx projectID issueID commentID actorID (if resolved then ''RESOLVED'' else ''REOPENED'')
                  None changedAt) (\<lambda>event.
       tx_return [event]))))))"

definition setIssueCommentResolution :: "id \<Rightarrow> id \<Rightarrow> id \<Rightarrow> id \<Rightarrow> bool \<Rightarrow> time \<Rightarrow> db \<Rightarrow> (store_error + comment_view \<times> event list) \<times> db" where
  "setIssueCommentResolution projectID issueID commentID actorID resolved now d =
     (if any_blank [projectID, issueID, commentID, actorID] then (Inl ErrInvalidArgument, d)
      else reread projectID issueID commentID (run_tx now (resolve_comment_tx projectID issueID commentID actorID resolved) d))"

definition ResolveIssueComment :: "id \<Rightarrow> id \<Rightarrow> id \<Rightarrow> id \<Rightarrow> time \<Rightarrow> db \<Rightarrow> (store_error + comment_view \<times> event list) \<times> db" where
  "ResolveIssueComment projectID issueID commentID actorID now = setIssueCommentResolution projectID issueID commentID actorID True now"

definition ReopenIssueComment :: "id \<Rightarrow> id \<Rightarrow> id \<Rightarrow> id \<Rightarrow> time \<Rightarrow> db \<Rightarrow> (store_error + comment_view \<times> event list) \<times> db" where
  "ReopenIssueComment projectID issueID commentID actorID now = setIssueCommentResolution projectID issueID commentID actorID False now"

definition ValidIssueCommentReaction :: "string \<Rightarrow> bool" where
  "ValidIssueCommentReaction value \<longleftrightarrow>
     value \<in> {''THUMBS_UP'', ''THUMBS_DOWN'', ''LAUGH'', ''HOORAY'', ''CONFUSED'', ''HEART'', ''ROCKET'', ''EYES''}"

definition same_reaction :: "reaction \<Rightarrow> reaction \<Rightarrow> bool" where
  "same_reaction a b \<longleftrightarrow> rct_issue_id a = rct_issue_id b \<and> rct_comment_id a = rct_comment_id b \<and>
     rct_actor_id a = rct_actor_id b \<and> rct_reaction a = rct_reaction b"

definition reaction_check :: "db \<Rightarrow> reaction \<Rightarrow> pg_error option" where
  "reaction_check d r =
     (if \<not> ValidIssueCommentReaction (rct_reaction r) then Some CheckViolation
      else if exists_row (\<lambda>c. cmt_issue_id c = rct_issue_id r \<and> cmt_id c = rct_comment_id r) (db_comments d) then None
      else Some ForeignKeyViolation)"

definition write_reaction :: "id \<Rightarrow> id \<Rightarrow> id \<Rightarrow> string \<Rightarrow> bool \<Rightarrow> (db, bool) tx" where
  "write_reaction issueID commentID actorID reaction add =
     (if add
      then tx_bind (tx_get db_now) (\<lambda>now.
           tx_bind (sql_insert_unless db_reactions db_reactions_update same_reaction same_reaction reaction_check PgError
             \<lparr>rct_issue_id = issueID, rct_comment_id = commentID, rct_actor_id = actorID, rct_reaction = reaction,
              rct_created_at = now\<rparr>) (\<lambda>inserted.
           tx_return (inserted \<noteq> None)))
      else tx_bind (sql_delete db_reactions db_reactions_update (\<lambda>d r. rct_issue_id r = issueID \<and> rct_comment_id r = commentID \<and>
             rct_actor_id r = actorID \<and> rct_reaction r = reaction)) (\<lambda>affected.
           tx_return (affected \<noteq> 0)))"

definition mutate_reaction_tx :: "id \<Rightarrow> id \<Rightarrow> id \<Rightarrow> id \<Rightarrow> string \<Rightarrow> bool \<Rightarrow> (db, event list) tx" where
  "mutate_reaction_tx projectID issueID commentID actorID reaction add =
     tx_bind (find_comment projectID issueID commentID) (\<lambda>c.
     tx_bind (tx_guard (cmt_deleted_at c = None) ErrConflict) (\<lambda>_.
     tx_bind (write_reaction issueID commentID actorID reaction add) (\<lambda>changed.
     if \<not> changed then tx_return []
     else
       tx_bind (tx_get db_now) (\<lambda>changedAt.
       tx_bind (appendIssueCommentChangedEventTx projectID issueID commentID actorID
                  (if add then ''REACTION_ADDED'' else ''REACTION_REMOVED'') (Some reaction) changedAt) (\<lambda>event.
       tx_return [event])))))"

definition mutateIssueCommentReaction :: "id \<Rightarrow> id \<Rightarrow> id \<Rightarrow> id \<Rightarrow> string \<Rightarrow> bool \<Rightarrow> time \<Rightarrow> db \<Rightarrow> (store_error + event list) \<times> db" where
  "mutateIssueCommentReaction projectID issueID commentID actorID reaction add now d =
     (if any_blank [projectID, issueID, commentID, actorID] \<or> \<not> ValidIssueCommentReaction reaction then (Inl ErrInvalidArgument, d)
      else run_tx now (mutate_reaction_tx projectID issueID commentID actorID reaction add) d)"

definition AddIssueCommentReaction :: "id \<Rightarrow> id \<Rightarrow> id \<Rightarrow> id \<Rightarrow> string \<Rightarrow> time \<Rightarrow> db \<Rightarrow> (store_error + event list) \<times> db" where
  "AddIssueCommentReaction projectID issueID commentID actorID reaction now =
     mutateIssueCommentReaction projectID issueID commentID actorID reaction True now"

definition RemoveIssueCommentReaction :: "id \<Rightarrow> id \<Rightarrow> id \<Rightarrow> id \<Rightarrow> string \<Rightarrow> time \<Rightarrow> db \<Rightarrow> (store_error + event list) \<times> db" where
  "RemoveIssueCommentReaction projectID issueID commentID actorID reaction now =
     mutateIssueCommentReaction projectID issueID commentID actorID reaction False now"


end
