(* ===== verification/Project_Access.thy ===== *)
theory Project_Access
  imports Identity Issue_Keys
begin

text \<open>
  Who may do what in a project (store/postgres/project_access.go, project_members.go, project_workflow_users.go,
  effective_role_sql.go, groups.go, the creation of projects in core.go; store/project_access.go): grants to users and
  to groups, the effective role they add up to, and the direct administrators a project must not lose.
\<close>

section \<open>Roles\<close>

definition ProjectRoleRank :: "string \<Rightarrow> int" where
  "ProjectRoleRank role = (if role = ProjectRoleViewer then 1 else if role = ProjectRoleMember then 2
     else if role = ProjectRoleAdmin then 3 else 0)"

definition ProjectRoleAtLeast :: "string \<Rightarrow> string \<Rightarrow> bool" where
  "ProjectRoleAtLeast role minimum \<longleftrightarrow> ProjectRoleRank role \<ge> ProjectRoleRank minimum \<and> ProjectRoleRank minimum > 0"

abbreviation db_groups :: "db \<Rightarrow> user_group list" where
  "db_groups d \<equiv> idn_groups (db_identity d)"

abbreviation db_groups_update :: "(user_group list \<Rightarrow> user_group list) \<Rightarrow> db \<Rightarrow> db" where
  "db_groups_update f \<equiv> db_identity_update (idn_groups_update f)"

abbreviation db_group_members :: "db \<Rightarrow> (id \<times> id) list" where
  "db_group_members d \<equiv> idn_group_members (db_identity d)"

abbreviation db_group_members_update :: "((id \<times> id) list \<Rightarrow> (id \<times> id) list) \<Rightarrow> db \<Rightarrow> db" where
  "db_group_members_update f \<equiv> db_identity_update (idn_group_members_update f)"

abbreviation db_group_access :: "db \<Rightarrow> grant list" where
  "db_group_access d \<equiv> idn_group_access (db_identity d)"

abbreviation db_group_access_update :: "(grant list \<Rightarrow> grant list) \<Rightarrow> db \<Rightarrow> db" where
  "db_group_access_update f \<equiv> db_identity_update (idn_group_access_update f)"

text \<open>The grants a user has in a project, of their own and through groups.\<close>

definition granted_roles :: "db \<Rightarrow> id \<Rightarrow> id \<Rightarrow> string list" where
  "granted_roles d projectID userID =
     map grn_role (filter (\<lambda>g. grn_project_id g = projectID \<and> grn_grantee_id g = userID) (db_user_access d)) @
     map grn_role (filter (\<lambda>g. grn_project_id g = projectID \<and> (grn_grantee_id g, userID) \<in> set (db_group_members d)) (db_group_access d))"

definition effectiveProjectRoleExpression :: "db \<Rightarrow> id \<Rightarrow> user \<Rightarrow> string option" where
  "effectiveProjectRoleExpression d projectID u =
     (if usr_deployment_role u = DeploymentRoleAdmin then Some ProjectRoleAdmin
      else first_by (\<lambda>role. - ProjectRoleRank role) (granted_roles d projectID (usr_id u)))"

definition effectiveProjectRole :: "id \<Rightarrow> id \<Rightarrow> (db, string) tx" where
  "effectiveProjectRole projectID userID =
     tx_bind (sql_find db_users (\<lambda>d u. usr_id u = userID \<and> exists_row (\<lambda>p. prj_id p = projectID) (db_projects d))) (\<lambda>u.
     tx_bind (tx_get (\<lambda>d. effectiveProjectRoleExpression d projectID u)) (\<lambda>role.
     case role of
       None \<Rightarrow> tx_fail ErrNotFound
     | Some r \<Rightarrow> if \<not> ValidProjectRole r then tx_fail ErrInvalidArgument else tx_return r))"

definition EffectiveProjectRole :: "id \<Rightarrow> id \<Rightarrow> (db, string) tx" where
  "EffectiveProjectRole = effectiveProjectRole"

record project_member =
  pmb_user_id :: id
  pmb_username :: string
  pmb_display_name :: string
  pmb_role :: string

definition ListProjectMembers :: "id \<Rightarrow> db \<Rightarrow> project_member list" where
  "ListProjectMembers projectID d =
     sort_key (\<lambda>m. (pmb_display_name m, pmb_username m, pmb_user_id m))
       (List.map_filter (\<lambda>u.
          if usr_status u = UserStatusActive \<and> exists_row (\<lambda>p. prj_id p = projectID) (db_projects d)
          then map_option (\<lambda>role. \<lparr>pmb_user_id = usr_id u, pmb_username = usr_username u,
                 pmb_display_name = usr_display_name u, pmb_role = role\<rparr>) (effectiveProjectRoleExpression d projectID u)
          else None) (db_users d))"

text \<open>Users who may take part in the workflow of a project.\<close>

definition eligibleProjectWorkflowUser :: "db \<Rightarrow> id \<Rightarrow> user \<Rightarrow> bool" where
  "eligibleProjectWorkflowUser d projectID u \<longleftrightarrow> usr_status u = UserStatusActive \<and>
     effectiveProjectRoleExpression d projectID u \<in> {Some ProjectRoleMember, Some ProjectRoleAdmin}"

definition resolveProjectWorkflowUser :: "id \<Rightarrow> id \<Rightarrow> (db, string) tx" where
  "resolveProjectWorkflowUser projectID userID =
     tx_bind (sql_find db_users (\<lambda>d u. usr_id u = userID)) (\<lambda>u.
     tx_bind (tx_get (\<lambda>d. eligibleProjectWorkflowUser d projectID u)) (\<lambda>eligible.
     tx_bind (tx_guard (usr_status u = UserStatusActive \<and> eligible) ErrInvalidArgument) (\<lambda>_.
     tx_return (usr_display_name u))))"

definition ListProjectsForUser :: "id \<Rightarrow> db \<Rightarrow> project list" where
  "ListProjectsForUser userID d =
     sort_key (\<lambda>p. (prj_created_at p, prj_id p)) (filter (\<lambda>p. granted_roles d (prj_id p) userID \<noteq> []) (db_projects d))"

section \<open>Grants\<close>

definition grant_check :: "(db \<Rightarrow> id \<Rightarrow> bool) \<Rightarrow> db \<Rightarrow> grant \<Rightarrow> pg_error option" where
  "grant_check known d g =
     (if grn_role g \<notin> {ProjectRoleAdmin, ProjectRoleMember, ProjectRoleViewer} then Some CheckViolation
      else if exists_row (\<lambda>p. prj_id p = grn_project_id g) (db_projects d) \<and> known d (grn_grantee_id g) then None
      else Some ForeignKeyViolation)"

definition same_grant :: "grant \<Rightarrow> grant \<Rightarrow> bool" where
  "same_grant g h \<longleftrightarrow> grn_project_id g = grn_project_id h \<and> grn_grantee_id g = grn_grantee_id h"

text \<open>\<open>INSERT ... ON CONFLICT (project, grantee) DO UPDATE SET role\<close>.\<close>

definition upsert_grant :: "(db \<Rightarrow> grant list) \<Rightarrow> ((grant list \<Rightarrow> grant list) \<Rightarrow> db \<Rightarrow> db) \<Rightarrow> (db \<Rightarrow> id \<Rightarrow> bool) \<Rightarrow> grant \<Rightarrow> (db, grant) tx" where
  "upsert_grant rows upd known g = (\<lambda>d.
     case grant_check known d g of
       Some v \<Rightarrow> (Inl (notFound v), d)
     | None \<Rightarrow>
         if exists_row (\<lambda>h. same_grant h g) (rows d)
         then (Inr g, upd (update_rows (\<lambda>h. same_grant h g) (\<lambda>h. h\<lparr>grn_role := grn_role g\<rparr>)) d)
         else (Inr g, upd (\<lambda>rs. rs @ [g]) d))"

definition known_user :: "db \<Rightarrow> id \<Rightarrow> bool" where
  "known_user d userID \<longleftrightarrow> exists_row (\<lambda>u. usr_id u = userID) (db_users d)"

definition known_group :: "db \<Rightarrow> id \<Rightarrow> bool" where
  "known_group d groupID \<longleftrightarrow> exists_row (\<lambda>g. grp_id g = groupID) (db_groups d)"

definition UpsertProjectUserAccess :: "grant \<Rightarrow> time \<Rightarrow> db \<Rightarrow> (store_error + grant) \<times> db" where
  "UpsertProjectUserAccess input now d =
     (if \<not> ValidProjectRole (grn_role input) then (Inl ErrInvalidArgument, d)
      else run_tx now (
        tx_bind (upsert_grant db_user_access db_user_access_update known_user input) (\<lambda>value.
        tx_bind (ensureActiveDirectProjectAdmin (grn_project_id input)) (\<lambda>_.
        tx_return value))) d)"

definition DeleteProjectUserAccess :: "id \<Rightarrow> id \<Rightarrow> time \<Rightarrow> db \<Rightarrow> (store_error + unit) \<times> db" where
  "DeleteProjectUserAccess projectID userID now =
     run_tx now (
       tx_bind (sql_delete db_user_access db_user_access_update (\<lambda>d g. grn_project_id g = projectID \<and> grn_grantee_id g = userID)) (\<lambda>affected.
       tx_bind (tx_guard (affected \<noteq> 0) ErrNotFound) (\<lambda>_.
       ensureActiveDirectProjectAdmin projectID)))"

definition UpsertProjectGroupAccess :: "grant \<Rightarrow> time \<Rightarrow> db \<Rightarrow> (store_error + grant) \<times> db" where
  "UpsertProjectGroupAccess input now d =
     (if \<not> ValidProjectRole (grn_role input) then (Inl ErrInvalidArgument, d)
      else run_tx now (upsert_grant db_group_access db_group_access_update known_group input) d)"

definition DeleteProjectGroupAccess :: "id \<Rightarrow> id \<Rightarrow> time \<Rightarrow> db \<Rightarrow> (store_error + unit) \<times> db" where
  "DeleteProjectGroupAccess projectID groupID now =
     run_tx now (
       tx_bind (sql_delete db_group_access db_group_access_update (\<lambda>d g. grn_project_id g = projectID \<and> grn_grantee_id g = groupID)) (\<lambda>affected.
       tx_guard (affected \<noteq> 0) ErrNotFound))"

definition ListProjectUserAccess :: "id \<Rightarrow> (db, (grant \<times> user) list) tx" where
  "ListProjectUserAccess projectID =
     tx_bind (sql_exists db_projects (\<lambda>d p. prj_id p = projectID)) (\<lambda>exists.
     tx_bind (tx_guard exists ErrNotFound) (\<lambda>_.
     tx_get (\<lambda>d. sort_key (\<lambda>(g, u). (usr_display_name u, usr_username u, usr_id u))
       (filter (\<lambda>(g, u). grn_project_id g = projectID \<and> usr_id u = grn_grantee_id g) (List.product (db_user_access d) (db_users d))))))"

definition ListProjectGroupAccess :: "id \<Rightarrow> (db, (grant \<times> user_group) list) tx" where
  "ListProjectGroupAccess projectID =
     tx_bind (sql_exists db_projects (\<lambda>d p. prj_id p = projectID)) (\<lambda>exists.
     tx_bind (tx_guard exists ErrNotFound) (\<lambda>_.
     tx_get (\<lambda>d. sort_key (\<lambda>(a, g). (grp_name g, grp_id g))
       (filter (\<lambda>(a, g). grn_project_id a = projectID \<and> grp_id g = grn_grantee_id a) (List.product (db_group_access d) (db_groups d))))))"

section \<open>Groups\<close>

definition group_unique :: "user_group \<Rightarrow> user_group \<Rightarrow> bool" where
  "group_unique g h \<longleftrightarrow> grp_id g = grp_id h \<or> grp_name g = grp_name h"

definition group_check :: "db \<Rightarrow> user_group \<Rightarrow> pg_error option" where
  "group_check d g =
     (if btrim (grp_name g) \<noteq> [] \<and> grp_name g = idn_lower (db_identity d) (btrim (grp_name g)) then None else Some CheckViolation)"

definition ListGroups :: "db \<Rightarrow> user_group list" where
  "ListGroups d = sort_key (\<lambda>g. (grp_name g, grp_id g)) (db_groups d)"

definition CreateGroup :: "string \<Rightarrow> time \<Rightarrow> db \<Rightarrow> (store_error + user_group) \<times> db" where
  "CreateGroup name now =
     run_tx now (
       tx_bind gen_random_uuid (\<lambda>gid.
       tx_bind (tx_get db_now) (\<lambda>at.
       sql_insert db_groups db_groups_update group_unique group_check notFound
         \<lparr>grp_id = gid, grp_name = name, grp_created_at = at, grp_updated_at = at\<rparr>)))"

definition UpdateGroup :: "id \<Rightarrow> string \<Rightarrow> time \<Rightarrow> db \<Rightarrow> (store_error + user_group) \<times> db" where
  "UpdateGroup groupID name now =
     run_tx now (
       sql_update_checked db_groups db_groups_update group_unique group_check (\<lambda>d g. grp_id g = groupID)
         (\<lambda>d g. g\<lparr>grp_name := name, grp_updated_at := db_now d\<rparr>))"

text \<open>Members and grants of a group go with it.\<close>

definition DeleteGroup :: "id \<Rightarrow> time \<Rightarrow> db \<Rightarrow> (store_error + unit) \<times> db" where
  "DeleteGroup groupID now =
     run_tx now (
       tx_bind (sql_delete db_groups db_groups_update (\<lambda>d g. grp_id g = groupID)) (\<lambda>affected.
       tx_bind (sql_delete db_group_members db_group_members_update (\<lambda>d m. fst m = groupID)) (\<lambda>_.
       tx_bind (sql_delete db_group_access db_group_access_update (\<lambda>d g. grn_grantee_id g = groupID)) (\<lambda>_.
       tx_guard (affected \<noteq> 0) ErrNotFound))))"

definition ListGroupMembers :: "id \<Rightarrow> (db, user list) tx" where
  "ListGroupMembers groupID =
     tx_bind (sql_exists db_groups (\<lambda>d g. grp_id g = groupID)) (\<lambda>exists.
     tx_bind (tx_guard exists ErrNotFound) (\<lambda>_.
     tx_get (\<lambda>d. sort_key (\<lambda>u. (usr_created_at u, usr_id u)) (filter (\<lambda>u. (groupID, usr_id u) \<in> set (db_group_members d)) (db_users d)))))"

text \<open>An unknown group is not found, an unknown user an invalid argument.\<close>

definition AddGroupMember :: "id \<Rightarrow> id \<Rightarrow> time \<Rightarrow> db \<Rightarrow> (store_error + unit) \<times> db" where
  "AddGroupMember groupID userID now =
     run_tx now (
       tx_bind (sql_exists db_group_members (\<lambda>d m. m = (groupID, userID))) (\<lambda>member.
       tx_bind (tx_guard (\<not> member) (notFound UniqueViolation)) (\<lambda>_.
       tx_bind (tx_get (\<lambda>d. known_group d groupID)) (\<lambda>group.
       tx_bind (tx_guard group ErrNotFound) (\<lambda>_.
       tx_bind (tx_get (\<lambda>d. known_user d userID)) (\<lambda>user.
       tx_bind (tx_guard user (notFound ForeignKeyViolation)) (\<lambda>_.
       tx_bind (sql_insert db_group_members db_group_members_update (=) (\<lambda>_ _. None) notFound (groupID, userID)) (\<lambda>_.
       tx_return ()))))))))"

definition RemoveGroupMember :: "id \<Rightarrow> id \<Rightarrow> time \<Rightarrow> db \<Rightarrow> (store_error + unit) \<times> db" where
  "RemoveGroupMember groupID userID now =
     run_tx now (
       tx_bind (sql_delete db_group_members db_group_members_update (\<lambda>d m. m = (groupID, userID))) (\<lambda>removed.
       tx_bind (tx_get (\<lambda>d. known_group d groupID)) (\<lambda>group.
       tx_bind (tx_guard group ErrNotFound) (\<lambda>_.
       tx_guard (removed \<noteq> 0) ErrGroupMemberNotFound))))"

section \<open>Projects\<close>

text \<open>
  \<open>NormalizeIssuePrefix\<close>. The runes whose upper case is an ASCII letter are the lower case ASCII letters, the dotless
  i (U+0131) and the long s (U+017F). Other runes stay as they are here: their upper case is not ASCII either, and
  no prefix with such a rune is valid.
\<close>

fun upper_ascii :: "string \<Rightarrow> string" where
  "upper_ascii (a # b # s) =
     (if (of_char a :: nat) = 196 \<and> (of_char b :: nat) = 177 then CHR ''I'' # upper_ascii s
      else if (of_char a :: nat) = 197 \<and> (of_char b :: nat) = 191 then CHR ''S'' # upper_ascii s
      else if 97 \<le> (of_char a :: nat) \<and> (of_char a :: nat) \<le> 122 then char_of (of_char a - 32 :: nat) # upper_ascii (b # s)
      else a # upper_ascii (b # s))"
| "upper_ascii [a] = (if 97 \<le> (of_char a :: nat) \<and> (of_char a :: nat) \<le> 122 then [char_of (of_char a - 32 :: nat)] else [a])"
| "upper_ascii [] = []"

definition NormalizeIssuePrefix :: "string \<Rightarrow> string" where
  "NormalizeIssuePrefix prefix = upper_ascii (TrimSpace prefix)"

definition project_unique :: "(string \<Rightarrow> string) \<Rightarrow> project \<Rightarrow> project \<Rightarrow> bool" where
  "project_unique lower p q \<longleftrightarrow> prj_id p = prj_id q \<or> lower (prj_name p) = lower (prj_name q) \<or>
     prj_issue_prefix p = prj_issue_prefix q"

definition blank_text :: "string option \<Rightarrow> bool" where
  "blank_text v \<longleftrightarrow> (case v of None \<Rightarrow> False | Some s \<Rightarrow> btrim s = [])"

definition project_check :: "db \<Rightarrow> project \<Rightarrow> pg_error option" where
  "project_check d p =
     (if btrim (prj_name p) \<noteq> [] \<and> ValidIssuePrefix (prj_issue_prefix p) \<and> prj_next_issue_number p \<ge> 1 \<and>
         \<not> blank_text (prj_clone_url p) \<and> \<not> blank_text (prj_source_ref p) \<and>
         (case prj_workflow_settings p of JObj _ \<Rightarrow> True | _ \<Rightarrow> False) \<and>
         (prj_source_type p = ''local'' \<and> btrim (prj_repository_path p) \<noteq> [] \<and> btrim (prj_default_branch p) \<noteq> [] \<and>
            prj_clone_url p = None \<and> prj_source_ref p = None \<or>
          prj_source_type p = ''git'' \<and> prj_clone_url p \<noteq> None \<and> prj_repository_path p = [] \<and> prj_default_branch p = [])
      then None else Some CheckViolation)"

text \<open>The row a project is created with; \<open>allow\<close> is the optional flag of the input.\<close>

definition new_project :: "id \<Rightarrow> project \<Rightarrow> string \<Rightarrow> bool option \<Rightarrow> time \<Rightarrow> project" where
  "new_project pid input prefix allow now =
     (let sourceType = (if prj_source_type input = [] then ''local'' else prj_source_type input);
          branch = (if sourceType = ''local'' \<and> prj_default_branch input = [] then ''main'' else prj_default_branch input) in
      input\<lparr>prj_id := pid, prj_issue_prefix := prefix, prj_next_issue_number := 1, prj_source_type := sourceType,
        prj_default_branch := branch, prj_workflow_settings := objectJSON (prj_workflow_settings input),
        prj_allow_internal_runner := (case allow of None \<Rightarrow> True | Some b \<Rightarrow> b), prj_created_at := now, prj_updated_at := now\<rparr>)"

definition insert_project :: "project \<Rightarrow> string \<Rightarrow> bool option \<Rightarrow> (db, project) tx" where
  "insert_project input prefix allow =
     tx_bind gen_random_uuid (\<lambda>pid.
     tx_bind (tx_get db_now) (\<lambda>at.
     tx_bind (tx_get (\<lambda>d. idn_lower (db_identity d))) (\<lambda>lower.
     sql_insert db_projects db_projects_update (project_unique lower) project_check notFound (new_project pid input prefix allow at))))"

definition CreateProject :: "project \<Rightarrow> bool option \<Rightarrow> time \<Rightarrow> db \<Rightarrow> (store_error + project) \<times> db" where
  "CreateProject input allow now d =
     (let prefix = NormalizeIssuePrefix (prj_issue_prefix input) in
      if \<not> ValidIssuePrefix prefix then (Inl ErrInvalidArgument, d)
      else run_tx now (insert_project input prefix allow) d)"

definition create_with_admin_tx :: "project \<Rightarrow> string \<Rightarrow> bool option \<Rightarrow> id \<Rightarrow> (db, project) tx" where
  "create_with_admin_tx input prefix allow userID =
     tx_bind (sql_find db_users (\<lambda>d u. usr_id u = userID)) (\<lambda>u.
     tx_bind (tx_guard (usr_status u = UserStatusActive) ErrInvalidArgument) (\<lambda>_.
     tx_bind (insert_project input prefix allow) (\<lambda>project.
     tx_bind (sql_insert db_user_access db_user_access_update same_grant (grant_check known_user) notFound
                \<lparr>grn_project_id = prj_id project, grn_grantee_id = userID, grn_role = ProjectRoleAdmin\<rparr>) (\<lambda>_.
     tx_return project))))"

definition CreateProjectWithAdmin :: "project \<Rightarrow> bool option \<Rightarrow> id \<Rightarrow> time \<Rightarrow> db \<Rightarrow> (store_error + project) \<times> db" where
  "CreateProjectWithAdmin input allow userID now d =
     (let prefix = NormalizeIssuePrefix (prj_issue_prefix input) in
      if userID = [] \<or> \<not> ValidIssuePrefix prefix then (Inl ErrInvalidArgument, d)
      else run_tx now (create_with_admin_tx input prefix allow userID) d)"

definition GetProject :: "id \<Rightarrow> (db, project) tx" where
  "GetProject projectID = sql_find db_projects (\<lambda>d p. prj_id p = projectID)"

end
