(* ===== verification/Notifications.thy ===== *)
theory Notifications
  imports Issue_Comments Project_Access
begin

text \<open>
  Who hears of a comment (store/postgres/notifications.go, store/notifications.go): subscriptions to Issues, the
  notifications a comment creates for the author it answers and for subscribers, and the inbox of a user.
\<close>

section \<open>Access\<close>

definition NotificationKindCommentReply :: string where "NotificationKindCommentReply = ''COMMENT_REPLY''"
definition NotificationKindIssueComment :: string where "NotificationKindIssueComment = ''ISSUE_COMMENT''"

definition notificationProjectAccessPredicate :: "db \<Rightarrow> id \<Rightarrow> user \<Rightarrow> bool" where
  "notificationProjectAccessPredicate d projectID u \<longleftrightarrow>
     usr_deployment_role u = DeploymentRoleAdmin \<or>
     exists_row (\<lambda>g. grn_project_id g = projectID \<and> grn_grantee_id g = usr_id u) (db_user_access d) \<or>
     exists_row (\<lambda>g. grn_project_id g = projectID \<and> (grn_grantee_id g, usr_id u) \<in> set (db_group_members d)) (db_group_access d)"

text \<open>An active user with access to a project that exists.\<close>

definition may_hear :: "db \<Rightarrow> id \<Rightarrow> id \<Rightarrow> bool" where
  "may_hear d projectID userID \<longleftrightarrow> exists_row (\<lambda>p. prj_id p = projectID) (db_projects d) \<and>
     exists_row (\<lambda>u. usr_id u = userID \<and> usr_status u = UserStatusActive \<and> notificationProjectAccessPredicate d projectID u) (db_users d)"

section \<open>Notifications of a comment\<close>

text \<open>The author of the comment that is answered comes with priority 2, subscribers with priority 1.\<close>

definition candidates :: "db \<Rightarrow> id \<Rightarrow> comment \<Rightarrow> (id \<times> int) list" where
  "candidates d projectID source =
     map (\<lambda>p. (cmt_author_id p, 2)) (filter (\<lambda>p. cmt_issue_id p = cmt_issue_id source \<and>
       Some (cmt_id p) = cmt_parent_comment_id source \<and> cmt_author_type p = ACT_HUMAN) (db_comments d)) @
     map (\<lambda>s. (sub_user_id s, 1)) (filter (\<lambda>s. sub_project_id s = projectID \<and> sub_issue_id s = cmt_issue_id source)
       (db_subscriptions d))"

definition priority_of :: "(id \<times> int) list \<Rightarrow> id \<Rightarrow> int" where
  "priority_of cs u = Max (snd ` set (filter (\<lambda>c. fst c = u) cs))"

definition recipients :: "db \<Rightarrow> id \<Rightarrow> comment \<Rightarrow> (id \<times> int) list" where
  "recipients d projectID source =
     (let cs = candidates d projectID source in
      map (\<lambda>u. (u, priority_of cs u))
        (filter (\<lambda>u. may_hear d projectID u \<and> \<not> (cmt_author_type source = ACT_HUMAN \<and> u = cmt_author_id source))
          (remdups (map fst cs))))"

definition notification_key :: "notification \<Rightarrow> notification \<Rightarrow> bool" where
  "notification_key a b \<longleftrightarrow> ntf_recipient_user_id a = ntf_recipient_user_id b \<and> ntf_source_comment_id a = ntf_source_comment_id b"

definition notification_check :: "db \<Rightarrow> notification \<Rightarrow> pg_error option" where
  "notification_check d n =
     (if ntf_kind n \<notin> {''COMMENT_REPLY'', ''ISSUE_COMMENT''} then Some CheckViolation
      else if exists_row (\<lambda>u. usr_id u = ntf_recipient_user_id n) (db_users d) \<and>
        exists_row (\<lambda>i. iss_project_id i = ntf_project_id n \<and> iss_id i = ntf_issue_id n) (db_issues d) \<and>
        exists_row (\<lambda>c. cmt_issue_id c = ntf_issue_id n \<and> cmt_id c = ntf_source_comment_id n) (db_comments d)
      then None else Some ForeignKeyViolation)"

text \<open>\<open>ON CONFLICT (recipient, comment) DO UPDATE\<close>: a reply outranks the kind that is there.\<close>

definition raise_kind :: "notification \<Rightarrow> notification \<Rightarrow> notification" where
  "raise_kind n old = (if ntf_kind n = NotificationKindCommentReply then old\<lparr>ntf_kind := ntf_kind n\<rparr> else old)"

definition upsert_notification :: "notification \<Rightarrow> (db, unit) tx" where
  "upsert_notification n = (\<lambda>d.
     if notification_check d n = None \<and> exists_row (\<lambda>old. notification_key old n) (db_notifications d)
     then (Inr (), db_notifications_update (update_rows (\<lambda>old. notification_key old n) (raise_kind n)) d)
     else tx_bind (sql_insert db_notifications db_notifications_update (\<lambda>a b. ntf_id a = ntf_id b \<or> notification_key a b)
            notification_check notFound n) (\<lambda>_. tx_return ()) d)"

definition notify_one :: "id \<Rightarrow> comment \<Rightarrow> id \<times> int \<Rightarrow> (db, unit) tx" where
  "notify_one projectID source r =
     tx_bind gen_random_uuid (\<lambda>uid.
     upsert_notification \<lparr>ntf_id = uid, ntf_recipient_user_id = fst r, ntf_project_id = projectID,
       ntf_issue_id = cmt_issue_id source, ntf_source_comment_id = cmt_id source,
       ntf_kind = (if snd r \<ge> 2 then NotificationKindCommentReply else NotificationKindIssueComment),
       ntf_created_at = cmt_created_at source, ntf_read_at = None\<rparr>)"

definition notification_source :: "db \<Rightarrow> id \<Rightarrow> id \<Rightarrow> comment option" where
  "notification_source d projectID commentID =
     List.find (\<lambda>c. cmt_id c = commentID \<and> exists_row (\<lambda>i. iss_id i = cmt_issue_id c \<and> iss_project_id i = projectID) (db_issues d))
       (db_comments d)"

definition notify_tx :: "id \<Rightarrow> id \<Rightarrow> (db, unit) tx" where
  "notify_tx projectID commentID =
     tx_bind (tx_get (\<lambda>d. notification_source d projectID commentID)) (\<lambda>found.
     case found of
       None \<Rightarrow> tx_return ()
     | Some source \<Rightarrow>
         tx_bind (tx_get (\<lambda>d. recipients d projectID source)) (\<lambda>rs.
         tx_bind (tx_map (notify_one projectID source) rs) (\<lambda>_. tx_return ())))"

definition CreateIssueCommentNotifications :: "id \<Rightarrow> id \<Rightarrow> time \<Rightarrow> db \<Rightarrow> (store_error + unit) \<times> db" where
  "CreateIssueCommentNotifications projectID commentID now d =
     (if any_blank [projectID, commentID] then (Inl ErrInvalidArgument, d) else run_tx now (notify_tx projectID commentID) d)"

section \<open>The inbox\<close>

record notification_view =
  nvw_row :: notification
  nvw_project_name :: string
  nvw_issue_key :: string
  nvw_issue_title :: string
  nvw_comment :: "comment option"
  nvw_author_name :: string
  nvw_preview :: string

definition in_inbox :: "db \<Rightarrow> id \<Rightarrow> notification \<Rightarrow> bool" where
  "in_inbox d userID n \<longleftrightarrow> ntf_recipient_user_id n = userID \<and> may_hear d (ntf_project_id n) userID"

text \<open>The name of the author is read without regard to the project; the shortening of the body is the database's.\<close>

definition notification_view_of :: "(string \<Rightarrow> string) \<Rightarrow> db \<Rightarrow> notification \<Rightarrow> notification_view option" where
  "notification_view_of shorten d n =
     (case (List.find (\<lambda>p. prj_id p = ntf_project_id n) (db_projects d),
            List.find (\<lambda>i. iss_project_id i = ntf_project_id n \<and> iss_id i = ntf_issue_id n) (db_issues d)) of
        (Some p, Some i) \<Rightarrow>
          (let c = List.find (\<lambda>c. cmt_issue_id c = ntf_issue_id n \<and> cmt_id c = ntf_source_comment_id n) (db_comments d) in
           Some \<lparr>nvw_row = n, nvw_project_name = prj_name p, nvw_issue_key = FormatIssueKey (prj_issue_prefix p) (iss_number i),
             nvw_issue_title = iss_title i, nvw_comment = c,
             nvw_author_name = or_empty (case c of None \<Rightarrow> None
               | Some c \<Rightarrow> (case cmt_author_type c of
                   ACT_HUMAN \<Rightarrow> user_name d (cmt_author_id c)
                 | ACT_AGENT \<Rightarrow> map_option agt_name (List.find (\<lambda>a. agt_id a = cmt_author_id c) (db_agents d))
                 | ACT_SYSTEM \<Rightarrow> None)),
             nvw_preview = (case c of None \<Rightarrow> shorten []
               | Some c \<Rightarrow> if cmt_deleted_at c \<noteq> None then ''Comment deleted'' else shorten (body_text c))\<rparr>)
      | _ \<Rightarrow> None)"

definition ListUserNotifications :: "(string \<Rightarrow> string) \<Rightarrow> id \<Rightarrow> (db, notification_view list \<times> nat) tx" where
  "ListUserNotifications shorten userID =
     (if TrimSpace userID = [] then tx_fail ErrInvalidArgument
      else tx_get (\<lambda>d.
        let page = List.map_filter (notification_view_of shorten d)
              (rev (sort_key (\<lambda>n. (ntf_created_at n, ntf_id n)) (filter (in_inbox d userID) (db_notifications d)))) in
        (page, length (filter (\<lambda>v. ntf_read_at (nvw_row v) = None) page))))"

definition SetNotificationRead :: "id \<Rightarrow> id \<Rightarrow> bool \<Rightarrow> time \<Rightarrow> db \<Rightarrow> (store_error + unit) \<times> db" where
  "SetNotificationRead userID notificationID read now d =
     (if any_blank [userID, notificationID] then (Inl ErrInvalidArgument, d)
      else run_tx now (
        tx_bind (sql_update db_notifications db_notifications_update (\<lambda>d n. ntf_id n = notificationID \<and> in_inbox d userID n)
          (\<lambda>d n. n\<lparr>ntf_read_at := (if read then coalesce_time (ntf_read_at n) (db_now d) else None)\<rparr>)) (\<lambda>affected.
        tx_guard (affected = 1) ErrNotFound)) d)"

definition MarkAllNotificationsRead :: "id \<Rightarrow> time \<Rightarrow> db \<Rightarrow> (store_error + nat) \<times> db" where
  "MarkAllNotificationsRead userID now d =
     (if TrimSpace userID = [] then (Inl ErrInvalidArgument, d)
      else run_tx now (sql_update db_notifications db_notifications_update (\<lambda>d n. in_inbox d userID n \<and> ntf_read_at n = None)
        (\<lambda>d n. n\<lparr>ntf_read_at := Some (db_now d)\<rparr>)) d)"

section \<open>Subscriptions\<close>

definition may_follow :: "db \<Rightarrow> id \<Rightarrow> id \<Rightarrow> id \<Rightarrow> bool" where
  "may_follow d projectID issueID userID \<longleftrightarrow>
     exists_row (\<lambda>i. iss_project_id i = projectID \<and> iss_id i = issueID) (db_issues d) \<and> may_hear d projectID userID"

definition GetIssueSubscription :: "id \<Rightarrow> id \<Rightarrow> id \<Rightarrow> (db, bool) tx" where
  "GetIssueSubscription projectID issueID userID =
     (if any_blank [projectID, issueID, userID] then tx_fail ErrInvalidArgument
      else
        tx_bind (tx_get (\<lambda>d. may_follow d projectID issueID userID)) (\<lambda>found.
        tx_bind (tx_guard found ErrNotFound) (\<lambda>_.
        sql_exists db_subscriptions (\<lambda>d s. sub_project_id s = projectID \<and> sub_issue_id s = issueID \<and> sub_user_id s = userID))))"

definition subscription_key :: "subscription \<Rightarrow> subscription \<Rightarrow> bool" where
  "subscription_key a b \<longleftrightarrow> sub_issue_id a = sub_issue_id b \<and> sub_user_id a = sub_user_id b"

definition subscription_check :: "db \<Rightarrow> subscription \<Rightarrow> pg_error option" where
  "subscription_check d s =
     (if exists_row (\<lambda>u. usr_id u = sub_user_id s) (db_users d) \<and>
         exists_row (\<lambda>i. iss_project_id i = sub_project_id s \<and> iss_id i = sub_issue_id s) (db_issues d)
      then None else Some ForeignKeyViolation)"

definition subscribe_tx :: "id \<Rightarrow> id \<Rightarrow> id \<Rightarrow> bool \<Rightarrow> (db, unit) tx" where
  "subscribe_tx projectID issueID userID subscribed =
     tx_bind (tx_get (\<lambda>d. may_follow d projectID issueID userID)) (\<lambda>allowed.
     tx_bind (tx_guard allowed ErrNotFound) (\<lambda>_.
     if subscribed
     then tx_bind (sql_insert_unless db_subscriptions db_subscriptions_update subscription_key subscription_key subscription_check notFound
            \<lparr>sub_project_id = projectID, sub_issue_id = issueID, sub_user_id = userID\<rparr>) (\<lambda>_. tx_return ())
     else tx_bind (sql_delete db_subscriptions db_subscriptions_update (\<lambda>d s. sub_issue_id s = issueID \<and> sub_user_id s = userID))
            (\<lambda>_. tx_return ())))"

definition SetIssueSubscription :: "id \<Rightarrow> id \<Rightarrow> id \<Rightarrow> bool \<Rightarrow> time \<Rightarrow> db \<Rightarrow> (store_error + unit) \<times> db" where
  "SetIssueSubscription projectID issueID userID subscribed now d =
     (if any_blank [projectID, issueID, userID] then (Inl ErrInvalidArgument, d)
      else run_tx now (subscribe_tx projectID issueID userID subscribed) d)"

end
