(* ===== verification/Identity_Steps.thy ===== *)
theory Identity_Steps
  imports Project_Access
begin

text \<open>
  The operations on users, credentials, groups and grants as steps of the database. A relation that the
  statements of these operations keep is kept by every step (locale \<open>identity_frame\<close>); its interpretations give the
  invariants: the execution core is not touched, a refresh token that was rotated away never comes back, a password
  token works once, and projects and the deployment keep an administrator.
\<close>

section \<open>Steps\<close>

inductive identity_step :: "db \<Rightarrow> db \<Rightarrow> bool" where
  bootstrap: "BootstrapUser input now d = (r1, d') \<Longrightarrow> identity_step d d'"
| create_user: "CreateUser input now d = (r2, d') \<Longrightarrow> identity_step d d'"
| create_pending: "CreatePendingUserWithSetupToken input purpose hash expiresAt now d = (r3, d') \<Longrightarrow> identity_step d d'"
| update_identity: "UpdateUserIdentity userID username email displayName now d = (r4, d') \<Longrightarrow> identity_step d d'"
| set_status: "setUserStatus userID status derive now d = (r5, d') \<Longrightarrow> identity_step d d'"
| set_password: "setUserPassword userID version passwordHash force now d = (r6, d') \<Longrightarrow> identity_step d d'"
| create_session: "CreateAuthSession userID hash expiresAt now d = (r7, d') \<Longrightarrow> identity_step d d'"
| rotate: "RotateAuthSession sessionID oldHash newHash expiresAt clock now d = (r8, d') \<Longrightarrow> identity_step d d'"
| revoke_by_hash: "RevokeAuthSessionByRefreshHash hash clock now d = (r9, d') \<Longrightarrow> identity_step d d'"
| revoke_user: "RevokeUserAuthSessions userID clock now d = (r10, d') \<Longrightarrow> identity_step d d'"
| revoke_session: "RevokeAuthSession userID sessionID clock now d = (r11, d') \<Longrightarrow> identity_step d d'"
| revoke_others: "RevokeOtherAuthSessions userID sessionID clock now d = (r12, d') \<Longrightarrow> identity_step d d'"
| create_token: "CreatePasswordToken userID purpose hash expiresAt now d = (r13, d') \<Longrightarrow> identity_step d d'"
| complete_token: "CompletePasswordToken hash purpose passwordHash clock now d = (r14, d') \<Longrightarrow> identity_step d d'"
| settings: "UpdateAuthSettings access refresh policy now d = (r15, d') \<Longrightarrow> identity_step d d'"
| grant_user: "UpsertProjectUserAccess grant now d = (r16, d') \<Longrightarrow> identity_step d d'"
| withdraw_user: "DeleteProjectUserAccess projectID userID now d = (r17, d') \<Longrightarrow> identity_step d d'"
| grant_group: "UpsertProjectGroupAccess grant now d = (r18, d') \<Longrightarrow> identity_step d d'"
| withdraw_group: "DeleteProjectGroupAccess projectID groupID now d = (r19, d') \<Longrightarrow> identity_step d d'"
| create_group: "CreateGroup name now d = (r20, d') \<Longrightarrow> identity_step d d'"
| update_group: "UpdateGroup groupID name now d = (r21, d') \<Longrightarrow> identity_step d d'"
| delete_group: "DeleteGroup groupID now d = (r22, d') \<Longrightarrow> identity_step d d'"
| add_member: "AddGroupMember groupID userID now d = (r23, d') \<Longrightarrow> identity_step d d'"
| remove_member: "RemoveGroupMember groupID userID now d = (r24, d') \<Longrightarrow> identity_step d d'"
| create_project: "CreateProject project allow now d = (r25, d') \<Longrightarrow> identity_step d d'"
| create_project_admin: "CreateProjectWithAdmin project allow userID now d = (r26, d') \<Longrightarrow> identity_step d d'"

section \<open>Frames of these steps\<close>

context tx_frame
begin

lemma keeps_checked: "(\<And>g s. R s (upd g s)) \<Longrightarrow> tx_keeps R (sql_update_checked rows upd uq ok p f)"
  by (rule tx_keepsI) (auto simp: tx_simps)

lemma keeps_all: "(\<And>g s. R s (upd g s)) \<Longrightarrow> tx_keeps R (sql_update_all rows upd ok err p f)"
  by (rule tx_keepsI) (auto simp: tx_simps)

end

locale identity_frame = db_frame R for R :: "db \<Rightarrow> db \<Rightarrow> bool" +
  assumes keeps_new_user: "tx_keeps R (sql_insert db_users db_users_update user_unique user_check notFound (new_user uid input at))"
    and keeps_identity_row: "tx_keeps R (sql_update_checked db_users db_users_update user_unique user_check (\<lambda>d u. usr_id u = userID)
      (\<lambda>d u. u\<lparr>usr_username := username, usr_email := email, usr_display_name := displayName, usr_updated_at := db_now d\<rparr>))"
    and keeps_password_row: "tx_keeps R (sql_update_checked db_users db_users_update user_unique user_check
      (\<lambda>d u. usr_id u = userID \<and> q u) (\<lambda>d. with_password passwordHash force (db_now d)))"
    and keeps_completed: "tx_keeps R (sql_update_checked db_users db_users_update user_unique user_check
      (\<lambda>d u. usr_id u = userID \<and> (purpose = PasswordTokenPurposeSetup \<longrightarrow> usr_status u = UserStatusPending))
      (\<lambda>d. completed_user purpose passwordHash clock))"
    and keeps_status: "tx_keeps R (set_status_user_tx userID status derive)"
    and keeps_revoked: "tx_keeps R (sql_update_all db_auth_sessions db_auth_sessions_update session_check err ps
      (\<lambda>d s. s\<lparr>ase_revoked_at := Some (time_of d)\<rparr>))"
    and keeps_create_session: "CreateAuthSession userID hash expiresAt now d = (Inr v, d') \<Longrightarrow> R d d'"
    and keeps_rotate: "tx_keeps R (rotate_tx sessionID oldHash newHash expiresAt clock)"
    and keeps_revoked_tokens: "tx_keeps R (sql_update_all db_password_tokens db_password_tokens_update password_token_check err pt
      (\<lambda>d t. t\<lparr>pwt_revoked_at := Some (db_now d)\<rparr>))"
    and keeps_consume: "tx_keeps R (consume_token hash purpose clock)"
    and keeps_new_token: "tx_keeps R (sql_insert db_password_tokens db_password_tokens_update password_token_unique
      password_token_check notFound (new_password_token tid userID purpose hash expiresAt at))"
    and keeps_settings: "R d (db_auth_settings_update gs d)"
    and keeps_groups: "R d (db_groups_update gg d)"
    and keeps_members: "R d (db_group_members_update gm d)"
    and keeps_group_access: "R d (db_group_access_update ga d)"
    and keeps_projects: "tx_keeps R (sql_insert db_projects db_projects_update (project_unique lower) project_check notFound prj)"
    and keeps_grant: "tx_keeps R (sql_insert db_user_access db_user_access_update same_grant (grant_check known_user) notFound g)"
    and keeps_upsert_user: "UpsertProjectUserAccess g now d = (Inr v1, d') \<Longrightarrow> R d d'"
    and keeps_withdraw_user: "DeleteProjectUserAccess projectID userID now d = (Inr v2, d') \<Longrightarrow> R d d'"
begin

lemmas keeps_tables = keeps_writes [of db_groups_update, OF keeps_groups] keeps_writes [of db_group_members_update, OF keeps_members]
  keeps_writes [of db_group_access_update, OF keeps_group_access] keeps_checked [of db_groups_update, OF keeps_groups]
  keeps_checked [of db_auth_settings_update, OF keeps_settings]

lemma keeps_try_password: "tx_keeps R (tx_try (sql_update_checked db_users db_users_update user_unique user_check
      (\<lambda>d u. usr_id u = userID \<and> q u) (\<lambda>d. with_password passwordHash force (db_now d))))"
  by (rule keeps_try [OF keeps_password_row]) (auto simp: sql_update_checked_def split: option.splits if_splits)

lemma keeps_insert_user: "tx_keeps R (insertUser input)"
  unfolding insertUser_def by (intro keeps_intros keeps_uuid keeps_new_user)

lemma keeps_insert_token: "tx_keeps R (insert_password_token userID purpose hash expiresAt)"
  unfolding insert_password_token_def by (intro keeps_intros keeps_uuid keeps_new_token)

lemma keeps_insert_project: "tx_keeps R (insert_project input prefix allow)"
  unfolding insert_project_def by (intro keeps_intros keeps_uuid keeps_projects)

lemma keeps_set_password: "tx_keeps R (set_password_tx userID version passwordHash force)"
  unfolding set_password_tx_def password_row_def revoke_sessions_def revokeOutstandingPasswordTokens_def
  by (intro keeps_intros keeps_try_password keeps_revoked keeps_revoked_tokens keeps_password_row [where q = "\<lambda>_. True", simplified])

lemma keeps_complete: "tx_keeps R (complete_token_tx hash purpose passwordHash clock)"
  unfolding complete_token_tx_def revoke_sessions_def revokeOutstandingPasswordTokens_def
  by (intro keeps_intros keeps_consume keeps_completed keeps_revoked keeps_revoked_tokens)

lemma keeps_upsert_group: "tx_keeps R (upsert_grant db_group_access db_group_access_update known g)"
  by (rule tx_keepsI) (auto simp: upsert_grant_def keeps_group_access split: option.splits if_splits)

lemma keeps_create_with_admin: "tx_keeps R (create_with_admin_tx input prefix allow userID)"
  unfolding create_with_admin_tx_def by (intro keeps_intros keeps_insert_project keeps_grant)

lemma failed_run_tx: "run_tx now m d = (Inl e, d') \<Longrightarrow> R d d'"
  by (simp add: run_tx_Inl refl)

end

context identity_frame
begin

lemma keeps_identity_step: "identity_step d d' \<Longrightarrow> R d d'"
proof (induction rule: identity_step.induct)
  case (bootstrap input now d r1 d')
  then show ?case unfolding BootstrapUser_def ensureLoginIdentifiersAvailable_def
    by (elim keeps_run_tx [rotated]) (intro keeps_intros keeps_insert_user)
next
  case (create_user input now d r2 d')
  then show ?case unfolding CreateUser_def ensureLoginIdentifiersAvailable_def
    by (elim keeps_run_tx [rotated]) (intro keeps_intros keeps_insert_user)
next
  case (create_pending input purpose hash expiresAt now d r3 d')
  then show ?case unfolding CreatePendingUserWithSetupToken_def ensureLoginIdentifiersAvailable_def
    by (elim keeps_run_tx [rotated]) (intro keeps_intros keeps_insert_user keeps_insert_token)
next
  case (update_identity userID username email displayName now d r4 d')
  then show ?case unfolding UpdateUserIdentity_def identity_collision_def
    by (elim keeps_run_tx [rotated]) (intro keeps_intros keeps_identity_row)
next
  case (set_status userID status derive now d r5 d')
  then show ?case unfolding setUserStatus_def by (elim keeps_run_tx [rotated]) (rule keeps_status)
next
  case (set_password userID version passwordHash force now d r6 d')
  then show ?case unfolding setUserPassword_def by (elim keeps_run_tx [rotated]) (rule keeps_set_password)
next
  case (create_session userID hash expiresAt now d r7 d')
  then show ?case using keeps_create_session failed_run_tx unfolding CreateAuthSession_def by (cases r7) blast+
next
  case (rotate sessionID oldHash newHash expiresAt clock now d r8 d')
  then show ?case unfolding RotateAuthSession_def by (elim keeps_run_tx [rotated]) (rule keeps_rotate)
next
  case (revoke_by_hash hash clock now d r9 d')
  then show ?case unfolding RevokeAuthSessionByRefreshHash_def by (elim keeps_run_tx [rotated]) (intro keeps_intros keeps_revoked)
next
  case (revoke_user userID clock now d r10 d')
  then show ?case unfolding RevokeUserAuthSessions_def revoke_sessions_def by (elim keeps_run_tx [rotated]) (rule keeps_revoked)
next
  case (revoke_session userID sessionID clock now d r11 d')
  then show ?case unfolding RevokeAuthSession_def by (elim keeps_run_tx [rotated]) (intro keeps_intros keeps_revoked)
next
  case (revoke_others userID sessionID clock now d r12 d')
  then show ?case unfolding RevokeOtherAuthSessions_def by (elim keeps_run_tx [rotated]) (rule keeps_revoked)
next
  case (create_token userID purpose hash expiresAt now d r13 d')
  then show ?case unfolding CreatePasswordToken_def
    by (elim keeps_run_tx [rotated]) (intro keeps_intros keeps_revoked_tokens keeps_insert_token)
next
  case (complete_token hash purpose passwordHash clock now d r14 d')
  then show ?case unfolding CompletePasswordToken_def by (elim keeps_run_tx [rotated]) (rule keeps_complete)
next
  case (settings access refresh policy now d r15 d')
  then show ?case unfolding UpdateAuthSettings_def Let_def by (elim keeps_run_tx [rotated]) (intro keeps_intros keeps_tables)
next
  case (grant_user grant now d r16 d')
  then show ?case using keeps_upsert_user failed_run_tx refl unfolding UpsertProjectUserAccess_def
    by (cases r16) (auto split: if_splits)
next
  case (withdraw_user projectID userID now d r17 d')
  then show ?case using keeps_withdraw_user failed_run_tx unfolding DeleteProjectUserAccess_def by (cases r17) blast+
next
  case (grant_group grant now d r18 d')
  then show ?case using refl unfolding UpsertProjectGroupAccess_def
    by (auto split: if_splits elim: keeps_run_tx [OF keeps_upsert_group])
next
  case (withdraw_group projectID groupID now d r19 d')
  then show ?case unfolding DeleteProjectGroupAccess_def by (elim keeps_run_tx [rotated]) (intro keeps_intros keeps_tables)
next
  case (create_group name now d r20 d')
  then show ?case unfolding CreateGroup_def by (elim keeps_run_tx [rotated]) (intro keeps_intros keeps_uuid keeps_tables)
next
  case (update_group groupID name now d r21 d')
  then show ?case unfolding UpdateGroup_def by (elim keeps_run_tx [rotated]) (intro keeps_tables)
next
  case (delete_group groupID now d r22 d')
  then show ?case unfolding DeleteGroup_def by (elim keeps_run_tx [rotated]) (intro keeps_intros keeps_tables)
next
  case (add_member groupID userID now d r23 d')
  then show ?case unfolding AddGroupMember_def by (elim keeps_run_tx [rotated]) (intro keeps_intros keeps_tables)
next
  case (remove_member groupID userID now d r24 d')
  then show ?case unfolding RemoveGroupMember_def by (elim keeps_run_tx [rotated]) (intro keeps_intros keeps_tables)
next
  case (create_project project allow now d r25 d')
  then show ?case using refl unfolding CreateProject_def Let_def
    by (auto split: if_splits elim: keeps_run_tx [OF keeps_insert_project])
next
  case (create_project_admin project allow userID now d r26 d')
  then show ?case using refl unfolding CreateProjectWithAdmin_def Let_def
    by (auto split: if_splits elim: keeps_run_tx [OF keeps_create_with_admin])
qed

lemma keeps_identity_steps: "identity_step\<^sup>*\<^sup>* d d' \<Longrightarrow> R d d'"
  by (induction rule: rtranclp_induct) (auto intro: refl trans keeps_identity_step)

end

text \<open>The execution core is not touched.\<close>

definition apart :: "db \<Rightarrow> db \<Rightarrow> bool" where
  "apart d d' \<longleftrightarrow> (\<exists>now n ps idn. d' = d\<lparr>db_now := now, db_uuid_next := n, db_projects := ps, db_identity := idn\<rparr>)"

lemma apart_identity: "apart d (db_identity_update f d)" "apart d (db_projects_update g d)"
  unfolding apart_def by (cases d; simp)+

interpretation apart: db_frame apart
proof
  show "apart d d" for d unfolding apart_def by (cases d) simp
  show "apart a c" if "apart a b" "apart b c" for a b c using that unfolding apart_def by (cases a) auto
  show "apart d (d\<lparr>db_now := t\<rparr>)" "apart d (d\<lparr>db_uuid_next := n\<rparr>)" for d t n unfolding apart_def by (cases d; simp)+
qed

lemmas apart_rules = apart.keeps_intros apart.keeps_uuid
  apart.keeps_writes [of "\<lambda>f. db_identity_update (h f)" for h, OF apart_identity(1)]
  apart.keeps_checked [of "\<lambda>f. db_identity_update (h f)" for h, OF apart_identity(1)]
  apart.keeps_all [of "\<lambda>f. db_identity_update (h f)" for h, OF apart_identity(1)]
  apart.keeps_writes [of db_projects_update, OF apart_identity(2)]

lemma apart_upsert: "tx_keeps apart (upsert_grant rows (\<lambda>f. db_identity_update (h f)) known g)"
  by (rule tx_keepsI) (auto simp: upsert_grant_def apart_identity split: option.splits if_splits)

interpretation apart: identity_frame apart
proof
  show "tx_keeps apart (set_status_user_tx userID status derive)" for userID status derive
    unfolding set_status_user_tx_def keep_project_admins_def userIsSoleActiveDirectAdmin_def keep_deployment_admin_def revoke_sessions_def Let_def
    by (intro apart_rules)
  show "apart d d'" if "CreateAuthSession userID hash expiresAt now d = (Inr v, d')" for userID hash expiresAt now d v d'
    using that unfolding CreateAuthSession_def remember_hash_def by (elim apart.keeps_run_tx [rotated]) (intro apart_rules)
  show "apart d d'" if "UpsertProjectUserAccess g now d = (Inr v1, d')" for g now d v1 d'
    using that unfolding UpsertProjectUserAccess_def ensureActiveDirectProjectAdmin_def
    by (auto split: if_splits elim!: apart.keeps_run_tx [rotated] intro!: apart_rules apart_upsert)
  show "apart d d'" if "DeleteProjectUserAccess projectID userID now d = (Inr v2, d')" for projectID userID now d v2 d'
    using that unfolding DeleteProjectUserAccess_def ensureActiveDirectProjectAdmin_def
    by (elim apart.keeps_run_tx [rotated]) (intro apart_rules)
qed (unfold rotate_tx_def remember_hash_def consume_token_def, (intro apart_rules apart_identity)+)

section \<open>Refresh tokens\<close>

text \<open>The current hash of a session is among the hashes it had, and no hash is there twice.\<close>

definition hashes_wf :: "db \<Rightarrow> bool" where
  "hashes_wf d \<longleftrightarrow> distinct (map snd (db_refresh_tokens d)) \<and> distinct (map ase_id (db_auth_sessions d)) \<and>
     (\<forall>s\<in>set (db_auth_sessions d). (ase_id s, ase_refresh_token_hash s) \<in> set (db_refresh_tokens d))"

definition retired :: "string \<Rightarrow> db \<Rightarrow> bool" where
  "retired h d \<longleftrightarrow> h \<in> snd ` set (db_refresh_tokens d) \<and> (\<forall>s\<in>set (db_auth_sessions d). ase_refresh_token_hash s \<noteq> h)"

definition stays_retired :: "string \<Rightarrow> db \<Rightarrow> db \<Rightarrow> bool" where
  "stays_retired h d d' \<longleftrightarrow> (hashes_wf d \<longrightarrow> hashes_wf d' \<and> (retired h d \<longrightarrow> retired h d'))"

lemma stays_retired_same:
  assumes "db_refresh_tokens d' = db_refresh_tokens d" "db_auth_sessions d' = db_auth_sessions d"
  shows "stays_retired h d d'"
  using assms by (simp add: stays_retired_def hashes_wf_def retired_def)

lemma stays_retired_revoked: "stays_retired h d (db_auth_sessions_update (update_rows p (\<lambda>s. s\<lparr>ase_revoked_at := t\<rparr>)) d)"
  by (auto simp: stays_retired_def hashes_wf_def retired_def map_update_rows) (auto simp: update_rows_def)

interpretation retired: db_frame "stays_retired h" for h
proof
  show "stays_retired h d d" for d by (rule stays_retired_same) simp_all
  show "stays_retired h a c" if "stays_retired h a b" "stays_retired h b c" for a b c using that by (simp add: stays_retired_def)
  show "stays_retired h d (d\<lparr>db_now := t\<rparr>)" "stays_retired h d (d\<lparr>db_uuid_next := n\<rparr>)" for d t n by (rule stays_retired_same; simp)+
qed

lemma rotate_Inr:
  assumes "rotate_tx sid old new expiresAt clock d = (Inr v, d')"
  obtains s where "s \<in> set (db_auth_sessions d)" "ase_id s = sid" "ase_refresh_token_hash s = old" "ase_revoked_at s = None"
    "clock < ase_expires_at s" "\<forall>t\<in>set (db_refresh_tokens d). snd t \<noteq> new"
    "db_auth_sessions d' = update_rows (\<lambda>s. ase_id s = sid \<and> ase_refresh_token_hash s = old \<and> ase_revoked_at s = None \<and> clock < ase_expires_at s)
      (\<lambda>s. s\<lparr>ase_refresh_token_hash := new, ase_expires_at := expiresAt, ase_last_used_at := Some clock\<rparr>) (db_auth_sessions d)"
    "db_refresh_tokens d' = db_refresh_tokens d @ [(sid, new)]"
  using assms unfolding rotate_tx_def remember_hash_def
  by (auto simp: tx_simps refresh_unique_def dest!: find_Some_in)

lemma stays_retired_rotate: "tx_keeps (stays_retired h) (rotate_tx sid old new expiresAt clock)"
proof (rule tx_keepsI)
  fix d v d' assume "rotate_tx sid old new expiresAt clock d = (Inr v, d')"
  then obtain f p where new: "\<forall>t\<in>set (db_refresh_tokens d). snd t \<noteq> new"
    and d': "db_auth_sessions d' = update_rows p f (db_auth_sessions d)" "db_refresh_tokens d' = db_refresh_tokens d @ [(sid, new)]"
    and f: "\<And>s. p s \<Longrightarrow> ase_id s = sid" "\<And>s. ase_id (f s) = ase_id s" "\<And>s. ase_refresh_token_hash (f s) = new"
    by (rule rotate_Inr) auto
  have "map ase_id (db_auth_sessions d') = map ase_id (db_auth_sessions d)" unfolding d' by (rule map_update_rows) (rule f(2))
  moreover have "set (db_auth_sessions d') = (\<lambda>s. if p s then f s else s) ` set (db_auth_sessions d)"
    unfolding d' by (simp add: update_rows_def)
  ultimately show "stays_retired h d d'"
    using new d'(2) f unfolding stays_retired_def hashes_wf_def retired_def by auto
qed

lemma stays_retired_create:
  assumes "CreateAuthSession userID hash expiresAt now d = (Inr v, d')"
  shows "stays_retired h d d'"
proof -
  obtain sid where "db_auth_sessions d' = db_auth_sessions d @ [new_session sid userID hash expiresAt now]"
    "db_refresh_tokens d' = db_refresh_tokens d @ [(sid, hash)]" "hash \<notin> snd ` set (db_refresh_tokens d)"
    "\<forall>s\<in>set (db_auth_sessions d). ase_id s \<noteq> sid"
    using assms unfolding CreateAuthSession_def remember_hash_def
    by (auto simp: tx_simps gen_random_uuid_def refresh_unique_def session_unique_def new_session_def image_iff)
  then show ?thesis by (auto simp: stays_retired_def hashes_wf_def retired_def new_session_def)
qed

lemmas retired_rules = retired.keeps_intros retired.keeps_uuid

lemma retired_revoked: "tx_keeps (stays_retired h) (sql_update_all db_auth_sessions db_auth_sessions_update session_check err p
    (\<lambda>d s. s\<lparr>ase_revoked_at := Some (t d)\<rparr>))"
  by (rule tx_keepsI) (auto simp: tx_simps stays_retired_revoked)

lemma retired_upsert: "tx_keeps (stays_retired h) (upsert_grant db_user_access db_user_access_update known g)"
  by (rule tx_keepsI) (auto simp: upsert_grant_def intro: stays_retired_same split: option.splits if_splits)

interpretation retired: identity_frame "stays_retired h" for h
proof
  show "tx_keeps (stays_retired h) (set_status_user_tx userID status derive)" for userID status derive
    unfolding set_status_user_tx_def keep_project_admins_def userIsSoleActiveDirectAdmin_def keep_deployment_admin_def revoke_sessions_def Let_def
    by (intro retired_rules retired_revoked retired.keeps_checked) (simp add: stays_retired_same)
  show "stays_retired h d d'" if "UpsertProjectUserAccess g now d = (Inr v1, d')" for g now d v1 d'
    using that unfolding UpsertProjectUserAccess_def ensureActiveDirectProjectAdmin_def
    by (auto split: if_splits elim!: retired.keeps_run_tx [rotated] intro!: retired_rules retired_upsert)
  show "stays_retired h d d'" if "DeleteProjectUserAccess projectID userID now d = (Inr v2, d')" for projectID userID now d v2 d'
    using that unfolding DeleteProjectUserAccess_def ensureActiveDirectProjectAdmin_def
    by (elim retired.keeps_run_tx [rotated]) (intro retired_rules retired.keeps_writes(3), simp add: stays_retired_same)
qed (unfold consume_token_def, (intro stays_retired_rotate stays_retired_create retired_revoked retired.keeps_writes(4) retired.keeps_checked
    retired.keeps_all stays_retired_same; simp add: stays_retired_same)+)

lemma rotation_retires:
  assumes "RotateAuthSession sid old new expiresAt clock now d = (Inr v, d')" "hashes_wf d"
  shows "retired old d'" "hashes_wf d'"
proof -
  have run: "rotate_tx sid old new expiresAt clock (d\<lparr>db_now := now\<rparr>) = (Inr v, d')"
    using assms(1) by (simp add: RotateAuthSession_def tx_simps)
  show "hashes_wf d'"
    using tx_keepsD [OF stays_retired_rotate run, of old] assms(2) by (simp add: stays_retired_def hashes_wf_def)
  from run show "retired old d'"
  proof (rule rotate_Inr)
    fix s assume s: "s \<in> set (db_auth_sessions (d\<lparr>db_now := now\<rparr>))" "ase_id s = sid" "ase_refresh_token_hash s = old" "ase_revoked_at s = None"
      "clock < ase_expires_at s" and new: "\<forall>t\<in>set (db_refresh_tokens (d\<lparr>db_now := now\<rparr>)). snd t \<noteq> new"
      and d': "db_auth_sessions d' = update_rows (\<lambda>s. ase_id s = sid \<and> ase_refresh_token_hash s = old \<and> ase_revoked_at s = None \<and> clock < ase_expires_at s)
        (\<lambda>s. s\<lparr>ase_refresh_token_hash := new, ase_expires_at := expiresAt, ase_last_used_at := Some clock\<rparr>) (db_auth_sessions (d\<lparr>db_now := now\<rparr>))"
        "db_refresh_tokens d' = db_refresh_tokens (d\<lparr>db_now := now\<rparr>) @ [(sid, new)]"
    have old: "(sid, old) \<in> set (db_refresh_tokens d)" using s assms(2) by (auto simp: hashes_wf_def)
    have "t = s" if "t \<in> set (db_auth_sessions d)" "ase_refresh_token_hash t = old" for t
    proof -
      have "(ase_id t, old) \<in> set (db_refresh_tokens d)" using that assms(2) by (auto simp: hashes_wf_def)
      then have "ase_id t = sid" using old assms(2) distinct_key_eq [of snd "db_refresh_tokens d"] by (force simp: hashes_wf_def)
      then show ?thesis using that s assms(2) by (auto simp: hashes_wf_def intro: distinct_key_eq [of ase_id])
    qed
    then show ?thesis using s new old unfolding retired_def by (force simp: d' update_rows_def)
  qed
qed

section \<open>Password tokens\<close>

definition spent :: "string \<Rightarrow> db \<Rightarrow> bool" where
  "spent h d \<longleftrightarrow> h \<in> pwt_token_hash ` set (db_password_tokens d) \<and>
     (\<forall>t\<in>set (db_password_tokens d). pwt_token_hash t = h \<longrightarrow> \<not> token_open t)"

definition tokens_wf :: "db \<Rightarrow> bool" where
  "tokens_wf d \<longleftrightarrow> distinct (map pwt_token_hash (db_password_tokens d))"

definition stays_spent :: "string \<Rightarrow> db \<Rightarrow> db \<Rightarrow> bool" where
  "stays_spent h d d' \<longleftrightarrow> (tokens_wf d \<longrightarrow> tokens_wf d') \<and> (spent h d \<longrightarrow> spent h d')"

lemma stays_spent_same: "db_password_tokens d' = db_password_tokens d \<Longrightarrow> stays_spent h d d'"
  by (simp add: stays_spent_def spent_def tokens_wf_def)

lemma stays_spent_update:
  assumes "db_password_tokens d' = update_rows p f (db_password_tokens d)"
    and "\<And>t. pwt_token_hash (f t) = pwt_token_hash t" "\<And>t. \<not> token_open (f t)"
  shows "stays_spent h d d'"
proof -
  have "map pwt_token_hash (db_password_tokens d') = map pwt_token_hash (db_password_tokens d)"
    unfolding assms(1) by (rule map_update_rows) (rule assms(2))
  moreover from this have "pwt_token_hash ` set (db_password_tokens d') = pwt_token_hash ` set (db_password_tokens d)" by (metis set_map)
  moreover have "t \<in> set (db_password_tokens d)" if "t \<in> set (db_password_tokens d')" "token_open t" for t
    using that assms(3) unfolding assms(1) by (auto simp: update_rows_def split: if_splits)
  ultimately show ?thesis by (auto simp: stays_spent_def tokens_wf_def spent_def)
qed

interpretation spent: db_frame "stays_spent h" for h
proof
  show "stays_spent h d d" for d by (rule stays_spent_same) simp
  show "stays_spent h a c" if "stays_spent h a b" "stays_spent h b c" for a b c using that by (simp add: stays_spent_def)
  show "stays_spent h d (d\<lparr>db_now := t\<rparr>)" "stays_spent h d (d\<lparr>db_uuid_next := n\<rparr>)" for d t n by (rule stays_spent_same; simp)+
qed

lemmas spent_rules = spent.keeps_intros spent.keeps_uuid spent.keeps_writes(3,4) spent.keeps_checked spent.keeps_all

lemma spent_revoked: "tx_keeps (stays_spent h) (sql_update_all db_password_tokens db_password_tokens_update password_token_check err p
    (\<lambda>d t. t\<lparr>pwt_revoked_at := Some (at d)\<rparr>))"
  by (rule tx_keepsI) (auto simp: tx_simps token_open_def intro!: stays_spent_update)

lemma spent_consume: "tx_keeps (stays_spent h) (consume_token hash purpose clock)"
  unfolding consume_token_def by (rule tx_keepsI) (auto simp: tx_simps token_open_def intro!: stays_spent_update)

lemma spent_new: "tx_keeps (stays_spent h) (sql_insert db_password_tokens db_password_tokens_update password_token_unique
    password_token_check notFound (new_password_token tid userID purpose hash expiresAt at))"
  by (rule tx_keepsI)
    (auto simp: tx_simps stays_spent_def tokens_wf_def spent_def password_token_unique_def new_password_token_def)

lemma spent_upsert: "tx_keeps (stays_spent h) (upsert_grant db_user_access db_user_access_update known g)"
  by (rule tx_keepsI) (auto simp: upsert_grant_def intro: stays_spent_same split: option.splits if_splits)

interpretation spent: identity_frame "stays_spent h" for h
proof
  show "tx_keeps (stays_spent h) (set_status_user_tx userID status derive)" for userID status derive
    unfolding set_status_user_tx_def keep_project_admins_def userIsSoleActiveDirectAdmin_def keep_deployment_admin_def revoke_sessions_def Let_def
    by (intro spent_rules) (simp_all add: stays_spent_same)
  show "stays_spent h d d'" if "CreateAuthSession userID hash expiresAt now d = (Inr v, d')" for userID hash expiresAt now d v d'
    using that unfolding CreateAuthSession_def remember_hash_def
    by (elim spent.keeps_run_tx [rotated]) (intro spent_rules; simp add: stays_spent_same)
  show "stays_spent h d d'" if "UpsertProjectUserAccess g now d = (Inr v1, d')" for g now d v1 d'
    using that unfolding UpsertProjectUserAccess_def ensureActiveDirectProjectAdmin_def
    by (auto split: if_splits elim!: spent.keeps_run_tx [rotated] intro!: spent_rules spent_upsert)
  show "stays_spent h d d'" if "DeleteProjectUserAccess projectID userID now d = (Inr v2, d')" for projectID userID now d v2 d'
    using that unfolding DeleteProjectUserAccess_def ensureActiveDirectProjectAdmin_def
    by (elim spent.keeps_run_tx [rotated]) (intro spent_rules; simp add: stays_spent_same)
qed (unfold rotate_tx_def remember_hash_def,
    (intro spent_new spent_consume spent_revoked spent_rules stays_spent_same; simp add: stays_spent_same)+)

lemma completion_spends:
  assumes "CompletePasswordToken h purpose pw clock now d = (Inr u, d')" "tokens_wf d"
  shows "spent h d'" "tokens_wf d'"
proof -
  have "complete_token_tx h purpose pw clock (d\<lparr>db_now := now\<rparr>) = (Inr u, d')"
    using assms(1) by (simp add: CompletePasswordToken_def tx_simps)
  then obtain token d1 where c: "consume_token h purpose clock (d\<lparr>db_now := now\<rparr>) = (Inr token, d1)"
    and rest: "tx_bind (sql_update_checked db_users db_users_update user_unique user_check
                (\<lambda>d u. usr_id u = pwt_user_id token \<and> (purpose = PasswordTokenPurposeSetup \<longrightarrow> usr_status u = UserStatusPending))
                (\<lambda>d. completed_user purpose pw clock)) (\<lambda>value.
     tx_bind (revoke_sessions PgError (pwt_user_id token) (\<lambda>_. clock)) (\<lambda>_.
     tx_bind (revokeOutstandingPasswordTokens (pwt_user_id token)) (\<lambda>_.
     tx_return value))) d1 = (Inr u, d')"
    unfolding complete_token_tx_def by (simp only: tx_bind_Inr) blast
  let ?p = "\<lambda>t. pwt_token_hash t = h \<and> pwt_purpose t = purpose \<and> token_open t \<and> pwt_expires_at t > clock"
  obtain r where r: "r \<in> set (db_password_tokens d)" "?p r"
    and d1: "db_password_tokens d1 = update_rows ?p (\<lambda>t. t\<lparr>pwt_consumed_at := Some clock\<rparr>) (db_password_tokens d)"
    using c unfolding consume_token_def by (auto simp: tx_simps dest!: find_Some_in)
  have only: "t = r" if "t \<in> set (db_password_tokens d)" "pwt_token_hash t = h" for t
    using that(1) r(1) by (rule distinct_key_eq [OF assms(2) [unfolded tokens_wf_def]]) (use that r in simp)
  have "\<not> token_open t" if t: "t \<in> set (db_password_tokens d1)" "pwt_token_hash t = h" for t
  proof (cases "t \<in> set (db_password_tokens d) \<and> \<not> ?p t")
    case True
    then show ?thesis using only [of t] t(2) r(2) by simp
  next
    case False
    then obtain s where "t = s\<lparr>pwt_consumed_at := Some clock\<rparr>" using t(1) unfolding d1 in_update_rows by blast
    then show ?thesis by (simp add: token_open_def)
  qed
  moreover have "r\<lparr>pwt_consumed_at := Some clock\<rparr> \<in> set (db_password_tokens d1)" unfolding d1 by (rule matched_row) (use r in auto)
  moreover have "h = pwt_token_hash (r\<lparr>pwt_consumed_at := Some clock\<rparr>)" using r(2) by simp
  ultimately have "spent h d1" unfolding spent_def by blast
  moreover have "tokens_wf d1"
    using tx_keepsD [OF spent_consume c, of h] assms(2) by (simp add: stays_spent_def tokens_wf_def)
  moreover have "stays_spent h d1 d'"
    using rest unfolding revoke_sessions_def revokeOutstandingPasswordTokens_def
    by (elim tx_keepsD [rotated]) (intro spent.keeps_intros spent_revoked spent.keeps_completed spent.keeps_revoked)
  ultimately show "spent h d'" "tokens_wf d'" by (simp_all add: stays_spent_def)
qed

end
