(* ===== verification/Comment_Steps.thy ===== *)
theory Comment_Steps
  imports Notifications Identity_Steps
begin

text \<open>
  The operations on comments, notifications and subscriptions as steps of the database, and the frames they keep: whatever
  the statements of a comment keep is kept where the work it asks for fails half way and the comment is stored all the same.
\<close>

section \<open>Steps\<close>

inductive comment_step :: "db \<Rightarrow> db \<Rightarrow> bool" where
  create: "createIssueComment engines projectID input targets implicit suppress now d = (r1, d') \<Longrightarrow> comment_step d d'"
| update: "UpdateIssueComment projectID issueID commentID actorID body now d = (r2, d') \<Longrightarrow> comment_step d d'"
| delete: "DeleteIssueComment projectID issueID commentID actorID now d = (r3, d') \<Longrightarrow> comment_step d d'"
| resolution: "setIssueCommentResolution projectID issueID commentID actorID resolved now d = (r4, d') \<Longrightarrow> comment_step d d'"
| react: "mutateIssueCommentReaction projectID issueID commentID actorID reaction add now d = (r5, d') \<Longrightarrow> comment_step d d'"
| notify: "CreateIssueCommentNotifications projectID commentID now d = (r6, d') \<Longrightarrow> comment_step d d'"
| read: "SetNotificationRead userID notificationID seen now d = (r7, d') \<Longrightarrow> comment_step d d'"
| read_all: "MarkAllNotificationsRead userID now d = (r8, d') \<Longrightarrow> comment_step d d'"
| subscribe: "SetIssueSubscription projectID issueID userID subscribed now d = (r9, d') \<Longrightarrow> comment_step d d'"

section \<open>Work that is asked for\<close>

text \<open>The errors a comment goes on after.\<close>

abbreviation refused :: "store_error set" where
  "refused \<equiv> {ErrConflict, ErrNotFound, ErrInvalidArgument}"

lemma violations_end: "violation_aborts -` refused \<subseteq> {ErrNotFound}"
  by (auto simp: violation_aborts_def split: if_splits)

lemma update_row_failed: "sql_update_row rows upd p f d = (Inl e, d') \<Longrightarrow> d' = d"
  by (auto simp: sql_update_row_def split: option.splits)

locale work_frame = request_frame +
  assumes keeps_held_run: "tx_keeps R (sql_update_row db_runs db_runs_update
      (\<lambda>d r. run_project_id r = run_project_id (run :: run) \<and> run_id r = run_id run \<and> run_status r = RUN_QUEUED)
      (\<lambda>d r. r\<lparr>run_queue_reason := Some DelegationWorkspaceHandoffWaitReason, run_updated_at := db_now d\<rparr>))"
    and keeps_held_job: "tx_keeps R (sql_update_row db_jobs db_jobs_update
      (\<lambda>d j. job_project_id j = job_project_id (job :: job) \<and> job_id j = job_id job \<and> job_run_id j = job_run_id job \<and> job_state j = JOB_QUEUED)
      (\<lambda>d j. j\<lparr>job_wait_reason := Some DelegationWorkspaceHandoffWaitReason, job_available_at := never_available,
               job_updated_at := db_now d\<rparr>))"
    and keeps_requests: "R d (db_work_requests_update g d)"
begin

lemma on_hold: "tx_keeps_on E R (holdDelegatedRunForWorkspaceHandoff run job)"
  unfolding holdDelegatedRunForWorkspaceHandoff_def
  by (intro keeps_on_intros keeps_held_run [THEN keeps_on_atomic, OF update_row_failed]
      keeps_held_job [THEN keeps_on_atomic, OF update_row_failed])

lemma on_insert_request: "tx_keeps_on E R (insertAgentWorkRequestWithIDTx wid input w r g)"
  unfolding insertAgentWorkRequestWithIDTx_def
  by (intro keeps_on_intros on_uuid keeps_writes(4) [THEN keeps_on_atomic, OF keeps_requests insert_failed])

lemma on_seal: "tx_keeps_on E R (sealAgentWorkRequestTx w)"
  unfolding sealAgentWorkRequestTx_def
  by (rule keeps_on_atomic [OF keeps_writes(1)]) (auto simp: keeps_requests sql_update_def)

lemma on_held_run:
  assumes "f -` E \<subseteq> {ErrNotFound}"
  shows "tx_keeps_on E R (createDelegatedTargetRunTx f eng p i w a key hold)"
  unfolding createDelegatedTargetRunTx_def
  by (intro keeps_on_intros on_statements [OF assms] on_queued_run on_hold read_delegation(6,7) [THEN keeps_on_read]
      read_assignment(5) [THEN keeps_on_read])

lemma on_run_delegation:
  assumes "f -` E \<subseteq> {ErrNotFound}"
  shows "tx_keeps_on E R (requestDelegationTx f eng input)"
  unfolding requestDelegationTx_def create_delegation_def
  by (intro keeps_on_intros on_statements [OF assms] on_held_run [OF assms] on_insert_delegation
      read_delegation(1,4,8) [THEN keeps_on_read] read_assignment(1) [THEN keeps_on_read])

lemma on_agent_work:
  assumes "f -` E \<subseteq> {ErrNotFound}"
  shows "tx_keeps_on E R (requestAgentWorkTx f eng input)"
  unfolding requestAgentWorkTx_def request_work_def work_request_workspace_def admit_work_def join_or_defer_def queue_work_def
    insertAgentWorkRequestTx_def Let_def
  by (intro keeps_on_intros on_statements [OF assms] on_insert_request on_seal on_uuid on_workspace
      on_run_delegation [OF assms] on_request_delegation [OF assms] read_work_requests(1-6) [THEN keeps_on_read]
      read_tried_work [THEN keeps_on_read] read_assignment(1) [THEN keeps_on_read] read_delegation(7) [THEN keeps_on_read])

lemma keeps_ask: "tx_keeps R (ask_agent eng input)"
  unfolding ask_agent_def
proof (rule keeps_handler [OF on_agent_work [OF violations_end]])
qed (auto simp: tx_fail_def split: sum.splits intro!: keeps_intros)

end

section \<open>Frames of these steps\<close>

lemma read_targets:
  "tx_keeps_on UNIV (=) (issueCommentMentionTargetTx eng p a)" "tx_keeps_on UNIV (=) (issueCommentTargetTx eng p t)"
  "tx_keeps_on UNIV (=) (issueCommentAncestorIDsBoundedWith p i c n)" "tx_keeps_on UNIV (=) (issueCommentThreadAgentIDsTx i c n)"
  "tx_keeps_on UNIV (=) (resolveIssueCommentImplicitRouteTx p i parent b)"
  unfolding issueCommentTargetTx_def issueCommentMentionTargetTx_def issueCommentAncestorIDsBoundedWith_def
    issueCommentThreadAgentIDsTx_def resolveIssueCommentImplicitRouteTx_def Let_def
  by (intro read_rules read_assignment reads.keeps_on_try)+

lemma read_comments:
  "tx_keeps_on UNIV (=) (issueCommentAuthorName p ty a)" "tx_keeps_on UNIV (=) (comment_source_tx p i input)"
  "tx_keeps_on UNIV (=) (comment_parent_tx i parent)" "tx_keeps_on UNIV (=) (existingIssueCommentRequest i input)"
  "tx_keeps_on UNIV (=) (repeated_comment p i name input ms b s)" "tx_keeps_on UNIV (=) (find_comment p i c)"
  unfolding issueCommentAuthorName_def comment_source_tx_def comment_parent_tx_def existingIssueCommentRequest_def repeated_comment_def
    find_comment_def
  by (intro read_rules)+

text \<open>
  A relation that the statements on comments and what hangs on them keep. An edit leaves the identity and the place of a
  comment alone; whether its row goes is decided in \<open>delete_comment_tx\<close>.
\<close>

locale comment_frame = work_frame R + db_frame R for R :: "db \<Rightarrow> db \<Rightarrow> bool" +
  assumes keeps_new_comment: "tx_keeps R (sql_insert_unless db_comments db_comments_update comment_unique comment_unique comment_check
      notFound (new_comment uid i input suppress at))"
    and keeps_write: "(\<And>now c. cmt_id (f now c) = cmt_id c \<and> cmt_issue_id (f now c) = cmt_issue_id c \<and>
        cmt_parent_comment_id (f now c) = cmt_parent_comment_id c) \<Longrightarrow> tx_keeps R (write_comment i c f)"
    and keeps_delete: "tx_keeps R (delete_comment_tx p i c a)"
    and keeps_new_mention: "tx_keeps R (sql_insert db_mentions db_mentions_update mention_unique mention_check PgError m)"
    and keeps_new_implicit: "tx_keeps R (sql_insert db_implicit_triggers db_implicit_triggers_update implicit_unique implicit_check PgError t)"
    and keeps_new_reaction: "tx_keeps R (sql_insert_unless db_reactions db_reactions_update same_reaction same_reaction reaction_check PgError r)"
    and keeps_drop_reaction: "tx_keeps R (sql_delete db_reactions db_reactions_update q)"
    and keeps_upsert: "tx_keeps R (upsert_notification n)"
    and keeps_seen: "tx_keeps R (sql_update db_notifications db_notifications_update qn (\<lambda>d n. n\<lparr>ntf_read_at := g d n\<rparr>))"
    and keeps_subscriptions: "R d (db_subscriptions_update gs d)"
begin

lemmas keeps_reads = read_targets [THEN keeps_on_read, THEN keeps_on_keeps] read_comments [THEN keeps_on_read, THEN keeps_on_keeps]

lemmas keeps_rows = keeps_new_comment keeps_new_mention keeps_new_implicit keeps_new_reaction keeps_drop_reaction keeps_seen
  keeps_writes [of db_subscriptions_update, OF keeps_subscriptions]

lemma keeps_mentions: "tx_keeps R (createIssueCommentMentionsTx eng p c n ts)"
  by (induction ts arbitrary: n)
    (auto simp: mention_asks_def insert_mention_def intro!: keeps_intros keeps_reads keeps_ask keeps_uuid keeps_rows split: prod.splits)

lemma keeps_implicit: "tx_keeps R (createIssueCommentImplicitTriggerTx eng p c s)"
  unfolding createIssueCommentImplicitTriggerTx_def implicit_asks_def insert_implicit_def
  by (intro keeps_intros keeps_reads keeps_ask keeps_rows)

lemma keeps_create: "tx_keeps R (create_comment_tx eng p input ms b s)"
  unfolding create_comment_tx_def created_comment_def insert_comment_def
  by (intro keeps_intros keeps_reads keeps_append keeps_uuid keeps_rows keeps_mentions keeps_implicit)

lemma keeps_changed: "tx_keeps R (appendIssueCommentChangedEventTx p i c a x r t)"
  unfolding appendIssueCommentChangedEventTx_def by (rule keeps_append)

lemma keeps_changes:
  "tx_keeps R (update_comment_tx p i c a body)" "tx_keeps R (resolve_comment_tx p i c a b)" "tx_keeps R (mutate_reaction_tx p i c a r b)"
  unfolding update_comment_tx_def resolve_comment_tx_def mutate_reaction_tx_def write_reaction_def
  by (intro keeps_intros keeps_reads keeps_changed keeps_rows keeps_write; simp)+

lemma keeps_notify: "tx_keeps R (notify_tx p c)" "tx_keeps R (subscribe_tx p i u b)"
  unfolding notify_tx_def notify_one_def subscribe_tx_def
  by (intro keeps_intros keeps_map keeps_uuid keeps_upsert keeps_rows)+

lemma keeps_reread: "tx_keeps R m \<Longrightarrow> reread p i c (run_tx now m d) = (r, d') \<Longrightarrow> R d d'"
  by (cases "run_tx now m d") (auto simp: reread_def split: sum.splits intro: keeps_run_tx)

lemma keeps_comment_step: "comment_step d d' \<Longrightarrow> R d d'"
proof (induction rule: comment_step.induct)
  case (create engines projectID input targets implicit suppress now d r1 d')
  then show ?case unfolding createIssueComment_def
    by (auto simp: refl split: sum.splits if_splits elim: keeps_run_tx [OF keeps_create])
next
  case (update projectID issueID commentID actorID body now d r2 d')
  then show ?case unfolding UpdateIssueComment_def by (auto simp: refl split: if_splits elim: keeps_reread [OF keeps_changes(1)])
next
  case (delete projectID issueID commentID actorID now d r3 d')
  then show ?case unfolding DeleteIssueComment_def by (auto simp: refl split: if_splits elim: keeps_run_tx [OF keeps_delete])
next
  case (resolution projectID issueID commentID actorID resolved now d r4 d')
  then show ?case unfolding setIssueCommentResolution_def by (auto simp: refl split: if_splits elim: keeps_reread [OF keeps_changes(2)])
next
  case (react projectID issueID commentID actorID reaction add now d r5 d')
  then show ?case unfolding mutateIssueCommentReaction_def by (auto simp: refl split: if_splits elim: keeps_run_tx [OF keeps_changes(3)])
next
  case (notify projectID commentID now d r6 d')
  then show ?case unfolding CreateIssueCommentNotifications_def by (auto simp: refl split: if_splits elim: keeps_run_tx [OF keeps_notify(1)])
next
  case (read userID notificationID seen now d r7 d')
  then show ?case unfolding SetNotificationRead_def
    by (auto simp: refl split: if_splits elim!: keeps_run_tx [rotated] intro!: keeps_intros keeps_rows)
next
  case (read_all userID now d r8 d')
  then show ?case unfolding MarkAllNotificationsRead_def
    by (auto simp: refl split: if_splits elim!: keeps_run_tx [rotated] intro!: keeps_rows)
next
  case (subscribe projectID issueID userID subscribed now d r9 d')
  then show ?case unfolding SetIssueSubscription_def by (auto simp: refl split: if_splits elim: keeps_run_tx [OF keeps_notify(2)])
qed

end

text \<open>Where every write to these tables is kept, so are the statements.\<close>

locale comment_tables = work_frame R + db_frame R for R :: "db \<Rightarrow> db \<Rightarrow> bool" +
  assumes keeps_tables: "R d (db_comments_update g1 d)" "R d (db_mentions_update g2 d)" "R d (db_implicit_triggers_update g3 d)"
    "R d (db_reactions_update g4 d)" "R d (db_notifications_update g5 d)" "R d (db_subscriptions_update g6 d)"
begin

lemmas table_writes = keeps_writes [of db_comments_update, OF keeps_tables(1)] keeps_writes [of db_mentions_update, OF keeps_tables(2)]
  keeps_writes [of db_implicit_triggers_update, OF keeps_tables(3)] keeps_writes [of db_reactions_update, OF keeps_tables(4)]
  keeps_writes [of db_notifications_update, OF keeps_tables(5)] keeps_all [of db_comments_update, OF keeps_tables(1)]

lemma upsert_kept: "tx_keeps R (upsert_notification n)"
proof -
  have "tx_keeps R (tx_bind (sql_insert db_notifications db_notifications_update (\<lambda>a b. ntf_id a = ntf_id b \<or> notification_key a b)
            notification_check notFound n) (\<lambda>_. tx_return ()))"
    by (intro keeps_intros table_writes)
  then show ?thesis
    by (intro tx_keepsI) (auto simp: upsert_notification_def keeps_tables dest: tx_keepsD split: if_splits)
qed

lemma delete_kept: "tx_keeps R (delete_comment_tx p i c a)"
  unfolding delete_comment_tx_def write_comment_def bury_comment_def remove_comment_def appendIssueCommentChangedEventTx_def
  by (intro keeps_intros read_comments(6) [THEN keeps_on_read, THEN keeps_on_keeps] keeps_append table_writes)

end

sublocale comment_tables \<subseteq> comment_frame
  by unfold_locales (unfold write_comment_def, (intro table_writes upsert_kept delete_kept keeps_tables)+)

lemma quiet_comment_tables:
  "quiet d (db_comments_update g1 d)" "quiet d (db_mentions_update g2 d)" "quiet d (db_implicit_triggers_update g3 d)"
  "quiet d (db_reactions_update g4 d)" "quiet d (db_notifications_update g5 d)" "quiet d (db_subscriptions_update g6 d)"
  "quiet d (db_work_requests_update g7 d)"
  by (rule quiet_same_tables; simp add: same_config_def)+

lemma history_comment_tables:
  "history d (db_comments_update g1 d)" "history d (db_mentions_update g2 d)" "history d (db_implicit_triggers_update g3 d)"
  "history d (db_reactions_update g4 d)" "history d (db_notifications_update g5 d)" "history d (db_subscriptions_update g6 d)"
  "history d (db_work_requests_update g7 d)"
  by (rule history_same_tables; simp)+

interpretation quiet_requests: comment_tables quiet
  by unfold_locales (intro quiet_comment_tables quiet_update_runs quiet_update_jobs; auto simp: same_place_def)+

interpretation history_requests: comment_tables history
  by unfold_locales ((intro history_rules history_update_runs history_comment_tables; auto)+)


end
