(* ===== verification/Store_Steps.thy ===== *)
theory Store_Steps
  imports Scheduler_Reconciliation Review_Service Comment_Steps
begin

text \<open>
  The store as a transition system: every public operation of the modelled store as a step of the
  database, and what every step keeps. The properties of whole executions and the coordinator rest
  on it.
\<close>

section \<open>The store as a transition system\<close>

text \<open>
  Every public operation of the execution core as a step of the database. A step is one
  call with any arguments, at any time, whatever it answers.
\<close>

inductive store_step :: "db \<Rightarrow> db \<Rightarrow> bool" where
  enqueue: "EnqueueJob input wall now d = (r1, d') \<Longrightarrow> store_step d d'"
| admit: "AdmitNextJob runners locked owner lease backoff now d = (r2, d') \<Longrightarrow> store_step d d'"
| renew: "RenewLease projectID jobID token lease now d = (r3, d') \<Longrightarrow> store_step d d'"
| release: "ReleaseLease projectID jobID token now d = (r4, d') \<Longrightarrow> store_step d d'"
| release_capacity: "ReleaseCapacity projectID jobID now d = (r5, d') \<Longrightarrow> store_step d d'"
| transition: "transitionAdmittedJob change now d = (r6, d') \<Longrightarrow> store_step d d'"
| cancel: "CancelInactiveRun projectID runID now d = (r7, d') \<Longrightarrow> store_step d d'"
| take_over: "claimExpiredJobForReconciliation locked owner lease now d = (r8, d') \<Longrightarrow> store_step d d'"
| reconcile: "resolveReconciliation report now d = (r9, d') \<Longrightarrow> store_step d d'"
| ask: "OpenInteractiveQuestions commands now d = (r10, d') \<Longrightarrow> store_step d d'"
| answer: "AnswerQuestion reply now d = (r11, d') \<Longrightarrow> store_step d d'"
| resolve: "ResolveInteractiveQuestion projectID questionID now d = (r12, d') \<Longrightarrow> store_step d d'"
| delegate: "RequestDelegation engines command now d = (r13, d') \<Longrightarrow> store_step d d'"
| delegate_issue: "RequestIssueDelegation engines issue_command now d = (r14, d') \<Longrightarrow> store_step d d'"
| handoff_ready: "MarkDelegationWorkspaceHandoffReady projectID parentID delegationID childID now d = (r15, d') \<Longrightarrow> store_step d d'"
| promote: "ReconcilePendingAgentWorkRequest engines now d = (r17, d') \<Longrightarrow> store_step d d'"
| place: "PlaceIssue engines placement actor now d = (r18, d') \<Longrightarrow> store_step d d'"
| set_status: "SetIssueStatus engines mutation now d = (r19, d') \<Longrightarrow> store_step d d'"
| patch: "UpdateIssuePatchMutation engines issue_patch patch_actor now d = (r20, d') \<Longrightarrow> store_step d d'"
| begin_approval: "BeginReviewApproval begin_command now d = (r22, d') \<Longrightarrow> store_step d d'"
| complete_approval: "CompleteReviewApproval complete_command now d = (r23, d') \<Longrightarrow> store_step d d'"
| fail_approval: "FailReviewApproval fail_command now d = (r24, d') \<Longrightarrow> store_step d d'"
| request_changes: "RequestReviewChanges changes_command now d = (r25, d') \<Longrightarrow> store_step d d'"
| start: "enqueueCurrentIssue engines projectID issueID agentID strict now d = (r21, d') \<Longrightarrow> store_step d d'"
| identity: "identity_step d d' \<Longrightarrow> store_step d d'"
| comment: "comment_step d d' \<Longrightarrow> store_step d d'"

text \<open>Accounts and access do not touch the execution core.\<close>

lemma identity_step_frames: "identity_step d d' \<Longrightarrow> quiet d d'" "identity_step d d' \<Longrightarrow> history d d'"
  using apart.keeps_identity_step [of d d'] unfolding apart_def
  by (auto intro!: quiet_same_tables history_same_tables simp: same_config_def)

lemma store_step_wf: "store_step d d' \<Longrightarrow> sched_wf d \<Longrightarrow> sched_wf d'"
proof (induction rule: store_step.induct)
  case admit then show ?case by (blast intro: AdmitNextJob_wf)
qed (blast intro: safe_wf quiet_safe EnqueueJob_safe RenewLease_safe ReleaseLease_safe ReleaseCapacity_safe
    transitionAdmittedJob_safe CancelInactiveRun_safe claimExpired_safe resolveReconciliation_safe
    OpenInteractiveQuestions_quiet AnswerQuestion_safe ResolveInteractiveQuestion_quiet
    RequestDelegation_quiet RequestIssueDelegation_quiet MarkHandoffReady_quiet ReconcilePending_quiet
    board_quiet enqueueCurrentIssue_quiet review_quiet identity_step_frames
    quiet_requests.keeps_comment_step)+

lemma store_step_history: "store_step d d' \<Longrightarrow> history d d'"
  by (induction rule: store_step.induct)
    (blast intro: EnqueueJob_history AdmitNextJob_history RenewLease_history ReleaseLease_history
      ReleaseCapacity_history transitionAdmittedJob_history CancelInactiveRun_history claimExpired_history
      resolveReconciliation_history OpenInteractiveQuestions_history AnswerQuestion_history
      ResolveInteractiveQuestion_history delegation_requests_history ReconcilePending_history
      board_history enqueueCurrentIssue_history review_history identity_step_frames
      history_requests.keeps_comment_step)+

text \<open>Any number of steps.\<close>

abbreviation store_steps :: "db \<Rightarrow> db \<Rightarrow> bool" where
  "store_steps \<equiv> store_step\<^sup>*\<^sup>*"

lemma store_steps_wf: "store_steps d d' \<Longrightarrow> sched_wf d \<Longrightarrow> sched_wf d'"
  by (induction rule: rtranclp_induct) (auto intro: store_step_wf)

lemma store_steps_history: "store_steps d d' \<Longrightarrow> history d d'"
  by (induction rule: rtranclp_induct) (auto intro: history.refl history.trans store_step_history)

end
