(* ===== verification/Coordinator.thy ===== *)
theory Coordinator
  imports Store_Steps "HOL-Library.AList"
begin

text \<open>
  The scheduler coordinator (scheduler/coordinator.go): the loop that takes over expired claims,
  promotes pending work and admits jobs, the workers it launches, and the registry through which a
  Run is cancelled. Goroutines are steps of a transition system that interleave in any order with each
  other and with the other clients of the store; the processor and the reconciler, which run Engines,
  answer anything.
\<close>

section \<open>Configuration\<close>

text \<open>Durations are in nanoseconds, as \<open>time.Duration\<close>.\<close>

record config =
  cfg_owner_id :: string
  cfg_poll_interval :: int
  cfg_lease_duration :: int
  cfg_heartbeat_interval :: int
  cfg_capacity_backoff :: int
  cfg_max_in_flight :: int

definition DefaultConfig :: "string \<Rightarrow> config" where
  "DefaultConfig ownerID = \<lparr>cfg_owner_id = ownerID, cfg_poll_interval = 250000000, cfg_lease_duration = 30000000000,
     cfg_heartbeat_interval = 10000000000, cfg_capacity_backoff = 1000000000, cfg_max_in_flight = 32\<rparr>"

text \<open>\<open>New\<close> after its checks for nil: the first complaint, or the configuration.\<close>

definition New :: "config \<Rightarrow> string + config" where
  "New config =
     (if TrimSpace (cfg_owner_id config) = [] then Inl ''scheduler: owner id is required''
      else if cfg_poll_interval config \<le> 0 \<or> cfg_lease_duration config \<le> 0 \<or> cfg_heartbeat_interval config \<le> 0 \<or>
              cfg_capacity_backoff config \<le> 0 then Inl ''scheduler: durations must be positive''
      else if cfg_heartbeat_interval config \<ge> cfg_lease_duration config
      then Inl ''scheduler: heartbeat interval must be shorter than lease duration''
      else if cfg_max_in_flight config < 1 then Inl ''scheduler: max in-flight must be at least 1''
      else Inr config)"

section \<open>The registry of active Runs\<close>

text \<open>Why the context of a worker was cancelled; the first cause stays.\<close>

datatype cancel_cause = ErrRunCancellation | LeaseError | ContextCanceled

text \<open>A registration: its token, and the worker whose context it cancels.\<close>

type_synonym active_run = "64 word \<times> nat"

record registry =
  reg_seq :: "64 word"
  reg_active :: "(string \<times> active_run) list"

definition activeRunKey :: "string \<Rightarrow> string \<Rightarrow> string" where
  "activeRunKey projectID runID = projectID @ ''/'' @ runID"

definition registerActiveRun :: "string \<Rightarrow> nat \<Rightarrow> registry \<Rightarrow> 64 word \<times> registry" where
  "registerActiveRun key worker reg =
     (let token = reg_seq reg + 1 in
      (token, \<lparr>reg_seq = token, reg_active = AList.update key (token, worker) (reg_active reg)\<rparr>))"

definition unregisterActiveRun :: "string \<Rightarrow> 64 word \<Rightarrow> registry \<Rightarrow> registry" where
  "unregisterActiveRun key token reg =
     (if token = 0 then reg
      else case map_of (reg_active reg) key of
        Some (current, _) \<Rightarrow> if current = token then reg\<lparr>reg_active := AList.delete key (reg_active reg)\<rparr> else reg
      | None \<Rightarrow> reg)"

text \<open>\<open>CancelRun\<close>: whose context is cancelled, if anyone's.\<close>

definition CancelRun :: "string \<Rightarrow> string \<Rightarrow> registry \<Rightarrow> nat option" where
  "CancelRun projectID runID reg =
     (if TrimSpace projectID = [] \<or> TrimSpace runID = [] then None
      else map_option snd (map_of (reg_active reg) (activeRunKey projectID runID)))"

section \<open>The result of a processor\<close>

record processor_result =
  prs_run_status :: run_status
  prs_failure_reason :: "string option"

definition isFinalProcessorStatus :: "run_status \<Rightarrow> bool" where
  "isFinalProcessorStatus s \<longleftrightarrow> s \<in> {RUN_WAITING_FOR_INPUT, RUN_PAUSED, RUN_READY_FOR_REVIEW, RUN_COMPLETED, RUN_FAILED, RUN_CANCELLED}"

text \<open>
  What \<open>process\<close> persists once the processor has returned: nothing where it failed, where the lease
  is lost, or where the status is not one a processor may end with.
\<close>

definition final_result :: "cancel_cause option \<Rightarrow> bool \<Rightarrow> bool \<Rightarrow> processor_result \<Rightarrow> processor_result option" where
  "final_result cause failed leaseLost result =
     (let runCancelled = (cause = Some ErrRunCancellation \<and> (failed \<or> \<not> isFinalProcessorStatus (prs_run_status result)));
          result = (if runCancelled then \<lparr>prs_run_status = RUN_CANCELLED, prs_failure_reason = None\<rparr> else result);
          failed = (\<not> runCancelled \<and> failed) in
      if failed then None
      else if leaseLost then None
      else if \<not> isFinalProcessorStatus (prs_run_status result) then None
      else Some result)"

section \<open>The store as the coordinator calls it\<close>

type_synonym claim = "job \<times> lease \<times> run"

definition claim_key :: "claim \<Rightarrow> string" where
  "claim_key c = (case c of (j, l, r) \<Rightarrow> activeRunKey (job_project_id j) (run_id r))"

definition claim_transition :: "claim \<Rightarrow> run_status \<Rightarrow> string option \<Rightarrow> scheduler_transition" where
  "claim_transition c status failureReason = (case c of (j, l, r) \<Rightarrow>
     \<lparr>trn_project_id = job_project_id j, trn_job_id = job_id j, trn_run_id = run_id r, trn_lease_token = lse_token l,
      trn_run_status = status, trn_failure_reason = failureReason\<rparr>)"

definition claim_report :: "claim \<Rightarrow> reconciliation_outcome \<Rightarrow> string option \<Rightarrow> scheduler_reconciliation" where
  "claim_report c outcome failureReason = (case c of (j, l, r) \<Rightarrow>
     \<lparr>rcn_project_id = job_project_id j, rcn_job_id = job_id j, rcn_run_id = run_id r, rcn_lease_token = lse_token l,
      rcn_outcome = outcome, rcn_failure_reason = failureReason\<rparr>)"

text \<open>The report on a claim: an error of the reconciler and an empty outcome count as unknown.\<close>

definition report_of :: "claim \<Rightarrow> (string + reconciliation_outcome \<times> string option) \<Rightarrow> scheduler_reconciliation" where
  "report_of c answer = (case answer of
     Inl _ \<Rightarrow> claim_report c OutcomeUnknown None
   | Inr (outcome, failureReason) \<Rightarrow>
       claim_report c (if outcome = OutcomeOther [] then OutcomeUnknown else outcome) failureReason)"

datatype loop_decision = Again | Wait | Work claim

text \<open>
  \<open>reconcileOne\<close>: the claim to work on, whether something was handled, and errors. \<open>answer\<close> is what the
  reconciler says of a claim.
\<close>

definition reconcileOne :: "config \<Rightarrow> (id \<Rightarrow> bool) \<Rightarrow> (claim \<Rightarrow> string + reconciliation_outcome \<times> string option) \<Rightarrow> time \<Rightarrow> db \<Rightarrow>
   (store_error + claim option \<times> bool) \<times> db" where
  "reconcileOne cfg locked answer now d =
     (case claimExpiredJobForReconciliation locked (cfg_owner_id cfg) (cfg_lease_duration cfg) now d of
        (Inl e, d1) \<Rightarrow> (Inl e, d1)
      | (Inr None, d1) \<Rightarrow> (Inr (None, False), d1)
      | (Inr (Some (j, l, r, _, _)), d1) \<Rightarrow>
          let report = report_of (j, l, r) (answer (j, l, r)) in
          (case resolveReconciliation report now d1 of
             (Inl e, d2) \<Rightarrow> (Inl e, d2)
           | (Inr _, d2) \<Rightarrow> (Inr (if rcn_outcome report = OutcomeActive then Some (j, l, r) else None, True), d2)))"

text \<open>One iteration of the loop of \<open>Run\<close> at one instant, with a free slot: what it does next.\<close>

definition admit_next :: "config \<Rightarrow> (id \<Rightarrow> id list) option \<Rightarrow> (id \<Rightarrow> bool) \<Rightarrow> time \<Rightarrow> db \<Rightarrow> loop_decision \<times> db" where
  "admit_next cfg runners locked now d =
     (case AdmitNextJob runners locked (cfg_owner_id cfg) (cfg_lease_duration cfg) (cfg_capacity_backoff cfg) now d of
        (Inr (Some adm), d1) \<Rightarrow> (Work (adm_job adm, adm_lease adm, adm_run adm), d1)
      | (_, d1) \<Rightarrow> (Wait, d1))"

definition iteration :: "config \<Rightarrow> (string \<Rightarrow> bool) option \<Rightarrow> (id \<Rightarrow> id list) option \<Rightarrow> (id \<Rightarrow> bool) \<Rightarrow>
   (claim \<Rightarrow> string + reconciliation_outcome \<times> string option) \<Rightarrow> time \<Rightarrow> db \<Rightarrow> loop_decision \<times> db" where
  "iteration cfg engines runners locked answer now d =
     (case reconcileOne cfg locked answer now d of
        (Inl e, d1) \<Rightarrow> (Wait, d1)
      | (Inr (Some c, _), d1) \<Rightarrow> (Work c, d1)
      | (Inr (None, True), d1) \<Rightarrow> (Again, d1)
      | (Inr (None, False), d1) \<Rightarrow>
          (case ReconcilePendingAgentWorkRequest engines now d1 of
             (Inl e, d2) \<Rightarrow> (Wait, d2)
           | (Inr (True, events), d2) \<Rightarrow> (Again, d2)
           | (Inr (False, events), d2) \<Rightarrow> admit_next cfg runners locked now d2))"

text \<open>The loop from one instant until it waits or launches a worker; \<open>None\<close> where it never does.\<close>

partial_function (option) settle :: "config \<Rightarrow> (string \<Rightarrow> bool) option \<Rightarrow> (id \<Rightarrow> id list) option \<Rightarrow> (id \<Rightarrow> bool) \<Rightarrow>
   (claim \<Rightarrow> string + reconciliation_outcome \<times> string option) \<Rightarrow> time \<Rightarrow> db \<Rightarrow> (loop_decision \<times> db) option" where
  "settle cfg engines runners locked answer now d =
     (case iteration cfg engines runners locked answer now d of
        (Again, d') \<Rightarrow> settle cfg engines runners locked answer now d'
      | (decision, d') \<Rightarrow> Some (decision, d'))"

section \<open>What an iteration uses up\<close>

text \<open>Leases that ended by \<open>now\<close> and pending requests only become fewer; no request is added.\<close>

definition expired_leases :: "time \<Rightarrow> db \<Rightarrow> nat" where
  "expired_leases now d = length (filter (\<lambda>l. lse_expires_at l \<le> now) (db_leases d))"

definition pending_ids :: "db \<Rightarrow> id set" where
  "pending_ids d = wrq_id ` {w \<in> set (db_work_requests d). pending_request w}"

definition using_up :: "time \<Rightarrow> db \<Rightarrow> db \<Rightarrow> bool" where
  "using_up now d d' \<longleftrightarrow> expired_leases now d' \<le> expired_leases now d \<and> pending_ids d' \<subseteq> pending_ids d \<and>
     map wrq_id (db_work_requests d') = map wrq_id (db_work_requests d)"

lemma using_up_same: "db_leases d' = db_leases d \<Longrightarrow> db_work_requests d' = db_work_requests d \<Longrightarrow> using_up now d d'"
  by (simp add: using_up_def expired_leases_def pending_ids_def)

interpretation using_up: db_frame "using_up now" for now
proof
  show "using_up now d d" for d by (rule using_up_same) simp_all
  show "using_up now a c" if "using_up now a b" "using_up now b c" for a b c
    using that unfolding using_up_def by (auto intro: le_trans)
  show "using_up now d (d\<lparr>db_now := t\<rparr>)" "using_up now d (d\<lparr>db_uuid_next := n\<rparr>)" for d t n by (rule using_up_same; simp)+
qed

named_theorems using_up_rules "statements and calls that only use up leases and pending requests"

lemmas [using_up_rules] = using_up.keeps_intros using_up.keeps_uuid

lemma using_up_tables:
  "using_up now d (db_runs_update g1 d)" "using_up now d (db_jobs_update g2 d)" "using_up now d (db_reservations_update g3 d)"
  "using_up now d (db_sessions_update g4 d)" "using_up now d (db_events_update g5 d)" "using_up now d (db_delegations_update g6 d)"
  "using_up now d (db_questions_update g7 d)" "using_up now d (db_bindings_update g8 d)" "using_up now d (db_workspaces_update g9 d)"
  "using_up now d (db_decisions_update g10 d)"
  by (rule using_up_same; simp)+

lemmas [using_up_rules] =
  using_up.keeps_writes [of _ db_runs_update, OF using_up_tables(1)] using_up.keeps_writes [of _ db_jobs_update, OF using_up_tables(2)]
  using_up.keeps_writes [of _ db_reservations_update, OF using_up_tables(3)] using_up.keeps_writes [of _ db_sessions_update, OF using_up_tables(4)]
  using_up.keeps_writes [of _ db_events_update, OF using_up_tables(5)] using_up.keeps_writes [of _ db_delegations_update, OF using_up_tables(6)]
  using_up.keeps_writes [of _ db_questions_update, OF using_up_tables(7)] using_up.keeps_writes [of _ db_bindings_update, OF using_up_tables(8)]
  using_up.keeps_writes [of _ db_workspaces_update, OF using_up_tables(9)] using_up.keeps_writes [of _ db_decisions_update, OF using_up_tables(10)]

lemma using_up_leases [using_up_rules]: "tx_keeps (using_up now) (sql_delete db_leases db_leases_update p)"
proof -
  have "length (filter q (filter r ls)) \<le> length (filter q ls)" for q r and ls :: "lease list" by (induction ls) auto
  then show ?thesis by (auto simp: tx_keeps_def tx_simps using_up_def expired_leases_def pending_ids_def)
qed

lemma using_up_requests:
  assumes "\<And>d w. p d w \<Longrightarrow> wrq_id (f d w) = wrq_id w" "\<And>d w. p d w \<Longrightarrow> pending_request (f d w) \<Longrightarrow> pending_request w"
  shows "tx_keeps (using_up now) (sql_update db_work_requests db_work_requests_update p f)"
    "tx_keeps (using_up now) (sql_update_row db_work_requests db_work_requests_update p f)"
proof -
  have "using_up now d (db_work_requests_update (update_rows (p d) (f d)) d)" for d
    using assms by (auto simp: using_up_def expired_leases_def pending_ids_def update_rows_def split: if_splits)
  then show "tx_keeps (using_up now) (sql_update db_work_requests db_work_requests_update p f)"
    "tx_keeps (using_up now) (sql_update_row db_work_requests db_work_requests_update p f)"
    by (auto simp: tx_keeps_def tx_simps)
qed

lemma using_up_append [using_up_rules]: "tx_keeps (using_up now) (appendEventTx e)"
  unfolding tx_keeps_def by (auto dest!: appendEventTx_state intro: using_up_same)

lemma using_up_finalize [using_up_rules]: "tx_keeps (using_up now) (finalizeDelegatedRunTx child)"
  unfolding finalizeDelegatedRunTx_def record_delegation_result_def resume_parent_def
    continue_parent_def requeue_paused_parent_def ensureDelegationResumeJobTx_def
    complete_delegation_def closeAgentWorkRequestsForRunTx_def delegation_of_run_def find_run_def
    delegatedResultEvidence_def delegatedWorkspaceAccepted_def
  by (intro using_up_rules using_up_requests) (auto simp: pending_request_def)

lemma using_up_reconcile: "tx_keeps (using_up now) (reconcile_tx input)"
proof -
  have rows: "tx_keeps (using_up now) (releaseReconciledOwnership p j t)" "tx_keeps (using_up now) (finish_claimed_job p j x st why)"
    "tx_keeps (using_up now) (requeue_claimed_job p j x)" "tx_keeps (using_up now) (pause_running_row run)"
    "tx_keeps (using_up now) (requeue_active_row p x)" "tx_keeps (using_up now) (end_active_row p x rs fr)"
    "tx_keeps (using_up now) (releaseReadyDelegationWorkspaceHandoffs run)" for p j t x st why run fr rs
    unfolding releaseReconciledOwnership_def finish_claimed_job_def requeue_claimed_job_def pause_running_row_def
      requeue_active_row_def end_active_row_def releaseReadyDelegationWorkspaceHandoffs_def Let_def
    by (intro using_up_rules)+
  have reads: "tx_keeps (using_up now) (activeRunExecutionSessionTx p x)" "tx_keeps (using_up now) (delegatedParentTerminalTx run)"
    "tx_keeps (using_up now) (lockFencedRun p j x t)" for p x run j t
    unfolding activeRunExecutionSessionTx_def delegatedParentTerminalTx_def lockFencedRun_def delegation_of_run_def find_run_def
    by (intro using_up_rules)+
  have terminal: "tx_keeps (using_up now) (resolveReconciliationTerminal input outcome)" for outcome
    unfolding resolveReconciliationTerminal_def
    by (cases "terminal_effects input outcome") (auto intro!: using_up_rules rows split: prod.split)
  have "tx_keeps (using_up now) (outcome_branch current input outcome)" for current outcome
    unfolding outcome_branch_def recoverReadyDelegationWorkspaceHandoff_def reconcile_retry_def
    by (cases outcome) (auto intro!: using_up_rules rows reads terminal)
  then show ?thesis unfolding reconcile_tx_def by (intro using_up_rules reads)
qed

lemma using_up_resolveReconciliation: "resolveReconciliation input t d = (r, d') \<Longrightarrow> using_up now d d'"
  unfolding resolveReconciliation_def
  by (auto simp: Let_def using_up.refl split: if_splits dest: using_up.keeps_run_tx [OF using_up_reconcile])

lemma using_up_blocking: "tx_keeps (using_up now) (resolveExpiredBlockingQuestion job run lease)"
  unfolding resolveExpiredBlockingQuestion_def answered_question_of_run_def finish_and_release_def queueBlockingQuestionResume_def
    open_blocking_question_def wait_run_row_def finish_claimed_job_def releaseReconciledOwnership_def requeue_waiting_run_def
  by (intro using_up_rules)

lemma using_up_reset: "tx_keeps (using_up now) (resetInvalidQueuedClaim job lease)"
  unfolding resetInvalidQueuedClaim_def by (intro using_up_rules)

text \<open>A renewal is for the job whose lease ended: one such lease less.\<close>

lemma renewal_uses_up:
  assumes "renew_expired_lease job owner micros old d = (Inr lease, d')" "0 < micros"
  shows "using_up (db_now d) d d' \<and> expired_leases (db_now d) d' < expired_leases (db_now d) d"
proof -
  let ?p = "\<lambda>l. lse_job_id l = job_id job \<and> lse_token l = lse_token old \<and> lse_expires_at l \<le> db_now d"
  obtain f q where d': "db_leases d' = update_rows ?p f (db_leases d)" "db_work_requests d' = db_work_requests d"
    and q: "List.find ?p (db_leases d) = Some q" and f: "\<And>l. \<not> lse_expires_at (f l) \<le> db_now d"
    using assms unfolding renew_expired_lease_def gen_random_uuid_def
    by (auto simp: tx_simps)
  have less: "length (filter (\<lambda>l. lse_expires_at l \<le> db_now d) (update_rows ?p f ls)) \<le> length (filter (\<lambda>l. lse_expires_at l \<le> db_now d) ls)
      \<and> (List.find ?p ls = Some q \<longrightarrow> length (filter (\<lambda>l. lse_expires_at l \<le> db_now d) (update_rows ?p f ls)) < length (filter (\<lambda>l. lse_expires_at l \<le> db_now d) ls))" for ls
    using f by (induction ls) (auto simp: update_rows_def)
  then show ?thesis using d' q by (auto simp: using_up_def expired_leases_def pending_ids_def)
qed

lemma claim_uses_up:
  assumes "claimExpiredJobForReconciliation locked owner dur now d = (Inr found, d')"
  shows "using_up now d d' \<and> (found \<noteq> None \<longrightarrow> expired_leases now d' < expired_leases now d)"
proof (cases found)
  case None
  have "run_tx now (claim_expired_tx locked owner (Microseconds dur)) d = (Inr None, d')"
    using assms None unfolding claimExpiredJobForReconciliation_def by (auto simp: Let_def split: if_splits)
  then have run: "claim_expired_tx locked owner (Microseconds dur) (d\<lparr>db_now := now\<rparr>) = (Inr None, d')" by (simp add: tx_simps)
  obtain cand d1 where lk: "lockExpiredReconciliationCandidate locked (d\<lparr>db_now := now\<rparr>) = (Inr cand, d1)"
    using run unfolding claim_expired_tx_def by (auto simp: tx_bind_Inr)
  have d1: "d1 = d\<lparr>db_now := now\<rparr>" using lk by (auto simp: lockExpiredReconciliationCandidate_def tx_simps split: option.splits)
  show ?thesis
  proof (cases cand)
    case None
    then show ?thesis using run lk d1 using_up.clock \<open>found = None\<close> unfolding claim_expired_tx_def by (auto simp: tx_bind_Inr tx_return_eq)
  next
    case (Some c)
    obtain job run' a m old where c: "c = (job, run', a, m, old)" by (cases c) auto
    obtain b d2 where bl: "resolveExpiredBlockingQuestion job run' old (d\<lparr>db_now := now\<rparr>) = (Inr b, d2)"
      and rest: "b \<and> d' = d2 \<or> (\<exists>u. resetInvalidQueuedClaim job old d2 = (Inr u, d'))"
      using run lk d1 Some c unfolding claim_expired_tx_def by (auto simp: tx_bind_Inr tx_return_eq split: if_splits)
    show ?thesis
      using rest tx_keepsD [OF using_up_blocking bl, of now] tx_keepsD [OF using_up_reset, of job old d2 _ d' now]
        using_up.clock [of now d now] using_up.trans \<open>found = None\<close> by blast
  qed
next
  case (Some x)
  obtain job lease run' a m where x: "found = Some (job, lease, run', a, m)" using Some by (cases x) auto
  from claimExpired_Inr [OF assms [unfolded x]] obtain old where
    "renew_expired_lease job owner (Microseconds dur) old (d\<lparr>db_now := now\<rparr>) = (Inr lease, d')" "0 < Microseconds dur" by metis
  from renewal_uses_up [OF this] have "using_up now (d\<lparr>db_now := now\<rparr>) d'" "expired_leases now d' < expired_leases now (d\<lparr>db_now := now\<rparr>)"
    by simp_all
  then show ?thesis using using_up.clock [of now d now] using_up.trans by (force simp: expired_leases_def)
qed

lemma reconcileOne_uses_up:
  assumes "reconcileOne cfg locked answer now d = (Inr (None, dealt), d')"
  shows "using_up now d d' \<and> (dealt \<longrightarrow> expired_leases now d' < expired_leases now d)"
proof -
  obtain found d1 where cl: "claimExpiredJobForReconciliation locked (cfg_owner_id cfg) (cfg_lease_duration cfg) now d = (Inr found, d1)"
    using assms unfolding reconcileOne_def by (auto split: prod.splits sum.splits)
  note up = claim_uses_up [OF cl]
  show ?thesis
  proof (cases found)
    case None
    then show ?thesis using assms cl up unfolding reconcileOne_def by auto
  next
    case (Some x)
    then obtain report r where "resolveReconciliation report now d1 = (r, d')"
      using assms cl unfolding reconcileOne_def by (auto simp: Let_def split: prod.splits sum.splits if_splits)
    from using_up_resolveReconciliation [OF this, of now] up Some show ?thesis
      using using_up.trans by (force simp: using_up_def)
  qed
qed

lemma promoted_uses_up: "tx_keeps (using_up now) (promoted_row c dl)"
  unfolding promoted_row_def by (rule using_up_requests) (auto simp: pending_request_def)

interpretation using_up_requests: promotion_frame "using_up now" for now
  by unfold_locales (unfold touchAgentWorkRequestTx_def closeAgentWorkRequestTx_def,
    (intro using_up_rules promoted_uses_up using_up_requests; auto simp: pending_request_def coalesce_time_def split: option.splits)+)

lemma pending_uses_up:
  assumes "ReconcilePendingAgentWorkRequest eng now d = (Inr (ok, evs), d')"
  shows "using_up now d d'"
  using assms using_up.keeps_run_tx [OF using_up_requests.keeps_reconcile_pending]
  unfolding ReconcilePendingAgentWorkRequest_def by (auto simp: using_up.refl split: option.splits)

text \<open>What is left to do: expired leases and pending requests.\<close>

definition open_work :: "time \<Rightarrow> db \<Rightarrow> nat" where
  "open_work now d = expired_leases now d + card (pending_ids d)"

lemma using_up_open_work: "using_up now d d' \<Longrightarrow> card (pending_ids d') \<le> card (pending_ids d)"
  unfolding using_up_def by (auto intro: card_mono simp: pending_ids_def)

lemma settled_uses_up:
  assumes "ReconcilePendingAgentWorkRequest eng now d = (Inr (True, evs), d')" "distinct (map wrq_id (db_work_requests d))"
  shows "card (pending_ids d') < card (pending_ids d)"
proof -
  obtain c where c: "pending_candidate d = Some c"
    using assms(1) unfolding ReconcilePendingAgentWorkRequest_def by (auto split: option.splits)
  note s = reconcile_pending_settles [OF assms(2) c assms(1)]
  note up = pending_uses_up [OF assms(1)]
  obtain w where w: "w \<in> set (db_work_requests d')" "wrq_id w = wrq_id c" "\<not> pending_request w"
    using s(1) by (auto simp: settled_or_touched_def)
  have "distinct (map wrq_id (db_work_requests d'))" using up assms(2) by (simp add: using_up_def)
  then have "wrq_id c \<notin> pending_ids d'" using w by (auto simp: pending_ids_def dest: distinct_key_eq)
  moreover have "wrq_id c \<in> pending_ids d" using s(3,4) by (auto simp: pending_ids_def)
  ultimately have "pending_ids d' \<subset> pending_ids d" using up by (auto simp: using_up_def)
  then show ?thesis by (rule psubset_card_mono [rotated]) (simp add: pending_ids_def)
qed

lemma again_uses_up:
  assumes it: "iteration cfg engines runners locked answer now d = (Again, d')" and dist: "distinct (map wrq_id (db_work_requests d))"
  shows "open_work now d' < open_work now d" "distinct (map wrq_id (db_work_requests d'))"
proof -
  obtain h d1 where one: "reconcileOne cfg locked answer now d = (Inr (None, h), d1)"
    and rest: "h \<and> d' = d1 \<or> (\<exists>evs. ReconcilePendingAgentWorkRequest engines now d1 = (Inr (True, evs), d'))"
    using it unfolding iteration_def admit_next_def by (auto split: prod.splits sum.splits option.splits bool.splits)
  note up = reconcileOne_uses_up [OF one]
  have d1: "distinct (map wrq_id (db_work_requests d1))" using up dist by (simp add: using_up_def)
  have "open_work now d' < open_work now d \<and> distinct (map wrq_id (db_work_requests d'))"
    using rest
  proof (elim disjE exE)
    assume "h \<and> d' = d1"
    then show ?thesis using up using_up_open_work d1 by (force simp: open_work_def)
  next
    fix evs assume ok: "ReconcilePendingAgentWorkRequest engines now d1 = (Inr (True, evs), d')"
    have "card (pending_ids d') < card (pending_ids d)" using settled_uses_up [OF ok d1] up using_up_open_work by force
    moreover have "expired_leases now d' \<le> expired_leases now d" "map wrq_id (db_work_requests d') = map wrq_id (db_work_requests d1)"
      using pending_uses_up [OF ok] up by (auto simp: using_up_def)
    ultimately show ?thesis using d1 by (simp add: open_work_def)
  qed
  then show "open_work now d' < open_work now d" "distinct (map wrq_id (db_work_requests d'))" by simp_all
qed

lemma settle_returns:
  assumes "distinct (map wrq_id (db_work_requests d))"
  shows "\<exists>decision d'. settle cfg engines runners locked answer now d = Some (decision, d') \<and> decision \<noteq> Again"
  using assms
proof (induction "open_work now d" arbitrary: d rule: less_induct)
  case less
  obtain decision d' where it: "iteration cfg engines runners locked answer now d = (decision, d')" by fastforce
  show ?case
  proof (cases decision)
    case Again
    with it have "settle cfg engines runners locked answer now d = settle cfg engines runners locked answer now d'"
      by (subst settle.simps) simp
    moreover note again_uses_up [OF it [unfolded Again] less.prems]
    ultimately show ?thesis using less.hyps by metis
  next
    case Wait
    with it show ?thesis by (subst settle.simps) simp
  next
    case (Work c)
    with it show ?thesis by (subst settle.simps) simp
  qed
qed

section \<open>The loop and its workers\<close>

text \<open>Where the loop of \<open>Run\<close> is between two of its steps.\<close>

datatype loop_pc =
    Top | Reconciling claim | Launching claim | Promoting | Reserving | Admitting | Waiting | Stopped

text \<open>
  Where a worker is in \<open>process\<close>: not yet registered; with the processor at work; back from it, with
  whether it failed and its result; through, with its slot still taken; gone.
\<close>

datatype worker_pc = Launched | Processing | Returned bool processor_result | Finished | Exited

record worker =
  wk_claim :: claim
  wk_pc :: worker_pc
  wk_token :: "64 word"
  wk_cause :: "cancel_cause option"
  wk_lease_lost :: bool
  wk_heartbeat :: bool

text \<open>\<open>co_done\<close> is whether the context of \<open>Run\<close> is done; \<open>co_slots\<close> counts the entries of the channel of slots.\<close>

record coordinator =
  co_db :: db
  co_pc :: loop_pc
  co_slots :: nat
  co_workers :: "worker list"
  co_registry :: registry
  co_done :: bool

definition launchWorker :: "claim \<Rightarrow> worker" where
  "launchWorker c = \<lparr>wk_claim = c, wk_pc = Launched, wk_token = 0, wk_cause = None, wk_lease_lost = False, wk_heartbeat = False\<rparr>"

text \<open>The cause of a context is the first one it is cancelled with.\<close>

definition cancel_with :: "cancel_cause \<Rightarrow> worker \<Rightarrow> worker" where
  "cancel_with cause w = w\<lparr>wk_cause := (case wk_cause w of None \<Rightarrow> Some cause | Some first \<Rightarrow> Some first)\<rparr>"

definition set_worker :: "nat \<Rightarrow> worker \<Rightarrow> coordinator \<Rightarrow> coordinator" where
  "set_worker i w s = s\<lparr>co_workers := (co_workers s)[i := w]\<rparr>"

definition unregister_worker :: "worker \<Rightarrow> coordinator \<Rightarrow> coordinator" where
  "unregister_worker w s = s\<lparr>co_registry := unregisterActiveRun (claim_key (wk_claim w)) (wk_token w) (co_registry s)\<rparr>"

text \<open>
  The steps: of the loop, of a worker \<open>i\<close> and its heartbeat, of a caller of \<open>CancelRun\<close>, of the other
  clients of the store, and the end of the context.
\<close>

inductive coord_step :: "config \<Rightarrow> coordinator \<Rightarrow> coordinator \<Rightarrow> bool" for cfg where
  return: "co_pc s \<in> {Top, Reserving, Waiting} \<union> range Launching \<Longrightarrow> co_done s \<Longrightarrow> coord_step cfg s (s\<lparr>co_pc := Stopped\<rparr>)"
| claim: "co_pc s = Top \<Longrightarrow> \<not> co_done s \<Longrightarrow>
    claimExpiredJobForReconciliation locked (cfg_owner_id cfg) (cfg_lease_duration cfg) now (co_db s) = (r, d) \<Longrightarrow>
    pc = (case r of Inl _ \<Rightarrow> Waiting | Inr None \<Rightarrow> Promoting | Inr (Some (j, l, x, _, _)) \<Rightarrow> Reconciling (j, l, x)) \<Longrightarrow>
    coord_step cfg s (s\<lparr>co_db := d, co_pc := pc\<rparr>)"
| report: "co_pc s = Reconciling c \<Longrightarrow> resolveReconciliation (report_of c answer) now (co_db s) = (r, d) \<Longrightarrow>
    pc = (case r of Inl _ \<Rightarrow> Waiting | Inr _ \<Rightarrow> if rcn_outcome (report_of c answer) = OutcomeActive then Launching c else Top) \<Longrightarrow>
    coord_step cfg s (s\<lparr>co_db := d, co_pc := pc\<rparr>)"
| start: "co_pc s = Launching c \<Longrightarrow> int (co_slots s) < cfg_max_in_flight cfg \<Longrightarrow>
    coord_step cfg s (s\<lparr>co_slots := Suc (co_slots s), co_workers := co_workers s @ [launchWorker c], co_pc := Top\<rparr>)"
| promote: "co_pc s = Promoting \<Longrightarrow> ReconcilePendingAgentWorkRequest engines now (co_db s) = (r, d) \<Longrightarrow>
    pc = (case r of Inl _ \<Rightarrow> Waiting | Inr (True, _) \<Rightarrow> Top | Inr (False, _) \<Rightarrow> Reserving) \<Longrightarrow>
    coord_step cfg s (s\<lparr>co_db := d, co_pc := pc\<rparr>)"
| reserve: "co_pc s = Reserving \<Longrightarrow> int (co_slots s) < cfg_max_in_flight cfg \<Longrightarrow>
    coord_step cfg s (s\<lparr>co_slots := Suc (co_slots s), co_pc := Admitting\<rparr>)"
| admit_none: "co_pc s = Admitting \<Longrightarrow>
    AdmitNextJob runners locked (cfg_owner_id cfg) (cfg_lease_duration cfg) (cfg_capacity_backoff cfg) now (co_db s) = (r, d) \<Longrightarrow>
    (case r of Inr (Some _) \<Rightarrow> False | _ \<Rightarrow> True) \<Longrightarrow>
    coord_step cfg s (s\<lparr>co_db := d, co_slots := co_slots s - 1, co_pc := Waiting\<rparr>)"
| admit: "co_pc s = Admitting \<Longrightarrow>
    AdmitNextJob runners locked (cfg_owner_id cfg) (cfg_lease_duration cfg) (cfg_capacity_backoff cfg) now (co_db s) = (Inr (Some adm), d) \<Longrightarrow>
    coord_step cfg s (s\<lparr>co_db := d, co_workers := co_workers s @ [launchWorker (adm_job adm, adm_lease adm, adm_run adm)], co_pc := Top\<rparr>)"
| tick: "co_pc s = Waiting \<Longrightarrow> coord_step cfg s (s\<lparr>co_pc := Top\<rparr>)"
| register: "i < length (co_workers s) \<Longrightarrow> w = co_workers s ! i \<Longrightarrow> wk_pc w = Launched \<Longrightarrow>
    registerActiveRun (claim_key (wk_claim w)) i (co_registry s) = (token, reg) \<Longrightarrow>
    coord_step cfg s (set_worker i (w\<lparr>wk_pc := Processing, wk_token := token, wk_heartbeat := True,
      wk_cause := (if co_done s then Some ContextCanceled else None)\<rparr>) (s\<lparr>co_registry := reg\<rparr>))"
| running: "i < length (co_workers s) \<Longrightarrow> wk_pc (co_workers s ! i) = Processing \<Longrightarrow>
    transitionAdmittedJob (claim_transition (wk_claim (co_workers s ! i)) RUN_RUNNING None) now (co_db s) = (r, d) \<Longrightarrow>
    coord_step cfg s (s\<lparr>co_db := d\<rparr>)"
| heartbeat: "i < length (co_workers s) \<Longrightarrow> w = co_workers s ! i \<Longrightarrow> wk_heartbeat w \<Longrightarrow> wk_claim w = (j, l, x) \<Longrightarrow>
    RenewLease (job_project_id j) (job_id j) (lse_token l) (cfg_lease_duration cfg) now (co_db s) = (r, d) \<Longrightarrow>
    w' = (case r of Inr _ \<Rightarrow> w
      | Inl _ \<Rightarrow> if co_done s then w\<lparr>wk_heartbeat := False\<rparr>
                 else cancel_with LeaseError (w\<lparr>wk_lease_lost := True, wk_heartbeat := False\<rparr>)) \<Longrightarrow>
    coord_step cfg s (set_worker i w' (s\<lparr>co_db := d\<rparr>))"
| heartbeat_done: "i < length (co_workers s) \<Longrightarrow> w = co_workers s ! i \<Longrightarrow> co_done s \<or> (\<exists>failed result. wk_pc w = Returned failed result) \<Longrightarrow>
    coord_step cfg s (set_worker i (w\<lparr>wk_heartbeat := False\<rparr>) s)"
| processed: "i < length (co_workers s) \<Longrightarrow> w = co_workers s ! i \<Longrightarrow> wk_pc w = Processing \<Longrightarrow>
    coord_step cfg s (set_worker i (w\<lparr>wk_pc := Returned failed result\<rparr>) (unregister_worker w s))"
| drop: "i < length (co_workers s) \<Longrightarrow> w = co_workers s ! i \<Longrightarrow> wk_pc w = Returned failed result \<Longrightarrow> \<not> wk_heartbeat w \<Longrightarrow>
    final_result (wk_cause w) failed (wk_lease_lost w) result = None \<Longrightarrow>
    coord_step cfg s (set_worker i (w\<lparr>wk_pc := Finished\<rparr>) s)"
| persist: "i < length (co_workers s) \<Longrightarrow> w = co_workers s ! i \<Longrightarrow> wk_pc w = Returned failed result \<Longrightarrow> \<not> wk_heartbeat w \<Longrightarrow>
    final_result (wk_cause w) failed (wk_lease_lost w) result = Some outcome \<Longrightarrow>
    transitionAdmittedJob (claim_transition (wk_claim w) (prs_run_status outcome) (prs_failure_reason outcome)) now (co_db s) = (r, d) \<Longrightarrow>
    coord_step cfg s (set_worker i (w\<lparr>wk_pc := Finished\<rparr>) (s\<lparr>co_db := d\<rparr>))"
| exit: "i < length (co_workers s) \<Longrightarrow> w = co_workers s ! i \<Longrightarrow> wk_pc w = Finished \<Longrightarrow>
    coord_step cfg s (set_worker i (w\<lparr>wk_pc := Exited\<rparr>) ((unregister_worker w s)\<lparr>co_slots := co_slots s - 1\<rparr>))"
| cancel: "CancelRun projectID runID (co_registry s) = Some i \<Longrightarrow> i < length (co_workers s) \<Longrightarrow>
    coord_step cfg s (set_worker i (cancel_with ErrRunCancellation (co_workers s ! i)) s)"
| shutdown: "coord_step cfg s (s\<lparr>co_done := True, co_workers := map (cancel_with ContextCanceled) (co_workers s)\<rparr>)"
| client: "store_step (co_db s) d \<Longrightarrow> coord_step cfg s (s\<lparr>co_db := d\<rparr>)"

text \<open>\<open>New\<close> and the first steps of \<open>Run\<close>: nothing is registered and every slot is free.\<close>

definition started :: "db \<Rightarrow> coordinator" where
  "started d = \<lparr>co_db = d, co_pc = Top, co_slots = 0, co_workers = [],
     co_registry = \<lparr>reg_seq = 0, reg_active = []\<rparr>, co_done = False\<rparr>"

section \<open>The coordinator is well-formed\<close>

text \<open>Every taken slot is a worker's or the one reserved for an admission, within the configured limit.\<close>

definition live_workers :: "worker list \<Rightarrow> nat" where
  "live_workers ws = length (filter (\<lambda>w. wk_pc w \<noteq> Exited) ws)"

definition slots_ok :: "config \<Rightarrow> coordinator \<Rightarrow> bool" where
  "slots_ok cfg s \<longleftrightarrow> co_slots s = live_workers (co_workers s) + (if co_pc s = Admitting then 1 else 0) \<and>
     int (co_slots s) \<le> cfg_max_in_flight cfg"

text \<open>A registration is of a worker whose processor is at work on the Run of that key.\<close>

definition registration_ok :: "worker list \<Rightarrow> string \<times> active_run \<Rightarrow> bool" where
  "registration_ok ws e = (case e of (key, token, i) \<Rightarrow>
     i < length ws \<and> wk_pc (ws ! i) = Processing \<and> wk_token (ws ! i) = token \<and> claim_key (wk_claim (ws ! i)) = key \<and> token \<noteq> 0)"

definition registry_ok :: "worker list \<Rightarrow> registry \<Rightarrow> bool" where
  "registry_ok ws reg \<longleftrightarrow> distinct (map fst (reg_active reg)) \<and> list_all (registration_ok ws) (reg_active reg) \<and>
     unat (reg_seq reg) = length (filter (\<lambda>w. wk_pc w \<noteq> Launched) ws)"

lemma length_filter_update:
  "i < length xs \<Longrightarrow> length (filter p (xs[i := x])) + (if p (xs ! i) then 1 else 0) =
     length (filter p xs) + (if p x then 1 else 0)"
proof (induction xs arbitrary: i)
  case (Cons y ys)
  then show ?case by (cases i) auto
qed simp

lemma live_workers_update:
  "i < length ws \<Longrightarrow> wk_pc w \<noteq> Exited \<Longrightarrow> wk_pc (ws ! i) \<noteq> Exited \<Longrightarrow> live_workers (ws[i := w]) = live_workers ws"
  "i < length ws \<Longrightarrow> wk_pc w = wk_pc (ws ! i) \<Longrightarrow> live_workers (ws[i := w]) = live_workers ws"
  "i < length ws \<Longrightarrow> wk_pc w = Exited \<Longrightarrow> wk_pc (ws ! i) \<noteq> Exited \<Longrightarrow> Suc (live_workers (ws[i := w])) = live_workers ws"
  using length_filter_update [of i ws "\<lambda>w. wk_pc w \<noteq> Exited" w] by (auto simp: live_workers_def split: if_splits)

lemma cancel_with_fields [simp]:
  "wk_pc (cancel_with c w) = wk_pc w" "wk_token (cancel_with c w) = wk_token w" "wk_claim (cancel_with c w) = wk_claim w"
  by (simp_all add: cancel_with_def)

lemma registry_ok_replace:
  assumes "registry_ok ws reg" "i < length ws"
    and "wk_pc w = wk_pc (ws ! i) \<and> wk_token w = wk_token (ws ! i) \<and> wk_claim w = wk_claim (ws ! i) \<or>
       wk_pc (ws ! i) \<notin> {Processing, Launched} \<and> wk_pc w \<noteq> Launched"
  shows "registry_ok (ws[i := w]) reg"
  using assms length_filter_update [of i ws "\<lambda>w. wk_pc w \<noteq> Launched" w]
  by (auto simp: registry_ok_def registration_ok_def list_all_iff nth_list_update split: if_splits)

lemma registry_ok_append: "registry_ok ws reg \<Longrightarrow> wk_pc w = Launched \<Longrightarrow> registry_ok (ws @ [w]) reg"
  by (auto simp: registry_ok_def registration_ok_def list_all_iff nth_append)

lemma registry_ok_map:
  assumes "registry_ok ws reg" "\<And>w. wk_pc (f w) = wk_pc w \<and> wk_token (f w) = wk_token w \<and> wk_claim (f w) = wk_claim w"
  shows "registry_ok (map f ws) reg"
  using assms by (auto simp: registry_ok_def registration_ok_def list_all_iff filter_map comp_def)

lemma updated_entry: "e \<in> set (AList.update k v al) \<Longrightarrow> e = (k, v) \<or> e \<in> set al"
  by (induction al) (auto split: if_splits)

lemma registry_ok_register:
  assumes ok: "registry_ok ws reg" and i: "i < length ws" "wk_pc (ws ! i) = Launched" and few: "length ws < 2 ^ 64"
    and reg: "registerActiveRun (claim_key (wk_claim (ws ! i))) i reg = (token, reg')"
    and w: "wk_pc w = Processing" "wk_token w = token" "wk_claim w = wk_claim (ws ! i)"
  shows "registry_ok (ws[i := w]) reg'"
proof -
  let ?key = "claim_key (wk_claim (ws ! i))"
  have n: "length (filter (\<lambda>w. wk_pc w \<noteq> Launched) (ws[i := w])) = Suc (length (filter (\<lambda>w. wk_pc w \<noteq> Launched) ws))"
    using length_filter_update [of i ws "\<lambda>w. wk_pc w \<noteq> Launched" w] i w by simp
  have "length (filter (\<lambda>w. wk_pc w \<noteq> Launched) (ws[i := w])) \<le> length ws"
    by (metis length_filter_le length_list_update)
  then have small: "Suc (unat (reg_seq reg)) < 2 ^ 64" using n ok few by (simp add: registry_ok_def)
  have token: "token = reg_seq reg + 1" "reg' = \<lparr>reg_seq = token, reg_active = AList.update ?key (token, i) (reg_active reg)\<rparr>"
    using reg by (auto simp: registerActiveRun_def Let_def)
  have seq: "unat token = Suc (unat (reg_seq reg))" using unat_add_lem [of "reg_seq reg" 1] small unfolding token(1) by simp
  then have "token \<noteq> 0" by auto
  have "registration_ok (ws[i := w]) e" if e: "e \<in> set (AList.update ?key (token, i) (reg_active reg))" for e
  proof (cases "e = (?key, token, i)")
    case True
    then show ?thesis using i w \<open>token \<noteq> 0\<close> by (simp add: registration_ok_def)
  next
    case False
    then have "registration_ok ws e" using updated_entry [OF e] ok by (auto simp: registry_ok_def list_all_iff)
    then show ?thesis using i by (cases e) (auto simp: registration_ok_def nth_list_update)
  qed
  then show ?thesis
    using ok seq n unfolding token(2) by (simp add: registry_ok_def list_all_iff distinct_update)
qed

lemma registry_ok_unregister:
  assumes ok: "registry_ok ws reg" and i: "i < length ws" "wk_pc (ws ! i) = Processing" and w: "wk_pc w \<notin> {Launched, Processing}"
  shows "registry_ok (ws[i := w]) (unregisterActiveRun (claim_key (wk_claim (ws ! i))) (wk_token (ws ! i)) reg)"
proof -
  let ?key = "claim_key (wk_claim (ws ! i))" and ?token = "wk_token (ws ! i)"
  let ?reg = "unregisterActiveRun ?key ?token reg"
  have sub: "set (reg_active ?reg) \<subseteq> set (reg_active reg)" "distinct (map fst (reg_active ?reg))" "reg_seq ?reg = reg_seq reg"
    using ok by (auto simp: registry_ok_def unregisterActiveRun_def AList.delete_eq distinct_map_filter split: option.splits)
  have "k \<noteq> i" if e: "(key, token, k) \<in> set (reg_active ?reg)" for key token k
  proof
    assume "k = i"
    then have "registration_ok ws (key, token, i)" "(key, token, i) \<in> set (reg_active reg)"
      using e sub(1) ok by (auto simp: registry_ok_def list_all_iff)
    then have "map_of (reg_active reg) ?key = Some (?token, i)" "?token \<noteq> 0" "key = ?key"
      using ok by (auto simp: registry_ok_def registration_ok_def)
    then show False using e by (auto simp: unregisterActiveRun_def AList.delete_eq)
  qed
  then show ?thesis
    using ok sub i w length_filter_update [of i ws "\<lambda>w. wk_pc w \<noteq> Launched" w]
    by (fastforce simp: registry_ok_def list_all_iff registration_ok_def nth_list_update)
qed

lemma registry_ok_unregister_again:
  assumes ok: "registry_ok ws reg"
  shows "registry_ok ws (unregisterActiveRun key token reg)"
  using ok by (auto simp: registry_ok_def unregisterActiveRun_def AList.delete_eq distinct_map_filter list_all_iff split: option.splits)

lemma coord_store_steps: "coord_step cfg s s' \<Longrightarrow> store_steps (co_db s) (co_db s')"
  by (induction rule: coord_step.induct)
    (auto simp: set_worker_def unregister_worker_def intro!: r_into_rtranclp [of store_step] intro: store_step.intros)

lemma coord_slots:
  assumes "coord_step cfg s s'" "slots_ok cfg s"
  shows "slots_ok cfg s'"
  using assms
proof (induction rule: coord_step.induct)
  case (exit i s w)
  then show ?case using live_workers_update(3) [of i "co_workers s" "w\<lparr>wk_pc := Exited\<rparr>"]
    by (auto simp: slots_ok_def set_worker_def unregister_worker_def)
next
  case (heartbeat i s w j l x now r d w')
  then show ?case using live_workers_update(2) [of i "co_workers s" w']
    by (auto simp: slots_ok_def set_worker_def split: sum.splits if_splits)
next
  case (claim s locked now r d pc)
  then show ?case by (auto simp: slots_ok_def split: sum.splits option.splits prod.splits)
next
  case (shutdown s)
  then show ?case by (simp add: slots_ok_def live_workers_def filter_map comp_def)
qed (auto simp: slots_ok_def set_worker_def unregister_worker_def live_workers_update live_workers_def launchWorker_def
    live_workers_update [unfolded live_workers_def]
    split: sum.splits if_splits prod.splits bool.splits)

lemma coord_grows: "coord_step cfg s s' \<Longrightarrow> length (co_workers s) \<le> length (co_workers s')"
  by (induction rule: coord_step.induct) (auto simp: set_worker_def unregister_worker_def)

lemma coord_registry:
  assumes "coord_step cfg s s'" "registry_ok (co_workers s) (co_registry s)" "length (co_workers s) < 2 ^ 64"
  shows "registry_ok (co_workers s') (co_registry s')"
  using assms
proof (induction rule: coord_step.induct)
  case (register i s w token reg)
  then show ?case by (simp add: set_worker_def registry_ok_register)
next
  case (processed i s w failed result)
  then show ?case by (simp add: set_worker_def unregister_worker_def registry_ok_unregister)
next
  case (heartbeat i s w j l x now r d w')
  then show ?case by (auto simp: set_worker_def intro!: registry_ok_replace split: sum.splits if_splits)
next
  case (exit i s w)
  then show ?case by (auto simp: set_worker_def unregister_worker_def intro!: registry_ok_replace registry_ok_unregister_again)
next
  case (shutdown s)
  then show ?case by (simp add: registry_ok_map)
qed (auto simp: set_worker_def launchWorker_def intro!: registry_ok_replace registry_ok_append)

text \<open>What holds of every state the coordinator gets into.\<close>

definition coord_ok :: "config \<Rightarrow> coordinator \<Rightarrow> bool" where
  "coord_ok cfg s \<longleftrightarrow> slots_ok cfg s \<and> (length (co_workers s) < 2 ^ 64 \<longrightarrow> registry_ok (co_workers s) (co_registry s)) \<and>
     sched_wf (co_db s)"

lemma coord_ok_started: "0 \<le> cfg_max_in_flight cfg \<Longrightarrow> sched_wf d \<Longrightarrow> coord_ok cfg (started d)"
  by (simp add: coord_ok_def started_def slots_ok_def live_workers_def registry_ok_def)

lemma coord_ok_step: "coord_step cfg s s' \<Longrightarrow> coord_ok cfg s \<Longrightarrow> coord_ok cfg s'"
  using coord_slots coord_registry coord_grows store_steps_wf [OF coord_store_steps]
  unfolding coord_ok_def by (meson le_less_trans)

lemma coord_ok_steps: "(coord_step cfg)\<^sup>*\<^sup>* s s' \<Longrightarrow> coord_ok cfg s \<Longrightarrow> coord_ok cfg s'"
  by (induction rule: rtranclp_induct) (auto dest: coord_ok_step)

lemma cancel_reaches_worker:
  assumes "registry_ok ws reg" "CancelRun p r reg = Some i"
  shows "i < length ws" "wk_pc (ws ! i) = Processing" "claim_key (wk_claim (ws ! i)) = activeRunKey p r"
  using assms by (auto simp: CancelRun_def registry_ok_def list_all_iff registration_ok_def split: if_splits dest!: map_of_SomeD)


text \<open>
  C30. The loop of the coordinator does not spin: from any state of the store, with the clock at one instant,
  it takes over expired claims and settles pending requests finitely often, and then waits or
  launches a worker. Each time around it uses up an expired lease or a pending request, and nothing it
  calls adds one.
\<close>

theorem loop_settles:
  assumes "distinct (map wrq_id (db_work_requests d))"
  shows "\<exists>decision d'. settle cfg engines runners locked answer now d = Some (decision, d') \<and> decision \<noteq> Again"
  by (rule settle_returns [OF assms])

section \<open>Witnesses\<close>

definition sample_config :: config where
  "sample_config = (DefaultConfig ''srv'')\<lparr>cfg_lease_duration := 1000000, cfg_heartbeat_interval := 500000,
     cfg_capacity_backoff := 1000000, cfg_max_in_flight := 1\<rparr>"

text \<open>The loop finds nothing expired and nothing pending, reserves the only slot, admits the job and the worker registers.\<close>

lemma sample_loop:
  "\<exists>s. (coord_step sample_config)\<^sup>*\<^sup>* (started sample_queued) s \<and> length (co_workers s) = 1 \<and>
     CancelRun ''p1'' ''r1'' (co_registry s) = Some 0"
proof (rule sample_admission)
  fix adm d'
  assume run: "AdmitNextJob (Some (\<lambda>_. [''n1''])) (\<lambda>_. False) ''srv'' 1000000 1000000 50 sample_queued = (Inr (Some adm), d')"
  have ids: "job_project_id (adm_job adm) = ''p1''" "run_id (adm_run adm) = ''r1''"
    by (rule AdmitNextJob_Some [OF run]; auto simp: claimable_def same_claim_def job_on_def sample_eval)+
  let ?s = "started sample_queued" and ?step = "(coord_step sample_config)\<^sup>*\<^sup>*"
  have c: "claimExpiredJobForReconciliation (\<lambda>_. False) ''srv'' 1000000 (db_now sample_queued) sample_queued = (Inr None, sample_queued)"
    by (simp add: takeover_run sample_eval)
  have p: "ReconcilePendingAgentWorkRequest None 50 sample_queued = (Inr (False, []), sample_queued)"
    by (simp add: ReconcilePendingAgentWorkRequest_def pending_candidate_def sample_eval first_by_def)
  have "?step ?s (?s\<lparr>co_pc := Promoting\<rparr>)"
    using coord_step.claim [of ?s "\<lambda>_. False" sample_config "db_now sample_queued" "Inr None" sample_queued Promoting] c
    by (auto simp: started_def sample_config_def DefaultConfig_def)
  also have "?step \<dots> (?s\<lparr>co_pc := Reserving\<rparr>)"
    using coord_step.promote [of "?s\<lparr>co_pc := Promoting\<rparr>" None 50 "Inr (False, [])" sample_queued Reserving sample_config] p
    by (auto simp: started_def)
  also have "?step \<dots> (?s\<lparr>co_pc := Admitting, co_slots := 1\<rparr>)"
    using coord_step.reserve [of "?s\<lparr>co_pc := Reserving\<rparr>" sample_config] by (auto simp: started_def sample_config_def)
  also have "?step \<dots> (?s\<lparr>co_pc := Top, co_slots := 1, co_db := d', co_workers := [launchWorker (adm_job adm, adm_lease adm, adm_run adm)]\<rparr>)"
    using coord_step.admit [of "?s\<lparr>co_pc := Admitting, co_slots := 1\<rparr>" "Some (\<lambda>_. [''n1''])" "\<lambda>_. False" sample_config 50 adm d'] run
    by (auto simp: started_def sample_config_def DefaultConfig_def)
  finally have at: "?step ?s (?s\<lparr>co_pc := Top, co_slots := 1, co_db := d', co_workers := [launchWorker (adm_job adm, adm_lease adm, adm_run adm)]\<rparr>)" .
  have "\<exists>s. coord_step sample_config (?s\<lparr>co_pc := Top, co_slots := 1, co_db := d', co_workers := [launchWorker (adm_job adm, adm_lease adm, adm_run adm)]\<rparr>) s \<and>
      length (co_workers s) = 1 \<and> CancelRun ''p1'' ''r1'' (co_registry s) = Some 0"
    by (rule exI, rule conjI, rule coord_step.register [where i = 0])
      (auto simp: started_def launchWorker_def registerActiveRun_def Let_def set_worker_def CancelRun_def claim_key_def ids
        activeRunKey_def sample_texts)
  with at show ?thesis by (meson rtranclp.rtrancl_into_rtrancl)
qed


theorem loop_settles_witness:
  "\<exists>decision d'. settle sample_config None None (\<lambda>_. False) (\<lambda>_. Inl ''down'') 200 sample_claimed = Some (decision, d') \<and> decision \<noteq> Again"
proof -
  have "distinct (map wrq_id (db_work_requests sample_claimed))" by (simp add: sample_states sample_eval)
  then show ?thesis by (rule loop_settles)
qed

end
