(* ===== verification/Administrators.thy ===== *)
theory Administrators
  imports Identity_Steps
begin

text \<open>
  Every project that has an active direct administrator keeps one, and the deployment keeps an active administrator,
  whatever sequence of operations on users and grants runs: the frame \<open>keeps_admins\<close> of the identity steps.
\<close>

section \<open>Administrators\<close>

definition users_wf :: "db \<Rightarrow> bool" where
  "users_wf d \<longleftrightarrow> distinct (map usr_id (db_users d))"

definition project_administered :: "db \<Rightarrow> id \<Rightarrow> bool" where
  "project_administered d p \<longleftrightarrow> (\<exists>g\<in>set (db_user_access d). grn_project_id g = p \<and> grn_role g = ProjectRoleAdmin \<and>
     active_user d (grn_grantee_id g))"

definition active_admin :: "user \<Rightarrow> bool" where
  "active_admin u \<longleftrightarrow> usr_deployment_role u = DeploymentRoleAdmin \<and> usr_status u = UserStatusActive"

definition deployment_administered :: "db \<Rightarrow> bool" where
  "deployment_administered d \<longleftrightarrow> (\<exists>u\<in>set (db_users d). active_admin u)"

definition keeps_admins :: "db \<Rightarrow> db \<Rightarrow> bool" where
  "keeps_admins d d' \<longleftrightarrow> (users_wf d \<longrightarrow> users_wf d' \<and> (\<forall>p. project_administered d p \<longrightarrow> project_administered d' p) \<and>
     (deployment_administered d \<longrightarrow> deployment_administered d'))"

lemma keeps_adminsI:
  assumes "users_wf d \<Longrightarrow> users_wf d'" "set (db_user_access d) \<subseteq> set (db_user_access d')"
    and "\<And>u. u \<in> set (db_users d) \<Longrightarrow> usr_status u = UserStatusActive \<Longrightarrow>
      \<exists>u'\<in>set (db_users d'). usr_id u' = usr_id u \<and> usr_status u' = UserStatusActive \<and> usr_deployment_role u' = usr_deployment_role u"
  shows "keeps_admins d d'"
  unfolding keeps_admins_def
proof (intro impI conjI allI)
  assume "users_wf d"
  then show "users_wf d'" by (rule assms(1))
  have active: "active_user d' x" if x: "active_user d x" for x
  proof -
    obtain u where "u \<in> set (db_users d)" "usr_id u = x" "usr_status u = UserStatusActive" using x by (auto simp: active_user_def)
    then show ?thesis using assms(3) [of u] by (auto simp: active_user_def)
  qed
  show "project_administered d' p" if "project_administered d p" for p
    using that active assms(2) unfolding project_administered_def by blast
  show "deployment_administered d'" if dep: "deployment_administered d"
  proof -
    obtain u where "u \<in> set (db_users d)" "active_admin u" using dep by (auto simp: deployment_administered_def)
    then show ?thesis using assms(3) [of u] by (auto simp: deployment_administered_def active_admin_def)
  qed
qed

lemma keeps_admins_same: "db_users d' = db_users d \<Longrightarrow> db_user_access d' = db_user_access d \<Longrightarrow> keeps_admins d d'"
  by (simp add: keeps_admins_def users_wf_def project_administered_def deployment_administered_def active_user_def)

interpretation admins: db_frame keeps_admins
proof
  show "keeps_admins d d" for d by (rule keeps_admins_same) simp_all
  show "keeps_admins a c" if "keeps_admins a b" "keeps_admins b c" for a b c using that by (simp add: keeps_admins_def)
  show "keeps_admins d (d\<lparr>db_now := t\<rparr>)" "keeps_admins d (d\<lparr>db_uuid_next := n\<rparr>)" for d t n by (rule keeps_admins_same; simp)+
qed

lemmas admins_rules = admins.keeps_intros admins.keeps_uuid

text \<open>An update of users that keeps their key, their role and that they are active.\<close>

lemma admins_users:
  assumes "\<And>d u. usr_id (f d u) = usr_id u" "\<And>d u. usr_deployment_role (f d u) = usr_deployment_role u"
    and "\<And>d u. usr_status u = UserStatusActive \<Longrightarrow> usr_status (f d u) = UserStatusActive"
  shows "tx_keeps keeps_admins (sql_update_checked db_users db_users_update user_unique user_check p f)"
proof (rule tx_keepsI)
  fix d u d' assume "sql_update_checked db_users db_users_update user_unique user_check p f d = (Inr u, d')"
  then have d': "db_users d' = update_rows (p d) (f d) (db_users d)" "db_user_access d' = db_user_access d" by (auto simp: tx_simps)
  show "keeps_admins d d'"
  proof (rule keeps_adminsI)
    show "users_wf d'" if "users_wf d" using that by (simp add: users_wf_def d' map_update_rows assms(1))
    show "\<exists>u'\<in>set (db_users d'). usr_id u' = usr_id u \<and> usr_status u' = UserStatusActive \<and> usr_deployment_role u' = usr_deployment_role u"
      if "u \<in> set (db_users d)" "usr_status u = UserStatusActive" for u
      using that assms unfolding d' by (intro bexI [of _ "if p d u then f d u else u"]) (auto simp: in_update_rows)
  qed (simp add: d')
qed

text \<open>A change of status: the guards find another administrator for every project and for the deployment.\<close>

lemma other_admin_stays:
  assumes "users_wf d" "db_users d' = update_rows (\<lambda>u. usr_id u = userID) f (db_users d)" "active_user d x" "x \<noteq> userID"
  shows "active_user d' x"
proof -
  obtain r where "r \<in> set (db_users d)" "usr_id r = x" "usr_status r = UserStatusActive" using assms(3) by (auto simp: active_user_def)
  moreover from this have "r \<in> set (db_users d')" unfolding assms(2) by (intro unmatched_row) (use assms(4) in auto)
  ultimately show ?thesis by (auto simp: active_user_def)
qed

lemma keep_project_admins_Inr:
  assumes "keep_project_admins current status d = (Inr u, d')" "usr_status current = UserStatusActive" "status \<noteq> UserStatusActive"
    and "project_administered d p"
  shows "d' = d" "\<exists>g\<in>set (db_user_access d). grn_project_id g = p \<and> grn_role g = ProjectRoleAdmin \<and>
     grn_grantee_id g \<noteq> usr_id current \<and> active_user d (grn_grantee_id g)"
  using assms unfolding keep_project_admins_def userIsSoleActiveDirectAdmin_def project_administered_def
  by (auto simp: tx_simps)

lemma keep_deployment_admin_Inr:
  assumes "keep_deployment_admin current status d = (Inr u, d')" "active_admin current" "status \<noteq> UserStatusActive"
    and "users_wf d" "current \<in> set (db_users d)"
  shows "\<exists>v\<in>set (db_users d). active_admin v \<and> usr_id v \<noteq> usr_id current"
proof (rule ccontr)
  assume none: "\<not> ?thesis"
  have "v = current" if "v \<in> set (db_users d)" "active_admin v" for v
    using that(1) assms(5) by (rule distinct_key_eq [OF assms(4) [unfolded users_wf_def]]) (use none that in auto)
  then have "set (filter active_admin (db_users d)) \<subseteq> {current}" by auto
  moreover have "distinct (filter active_admin (db_users d))" using assms(4) by (simp add: users_wf_def distinct_map)
  ultimately have "length (filter active_admin (db_users d)) \<le> 1"
    by (metis card.empty card_insert_disjoint card_mono distinct_card empty_iff finite.emptyI finite_insert One_nat_def)
  moreover have "1 < count_rows active_admin (db_users d)"
    using assms(1-3) by (auto simp: keep_deployment_admin_def active_admin_def [abs_def] tx_simps)
  ultimately show False by (simp add: count_rows_def)
qed

lemma admins_status: "tx_keeps keeps_admins (set_status_user_tx userID status derive)"
proof (rule tx_keepsI)
  fix d v d' assume run: "set_status_user_tx userID status derive d = (Inr v, d')"
  obtain current where cur: "current \<in> set (db_users d)" "usr_id current = userID" and
    step: "(let st = (if derive \<and> usr_password_hash current = None then UserStatusPending else status) in
     if usr_status current = st then tx_return current
     else
       tx_bind (keep_project_admins current st) (\<lambda>_.
       tx_bind (keep_deployment_admin current st) (\<lambda>_.
       tx_bind (sql_update_checked db_users db_users_update user_unique user_check (\<lambda>d u. usr_id u = userID)
                  (\<lambda>d u. u\<lparr>usr_status := st, usr_auth_version := usr_auth_version u + 1, usr_updated_at := db_now d\<rparr>)) (\<lambda>value.
       tx_bind (revoke_sessions PgError userID db_now) (\<lambda>_.
       tx_return value))))) d = (Inr v, d')"
    using run unfolding set_status_user_tx_def by (auto simp: tx_bind_Inr sql_find_Inr dest!: find_Some_in)
  define st where "st = (if derive \<and> usr_password_hash current = None then UserStatusPending else status)"
  show "keeps_admins d d'"
  proof (cases "usr_status current = st")
    case True
    then show ?thesis using step by (simp add: st_def [symmetric] Let_def tx_simps admins.refl)
  next
    case False
    let ?f = "\<lambda>u. u\<lparr>usr_status := st, usr_auth_version := usr_auth_version u + 1, usr_updated_at := db_now d\<rparr>"
    obtain u1 d1 u2 d2 n where g1: "keep_project_admins current st d = (Inr u1, d1)" and g2: "keep_deployment_admin current st d1 = (Inr u2, d2)"
      and d': "d1 = d" "d2 = d" "db_users d' = update_rows (\<lambda>u. usr_id u = userID) ?f (db_users d)" "db_user_access d' = db_user_access d"
      using step False unfolding st_def [symmetric] Let_def revoke_sessions_def keep_project_admins_def userIsSoleActiveDirectAdmin_def
        keep_deployment_admin_def
      by (auto simp: tx_simps split: if_splits)
    show ?thesis unfolding keeps_admins_def
    proof (intro impI conjI allI)
      assume wf: "users_wf d"
      show "users_wf d'" using wf by (simp add: users_wf_def d' map_update_rows)
      show "project_administered d' p" if adm: "project_administered d p" for p
      proof (cases "usr_status current = UserStatusActive \<and> st \<noteq> UserStatusActive")
        case True
        then show ?thesis
          using keep_project_admins_Inr(2) [OF g1 _ _ adm] other_admin_stays [OF wf d'(3)] cur(2) d'(4)
          unfolding project_administered_def by metis
      next
        case False
        have active: "active_user d' x" if x: "active_user d x" for x
        proof (cases "x = userID")
          case True
          obtain r where r: "r \<in> set (db_users d)" "usr_id r = x" "usr_status r = UserStatusActive" using x by (auto simp: active_user_def)
          then have "r = current" using cur True by (intro distinct_key_eq [OF wf [unfolded users_wf_def]]) auto
          then have "st = UserStatusActive" using False r(3) by simp
          moreover have "?f r \<in> set (db_users d')" unfolding d'(3) by (rule matched_row) (use r True in auto)
          ultimately show ?thesis using r unfolding active_user_def by (auto intro!: bexI [of _ "?f r"])
        next
          case False
          then show ?thesis using other_admin_stays [OF wf d'(3) x] by simp
        qed
        show ?thesis using adm active unfolding project_administered_def d'(4) by blast
      qed
      show "deployment_administered d'" if dep: "deployment_administered d"
      proof -
        obtain w where w: "w \<in> set (db_users d)" "active_admin w" using dep by (auto simp: deployment_administered_def)
        have other: "deployment_administered d'" if "x \<in> set (db_users d)" "active_admin x" "usr_id x \<noteq> userID" for x
          using that unfolding deployment_administered_def d'(3) by (intro bexI [of _ x] unmatched_row) auto
        show ?thesis
        proof (cases "usr_id w = userID")
          case True
          then have "w = current" using w(1) cur by (intro distinct_key_eq [OF wf [unfolded users_wf_def]]) auto
          show ?thesis
          proof (cases "st = UserStatusActive")
            case True
            then show ?thesis using w \<open>w = current\<close> cur(2) unfolding deployment_administered_def d'(3)
              by (intro bexI [of _ "?f w"]) (auto simp: in_update_rows active_admin_def)
          next
            case False
            then show ?thesis using keep_deployment_admin_Inr [OF g2] w \<open>w = current\<close> wf cur other d'(1) by blast
          qed
        next
          case False
          then show ?thesis using other w by blast
        qed
      qed
    qed
  qed
qed

text \<open>Grants: the guard is checked on the state after the write.\<close>

lemma other_grants_kept:
  assumes "set (filter (\<lambda>g. grn_project_id g \<noteq> p) (db_user_access d)) \<subseteq> set (db_user_access d')" "db_users d' = db_users d"
    and "project_administered d' p"
  shows "keeps_admins d d'"
proof -
  have active: "active_user d' x \<longleftrightarrow> active_user d x" for x by (simp add: active_user_def assms(2))
  have "project_administered d' q" if adm: "project_administered d q" for q
  proof (cases "q = p")
    case False
    then show ?thesis using adm assms(1) active unfolding project_administered_def by auto
  qed (simp add: assms(3))
  then show ?thesis by (simp add: keeps_admins_def users_wf_def deployment_administered_def assms(2))
qed

lemma ensure_admin_Inr: "ensureActiveDirectProjectAdmin p d = (Inr u, d') \<longleftrightarrow> d' = d \<and> project_administered d p"
  by (auto simp: ensureActiveDirectProjectAdmin_def project_administered_def tx_simps)

lemma upsert_user_Inr:
  assumes "upsert_grant db_user_access db_user_access_update known g d = (Inr v, d')"
  shows "set (filter (\<lambda>h. grn_project_id h \<noteq> grn_project_id g) (db_user_access d)) \<subseteq> set (db_user_access d')" "db_users d' = db_users d"
  using assms by (auto simp: upsert_grant_def same_grant_def in_update_rows split: option.splits if_splits)

lemma admins_upsert:
  assumes "UpsertProjectUserAccess g now d = (Inr v, d')"
  shows "keeps_admins d d'"
proof -
  obtain w d1 where up: "upsert_grant db_user_access db_user_access_update known_user g (d\<lparr>db_now := now\<rparr>) = (Inr w, d1)"
    and ens: "ensureActiveDirectProjectAdmin (grn_project_id g) d1 = (Inr (), d')"
    using assms by (auto simp: UpsertProjectUserAccess_def run_tx_Inr tx_bind_Inr tx_simps split: if_splits)
  show ?thesis
    using upsert_user_Inr [OF up] ens by (intro other_grants_kept [of "grn_project_id g"]) (auto simp: ensure_admin_Inr)
qed

lemma admins_withdraw:
  assumes "DeleteProjectUserAccess projectID userID now d = (Inr v, d')"
  shows "keeps_admins d d'"
  using assms by (intro other_grants_kept [of projectID]) (auto simp: DeleteProjectUserAccess_def ensure_admin_Inr tx_simps)

lemma admins_new_user: "tx_keeps keeps_admins (sql_insert db_users db_users_update user_unique user_check notFound (new_user uid input at))"
  by (rule tx_keepsI, rule keeps_adminsI) (auto simp: tx_simps user_unique_def users_wf_def)

lemma admins_grant: "tx_keeps keeps_admins (sql_insert db_user_access db_user_access_update same_grant (grant_check known_user) notFound g)"
  by (rule tx_keepsI, rule keeps_adminsI) (auto simp: tx_simps users_wf_def)

interpretation admins: identity_frame keeps_admins
proof
  show "keeps_admins d d'" if "CreateAuthSession userID hash expiresAt now d = (Inr v, d')" for userID hash expiresAt now d v d'
    using that unfolding CreateAuthSession_def remember_hash_def
    by (elim admins.keeps_run_tx [rotated]) (intro admins_rules admins.keeps_writes(4); simp add: keeps_admins_same)
qed (unfold rotate_tx_def remember_hash_def consume_token_def,
    (intro admins_new_user admins_users admins_status admins_grant admins_upsert admins_withdraw admins_rules admins.keeps_writes(4)
      admins.keeps_checked admins.keeps_all keeps_admins_same; simp add: keeps_admins_same with_password_def completed_user_def)+)

end
