(* ===== verification/Identity_Properties.thy ===== *)
theory Identity_Properties
  imports Administrators
begin

text \<open>
  What the accounts promise: credentials that were replaced or used never work again, the projects and the deployment keep
  an administrator, disabling a user shuts them out, and the effective role is the highest grant.
\<close>

lemmas identity_constants = UserStatusActive_def UserStatusPending_def UserStatusDisabled_def DeploymentRoleAdmin_def
  DeploymentRoleMember_def PasswordTokenPurposeSetup_def PasswordTokenPurposeReset_def ProjectRoleAdmin_def
  ProjectRoleMember_def ProjectRoleViewer_def

lemmas identity_run = identity_constants tx_run sql_update_checked_def sql_update_all_def gen_random_uuid_def RotateAuthSession_def rotate_tx_def
  remember_hash_def CreateAuthSession_def new_session_def session_unique_def session_check_def refresh_unique_def refresh_check_def
  CompletePasswordToken_def complete_token_tx_def consume_token_def completed_user_def revoke_sessions_def
  revokeOutstandingPasswordTokens_def token_open_def password_token_unique_def password_token_check_def
  user_unique_def user_check_def SetUserDisabled_def setUserStatus_def set_status_user_tx_def keep_project_admins_def
  keep_deployment_admin_def userIsSoleActiveDirectAdmin_def active_user_def not_before_def

section \<open>Samples\<close>

text \<open>Hashes have 32 bytes.\<close>

definition sample_hash :: "char \<Rightarrow> string" where
  "sample_hash c = replicate 32 c"

lemma sample_hash_simps [simp]: "length (sample_hash c) = 32" "sample_hash c = sample_hash e \<longleftrightarrow> c = e"
  by (simp_all add: sample_hash_def)

text \<open>The database with an open session and an open reset token of user \<open>h2\<close>.\<close>

definition sample_session :: auth_session where
  "sample_session = \<lparr>ase_id = ''s1'', ase_user_id = ''h2'', ase_refresh_token_hash = (sample_hash CHR ''o''), ase_expires_at = 100,
     ase_revoked_at = None, ase_created_at = 2, ase_last_used_at = None\<rparr>"

definition sample_token :: password_token where
  "sample_token = \<lparr>pwt_id = ''t1'', pwt_user_id = ''h2'', pwt_purpose = PasswordTokenPurposeReset, pwt_token_hash = (sample_hash CHR ''s''),
     pwt_expires_at = 100, pwt_consumed_at = None, pwt_revoked_at = None, pwt_created_at = 2\<rparr>"

definition sample_login :: db where
  "sample_login = sample_queued\<lparr>db_identity := sample_identity\<lparr>idn_sessions := [sample_session],
     idn_refresh_tokens := [(''s1'', (sample_hash CHR ''o''))], idn_password_tokens := [sample_token]\<rparr>\<rparr>"

lemmas sample_login_eval = max_bigint_def sample_login_def sample_session_def sample_token_def sample_identity_def sample_user_def

lemma sample_login_wf: "hashes_wf sample_login" "tokens_wf sample_login" "users_wf sample_login"
  by (simp_all add: hashes_wf_def tokens_wf_def users_wf_def sample_login_eval)

lemma sample_trim: "btrim ''h1'' = ''h1''" "btrim ''h2'' = ''h2''" "btrim ''h1@x'' = ''h1@x''" "btrim ''h2@x'' = ''h2@x''"
  "btrim ''hash'' = ''hash''" "btrim ''pw'' = ''pw''"
  by code_simp+

interpretation users: keyed_table db_users db_users_update usr_id
  by unfold_locales simp

section \<open>Credentials\<close>

lemma retired_hash_fails:
  assumes "retired h d"
  shows "RotateAuthSession sid h new expiresAt clock now d = (Inl ErrNotFound, d)"
    and "GetAuthSessionByRefreshHash h d = (Inl ErrNotFound, d)"
proof -
  have "List.find (\<lambda>s. ase_id s = sid \<and> ase_refresh_token_hash s = h \<and> ase_revoked_at s = None \<and> clock < ase_expires_at s) (db_auth_sessions d) = None"
    using assms by (auto simp: retired_def find_None_iff)
  then show "RotateAuthSession sid h new expiresAt clock now d = (Inl ErrNotFound, d)"
    by (simp add: RotateAuthSession_def rotate_tx_def run_tx_def tx_commit_def tx_bind_def sql_update_checked_def)
  have "List.find (\<lambda>s. ase_refresh_token_hash s = h) (db_auth_sessions d) = None"
    using assms by (auto simp: retired_def find_None_iff)
  then show "GetAuthSessionByRefreshHash h d = (Inl ErrNotFound, d)" by (simp add: GetAuthSessionByRefreshHash_def sql_find_def tx_option_def tx_fail_def)
qed

lemma spent_token_fails:
  assumes "spent h d"
  shows "CompletePasswordToken h purpose pw clock now d = (Inl ErrNotFound, d)"
proof -
  have "List.find (\<lambda>t. pwt_token_hash t = h \<and> pwt_purpose t = purpose \<and> token_open t \<and> clock < pwt_expires_at t) (db_password_tokens d) = None"
    using assms by (auto simp: spent_def find_None_iff)
  then show ?thesis by (simp add: CompletePasswordToken_def complete_token_tx_def consume_token_def run_tx_def tx_commit_def tx_bind_def sql_update_checked_def)
qed

text \<open>
  C31. A refresh token that was rotated away never works again: after any sequence of operations on users, credentials and
  grants, a rotation or a lookup with the old hash finds nothing, and no session ever carries that hash again.\<close>

theorem refresh_token_never_revived:
  assumes "hashes_wf d" "RotateAuthSession sid old new expiresAt clock now d = (Inr v, d')" "identity_step\<^sup>*\<^sup>* d' d''"
  shows "RotateAuthSession sid2 old new2 expiresAt2 clock2 now2 d'' = (Inl ErrNotFound, d'') \<and>
    GetAuthSessionByRefreshHash old d'' = (Inl ErrNotFound, d'') \<and> (\<forall>s\<in>set (db_auth_sessions d''). ase_refresh_token_hash s \<noteq> old)"
proof -
  have "retired old d''"
    using retired.keeps_identity_steps [OF assms(3), of old] rotation_retires [OF assms(2,1)] by (simp add: stays_retired_def)
  then show ?thesis by (simp add: retired_hash_fails) (simp add: retired_def)
qed

theorem refresh_token_never_revived_witness:
  "\<exists>v d'. RotateAuthSession ''s1'' (sample_hash CHR ''o'') (sample_hash CHR ''n'') 200 10 10 sample_login = (Inr v, d') \<and> ase_refresh_token_hash v = (sample_hash CHR ''n'') \<and>
     fst (RotateAuthSession ''s1'' (sample_hash CHR ''o'') (sample_hash CHR ''m'') 200 11 11 d') = Inl ErrNotFound"
proof -
  obtain v d' where run: "RotateAuthSession ''s1'' (sample_hash CHR ''o'') (sample_hash CHR ''n'') 200 10 10 sample_login = (Inr v, d')" "ase_refresh_token_hash v = (sample_hash CHR ''n'')"
    by (simp add: identity_run sample_login_eval sample_states sample_eval sample_trim)
  show ?thesis
    using run refresh_token_never_revived [OF sample_login_wf(1) run(1) rtranclp.rtrancl_refl, of "''s1''" "(sample_hash CHR ''m'')" 200 11 11] by auto
qed

text \<open>
  C32. A password token works once: after it set a password, no sequence of operations makes it work again, and setting the
  password ends every open session of the user and every other open token of theirs.\<close>

theorem password_token_works_once:
  assumes "tokens_wf d" "CompletePasswordToken h purpose pw clock now d = (Inr u, d')"
  shows "(\<forall>d'' purpose2 pw2 clock2 now2. identity_step\<^sup>*\<^sup>* d' d'' \<longrightarrow>
      CompletePasswordToken h purpose2 pw2 clock2 now2 d'' = (Inl ErrNotFound, d'')) \<and>
    usr_password_hash u = Some pw \<and> (\<forall>s\<in>set (db_auth_sessions d'). ase_user_id s = usr_id u \<longrightarrow> ase_revoked_at s \<noteq> None) \<and>
    (\<forall>t\<in>set (db_password_tokens d'). pwt_user_id t = usr_id u \<longrightarrow> \<not> token_open t)"
proof (intro conjI)
  show "\<forall>d'' purpose2 pw2 clock2 now2. identity_step\<^sup>*\<^sup>* d' d'' \<longrightarrow> CompletePasswordToken h purpose2 pw2 clock2 now2 d'' = (Inl ErrNotFound, d'')"
    using spent.keeps_identity_steps [of d' _ h] completion_spends [OF assms(2,1)] by (auto simp: stays_spent_def intro: spent_token_fails)
  obtain token d1 d2 d3 n1 n2 where c: "consume_token h purpose clock (d\<lparr>db_now := now\<rparr>) = (Inr token, d1)"
    and w: "sql_update_checked db_users db_users_update user_unique user_check
        (\<lambda>d u. usr_id u = pwt_user_id token \<and> (purpose = PasswordTokenPurposeSetup \<longrightarrow> usr_status u = UserStatusPending))
        (\<lambda>d. completed_user purpose pw clock) d1 = (Inr u, d2)"
    and s: "revoke_sessions PgError (pwt_user_id token) (\<lambda>_. clock) d2 = (Inr n1, d3)"
    and t: "revokeOutstandingPasswordTokens (pwt_user_id token) d3 = (Inr n2, d')"
    using assms(2) unfolding CompletePasswordToken_def complete_token_tx_def by (simp only: run_tx_Inr tx_bind_Inr tx_return_eq) blast
  have u: "usr_id u = pwt_user_id token" "usr_password_hash u = Some pw"
    using w by (auto simp: sql_update_checked_Inr completed_user_def dest!: find_Some_in)
  then show "usr_password_hash u = Some pw" by simp
  show "\<forall>s\<in>set (db_auth_sessions d'). ase_user_id s = usr_id u \<longrightarrow> ase_revoked_at s \<noteq> None"
    using s t u unfolding revoke_sessions_def revokeOutstandingPasswordTokens_def by (auto simp: sql_update_all_Inr in_update_rows)
  show "\<forall>t\<in>set (db_password_tokens d'). pwt_user_id t = usr_id u \<longrightarrow> \<not> token_open t"
    using t u unfolding revokeOutstandingPasswordTokens_def by (auto simp: sql_update_all_Inr in_update_rows token_open_def)
qed

theorem password_token_works_once_witness:
  "\<exists>u d'. CompletePasswordToken (sample_hash CHR ''s'') PasswordTokenPurposeReset ''pw'' 10 10 sample_login = (Inr u, d') \<and>
     fst (CompletePasswordToken (sample_hash CHR ''s'') PasswordTokenPurposeReset ''again'' 11 11 d') = Inl ErrNotFound \<and>
     usr_password_hash u = Some ''pw''"
proof -
  obtain u d' where run: "CompletePasswordToken (sample_hash CHR ''s'') PasswordTokenPurposeReset ''pw'' 10 10 sample_login = (Inr u, d')"
    by (simp add: identity_run sample_login_eval sample_states sample_eval sample_trim)
  show ?thesis using run password_token_works_once [OF sample_login_wf(2) run] by auto
qed

section \<open>Administrators\<close>

text \<open>
  C33. No sequence of operations on users, credentials, groups and grants takes away the last active direct administrator of a
  project, or the last active administrator of the deployment.\<close>

theorem administrators_kept:
  assumes "users_wf d" "identity_step\<^sup>*\<^sup>* d d'"
  shows "(\<forall>p. project_administered d p \<longrightarrow> project_administered d' p) \<and> (deployment_administered d \<longrightarrow> deployment_administered d') \<and> users_wf d'"
  using admins.keeps_identity_steps [OF assms(2)] assms(1) by (simp add: keeps_admins_def)

theorem administrators_kept_witness:
  "project_administered (snd (SetUserDisabled ''h1'' True 10 sample_login)) ''p1'' \<and>
   fst (SetUserDisabled ''h1'' True 10 sample_login) = Inl ErrLastProjectAdmin"
proof -
  have step: "identity_step sample_login (snd (SetUserDisabled ''h1'' True 10 sample_login))"
    by (rule identity_step.set_status [of "''h1''" UserStatusDisabled False 10 _ "fst (SetUserDisabled ''h1'' True 10 sample_login)"])
      (simp add: SetUserDisabled_def)
  have "project_administered sample_login ''p1''"
    by (simp add: project_administered_def active_user_def sample_login_eval identity_constants)
  then have "project_administered (snd (SetUserDisabled ''h1'' True 10 sample_login)) ''p1''"
    using administrators_kept [OF sample_login_wf(3) r_into_rtranclp [of identity_step, OF step]] by blast
  then show ?thesis by (simp add: identity_run sample_login_eval sample_states sample_eval sample_trim)
qed

lemma in_update_rowsE:
  assumes "s \<in> set (update_rows p f rows)"
  obtains r where "r \<in> set rows" "p r" "s = f r" | "s \<in> set rows" "\<not> p s"
  using assms by (auto simp: in_update_rows)

lemma revoked_rows:
  "\<forall>s\<in>set (update_rows (\<lambda>s. ase_user_id s = u \<and> ase_revoked_at s = None) (\<lambda>s. s\<lparr>ase_revoked_at := Some t\<rparr>) rows).
     ase_user_id s = u \<longrightarrow> ase_revoked_at s \<noteq> None"
proof (intro ballI impI)
  fix s assume "s \<in> set (update_rows (\<lambda>s. ase_user_id s = u \<and> ase_revoked_at s = None) (\<lambda>s. s\<lparr>ase_revoked_at := Some t\<rparr>) rows)"
    and "ase_user_id s = u"
  then show "ase_revoked_at s \<noteq> None" by (elim in_update_rowsE) simp_all
qed

lemma disabled_not_active: "UserStatusActive \<noteq> UserStatusDisabled"
  by (simp add: identity_constants)

lemma status_guards_read:
  "keep_project_admins current status d = (Inr u1, d1) \<Longrightarrow> d1 = d" "keep_deployment_admin current status d = (Inr u2, d2) \<Longrightarrow> d2 = d"
  by (auto simp: keep_project_admins_def keep_deployment_admin_def userIsSoleActiveDirectAdmin_def tx_simps split: if_splits)

lemma status_change_Inr:
  assumes "setUserStatus userID status False now d = (Inr u, d')" "List.find (\<lambda>u. usr_id u = userID) (db_users d) = Some r" "usr_status r \<noteq> status"
  shows "u = r\<lparr>usr_status := status, usr_auth_version := usr_auth_version r + 1, usr_updated_at := now\<rparr>"
    and "db_users d' = update_rows (\<lambda>u. usr_id u = userID)
      (\<lambda>u. u\<lparr>usr_status := status, usr_auth_version := usr_auth_version u + 1, usr_updated_at := now\<rparr>) (db_users d)"
    and "db_auth_sessions d' = update_rows (\<lambda>s. ase_user_id s = userID \<and> ase_revoked_at s = None)
      (\<lambda>s. s\<lparr>ase_revoked_at := Some now\<rparr>) (db_auth_sessions d)"
proof -
  let ?d = "d\<lparr>db_now := now\<rparr>"
  have find: "sql_find db_users (\<lambda>d u. usr_id u = userID) ?d = (Inr r, ?d)" using assms(2) by (simp add: sql_find_Inr)
  obtain u1 d1 u2 d2 d3 n where g: "keep_project_admins r status ?d = (Inr u1, d1)" "keep_deployment_admin r status d1 = (Inr u2, d2)"
    and w: "sql_update_checked db_users db_users_update user_unique user_check (\<lambda>d u. usr_id u = userID)
        (\<lambda>d u. u\<lparr>usr_status := status, usr_auth_version := usr_auth_version u + 1, usr_updated_at := db_now d\<rparr>) d2 = (Inr u, d3)"
    and s: "revoke_sessions PgError userID db_now d3 = (Inr n, d')"
    using assms(1,3) find unfolding setUserStatus_def set_status_user_tx_def
    by (simp add: run_tx_Inr tx_bind_Inr tx_return_eq Let_def) blast
  have "d2 = ?d" using g status_guards_read by blast
  then show "u = r\<lparr>usr_status := status, usr_auth_version := usr_auth_version r + 1, usr_updated_at := now\<rparr>"
    "db_users d' = update_rows (\<lambda>u. usr_id u = userID)
      (\<lambda>u. u\<lparr>usr_status := status, usr_auth_version := usr_auth_version u + 1, usr_updated_at := now\<rparr>) (db_users d)"
    "db_auth_sessions d' = update_rows (\<lambda>s. ase_user_id s = userID \<and> ase_revoked_at s = None)
      (\<lambda>s. s\<lparr>ase_revoked_at := Some now\<rparr>) (db_auth_sessions d)"
    using w s assms(2) unfolding revoke_sessions_def by (auto simp: sql_update_checked_Inr sql_update_all_Inr)
qed

text \<open>
  C34. Disabling an active user shuts them out at once: their authentication version goes up, which makes every access token
  they hold stale, each of their sessions is revoked, they are a member of no project, and they can no longer be chosen in a
  workflow.\<close>

theorem disabling_shuts_out:
  assumes "users_wf d" "r \<in> set (db_users d)" "usr_id r = userID" "usr_status r = UserStatusActive"
    and "SetUserDisabled userID True now d = (Inr u, d')"
  shows "u = r\<lparr>usr_status := UserStatusDisabled, usr_auth_version := usr_auth_version r + 1, usr_updated_at := now\<rparr> \<and>
    (\<forall>s\<in>set (db_auth_sessions d'). ase_user_id s = userID \<longrightarrow> ase_revoked_at s \<noteq> None) \<and>
    userID \<notin> pmb_user_id ` set (ListProjectMembers p d') \<and> resolveProjectWorkflowUser p userID d' = (Inl ErrInvalidArgument, d')"
proof -
  let ?f = "\<lambda>u. u\<lparr>usr_status := UserStatusDisabled, usr_auth_version := usr_auth_version u + 1, usr_updated_at := now\<rparr>"
  have found: "List.find (\<lambda>u. usr_id u = userID) (db_users d) = Some r"
    using users.find_by_key [of d r "\<lambda>u. usr_id u = userID"] assms(1-3) by (simp add: users_wf_def)
  have run: "setUserStatus userID UserStatusDisabled False now d = (Inr u, d')" using assms(5) by (simp add: SetUserDisabled_def)
  have "usr_status r \<noteq> UserStatusDisabled" using assms(4) disabled_not_active by simp
  note change = status_change_Inr [OF run found this]
  note u = change(1) and users = change(2) and sessions = change(3)
  have disabled: "usr_status v = UserStatusDisabled" if "v \<in> set (db_users d')" "usr_id v = userID" for v
    using that unfolding users by (elim in_update_rowsE) simp_all
  have "?f r \<in> set (db_users d')" unfolding users by (rule matched_row) (use assms(2,3) in auto)
  then obtain v where v: "List.find (\<lambda>u. usr_id u = userID) (db_users d') = Some v"
    using assms(3) by (cases "List.find (\<lambda>u. usr_id u = userID) (db_users d')") (auto simp: find_None_iff)
  have "usr_status v \<noteq> UserStatusActive" using disabled [of v] find_Some_in [OF v] disabled_not_active by auto
  then have "resolveProjectWorkflowUser p userID d' = (Inl ErrInvalidArgument, d')"
    using v by (simp add: resolveProjectWorkflowUser_def tx_run)
  moreover have "userID \<notin> pmb_user_id ` set (ListProjectMembers p d')"
    using disabled disabled_not_active unfolding ListProjectMembers_def by (auto simp: map_filter_def split: if_splits)
  moreover have "\<forall>s\<in>set (db_auth_sessions d'). ase_user_id s = userID \<longrightarrow> ase_revoked_at s \<noteq> None"
    unfolding sessions by (rule revoked_rows)
  ultimately show ?thesis using u by blast
qed

theorem disabling_shuts_out_witness:
  "\<exists>u d'. SetUserDisabled ''h2'' True 10 sample_login = (Inr u, d') \<and> usr_auth_version u = 2 \<and>
     (\<forall>s\<in>set (db_auth_sessions d'). ase_revoked_at s \<noteq> None)"
proof -
  obtain u d' where run: "SetUserDisabled ''h2'' True 10 sample_login = (Inr u, d')"
    and who: "\<forall>s\<in>set (db_auth_sessions d'). ase_user_id s = ''h2''"
    by (simp add: identity_run sample_login_eval sample_states sample_eval sample_trim)
  have "sample_user ''h2'' ''member'' \<in> set (db_users sample_login)" by (simp add: sample_login_def sample_identity_def)
  from disabling_shuts_out [OF sample_login_wf(3) this _ _ run] show ?thesis using run who by (simp add: sample_user_def identity_constants)
qed

section \<open>Roles\<close>

lemma rank_valid: "0 < ProjectRoleRank role \<longleftrightarrow> ValidProjectRole role"
  by (simp add: ProjectRoleRank_def ValidProjectRole_def)

lemma first_by_rank:
  "(\<exists>r. first_by (\<lambda>role. - ProjectRoleRank role) roles = Some r \<and> ProjectRoleAtLeast r m) \<longleftrightarrow> (\<exists>r\<in>set roles. ProjectRoleAtLeast r m)"
proof
  assume "\<exists>r\<in>set roles. ProjectRoleAtLeast r m"
  then obtain q where q: "q \<in> set roles" "ProjectRoleAtLeast q m" by blast
  then obtain r where r: "first_by (\<lambda>role. - ProjectRoleRank role) roles = Some r" by (cases roles) (auto simp: first_by_def)
  then show "\<exists>r. first_by (\<lambda>role. - ProjectRoleRank role) roles = Some r \<and> ProjectRoleAtLeast r m"
    using first_by_least [OF r q(1)] q(2) by (auto simp: ProjectRoleAtLeast_def)
qed (blast dest: first_by_in)

text \<open>
  C35. A user has at least a given role in a project exactly when they administer the deployment, or a grant of their own, or
  one of a group they belong to, is at least that role: the effective role is the highest that applies, and no other row counts.\<close>

theorem role_is_highest_grant:
  assumes "users_wf d" "u \<in> set (db_users d)" "\<exists>q\<in>set (db_projects d). prj_id q = p"
  shows "(\<exists>r. EffectiveProjectRole p (usr_id u) d = (Inr r, d) \<and> ProjectRoleAtLeast r m) \<longleftrightarrow>
    ValidProjectRole m \<and> (usr_deployment_role u = DeploymentRoleAdmin \<or>
      (\<exists>g\<in>set (db_user_access d). grn_project_id g = p \<and> grn_grantee_id g = usr_id u \<and> ProjectRoleAtLeast (grn_role g) m) \<or>
      (\<exists>g\<in>set (db_group_access d). grn_project_id g = p \<and> (grn_grantee_id g, usr_id u) \<in> set (db_group_members d) \<and>
         ProjectRoleAtLeast (grn_role g) m))"
proof -
  have found: "List.find (\<lambda>v. usr_id v = usr_id u \<and> (\<exists>q\<in>set (db_projects d). prj_id q = p)) (db_users d) = Some u"
    using users.find_by_key [of d u "\<lambda>v. usr_id v = usr_id u \<and> (\<exists>q\<in>set (db_projects d). prj_id q = p)"] assms by (simp add: users_wf_def)
  have eff: "EffectiveProjectRole p (usr_id u) d = (Inr r, d) \<longleftrightarrow> effectiveProjectRoleExpression d p u = Some r \<and> ValidProjectRole r" for r
    using found by (auto simp: EffectiveProjectRole_def effectiveProjectRole_def tx_simps split: option.splits if_splits)
  have valid: "ProjectRoleAtLeast r m \<longleftrightarrow> ValidProjectRole m \<and> ValidProjectRole r \<and> ProjectRoleAtLeast r m" for r
    using rank_valid [of m] rank_valid [of r] by (auto simp: ProjectRoleAtLeast_def)
  have admin: "ProjectRoleAtLeast ProjectRoleAdmin m \<longleftrightarrow> ValidProjectRole m"
    using rank_valid [of m] by (auto simp: ProjectRoleAtLeast_def ProjectRoleRank_def identity_constants)
  have "(\<exists>r\<in>set (granted_roles d p (usr_id u)). ProjectRoleAtLeast r m) \<longleftrightarrow>
      (\<exists>g\<in>set (db_user_access d). grn_project_id g = p \<and> grn_grantee_id g = usr_id u \<and> ProjectRoleAtLeast (grn_role g) m) \<or>
      (\<exists>g\<in>set (db_group_access d). grn_project_id g = p \<and> (grn_grantee_id g, usr_id u) \<in> set (db_group_members d) \<and>
         ProjectRoleAtLeast (grn_role g) m)"
    unfolding granted_roles_def by auto
  note grants = this
  show ?thesis
  proof (cases "usr_deployment_role u = DeploymentRoleAdmin")
    case True
    then have "effectiveProjectRoleExpression d p u = Some ProjectRoleAdmin" by (simp add: effectiveProjectRoleExpression_def)
    then show ?thesis using eff admin True rank_valid [of ProjectRoleAdmin] by (auto simp: ProjectRoleRank_def identity_constants)
  next
    case False
    then have "(\<exists>r. EffectiveProjectRole p (usr_id u) d = (Inr r, d) \<and> ProjectRoleAtLeast r m) \<longleftrightarrow>
        (\<exists>r\<in>set (granted_roles d p (usr_id u)). ProjectRoleAtLeast r m)"
      unfolding first_by_rank [symmetric] eff effectiveProjectRoleExpression_def using valid by auto
    then show ?thesis using grants valid False by blast
  qed
qed

theorem role_is_highest_grant_witness:
  "(\<exists>r. EffectiveProjectRole ''p1'' ''h2'' sample_login = (Inr r, sample_login) \<and> ProjectRoleAtLeast r ProjectRoleMember) \<and>
   \<not> (\<exists>r. EffectiveProjectRole ''p1'' ''h2'' sample_login = (Inr r, sample_login) \<and> ProjectRoleAtLeast r ProjectRoleAdmin)"
proof -
  have u: "sample_user ''h2'' ''member'' \<in> set (db_users sample_login)" "\<exists>q\<in>set (db_projects sample_login). prj_id q = ''p1''"
    by (simp_all add: sample_login_def sample_identity_def sample_queued_def)
  have who: "usr_id (sample_user ''h2'' ''member'') = ''h2''" by (simp add: sample_user_def)
  show ?thesis unfolding role_is_highest_grant [OF sample_login_wf(3) u, unfolded who]
    by (simp add: ValidProjectRole_def ProjectRoleAtLeast_def ProjectRoleRank_def sample_login_eval identity_constants)
qed

end
