(* ===== verification/Comment_Properties.thy ===== *)
theory Comment_Properties
  imports Comment_Steps
begin

text \<open>
  What comments promise: reactions are counted as they stand, a thread wakes an Agent only when no other Agent took part in
  it, and notifications reach exactly those who may hear of the comment.
\<close>

section \<open>Reactions\<close>

text \<open>The summary of reactions as a reader would write it: every reaction once, with its actors in order.\<close>

definition summary_of :: "reaction list \<Rightarrow> string \<Rightarrow> reaction_summary" where
  "summary_of rows r = (let actors = map rct_actor_id (filter (\<lambda>x. rct_reaction x = r) rows) in
     \<lparr>rsm_reaction = r, rsm_count = int (length actors), rsm_actor_ids = actors\<rparr>)"

definition sorted_summaries :: "reaction list \<Rightarrow> reaction_summary list" where
  "sorted_summaries rows = map (\<lambda>r. \<lparr>rsm_reaction = r, rsm_count = int (length (filter (\<lambda>x. rct_reaction x = r) rows)),
       rsm_actor_ids = sort (map rct_actor_id (filter (\<lambda>x. rct_reaction x = r) rows))\<rparr>)
     (sort (remdups (map rct_reaction rows)))"

lemma count_reaction_summaries:
  assumes "distinct rs"
  shows "count_reaction (rct_reaction x) (rct_actor_id x) (map (summary_of rows) rs) =
    map (summary_of (rows @ [x])) rs @ (if rct_reaction x \<in> set rs then [] else
      [\<lparr>rsm_reaction = rct_reaction x, rsm_count = 1, rsm_actor_ids = [rct_actor_id x]\<rparr>])"
  using assms
proof (induction rs)
  case (Cons r rs)
  have same: "map (summary_of (rows @ [x])) rs = map (summary_of rows) rs" if "rct_reaction x \<notin> set rs"
    using that by (auto simp: summary_of_def)
  show ?case using Cons same by (auto simp: summary_of_def Let_def)
qed simp

text \<open>The order in which values occur first.\<close>

definition occurrences :: "'a list \<Rightarrow> 'a list" where
  "occurrences xs = rev (remdups (rev xs))"

lemma occurrences_snoc: "occurrences (xs @ [x]) = occurrences xs @ (if x \<in> set xs then [] else [x])"
  by (simp add: occurrences_def)

lemma set_occurrences [simp]: "set (occurrences xs) = set xs" "distinct (occurrences xs)"
  by (simp_all add: occurrences_def)

lemma occurrences_sorted: "sorted xs \<Longrightarrow> occurrences xs = sort (remdups xs)"
proof (induction xs rule: rev_induct)
  case (snoc x xs)
  have "sorted (occurrences (xs @ [x]))" using snoc by (auto simp: occurrences_snoc sorted_append)
  then have "occurrences (xs @ [x]) = sorted_list_of_set (set (xs @ [x]))"
    by (metis set_occurrences sorted_list_of_set.idem_if_sorted_distinct)
  then show ?case by (metis sorted_list_of_set_sort_remdups)
qed (simp add: occurrences_def)

lemma fold_count_reaction:
  "fold (\<lambda>r. count_reaction (rct_reaction r) (rct_actor_id r)) rows [] =
     map (summary_of rows) (occurrences (map rct_reaction rows))"
proof (induction rows rule: rev_induct)
  case (snoc x rows)
  then show ?case
    by (auto simp: count_reaction_summaries occurrences_snoc) (auto simp: summary_of_def Let_def filter_empty_conv image_iff)
qed (simp add: occurrences_def)

lemma sorted_second: "sorted (map (\<lambda>x. (f x, g x)) xs) \<Longrightarrow> sorted (map g (filter (\<lambda>x. f x = r) xs))"
  for f :: "'a \<Rightarrow> 'b :: linorder" and g :: "'a \<Rightarrow> 'c :: linorder"
  by (induction xs) auto

lemma sorted_first: "sorted (map (\<lambda>x. (f x, g x)) xs) \<Longrightarrow> sorted (map f xs)"
  for f :: "'a \<Rightarrow> 'b :: linorder" and g :: "'a \<Rightarrow> 'c :: linorder"
  by (induction xs) auto

lemma summary_sorted:
  assumes "ys = sort_key (\<lambda>r. (rct_reaction r, rct_actor_id r)) xs"
  shows "map (summary_of ys) (occurrences (map rct_reaction ys)) = sorted_summaries xs"
proof -
  have sorted: "sorted (map (\<lambda>r. (rct_reaction r, rct_actor_id r)) ys)" using assms by simp
  have same: "mset ys = mset xs" using assms by simp
  have actors: "map rct_actor_id (filter (\<lambda>x. rct_reaction x = r) ys) = sort (map rct_actor_id (filter (\<lambda>x. rct_reaction x = r) xs))" for r
    using sorted_second [OF sorted] same by (intro properties_for_sort [symmetric]) (metis mset_filter mset_map)+
  have total: "length (filter (\<lambda>x. rct_reaction x = r) ys) = length (filter (\<lambda>x. rct_reaction x = r) xs)" for r
    using same by (metis mset_filter size_mset)
  have "set (map rct_reaction ys) = set (map rct_reaction xs)" using assms by simp
  then have keys: "occurrences (map rct_reaction ys) = sort (remdups (map rct_reaction xs))"
    using occurrences_sorted [OF sorted_first [OF sorted]] by (simp only: flip: sorted_list_of_set_sort_remdups)
  show ?thesis unfolding sorted_summaries_def keys using actors total by (auto simp: summary_of_def Let_def)
qed

text \<open>
  C40. Reactions are summed up exactly: the summary of a comment lists every reaction that someone gave, in order and once,
  with the number of rows and the actors in order, whatever order the rows have.\<close>

theorem reactions_are_counted:
  assumes "exists_row (\<lambda>i. iss_id i = issueID \<and> iss_project_id i = projectID) (db_issues d)"
  shows "loadIssueCommentReactions d projectID issueID commentID =
    sorted_summaries (filter (\<lambda>r. rct_issue_id r = issueID \<and> rct_comment_id r = commentID) (db_reactions d))"
  using assms by (simp add: loadIssueCommentReactions_def fold_count_reaction summary_sorted [OF HOL.refl])

section \<open>Threads\<close>

text \<open>The comments below a root.\<close>

inductive in_thread :: "db \<Rightarrow> id \<Rightarrow> id \<Rightarrow> comment \<Rightarrow> bool" for d issueID rootID where
  root: "c \<in> set (db_comments d) \<Longrightarrow> cmt_issue_id c = issueID \<Longrightarrow> cmt_id c = rootID \<Longrightarrow> in_thread d issueID rootID c"
| reply: "in_thread d issueID rootID p \<Longrightarrow> c \<in> set (db_comments d) \<Longrightarrow> cmt_issue_id c = issueID \<Longrightarrow>
    cmt_parent_comment_id c = Some (cmt_id p) \<Longrightarrow> in_thread d issueID rootID c"

definition level :: "db \<Rightarrow> id \<Rightarrow> nat \<Rightarrow> comment list \<Rightarrow> comment list" where
  "level d issueID k cs = (replies d issueID ^^ k) cs"

lemma level_simps: "level d i 0 cs = cs" "level d i (Suc k) cs = level d i k (replies d i cs)"
  "replies d i (level d i k cs) = level d i (Suc k) cs"
  by (simp_all add: level_def funpow_swap1)

lemma thread_levels_level:
  "snd (thread_levels d i n cs) = level d i n cs" "set (fst (thread_levels d i n cs)) = (\<Union>k\<le>n. set (level d i k cs))"
proof -
  show "snd (thread_levels d i n cs) = level d i n cs"
    by (induction n arbitrary: cs) (simp_all add: level_simps case_prod_beta)
  show "set (fst (thread_levels d i n cs)) = (\<Union>k\<le>n. set (level d i k cs))"
  proof (induction n arbitrary: cs)
    case (Suc n)
    have "(\<Union>k\<le>Suc n. set (level d i k cs)) = set cs \<union> (\<Union>k\<le>n. set (level d i k (replies d i cs)))"
      by (simp only: atMost_Suc_eq_insert_0 image_insert Union_insert image_image level_simps)
    then show ?case using Suc [of "replies d i cs"] by (auto split: prod.splits)
  qed (simp add: level_simps)
qed

lemma no_deeper: "level d i n cs = [] \<Longrightarrow> n \<le> k \<Longrightarrow> level d i k cs = []"
  by (induction k) (auto simp: le_Suc_eq simp flip: level_simps(3), simp add: replies_def)

lemma in_thread_level:
  assumes "in_thread d i r c"
  shows "\<exists>k. c \<in> set (level d i k (filter (\<lambda>c. cmt_issue_id c = i \<and> cmt_id c = r) (db_comments d)))" (is "\<exists>k. c \<in> set (level d i k ?root)")
  using assms
proof (induction rule: in_thread.induct)
  case (root c)
  then have "c \<in> set (level d i 0 ?root)" by (simp add: level_simps)
  then show ?case by blast
next
  case (reply p c)
  then obtain k where "p \<in> set (level d i k ?root)" by blast
  with reply have "c \<in> set (replies d i (level d i k ?root))" by (auto simp: replies_def)
  then have "c \<in> set (level d i (Suc k) ?root)" by (simp only: level_simps(3))
  then show ?case by blast
qed

text \<open>When there is nothing below the last level, the walk has seen the whole thread.\<close>

lemma whole_thread:
  assumes "thread_levels d i n (filter (\<lambda>c. cmt_issue_id c = i \<and> cmt_id c = r) (db_comments d)) = (thread, deepest)"
    and "replies d i deepest = []" "in_thread d i r c"
  shows "c \<in> set thread"
proof -
  let ?root = "filter (\<lambda>c. cmt_issue_id c = i \<and> cmt_id c = r) (db_comments d)"
  obtain k where k: "c \<in> set (level d i k ?root)" using in_thread_level [OF assms(3)] by blast
  have "level d i (Suc n) ?root = []" using assms(1,2) thread_levels_level(1) [of d i n ?root] by (simp flip: level_simps(3))
  then have "k \<le> n" using no_deeper [of d i "Suc n" ?root k] k by (cases "k \<le> n") auto
  then show ?thesis using k thread_levels_level(2) [of d i n ?root] assms(1) by auto
qed

lemma ancestors_ne [simp]: "ancestors d i n c \<noteq> []"
  by (cases n) auto

lemma ancestors_thread:
  assumes "c \<in> set (db_comments d)" "cmt_issue_id c = i"
  shows "in_thread d i (cmt_id (last (ancestors d i n c))) c"
  using assms
proof (induction n arbitrary: c)
  case (Suc n)
  show ?case
  proof (cases "List.find (\<lambda>p. cmt_issue_id p = i \<and> Some (cmt_id p) = cmt_parent_comment_id c) (db_comments d)")
    case (Some p)
    then have p: "p \<in> set (db_comments d)" "cmt_issue_id p = i" "cmt_parent_comment_id c = Some (cmt_id p)"
      by (auto simp: find_Some_iff)
    show ?thesis using in_thread.reply [OF Suc.IH [OF p(1,2)] Suc.prems p(3)] Some by simp
  qed (use Suc.prems in \<open>auto intro: in_thread.root\<close>)
qed (auto intro: in_thread.root)

lemma unique_text_all:
  "unique_text sel xs = Some t \<Longrightarrow> (sel \<noteq> [] \<longrightarrow> t = sel) \<and> (\<forall>x\<in>set xs. TrimSpace x \<noteq> [] \<longrightarrow> TrimSpace x = t) \<and>
     (sel \<noteq> [] \<or> (\<exists>x\<in>set xs. TrimSpace x = t)) \<and> t \<noteq> []"
  by (induction xs arbitrary: sel) (auto simp: Let_def split: if_splits)

text \<open>Two distinct participants show up among the first three.\<close>

lemma unique_participant:
  assumes "uniqueNonEmptyString (take 3 (sort (remdups xs))) = Some t" "\<forall>x\<in>set xs. TrimSpace x = x \<and> x \<noteq> []"
  shows "set xs = {t}"
proof -
  let ?ys = "sort (remdups xs)"
  have trimmed: "TrimSpace y = y \<and> y \<noteq> []" if "y \<in> set (take 3 ?ys)" for y
    using assms(2) in_set_takeD [OF that] by simp
  then have all: "y = t" if "y \<in> set (take 3 ?ys)" for y
    using unique_text_all [OF assms(1) [unfolded uniqueNonEmptyString_def]] that by auto
  have ne: "take 3 ?ys \<noteq> []" using assms(1) by (auto simp: uniqueNonEmptyString_def)
  have dist: "distinct (take 3 ?ys)" by simp
  have "length (take 3 ?ys) \<le> 1"
  proof (rule ccontr)
    assume "\<not> ?thesis"
    then obtain a b zs where "take 3 ?ys = a # b # zs" by (cases "take 3 ?ys" rule: remdups_adj.cases) auto
    then show False using all dist by auto
  qed
  then have "take 3 ?ys = ?ys" using ne by (auto simp: min_def split: if_splits)
  then have "y = t" if "y \<in> set xs" for y using all [of y] that by simp
  moreover have "xs \<noteq> []" using ne by (metis remdups.simps(1) sort_key_simps(1) take_Nil)
  ultimately show ?thesis by (cases xs) (simp, metis list.set_intros(1) singleton_iff subsetI subset_singletonD empty_iff)
qed

lemma level_in_thread:
  "c \<in> set (level d i k (filter (\<lambda>c. cmt_issue_id c = i \<and> cmt_id c = r) (db_comments d))) \<Longrightarrow> in_thread d i r c"
proof (induction k arbitrary: c)
  case (Suc k)
  then show ?case by (auto simp: replies_def intro: in_thread.reply simp flip: level_simps(3))
qed (auto simp: level_simps intro: in_thread.root)

lemma thread_agents_seen:
  assumes "issueCommentThreadAgentIDsTx i r n d = (Inr (agents, False), d')"
  obtains thread where "set thread = {c. in_thread d i r c}"
    "agents = take 3 (sort (remdups (map cmt_author_id (filter (\<lambda>c. cmt_author_type c = ACT_AGENT) thread))))"
proof -
  let ?root = "filter (\<lambda>c. cmt_issue_id c = i \<and> cmt_id c = r) (db_comments d)"
  obtain thread deepest where walk: "thread_levels d i n ?root = (thread, deepest)" by fastforce
  with assms have facts: "replies d i deepest = []"
    "agents = take 3 (sort (remdups (map cmt_author_id (filter (\<lambda>c. cmt_author_type c = ACT_AGENT) thread))))"
    by (auto simp: issueCommentThreadAgentIDsTx_def tx_simps)
  have "set thread \<subseteq> {c. in_thread d i r c}"
    using thread_levels_level(2) [of d i n ?root] walk by (auto intro: level_in_thread)
  then have "set thread = {c. in_thread d i r c}" using whole_thread [OF walk facts(1)] by blast
  then show thesis using that facts(2) by blast
qed

lemma ancestors_root:
  assumes "issueCommentAncestorIDsBoundedWith p i parent n d = (Inr (chain, False), d')"
  obtains c where "cmt_parent_comment_id (last (ancestors d i n c)) = None" "hd chain = cmt_id (last (ancestors d i n c))"
    "in_thread d i (hd chain) c" "cmt_id c = parent"
proof -
  obtain c where c: "List.find (\<lambda>c. cmt_issue_id c = i \<and> cmt_id c = parent \<and>
        exists_row (\<lambda>j. iss_id j = i \<and> iss_project_id j = p) (db_issues d)) (db_comments d) = Some c"
    and chain: "chain = rev (map cmt_id (ancestors d i n c))" "cmt_parent_comment_id (last (ancestors d i n c)) = None"
    using assms by (auto simp: issueCommentAncestorIDsBoundedWith_def Let_def tx_simps)
  have top: "hd chain = cmt_id (last (ancestors d i n c))" using chain by (simp add: hd_rev last_map)
  have "c \<in> set (db_comments d)" "cmt_issue_id c = i" "cmt_id c = parent" using c by (auto simp: find_Some_iff)
  then show thesis using that chain(2) top ancestors_thread [of c d i n] by simp
qed

lemma route_through_thread:
  assumes "ResolveIssueCommentImplicitRoute facts = Some route" "rte_reason route = IssueCommentImplicitRoutingReasonUniqueThreadAgent"
  shows "\<not> rtf_explicit facts \<and> uniqueNonEmptyString (rtf_thread_agents facts) = Some (rte_target_agent_id route)"
  using assms by (auto simp: ResolveIssueCommentImplicitRoute_def routing_texts split: if_splits option.splits)

lemma thread_route_cases:
  assumes "resolveIssueCommentImplicitRouteTx projectID issueID (Some parent) explicit d = (Inr (Some route, status), d')"
    and "rte_reason route = IssueCommentImplicitRoutingReasonUniqueThreadAgent"
  obtains chain agents where "\<not> explicit"
    "issueCommentAncestorIDsBoundedWith projectID issueID parent issueDiscussionRootTraversalDepth d = (Inr (chain, False), d)"
    "issueCommentThreadAgentIDsTx issueID (hd chain) issueDiscussionRootTraversalDepth d = (Inr (agents, False), d)"
    "uniqueNonEmptyString agents = Some (rte_target_agent_id route)"
proof -
  have none: "ResolveIssueCommentImplicitRoute facts \<noteq> Some route" if "rtf_thread_agents facts = []" for facts
    using route_through_thread [OF _ assms(2), of facts] that by (auto simp: uniqueNonEmptyString_def)
  from assms(1) obtain chain s1 agents s2 facts where walk:
    "issueCommentAncestorIDsBoundedWith projectID issueID parent issueDiscussionRootTraversalDepth d = (Inr (chain, False), s1)"
    "issueCommentThreadAgentIDsTx issueID (hd chain) issueDiscussionRootTraversalDepth s1 = (Inr (agents, False), s2)"
    "ResolveIssueCommentImplicitRoute facts = Some route" "rtf_explicit facts = explicit" "rtf_thread_agents facts = agents"
    unfolding resolveIssueCommentImplicitRouteTx_def Let_def
    by (auto simp: tx_bind_Inr tx_simps none eq_commute [of "Some route"] split: if_splits prod.splits)
  then have "s1 = d" "s2 = s1" using read_targets(3,4) [THEN read_state] by blast+
  then show thesis using that walk route_through_thread [OF walk(3) assms(2)] by auto
qed


text \<open>A thread: a human comment, the answer of an Agent and a human reply to that; the first comment has two reactions.\<close>

definition sample_reply :: "id \<Rightarrow> id \<Rightarrow> actor_type \<Rightarrow> id \<Rightarrow> comment" where
  "sample_reply c parent t author = sample_comment\<lparr>cmt_id := c, cmt_parent_comment_id := Some parent, cmt_author_type := t,
     cmt_author_id := author, cmt_source_run_id := (if t = ACT_AGENT then Some ''r1'' else None),
     cmt_source_action_key := Some c\<rparr>"

definition sample_heart :: "id \<Rightarrow> reaction" where
  "sample_heart actor = \<lparr>rct_issue_id = ''i1'', rct_comment_id = ''c1'', rct_actor_id = actor, rct_reaction = ''HEART'', rct_created_at = 6\<rparr>"

definition sample_thread :: db where
  "sample_thread = sample_queued\<lparr>db_comments := [sample_comment, sample_reply ''c2'' ''c1'' ACT_AGENT ''a1'', sample_reply ''c3'' ''c2'' ACT_HUMAN ''h2''],
     db_reactions := [sample_heart ''h2'', sample_heart ''h1''],
     db_subscriptions := [\<lparr>sub_project_id = ''p1'', sub_issue_id = ''i1'', sub_user_id = ''h1''\<rparr>, \<lparr>sub_project_id = ''p1'', sub_issue_id = ''i1'', sub_user_id = ''h2''\<rparr>]\<rparr>"

lemmas sample_thread_eval = sample_thread_def sample_comment_def sample_reply_def sample_heart_def sample_eval

theorem reactions_are_counted_witness:
  "loadIssueCommentReactions sample_thread ''p1'' ''i1'' ''c1'' =
     [\<lparr>rsm_reaction = ''HEART'', rsm_count = 2, rsm_actor_ids = [''h1'', ''h2'']\<rparr>]"
proof -
  have "sort [''h2'', ''h1''] = [''h1'', ''h2'']" by code_simp
  then show ?thesis
    using reactions_are_counted [of "''i1''" "''p1''" sample_thread "''c1''"] by (simp add: sorted_summaries_def sample_thread_eval)
qed

lemma thread_levels_Nil [simp]: "thread_levels d i n [] = ([], [])"
  by (induction n) (simp_all add: replies_def)

lemma sample_trimmed: "TrimSpace ''h1'' = ''h1''" "TrimSpace ''h2'' = ''h2''" "TrimSpace ''a1'' = ''a1''" "TrimSpace ''a2'' = ''a2''"
  "TrimSpace ''p1'' = ''p1''" "TrimSpace ''i1'' = ''i1''" "TrimSpace ''c1'' = ''c1''" "TrimSpace ''c3'' = ''c3''"
  by code_simp+

lemma sample_levels:
  "thread_levels sample_thread ''i1'' (Suc (Suc (Suc n))) [sample_comment] =
     ([sample_comment, sample_reply ''c2'' ''c1'' ACT_AGENT ''a1'', sample_reply ''c3'' ''c2'' ACT_HUMAN ''h2''], [])"
proof -
  have "replies sample_thread ''i1'' [sample_comment] = [sample_reply ''c2'' ''c1'' ACT_AGENT ''a1'']"
    "replies sample_thread ''i1'' [sample_reply ''c2'' ''c1'' ACT_AGENT ''a1''] = [sample_reply ''c3'' ''c2'' ACT_HUMAN ''h2'']"
    "replies sample_thread ''i1'' [sample_reply ''c3'' ''c2'' ACT_HUMAN ''h2''] = []"
    by (simp_all add: replies_def sample_thread_eval)
  then show ?thesis by simp
qed

lemma sample_thread_agents: "issueCommentThreadAgentIDsTx ''i1'' ''c1'' 64 sample_thread = (Inr ([''a1''], False), sample_thread)"
proof -
  have root: "filter (\<lambda>c. cmt_issue_id c = ''i1'' \<and> cmt_id c = ''c1'') (db_comments sample_thread) = [sample_comment]"
    by (simp add: sample_thread_eval)
  have "thread_levels sample_thread ''i1'' 64 [sample_comment] =
     ([sample_comment, sample_reply ''c2'' ''c1'' ACT_AGENT ''a1'', sample_reply ''c3'' ''c2'' ACT_HUMAN ''h2''], [])"
    using sample_levels [of 61] by simp
  then show ?thesis unfolding issueCommentThreadAgentIDsTx_def root by (simp add: tx_run replies_def sample_thread_eval)
qed

lemma ancestors_top: "cmt_parent_comment_id c = None \<Longrightarrow> ancestors d i n c = [c]"
  by (cases n) (auto split: option.splits simp: find_Some_iff)

lemma sample_ancestors: "issueCommentAncestorIDsBoundedWith ''p1'' ''i1'' ''c1'' 64 sample_thread = (Inr ([''c1''], False), sample_thread)"
proof -
  have "ancestors sample_thread ''i1'' 64 sample_comment = [sample_comment]" by (rule ancestors_top) (simp add: sample_comment_def)
  moreover have "sql_find db_comments (\<lambda>d c. cmt_issue_id c = ''i1'' \<and> cmt_id c = ''c1'' \<and>
      exists_row (\<lambda>i. iss_id i = ''i1'' \<and> iss_project_id i = ''p1'') (db_issues d)) sample_thread = (Inr sample_comment, sample_thread)"
    by (simp add: tx_run sample_thread_eval)
  ultimately show ?thesis by (simp add: issueCommentAncestorIDsBoundedWith_def tx_run) (simp add: sample_comment_def)
qed


section \<open>Who hears of a comment\<close>

definition new_notification :: "id \<Rightarrow> comment \<Rightarrow> id \<times> int \<Rightarrow> id \<Rightarrow> notification" where
  "new_notification projectID source r uid = \<lparr>ntf_id = uid, ntf_recipient_user_id = fst r, ntf_project_id = projectID,
     ntf_issue_id = cmt_issue_id source, ntf_source_comment_id = cmt_id source,
     ntf_kind = (if snd r \<ge> 2 then NotificationKindCommentReply else NotificationKindIssueComment),
     ntf_created_at = cmt_created_at source, ntf_read_at = None\<rparr>"

definition addressed :: "id \<Rightarrow> id \<Rightarrow> notification \<Rightarrow> bool" where
  "addressed commentID u n \<longleftrightarrow> ntf_recipient_user_id n = u \<and> ntf_source_comment_id n = commentID"

text \<open>The rows after one notification.\<close>

definition notified :: "id \<Rightarrow> comment \<Rightarrow> id \<times> int \<Rightarrow> id \<Rightarrow> notification list \<Rightarrow> notification list" where
  "notified projectID source r uid rows =
     (if exists_row (addressed (cmt_id source) (fst r)) rows
      then update_rows (addressed (cmt_id source) (fst r)) (raise_kind (new_notification projectID source r uid)) rows
      else rows @ [new_notification projectID source r uid])"

lemma addressed_key: "notification_key old (new_notification p source r uid) = addressed (cmt_id source) (fst r) old"
  by (auto simp: notification_key_def addressed_def new_notification_def)

lemma notify_one_Inr:
  assumes "notify_one p source r d = (Inr x, d')"
  defines "uid \<equiv> db_uuid_source d (db_uuid_next d)"
  shows "d' = d\<lparr>db_uuid_next := db_uuid_next d', db_notifications := notified p source r uid (db_notifications d)\<rparr> \<and>
     notification_check d (new_notification p source r uid) = None"
proof -
  let ?d = "d\<lparr>db_uuid_next := Suc (db_uuid_next d)\<rparr>" and ?n = "new_notification p source r uid"
  have same: "notification_check ?d ?n = notification_check d ?n" by (simp add: notification_check_def)
  have "upsert_notification ?n ?d = (Inr x, d')"
    using assms by (simp add: notify_one_def new_notification_def tx_run gen_random_uuid_def)
  then show ?thesis
    unfolding upsert_notification_def addressed_key same
    by (cases "notification_check d ?n = None \<and> exists_row (addressed (cmt_id source) (fst r)) (db_notifications ?d)")
      (auto simp: notified_def tx_simps same addressed_key)
qed

text \<open>What a reader of the inbox knows after one notification.\<close>

lemma raise_kind_simps [simp]: "addressed c u (raise_kind n m) = addressed c u m" "(raise_kind n m)\<lparr>ntf_kind := ntf_kind m\<rparr> = m"
  "ntf_kind (raise_kind n m) = (if ntf_kind n = NotificationKindCommentReply then NotificationKindCommentReply else ntf_kind m)"
  by (simp_all add: raise_kind_def addressed_def)

lemma new_notification_addressed [simp]: "addressed c u (new_notification p source r uid) \<longleftrightarrow> c = cmt_id source \<and> u = fst r"
  by (auto simp: addressed_def new_notification_def)

lemma new_notification_kind [simp]: "ntf_kind (new_notification p source r uid) = NotificationKindCommentReply \<longleftrightarrow> snd r \<ge> 2"
  by (simp add: new_notification_def NotificationKindCommentReply_def NotificationKindIssueComment_def)

lemma in_notified: "n \<in> set (notified p source r uid rows) \<longleftrightarrow>
    (\<exists>m\<in>set rows. n = (if addressed (cmt_id source) (fst r) m then raise_kind (new_notification p source r uid) m else m)) \<or>
    \<not> exists_row (addressed (cmt_id source) (fst r)) rows \<and> n = new_notification p source r uid"
  by (auto simp: notified_def in_update_rows)

lemma notified_keys: "exists_row (addressed c u) (notified p source r uid rows) \<longleftrightarrow>
    exists_row (addressed c u) rows \<or> c = cmt_id source \<and> u = fst r"
proof -
  have "exists_row (addressed c u) (update_rows q (raise_kind n) rows) = exists_row (addressed c u) rows" for q n
    unfolding update_rows_def by (induction rows) auto
  then show ?thesis by (auto simp: notified_def)
qed

lemma notified_old:
  assumes "n \<in> set rows"
  shows "\<exists>n'\<in>set (notified p source r uid rows). n'\<lparr>ntf_kind := ntf_kind n\<rparr> = n"
  using assms by (intro bexI [of _ "if addressed (cmt_id source) (fst r) n then raise_kind (new_notification p source r uid) n else n"])
    (auto simp: in_notified)

definition told_reply :: "id \<Rightarrow> id \<Rightarrow> notification list \<Rightarrow> bool" where
  "told_reply c u rows \<longleftrightarrow> (\<forall>n\<in>set rows. addressed c u n \<longrightarrow> ntf_kind n = NotificationKindCommentReply)"

lemma notified_reply:
  assumes "c = cmt_id source \<and> u = fst r \<and> snd r \<ge> 2 \<or> exists_row (addressed c u) rows \<and> told_reply c u rows"
  shows "told_reply c u (notified p source r uid rows)"
proof -
  let ?n = "new_notification p source r uid"
  have "ntf_kind n = NotificationKindCommentReply" if n: "n \<in> set (notified p source r uid rows)" "addressed c u n" for n
  proof -
    from n(1) consider m where "m \<in> set rows" "addressed (cmt_id source) (fst r) m" "n = raise_kind ?n m"
      | "n \<in> set rows" "\<not> addressed (cmt_id source) (fst r) n" | "n = ?n" "\<not> exists_row (addressed (cmt_id source) (fst r)) rows"
      by (auto simp: in_notified split: if_splits)
    then show ?thesis using assms n(2) by cases (auto simp: told_reply_def)
  qed
  then show ?thesis by (simp add: told_reply_def)
qed

lemma notified_again:
  assumes "exists_row (addressed (cmt_id source) (fst r)) rows" "snd r \<ge> 2 \<longrightarrow> told_reply (cmt_id source) (fst r) rows"
  shows "notified p source r uid rows = rows"
proof -
  have "raise_kind (new_notification p source r uid) n = n" if "n \<in> set rows" "addressed (cmt_id source) (fst r) n" for n
    using assms(2) that by (auto simp: told_reply_def raise_kind_def)
  then show ?thesis using assms(1) by (auto simp: notified_def update_rows_def intro!: map_idI)
qed

text \<open>A round of notifications: everyone on the list is told, what was there stays but for its kind, and it is settled.\<close>

definition told_all :: "comment \<Rightarrow> (id \<times> int) list \<Rightarrow> notification list \<Rightarrow> bool" where
  "told_all source rs rows \<longleftrightarrow> (\<forall>r\<in>set rs. exists_row (addressed (cmt_id source) (fst r)) rows \<and>
     (snd r \<ge> 2 \<longrightarrow> told_reply (cmt_id source) (fst r) rows))"

lemma told_all_kept:
  assumes "told_all source rs rows"
  shows "told_all source rs (notified p source r uid rows)"
  using assms by (auto simp: told_all_def notified_keys simp del: exists_row_iff intro!: notified_reply)

definition same_world :: "db \<Rightarrow> db \<Rightarrow> bool" where
  "same_world d d' \<longleftrightarrow> d' = d\<lparr>db_now := db_now d', db_uuid_next := db_uuid_next d', db_notifications := db_notifications d'\<rparr>"

lemma same_world_step: "same_world d (d\<lparr>db_uuid_next := n, db_notifications := rows\<rparr>)" "same_world d (d\<lparr>db_now := now\<rparr>)"
  by (simp_all add: same_world_def)

lemma same_world_trans:
  assumes "same_world a b" "same_world b c"
  shows "same_world a c"
proof -
  define x y z where "x = db_now b" and "y = db_uuid_next b" and "z = db_notifications b"
  have b: "b = a\<lparr>db_now := x, db_uuid_next := y, db_notifications := z\<rparr>" using assms(1) by (simp add: same_world_def x_def y_def z_def)
  show ?thesis using assms(2) unfolding same_world_def b by simp
qed

lemma same_world_reads:
  assumes "same_world d d'"
  shows "notification_source d' p c = notification_source d p c" "recipients d' p s = recipients d p s"
    "notification_check d' n = notification_check d n"
proof -
  define x y z where "x = db_now d'" and "y = db_uuid_next d'" and "z = db_notifications d'"
  have d': "d' = d\<lparr>db_now := x, db_uuid_next := y, db_notifications := z\<rparr>" using assms by (simp add: same_world_def x_def y_def z_def)
  show "notification_source d' p c = notification_source d p c" "recipients d' p s = recipients d p s"
    "notification_check d' n = notification_check d n"
    by (simp_all add: d' notification_source_def recipients_def candidates_def notification_check_def may_hear_def [abs_def]
        notificationProjectAccessPredicate_def)
qed

text \<open>What is kept of the rows of an inbox.\<close>

definition kept_rows :: "notification list \<Rightarrow> notification list \<Rightarrow> bool" where
  "kept_rows rows rows' \<longleftrightarrow> (\<forall>n\<in>set rows. \<exists>n'\<in>set rows'. n'\<lparr>ntf_kind := ntf_kind n\<rparr> = n)"

lemma kept_rows_refl: "kept_rows rows rows"
  unfolding kept_rows_def by (intro ballI bexI) simp_all

lemma kept_rows_trans: "kept_rows a b \<Longrightarrow> kept_rows b c \<Longrightarrow> kept_rows a c"
  unfolding kept_rows_def by (metis notification.update_convs(6) notification.surjective)

lemma check_any: "notification_check d (new_notification p source r a) = notification_check d (new_notification p source r b)"
  by (simp add: notification_check_def new_notification_def)

lemma notify_list:
  assumes "tx_map (notify_one p source) rs d = (Inr xs, d')" "told_all source qs (db_notifications d)"
  shows "same_world d d' \<and> told_all source (qs @ rs) (db_notifications d') \<and> kept_rows (db_notifications d) (db_notifications d') \<and>
    (\<forall>c u. exists_row (addressed c u) (db_notifications d') \<longleftrightarrow>
       exists_row (addressed c u) (db_notifications d) \<or> c = cmt_id source \<and> u \<in> fst ` set rs) \<and>
    (\<forall>r\<in>set rs. \<forall>uid. notification_check d (new_notification p source r uid) = None)"
  using assms
proof (induction rs arbitrary: d xs qs)
  case Nil
  then show ?case by (auto simp: tx_simps same_world_def kept_rows_refl)
next
  case (Cons r rs)
  let ?uid = "db_uuid_source d (db_uuid_next d)"
  let ?rows = "notified p source r ?uid (db_notifications d)"
  obtain x s ys where run: "notify_one p source r d = (Inr x, s)" "tx_map (notify_one p source) rs s = (Inr ys, d')"
    using Cons.prems(1) by (auto simp: tx_bind_Inr tx_simps)
  then have s: "s = d\<lparr>db_uuid_next := db_uuid_next s, db_notifications := ?rows\<rparr>" using notify_one_Inr by blast
  then have rows: "db_notifications s = ?rows" by (metis db.select_convs(22) db.surjective db.update_convs(22))
  have told: "told_all source (qs @ [r]) ?rows"
    using told_all_kept [OF Cons.prems(2)] notified_reply [of "cmt_id source" source "fst r" r]
    by (auto simp: told_all_def notified_keys simp del: exists_row_iff)
  have IH: "same_world s d'" "told_all source ((qs @ [r]) @ rs) (db_notifications d')" "kept_rows (db_notifications s) (db_notifications d')"
    "\<forall>c u. exists_row (addressed c u) (db_notifications d') \<longleftrightarrow>
       exists_row (addressed c u) (db_notifications s) \<or> c = cmt_id source \<and> u \<in> fst ` set rs"
    "\<forall>r\<in>set rs. \<forall>uid. notification_check s (new_notification p source r uid) = None"
    using Cons.IH [OF run(2) told [folded rows]] by blast+
  have world: "same_world d s" using same_world_step(1) s by metis
  have checks: "\<forall>r'\<in>set (r # rs). \<forall>uid. notification_check d (new_notification p source r' uid) = None"
    using IH(5) notify_one_Inr [OF run(1)] check_any [of d p source r _ ?uid] by (auto simp: same_world_reads(3) [OF world])
  have "kept_rows (db_notifications d) (db_notifications s)" unfolding kept_rows_def rows using notified_old by blast
  then have "kept_rows (db_notifications d) (db_notifications d')" using IH(3) kept_rows_trans by blast
  moreover have "exists_row (addressed c u) (db_notifications d') \<longleftrightarrow>
      exists_row (addressed c u) (db_notifications d) \<or> c = cmt_id source \<and> u \<in> fst ` set (r # rs)" for c u
    using IH(4) notified_keys [of c u p source r ?uid "db_notifications d"] by (auto simp: rows simp del: exists_row_iff)
  ultimately show ?case using IH(2) checks same_world_trans [OF world IH(1)] by simp
qed

lemma notify_list_again:
  assumes "told_all source rs (db_notifications d)" "\<forall>r\<in>set rs. \<forall>uid. notification_check d (new_notification p source r uid) = None"
  shows "\<exists>xs n. tx_map (notify_one p source) rs d = (Inr xs, d\<lparr>db_uuid_next := n\<rparr>)"
  using assms
proof (induction rs arbitrary: d)
  case (Cons r rs)
  let ?d = "d\<lparr>db_uuid_next := Suc (db_uuid_next d)\<rparr>" and ?n = "new_notification p source r (db_uuid_source d (db_uuid_next d))"
  have same: "notified p source r uid (db_notifications d) = db_notifications d" for uid
    using Cons.prems(1) by (intro notified_again) (auto simp: told_all_def)
  have check: "notification_check e m = notification_check d m" if "e = d\<lparr>db_uuid_next := k\<rparr>" for e m k
    using that by (simp add: notification_check_def)
  have "notify_one p source r d = upsert_notification ?n ?d"
    by (simp add: notify_one_def new_notification_def tx_run gen_random_uuid_def)
  also have "\<dots> = (Inr (), ?d)"
    using Cons.prems same check [of ?d] by (auto simp: upsert_notification_def addressed_key told_all_def notified_def split: if_splits)
  finally have one: "notify_one p source r d = (Inr (), ?d)" .
  obtain xs n where "tx_map (notify_one p source) rs ?d = (Inr xs, ?d\<lparr>db_uuid_next := n\<rparr>)"
    using Cons.IH [of ?d] Cons.prems check [of ?d] by (auto simp: told_all_def)
  then show ?case using one by (auto simp: tx_run)
next
  case Nil
  show ?case by (rule exI [of _ "[]"], rule exI [of _ "db_uuid_next d"]) (simp add: tx_run)
qed

text \<open>The author of the comment that is answered, and those who are to hear of a comment.\<close>

definition answers :: "db \<Rightarrow> comment \<Rightarrow> id \<Rightarrow> bool" where
  "answers d source u \<longleftrightarrow> (\<exists>parent\<in>set (db_comments d). cmt_issue_id parent = cmt_issue_id source \<and>
     Some (cmt_id parent) = cmt_parent_comment_id source \<and> cmt_author_type parent = ACT_HUMAN \<and> cmt_author_id parent = u)"

definition hears_of :: "db \<Rightarrow> id \<Rightarrow> comment \<Rightarrow> id \<Rightarrow> bool" where
  "hears_of d projectID source u \<longleftrightarrow> may_hear d projectID u \<and> \<not> (cmt_author_type source = ACT_HUMAN \<and> cmt_author_id source = u) \<and>
     (answers d source u \<or> (\<exists>s\<in>set (db_subscriptions d). sub_project_id s = projectID \<and> sub_issue_id s = cmt_issue_id source \<and> sub_user_id s = u))"

lemma candidates_iff:
  "(u, k) \<in> set (candidates d p source) \<longleftrightarrow> k = 2 \<and> answers d source u \<or>
     k = 1 \<and> (\<exists>s\<in>set (db_subscriptions d). sub_project_id s = p \<and> sub_issue_id s = cmt_issue_id source \<and> sub_user_id s = u)"
  by (auto simp: candidates_def answers_def)

lemma recipients_hear: "u \<in> fst ` set (recipients d p source) \<longleftrightarrow> hears_of d p source u"
proof -
  have "u \<in> fst ` set (candidates d p source) \<longleftrightarrow> (\<exists>k. (u, k) \<in> set (candidates d p source))" by force
  then show ?thesis by (auto simp: recipients_def Let_def hears_of_def candidates_iff image_iff)
qed

lemma recipients_priority:
  assumes "(u, k) \<in> set (recipients d p source)" "answers d source u"
  shows "k \<ge> 2"
proof -
  let ?cs = "candidates d p source"
  have "k = priority_of ?cs u" using assms(1) by (auto simp: recipients_def Let_def)
  moreover have "(u, 2) \<in> set ?cs" using assms(2) by (simp add: candidates_iff)
  then have "2 \<in> snd ` set (filter (\<lambda>c. fst c = u) ?cs)" by force
  ultimately show ?thesis by (simp add: priority_of_def)
qed

text \<open>
  C39. Notifications of a comment reach exactly those they should: the active users with access to the project who subscribed
  to the Issue or wrote the comment it answers, never its human author. Whoever is answered is told of a reply,
  notifications that were there stay, read or not, and doing it again changes no notification.\<close>

theorem notifications_reach_listeners:
  assumes "CreateIssueCommentNotifications projectID commentID now d = (Inr (), d')"
    and "notification_source d projectID commentID = Some source"
  shows "(\<forall>c u. exists_row (addressed c u) (db_notifications d') \<longleftrightarrow>
      exists_row (addressed c u) (db_notifications d) \<or> c = commentID \<and> hears_of d projectID source u) \<and>
    (\<forall>u. hears_of d projectID source u \<and> answers d source u \<longrightarrow> told_reply commentID u (db_notifications d')) \<and>
    kept_rows (db_notifications d) (db_notifications d') \<and>
    (\<exists>d''. CreateIssueCommentNotifications projectID commentID later d' = (Inr (), d'') \<and> db_notifications d'' = db_notifications d')"
proof -
  let ?rs = "recipients d projectID source" and ?d = "d\<lparr>db_now := now\<rparr>"
  have id: "cmt_id source = commentID" using assms(2) by (auto simp: notification_source_def find_Some_iff)
  have start: "notification_source ?d projectID commentID = Some source" "recipients ?d projectID source = ?rs"
    using same_world_reads(1,2) [OF same_world_step(2) [of d now]] assms(2) by simp_all
  have valid: "\<not> any_blank [projectID, commentID]" using assms(1) by (auto simp: CreateIssueCommentNotifications_def split: if_splits)
  with assms(1) have run: "notify_tx projectID commentID ?d = (Inr (), d')"
    by (simp add: CreateIssueCommentNotifications_def run_tx_Inr)
  obtain xs where list: "tx_map (notify_one projectID source) ?rs ?d = (Inr xs, d')"
    using run by (auto simp: notify_tx_def tx_bind_Inr tx_simps start)
  have told: "told_all source [] (db_notifications ?d)" by (simp add: told_all_def)
  have outcome: "same_world ?d d'" "told_all source ?rs (db_notifications d')" "kept_rows (db_notifications d) (db_notifications d')"
    "\<And>c u. exists_row (addressed c u) (db_notifications d') \<longleftrightarrow>
       exists_row (addressed c u) (db_notifications d) \<or> c = cmt_id source \<and> u \<in> fst ` set ?rs"
    "\<forall>r\<in>set ?rs. \<forall>uid. notification_check ?d (new_notification projectID source r uid) = None"
    using notify_list [OF list told] by (simp_all del: exists_row_iff)
  have world: "same_world d d'" using same_world_trans [OF same_world_step(2) outcome(1)] .
  then have again: "same_world d (d'\<lparr>db_now := later\<rparr>)" using same_world_trans same_world_step(2) by blast
  have reads: "notification_source (d'\<lparr>db_now := later\<rparr>) projectID commentID = Some source"
    "recipients (d'\<lparr>db_now := later\<rparr>) projectID source = ?rs"
    using same_world_reads(1,2) [OF again] assms(2) by simp_all
  obtain ys n where "tx_map (notify_one projectID source) ?rs (d'\<lparr>db_now := later\<rparr>) = (Inr ys, d'\<lparr>db_now := later\<rparr>\<lparr>db_uuid_next := n\<rparr>)"
    using notify_list_again [of source ?rs "d'\<lparr>db_now := later\<rparr>" projectID] outcome(2,5)
    unfolding same_world_reads(3) [OF again] same_world_reads(3) [OF same_world_step(2) [of d now]] by auto
  then have rerun: "CreateIssueCommentNotifications projectID commentID later d' = (Inr (), d'\<lparr>db_now := later\<rparr>\<lparr>db_uuid_next := n\<rparr>)"
    using valid by (simp add: CreateIssueCommentNotifications_def notify_tx_def tx_run reads)
  have reply: "told_reply commentID u (db_notifications d')" if h: "hears_of d projectID source u" "answers d source u" for u
  proof -
    obtain k where "(u, k) \<in> set ?rs" using h(1) recipients_hear [of u d projectID source] by force
    then show ?thesis using outcome(2) recipients_priority [OF _ h(2)] id by (force simp: told_all_def)
  qed
  have keys: "exists_row (addressed c u) (db_notifications d') \<longleftrightarrow>
      exists_row (addressed c u) (db_notifications d) \<or> c = commentID \<and> hears_of d projectID source u" for c u
    using outcome(4) [of c u] id recipients_hear [of u d projectID source] by simp
  show ?thesis using keys reply outcome(3) rerun by (simp del: exists_row_iff)
qed

lemma notify_first:
  assumes "\<And>uid. notification_check d (new_notification p source r uid) = None" "db_notifications d = []"
  shows "\<exists>d'. notify_one p source r d = (Inr (), d')"
proof -
  have "notification_check (d\<lparr>db_uuid_next := Suc (db_uuid_next d)\<rparr>) n = notification_check d n" for n
    by (simp add: notification_check_def)
  then show ?thesis
    using assms(1) [of "db_uuid_source d (db_uuid_next d)"] assms(2)
    by (simp add: notify_one_def upsert_notification_def gen_random_uuid_def tx_run new_notification_def)
qed

text \<open>The human reply to the Agent in the sample thread is heard of by the other subscriber.\<close>

theorem notifications_reach_listeners_witness:
  "\<exists>d'. CreateIssueCommentNotifications ''p1'' ''c3'' 7 sample_thread = (Inr (), d') \<and>
     exists_row (addressed ''c3'' ''h1'') (db_notifications d') \<and> \<not> exists_row (addressed ''c3'' ''h2'') (db_notifications d') \<and>
     (\<exists>d''. CreateIssueCommentNotifications ''p1'' ''c3'' 9 d' = (Inr (), d'') \<and> db_notifications d'' = db_notifications d')"
proof -
  let ?source = "sample_reply ''c3'' ''c2'' ACT_HUMAN ''h2''"
  have source: "notification_source sample_thread ''p1'' ''c3'' = Some ?source" by (simp add: notification_source_def sample_thread_eval)
  have access: "may_hear sample_thread ''p1'' ''h1''"
    by (simp add: may_hear_def notificationProjectAccessPredicate_def sample_thread_eval sample_identity_def sample_user_def
        UserStatusActive_def DeploymentRoleAdmin_def)
  have cands: "candidates sample_thread ''p1'' ?source = [(''h1'', 1), (''h2'', 1)]"
    by (simp add: candidates_def sample_thread_eval)
  have rs: "recipients sample_thread ''p1'' ?source = [(''h1'', 1)]"
    using access unfolding recipients_def cands Let_def by (simp add: priority_of_def) (simp add: sample_reply_def)
  have start: "notification_source (sample_thread\<lparr>db_now := 7\<rparr>) ''p1'' ''c3'' = Some ?source"
    "recipients (sample_thread\<lparr>db_now := 7\<rparr>) ''p1'' ?source = [(''h1'', 1)]"
    using same_world_reads(1,2) [OF same_world_step(2) [of sample_thread 7]] source rs by simp_all
  have "notification_check sample_thread (new_notification ''p1'' ?source (''h1'', 1) uid) = None" for uid
    by (simp add: notification_check_def new_notification_def NotificationKindIssueComment_def sample_thread_eval sample_identity_def sample_user_def)
  then have "notification_check (sample_thread\<lparr>db_now := 7\<rparr>) (new_notification ''p1'' ?source (''h1'', 1) uid) = None" for uid
    unfolding same_world_reads(3) [OF same_world_step(2) [of sample_thread 7]] .
  moreover have empty: "db_notifications sample_thread = []" by (simp add: sample_thread_def sample_eval)
  ultimately obtain e where "notify_one ''p1'' ?source (''h1'', 1) (sample_thread\<lparr>db_now := 7\<rparr>) = (Inr (), e)"
    using notify_first [of "sample_thread\<lparr>db_now := 7\<rparr>" "''p1''" ?source "(''h1'', 1)"] by auto
  then have "fst (CreateIssueCommentNotifications ''p1'' ''c3'' 7 sample_thread) = Inr ()"
    by (simp add: CreateIssueCommentNotifications_def any_blank_def sample_trimmed notify_tx_def start tx_run)
  then obtain d' where d': "CreateIssueCommentNotifications ''p1'' ''c3'' 7 sample_thread = (Inr (), d')" by (metis prod.collapse)
  have hears: "hears_of sample_thread ''p1'' ?source ''h1''" "\<not> hears_of sample_thread ''p1'' ?source ''h2''"
    by (simp_all add: rs flip: recipients_hear)
  note reach = notifications_reach_listeners [OF d' source, of 9]
  have none: "\<not> exists_row q (db_notifications sample_thread)" for q by (simp add: empty)
  from reach [THEN conjunct1, rule_format, of "''c3''" "''h1''"] reach [THEN conjunct1, rule_format, of "''c3''" "''h2''"]
  have "exists_row (addressed ''c3'' ''h1'') (db_notifications d')" "\<not> exists_row (addressed ''c3'' ''h2'') (db_notifications d')"
    using hears by (simp_all add: none del: exists_row_iff)
  then show ?thesis using d' reach [THEN conjunct2, THEN conjunct2, THEN conjunct2] by blast
qed

end
