(* ===== verification/Comment_Threads.thy ===== *)
theory Comment_Threads
  imports Comment_Properties
begin

text \<open>
  Threads stay whole: whatever is done to comments, every reply keeps the comment it answers, a deleted comment keeps its place
  without its text, and nothing hangs on a comment that is gone.
\<close>

definition comment_row :: "db \<Rightarrow> id \<Rightarrow> id \<Rightarrow> bool" where
  "comment_row d issueID commentID \<longleftrightarrow> (issueID, commentID) \<in> set (map (\<lambda>c. (cmt_issue_id c, cmt_id c)) (db_comments d))"

definition threads_wf :: "db \<Rightarrow> bool" where
  "threads_wf d \<longleftrightarrow> distinct (map cmt_id (db_comments d)) \<and>
     (\<forall>c\<in>set (db_comments d). comment_columns_ok c \<and> (\<forall>p. cmt_parent_comment_id c = Some p \<longrightarrow> comment_row d (cmt_issue_id c) p)) \<and>
     (\<forall>m\<in>set (db_mentions d). comment_row d (mnt_issue_id m) (mnt_comment_id m)) \<and>
     (\<forall>t\<in>set (db_implicit_triggers d). comment_row d (imt_issue_id t) (imt_comment_id t)) \<and>
     (\<forall>r\<in>set (db_reactions d). comment_row d (rct_issue_id r) (rct_comment_id r)) \<and>
     (\<forall>n\<in>set (db_notifications d). comment_row d (ntf_issue_id n) (ntf_source_comment_id n))"

definition keeps_threads :: "db \<Rightarrow> db \<Rightarrow> bool" where
  "keeps_threads d d' \<longleftrightarrow> (threads_wf d \<longrightarrow> threads_wf d')"

lemma keeps_threads_same:
  "db_comments d' = db_comments d \<Longrightarrow> db_mentions d' = db_mentions d \<Longrightarrow> db_implicit_triggers d' = db_implicit_triggers d \<Longrightarrow>
   db_reactions d' = db_reactions d \<Longrightarrow> db_notifications d' = db_notifications d \<Longrightarrow> keeps_threads d d'"
  by (simp add: keeps_threads_def threads_wf_def comment_row_def)

lemma threads_writes:
  "keeps_threads d (db_runs_update g1 d)" "keeps_threads d (db_jobs_update g2 d)" "keeps_threads d (db_workspaces_update g3 d)"
  "keeps_threads d (db_delegations_update g4 d)" "keeps_threads d (db_work_requests_update g5 d)" "keeps_threads d (db_events_update g6 d)"
  "keeps_threads d (db_subscriptions_update g7 d)" "keeps_threads d (d\<lparr>db_now := now\<rparr>)" "keeps_threads d (d\<lparr>db_uuid_next := n\<rparr>)"
  by (rule keeps_threads_same; simp)+

interpretation thread_base: db_frame keeps_threads
  by unfold_locales (auto simp: keeps_threads_def threads_writes [unfolded keeps_threads_def])

lemmas threads_rules = thread_base.keeps_intros thread_base.keeps_uuid
  thread_base.keeps_writes [of db_runs_update, OF threads_writes(1)] thread_base.keeps_writes [of db_jobs_update, OF threads_writes(2)]
  thread_base.keeps_writes [of db_workspaces_update, OF threads_writes(3)] thread_base.keeps_writes [of db_delegations_update, OF threads_writes(4)]

lemma threads_append: "tx_keeps keeps_threads (appendEventTx e)"
  by (rule tx_keepsI, drule appendEventTx_state) (simp add: keeps_threads_same)

text \<open>Statements that refer to a comment.\<close>

lemma comment_row_iff: "comment_row d i c \<longleftrightarrow> (\<exists>x\<in>set (db_comments d). cmt_issue_id x = i \<and> cmt_id x = c)"
  by (auto simp: comment_row_def)

lemma rows_grow:
  assumes "threads_wf d" "\<And>i c. comment_row d i c \<Longrightarrow> comment_row d' i c" "distinct (map cmt_id (db_comments d'))"
    and "\<And>c. c \<in> set (db_comments d') \<Longrightarrow> comment_columns_ok c \<and>
      (\<forall>p. cmt_parent_comment_id c = Some p \<longrightarrow> comment_row d' (cmt_issue_id c) p)"
    and "db_mentions d' = db_mentions d" "db_implicit_triggers d' = db_implicit_triggers d"
    and "set (db_reactions d') \<subseteq> set (db_reactions d)" "db_notifications d' = db_notifications d"
  shows "threads_wf d'"
  using assms(1) assms(7) unfolding threads_wf_def assms(5,6,8) by (auto simp: assms(2-4))

lemma comment_check_None:
  "comment_check d c = None \<longleftrightarrow> comment_columns_ok c \<and> exists_row (\<lambda>i. iss_id i = cmt_issue_id c) (db_issues d) \<and>
     (\<forall>p. cmt_parent_comment_id c = Some p \<longrightarrow> comment_row d (cmt_issue_id c) p) \<and>
     (\<forall>r. cmt_source_run_id c = Some r \<longrightarrow> exists_row (\<lambda>x. run_id x = r) (db_runs d))"
  by (auto simp: comment_check_def comment_row_iff split: option.splits)

lemma threads_new_comment: "tx_keeps keeps_threads (sql_insert_unless db_comments db_comments_update comment_unique comment_unique
    comment_check err c)"
proof (rule tx_keepsI)
  fix d x d' assume step: "sql_insert_unless db_comments db_comments_update comment_unique comment_unique comment_check err c d = (Inr x, d')"
  show "keeps_threads d d'"
  proof (cases "\<exists>r\<in>set (db_comments d). comment_unique r c")
    case True
    then show ?thesis using step by (auto simp: sql_insert_unless_Inr thread_base.refl)
  next
    case False
    then have d': "d' = db_comments_update (\<lambda>rs. rs @ [c]) d" and ok: "comment_check d c = None"
      using step by (auto simp: sql_insert_unless_Inr)
    have more: "comment_row d i p \<Longrightarrow> comment_row d' i p" for i p by (auto simp: comment_row_iff d')
    show ?thesis unfolding keeps_threads_def
    proof
      assume wf: "threads_wf d"
      show "threads_wf d'"
      proof (rule rows_grow [OF wf more])
        show "distinct (map cmt_id (db_comments d'))" using wf False by (auto simp: d' threads_wf_def comment_unique_def)
        show "comment_columns_ok x \<and> (\<forall>p. cmt_parent_comment_id x = Some p \<longrightarrow> comment_row d' (cmt_issue_id x) p)"
          if "x \<in> set (db_comments d')" for x
          using that wf ok more by (auto simp: d' threads_wf_def comment_check_None)
      qed (simp_all add: d')
    qed
  qed
qed

lemma threads_write:
  assumes same: "\<And>now c. cmt_id (f now c) = cmt_id c \<and> cmt_issue_id (f now c) = cmt_issue_id c \<and>
      cmt_parent_comment_id (f now c) = cmt_parent_comment_id c"
  shows "tx_keeps keeps_threads (write_comment i c f)"
proof (rule tx_keepsI)
  fix d x d' assume "write_comment i c f d = (Inr x, d')"
  then have d': "d' = db_comments_update (update_rows (\<lambda>x. cmt_issue_id x = i \<and> cmt_id x = c) (f (db_now d))) d"
    and ok: "\<And>x. x \<in> set (db_comments d) \<Longrightarrow> cmt_issue_id x = i \<Longrightarrow> cmt_id x = c \<Longrightarrow> comment_check d (f (db_now d) x) = None"
    unfolding write_comment_def by (auto simp: sql_update_all_Inr)
  have rows: "comment_row d' j p \<longleftrightarrow> comment_row d j p" for j p
    unfolding comment_row_def d' using same by (simp add: map_update_rows del: set_map)
  show "keeps_threads d d'" unfolding keeps_threads_def
  proof
    assume wf: "threads_wf d"
    show "threads_wf d'"
    proof (rule rows_grow [OF wf])
      show "distinct (map cmt_id (db_comments d'))" using wf same by (simp add: d' threads_wf_def map_update_rows)
      show "comment_columns_ok x \<and> (\<forall>p. cmt_parent_comment_id x = Some p \<longrightarrow> comment_row d' (cmt_issue_id x) p)"
        if "x \<in> set (db_comments d')" for x
        using that wf ok same unfolding rows by (auto simp: d' threads_wf_def comment_check_None in_update_rows)
    qed (simp_all only: rows, simp_all add: d')
  qed
qed

text \<open>Rows that refer to a comment come and go.\<close>

lemma links_change:
  assumes "db_comments d' = db_comments d"
    and "\<And>m. threads_wf d \<Longrightarrow> m \<in> set (db_mentions d') \<Longrightarrow> m \<in> set (db_mentions d) \<or> comment_row d (mnt_issue_id m) (mnt_comment_id m)"
    and "\<And>t. threads_wf d \<Longrightarrow> t \<in> set (db_implicit_triggers d') \<Longrightarrow> t \<in> set (db_implicit_triggers d) \<or> comment_row d (imt_issue_id t) (imt_comment_id t)"
    and "\<And>r. threads_wf d \<Longrightarrow> r \<in> set (db_reactions d') \<Longrightarrow> r \<in> set (db_reactions d) \<or> comment_row d (rct_issue_id r) (rct_comment_id r)"
    and "\<And>n. threads_wf d \<Longrightarrow> n \<in> set (db_notifications d') \<Longrightarrow> n \<in> set (db_notifications d) \<or> comment_row d (ntf_issue_id n) (ntf_source_comment_id n)"
  shows "keeps_threads d d'"
proof -
  have row: "comment_row d' i c = comment_row d i c" for i c by (simp add: comment_row_def assms(1))
  show ?thesis unfolding keeps_threads_def
  proof
    assume wf: "threads_wf d"
    show "threads_wf d'" using wf assms(2-5) [OF wf] unfolding threads_wf_def row assms(1) by blast
  qed
qed

lemma links_refer:
  "mention_check d m = None \<Longrightarrow> comment_row d (mnt_issue_id m) (mnt_comment_id m)"
  "implicit_check d t = None \<Longrightarrow> comment_row d (imt_issue_id t) (imt_comment_id t)"
  "reaction_check d r = None \<Longrightarrow> comment_row d (rct_issue_id r) (rct_comment_id r)"
  "notification_check d n = None \<Longrightarrow> comment_row d (ntf_issue_id n) (ntf_source_comment_id n)"
  by (auto simp: mention_check_def implicit_check_def reaction_check_def notification_check_def link_refers_def comment_row_iff
      split: if_splits)

lemma threads_inserts:
  "tx_keeps keeps_threads (sql_insert db_mentions db_mentions_update mention_unique mention_check PgError m)"
  "tx_keeps keeps_threads (sql_insert db_implicit_triggers db_implicit_triggers_update implicit_unique implicit_check PgError t)"
  "tx_keeps keeps_threads (sql_insert_unless db_reactions db_reactions_update same_reaction same_reaction reaction_check PgError r)"
  "tx_keeps keeps_threads (sql_delete db_reactions db_reactions_update q)"
proof -
  show "tx_keeps keeps_threads (sql_insert db_mentions db_mentions_update mention_unique mention_check PgError m)"
    by (rule tx_keepsI, rule links_change) (auto simp: sql_insert_Inr dest: links_refer(1))
  show "tx_keeps keeps_threads (sql_insert db_implicit_triggers db_implicit_triggers_update implicit_unique implicit_check PgError t)"
    by (rule tx_keepsI, rule links_change) (auto simp: sql_insert_Inr dest: links_refer(2))
  show "tx_keeps keeps_threads (sql_insert_unless db_reactions db_reactions_update same_reaction same_reaction reaction_check PgError r)"
  proof (rule tx_keepsI)
    fix d x d' assume "sql_insert_unless db_reactions db_reactions_update same_reaction same_reaction reaction_check PgError r d = (Inr x, d')"
    then consider "d' = d" | "d' = db_reactions_update (\<lambda>rs. rs @ [r]) d" "reaction_check d r = None"
      by (simp only: sql_insert_unless_Inr) (metis (full_types))
    then show "keeps_threads d d'" by cases (simp add: thread_base.refl, rule links_change, auto dest: links_refer(3))
  qed
  show "tx_keeps keeps_threads (sql_delete db_reactions db_reactions_update q)"
    by (rule tx_keepsI, rule links_change) (auto simp: sql_delete_def)
qed

lemma threads_seen: "tx_keeps keeps_threads (sql_update db_notifications db_notifications_update qn (\<lambda>d n. n\<lparr>ntf_read_at := g d n\<rparr>))"
proof (rule tx_keepsI)
  fix d x d' assume "sql_update db_notifications db_notifications_update qn (\<lambda>d n. n\<lparr>ntf_read_at := g d n\<rparr>) d = (Inr x, d')"
  then have d': "d' = db_notifications_update (update_rows (qn d) (\<lambda>n. n\<lparr>ntf_read_at := g d n\<rparr>)) d" by (simp add: tx_simps)
  have "comment_row d (ntf_issue_id n) (ntf_source_comment_id n)" if "n \<in> set (db_notifications d')" "threads_wf d" for n
    using that by (auto simp: d' in_update_rows threads_wf_def)
  then show "keeps_threads d d'" by (intro links_change) (auto simp: d')
qed

lemma threads_upsert: "tx_keeps keeps_threads (upsert_notification n)"
proof (rule tx_keepsI)
  fix d x d' assume step: "upsert_notification n d = (Inr x, d')"
  have "comment_row d (ntf_issue_id m) (ntf_source_comment_id m)" if m: "m \<in> set (db_notifications d')" "threads_wf d" for m
    using m step by (auto simp: upsert_notification_def tx_simps in_update_rows threads_wf_def raise_kind_def dest: links_refer split: if_splits)
  then show "keeps_threads d d'" using step
    by (intro links_change) (auto simp: upsert_notification_def tx_simps split: if_splits)
qed

text \<open>A row goes only when nothing refers to it; its reactions and notifications go with it.\<close>

lemma threads_remove:
  assumes "remove_comment i c d = (Inr u, d')" "\<not> comment_answered d i c"
  shows "keeps_threads d d'"
proof -
  have rows: "db_comments d' = filter (\<lambda>x. \<not> (cmt_issue_id x = i \<and> cmt_id x = c)) (db_comments d)"
    "db_reactions d' = filter (\<lambda>r. \<not> (rct_issue_id r = i \<and> rct_comment_id r = c)) (db_reactions d)"
    "db_notifications d' = filter (\<lambda>n. \<not> (ntf_issue_id n = i \<and> ntf_source_comment_id n = c)) (db_notifications d)"
    "db_mentions d' = db_mentions d" "db_implicit_triggers d' = db_implicit_triggers d"
    using assms(1) unfolding remove_comment_def by (auto simp: tx_simps)
  have row: "comment_row d' j p \<longleftrightarrow> comment_row d j p \<and> \<not> (j = i \<and> p = c)" for j p
    by (auto simp: comment_row_iff rows)
  show ?thesis unfolding keeps_threads_def
  proof
    assume wf: "threads_wf d"
    have "distinct (map cmt_id (db_comments d'))" using wf by (simp add: threads_wf_def rows distinct_map_filter_rows)
    with wf assms(2) show "threads_wf d'"
      unfolding threads_wf_def row rows comment_answered_def by auto
  qed
qed

lemma threads_delete: "tx_keeps keeps_threads (delete_comment_tx p i c a)"
proof (rule tx_keepsI)
  fix d x d' assume step: "delete_comment_tx p i c a d = (Inr x, d')"
  have bury: "tx_keeps keeps_threads (bury_comment i c)"
    unfolding bury_comment_def by (intro thread_base.keeps_intros threads_inserts(4) threads_write) simp
  have append: "tx_keeps keeps_threads (appendIssueCommentChangedEventTx p i c a y r t)" for y r t
    unfolding appendIssueCommentChangedEventTx_def by (rule threads_append)
  obtain s where found: "find_comment p i c d = (Inr s, d)"
    using step read_comments(6) [THEN read_state] unfolding delete_comment_tx_def by (auto simp: tx_bind_Inr)
  show "keeps_threads d d'"
  proof (cases "cmt_deleted_at s = None")
    case False
    then show ?thesis using step found unfolding delete_comment_tx_def by (auto simp: tx_bind_run tx_basic_run thread_base.refl)
  next
    case True
    then obtain u e f where work: "(if comment_answered d i c then bury_comment i c else remove_comment i c) d = (Inr u, e)"
      and event: "appendIssueCommentChangedEventTx p i c a ''DELETED'' None (db_now d) e = (Inr f, d')"
      using step found unfolding delete_comment_tx_def by (auto simp: tx_bind_Inr tx_get_eq tx_return_eq)
    have "keeps_threads d e"
      using work bury threads_remove by (auto split: if_splits dest: tx_keepsD)
    moreover have "keeps_threads e d'" using append event by (auto dest: tx_keepsD)
    ultimately show ?thesis by (rule thread_base.trans)
  qed
qed

interpretation threads: comment_frame keeps_threads
  by unfold_locales (intro threads_rules threads_append threads_writes threads_new_comment threads_write threads_delete threads_inserts
    threads_upsert threads_seen; simp)+

lemma threads_step: "comment_step d d' \<Longrightarrow> threads_wf d \<Longrightarrow> threads_wf d'"
  using threads.keeps_comment_step by (auto simp: keeps_threads_def)

lemma sample_thread_wf: "threads_wf sample_thread"
proof -
  have trim: "btrim ''please help'' = ''please help''" "btrim ''c2'' = ''c2''" "btrim ''c3'' = ''c3''" by code_simp+
  show ?thesis by (simp add: threads_wf_def comment_row_def comment_columns_ok_def non_blank_def sample_thread_eval trim)
qed

text \<open>
  C37. Threads stay whole: over any sequence of operations on comments, notifications and subscriptions, identifiers stay
  unique, every reply keeps the comment it answers in its own Issue, a comment has a text exactly while it is not
  deleted, and mentions, triggers, reactions and notifications refer to comments that are there.\<close>

theorem threads_stay_whole:
  assumes "threads_wf d" "comment_step\<^sup>*\<^sup>* d d'"
  shows "threads_wf d'"
  using assms(2,1) by (induction rule: rtranclp_induct) (auto intro: threads_step)

theorem threads_stay_whole_witness:
  "threads_wf (snd (DeleteIssueComment ''p1'' ''i1'' ''c2'' ''h1'' 8 sample_thread))"
proof (rule threads_stay_whole [OF sample_thread_wf])
  show "comment_step\<^sup>*\<^sup>* sample_thread (snd (DeleteIssueComment ''p1'' ''i1'' ''c2'' ''h1'' 8 sample_thread))"
    by (rule r_into_rtranclp, rule comment_step.delete, rule prod.collapse [symmetric])
qed

end
