(* ===== verification/Comment_Repetition.thy ===== *)
theory Comment_Repetition
  imports Comment_Threads
begin

text \<open>
  A comment that carries an action key is made once: the request that made it finds it again, with its mentions and the
  trigger of its place, and changes nothing.
\<close>

section \<open>What asking for work leaves alone\<close>

definition run_keys :: "db \<Rightarrow> (id \<times> id \<times> id \<times> id option) list" where
  "run_keys d = map (\<lambda>r. (run_project_id r, run_id r, run_issue_id r, run_agent_id r)) (db_runs d)"

definition beside :: "db \<Rightarrow> db \<Rightarrow> bool" where
  "beside d d' \<longleftrightarrow> db_comments d' = db_comments d \<and> db_issues d' = db_issues d \<and> db_identity d' = db_identity d \<and> db_agents d' = db_agents d \<and>
     (\<exists>more. run_keys d' = run_keys d @ more)"

definition aside :: "db \<Rightarrow> db \<Rightarrow> bool" where
  "aside d d' \<longleftrightarrow> beside d d' \<and> db_mentions d' = db_mentions d \<and> db_implicit_triggers d' = db_implicit_triggers d"

lemma aside_same:
  "db_runs d' = db_runs d \<Longrightarrow> db_comments d' = db_comments d \<Longrightarrow> db_issues d' = db_issues d \<Longrightarrow> db_identity d' = db_identity d \<Longrightarrow>
   db_agents d' = db_agents d \<Longrightarrow> db_mentions d' = db_mentions d \<Longrightarrow> db_implicit_triggers d' = db_implicit_triggers d \<Longrightarrow> aside d d'"
  by (simp add: aside_def beside_def run_keys_def)

lemma beside_trans: "beside a b \<Longrightarrow> beside b c \<Longrightarrow> beside a c"
  unfolding beside_def by auto

lemma aside_writes:
  "aside d (db_jobs_update g2 d)" "aside d (db_workspaces_update g3 d)" "aside d (db_delegations_update g4 d)"
  "aside d (db_work_requests_update g5 d)" "aside d (db_events_update g6 d)" "aside d (d\<lparr>db_now := now\<rparr>)" "aside d (d\<lparr>db_uuid_next := n\<rparr>)"
  by (rule aside_same; simp)+

interpretation aside_base: db_frame aside
proof
  show "aside a c" if "aside a b" "aside b c" for a b c using that beside_trans unfolding aside_def by auto
qed (rule aside_same; simp)+

lemma aside_runs:
  assumes "\<And>r. (run_project_id (f r), run_id (f r), run_issue_id (f r), run_agent_id (f r)) =
    (run_project_id r, run_id r, run_issue_id r, run_agent_id r)"
  shows "aside d (db_runs_update (update_rows q f) d)"
proof -
  have "run_keys (db_runs_update (update_rows q f) d) = run_keys d"
    unfolding run_keys_def by (simp add: map_update_rows assms)
  then show ?thesis by (simp add: aside_def beside_def)
qed

lemma aside_append: "tx_keeps aside (appendEventTx e)"
proof (rule tx_keepsI, drule appendEventTx_state)
  fix d d' :: db and x assume d': "d' = d\<lparr>db_uuid_next := Suc (db_uuid_next d), db_events := db_events d @ [x],
            db_runs := (case evt_run_id e of None \<Rightarrow> db_runs d | Some r \<Rightarrow> bump_run (evt_project_id e) r (db_runs d))\<rparr>"
  have "run_keys d' = run_keys d" by (auto simp: d' run_keys_def bump_run_def map_update_rows split: option.splits)
  then show "aside d d'" by (simp add: aside_def beside_def d')
qed

interpretation aside: work_frame aside
proof
  show "tx_keeps aside (sql_insert db_runs db_runs_update run_unique run_check notFound (new_run uid input now))" for uid input now
    by (rule tx_keepsI) (auto simp: sql_insert_Inr aside_def beside_def run_keys_def)
  show "tx_keeps aside (sql_update_row db_runs db_runs_update
      (\<lambda>d r. run_project_id r = run_project_id (run :: run) \<and> run_id r = run_id run \<and> run_status r = RUN_QUEUED)
      (\<lambda>d r. r\<lparr>run_queue_reason := Some DelegationWorkspaceHandoffWaitReason, run_updated_at := db_now d\<rparr>))" for run
    by (rule tx_keepsI) (auto simp: sql_update_row_Inr intro!: aside_runs)
qed (intro aside_base.keeps_uuid aside_append aside_writes
    aside_base.keeps_writes [of db_workspaces_update, OF aside_writes(2)] aside_base.keeps_writes [of db_jobs_update, OF aside_writes(1)]
    aside_base.keeps_writes [of db_delegations_update, OF aside_writes(3)])+

lemma asks_aside: "tx_keeps aside (mention_asks eng p c v)" "tx_keeps aside (implicit_asks eng p c status b v)"
  unfolding mention_asks_def implicit_asks_def by (intro aside_base.keeps_intros aside.keeps_ask)+

section \<open>The links a comment writes\<close>

lemma insert_mention_written:
  assumes "insert_mention p c n target preview a d = (Inr m, d')"
  shows "db_mentions d' = db_mentions d @ [m] \<and> mnt_ordinal m = int n \<and> mnt_project_id m = p \<and> mnt_issue_id m = cmt_issue_id c \<and>
    mnt_comment_id m = cmt_id c \<and> \<lparr>tgt_type = mnt_target_type m, tgt_id = mnt_target_id m\<rparr> = target \<and> beside d d' \<and>
    db_implicit_triggers d' = db_implicit_triggers d"
  using assms unfolding insert_mention_def
  by (auto simp: tx_bind_Inr sql_insert_Inr gen_random_uuid_def tx_get_eq beside_def run_keys_def)

definition mention_targets :: "mention list \<Rightarrow> comment_target list" where
  "mention_targets ms = map (\<lambda>m. \<lparr>tgt_type = mnt_target_type m, tgt_id = mnt_target_id m\<rparr>) ms"

lemma mentions_written:
  assumes "createIssueCommentMentionsTx eng p c n ts d = (Inr (views, evs), d')"
  shows "\<exists>ms. db_mentions d' = db_mentions d @ ms \<and> map mnt_ordinal ms = map int [n..<n + length ts] \<and> mention_targets ms = ts \<and>
    (\<forall>m\<in>set ms. mnt_project_id m = p \<and> mnt_issue_id m = cmt_issue_id c \<and> mnt_comment_id m = cmt_id c) \<and>
    map lvw_target views = ts \<and> beside d d' \<and> db_implicit_triggers d' = db_implicit_triggers d"
  using assms
proof (induction ts arbitrary: n d views evs)
  case (Cons t ts)
  obtain v s1 a s2 m s3 vs es where run: "issueCommentTargetTx eng p t d = (Inr v, s1)" "mention_asks eng p c v s1 = (Inr a, s2)"
    "insert_mention p c n t v a s2 = (Inr m, s3)" "createIssueCommentMentionsTx eng p c (n + 1) ts s3 = (Inr (vs, es), d')"
    "views = created_mention t v a m # vs"
    using Cons.prems by (auto simp: tx_bind_Inr tx_return_eq)
  have "s1 = d" using run(1) read_targets(2) [THEN read_state] by blast
  moreover have "aside s1 s2" using run(2) asks_aside(1) tx_keepsD by metis
  ultimately have first: "aside d s2" by simp
  note one = insert_mention_written [OF run(3)]
  obtain ms where ms: "db_mentions d' = db_mentions s3 @ ms" "map mnt_ordinal ms = map int [n + 1..<n + 1 + length ts]" "mention_targets ms = ts"
    "\<forall>m\<in>set ms. mnt_project_id m = p \<and> mnt_issue_id m = cmt_issue_id c \<and> mnt_comment_id m = cmt_id c" "map lvw_target vs = ts"
    "beside s3 d'" "db_implicit_triggers d' = db_implicit_triggers s3"
    using Cons.IH [OF run(4)] by blast
  have "[n..<n + length (t # ts)] = n # [n + 1..<n + 1 + length ts]" by (simp add: upt_conv_Cons del: upt_Suc)
  then have "map mnt_ordinal (m # ms) = map int [n..<n + length (t # ts)]" using one ms(2) by simp
  moreover have "beside d d'" using first one ms(6) beside_trans unfolding aside_def by blast
  ultimately show ?case
    using first one ms run(5) by (intro exI [of _ "m # ms"]) (simp add: aside_def mention_targets_def created_mention_def Let_def)
qed (auto simp: tx_return_eq mention_targets_def beside_def)

lemma ask_agent_outcome:
  assumes "ask_agent eng input d = (Inr a, d')"
  shows "ask_outcome a \<noteq> IssueCommentImplicitOutcomeSuppressed"
proof -
  obtain r s where "tx_try (requestAgentWorkTx violation_aborts eng input) d = (Inr r, s)"
    by (cases "requestAgentWorkTx violation_aborts eng input d") (simp add: tx_try_eq)
  then show ?thesis using assms unfolding ask_agent_def
    by (cases r) (auto simp: tx_bind_run tx_basic_run comment_texts blocked_def outcome_text_def split: if_splits work_request_outcome.splits)
qed

lemma asked_outcome:
  assumes "implicit_asks eng p c status suppress v d = (Inr a, d')"
  shows "ask_outcome a = IssueCommentImplicitOutcomeSuppressed \<longleftrightarrow> suppress"
  using assms ask_agent_outcome unfolding implicit_asks_def
  by (auto simp: tx_return_eq blocked_def comment_texts split: if_splits)

lemma implicit_written:
  assumes "createIssueCommentImplicitTriggerTx eng p c suppress d = (Inr (view, evs), d')"
  shows "beside d d' \<and> db_mentions d' = db_mentions d \<and>
    (case view of None \<Rightarrow> db_implicit_triggers d' = db_implicit_triggers d
     | Some v \<Rightarrow> \<exists>t. db_implicit_triggers d' = db_implicit_triggers d @ [t] \<and> imt_project_id t = p \<and> imt_issue_id t = cmt_issue_id c \<and>
         imt_comment_id t = cmt_id c \<and> (imt_outcome t = IssueCommentImplicitOutcomeSuppressed \<longleftrightarrow> suppress))"
proof -
  obtain found status where route: "resolveIssueCommentImplicitRouteTx p (cmt_issue_id c) (cmt_parent_comment_id c) False d = (Inr (found, status), d)"
    using assms read_targets(5) [THEN read_state] unfolding createIssueCommentImplicitTriggerTx_def by (auto simp: tx_bind_Inr)
  show ?thesis
  proof (cases found)
    case None
    then show ?thesis using assms route unfolding createIssueCommentImplicitTriggerTx_def
      by (auto simp: tx_bind_Inr tx_return_eq beside_def)
  next
    case (Some r)
    then obtain v s1 a s2 t where run: "issueCommentTargetTx eng p (rte_target r) d = (Inr v, s1)"
      "implicit_asks eng p c status suppress v s1 = (Inr a, s2)" "insert_implicit p c r v a s2 = (Inr t, d')"
      "view = Some (created_implicit r v a t)"
      using assms route unfolding createIssueCommentImplicitTriggerTx_def by (auto simp: tx_bind_Inr tx_return_eq)
    have "s1 = d" using run(1) read_targets(2) [THEN read_state] by blast
    moreover have "aside s1 s2" using run(2) asks_aside(2) tx_keepsD by metis
    ultimately have "aside d s2" by simp
    moreover have "db_implicit_triggers d' = db_implicit_triggers s2 @ [t] \<and> imt_project_id t = p \<and> imt_issue_id t = cmt_issue_id c \<and>
        imt_comment_id t = cmt_id c \<and> imt_outcome t = ask_outcome a \<and> beside s2 d' \<and> db_mentions d' = db_mentions s2"
      using run(3) unfolding insert_implicit_def by (auto simp: tx_bind_Inr sql_insert_Inr tx_get_eq beside_def run_keys_def)
    ultimately show ?thesis using asked_outcome [OF run(2)] run(4) beside_trans by (auto simp: aside_def)
  qed
qed

section \<open>A request that is stored\<close>

text \<open>Everything the second request looks at.\<close>

definition request_stored :: "id \<Rightarrow> comment_input \<Rightarrow> comment_target list \<Rightarrow> bool \<Rightarrow> bool \<Rightarrow> comment \<Rightarrow> db \<Rightarrow> bool" where
  "request_stored p input ms implicit suppress c d \<longleftrightarrow>
     (\<exists>issue author. sql_find db_issues (\<lambda>d i. iss_project_id i = p \<and> iss_id i = cin_issue_id input) d = (Inr issue, d) \<and>
        issueCommentAuthorName p (cin_author_type input) (cin_author_id input) d = (Inr author, d)) \<and>
     comment_source_tx p (cin_issue_id input) input d = (Inr (), d) \<and> comment_parent_tx (cin_issue_id input) (cin_parent_comment_id input) d = (Inr (), d) \<and>
     existingIssueCommentRequest (cin_issue_id input) input d = (Inr c, d) \<and> sameIssueCommentRequest c input \<and>
     sql_find db_comments (\<lambda>d x. cmt_issue_id x = cin_issue_id input \<and> cmt_id x = cmt_id c) d = (Inr c, d) \<and> comment_columns_ok c \<and>
     mention_targets (sort_key mnt_ordinal (filter (\<lambda>m. mnt_project_id m = p \<and> mnt_issue_id m = cin_issue_id input \<and>
       mnt_comment_id m = cmt_id c) (db_mentions d))) = ms \<and>
     sameIssueCommentImplicitRequest (loadIssueCommentImplicitTriggersWith d p (cin_issue_id input) (cmt_id c)) implicit suppress
       (cmt_suppress_implicit c) (ms \<noteq> [])"

lemma mention_view_targets: "map lvw_target (map (mention_of d) ms) = mention_targets ms"
  by (simp add: mention_of_def mention_targets_def Let_def)

text \<open>The comparison of a stored trigger looks at its outcome alone.\<close>

lemma same_implicit: "map_option lvw_outcome x = map_option lvw_outcome y \<Longrightarrow>
    sameIssueCommentImplicitRequest x enabled suppress persisted explicit = sameIssueCommentImplicitRequest y enabled suppress persisted explicit"
  by (cases x; cases y) (auto simp: sameIssueCommentImplicitRequest_def)

lemma stored_outcome: "map_option lvw_outcome (loadIssueCommentImplicitTriggersWith d p i c) =
    map_option imt_outcome (List.find (\<lambda>t. imt_project_id t = p \<and> imt_issue_id t = i \<and> imt_comment_id t = c) (db_implicit_triggers d))"
  by (simp add: loadIssueCommentImplicitTriggersWith_def option.map_comp o_def implicit_of_def Let_def)

lemma stored_elsewhere:
  assumes "request_stored p input ms implicit suppress c d"
  shows "request_stored p input ms implicit suppress c (d\<lparr>db_now := now\<rparr>)" "request_stored p input ms implicit suppress c (d\<lparr>db_uuid_next := n\<rparr>)"
proof -
  have name: "issueCommentAuthorName p t a (d\<lparr>db_now := now\<rparr>) = (Inr x, d\<lparr>db_now := now\<rparr>) \<longleftrightarrow> issueCommentAuthorName p t a d = (Inr x, d)"
    "issueCommentAuthorName p t a (d\<lparr>db_uuid_next := n\<rparr>) = (Inr x, d\<lparr>db_uuid_next := n\<rparr>) \<longleftrightarrow> issueCommentAuthorName p t a d = (Inr x, d)" for t a x
    by (simp_all add: issueCommentAuthorName_def tx_run user_name_def agent_row_def split: option.splits)
  have source: "comment_source_tx p i input (d\<lparr>db_now := now\<rparr>) = (Inr (), d\<lparr>db_now := now\<rparr>) \<longleftrightarrow> comment_source_tx p i input d = (Inr (), d)"
    "comment_source_tx p i input (d\<lparr>db_uuid_next := n\<rparr>) = (Inr (), d\<lparr>db_uuid_next := n\<rparr>) \<longleftrightarrow> comment_source_tx p i input d = (Inr (), d)" for i
    by (simp_all add: comment_source_tx_def tx_run split: option.splits)
  have parent: "comment_parent_tx i q (d\<lparr>db_now := now\<rparr>) = (Inr (), d\<lparr>db_now := now\<rparr>) \<longleftrightarrow> comment_parent_tx i q d = (Inr (), d)"
    "comment_parent_tx i q (d\<lparr>db_uuid_next := n\<rparr>) = (Inr (), d\<lparr>db_uuid_next := n\<rparr>) \<longleftrightarrow> comment_parent_tx i q d = (Inr (), d)" for i q
    by (simp_all add: comment_parent_tx_def tx_run split: option.splits)
  have existing: "existingIssueCommentRequest i input (d\<lparr>db_now := now\<rparr>) = (Inr x, d\<lparr>db_now := now\<rparr>) \<longleftrightarrow> existingIssueCommentRequest i input d = (Inr x, d)"
    "existingIssueCommentRequest i input (d\<lparr>db_uuid_next := n\<rparr>) = (Inr x, d\<lparr>db_uuid_next := n\<rparr>) \<longleftrightarrow> existingIssueCommentRequest i input d = (Inr x, d)" for i x
    by (simp_all add: existingIssueCommentRequest_def tx_run split: option.splits)
  have implicit: "sameIssueCommentImplicitRequest (loadIssueCommentImplicitTriggersWith (d\<lparr>db_now := now\<rparr>) p i x) =
      sameIssueCommentImplicitRequest (loadIssueCommentImplicitTriggersWith d p i x)"
    "sameIssueCommentImplicitRequest (loadIssueCommentImplicitTriggersWith (d\<lparr>db_uuid_next := n\<rparr>) p i x) =
      sameIssueCommentImplicitRequest (loadIssueCommentImplicitTriggersWith d p i x)" for i x
    by (intro ext same_implicit; simp add: stored_outcome)+
  show "request_stored p input ms implicit suppress c (d\<lparr>db_now := now\<rparr>)" "request_stored p input ms implicit suppress c (d\<lparr>db_uuid_next := n\<rparr>)"
    using assms unfolding request_stored_def by (simp_all only: name source parent existing implicit sql_find_Inr) simp_all
qed

lemma stored_valid:
  assumes "request_stored p input ms implicit suppress c d" "comment_input_valid p input ms implicit"
    and "cin_parent_comment_id input \<noteq> Some uid"
  shows "comment_check d (new_comment uid (cin_issue_id input) input (implicit \<and> ms = [] \<and> suppress) now) = None"
proof -
  have same: "sameIssueCommentRequest c input" "comment_columns_ok c" using assms(1) by (simp_all add: request_stored_def)
  have "cin_body input \<noteq> []" using assms(2) by (auto simp: comment_input_valid_def TrimSpace_Nil)
  with same have body: "cmt_body c = Some (cin_body input)"
    by (auto simp: sameIssueCommentRequest_def body_text_def split: option.splits)
  have "comment_columns_ok (new_comment uid (cin_issue_id input) input (implicit \<and> ms = [] \<and> suppress) now)"
    using same body assms(2,3)
    by (auto simp: comment_columns_ok_def new_comment_def sameIssueCommentRequest_def comment_input_valid_def actor_type_text_def)
  then show ?thesis
    using assms(1,2) unfolding request_stored_def comment_check_None
    by (auto simp: new_comment_def comment_parent_tx_def comment_source_tx_def tx_simps comment_row_iff comment_input_valid_def find_Some_iff
        dest!: find_Some_in split: option.splits if_splits)
qed

lemma stored_conflicts:
  assumes "request_stored p input ms implicit suppress c d" "comment_input_valid p input ms implicit"
  shows "comment_unique c (new_comment uid (cin_issue_id input) input b now)"
  using assms by (auto simp: request_stored_def comment_unique_def same_action_def new_comment_def sameIssueCommentRequest_def
      comment_input_valid_def actor_type_text_def split: if_splits)

lemma stored_repeats:
  assumes "request_stored p input ms implicit suppress c d" "comment_input_valid p input ms implicit"
    and "cin_parent_comment_id input \<noteq> Some (db_uuid_source d (db_uuid_next d))"
  shows "\<exists>view. create_comment_tx eng p input ms implicit suppress d = (Inr (view, []), d\<lparr>db_uuid_next := Suc (db_uuid_next d)\<rparr>) \<and>
    cvw_comment view = c \<and> map lvw_target (cvw_mentions view) = ms"
proof -
  let ?d = "d\<lparr>db_uuid_next := Suc (db_uuid_next d)\<rparr>" and ?suppress = "implicit \<and> ms = [] \<and> suppress"
  note stored = stored_elsewhere(2) [OF assms(1), of "Suc (db_uuid_next d)"]
  have issue: "iss_id i = cin_issue_id input" if "sql_find db_issues (\<lambda>d i. iss_project_id i = p \<and> iss_id i = cin_issue_id input) d = (Inr i, d)" for i
    using that by (auto simp: sql_find_Inr find_Some_iff)
  obtain i author where start: "sql_find db_issues (\<lambda>d i. iss_project_id i = p \<and> iss_id i = cin_issue_id input) d = (Inr i, d)"
    "issueCommentAuthorName p (cin_author_type input) (cin_author_id input) d = (Inr author, d)"
    "comment_source_tx p (cin_issue_id input) input d = (Inr (), d)"
    "comment_parent_tx (cin_issue_id input) (cin_parent_comment_id input) d = (Inr (), d)"
    using assms(1) unfolding request_stored_def by blast
  have insert: "insert_comment (cin_issue_id input) input ?suppress d = (Inr None, ?d)"
    using stored_valid [OF stored assms(2,3)] stored_conflicts [OF stored assms(2)] stored
    by (auto simp: insert_comment_def tx_bind_run tx_basic_run gen_random_uuid_def sql_insert_unless_def request_stored_def sql_find_Inr
        dest!: find_Some_in)
  have key: "cin_source_action_key input \<noteq> None" using stored by (auto simp: request_stored_def sameIssueCommentRequest_def)
  have "\<exists>view. repeated_comment p (cin_issue_id input) author input ms implicit suppress ?d = (Inr (view, []), ?d) \<and>
      cvw_comment view = c \<and> map lvw_target (cvw_mentions view) = ms"
    using stored mention_view_targets
    by (auto simp: repeated_comment_def request_stored_def tx_bind_run tx_basic_run sameIssueCommentMentionTargets_def
        loadIssueCommentMentionsWith_def simp del: map_map)
  then show ?thesis using start insert key issue [OF start(1)]
    by (auto simp: create_comment_tx_def tx_bind_run tx_basic_run)
qed

section \<open>A request that succeeds is stored\<close>

lemma find_prefix:
  assumes "map k ys = map k xs @ rest" "List.find (\<lambda>x. P (k x)) xs = Some x"
  shows "\<exists>y. List.find (\<lambda>x. P (k x)) ys = Some y \<and> k y = k x"
  using assms
proof (induction xs arbitrary: ys)
  case (Cons a xs)
  then obtain b zs where "ys = b # zs" "k b = k a" "map k zs = map k xs @ rest" by (cases ys) auto
  with Cons show ?case by (auto split: if_splits)
qed simp

lemma beside_reads:
  assumes "beside d d'"
  shows "issueCommentAuthorName p t a d = (Inr author, d) \<Longrightarrow> issueCommentAuthorName p t a d' = (Inr author, d')"
    and "comment_source_tx p i input d = (Inr (), d) \<Longrightarrow> comment_source_tx p i input d' = (Inr (), d')"
    and "comment_parent_tx i parent d = (Inr (), d) \<Longrightarrow> comment_parent_tx i parent d' = (Inr (), d')"
    and "existingIssueCommentRequest i input d = (Inr c, d) \<Longrightarrow> existingIssueCommentRequest i input d' = (Inr c, d')"
proof -
  have same: "db_comments d' = db_comments d" "db_identity d' = db_identity d" "db_agents d' = db_agents d"
    using assms by (simp_all add: beside_def)
  show "issueCommentAuthorName p t a d = (Inr author, d) \<Longrightarrow> issueCommentAuthorName p t a d' = (Inr author, d')"
    by (auto simp: issueCommentAuthorName_def tx_simps user_name_def agent_row_def same split: if_splits)
  show "comment_parent_tx i parent d = (Inr (), d) \<Longrightarrow> comment_parent_tx i parent d' = (Inr (), d')"
    by (auto simp: comment_parent_tx_def tx_simps same split: option.splits)
  show "existingIssueCommentRequest i input d = (Inr c, d) \<Longrightarrow> existingIssueCommentRequest i input d' = (Inr c, d')"
    by (auto simp: existingIssueCommentRequest_def tx_simps same split: if_splits)
  let ?k = "\<lambda>r. (run_project_id r, run_id r, run_issue_id r, run_agent_id r)"
  obtain rest where rest: "map ?k (db_runs d') = map ?k (db_runs d) @ rest" using assms by (auto simp: beside_def run_keys_def)
  show "comment_source_tx p i input d' = (Inr (), d')" if source: "comment_source_tx p i input d = (Inr (), d)"
  proof (cases "cin_source_run_id input")
    case (Some r)
    show ?thesis
    proof (cases "cin_author_type input = ''AGENT''")
      case True
      obtain x where "List.find (\<lambda>r'. run_project_id r' = p \<and> run_id r' = r) (db_runs d) = Some x" "run_issue_id x = i"
        "or_empty (run_agent_id x) = cin_author_id input"
        using source Some True by (auto simp: comment_source_tx_def tx_simps)
      then show ?thesis
        using find_prefix [OF rest, of "\<lambda>(a, b, _). a = p \<and> b = r" x] Some True by (auto simp: comment_source_tx_def tx_simps)
    qed (simp add: comment_source_tx_def Some tx_simps)
  qed (simp add: comment_source_tx_def tx_simps)
qed

lemma found_issue: "sql_find db_issues (\<lambda>d i. iss_project_id i = p \<and> iss_id i = x) d = (Inr i, d) \<Longrightarrow> beside d d' \<Longrightarrow>
    sql_find db_issues (\<lambda>d i. iss_project_id i = p \<and> iss_id i = x) d' = (Inr i, d')"
  by (simp add: sql_find_Inr beside_def)

interpretation comments_table: keyed_table db_comments db_comments_update cmt_id
  by unfold_locales simp

text \<open>Where every identifier is used once, a comment is found by it.\<close>

lemma found_by_id:
  assumes "distinct (map cmt_id (db_comments d))" "c \<in> set (db_comments d)" "cmt_issue_id c = i"
  shows "sql_find db_comments (\<lambda>d x. cmt_issue_id x = i \<and> cmt_id x = cmt_id c) d = (Inr c, d)"
  using comments_table.find_by_key [of d c "\<lambda>x. cmt_issue_id x = i \<and> cmt_id x = cmt_id c"] assms by (simp add: sql_find_Inr)

text \<open>The reads of a request, in the state where they were made.\<close>

lemma create_starts:
  assumes "create_comment_tx eng p input ms implicit suppress d = (Inr (view, evs), d')"
  obtains issue author inserted s where
    "sql_find db_issues (\<lambda>d i. iss_project_id i = p \<and> iss_id i = cin_issue_id input) d = (Inr issue, d)"
    "issueCommentAuthorName p (cin_author_type input) (cin_author_id input) d = (Inr author, d)"
    "comment_source_tx p (cin_issue_id input) input d = (Inr (), d)" "comment_parent_tx (cin_issue_id input) (cin_parent_comment_id input) d = (Inr (), d)"
    "insert_comment (cin_issue_id input) input (implicit \<and> ms = [] \<and> suppress) d = (Inr inserted, s)"
    "(case inserted of Some c \<Rightarrow> created_comment eng p author input ms implicit suppress c
      | None \<Rightarrow> if cin_source_action_key input = None then tx_fail ErrNotFound
          else repeated_comment p (cin_issue_id input) author input ms implicit suppress) s = (Inr (view, evs), d')"
proof -
  have reads: "s' = s" if "issueCommentAuthorName p t a s = (Inr x, s')" for t a s x s' using that read_comments(1) [THEN read_state] by blast
  have reads2: "s' = s" if "comment_source_tx p i input s = (Inr x, s')" for i s x s' using that read_comments(2) [THEN read_state] by blast
  have reads3: "s' = s" if "comment_parent_tx i q s = (Inr x, s')" for i q s x s' using that read_comments(3) [THEN read_state] by blast
  obtain issue s1 author s2 u s3 v s4 inserted s where run:
    "sql_find db_issues (\<lambda>d i. iss_project_id i = p \<and> iss_id i = cin_issue_id input) d = (Inr issue, s1)"
    "issueCommentAuthorName p (cin_author_type input) (cin_author_id input) s1 = (Inr author, s2)"
    "comment_source_tx p (iss_id issue) input s2 = (Inr u, s3)" "comment_parent_tx (iss_id issue) (cin_parent_comment_id input) s3 = (Inr v, s4)"
    "insert_comment (iss_id issue) input (implicit \<and> ms = [] \<and> suppress) s4 = (Inr inserted, s)"
    "(case inserted of Some c \<Rightarrow> created_comment eng p author input ms implicit suppress c
      | None \<Rightarrow> if cin_source_action_key input = None then tx_fail ErrNotFound
          else repeated_comment p (iss_id issue) author input ms implicit suppress) s = (Inr (view, evs), d')"
    using assms unfolding create_comment_tx_def by (auto simp only: tx_bind_Inr)
  have same: "s1 = d" "iss_id issue = cin_issue_id input" using run(1) by (auto simp: sql_find_Inr find_Some_iff)
  moreover have "s2 = s1" "s3 = s2" "s4 = s3" "u = ()" "v = ()" using reads [OF run(2)] reads2 [OF run(3)] reads3 [OF run(4)] by simp_all
  ultimately show thesis using that [of issue author inserted s] run by (simp only:) 
qed

lemma insert_comment_cases:
  assumes "insert_comment i input b d = (Inr inserted, s)"
  obtains "inserted = None" "s = d\<lparr>db_uuid_next := Suc (db_uuid_next d)\<rparr>"
  | c where "inserted = Some c" "c = new_comment (db_uuid_source d (db_uuid_next d)) i input b (db_now d)"
      "s = d\<lparr>db_uuid_next := Suc (db_uuid_next d), db_comments := db_comments d @ [c]\<rparr>"
      "\<forall>r\<in>set (db_comments d). \<not> comment_unique r c" "comment_columns_ok c"
  using assms unfolding insert_comment_def
  by (auto simp: tx_bind_Inr gen_random_uuid_def tx_get_eq sql_insert_unless_Inr comment_check_None split: if_splits)

lemma threads_uuid: "threads_wf d \<Longrightarrow> threads_wf (d\<lparr>db_uuid_next := n\<rparr>)"
  using threads_writes(9) by (auto simp: keeps_threads_def)

lemma beside_uuid: "beside d (d\<lparr>db_uuid_next := n\<rparr>)"
  by (simp add: beside_def run_keys_def)

lemma repeated_stored:
  assumes "threads_wf d" "repeated_comment p (cin_issue_id input) author input ms implicit suppress d = (Inr (view, evs), d')"
    and "sql_find db_issues (\<lambda>d i. iss_project_id i = p \<and> iss_id i = cin_issue_id input) d = (Inr issue, d)"
    and "issueCommentAuthorName p (cin_author_type input) (cin_author_id input) d = (Inr author, d)"
    and "comment_source_tx p (cin_issue_id input) input d = (Inr (), d)"
    and "comment_parent_tx (cin_issue_id input) (cin_parent_comment_id input) d = (Inr (), d)"
  shows "request_stored p input ms implicit suppress (cvw_comment view) d \<and> d' = d \<and> map lvw_target (cvw_mentions view) = ms"
proof -
  obtain c row where run: "existingIssueCommentRequest (cin_issue_id input) input d = (Inr c, d)" "sameIssueCommentRequest c input"
    "sql_find db_comments (\<lambda>d x. cmt_issue_id x = cin_issue_id input \<and> cmt_id x = cmt_id c) d = (Inr row, d)"
    "map lvw_target (loadIssueCommentMentionsWith d p (cin_issue_id input) (cmt_id c)) = ms"
    "sameIssueCommentImplicitRequest (loadIssueCommentImplicitTriggersWith d p (cin_issue_id input) (cmt_id c)) implicit suppress
       (cmt_suppress_implicit row) (ms \<noteq> [])" "cvw_comment view = c" "cvw_mentions view = loadIssueCommentMentionsWith d p (cin_issue_id input) (cmt_id c)" "d' = d"
  proof -
    obtain c s where "existingIssueCommentRequest (cin_issue_id input) input d = (Inr c, s)"
      using assms(2) unfolding repeated_comment_def by (auto simp: tx_bind_Inr)
    moreover from this have "s = d" using read_comments(4) [THEN read_state] by blast
    ultimately show thesis using assms(2) that [of c] unfolding repeated_comment_def
      by (auto simp: tx_bind_run tx_basic_run sameIssueCommentMentionTargets_def split: if_splits sum.splits prod.splits dest!: sql_find_Inr [THEN iffD1])
  qed
  have c: "c \<in> set (db_comments d)" using run(1) by (auto simp: existingIssueCommentRequest_def tx_simps split: if_splits dest!: find_Some_in)
  have "cmt_issue_id c = cin_issue_id input" using run(2) by (simp add: sameIssueCommentRequest_def)
  with found_by_id [OF _ c] assms(1) run(3) have row: "row = c" by (auto simp: threads_wf_def)
  have "comment_columns_ok c" using assms(1) c by (auto simp: threads_wf_def)
  then show ?thesis
    using run assms(3-) mention_view_targets unfolding request_stored_def row
    by (auto simp: loadIssueCommentMentionsWith_def simp del: map_map)
qed

text \<open>What a comment that is made writes.\<close>

lemma created_written:
  assumes "created_comment eng p author input ms implicit suppress c d = (Inr (view, evs), d')"
  obtains rows ts where "cvw_comment view = c" "map lvw_target (cvw_mentions view) = ms" "beside d d'"
    "db_mentions d' = db_mentions d @ rows" "map mnt_ordinal rows = map int [0..<length ms]" "mention_targets rows = ms"
    "\<forall>m\<in>set rows. mnt_project_id m = p \<and> mnt_issue_id m = cmt_issue_id c \<and> mnt_comment_id m = cmt_id c"
    "db_implicit_triggers d' = db_implicit_triggers d @ ts"
    "ts = [] \<or> (\<exists>t. ts = [t] \<and> implicit \<and> ms = [] \<and> imt_project_id t = p \<and> imt_issue_id t = cmt_issue_id c \<and> imt_comment_id t = cmt_id c \<and>
       (imt_outcome t = IssueCommentImplicitOutcomeSuppressed \<longleftrightarrow> suppress))"
proof -
  obtain e s1 views es s2 iv ies where run: "appendEventTx (comment_created_event p input c) d = (Inr e, s1)"
    "createIssueCommentMentionsTx eng p c 0 ms s1 = (Inr (views, es), s2)"
    "(if implicit \<and> ms = [] then createIssueCommentImplicitTriggerTx eng p c suppress else tx_return (None, [])) s2 = (Inr (iv, ies), d')"
    "cvw_comment view = c" "cvw_mentions view = views"
    using assms unfolding created_comment_def by (auto simp: tx_bind_Inr tx_return_eq)
  have a: "aside d s1" using run(1) aside_append tx_keepsD by metis
  obtain rows where rows: "db_mentions s2 = db_mentions s1 @ rows" "map mnt_ordinal rows = map int [0..<length ms]" "mention_targets rows = ms"
    "\<forall>m\<in>set rows. mnt_project_id m = p \<and> mnt_issue_id m = cmt_issue_id c \<and> mnt_comment_id m = cmt_id c" "map lvw_target views = ms"
    "beside s1 s2" "db_implicit_triggers s2 = db_implicit_triggers s1"
    using mentions_written [OF run(2)] by auto
  have last: "beside s2 d' \<and> db_mentions d' = db_mentions s2 \<and> (\<exists>ts. db_implicit_triggers d' = db_implicit_triggers s2 @ ts \<and>
     (ts = [] \<or> (\<exists>t. ts = [t] \<and> implicit \<and> ms = [] \<and> imt_project_id t = p \<and> imt_issue_id t = cmt_issue_id c \<and> imt_comment_id t = cmt_id c \<and>
       (imt_outcome t = IssueCommentImplicitOutcomeSuppressed \<longleftrightarrow> suppress))))"
  proof (cases "implicit \<and> ms = []")
    case True
    with run(3) have "createIssueCommentImplicitTriggerTx eng p c suppress s2 = (Inr (iv, ies), d')" by simp
    from implicit_written [OF this] True show ?thesis by (cases iv) auto
  qed (use run(3) in \<open>auto simp: tx_return_eq beside_def\<close>)
  have "beside d d'" using a rows(6) last beside_trans unfolding aside_def by blast
  then show thesis using that run(4,5) rows a last by (auto simp: aside_def)
qed

lemma sorted_ordinals: "map mnt_ordinal rows = map int [0..<n] \<Longrightarrow> sort_key mnt_ordinal rows = rows"
  by (rule sort_key_id_if_sorted) (simp add: sorted_map)

lemma find_snoc_fresh: "\<forall>x\<in>set xs. \<not> P x \<Longrightarrow> List.find P (xs @ ys) = List.find P ys"
  by (induction xs) auto

lemma find_before: "List.find P xs = Some x \<Longrightarrow> List.find P (xs @ ys) = Some x"
  by (induction xs) auto

text \<open>The comment that was just made is the one its request finds.\<close>

lemma created_found:
  assumes "c = new_comment uid (cin_issue_id input) input b at" "\<forall>r\<in>set cs. \<not> comment_unique r c"
    and "comment_input_valid p input ms implicit" "cin_source_action_key input \<noteq> None" "db_comments d = cs @ [c]"
  shows "existingIssueCommentRequest (cin_issue_id input) input d = (Inr c, d)"
proof -
  have fresh: "\<not> comment_unique r c" if "r \<in> set cs" for r using assms(2) that by blast
  show ?thesis
  proof (cases "cin_author_type input = ''AGENT''")
    case True
    let ?P = "\<lambda>x. cmt_source_run_id x \<noteq> None \<and> cmt_source_run_id x = cin_source_run_id input \<and> cmt_source_action_key x = cin_source_action_key input"
    have "\<forall>r\<in>set cs. \<not> ?P r" using assms(1,4) by (intro ballI) (drule fresh, auto simp: comment_unique_def same_action_def new_comment_def)
    then have "List.find ?P (cs @ [c]) = Some c"
      using assms(1,3) True by (simp add: find_snoc_fresh new_comment_def comment_input_valid_def)
    then show ?thesis using True assms(4,5) by (auto simp: existingIssueCommentRequest_def sql_find_Inr)
  next
    case False
    then have human: "cin_author_type input = ''HUMAN''" using assms(3) by (auto simp: comment_input_valid_def)
    let ?P = "\<lambda>x. cmt_issue_id x = cin_issue_id input \<and> cmt_author_type x = ACT_HUMAN \<and> cmt_author_id x = cin_author_id input \<and>
      cmt_source_action_key x = cin_source_action_key input"
    have "\<forall>r\<in>set cs. \<not> ?P r" using assms(1,4) human by (intro ballI) (drule fresh, auto simp: comment_unique_def same_action_def new_comment_def)
    then have "List.find ?P (cs @ [c]) = Some c" using assms(1) human by (simp add: find_snoc_fresh new_comment_def)
    then show ?thesis using False assms(4,5) by (auto simp: existingIssueCommentRequest_def sql_find_Inr)
  qed
qed

lemma new_comment_same:
  assumes "comment_input_valid p input ms implicit" "cin_source_action_key input \<noteq> None"
  shows "sameIssueCommentRequest (new_comment uid (cin_issue_id input) input b at) input"
  using assms by (auto simp: sameIssueCommentRequest_def new_comment_def comment_input_valid_def body_text_def actor_type_text_def)

lemma created_stored:
  assumes wf: "threads_wf d" and valid: "comment_input_valid p input ms implicit" and key: "cin_source_action_key input \<noteq> None"
    and start: "sql_find db_issues (\<lambda>d i. iss_project_id i = p \<and> iss_id i = cin_issue_id input) d = (Inr issue, d)"
      "issueCommentAuthorName p (cin_author_type input) (cin_author_id input) d = (Inr author, d)"
      "comment_source_tx p (cin_issue_id input) input d = (Inr (), d)"
      "comment_parent_tx (cin_issue_id input) (cin_parent_comment_id input) d = (Inr (), d)"
    and c: "c = new_comment uid (cin_issue_id input) input (implicit \<and> ms = [] \<and> suppress) at"
      "\<forall>r\<in>set (db_comments d). \<not> comment_unique r c" "comment_columns_ok c"
    and made: "created_comment eng p author input ms implicit suppress c (d\<lparr>db_uuid_next := n, db_comments := db_comments d @ [c]\<rparr>) = (Inr (view, evs), d')"
  shows "request_stored p input ms implicit suppress c d' \<and> cvw_comment view = c \<and> map lvw_target (cvw_mentions view) = ms"
proof -
  let ?s = "d\<lparr>db_uuid_next := n, db_comments := db_comments d @ [c]\<rparr>"
  obtain rows ts where view: "cvw_comment view = c" "map lvw_target (cvw_mentions view) = ms" and beside: "beside ?s d'"
    and rows: "db_mentions d' = db_mentions ?s @ rows" "map mnt_ordinal rows = map int [0..<length ms]" "mention_targets rows = ms"
      "\<forall>m\<in>set rows. mnt_project_id m = p \<and> mnt_issue_id m = cmt_issue_id c \<and> mnt_comment_id m = cmt_id c"
    and ts: "db_implicit_triggers d' = db_implicit_triggers ?s @ ts"
      "ts = [] \<or> (\<exists>t. ts = [t] \<and> implicit \<and> ms = [] \<and> imt_project_id t = p \<and> imt_issue_id t = cmt_issue_id c \<and> imt_comment_id t = cmt_id c \<and>
       (imt_outcome t = IssueCommentImplicitOutcomeSuppressed \<longleftrightarrow> suppress))"
    by (rule created_written [OF made])
  have at: "cmt_issue_id c = cin_issue_id input" "cmt_suppress_implicit c \<longleftrightarrow> implicit \<and> ms = [] \<and> suppress" by (simp_all add: c(1) new_comment_def)
  have fresh: "\<not> comment_row d i (cmt_id c)" for i using c(2) by (auto simp: comment_row_iff comment_unique_def)
  have comments: "db_comments d' = db_comments d @ [c]" using beside by (simp add: beside_def)
  have reads: "sql_find db_issues (\<lambda>d i. iss_project_id i = p \<and> iss_id i = cin_issue_id input) ?s = (Inr issue, ?s)"
    "issueCommentAuthorName p (cin_author_type input) (cin_author_id input) ?s = (Inr author, ?s)"
    "comment_source_tx p (cin_issue_id input) input ?s = (Inr (), ?s)" "comment_parent_tx (cin_issue_id input) (cin_parent_comment_id input) ?s = (Inr (), ?s)"
    using start by (auto simp: sql_find_Inr issueCommentAuthorName_def user_name_def agent_row_def comment_source_tx_def comment_parent_tx_def tx_simps
        intro: find_before split: option.splits if_splits)
  have mentions: "filter (\<lambda>m. mnt_project_id m = p \<and> mnt_issue_id m = cin_issue_id input \<and> mnt_comment_id m = cmt_id c) (db_mentions d') = rows"
    using rows(1,4) at fresh wf by (auto simp: threads_wf_def filter_empty_conv) 
  have "List.find (\<lambda>t. imt_project_id t = p \<and> imt_issue_id t = cin_issue_id input \<and> imt_comment_id t = cmt_id c) (db_implicit_triggers d') =
      (case ts of [] \<Rightarrow> None | t # _ \<Rightarrow> Some t)"
  proof -
    have "\<forall>t\<in>set (db_implicit_triggers d). \<not> (imt_project_id t = p \<and> imt_issue_id t = cin_issue_id input \<and> imt_comment_id t = cmt_id c)"
      using wf fresh by (auto simp: threads_wf_def)
    then show ?thesis using ts at by (auto simp: find_snoc_fresh)
  qed
  then have implicit: "sameIssueCommentImplicitRequest (loadIssueCommentImplicitTriggersWith d' p (cin_issue_id input) (cmt_id c)) implicit suppress
       (cmt_suppress_implicit c) (ms \<noteq> [])"
    using ts(2) at(2) by (auto simp: sameIssueCommentImplicitRequest_def loadIssueCommentImplicitTriggersWith_def implicit_of_def Let_def)
  have found: "sql_find db_comments (\<lambda>d x. cmt_issue_id x = cin_issue_id input \<and> cmt_id x = cmt_id c) d' = (Inr c, d')"
    using wf c(2) at by (intro found_by_id) (auto simp: comments threads_wf_def comment_unique_def)
  show ?thesis unfolding request_stored_def mentions
    using created_found [OF c(1,2) valid key comments] new_comment_same [OF valid key] c(1,3) found implicit view rows(3) sorted_ordinals [OF rows(2)]
      beside_reads(1-3) [OF beside] found_issue [OF reads(1) beside] reads by auto
qed

lemma request_is_stored:
  assumes "threads_wf d" "comment_input_valid p input ms implicit" "cin_source_action_key input \<noteq> None"
    and "create_comment_tx eng p input ms implicit suppress d = (Inr (view, evs), d')"
  shows "request_stored p input ms implicit suppress (cvw_comment view) d' \<and> map lvw_target (cvw_mentions view) = ms"
proof -
  obtain issue author inserted s where start:
    "sql_find db_issues (\<lambda>d i. iss_project_id i = p \<and> iss_id i = cin_issue_id input) d = (Inr issue, d)"
    "issueCommentAuthorName p (cin_author_type input) (cin_author_id input) d = (Inr author, d)"
    "comment_source_tx p (cin_issue_id input) input d = (Inr (), d)" "comment_parent_tx (cin_issue_id input) (cin_parent_comment_id input) d = (Inr (), d)"
    and insert: "insert_comment (cin_issue_id input) input (implicit \<and> ms = [] \<and> suppress) d = (Inr inserted, s)"
    and run: "(case inserted of Some c \<Rightarrow> created_comment eng p author input ms implicit suppress c
      | None \<Rightarrow> if cin_source_action_key input = None then tx_fail ErrNotFound
          else repeated_comment p (cin_issue_id input) author input ms implicit suppress) s = (Inr (view, evs), d')"
    by (rule create_starts [OF assms(4)])
  show ?thesis
  proof (rule insert_comment_cases [OF insert])
    assume none: "inserted = None" and s: "s = d\<lparr>db_uuid_next := Suc (db_uuid_next d)\<rparr>"
    have again: "repeated_comment p (cin_issue_id input) author input ms implicit suppress s = (Inr (view, evs), d')"
      using run none assms(3) by auto
    have "beside d s" using s beside_uuid by simp
    then show ?thesis
      using repeated_stored [OF _ again found_issue [OF start(1)] beside_reads(1) [OF _ start(2)] beside_reads(2) [OF _ start(3)]
          beside_reads(3) [OF _ start(4)]] threads_uuid [OF assms(1)] s by blast
  next
    fix c assume "inserted = Some c" and c: "c = new_comment (db_uuid_source d (db_uuid_next d)) (cin_issue_id input) input
        (implicit \<and> ms = [] \<and> suppress) (db_now d)" "\<forall>r\<in>set (db_comments d). \<not> comment_unique r c" "comment_columns_ok c"
      and s: "s = d\<lparr>db_uuid_next := Suc (db_uuid_next d), db_comments := db_comments d @ [c]\<rparr>"
    then have "created_comment eng p author input ms implicit suppress c (d\<lparr>db_uuid_next := Suc (db_uuid_next d), db_comments := db_comments d @ [c]\<rparr>)
        = (Inr (view, evs), d')" using run by simp
    from created_stored [OF assms(1-3) start c this] show ?thesis by simp
  qed
qed


definition sample_comment_request :: comment_input where
  "sample_comment_request = \<lparr>cin_issue_id = ''i1'', cin_parent_comment_id = None, cin_author_type = ''HUMAN'', cin_author_id = ''h1'',
     cin_source_run_id = None, cin_source_action_key = Some ''k1'', cin_body = ''please help''\<rparr>"


end
