(* ===== verification/Spec2Isabelle.thy ===== *)
theory Spec2Isabelle
  imports Store_Steps Coordinator Identity_Properties Comment_Repetition
begin

text \<open>
  Verification of the store of the Agent Board control plane: its durable execution core, accounts and access, and comments.

  \<^bold>\<open>The program.\<close> The control plane (src/apps/server, Go) keeps projects with boards of Issues. An Issue that
  is assigned to an Agent gets a Run; the scheduler admits the jobs of Runs, hands them to workers that drive an
  Engine, and takes over claims whose lease has expired. Agents delegate work to each other, ask Questions, and
  deliver revisions that are reviewed and integrated. People sign in, belong to projects by grants and groups, and
  comment on Issues; a comment asks Agents for work by name or by its place, and is heard of by subscribers. All of this state is in PostgreSQL, and every operation of
  the store (src/apps/server/internal/store/postgres) is one transaction that locks rows, checks, writes and
  appends Events.

  \<^bold>\<open>State and operations.\<close> A table is a list of rows, a row a record with the columns the modelled statements
  use, the database the record \<open>db\<close> (\<open>Store_Model\<close>). A transaction is a function
  \<open>db \<Rightarrow> (store_error + 'a) \<times> db\<close> (\<open>Prelude\<close>): \<open>tx_bind\<close> sequences, \<open>sql_find\<close>, \<open>sql_update\<close>,
  \<open>sql_insert\<close>, \<open>sql_delete\<close> are the statements, with UNIQUE, CHECK and foreign key constraints as the
  arguments of an insert, and \<open>run_tx now\<close> runs a transaction at one time and rolls back where it fails. An
  operation of the store keeps its Go name and takes the time of the call as an argument; errors are values of
  \<open>store_error\<close>. Rows that another transaction has locked (FOR UPDATE SKIP LOCKED) are a parameter \<open>locked\<close>, and
  random uuids come from a sequence in the database, so that a repeated one violates its constraint. Go strings
  are their bytes (\<open>Go_Strings\<close>: TrimSpace, rune counts, UTF-8), SHA-256 is defined on 32 bit words (\<open>Sha256\<close>).

  \<^bold>\<open>Theories and what they show.\<close>
  \<^item> \<open>Prelude\<close>, \<open>Store_Model\<close>, \<open>Sample\<close>: transactions, tables, frames. The locales \<open>tx_frame\<close> and
    \<open>db_frame\<close> are the interface of a relation that statements keep; they are interpreted for unchanged
    ownership (\<open>quiet\<close>), preserved ownership (\<open>safe\<close>), history, and others. \<open>keyed_table\<close> is lookup by key.
  \<^item> \<open>Events\<close> (event_tx.go, evidence.go): the append-only Event stream, numbered without gaps for each Run.
  \<^item> \<open>Claims\<close>: the invariant \<open>sched_wf\<close>: leases and reservations belong to claimed jobs, claimed jobs to
    executing Runs, one writer for each Workspace, capacity within limits.
  \<^item> \<open>Scheduler_Admission\<close> (scheduler.go, runner_admission.go, queued_run.go, scheduler_operations.go):
    enqueueing, admission, deferral, leases. An admission claims everything or nothing, takes the first job of the
    order, and stays within limits.
  \<^item> \<open>Scheduler_Transition\<close> (scheduler_transition.go, interactive_question_terminal.go),
    \<open>Scheduler_Reconciliation\<close> (scheduler_reconciliation.go, scheduler_question_reconciliation.go),
    \<open>Run_Cancellation\<close> (run_cancellation.go): a claim changes only under its live lease, and what ends it
    gives everything back; taking over an expired claim keeps ownership until its outcome is certain.
  \<^item> \<open>Delegation_Request\<close>, \<open>Delegation_Result\<close> (delegation.go, delegation_result.go,
    delegation_parent_fence.go), \<open>Work_Requests\<close> (agent_work_requests.go): requests repeat safely, results are
    recorded once and bounded, a parent is resumed and never resurrected, triggers of comments are admitted,
    coalesced or deferred, and pending requests make progress.
  \<^item> \<open>Questions\<close> (questions.go, interactive_questions.go, interactive_question_recovery.go): a Question is answered
    once; an answer spares the live claim of its Run.
  \<^item> \<open>Assignment\<close> (assignment.go, issue_enqueue.go), \<open>Issue_Execution\<close> (issue_execution.go): which Issue starts
    which Agent; the state a client sees predicts the start.
  \<^item> \<open>Board\<close> (board_order.go, issue_status.go, issue_patch.go, issue_mutation_tx.go): moves of Issues refine an
    abstract board of ordered columns; a recovery is fenced by the Run it is for.
  \<^item> \<open>Reviews\<close> (reviews.go), \<open>Review_Service\<close> (app/reviews.go): the store follows the protocol of a two-phase
    approval; the service is verified over the locale \<open>review_store\<close>, which the model of the store interprets.
  \<^item> \<open>Issue_Keys\<close> (issuekey.go): keys print and parse.
  \<^item> \<open>Identity\<close> (auth.go, auth_management.go), \<open>Project_Access\<close> (project_access.go, project_members.go,
    project_workflow_users.go, effective_role_sql.go, groups.go): users, sessions, password tokens, grants, groups.
    \<open>Identity_Steps\<close> has every operation as a step \<open>identity_step\<close> and the locale \<open>identity_frame\<close> of relations these
    steps keep; \<open>Administrators\<close> and \<open>Identity_Properties\<close> interpret it: credentials that were replaced or used
    never work again, projects and the deployment keep an administrator, a disabled user is shut out, and the effective
    role is the highest grant.
  \<^item> \<open>Comment_Routing\<close> (issue_comment_routing.go, parts of issue_comments.go, issue_comment_implicit.go and
    issue_discussions.go), \<open>Issue_Comments\<close> (issue_comments.go, issue_comment_implicit.go), \<open>Notifications\<close>
    (notifications.go): whom a comment addresses, comments with their mentions and triggers, edits, deletion,
    reactions, notifications and subscriptions. \<open>Comment_Steps\<close> has them as steps \<open>comment_step\<close> and the locales
    \<open>work_frame\<close>, \<open>comment_frame\<close> and \<open>comment_tables\<close>. \<open>Comment_Properties\<close>, \<open>Comment_Threads\<close> and
    \<open>Comment_Repetition\<close>: reactions are counted exactly, a thread wakes an Agent only when it is unambiguous,
    notifications reach those they should and no others, threads stay whole, and a request with an action key is
    carried out once.
  \<^item> \<open>Store_Steps\<close>: every public operation as a step \<open>store_step\<close> of the database, those on accounts and comments included; \<open>Coordinator\<close>
    (scheduler/coordinator.go): the loop, its workers and the registry as a transition system over these steps, and
    the termination of the loop between two waits. This theory closes the development with the invariants of
    whole executions.

  \<^bold>\<open>Bounds and termination.\<close> Definitions are total and use no fuel. The loop of the coordinator is a partial
  function whose result \<open>None\<close> would mean that it never waits; that it always has a result is proved, because each
  round uses up an expired lease or a pending request. Registration tokens of the coordinator are 64 bit words; they
  are distinct from the reserved 0 while fewer than \<open>2\<^sup>6\<^sup>4\<close> workers were launched. Positions, attempts and sequence
  numbers are integers as PostgreSQL checks them against their columns. The walks over a thread are bounded by 64
  levels as in the source; what lies deeper is reported, and no Agent is reached then.

  \<^bold>\<open>Assumptions.\<close> Transactions run one at a time: the source takes row or advisory locks for what it reads and
  writes, and serialization is PostgreSQL's. A statement that follows a constraint violation in the same transaction
  fails, as in PostgreSQL: \<open>violation_aborts\<close> and \<open>conflict_aborts\<close> say so where the source goes on after an error.
  Engines, password hashes, the lower case of the database, the shortening of texts for the inbox, the integration of revisions, the registry of Engines and
  the set of connected Runners are parameters.

  \<^bold>\<open>Not modelled.\<close> The paged read models of discussions, execution sessions beyond what admission and recovery
  read, the processor of Runs, the Engines, HTTP and MCP endpoints, tokens and password hashing of the
  authentication service, Runner transport, repositories and containers: input and output around the modelled operations,
  or services that validate and forward. Read models that join names are left out where no modelled decision depends on
  them.
\<close>

text \<open>The steps the witnesses take: the queued job of the sample is admitted.\<close>

lemma sample_step: "store_steps sample_queued
    (snd (AdmitNextJob (Some (\<lambda>_. [''n1''])) (\<lambda>_. False) ''srv'' 1000000 1000000 50 sample_queued))"
  by (rule r_into_rtranclp, rule store_step.admit, rule prod.collapse [symmetric])

section \<open>Ownership of execution\<close>



text \<open>
  C2. No Workspace has two writers: in every reachable database, two claimed jobs whose Runs
  are in the same Workspace of a project are the same job.
\<close>

theorem single_writer:
  assumes "sched_wf d" "store_steps d d'"
    and "j1 \<in> set (claimed d')" "job_on j1 r1" "r1 \<in> set (db_runs d')"
    and "j2 \<in> set (claimed d')" "job_on j2 r2" "r2 \<in> set (db_runs d')"
    and "run_project_id r1 = run_project_id r2" "run_workspace_id r1 = run_workspace_id r2"
  shows "j1 = j2"
  using store_steps_wf [OF assms(2,1)] assms(3-) unfolding sched_wf_def workspace_exclusive_def by blast

theorem single_writer_witness:
  "\<exists>adm d'. AdmitNextJob (Some (\<lambda>_. [''n1''])) (\<lambda>_. False) ''srv'' 1000000 1000000 50 sample_queued
       = (Inr (Some adm), d') \<and> (\<forall>j\<in>set (claimed d'). job_on j (adm_run adm) \<longrightarrow> j = adm_job adm)"
proof (rule sample_admission)
  fix adm d'
  assume run: "AdmitNextJob (Some (\<lambda>_. [''n1''])) (\<lambda>_. False) ''srv'' 1000000 1000000 50 sample_queued = (Inr (Some adm), d')"
  have steps: "store_steps sample_queued d'" using sample_step run by simp
  have r: "adm_job adm \<in> set (claimed d')" "job_on (adm_job adm) (adm_run adm)" "adm_run adm \<in> set (db_runs d')"
    by (rule AdmitNextJob_Some [OF run]; simp add: same_claim_def job_on_def)+
  have "\<forall>j\<in>set (claimed d'). job_on j (adm_run adm) \<longrightarrow> j = adm_job adm"
    using single_writer [OF sample_wf(1) steps _ _ r(3) r refl refl] by blast
  then show ?thesis using run by blast
qed

section \<open>History\<close>

text \<open>
  C3. History is append-only: whatever sequence of calls is made, the Events of the earlier
  database are a prefix of the Events of the later one, the Events of every Run are numbered
  1, 2, 3, ... without gaps, and a Run that has ended keeps the status it ended with.
\<close>

theorem history_invariant:
  assumes "event_log_wf d" "store_steps d d'"
  shows "event_log_wf d' \<and> (\<exists>es. db_events d' = db_events d @ es) \<and> terminal_kept d d'"
  using store_steps_history [OF assms(2)] assms(1) by (simp add: history_def)

theorem history_invariant_witness:
  "event_log_wf (snd (AdmitNextJob (Some (\<lambda>_. [''n1''])) (\<lambda>_. False) ''srv'' 1000000 1000000 50 sample_queued))"
  using history_invariant [OF sample_log(1) sample_step] by blast

end
